(* ===== verification/Prelude.thy ===== *)
theory Prelude
  imports Main "HOL-Library.State_Monad"
begin

text \<open>
  The vocabulary every component shares: the world an asynchronous handler of the server runs in,
  the queries and transactions it performs there, a weakest-precondition reading of such programs,
  and the operations of a database table.

  \<^item> A program that performs effects is a value of the library's state monad over
    \<open>'t world\<close>, where \<open>'t\<close> is the record of the tables the component uses.
  \<^item> The environment's choices are the oracles of the world. \<open>w_clock n\<close> is what the
    \<open>n\<close>-th call of \<open>Utc::now()\<close> returns (in nanoseconds since the epoch, in any order: the wall
    clock may be set back). \<open>w_entropy n k\<close> is the \<open>n\<close>-th token drawn, of \<open>k\<close> random bytes.
    \<open>w_faults n\<close> says whether the \<open>n\<close>-th statement sent to SQLite fails.
  \<^item> An \<open>anyhow::Result\<close> is a sum with the error on the left; the code never looks into an error
    beyond its message, so a database failure and a violated constraint carry none.
\<close>

named_theorems wp_rules \<open>weakest preconditions of effectful programs\<close>

datatype error = DbFault | Constraint | Msg string

record 't world =
  w_clock :: "nat \<Rightarrow> int"
  w_reads :: nat
  w_entropy :: "nat \<Rightarrow> nat \<Rightarrow> string"
  w_draws :: nat
  w_faults :: "nat \<Rightarrow> bool"
  w_queries :: nat
  w_tables :: 't

type_synonym ('t, 'a) io = "('t world, 'a) state"
type_synonym ('t, 'a) fallible = "('t world, error + 'a) state"

section \<open>Effects\<close>

text \<open>\<open>Utc::now()\<close>, and a table timestamp of it: RFC 3339 with whole seconds
  (src/server-rs/src/database/timestamp.rs), so the fraction of a second is dropped on the way
  into the database and comparisons in SQL are between whole seconds.\<close>

definition utc_now :: "('t, int) io" where
  "utc_now = State (\<lambda>w. (w_clock w (w_reads w), w\<lparr>w_reads := Suc (w_reads w)\<rparr>))"

definition nanos :: int where
  "nanos = 1000000000"

definition to_timestamp :: "int \<Rightarrow> int" where
  "to_timestamp t = t div nanos"

definition of_timestamp :: "int \<Rightarrow> int" where
  "of_timestamp s = s * nanos"

definition random_token :: "nat \<Rightarrow> ('t, string) io" where
  "random_token bytes =
     State (\<lambda>w. (w_entropy w (w_draws w) bytes, w\<lparr>w_draws := Suc (w_draws w)\<rparr>))"

text \<open>One SQL statement. A failing statement leaves the tables as they were.\<close>

definition statement :: "('t \<Rightarrow> error + 'a \<times> 't) \<Rightarrow> ('t, 'a) fallible" where
  "statement f = State (\<lambda>w.
     let w' = w\<lparr>w_queries := Suc (w_queries w)\<rparr>
     in if w_faults w (w_queries w) then (Inl DbFault, w')
        else case f (w_tables w) of
          Inl e \<Rightarrow> (Inl e, w')
        | Inr (a, t) \<Rightarrow> (Inr a, w'\<lparr>w_tables := t\<rparr>))"

definition read_tables :: "('t, 't) io" where
  "read_tables = State (\<lambda>w. (w_tables w, w))"

definition restore_tables :: "'t \<Rightarrow> ('t, unit) io" where
  "restore_tables t = State (\<lambda>w. ((), w\<lparr>w_tables := t\<rparr>))"

text \<open>The \<open>?\<close> operator.\<close>

definition try_bind :: "('t, 'a) fallible \<Rightarrow> ('a \<Rightarrow> ('t, 'b) fallible) \<Rightarrow> ('t, 'b) fallible" where
  "try_bind m f = do {
     r \<leftarrow> m;
     case r of Inl e \<Rightarrow> State_Monad.return (Inl e) | Inr a \<Rightarrow> f a
   }"

definition ok :: "'a \<Rightarrow> ('t, 'a) fallible" where
  "ok a = State_Monad.return (Inr a)"

definition err :: "error \<Rightarrow> ('t, 'a) fallible" where
  "err e = State_Monad.return (Inl e)"

text \<open>\<open>anyhow::ensure!\<close>\<close>

definition ensure :: "bool \<Rightarrow> string \<Rightarrow> ('t, unit) fallible" where
  "ensure b message = (if b then ok () else err (Msg message))"

text \<open>An infallible effect inside a chain of fallible ones.\<close>

definition lift :: "('t, 'a) io \<Rightarrow> ('t, 'a) fallible" where
  "lift m = do { a \<leftarrow> m; State_Monad.return (Inr a) }"

text \<open>\<open>database::with_tx\<close>: begin, run, then commit a success and roll back a failure. Each of
  begin, commit and rollback is a statement of its own and may fail; a transaction that was not
  committed leaves no trace in the tables.\<close>

definition with_tx :: "('t, 'a) fallible \<Rightarrow> ('t, 'a) fallible" where
  "with_tx operation = do {
     begun \<leftarrow> statement (\<lambda>t. Inr ((), t));
     case begun of
       Inl _ \<Rightarrow> err (Msg ''begin transaction'')
     | Inr _ \<Rightarrow> do {
         start \<leftarrow> read_tables;
         result \<leftarrow> operation;
         (case result of
            Inr value \<Rightarrow> do {
              committed \<leftarrow> statement (\<lambda>t. Inr ((), t));
              (case committed of
                 Inl _ \<Rightarrow> do { restore_tables start; err (Msg ''commit transaction'') }
               | Inr _ \<Rightarrow> ok value)
            }
          | Inl e \<Rightarrow> do {
              undone \<leftarrow> statement (\<lambda>t. Inr ((), t));
              restore_tables start;
              (case undone of
                 Inl _ \<Rightarrow> err (Msg ''roll back transaction'')
               | Inr _ \<Rightarrow> err e)
            })
       }
   }"

section \<open>Weakest preconditions\<close>

text \<open>\<open>wp m Q w\<close>: running \<open>m\<close> from \<open>w\<close> ends with a result and a world that satisfy \<open>Q\<close>. The
  programs are total, so partial and total correctness coincide.\<close>

definition wp :: "('s, 'a) state \<Rightarrow> ('a \<Rightarrow> 's \<Rightarrow> bool) \<Rightarrow> 's \<Rightarrow> bool" where
  "wp m Q w \<longleftrightarrow> (case run_state m w of (r, w') \<Rightarrow> Q r w')"

lemma wp_run: "run_state m w = (r, w') \<Longrightarrow> wp m Q w \<Longrightarrow> Q r w'"
  by (simp add: wp_def)

lemma wpI: "(\<And>r w'. run_state m w = (r, w') \<Longrightarrow> Q r w') \<Longrightarrow> wp m Q w"
  by (simp add: wp_def split: prod.splits)

lemma wp_mono: "wp m P w \<Longrightarrow> (\<And>r w'. P r w' \<Longrightarrow> Q r w') \<Longrightarrow> wp m Q w"
  by (auto simp: wp_def split: prod.splits)

lemma wp_conj: "wp m P w \<Longrightarrow> wp m Q w \<Longrightarrow> wp m (\<lambda>r w'. P r w' \<and> Q r w') w"
  by (auto simp: wp_def split: prod.splits)

lemma wp_return [wp_rules]: "wp (State_Monad.return x) Q = Q x"
  by (simp add: wp_def fun_eq_iff)

lemma wp_bind [wp_rules]: "wp (do { x \<leftarrow> m; f x }) Q w \<longleftrightarrow> wp m (\<lambda>x. wp (f x) Q) w"
  by (auto simp: wp_def split: prod.splits)

lemma wp_if [wp_rules]: "wp (if b then m else n) Q w \<longleftrightarrow> (if b then wp m Q w else wp n Q w)"
  by simp

lemma wp_case_option [wp_rules]:
  "wp (case x of None \<Rightarrow> m | Some a \<Rightarrow> f a) Q w \<longleftrightarrow>
     (case x of None \<Rightarrow> wp m Q w | Some a \<Rightarrow> wp (f a) Q w)"
  by (cases x) simp_all

lemma wp_case_sum [wp_rules]:
  "wp (case x of Inl e \<Rightarrow> f e | Inr a \<Rightarrow> g a) Q w \<longleftrightarrow>
     (case x of Inl e \<Rightarrow> wp (f e) Q w | Inr a \<Rightarrow> wp (g a) Q w)"
  by (cases x) simp_all

lemma wp_let [wp_rules]: "wp (Let x f) Q w \<longleftrightarrow> (let y = x in wp (f y) Q w)"
  by (simp add: Let_def)

lemma wp_case_prod [wp_rules]:
  "wp (case p of (a, b) \<Rightarrow> f a b) Q w \<longleftrightarrow> (case p of (a, b) \<Rightarrow> wp (f a b) Q w)"
  by (cases p) simp

lemma wp_utc_now [wp_rules]:
  "wp utc_now Q w \<longleftrightarrow> Q (w_clock w (w_reads w)) (w\<lparr>w_reads := Suc (w_reads w)\<rparr>)"
  by (simp add: wp_def utc_now_def)

lemma wp_random_token [wp_rules]:
  "wp (random_token n) Q w \<longleftrightarrow> Q (w_entropy w (w_draws w) n) (w\<lparr>w_draws := Suc (w_draws w)\<rparr>)"
  by (simp add: wp_def random_token_def)

lemma wp_read_tables [wp_rules]: "wp read_tables Q w \<longleftrightarrow> Q (w_tables w) w"
  by (simp add: wp_def read_tables_def)

lemma wp_restore_tables [wp_rules]: "wp (restore_tables t) Q w \<longleftrightarrow> Q () (w\<lparr>w_tables := t\<rparr>)"
  by (simp add: wp_def restore_tables_def)

lemma wp_ok [wp_rules]: "wp (ok a) Q = Q (Inr a)"
  by (simp add: ok_def wp_return)

lemma wp_err [wp_rules]: "wp (err e) Q = Q (Inl e)"
  by (simp add: err_def wp_return)

lemma wp_ensure [wp_rules]:
  "wp (ensure b m) Q w \<longleftrightarrow> (if b then Q (Inr ()) w else Q (Inl (Msg m)) w)"
  by (simp add: ensure_def wp_ok wp_err)

lemma wp_lift [wp_rules]: "wp (lift m) Q w \<longleftrightarrow> wp m (\<lambda>a. Q (Inr a)) w"
  by (simp add: lift_def wp_bind wp_return)

lemma wp_try_bind [wp_rules]:
  "wp (try_bind m f) Q w \<longleftrightarrow>
     wp m (\<lambda>r w'. case r of Inl e \<Rightarrow> Q (Inl e) w' | Inr a \<Rightarrow> wp (f a) Q w') w"
  by (auto simp: try_bind_def wp_def split: prod.splits sum.splits)

lemma wp_try_bindI:
  "wp m (\<lambda>r w'. case r of Inl e \<Rightarrow> Q (Inl e) w' | Inr a \<Rightarrow> wp (f a) Q w') w \<Longrightarrow> wp (try_bind m f) Q w"
  by (simp add: wp_try_bind)

definition spend_statement :: "'t world \<Rightarrow> 't world" where
  "spend_statement w = w\<lparr>w_queries := Suc (w_queries w)\<rparr>"

lemma wp_statement [wp_rules]:
  "wp (statement f) Q w \<longleftrightarrow>
     (if w_faults w (w_queries w) then Q (Inl DbFault) (spend_statement w)
      else case f (w_tables w) of
        Inl e \<Rightarrow> Q (Inl e) (spend_statement w)
      | Inr (a, t) \<Rightarrow> Q (Inr a) ((spend_statement w)\<lparr>w_tables := t\<rparr>))"
  by (auto simp: wp_def statement_def spend_statement_def Let_def split: sum.splits prod.splits)

lemma spend_statement_simps [simp]:
  "w_tables (spend_statement w) = w_tables w"
  "w_clock (spend_statement w) = w_clock w"
  "w_reads (spend_statement w) = w_reads w"
  "w_entropy (spend_statement w) = w_entropy w"
  "w_draws (spend_statement w) = w_draws w"
  "w_faults (spend_statement w) = w_faults w"
  "w_queries (spend_statement w) = Suc (w_queries w)"
  by (simp_all add: spend_statement_def)

lemma run_statement:
  "run_state (statement f) w =
     (if w_faults w (w_queries w) then (Inl DbFault, spend_statement w)
      else case f (w_tables w) of
        Inl e \<Rightarrow> (Inl e, spend_statement w)
      | Inr (a, t) \<Rightarrow> (Inr a, (spend_statement w)\<lparr>w_tables := t\<rparr>))"
  by (simp add: statement_def spend_statement_def Let_def split: sum.splits prod.splits)

lemma spend_statement_same [simp]: "(spend_statement w)\<lparr>w_tables := w_tables w\<rparr> = spend_statement w"
  by (simp add: spend_statement_def)

text \<open>A transaction: each way it can end.\<close>

lemma wp_with_tx:
  "wp (with_tx m) Q w \<longleftrightarrow>
     (if w_faults w (w_queries w) then Q (Inl (Msg ''begin transaction'')) (spend_statement w)
      else wp m (\<lambda>r w'.
        let failed = w_faults w' (w_queries w');
            undone = (spend_statement w')\<lparr>w_tables := w_tables w\<rparr>
        in case r of
          Inr v \<Rightarrow>
            if failed then Q (Inl (Msg ''commit transaction'')) undone
            else Q (Inr v) (spend_statement w')
        | Inl e \<Rightarrow>
            Q (Inl (if failed then Msg ''roll back transaction'' else e)) undone) (spend_statement w))"
proof -
  obtain r w' where m: "run_state m (spend_statement w) = (r, w')"
    by (cases "run_state m (spend_statement w)")
  show ?thesis
    by (cases r) (simp_all add: wp_def with_tx_def run_statement read_tables_def
        restore_tables_def ok_def err_def m Let_def)
qed

section \<open>What a program guarantees\<close>

text \<open>\<open>guarantees R m\<close>: whatever the environment does, \<open>m\<close> takes a world to one that \<open>R\<close>
  relates it to. A relation that is a preorder, allows the clock, the entropy and the statement
  counter to move, and survives a rollback, is guaranteed by a program as soon as each of its
  statements guarantees it: that is the contract of the locale.\<close>

definition guarantees :: "('t world \<Rightarrow> 't world \<Rightarrow> bool) \<Rightarrow> ('t, 'a) io \<Rightarrow> bool" where
  "guarantees R m \<longleftrightarrow> (\<forall>w. wp m (\<lambda>_ w'. R w w') w)"

named_theorems guarantee_rules \<open>programs that guarantee a relation between worlds\<close>

lemma guaranteesD: "guarantees R m \<Longrightarrow> run_state m w = (r, w') \<Longrightarrow> R w w'"
  unfolding guarantees_def by (blast dest: wp_run)

locale effect_order =
  fixes R :: "'t world \<Rightarrow> 't world \<Rightarrow> bool"
  assumes R_refl: "R w w"
    and R_trans: "R u v \<Longrightarrow> R v w \<Longrightarrow> R u w"
    and R_read: "R w (w\<lparr>w_reads := Suc (w_reads w)\<rparr>)"
    and R_draw: "R w (w\<lparr>w_draws := Suc (w_draws w)\<rparr>)"
    and R_spend: "R w (spend_statement w)"
    and R_undo: "R w w' \<Longrightarrow> R w (w'\<lparr>w_tables := w_tables w\<rparr>)"
begin

lemma guarantees_return [guarantee_rules]: "guarantees R (State_Monad.return x)"
  by (simp add: guarantees_def wp_rules R_refl)

lemma guarantees_ok [guarantee_rules]: "guarantees R (ok x)"
  by (simp add: guarantees_def wp_rules R_refl)

lemma guarantees_err [guarantee_rules]: "guarantees R (err e)"
  by (simp add: guarantees_def wp_rules R_refl)

lemma guarantees_ensure [guarantee_rules]: "guarantees R (ensure b m)"
  by (simp add: guarantees_def wp_rules R_refl)

lemma guarantees_utc_now [guarantee_rules]: "guarantees R utc_now"
  by (simp add: guarantees_def wp_rules R_read)

lemma guarantees_random_token [guarantee_rules]: "guarantees R (random_token n)"
  by (simp add: guarantees_def wp_rules R_draw)

lemma guarantees_bind [guarantee_rules]:
  assumes "guarantees R m" and "\<And>x. guarantees R (f x)"
  shows "guarantees R (do { x \<leftarrow> m; f x })"
  unfolding guarantees_def wp_bind
proof
  fix w
  show "wp m (\<lambda>x. wp (f x) (\<lambda>_. R w)) w"
    by (rule wpI, rule wpI) (use assms in \<open>blast dest: guaranteesD intro: R_trans\<close>)
qed

lemma guarantees_lift [guarantee_rules]: "guarantees R m \<Longrightarrow> guarantees R (lift m)"
  unfolding lift_def by (intro guarantees_bind guarantees_return)

lemma guarantees_if [guarantee_rules]:
  "(b \<Longrightarrow> guarantees R m) \<Longrightarrow> (\<not> b \<Longrightarrow> guarantees R n) \<Longrightarrow>
   guarantees R (if b then m else n)"
  by simp

lemma guarantees_case_bool [guarantee_rules]:
  "(b \<Longrightarrow> guarantees R m) \<Longrightarrow> (\<not> b \<Longrightarrow> guarantees R n) \<Longrightarrow>
   guarantees R (case b of True \<Rightarrow> m | False \<Rightarrow> n)"
  by (cases b) simp_all

lemma guarantees_case_option [guarantee_rules]:
  "(x = None \<Longrightarrow> guarantees R m) \<Longrightarrow> (\<And>a. x = Some a \<Longrightarrow> guarantees R (f a)) \<Longrightarrow>
   guarantees R (case x of None \<Rightarrow> m | Some a \<Rightarrow> f a)"
  by (cases x) simp_all

lemma guarantees_case_list [guarantee_rules]:
  "(xs = [] \<Longrightarrow> guarantees R m) \<Longrightarrow> (\<And>y ys. xs = y # ys \<Longrightarrow> guarantees R (f y ys)) \<Longrightarrow>
   guarantees R (case xs of [] \<Rightarrow> m | y # ys \<Rightarrow> f y ys)"
  by (cases xs) simp_all

lemma guarantees_case_sum [guarantee_rules]:
  "(\<And>e. x = Inl e \<Longrightarrow> guarantees R (f e)) \<Longrightarrow> (\<And>a. x = Inr a \<Longrightarrow> guarantees R (g a)) \<Longrightarrow>
   guarantees R (case x of Inl e \<Rightarrow> f e | Inr a \<Rightarrow> g a)"
  by (cases x) simp_all

lemma guarantees_case_prod [guarantee_rules]:
  "(\<And>a b. p = (a, b) \<Longrightarrow> guarantees R (f a b)) \<Longrightarrow>
   guarantees R (case p of (a, b) \<Rightarrow> f a b)"
  by (cases p) simp

lemma guarantees_let [guarantee_rules]: "guarantees R (f x) \<Longrightarrow> guarantees R (Let x f)"
  by simp

lemma guarantees_try_bind [guarantee_rules]:
  "guarantees R m \<Longrightarrow> (\<And>x. guarantees R (f x)) \<Longrightarrow> guarantees R (try_bind m f)"
  unfolding try_bind_def
  by (intro guarantees_bind guarantees_case_sum guarantees_return) assumption+

lemma guarantees_statement:
  assumes "\<And>w a t. f (w_tables w) = Inr (a, t) \<Longrightarrow> R w (w\<lparr>w_tables := t\<rparr>)"
  shows "guarantees R (statement f)"
proof -
  have "R w ((spend_statement w)\<lparr>w_tables := t\<rparr>)" if "f (w_tables w) = Inr (a, t)" for w a t
    using R_trans [OF R_spend [of w] assms [of "spend_statement w" a t]] that by simp
  then show ?thesis
    by (auto simp: guarantees_def wp_statement R_spend split: sum.splits)
qed

lemma guarantees_with_tx [guarantee_rules]:
  assumes "guarantees R m"
  shows "guarantees R (with_tx m)"
  unfolding guarantees_def
proof
  fix w
  have "wp m (\<lambda>_ w'. R w w') (spend_statement w)"
    by (rule wpI) (use guaranteesD [OF assms] R_trans [OF R_spend] in blast)
  then have "wp m (\<lambda>_ w'. R w (spend_statement w')) (spend_statement w)"
    by (rule wp_mono) (rule R_trans [OF _ R_spend])
  then show "wp (with_tx m) (\<lambda>_ w'. R w w') w"
    by (auto simp: wp_with_tx Let_def R_spend elim!: wp_mono intro: R_undo split: sum.splits)
qed

end

text \<open>Every program leaves the oracles alone and only moves the counters forward.\<close>

definition later :: "'t world \<Rightarrow> 't world \<Rightarrow> bool" where
  "later w w' \<longleftrightarrow>
     w_clock w' = w_clock w \<and> w_entropy w' = w_entropy w \<and> w_faults w' = w_faults w
     \<and> w_reads w \<le> w_reads w' \<and> w_draws w \<le> w_draws w' \<and> w_queries w \<le> w_queries w'"

interpretation later: effect_order later
  by unfold_locales (auto simp: later_def)

lemma later_refl [simp]: "later w w"
  by (rule later.R_refl)

lemma wp_later: "guarantees later m \<Longrightarrow> wp m (\<lambda>r w'. later w w' \<longrightarrow> Q r w') w \<Longrightarrow> wp m Q w"
  by (rule wpI) (blast dest: guaranteesD wp_run)

text \<open>A token drawn, a clock reading made, between two worlds of a run.\<close>

definition drawn :: "'t world \<Rightarrow> 't world \<Rightarrow> nat \<Rightarrow> string \<Rightarrow> bool" where
  "drawn w w' bytes token \<longleftrightarrow>
     (\<exists>n. w_draws w \<le> n \<and> n < w_draws w' \<and> token = w_entropy w n bytes)"

definition clock_read :: "'t world \<Rightarrow> 't world \<Rightarrow> int \<Rightarrow> bool" where
  "clock_read w w' now \<longleftrightarrow> (\<exists>n. w_reads w \<le> n \<and> n < w_reads w' \<and> now = w_clock w n)"

lemma drawn_entropy: "w_draws w \<le> n \<Longrightarrow> n < w_draws w' \<Longrightarrow> drawn w w' k (w_entropy w n k)"
  by (auto simp: drawn_def)

lemma clock_read_clock: "w_reads w \<le> n \<Longrightarrow> n < w_reads w' \<Longrightarrow> clock_read w w' (w_clock w n)"
  by (auto simp: clock_read_def)

lemma drawn_digest:
  "w_draws w \<le> n \<Longrightarrow> n < w_draws w' \<Longrightarrow> \<exists>x. drawn w w' k x \<and> f (w_entropy w n k) = f x"
  by (auto simp: drawn_def)

lemma drawn_mono: "drawn u v k x \<Longrightarrow> later w u \<Longrightarrow> later v w' \<Longrightarrow> drawn w w' k x"
  by (clarsimp simp: drawn_def later_def) (metis order.trans order_less_le_trans)

lemma clock_read_mono: "clock_read u v x \<Longrightarrow> later w u \<Longrightarrow> later v w' \<Longrightarrow> clock_read w w' x"
  by (clarsimp simp: clock_read_def later_def) (metis order.trans order_less_le_trans)

lemma later_statement [guarantee_rules]: "guarantees later (statement f)"
  by (rule later.guarantees_statement) (simp add: later_def)

text \<open>A program that keeps an invariant of the tables.\<close>

definition kept :: "('t \<Rightarrow> bool) \<Rightarrow> 't world \<Rightarrow> 't world \<Rightarrow> bool" where
  "kept I w w' \<longleftrightarrow> (I (w_tables w) \<longrightarrow> I (w_tables w'))"

abbreviation keeps :: "('t \<Rightarrow> bool) \<Rightarrow> ('t, 'a) io \<Rightarrow> bool" where
  "keeps I \<equiv> guarantees (kept I)"

interpretation kept: effect_order "kept I" for I
  by unfold_locales (auto simp: kept_def)

lemma keepsD: "keeps I m \<Longrightarrow> run_state m w = (r, w') \<Longrightarrow> I (w_tables w) \<Longrightarrow> I (w_tables w')"
  by (drule (1) guaranteesD) (simp add: kept_def)

lemma keeps_statement:
  "(\<And>t a t'. I t \<Longrightarrow> f t = Inr (a, t') \<Longrightarrow> I t') \<Longrightarrow> keeps I (statement f)"
  by (rule kept.guarantees_statement) (simp add: kept_def)

text \<open>A program that only reads.\<close>

definition untouched :: "'t world \<Rightarrow> 't world \<Rightarrow> bool" where
  "untouched w w' \<longleftrightarrow> w_tables w' = w_tables w"

interpretation untouched: effect_order untouched
  by unfold_locales (auto simp: untouched_def)

lemma untouched_statement:
  "(\<And>t a t'. f t = Inr (a, t') \<Longrightarrow> t' = t) \<Longrightarrow> guarantees untouched (statement f)"
  by (rule untouched.guarantees_statement) (auto simp: untouched_def)

text \<open>A transaction that reports an error has changed nothing.\<close>

lemma wp_with_tx_error: "wp (with_tx m) (\<lambda>r w'. isl r \<longrightarrow> w_tables w' = w_tables w) w"
  by (auto simp: wp_with_tx Let_def intro!: wpI split: sum.splits)

text \<open>A rule for proofs about a transaction: its body must establish the postcondition for a
  success, and the postcondition must allow any error that leaves the tables alone.\<close>

lemma wp_with_txI:
  assumes "\<And>e w'. w_tables w' = w_tables w \<Longrightarrow> Q (Inl e) w'"
    and "wp m (\<lambda>r w'. \<forall>v. r = Inr v \<longrightarrow> Q (Inr v) (spend_statement w')) (spend_statement w)"
  shows "wp (with_tx m) Q w"
  using assms(1)
  by (auto simp: wp_with_tx Let_def intro!: wp_mono [OF assms(2)] split: sum.splits)

section \<open>Statements that read, update or delete one table\<close>

definition select :: "('t \<Rightarrow> 'a) \<Rightarrow> ('t, 'a) fallible" where
  "select f = statement (\<lambda>t. Inr (f t, t))"

definition exec :: "('t \<Rightarrow> 't) \<Rightarrow> ('t, unit) fallible" where
  "exec f = statement (\<lambda>t. Inr ((), f t))"

definition exec_rows :: "('t \<Rightarrow> nat \<times> 't) \<Rightarrow> ('t, nat) fallible" where
  "exec_rows f = statement (\<lambda>t. Inr (f t))"

lemma wp_select [wp_rules]:
  "wp (select f) Q w \<longleftrightarrow>
     (if w_faults w (w_queries w) then Q (Inl DbFault) (spend_statement w)
      else Q (Inr (f (w_tables w))) (spend_statement w))"
  by (simp add: select_def wp_statement)

lemma wp_exec [wp_rules]:
  "wp (exec f) Q w \<longleftrightarrow>
     (if w_faults w (w_queries w) then Q (Inl DbFault) (spend_statement w)
      else Q (Inr ()) ((spend_statement w)\<lparr>w_tables := f (w_tables w)\<rparr>))"
  by (simp add: exec_def wp_statement)

lemma wp_exec_rows [wp_rules]:
  "wp (exec_rows f) Q w \<longleftrightarrow>
     (if w_faults w (w_queries w) then Q (Inl DbFault) (spend_statement w)
      else Q (Inr (fst (f (w_tables w)))) ((spend_statement w)\<lparr>w_tables := snd (f (w_tables w))\<rparr>))"
  by (simp add: exec_rows_def wp_statement split: prod.splits)

lemma keeps_select [guarantee_rules]: "keeps I (select f)"
  unfolding select_def by (rule keeps_statement) simp

lemma keeps_exec: "(\<And>t. I t \<Longrightarrow> I (f t)) \<Longrightarrow> keeps I (exec f)"
  unfolding exec_def by (rule keeps_statement) auto

lemma keeps_exec_rows: "(\<And>t. I t \<Longrightarrow> I (snd (f t))) \<Longrightarrow> keeps I (exec_rows f)"
  unfolding exec_rows_def by (rule keeps_statement) (metis snd_conv sum.inject(2))

lemma untouched_select [guarantee_rules]: "guarantees untouched (select f)"
  unfolding select_def by (rule untouched_statement) simp

lemma later_access [guarantee_rules]:
  "guarantees later (select f)" "guarantees later (exec g)" "guarantees later (exec_rows h)"
  by (simp_all add: select_def exec_def exec_rows_def later_statement)

text \<open>A missing value as an error.\<close>

definition ok_or :: "string \<Rightarrow> 'a option \<Rightarrow> ('t, 'a) fallible" where
  "ok_or message x = (case x of None \<Rightarrow> err (Msg message) | Some a \<Rightarrow> ok a)"

lemma wp_ok_or [wp_rules]:
  "wp (ok_or m x) Q w \<longleftrightarrow> (case x of None \<Rightarrow> Q (Inl (Msg m)) w | Some a \<Rightarrow> Q (Inr a) w)"
  by (simp add: ok_or_def wp_ok wp_err split: option.splits)

text \<open>\<open>affected\<close>: an update must have matched one row.\<close>

definition affected :: "nat \<Rightarrow> string \<Rightarrow> ('t, unit) fallible" where
  "affected rows operation = ensure (rows = 1) (operation @ '': not found'')"

lemma wp_affected [wp_rules]:
  "wp (affected n m) Q w \<longleftrightarrow>
     (if n = 1 then Q (Inr ()) w else Q (Inl (Msg (m @ '': not found''))) w)"
  by (simp add: affected_def wp_ensure)

text \<open>\<open>Context::context\<close>: an error is reported under another message.\<close>

definition with_context :: "string \<Rightarrow> ('t, 'a) fallible \<Rightarrow> ('t, 'a) fallible" where
  "with_context message m = do {
     r \<leftarrow> m;
     State_Monad.return (case r of Inl _ \<Rightarrow> Inl (Msg message) | Inr a \<Rightarrow> Inr a)
   }"

lemma wp_with_context [wp_rules]:
  "wp (with_context c m) Q w \<longleftrightarrow>
     wp m (\<lambda>r. Q (case r of Inl _ \<Rightarrow> Inl (Msg c) | Inr a \<Rightarrow> Inr a)) w"
  by (simp add: with_context_def wp_bind wp_return)

context effect_order
begin

lemma guarantees_with_context [guarantee_rules]: "guarantees R m \<Longrightarrow> guarantees R (with_context c m)"
  unfolding with_context_def by (intro guarantee_rules)

lemma guarantees_ok_or [guarantee_rules]: "guarantees R (ok_or m x)"
  by (simp add: guarantees_def wp_rules R_refl split: option.splits)

lemma guarantees_affected [guarantee_rules]: "guarantees R (affected n m)"
  by (simp add: guarantees_def wp_rules R_refl)

end

section \<open>Rows\<close>

text \<open>A table is the list of its rows, in insertion order. An insert fails on a key that is
  taken; an update or delete reports how many rows it matched.\<close>

definition insert_row :: "('r \<Rightarrow> 'k) \<Rightarrow> 'r \<Rightarrow> 'r list \<Rightarrow> error + 'r list" where
  "insert_row key r rows = (if key r \<in> set (map key rows) then Inl Constraint else Inr (rows @ [r]))"

definition update_rows :: "('r \<Rightarrow> bool) \<Rightarrow> ('r \<Rightarrow> 'r) \<Rightarrow> 'r list \<Rightarrow> 'r list" where
  "update_rows P f rows = map (\<lambda>r. if P r then f r else r) rows"

definition delete_rows :: "('r \<Rightarrow> bool) \<Rightarrow> 'r list \<Rightarrow> 'r list" where
  "delete_rows P rows = filter (\<lambda>r. \<not> P r) rows"

definition count_rows :: "('r \<Rightarrow> bool) \<Rightarrow> 'r list \<Rightarrow> nat" where
  "count_rows P rows = length (filter P rows)"

lemma set_update_rows: "set (update_rows P f rows) = (\<lambda>r. if P r then f r else r) ` set rows"
  by (simp add: update_rows_def)

lemma set_delete_rows [simp]: "set (delete_rows P rows) = {r \<in> set rows. \<not> P r}"
  by (simp add: delete_rows_def)

lemma insert_row_Inr: "insert_row key r rows = Inr rows' \<longleftrightarrow> key r \<notin> key ` set rows \<and> rows' = rows @ [r]"
  by (auto simp: insert_row_def)

lemma map_key_update_rows: "(\<And>r. key (f r) = key r) \<Longrightarrow> map key (update_rows P f rows) = map key rows"
  by (simp add: update_rows_def)

lemma image_update_rows: "(\<And>r. key (f r) = key r) \<Longrightarrow> key ` set (update_rows P f rows) = key ` set rows"
  using map_key_update_rows [of key f P rows] by (metis set_map)

lemma distinct_delete_rows: "distinct (map key rows) \<Longrightarrow> distinct (map key (delete_rows P rows))"
  by (simp add: delete_rows_def distinct_map_filter)

lemma distinct_insert_row:
  "insert_row key r rows = Inr rows' \<Longrightarrow> distinct (map key rows) \<Longrightarrow> distinct (map key rows')"
  by (auto simp: insert_row_Inr)

lemma find_Some: "find P rows = Some r \<Longrightarrow> r \<in> set rows \<and> P r"
  by (auto simp: find_Some_iff)

lemma find_unique:
  assumes "distinct (map key rows)" "r \<in> set rows" "P r" "\<And>r'. P r' \<Longrightarrow> key r' = key r"
  shows "find P rows = Some r"
proof (cases "find P rows")
  case None
  with assms show ?thesis by (simp add: find_None_iff)
next
  case (Some r')
  then have "r' \<in> set rows" "P r'" by (auto dest: find_Some)
  with assms have "r' = r" by (meson distinct_map inj_onD)
  with Some show ?thesis by simp
qed

lemma find_update_rows:
  "(\<And>r. Q (f r) = Q r) \<Longrightarrow>
   find Q (update_rows P f rows) = map_option (\<lambda>r. if P r then f r else r) (find Q rows)"
  by (induction rows) (auto simp: update_rows_def)

lemma count_rows_pos: "0 < count_rows P rows \<longleftrightarrow> (\<exists>r \<in> set rows. P r)"
  by (auto simp: count_rows_def filter_empty_conv)

lemma count_rows_key:
  "distinct (map key rows) \<Longrightarrow> (\<And>r. P r \<Longrightarrow> key r = k) \<Longrightarrow> count_rows P rows \<le> 1"
proof (induction rows)
  case Nil
  then show ?case by (simp add: count_rows_def)
next
  case (Cons r rows)
  show ?case
  proof (cases "P r")
    case True
    then have "filter P rows = []"
      using Cons.prems by (auto simp: filter_empty_conv rev_image_eqI)
    then show ?thesis by (simp add: count_rows_def True)
  next
    case False
    then show ?thesis using Cons by (simp add: count_rows_def)
  qed
qed

text \<open>The key SQLite gives a new row.\<close>

definition next_id :: "int list \<Rightarrow> int" where
  "next_id ids = (if ids = [] then 1 else Max (set ids) + 1)"

lemma next_id_fresh: "next_id ids \<notin> set ids"
  by (auto simp: next_id_def dest: Max_ge [OF finite_set])

lemma next_id_key [simp]: "x \<in> set rows \<Longrightarrow> next_id (map key rows) \<noteq> key x"
  using next_id_fresh [of "map key rows"] by auto

end
