(* ===== verification/Rust_Text.thy ===== *)
theory Rust_Text
  imports Prelude "HOL-Library.Char_ord"
begin

text \<open>
  The operations of Rust's \<open>str\<close> the server uses. A \<open>str\<close> is its UTF-8 bytes, so \<open>length\<close> is
  \<open>str::len\<close>. White space is Unicode's \<open>White_Space\<close> property: \<open>ws_table\<close> lists the encodings of
  its twenty-five code points, and since no continuation byte starts one of them, matching the
  table at a byte position finds exactly the white-space characters of a valid string.
\<close>

section \<open>White space\<close>

definition byte :: "nat \<Rightarrow> char" where
  "byte n = char_of n"

definition ws_table :: "string list" where
  "ws_table =
     map (\<lambda>b. [byte b]) [9, 10, 11, 12, 13, 32]
     @ map (map byte) [[194, 133], [194, 160], [225, 154, 128]]
     @ map (\<lambda>b. map byte [226, 128, b]) [128, 129, 130, 131, 132, 133, 134, 135, 136, 137, 138]
     @ map (map byte) [[226, 128, 168], [226, 128, 169], [226, 128, 175], [226, 129, 159],
         [227, 128, 128]]"

definition starts_with :: "string \<Rightarrow> string \<Rightarrow> bool" where
  "starts_with p s \<longleftrightarrow> take (length p) s = p"

definition match_len :: "string list \<Rightarrow> string \<Rightarrow> nat" where
  "match_len table s = (case find (\<lambda>p. starts_with p s) table of None \<Rightarrow> 0 | Some p \<Rightarrow> length p)"

text \<open>\<open>str::split_whitespace\<close>: \<open>cur\<close> is the word being read, reversed.\<close>

function split_ws :: "string \<Rightarrow> string \<Rightarrow> string list" where
  "split_ws cur [] = (if cur = [] then [] else [rev cur])"
| "split_ws cur (c # s) =
     (let n = match_len ws_table (c # s)
      in if n = 0 then split_ws (c # cur) s
         else (if cur = [] then [] else [rev cur]) @ split_ws [] (drop (n - 1) s))"
  by pat_completeness auto
termination
  by (relation "measure (\<lambda>(cur, s). length s)") auto

definition split_whitespace :: "string \<Rightarrow> string list" where
  "split_whitespace s = split_ws [] s"

text \<open>\<open>str::trim\<close>: what a table matches is dropped from the front, then from the back.\<close>

function strip :: "string list \<Rightarrow> string \<Rightarrow> string" where
  "strip table [] = []"
| "strip table (c # s) =
     (let n = match_len table (c # s) in if n = 0 then c # s else strip table (drop (n - 1) s))"
  by pat_completeness auto
termination
  by (relation "measure (\<lambda>(table, s). length s)") auto

definition trim :: "string \<Rightarrow> string" where
  "trim s = rev (strip (map rev ws_table) (rev (strip ws_table s)))"

fun join :: "string \<Rightarrow> string list \<Rightarrow> string" where
  "join sep [] = []"
| "join sep [w] = w"
| "join sep (w # ws) = w @ sep @ join sep ws"

text \<open>\<open>split_once\<close> and \<open>rsplit_once\<close> at a character.\<close>

fun split_once :: "char \<Rightarrow> string \<Rightarrow> (string \<times> string) option" where
  "split_once c [] = None"
| "split_once c (x # s) =
     (if x = c then Some ([], s) else map_option (\<lambda>(a, b). (x # a, b)) (split_once c s))"

definition rsplit_once :: "char \<Rightarrow> string \<Rightarrow> (string \<times> string) option" where
  "rsplit_once c s = map_option (\<lambda>(a, b). (rev b, rev a)) (split_once c (rev s))"

text \<open>\<open>str::split\<close> at a character.\<close>

fun split_at :: "char \<Rightarrow> string \<Rightarrow> string list" where
  "split_at c [] = [[]]"
| "split_at c (x # s) =
     (if x = c then [] # split_at c s
      else case split_at c s of [] \<Rightarrow> [[x]] | w # ws \<Rightarrow> (x # w) # ws)"

definition ascii_lower_char :: "char \<Rightarrow> char" where
  "ascii_lower_char c =
     (let n = (of_char c :: nat) in if 65 \<le> n \<and> n \<le> 90 then char_of (n + 32) else c)"

definition to_ascii_lowercase :: "string \<Rightarrow> string" where
  "to_ascii_lowercase s = map ascii_lower_char s"

definition ascii_upper_char :: "char \<Rightarrow> char" where
  "ascii_upper_char c =
     (let n = (of_char c :: nat) in if 97 \<le> n \<and> n \<le> 122 then char_of (n - 32) else c)"

definition to_ascii_uppercase :: "string \<Rightarrow> string" where
  "to_ascii_uppercase s = map ascii_upper_char s"

definition eq_ignore_ascii_case :: "string \<Rightarrow> string \<Rightarrow> bool" where
  "eq_ignore_ascii_case a b \<longleftrightarrow> to_ascii_lowercase a = to_ascii_lowercase b"

definition is_ascii_digit :: "char \<Rightarrow> bool" where
  "is_ascii_digit c \<longleftrightarrow> (let n = (of_char c :: nat) in 48 \<le> n \<and> n \<le> 57)"

definition ends_with :: "string \<Rightarrow> string \<Rightarrow> bool" where
  "ends_with p s \<longleftrightarrow> starts_with (rev p) (rev s)"

text \<open>\<open>str::replace\<close>: the matches of a non-empty pattern from the left, without overlap.\<close>

function replace_all :: "string \<Rightarrow> string \<Rightarrow> string \<Rightarrow> string" where
  "replace_all p r [] = []"
| "replace_all p r (c # s) =
     (if p \<noteq> [] \<and> starts_with p (c # s)
      then r @ replace_all p r (drop (length p - 1) s)
      else c # replace_all p r s)"
  by pat_completeness auto
termination
  by (relation "measure (\<lambda>(p, r, s). length s)") auto

text \<open>Decimal digits, as \<open>Display\<close> prints integers.\<close>

fun show_nat :: "nat \<Rightarrow> string" where
  "show_nat n =
     (if n < 10 then [char_of (48 + n)] else show_nat (n div 10) @ [char_of (48 + n mod 10)])"

declare show_nat.simps [simp del]

definition show_int :: "int \<Rightarrow> string" where
  "show_int i = (if i < 0 then CHR ''-'' # show_nat (nat (- i)) else show_nat (nat i))"

section \<open>Words that survive a join and a split\<close>

text \<open>A word is clean when no white space starts in it; \<open>split_whitespace\<close> yields such words, and
  a list of clean words is recovered from its joined text. \<open>plain\<close> characters start no entry of
  the table, so a word of them is clean.\<close>

definition ws_heads :: "char list" where
  "ws_heads = map byte [9, 10, 11, 12, 13, 32, 194, 225, 226, 227]"

definition plain_word :: "string \<Rightarrow> bool" where
  "plain_word w \<longleftrightarrow> w \<noteq> [] \<and> (\<forall>c \<in> set w. c \<notin> set ws_heads)"

fun clean :: "string \<Rightarrow> bool" where
  "clean [] = True"
| "clean (c # w) = (match_len ws_table (c # w) = 0 \<and> clean w)"

lemma ws_table_heads: "p \<in> set ws_table \<Longrightarrow> \<exists>c q. p = c # q \<and> c \<in> set ws_heads"
  unfolding ws_table_def ws_heads_def by auto

lemma ws_table_space: "p \<in> set ws_table \<Longrightarrow> CHR '' '' \<in> set p \<Longrightarrow> p = '' ''"
  by (auto simp: ws_table_def byte_def char_of_def bit_0)

lemma match_len_zero: "match_len ws_table s = 0 \<longleftrightarrow> (\<forall>p \<in> set ws_table. \<not> starts_with p s)"
proof (cases "find (\<lambda>p. starts_with p s) ws_table")
  case None
  then show ?thesis by (simp add: match_len_def) (simp add: find_None_iff)
next
  case (Some p)
  then have "p \<in> set ws_table" "starts_with p s" by (auto dest: find_Some)
  then show ?thesis using Some ws_table_heads [of p] by (auto simp: match_len_def)
qed

lemma match_len_plain: "c \<notin> set ws_heads \<Longrightarrow> match_len ws_table (c # s) = 0"
  by (auto simp: match_len_zero starts_with_def dest!: ws_table_heads)

lemma match_len_space: "match_len ws_table (CHR '' '' # s) = 1"
  by (simp add: match_len_def ws_table_def starts_with_def byte_def char_of_def bit_0)

lemma match_len_prefix: "match_len ws_table (v @ s) = 0 \<Longrightarrow> match_len ws_table v = 0"
  by (force simp: match_len_zero starts_with_def)

lemma match_len_before_space:
  assumes "match_len ws_table v = 0" "v \<noteq> []"
  shows "match_len ws_table (v @ CHR '' '' # s) = 0"
  unfolding match_len_zero
proof (intro ballI notI)
  fix p
  assume p: "p \<in> set ws_table" "starts_with p (v @ CHR '' '' # s)"
  show False
  proof (cases "length p \<le> length v")
    case True
    with p have "starts_with p v" by (simp add: starts_with_def)
    with p assms show ?thesis by (simp add: match_len_zero)
  next
    case False
    with p have "p = v @ CHR '' '' # take (length p - Suc (length v)) s"
      by (simp add: starts_with_def take_Cons' split: if_splits) 
    then have "CHR '' '' \<in> set p" by (metis in_set_conv_decomp)
    then have "p = '' ''" using p(1) ws_table_space by blast
    with \<open>p = v @ _\<close> assms(2) show ?thesis by (cases v) auto
  qed
qed

lemma plain_clean: "(\<forall>c \<in> set w. c \<notin> set ws_heads) \<Longrightarrow> clean w"
  by (induction w) (auto simp: match_len_plain)

lemma split_ws_clean:
  "clean w \<Longrightarrow> s = [] \<or> (\<exists>t. s = CHR '' '' # t) \<Longrightarrow> split_ws cur (w @ s) = split_ws (rev w @ cur) s"
proof (induction w arbitrary: cur)
  case (Cons c w)
  then have "match_len ws_table (c # w @ s) = 0"
    using match_len_before_space [of "c # w"] by auto
  with Cons show ?case by (simp add: Let_def)
qed simp

lemma split_ws_space:
  "split_ws cur (CHR '' '' # s) = (if cur = [] then [] else [rev cur]) @ split_ws [] s"
  by (simp add: match_len_space Let_def)

lemma split_join_clean:
  assumes "\<forall>w \<in> set ws. w \<noteq> [] \<and> clean w"
  shows "split_whitespace (join '' '' ws) = ws"
  using assms unfolding split_whitespace_def
proof (induction ws rule: induct_list012)
  case 1
  show ?case by simp
next
  case (2 w)
  then show ?case using split_ws_clean [of w "[]" "[]"] by auto
next
  case (3 w v ws)
  then have "split_ws [] (join '' '' (w # v # ws)) = split_ws (rev w) (CHR '' '' # join '' '' (v # ws))"
    using split_ws_clean [of w "CHR '' '' # join '' '' (v # ws)" "[]"] by simp
  also have "\<dots> = w # split_ws [] (join '' '' (v # ws))"
    using 3 by (simp add: split_ws_space del: split_ws.simps)
  finally show ?case using 3 by simp
qed

lemma split_join: "\<forall>w \<in> set ws. plain_word w \<Longrightarrow> split_whitespace (join '' '' ws) = ws"
  by (rule split_join_clean) (auto simp: plain_word_def intro: plain_clean)

text \<open>The word being read is clean as far as it is followed by the text that is left.\<close>

lemma clean_suffixes: "(\<And>u v. w = u @ v \<Longrightarrow> v \<noteq> [] \<Longrightarrow> match_len ws_table v = 0) \<Longrightarrow> clean w"
proof (induction w)
  case (Cons c w)
  then show ?case by (metis append_Cons append_Nil clean.simps(2) list.distinct(1))
qed simp

lemma split_ws_words:
  assumes "\<And>u v. rev cur = u @ v \<Longrightarrow> v \<noteq> [] \<Longrightarrow> match_len ws_table (v @ s) = 0"
    and "w \<in> set (split_ws cur s)"
  shows "w \<noteq> [] \<and> clean w"
  using assms
proof (induction cur s arbitrary: w rule: split_ws.induct)
  case (1 cur)
  then show ?case by (auto intro!: clean_suffixes split: if_splits)
next
  case (2 cur c s)
  let ?n = "match_len ws_table (c # s)"
  show ?case
  proof (cases "?n = 0")
    case True
    have "match_len ws_table (v @ s) = 0" if "rev (c # cur) = u @ v" "v \<noteq> []" for u v
    proof -
      from that obtain v' where v': "v = v' @ [c]" "rev cur = u @ v'"
        by (cases v rule: rev_cases) auto
      then show ?thesis using True 2(3) [of u v'] by (cases v') auto
    qed
    with True 2 show ?thesis by (simp add: Let_def)
  next
    case False
    have "clean (rev cur)"
      using 2(3) by (intro clean_suffixes) (blast dest: match_len_prefix)
    with False 2 show ?thesis by (auto simp: Let_def split: if_splits)
  qed
qed

lemma split_join_words [simp]:
  "split_whitespace (join '' '' (split_whitespace s)) = split_whitespace s"
  by (rule split_join_clean) (auto simp: split_whitespace_def dest: split_ws_words [rotated])

lemma split_once_append: "c \<notin> set a \<Longrightarrow> split_once c (a @ c # b) = Some (a, b)"
  by (induction a) auto

lemma split_once_Some: "split_once c s = Some (a, b) \<Longrightarrow> s = a @ c # b \<and> c \<notin> set a"
  by (induction s arbitrary: a) (auto split: if_splits)

section \<open>Trimming printable text\<close>

definition printable :: "char \<Rightarrow> bool" where
  "printable c \<longleftrightarrow> (let n = (of_char c :: nat) in 32 < n \<and> n < 127)"

lemma not_printable_byte [simp]: "n < 256 \<Longrightarrow> printable (byte n) \<longleftrightarrow> 32 < n \<and> n < 127"
  by (simp add: printable_def byte_def)

lemma ws_table_ends:
  assumes "p \<in> set ws_table"
  shows "p \<noteq> [] \<and> \<not> printable (hd p) \<and> \<not> printable (last p)"
  using assms unfolding ws_table_def by auto

lemma strip_keeps:
  assumes "\<And>p. p \<in> set table \<Longrightarrow> p \<noteq> [] \<and> hd p \<noteq> c"
  shows "strip table (c # s) = c # s"
proof -
  have "\<not> starts_with p (c # s)" if "p \<in> set table" for p
    using assms [OF that] by (cases p) (auto simp: starts_with_def)
  then have "find (\<lambda>p. starts_with p (c # s)) table = None"
    by (auto simp: find_None_iff)
  then show ?thesis by (simp add: match_len_def)
qed

lemma trim_printable:
  assumes "s = [] \<or> printable (hd s) \<and> printable (last s)"
  shows "trim s = s"
proof (cases s)
  case Nil
  then show ?thesis by (simp add: trim_def)
next
  case (Cons c r)
  with assms have c: "printable c" "printable (last s)" by auto
  have front: "strip ws_table s = s"
    unfolding Cons using c(1) ws_table_ends by (intro strip_keeps) auto
  have rear: "strip (map rev ws_table) (last s # rev (butlast s)) = last s # rev (butlast s)"
    using c(2) ws_table_ends by (intro strip_keeps) (force simp: hd_rev)+
  have "s = butlast s @ [last s]" using Cons by simp
  then have "rev s = last s # rev (butlast s)" by (metis rev.simps(2) rev_append rev_swap append_Cons append_Nil)
  then have "strip (map rev ws_table) (rev s) = rev s" using rear by (simp only:)
  then show ?thesis using front by (simp only: trim_def rev_rev_ident)
qed

text \<open>Equations that evaluate faster: the table is only searched where a character may be in it.\<close>

lemma match_len_printable: "printable c \<Longrightarrow> match_len ws_table (c # s) = 0"
proof -
  assume c: "printable c"
  have "\<not> starts_with p (c # s)" if "p \<in> set ws_table" for p
    using ws_table_ends [OF that] c by (cases p) (auto simp: starts_with_def)
  then show ?thesis unfolding match_len_zero by blast
qed

lemma split_ws_code [code]:
  "split_ws cur [] = (if cur = [] then [] else [rev cur])"
  "split_ws cur (c # s) =
     (if printable c then split_ws (c # cur) s
      else let n = match_len ws_table (c # s)
        in if n = 0 then split_ws (c # cur) s
           else (if cur = [] then [] else [rev cur]) @ split_ws [] (drop (n - 1) s))"
  by (simp_all add: match_len_printable)

lemma trim_code [code]:
  "trim s = (if s = [] \<or> printable (hd s) \<and> printable (last s) then s
     else rev (strip (map rev ws_table) (rev (strip ws_table s))))"
  by (simp add: trim_printable) (simp add: trim_def)

text \<open>\<open>str::trim_end\<close>\<close>

definition trim_end :: "string \<Rightarrow> string" where
  "trim_end s = rev (strip (map rev ws_table) (rev s))"

lemma trim_end_code [code]:
  "trim_end s = (if s = [] \<or> printable (last s) then s else rev (strip (map rev ws_table) (rev s)))"
proof -
  have "trim_end s = s" if "s \<noteq> []" "printable (last s)"
  proof -
    have "rev s = last s # rev (butlast s)"
      using that(1) by (metis append_butlast_last_id rev_eq_Cons_iff rev_rev_ident)
    moreover have "strip (map rev ws_table) (last s # rev (butlast s)) = last s # rev (butlast s)"
      using that(2) ws_table_ends by (intro strip_keeps) (force simp: hd_rev)+
    ultimately show ?thesis unfolding trim_end_def by (metis rev_rev_ident)
  qed
  moreover have "trim_end [] = []" by (simp add: trim_end_def)
  ultimately show ?thesis
    by (cases "s = [] \<or> printable (last s)") (auto simp: trim_end_def [of s, symmetric])
qed

lemma split_at_not_Nil [simp]: "split_at c s \<noteq> []"
  by (induction s) (auto split: list.splits)

lemma split_at_append: "split_at c (a @ c # b) = split_at c a @ split_at c b"
  by (induction a) (auto split: list.splits simp: append_eq_Cons_conv)

lemma split_at_no: "c \<notin> set s \<Longrightarrow> split_at c s = [s]"
  by (induction s) auto

lemma split_at_join: "ws \<noteq> [] \<Longrightarrow> \<forall>w \<in> set ws. c \<notin> set w \<Longrightarrow> split_at c (join [c] ws) = ws"
proof (induction ws rule: induct_list012)
  case (3 w v ws)
  then show ?case using split_at_append [of c w "join [c] (v # ws)"] by (simp add: split_at_no)
qed (simp_all add: split_at_no)

end
