(* ===== verification/Roles.thy ===== *)
theory Roles
  imports Rust_Text
begin

text \<open>
  The scopes an access token can carry and the roles that grant them
  (src/server-rs/src/auth/roles.rs): the names of the scopes, the table of each role, and the
  reduction of a client's request to what the user's role allows.
\<close>

datatype scope =
    ReadTransactions | WriteTransactions | ReadAccounts | WriteAccounts
  | ReadUsers | WriteUsers | ReadRules | WriteRules
  | ReadCategories | WriteCategories | ReadSpending | ReadCashflow
  | ReadOwners | WriteOwners | ReadAssets | WriteAssets
  | ReadWealth | WriteWealth | ReadHoldings | ReadPortfolio
  | ReadBudgets | WriteBudgets | ReadTags | WriteTags
  | ReadSettings | WriteSettings

text \<open>The user roles of the GraphQL schema.\<close>

datatype role =
    Admin | Writer | Readonly | SpendTracker | CashflowTracker | NetWorthTracker | PortfolioTracker

text \<open>\<open>Display\<close> and \<open>FromStr\<close> as the strum attributes derive them.\<close>

primrec scope_name :: "scope \<Rightarrow> string" where
  "scope_name ReadTransactions = ''read:transactions''"
| "scope_name WriteTransactions = ''write:transactions''"
| "scope_name ReadAccounts = ''read:accounts''"
| "scope_name WriteAccounts = ''write:accounts''"
| "scope_name ReadUsers = ''read:users''"
| "scope_name WriteUsers = ''write:users''"
| "scope_name ReadRules = ''read:rules''"
| "scope_name WriteRules = ''write:rules''"
| "scope_name ReadCategories = ''read:categories''"
| "scope_name WriteCategories = ''write:categories''"
| "scope_name ReadSpending = ''read:spending''"
| "scope_name ReadCashflow = ''read:cashflow''"
| "scope_name ReadOwners = ''read:owners''"
| "scope_name WriteOwners = ''write:owners''"
| "scope_name ReadAssets = ''read:assets''"
| "scope_name WriteAssets = ''write:assets''"
| "scope_name ReadWealth = ''read:wealth''"
| "scope_name WriteWealth = ''write:wealth''"
| "scope_name ReadHoldings = ''read:holdings''"
| "scope_name ReadPortfolio = ''read:portfolio''"
| "scope_name ReadBudgets = ''read:budgets''"
| "scope_name WriteBudgets = ''write:budgets''"
| "scope_name ReadTags = ''read:tags''"
| "scope_name WriteTags = ''write:tags''"
| "scope_name ReadSettings = ''read:settings''"
| "scope_name WriteSettings = ''write:settings''"

definition all_scopes :: "scope list" where
  "all_scopes = [
     ReadTransactions, WriteTransactions, ReadAccounts, WriteAccounts, ReadUsers, WriteUsers,
     ReadRules, WriteRules, ReadCategories, WriteCategories, ReadSpending, ReadCashflow,
     ReadOwners, WriteOwners, ReadAssets, WriteAssets, ReadWealth, WriteWealth, ReadHoldings,
     ReadPortfolio, ReadBudgets, WriteBudgets, ReadTags, WriteTags, ReadSettings, WriteSettings]"

definition scope_from_str :: "string \<Rightarrow> scope option" where
  "scope_from_str s = find (\<lambda>sc. scope_name sc = s) all_scopes"

primrec role_name :: "role \<Rightarrow> string" where
  "role_name Admin = ''ADMIN''"
| "role_name Writer = ''WRITER''"
| "role_name Readonly = ''READONLY''"
| "role_name SpendTracker = ''SPEND_TRACKER''"
| "role_name CashflowTracker = ''CASHFLOW_TRACKER''"
| "role_name NetWorthTracker = ''NET_WORTH_TRACKER''"
| "role_name PortfolioTracker = ''PORTFOLIO_TRACKER''"

definition all_roles :: "role list" where
  "all_roles = [Admin, Writer, Readonly, SpendTracker, CashflowTracker, NetWorthTracker,
     PortfolioTracker]"

definition role_from_str :: "string \<Rightarrow> role option" where
  "role_from_str s = find (\<lambda>r. role_name r = s) all_roles"

definition client_allowed_scopes :: "string list" where
  "client_allowed_scopes = [''read'', ''write''] @ map scope_name all_scopes"

primrec scopes_for_role :: "role \<Rightarrow> scope list" where
  "scopes_for_role Admin = all_scopes"
| "scopes_for_role Writer = [
     ReadTransactions, WriteTransactions, ReadAccounts, WriteAccounts, ReadRules, WriteRules,
     ReadCategories, WriteCategories, ReadSpending, ReadCashflow, ReadOwners, ReadAssets,
     WriteAssets, ReadWealth, WriteWealth, ReadHoldings, ReadPortfolio, ReadBudgets,
     WriteBudgets, ReadTags, WriteTags]"
| "scopes_for_role Readonly = [
     ReadTransactions, ReadAccounts, ReadRules, ReadCategories, ReadSpending, ReadCashflow,
     ReadOwners, ReadAssets, ReadWealth, ReadHoldings, ReadPortfolio, ReadBudgets, ReadTags]"
| "scopes_for_role SpendTracker = [
     ReadSpending, ReadCategories, ReadOwners, ReadTags]"
| "scopes_for_role CashflowTracker = [
     ReadSpending, ReadCashflow, ReadCategories, ReadOwners, ReadBudgets, WriteBudgets, ReadTags]"
| "scopes_for_role NetWorthTracker = [
     ReadAssets, WriteAssets, ReadWealth, WriteWealth, ReadAccounts, ReadOwners]"
| "scopes_for_role PortfolioTracker = [
     ReadPortfolio, ReadAccounts, ReadOwners]"

definition expand_requested_scopes :: "string list \<Rightarrow> scope list" where
  "expand_requested_scopes requested =
     filter (\<lambda>scope. let name = scope_name scope in
       list_ex (\<lambda>req. req = name
         \<or> req = ''read'' \<and> starts_with ''read:'' name
         \<or> req = ''write'' \<and> starts_with ''write:'' name) requested) all_scopes"

definition granted_scopes_for_role :: "role \<Rightarrow> string list \<Rightarrow> scope list" where
  "granted_scopes_for_role role requested =
     (let expanded = expand_requested_scopes requested
      in filter (\<lambda>scope. scope \<in> set expanded) (scopes_for_role role))"

definition parse_scopes :: "string \<Rightarrow> scope list" where
  "parse_scopes value = List.map_filter scope_from_str (split_whitespace value)"

text \<open>\<open>scopes.iter().map(ToString::to_string).collect().join(" ")\<close>\<close>

definition scopes_to_string :: "scope list \<Rightarrow> string" where
  "scopes_to_string scopes = join '' '' (map scope_name scopes)"

section \<open>Names\<close>

lemma scope_in_all [simp]: "sc \<in> set all_scopes"
  by (cases sc) (simp_all add: all_scopes_def)

lemma distinct_all_scopes: "distinct all_scopes"
  by (simp add: all_scopes_def)

lemma scope_name_eq [simp]: "scope_name a = scope_name b \<longleftrightarrow> a = b"
  by (cases a; cases b) simp_all

lemma scope_from_str_name [simp]: "scope_from_str (scope_name sc) = Some sc"
  by (cases sc) (simp_all add: scope_from_str_def all_scopes_def)

lemma scope_from_str_Some: "scope_from_str s = Some sc \<longleftrightarrow> s = scope_name sc"
proof
  assume "scope_from_str s = Some sc"
  then show "s = scope_name sc" by (auto simp: scope_from_str_def dest: find_Some)
qed simp

lemma scope_name_not_wildcard [simp]:
  "scope_name sc \<noteq> ''read''" "scope_name sc \<noteq> ''write''"
  "''read'' \<noteq> scope_name sc" "''write'' \<noteq> scope_name sc"
  by (cases sc; simp)+

lemma plain_scope_name: "plain_word (scope_name sc)"
  by (cases sc) (simp_all add: plain_word_def ws_heads_def byte_def char_of_def bit_0)

lemma split_scopes_to_string: "split_whitespace (scopes_to_string scopes) = map scope_name scopes"
  by (auto simp: scopes_to_string_def plain_scope_name intro!: split_join)

lemma read_or_write: "starts_with ''read:'' (scope_name sc) \<or> starts_with ''write:'' (scope_name sc)"
  by (cases sc) (simp_all add: starts_with_def)

section \<open>Grants\<close>

definition requests :: "string list \<Rightarrow> scope \<Rightarrow> bool" where
  "requests requested sc \<longleftrightarrow> scope_name sc \<in> set requested
     \<or> ''read'' \<in> set requested \<and> starts_with ''read:'' (scope_name sc)
     \<or> ''write'' \<in> set requested \<and> starts_with ''write:'' (scope_name sc)"

lemma set_expand: "set (expand_requested_scopes requested) = {sc. requests requested sc}"
  by (auto simp: expand_requested_scopes_def requests_def list_ex_iff Let_def)

lemma set_granted:
  "set (granted_scopes_for_role role requested) =
     {sc \<in> set (scopes_for_role role). requests requested sc}"
  by (auto simp: granted_scopes_for_role_def set_expand Let_def)

lemma requests_names: "requests (map scope_name scopes) sc \<longleftrightarrow> sc \<in> set scopes"
  by (auto simp: requests_def image_iff)

lemma distinct_scopes_for_role: "distinct (scopes_for_role role)"
  by (cases role) (simp_all add: distinct_all_scopes)

lemma map_filter_names [simp]: "List.map_filter scope_from_str (map scope_name scopes) = scopes"
  by (induction scopes) (simp_all add: List.map_filter_simps)

section \<open>Properties\<close>

text \<open>A token's scope claim is read back as the scopes it was minted with: parsing the
  space-separated names gives the list again, in order, for every list of scopes.\<close>

theorem parse_scopes_roundtrip: "parse_scopes (scopes_to_string scopes) = scopes"
  by (simp add: parse_scopes_def split_scopes_to_string)

text \<open>Least privilege: what a role is granted for a request is exactly the part of the role's
  table that the request names, directly or with the wildcards \<open>read\<close> and \<open>write\<close>; nothing is
  granted twice, and the default request of both wildcards grants the whole table.\<close>

theorem granted_scopes_least_privilege:
  "set (granted_scopes_for_role role requested) =
     set (scopes_for_role role) \<inter> {sc. scope_name sc \<in> set requested
       \<or> ''read'' \<in> set requested \<and> starts_with ''read:'' (scope_name sc)
       \<or> ''write'' \<in> set requested \<and> starts_with ''write:'' (scope_name sc)}
   \<and> distinct (granted_scopes_for_role role requested)
   \<and> granted_scopes_for_role role [''read'', ''write''] = scopes_for_role role"
proof (intro conjI)
  show "distinct (granted_scopes_for_role role requested)"
    by (simp add: granted_scopes_for_role_def Let_def distinct_scopes_for_role)
  show "granted_scopes_for_role role [''read'', ''write''] = scopes_for_role role"
    using read_or_write by (simp add: granted_scopes_for_role_def set_expand requests_def Let_def)
qed (auto simp: set_granted requests_def)

text \<open>Separation of roles: every role's table is part of the administrator's; managing users,
  reading or writing settings and editing owners belong to the administrator alone; and only
  four roles may write anything at all.\<close>

theorem role_separation:
  "set (scopes_for_role role) \<subseteq> set (scopes_for_role Admin)
   \<and> {r. WriteUsers \<in> set (scopes_for_role r)} = {Admin}
   \<and> {r. ReadUsers \<in> set (scopes_for_role r)} = {Admin}
   \<and> {r. ReadSettings \<in> set (scopes_for_role r)} = {Admin}
   \<and> {r. WriteSettings \<in> set (scopes_for_role r)} = {Admin}
   \<and> {r. WriteOwners \<in> set (scopes_for_role r)} = {Admin}
   \<and> {r. \<exists>sc \<in> set (scopes_for_role r). starts_with ''write:'' (scope_name sc)} =
       {Admin, Writer, CashflowTracker, NetWorthTracker}"
proof -
  have table:
    "WriteUsers \<in> set (scopes_for_role r) \<longleftrightarrow> r = Admin"
    "ReadUsers \<in> set (scopes_for_role r) \<longleftrightarrow> r = Admin"
    "ReadSettings \<in> set (scopes_for_role r) \<longleftrightarrow> r = Admin"
    "WriteSettings \<in> set (scopes_for_role r) \<longleftrightarrow> r = Admin"
    "WriteOwners \<in> set (scopes_for_role r) \<longleftrightarrow> r = Admin" for r
    by (cases r; simp)+
  have writers: "(\<exists>sc \<in> set (scopes_for_role r). starts_with ''write:'' (scope_name sc)) =
      (r \<in> {Admin, Writer, CashflowTracker, NetWorthTracker})" for r
    by (cases r) (auto simp: starts_with_def intro: bexI [where x = WriteBudgets])
  show ?thesis
    by (auto simp: table writers)
qed

end
