(* ===== verification/Auth_Tables.thy ===== *)
theory Auth_Tables
  imports Roles "HOL-Library.List_Lexorder"
begin

text \<open>
  The tables of the authorization server and the statements it runs on them: the schema
  (src/server-rs/src/database/schema_snapshot.sql) as records of rows, and one definition per
  query of src/server-rs/sql/queries/auth.sql, as sqlc generates it into
  src/server-rs/src/database/queries.rs. A nullable column is an option; a timestamp column is
  its whole seconds. The JSON columns of \<open>oauth_clients\<close> are the lists they encode. Primary and
  unique keys and the foreign key of the authorization codes (with its cascade) are part of the
  statements that can run into them.
\<close>

record client_row =
  ocr_id :: string
  ocr_redirect_uris :: "string list"
  ocr_grant_types :: "string list"
  ocr_response_types :: "string list"
  ocr_scopes :: string
  ocr_application_type :: string
  ocr_client_name :: "string option"
  ocr_is_public :: bool
  ocr_is_preseeded :: bool
  ocr_created_at :: int
  ocr_last_used_at :: "int option"

record session_row =
  lsr_id :: string
  lsr_client_id :: string
  lsr_redirect_uri :: string
  lsr_state :: "string option"
  lsr_code_challenge :: string
  lsr_code_challenge_method :: string
  lsr_scopes :: "string option"
  lsr_callback_state :: string
  lsr_subject :: "string option"
  lsr_authenticated :: bool
  lsr_expires_at :: int
  lsr_email :: "string option"
  lsr_email_otp :: "string option"
  lsr_email_otp_expires_at :: "int option"
  lsr_email_otp_attempts :: int
  lsr_email_magic_token :: "string option"
  lsr_pkce_verifier :: "string option"
  lsr_webauthn_session :: "string option"
  lsr_purpose :: "string option"
  lsr_browser_binding :: "string option"

record code_row =
  acr_signature :: string
  acr_client_id :: string
  acr_subject :: string
  acr_scopes :: "string option"
  acr_redirect_uri :: string
  acr_code_challenge :: string
  acr_code_challenge_method :: string
  acr_expires_at :: int
  acr_active :: bool

record access_row =
  atr_signature :: string
  atr_client_id :: string
  atr_subject :: string
  atr_scopes :: "string option"
  atr_expires_at :: int
  atr_request_id :: "string option"

record refresh_row =
  rtr_signature :: string
  rtr_client_id :: string
  rtr_subject :: string
  rtr_scopes :: "string option"
  rtr_expires_at :: int
  rtr_request_id :: "string option"
  rtr_active :: bool
  rtr_created_at :: int
  rtr_first_issued_at :: "int option"

record user_row =
  usr_id :: int
  usr_email :: string
  usr_role :: string
  usr_invited_by :: "int option"
  usr_created_at :: int

record registration_row =
  wrr_user_id :: int
  wrr_name :: string
  wrr_session :: string
  wrr_expires_at :: int

record credential_row =
  wcr_id :: string
  wcr_user_id :: int
  wcr_name :: string
  wcr_credential :: string
  wcr_created_at :: int
  wcr_last_used_at :: "int option"

record auth_tables =
  t_clients :: "client_row list"
  t_sessions :: "session_row list"
  t_codes :: "code_row list"
  t_access :: "access_row list"
  t_refresh :: "refresh_row list"
  t_users :: "user_row list"
  t_registrations :: "registration_row list"
  t_credentials :: "credential_row list"

type_synonym 'a auth_io = "(auth_tables, 'a) io"
type_synonym 'a auth_db = "(auth_tables, 'a) fallible"

definition coalesce :: "string option \<Rightarrow> string" where
  "coalesce v = (case v of None \<Rightarrow> '''' | Some s \<Rightarrow> s)"

lemma coalesce_simps [simp]: "coalesce None = ''''" "coalesce (Some s) = s"
  by (simp_all add: coalesce_def)

section \<open>Clients\<close>

definition save_o_auth_client ::
    "string \<Rightarrow> string list \<Rightarrow> string list \<Rightarrow> string list \<Rightarrow> string \<Rightarrow> string \<Rightarrow> string option \<Rightarrow>
     bool \<Rightarrow> bool \<Rightarrow> unit auth_db" where
  "save_o_auth_client ident redirect_uris grant_types response_types scopes application_type
       client_name is_public is_preseeded =
     do {
       now \<leftarrow> utc_now;
       exec (\<lambda>t. t\<lparr>t_clients :=
         (if ident \<in> set (map ocr_id (t_clients t))
          then update_rows (\<lambda>r. ocr_id r = ident)
                 (\<lambda>r. r\<lparr>ocr_redirect_uris := redirect_uris, ocr_grant_types := grant_types,
                       ocr_response_types := response_types, ocr_scopes := scopes,
                       ocr_application_type := application_type, ocr_client_name := client_name,
                       ocr_is_public := is_public, ocr_is_preseeded := is_preseeded\<rparr>)
                 (t_clients t)
          else t_clients t @
            [\<lparr>ocr_id = ident, ocr_redirect_uris = redirect_uris, ocr_grant_types = grant_types,
              ocr_response_types = response_types, ocr_scopes = scopes,
              ocr_application_type = application_type, ocr_client_name = client_name,
              ocr_is_public = is_public, ocr_is_preseeded = is_preseeded,
              ocr_created_at = to_timestamp now, ocr_last_used_at = None\<rparr>])\<rparr>)
     }"

definition o_auth_client_opt :: "string \<Rightarrow> client_row option auth_db" where
  "o_auth_client_opt ident = select (\<lambda>t. find (\<lambda>r. ocr_id r = ident) (t_clients t))"

definition touch_o_auth_client :: "int \<Rightarrow> string \<Rightarrow> unit auth_db" where
  "touch_o_auth_client now ident =
     exec (\<lambda>t. t\<lparr>t_clients :=
       update_rows (\<lambda>r. ocr_id r = ident) (\<lambda>r. r\<lparr>ocr_last_used_at := Some now\<rparr>) (t_clients t)\<rparr>)"

text \<open>Deleting a client cascades to its authorization codes.\<close>

definition live_refresh_of :: "int \<Rightarrow> auth_tables \<Rightarrow> string \<Rightarrow> bool" where
  "live_refresh_of now t ident =
     list_ex (\<lambda>r. rtr_client_id r = ident \<and> rtr_active r \<and> now < rtr_expires_at r) (t_refresh t)"

definition stale_client :: "int \<Rightarrow> int \<Rightarrow> auth_tables \<Rightarrow> client_row \<Rightarrow> bool" where
  "stale_client before now t r \<longleftrightarrow>
     \<not> ocr_is_preseeded r
     \<and> (case ocr_last_used_at r of None \<Rightarrow> ocr_created_at r | Some u \<Rightarrow> u) < before
     \<and> \<not> live_refresh_of now t (ocr_id r)"

definition cleanup_stale_o_auth_clients :: "int \<Rightarrow> int \<Rightarrow> unit auth_db" where
  "cleanup_stale_o_auth_clients before now =
     exec (\<lambda>t.
       let stale = stale_client before now t;
           gone = map ocr_id (filter stale (t_clients t))
       in t\<lparr>t_clients := delete_rows stale (t_clients t),
            t_codes := delete_rows (\<lambda>c. acr_client_id c \<in> set gone) (t_codes t)\<rparr>)"

section \<open>Login sessions\<close>

text \<open>The row a lookup reads: nullable text columns coalesced to the empty string.\<close>

record login_session =
  ls_id :: string
  ls_client_id :: string
  ls_redirect_uri :: string
  ls_state :: string
  ls_code_challenge :: string
  ls_code_challenge_method :: string
  ls_scopes :: string
  ls_callback_state :: string
  ls_subject :: string
  ls_authenticated :: bool
  ls_expires_at :: int
  ls_email :: string
  ls_email_otp :: string
  ls_email_otp_expires_at :: "int option"
  ls_email_otp_attempts :: int
  ls_email_magic_token :: string
  ls_pkce_verifier :: string
  ls_webauthn_session :: string
  ls_purpose :: string
  ls_browser_binding :: string

definition session_of_row :: "session_row \<Rightarrow> login_session" where
  "session_of_row r =
     \<lparr>ls_id = lsr_id r, ls_client_id = lsr_client_id r, ls_redirect_uri = lsr_redirect_uri r,
      ls_state = coalesce (lsr_state r), ls_code_challenge = lsr_code_challenge r,
      ls_code_challenge_method = lsr_code_challenge_method r,
      ls_scopes = coalesce (lsr_scopes r), ls_callback_state = lsr_callback_state r,
      ls_subject = coalesce (lsr_subject r), ls_authenticated = lsr_authenticated r,
      ls_expires_at = lsr_expires_at r, ls_email = coalesce (lsr_email r),
      ls_email_otp = coalesce (lsr_email_otp r),
      ls_email_otp_expires_at = lsr_email_otp_expires_at r,
      ls_email_otp_attempts = lsr_email_otp_attempts r,
      ls_email_magic_token = coalesce (lsr_email_magic_token r),
      ls_pkce_verifier = coalesce (lsr_pkce_verifier r),
      ls_webauthn_session = coalesce (lsr_webauthn_session r),
      ls_purpose = coalesce (lsr_purpose r),
      ls_browser_binding = coalesce (lsr_browser_binding r)\<rparr>"

lemma session_of_row_simps [simp]:
  "ls_id (session_of_row r) = lsr_id r"
  "ls_client_id (session_of_row r) = lsr_client_id r"
  "ls_redirect_uri (session_of_row r) = lsr_redirect_uri r"
  "ls_state (session_of_row r) = coalesce (lsr_state r)"
  "ls_code_challenge (session_of_row r) = lsr_code_challenge r"
  "ls_code_challenge_method (session_of_row r) = lsr_code_challenge_method r"
  "ls_scopes (session_of_row r) = coalesce (lsr_scopes r)"
  "ls_callback_state (session_of_row r) = lsr_callback_state r"
  "ls_subject (session_of_row r) = coalesce (lsr_subject r)"
  "ls_authenticated (session_of_row r) = lsr_authenticated r"
  "ls_expires_at (session_of_row r) = lsr_expires_at r"
  "ls_email (session_of_row r) = coalesce (lsr_email r)"
  "ls_email_otp (session_of_row r) = coalesce (lsr_email_otp r)"
  "ls_email_otp_expires_at (session_of_row r) = lsr_email_otp_expires_at r"
  "ls_email_otp_attempts (session_of_row r) = lsr_email_otp_attempts r"
  "ls_email_magic_token (session_of_row r) = coalesce (lsr_email_magic_token r)"
  "ls_pkce_verifier (session_of_row r) = coalesce (lsr_pkce_verifier r)"
  "ls_purpose (session_of_row r) = coalesce (lsr_purpose r)"
  "ls_browser_binding (session_of_row r) = coalesce (lsr_browser_binding r)"
  by (simp_all add: session_of_row_def)

text \<open>The insert names eleven columns; the others take their defaults.\<close>

definition create_login_session_row ::
    "login_session \<Rightarrow> string option \<Rightarrow> unit auth_db" where
  "create_login_session_row s browser_binding =
     statement (\<lambda>t.
       if ls_id s \<in> set (map lsr_id (t_sessions t))
          \<or> ls_callback_state s \<in> set (map lsr_callback_state (t_sessions t))
       then Inl Constraint
       else Inr ((), t\<lparr>t_sessions := t_sessions t @
         [\<lparr>lsr_id = ls_id s, lsr_client_id = ls_client_id s,
           lsr_redirect_uri = ls_redirect_uri s, lsr_state = Some (ls_state s),
           lsr_code_challenge = ls_code_challenge s,
           lsr_code_challenge_method = ls_code_challenge_method s,
           lsr_scopes = Some (ls_scopes s), lsr_callback_state = ls_callback_state s,
           lsr_subject = None, lsr_authenticated = False, lsr_expires_at = ls_expires_at s,
           lsr_email = None, lsr_email_otp = None, lsr_email_otp_expires_at = None,
           lsr_email_otp_attempts = 0, lsr_email_magic_token = None, lsr_pkce_verifier = None,
           lsr_webauthn_session = None, lsr_purpose = Some (ls_purpose s),
           lsr_browser_binding = browser_binding\<rparr>]\<rparr>))"

definition login_sessions :: "string option \<Rightarrow> string option \<Rightarrow> login_session list auth_db" where
  "login_sessions ident callback_state =
     select (\<lambda>t. map session_of_row (sort_key lsr_id
       (filter (\<lambda>r. (case ident of None \<Rightarrow> True | Some i \<Rightarrow> lsr_id r = i)
          \<and> (case callback_state of None \<Rightarrow> True | Some c \<Rightarrow> lsr_callback_state r = c))
        (t_sessions t))))"

definition update_sessions ::
    "(session_row \<Rightarrow> bool) \<Rightarrow> (session_row \<Rightarrow> session_row) \<Rightarrow> auth_tables \<Rightarrow> nat \<times> auth_tables" where
  "update_sessions P f t =
     (count_rows P (t_sessions t), t\<lparr>t_sessions := update_rows P f (t_sessions t)\<rparr>)"

definition mark_session_authenticated :: "string \<Rightarrow> string \<Rightarrow> int \<Rightarrow> nat auth_db" where
  "mark_session_authenticated subject ident now =
     exec_rows (update_sessions
       (\<lambda>r. lsr_id r = ident \<and> \<not> lsr_authenticated r \<and> now < lsr_expires_at r)
       (\<lambda>r. r\<lparr>lsr_subject := Some subject, lsr_authenticated := True\<rparr>))"

definition bind_session :: "string \<Rightarrow> string \<Rightarrow> int \<Rightarrow> nat auth_db" where
  "bind_session browser_binding ident now =
     exec_rows (update_sessions
       (\<lambda>r. lsr_id r = ident \<and> lsr_browser_binding r = None \<and> now < lsr_expires_at r)
       (\<lambda>r. r\<lparr>lsr_browser_binding := Some browser_binding\<rparr>))"

definition claim_authenticated_session :: "string \<Rightarrow> int \<Rightarrow> nat auth_db" where
  "claim_authenticated_session ident now =
     exec_rows (\<lambda>t.
       let P = (\<lambda>r. lsr_id r = ident \<and> lsr_authenticated r \<and> now < lsr_expires_at r)
       in (count_rows P (t_sessions t), t\<lparr>t_sessions := delete_rows P (t_sessions t)\<rparr>))"

definition delete_session :: "string \<Rightarrow> unit auth_db" where
  "delete_session ident =
     exec (\<lambda>t. t\<lparr>t_sessions := delete_rows (\<lambda>r. lsr_id r = ident) (t_sessions t)\<rparr>)"

definition save_session_email_otp ::
    "string \<Rightarrow> string \<Rightarrow> int \<Rightarrow> string \<Rightarrow> string \<Rightarrow> string \<Rightarrow> unit auth_db" where
  "save_session_email_otp email email_otp email_otp_expires_at email_magic_token pkce_verifier ident =
     exec (\<lambda>t. snd (update_sessions (\<lambda>r. lsr_id r = ident)
       (\<lambda>r. r\<lparr>lsr_email := Some email, lsr_email_otp := Some email_otp,
             lsr_email_otp_expires_at := Some email_otp_expires_at,
             lsr_email_otp_attempts := 0, lsr_email_magic_token := Some email_magic_token,
             lsr_pkce_verifier := Some pkce_verifier,
             lsr_expires_at := email_otp_expires_at\<rparr>) t))"

definition increment_email_otp_attempts :: "string \<Rightarrow> unit auth_db" where
  "increment_email_otp_attempts ident =
     exec (\<lambda>t. snd (update_sessions (\<lambda>r. lsr_id r = ident)
       (\<lambda>r. r\<lparr>lsr_email_otp_attempts := lsr_email_otp_attempts r + 1\<rparr>) t))"

section \<open>Authorization codes\<close>

record auth_code =
  ac_client_id :: string
  ac_subject :: string
  ac_scopes :: string
  ac_redirect_uri :: string
  ac_code_challenge :: string
  ac_code_challenge_method :: string
  ac_expires_at :: int
  ac_active :: bool

definition code_of_row :: "code_row \<Rightarrow> auth_code" where
  "code_of_row r =
     \<lparr>ac_client_id = acr_client_id r, ac_subject = acr_subject r,
      ac_scopes = coalesce (acr_scopes r), ac_redirect_uri = acr_redirect_uri r,
      ac_code_challenge = acr_code_challenge r,
      ac_code_challenge_method = acr_code_challenge_method r,
      ac_expires_at = acr_expires_at r, ac_active = acr_active r\<rparr>"

definition create_auth_code_row :: "string \<Rightarrow> auth_code \<Rightarrow> unit auth_db" where
  "create_auth_code_row signature a =
     statement (\<lambda>t.
       if ac_client_id a \<notin> set (map ocr_id (t_clients t)) then Inl Constraint
       else case insert_row acr_signature
         \<lparr>acr_signature = signature, acr_client_id = ac_client_id a, acr_subject = ac_subject a,
          acr_scopes = Some (ac_scopes a), acr_redirect_uri = ac_redirect_uri a,
          acr_code_challenge = ac_code_challenge a,
          acr_code_challenge_method = ac_code_challenge_method a,
          acr_expires_at = ac_expires_at a, acr_active = True\<rparr> (t_codes t) of
         Inl e \<Rightarrow> Inl e
       | Inr codes \<Rightarrow> Inr ((), t\<lparr>t_codes := codes\<rparr>))"

definition auth_code_opt :: "string \<Rightarrow> int \<Rightarrow> bool \<Rightarrow> auth_code option auth_db" where
  "auth_code_opt signature now active_only =
     select (\<lambda>t. map_option code_of_row (find (\<lambda>r. (active_only \<longrightarrow> acr_active r)
       \<and> acr_signature r = signature \<and> now < acr_expires_at r) (t_codes t)))"

definition invalidate_code :: "string \<Rightarrow> nat auth_db" where
  "invalidate_code signature =
     exec_rows (\<lambda>t.
       let P = (\<lambda>r. acr_signature r = signature \<and> acr_active r)
       in (count_rows P (t_codes t),
           t\<lparr>t_codes := update_rows P (\<lambda>r. r\<lparr>acr_active := False\<rparr>) (t_codes t)\<rparr>))"

definition update_code_pkce :: "string \<Rightarrow> string \<Rightarrow> string \<Rightarrow> unit auth_db" where
  "update_code_pkce challenge challenge_method signature =
     exec (\<lambda>t. t\<lparr>t_codes := update_rows (\<lambda>r. acr_signature r = signature)
       (\<lambda>r. r\<lparr>acr_code_challenge := challenge, acr_code_challenge_method := challenge_method\<rparr>)
       (t_codes t)\<rparr>)"

section \<open>Access tokens\<close>

definition create_access_row ::
    "string \<Rightarrow> string \<Rightarrow> string \<Rightarrow> string option \<Rightarrow> int \<Rightarrow> string option \<Rightarrow> unit auth_db" where
  "create_access_row signature client_id subject scopes expires_at request_id =
     statement (\<lambda>t. case insert_row atr_signature
         \<lparr>atr_signature = signature, atr_client_id = client_id, atr_subject = subject,
          atr_scopes = scopes, atr_expires_at = expires_at, atr_request_id = request_id\<rparr>
         (t_access t) of
         Inl e \<Rightarrow> Inl e
       | Inr rows \<Rightarrow> Inr ((), t\<lparr>t_access := rows\<rparr>))"

definition access_row_opt :: "string \<Rightarrow> int \<Rightarrow> access_row option auth_db" where
  "access_row_opt signature now =
     select (\<lambda>t. find (\<lambda>r. atr_signature r = signature \<and> now < atr_expires_at r) (t_access t))"

definition delete_access :: "(access_row \<Rightarrow> bool) \<Rightarrow> auth_tables \<Rightarrow> auth_tables" where
  "delete_access P t = t\<lparr>t_access := delete_rows P (t_access t)\<rparr>"

definition delete_access_row :: "string \<Rightarrow> unit auth_db" where
  "delete_access_row signature = exec (delete_access (\<lambda>r. atr_signature r = signature))"

definition delete_access_by_request :: "string \<Rightarrow> unit auth_db" where
  "delete_access_by_request request_id =
     exec (delete_access (\<lambda>r. atr_request_id r = Some request_id))"

definition delete_access_by_subject :: "string \<Rightarrow> unit auth_db" where
  "delete_access_by_subject subject = exec (delete_access (\<lambda>r. atr_subject r = subject))"

section \<open>Refresh tokens\<close>

definition create_refresh_row ::
    "string \<Rightarrow> string \<Rightarrow> string \<Rightarrow> string option \<Rightarrow> int \<Rightarrow> string option \<Rightarrow> int option \<Rightarrow>
     unit auth_db" where
  "create_refresh_row signature client_id subject scopes expires_at request_id first_issued_at =
     do {
       now \<leftarrow> utc_now;
       statement (\<lambda>t. case insert_row rtr_signature
         \<lparr>rtr_signature = signature, rtr_client_id = client_id, rtr_subject = subject,
          rtr_scopes = scopes, rtr_expires_at = expires_at, rtr_request_id = request_id,
          rtr_active = True, rtr_created_at = to_timestamp now,
          rtr_first_issued_at = first_issued_at\<rparr> (t_refresh t) of
         Inl e \<Rightarrow> Inl e
       | Inr rows \<Rightarrow> Inr ((), t\<lparr>t_refresh := rows\<rparr>))
     }"

definition refresh_row_opt :: "string \<Rightarrow> int \<Rightarrow> bool \<Rightarrow> refresh_row option auth_db" where
  "refresh_row_opt signature now active_only =
     select (\<lambda>t. find (\<lambda>r. (active_only \<longrightarrow> rtr_active r)
       \<and> rtr_signature r = signature \<and> now < rtr_expires_at r) (t_refresh t))"

definition revoke_refresh ::
    "(refresh_row \<Rightarrow> bool) \<Rightarrow> auth_tables \<Rightarrow> nat \<times> auth_tables" where
  "revoke_refresh P t =
     (count_rows P (t_refresh t),
      t\<lparr>t_refresh := update_rows P (\<lambda>r. r\<lparr>rtr_active := False\<rparr>) (t_refresh t)\<rparr>)"

definition revoke_refresh_row :: "string \<Rightarrow> unit auth_db" where
  "revoke_refresh_row signature =
     exec (\<lambda>t. snd (revoke_refresh (\<lambda>r. rtr_signature r = signature) t))"

definition revoke_refresh_by_request :: "string \<Rightarrow> unit auth_db" where
  "revoke_refresh_by_request request_id =
     exec (\<lambda>t. snd (revoke_refresh (\<lambda>r. rtr_request_id r = Some request_id) t))"

definition revoke_live_refresh_row :: "string \<Rightarrow> int \<Rightarrow> nat auth_db" where
  "revoke_live_refresh_row signature now =
     exec_rows (revoke_refresh (\<lambda>r.
       rtr_signature r = signature \<and> rtr_active r \<and> now < rtr_expires_at r))"

definition delete_refresh_by_subject :: "string \<Rightarrow> unit auth_db" where
  "delete_refresh_by_subject subject =
     exec (\<lambda>t. t\<lparr>t_refresh := delete_rows (\<lambda>r. rtr_subject r = subject) (t_refresh t)\<rparr>)"

section \<open>Users\<close>

text \<open>\<open>ORDER BY role = 'admin' DESC, email\<close> as two stable sorts, the second key first.\<close>

definition users_query :: "int option \<Rightarrow> string option \<Rightarrow> user_row list auth_db" where
  "users_query ident email =
     select (\<lambda>t. sort_key (\<lambda>u. usr_role u \<noteq> ''admin'') (sort_key usr_email
       (filter (\<lambda>u. (case ident of None \<Rightarrow> True | Some i \<Rightarrow> usr_id u = i)
          \<and> (case email of None \<Rightarrow> True | Some e \<Rightarrow> usr_email u = e)) (t_users t))))"

text \<open>The rowid of an insert is one past the largest in the table. The foreign keys: the inviter
  must exist, and deleting a user forgets whom he invited and deletes his passkeys.\<close>

definition insert_user_row :: "string \<Rightarrow> string \<Rightarrow> int option \<Rightarrow> user_row auth_db" where
  "insert_user_row email role invited_by = do {
     now \<leftarrow> utc_now;
     statement (\<lambda>t.
       if email \<in> set (map usr_email (t_users t)) then Inl Constraint
       else if (case invited_by of None \<Rightarrow> False | Some i \<Rightarrow> i \<notin> set (map usr_id (t_users t)))
       then Inl Constraint
       else let u = \<lparr>usr_id = next_id (map usr_id (t_users t)), usr_email = email, usr_role = role,
                     usr_invited_by = invited_by, usr_created_at = to_timestamp now\<rparr>
            in Inr (u, t\<lparr>t_users := t_users t @ [u]\<rparr>))
   }"

definition update_user_role_row :: "string \<Rightarrow> int \<Rightarrow> unit auth_db" where
  "update_user_role_row role ident =
     exec (\<lambda>t. t\<lparr>t_users :=
       update_rows (\<lambda>u. usr_id u = ident) (\<lambda>u. u\<lparr>usr_role := role\<rparr>) (t_users t)\<rparr>)"

definition delete_user_row :: "int \<Rightarrow> unit auth_db" where
  "delete_user_row ident =
     exec (\<lambda>t. t\<lparr>
       t_users := update_rows (\<lambda>u. usr_invited_by u = Some ident) (\<lambda>u. u\<lparr>usr_invited_by := None\<rparr>)
         (delete_rows (\<lambda>u. usr_id u = ident) (t_users t)),
       t_registrations := delete_rows (\<lambda>r. wrr_user_id r = ident) (t_registrations t),
       t_credentials := delete_rows (\<lambda>c. wcr_user_id c = ident) (t_credentials t)\<rparr>)"

section \<open>Expiry\<close>

definition cleanup_expired_codes :: "int \<Rightarrow> unit auth_db" where
  "cleanup_expired_codes now =
     exec (\<lambda>t. t\<lparr>t_codes := delete_rows (\<lambda>r. acr_expires_at r < now) (t_codes t)\<rparr>)"

definition cleanup_expired_access :: "int \<Rightarrow> unit auth_db" where
  "cleanup_expired_access now = exec (delete_access (\<lambda>r. atr_expires_at r < now))"

definition cleanup_expired_refresh :: "int \<Rightarrow> unit auth_db" where
  "cleanup_expired_refresh now =
     exec (\<lambda>t. t\<lparr>t_refresh := delete_rows (\<lambda>r. rtr_expires_at r < now) (t_refresh t)\<rparr>)"

definition cleanup_expired_sessions :: "int \<Rightarrow> unit auth_db" where
  "cleanup_expired_sessions now =
     exec (\<lambda>t. t\<lparr>t_sessions := delete_rows (\<lambda>r. lsr_expires_at r < now) (t_sessions t)\<rparr>)"

definition cleanup_expired_registrations :: "int \<Rightarrow> unit auth_db" where
  "cleanup_expired_registrations now =
     exec (\<lambda>t. t\<lparr>t_registrations :=
       delete_rows (\<lambda>r. wrr_expires_at r < now) (t_registrations t)\<rparr>)"

end
