(* ===== verification/Auth_Store.thy ===== *)
theory Auth_Store
  imports Auth_Tables
begin

text \<open>
  The store of the authorization server (src/server-rs/src/auth/store/): clients, login sessions,
  authorization codes, access and refresh tokens and user roles, as the methods of \<open>Store\<close> run
  them over the tables. \<open>sig\<close> is \<open>token_signature\<close>, the base64 of a SHA-256 digest, which the
  repository takes from other crates: the methods that use it take it as an argument.
\<close>

definition seconds :: "int \<Rightarrow> int" where
  "seconds n = n * nanos"

definition days :: "int \<Rightarrow> int" where
  "days n = seconds (n * 86400)"

definition stale_client_idle :: int where
  "stale_client_idle = days 90"

section \<open>Clients (store/clients.rs)\<close>

record oauth_client =
  oc_id :: string
  oc_redirect_uris :: "string list"
  oc_grant_types :: "string list"
  oc_response_types :: "string list"
  oc_scopes :: "string list"
  oc_application_type :: string
  oc_client_name :: string
  oc_public :: bool
  oc_preseeded :: bool

definition frontend_client_id :: string where
  "frontend_client_id = ''tallyo-web''"

definition client_of_row :: "client_row \<Rightarrow> oauth_client" where
  "client_of_row r =
     \<lparr>oc_id = ocr_id r, oc_redirect_uris = ocr_redirect_uris r,
      oc_grant_types = ocr_grant_types r, oc_response_types = ocr_response_types r,
      oc_scopes = split_whitespace (ocr_scopes r),
      oc_application_type = ocr_application_type r,
      oc_client_name = coalesce (ocr_client_name r), oc_public = ocr_is_public r,
      oc_preseeded = ocr_is_preseeded r\<rparr>"

lemma client_of_row_simps [simp]:
  "oc_id (client_of_row r) = ocr_id r"
  "oc_redirect_uris (client_of_row r) = ocr_redirect_uris r"
  "oc_grant_types (client_of_row r) = ocr_grant_types r"
  "oc_response_types (client_of_row r) = ocr_response_types r"
  "oc_scopes (client_of_row r) = split_whitespace (ocr_scopes r)"
  "oc_preseeded (client_of_row r) = ocr_is_preseeded r"
  by (simp_all add: client_of_row_def)

definition save_client :: "oauth_client \<Rightarrow> unit auth_db" where
  "save_client c =
     save_o_auth_client (oc_id c) (oc_redirect_uris c) (oc_grant_types c) (oc_response_types c)
       (join '' '' (oc_scopes c)) (oc_application_type c) (Some (oc_client_name c))
       (oc_public c) (oc_preseeded c)"

definition upsert_frontend_client :: "string list \<Rightarrow> unit auth_db" where
  "upsert_frontend_client redirect_uris =
     save_client \<lparr>oc_id = frontend_client_id, oc_redirect_uris = redirect_uris,
       oc_grant_types = [''authorization_code'', ''refresh_token''],
       oc_response_types = [''code''], oc_scopes = client_allowed_scopes,
       oc_application_type = ''web'', oc_client_name = ''Tallyo Web'', oc_public = True,
       oc_preseeded = True\<rparr>"

definition touch_client :: "string \<Rightarrow> unit auth_db" where
  "touch_client ident = do { now \<leftarrow> utc_now; touch_o_auth_client (to_timestamp now) ident }"

definition client :: "string \<Rightarrow> oauth_client option auth_db" where
  "client ident = try_bind (o_auth_client_opt ident) (\<lambda>row. ok (map_option client_of_row row))"

section \<open>Users (store/users.rs)\<close>

definition user_role :: "string \<Rightarrow> role option auth_db" where
  "user_role email =
     try_bind (users_query None (Some email)) (\<lambda>rows.
       case rows of
         [] \<Rightarrow> ok None
       | u # _ \<Rightarrow> (case role_from_str (to_ascii_uppercase (usr_role u)) of
             None \<Rightarrow> err (Msg ''parse persisted user role'')
           | Some role \<Rightarrow> ok (Some role)))"

definition is_email_allowed :: "string \<Rightarrow> bool auth_db" where
  "is_email_allowed email = try_bind (user_role email) (\<lambda>role. ok (role \<noteq> None))"

section \<open>Tokens (store/tokens.rs)\<close>

record oauth_token =
  tok_signature :: string
  tok_client_id :: string
  tok_subject :: string
  tok_scopes :: "string list"
  tok_expires_at :: int
  tok_request_id :: string
  tok_active :: bool
  tok_first_issued_at :: "int option"

definition token_of_access_row :: "string \<Rightarrow> access_row \<Rightarrow> oauth_token" where
  "token_of_access_row signature r =
     \<lparr>tok_signature = signature, tok_client_id = atr_client_id r, tok_subject = atr_subject r,
      tok_scopes = split_whitespace (coalesce (atr_scopes r)),
      tok_expires_at = of_timestamp (atr_expires_at r),
      tok_request_id = coalesce (atr_request_id r), tok_active = True,
      tok_first_issued_at = None\<rparr>"

definition token_of_refresh_row :: "string \<Rightarrow> refresh_row \<Rightarrow> oauth_token" where
  "token_of_refresh_row signature r =
     \<lparr>tok_signature = signature, tok_client_id = rtr_client_id r, tok_subject = rtr_subject r,
      tok_scopes = split_whitespace (coalesce (rtr_scopes r)),
      tok_expires_at = of_timestamp (rtr_expires_at r),
      tok_request_id = coalesce (rtr_request_id r), tok_active = rtr_active r,
      tok_first_issued_at = Some (of_timestamp (case rtr_first_issued_at r of
        None \<Rightarrow> rtr_created_at r | Some t \<Rightarrow> t))\<rparr>"

definition create_auth_code :: "(string \<Rightarrow> string) \<Rightarrow> string \<Rightarrow> auth_code \<Rightarrow> unit auth_db" where
  "create_auth_code sig code auth = create_auth_code_row (sig code) auth"

definition auth_code ::
    "(string \<Rightarrow> string) \<Rightarrow> string \<Rightarrow> int \<Rightarrow> bool \<Rightarrow> auth_code option auth_db" where
  "auth_code sig code now active_only = auth_code_opt (sig code) (to_timestamp now) active_only"

definition invalidate_auth_code :: "(string \<Rightarrow> string) \<Rightarrow> string \<Rightarrow> bool auth_db" where
  "invalidate_auth_code sig code = try_bind (invalidate_code (sig code)) (\<lambda>n. ok (n = 1))"

definition update_auth_code_pkce ::
    "(string \<Rightarrow> string) \<Rightarrow> string \<Rightarrow> string \<Rightarrow> string \<Rightarrow> unit auth_db" where
  "update_auth_code_pkce sig code challenge challenge_method =
     update_code_pkce challenge challenge_method (sig code)"

definition non_empty :: "string \<Rightarrow> string option" where
  "non_empty s = (if s = '''' then None else Some s)"

definition create_access_token :: "oauth_token \<Rightarrow> unit auth_db" where
  "create_access_token token =
     create_access_row (tok_signature token) (tok_client_id token) (tok_subject token)
       (Some (join '' '' (tok_scopes token))) (to_timestamp (tok_expires_at token))
       (non_empty (tok_request_id token))"

definition access_token :: "string \<Rightarrow> int \<Rightarrow> oauth_token option auth_db" where
  "access_token signature now =
     try_bind (access_row_opt signature (to_timestamp now))
       (\<lambda>row. ok (map_option (token_of_access_row signature) row))"

definition create_refresh_token :: "oauth_token \<Rightarrow> unit auth_db" where
  "create_refresh_token token =
     create_refresh_row (tok_signature token) (tok_client_id token) (tok_subject token)
       (Some (join '' '' (tok_scopes token))) (to_timestamp (tok_expires_at token))
       (non_empty (tok_request_id token)) (map_option to_timestamp (tok_first_issued_at token))"

definition refresh_token :: "string \<Rightarrow> int \<Rightarrow> bool \<Rightarrow> oauth_token option auth_db" where
  "refresh_token signature now active_only =
     try_bind (refresh_row_opt signature (to_timestamp now) active_only)
       (\<lambda>row. ok (map_option (token_of_refresh_row signature) row))"

definition revoke_live_refresh_token :: "string \<Rightarrow> int \<Rightarrow> unit auth_db" where
  "revoke_live_refresh_token signature now =
     try_bind (revoke_live_refresh_row signature (to_timestamp now))
       (\<lambda>rows. affected rows ''revoke live refresh token'')"

definition revoke_token_chain :: "string \<Rightarrow> unit auth_db" where
  "revoke_token_chain request_id =
     try_bind (delete_access_by_request request_id)
       (\<lambda>_. revoke_refresh_by_request request_id)"

definition insert_token_pair :: "oauth_token \<Rightarrow> oauth_token \<Rightarrow> unit auth_db" where
  "insert_token_pair access refresh =
     try_bind
       (create_access_row (tok_signature access) (tok_client_id access) (tok_subject access)
         (Some (join '' '' (tok_scopes access))) (to_timestamp (tok_expires_at access))
         (Some (tok_request_id access)))
       (\<lambda>_. try_bind
         (create_refresh_row (tok_signature refresh) (tok_client_id refresh) (tok_subject refresh)
           (Some (join '' '' (tok_scopes refresh))) (to_timestamp (tok_expires_at refresh))
           (Some (tok_request_id refresh)) (map_option to_timestamp (tok_first_issued_at refresh)))
         (\<lambda>_. ok ()))"

definition exchange_auth_code ::
    "(string \<Rightarrow> string) \<Rightarrow> string \<Rightarrow> oauth_token \<Rightarrow> oauth_token \<Rightarrow> bool auth_db" where
  "exchange_auth_code sig code access refresh =
     with_tx (try_bind (invalidate_code (sig code)) (\<lambda>invalidated.
       if invalidated \<noteq> 1 then ok False
       else try_bind (insert_token_pair access refresh) (\<lambda>_. ok True)))"

definition rotate_refresh_token ::
    "string \<Rightarrow> int \<Rightarrow> oauth_token \<Rightarrow> oauth_token \<Rightarrow> bool auth_db" where
  "rotate_refresh_token old_signature now access refresh =
     with_tx (try_bind (revoke_live_refresh_row old_signature (to_timestamp now)) (\<lambda>revoked.
       if revoked \<noteq> 1 then ok False
       else try_bind (delete_access_by_request (tok_request_id refresh)) (\<lambda>_.
         try_bind (insert_token_pair access refresh) (\<lambda>_. ok True))))"

section \<open>Login sessions (store/sessions.rs)\<close>

definition create_login_session :: "login_session \<Rightarrow> unit auth_db" where
  "create_login_session session =
     create_login_session_row session (non_empty (ls_browser_binding session))"

definition bind_login_session :: "string \<Rightarrow> string \<Rightarrow> bool auth_db" where
  "bind_login_session ident binding_signature =
     try_bind (lift utc_now) (\<lambda>now.
       try_bind (bind_session binding_signature ident (to_timestamp now)) (\<lambda>n. ok (n = 1)))"

definition first_session :: "login_session list \<Rightarrow> login_session option" where
  "first_session rows = (case rows of [] \<Rightarrow> None | s # _ \<Rightarrow> Some s)"

definition login_session_by_id :: "string \<Rightarrow> login_session option auth_db" where
  "login_session_by_id ident =
     try_bind (login_sessions (Some ident) None) (\<lambda>rows. ok (first_session rows))"

definition login_session_by_callback_state :: "string \<Rightarrow> login_session option auth_db" where
  "login_session_by_callback_state callback_state =
     try_bind (login_sessions None (Some callback_state)) (\<lambda>rows. ok (first_session rows))"

definition mark_login_session_authenticated :: "string \<Rightarrow> string \<Rightarrow> unit auth_db" where
  "mark_login_session_authenticated ident subject =
     try_bind (lift utc_now) (\<lambda>now.
       try_bind (mark_session_authenticated subject ident (to_timestamp now))
         (\<lambda>rows. affected rows ''mark login session authenticated''))"

definition claim_authenticated_login_session :: "string \<Rightarrow> bool auth_db" where
  "claim_authenticated_login_session ident =
     try_bind (lift utc_now) (\<lambda>now.
       try_bind (claim_authenticated_session ident (to_timestamp now)) (\<lambda>n. ok (n = 1)))"

definition delete_login_session :: "string \<Rightarrow> unit auth_db" where
  "delete_login_session ident = delete_session ident"

record email_otp_update =
  eou_session_id :: string
  eou_email :: string
  eou_hashed_otp :: string
  eou_hashed_magic_token :: string
  eou_pkce_verifier :: string
  eou_expires_at :: int

definition save_email_otp :: "email_otp_update \<Rightarrow> unit auth_db" where
  "save_email_otp u =
     save_session_email_otp (eou_email u) (eou_hashed_otp u) (to_timestamp (eou_expires_at u))
       (eou_hashed_magic_token u) (eou_pkce_verifier u) (eou_session_id u)"

definition otp_live :: "login_session \<Rightarrow> int \<Rightarrow> bool" where
  "otp_live session now =
     (case ls_email_otp_expires_at session of None \<Rightarrow> False | Some e \<Rightarrow> now < of_timestamp e)"

definition stored_secret :: "string \<Rightarrow> login_session \<Rightarrow> bool \<Rightarrow> string auth_db" where
  "stored_secret session_id session otp =
     (if otp then
        try_bind (ensure (ls_email_otp_attempts session < 5) ''too_many_attempts'') (\<lambda>_.
        try_bind (lift utc_now) (\<lambda>now.
        try_bind (ensure (ls_email_otp session \<noteq> '''' \<and> otp_live session now) ''expired'') (\<lambda>_.
        try_bind (increment_email_otp_attempts session_id) (\<lambda>_. ok (ls_email_otp session)))))
      else
        try_bind (ensure (\<not> ls_authenticated session) ''already_used'') (\<lambda>_.
        try_bind (lift utc_now) (\<lambda>now.
        try_bind (ensure (ls_email_magic_token session \<noteq> '''' \<and> otp_live session now) ''expired'')
          (\<lambda>_. ok (ls_email_magic_token session)))))"

definition verify_email_secret ::
    "(string \<Rightarrow> string) \<Rightarrow> string \<Rightarrow> string \<Rightarrow> string \<Rightarrow> bool \<Rightarrow> login_session auth_db" where
  "verify_email_secret sig session_id email secret otp =
     try_bind (login_session_by_id session_id) (\<lambda>found.
     try_bind (ok_or ''login session not found'' found) (\<lambda>session.
     try_bind (stored_secret session_id session otp) (\<lambda>stored.
     try_bind (ensure (ls_email session = email \<and> stored = sig secret)
       (if otp then ''invalid_code'' else ''invalid_token'')) (\<lambda>_.
     try_bind (mark_login_session_authenticated session_id (ls_email session)) (\<lambda>_.
     try_bind (login_session_by_id session_id) (\<lambda>again.
     ok_or ''login session not found'' again))))))"

definition verify_email_otp ::
    "(string \<Rightarrow> string) \<Rightarrow> string \<Rightarrow> string \<Rightarrow> string \<Rightarrow> login_session auth_db" where
  "verify_email_otp sig session_id email otp = verify_email_secret sig session_id email otp True"

definition verify_email_magic_token ::
    "(string \<Rightarrow> string) \<Rightarrow> string \<Rightarrow> string \<Rightarrow> string \<Rightarrow> login_session auth_db" where
  "verify_email_magic_token sig session_id email token =
     verify_email_secret sig session_id email token False"

definition cleanup_expired :: "unit auth_db" where
  "cleanup_expired =
     try_bind (lift utc_now) (\<lambda>t0. let now = to_timestamp t0 in
     try_bind (cleanup_expired_codes now) (\<lambda>_.
     try_bind (cleanup_expired_access now) (\<lambda>_.
     try_bind (cleanup_expired_refresh now) (\<lambda>_.
     try_bind (cleanup_expired_sessions now) (\<lambda>_.
     try_bind (cleanup_expired_registrations now) (\<lambda>_.
     try_bind (lift utc_now) (\<lambda>t1.
     cleanup_stale_o_auth_clients (to_timestamp (t1 - stale_client_idle)) now)))))))"

end
