(* ===== verification/Http.thy ===== *)
theory Http
  imports Rust_Text
begin

text \<open>
  Responses as the handlers build them (src/server-rs/src/auth/oauth.rs and the axum responses it
  uses): a status, headers with lower-case names, and a body that is empty, plain text, HTML or
  JSON (which fixes the content type).
\<close>

datatype json =
  JNull | JBool bool | JNum int | JStr string | JArr "json list" | JObj "(string \<times> json) list"

datatype body = NoBody | Text string | Html string | Json json

record http_response =
  rsp_status :: int
  rsp_headers :: "(string \<times> string) list"
  rsp_body :: body

definition status_response :: "int \<Rightarrow> http_response" where
  "status_response status = \<lparr>rsp_status = status, rsp_headers = [], rsp_body = NoBody\<rparr>"

definition text_response :: "int \<Rightarrow> string \<Rightarrow> http_response" where
  "text_response status message = \<lparr>rsp_status = status, rsp_headers = [], rsp_body = Text message\<rparr>"

definition html_response :: "string \<Rightarrow> http_response" where
  "html_response page = \<lparr>rsp_status = 200, rsp_headers = [], rsp_body = Html page\<rparr>"

text \<open>\<open>HeaderMap::insert\<close> replaces, \<open>HeaderMap::append\<close> keeps the values already there.\<close>

definition insert_header :: "string \<Rightarrow> string \<Rightarrow> http_response \<Rightarrow> http_response" where
  "insert_header name value r =
     r\<lparr>rsp_headers := filter (\<lambda>(n, _). n \<noteq> to_ascii_lowercase name) (rsp_headers r)
        @ [(to_ascii_lowercase name, value)]\<rparr>"

definition append_header :: "string \<Rightarrow> string \<Rightarrow> http_response \<Rightarrow> http_response" where
  "append_header name value r = r\<lparr>rsp_headers := rsp_headers r @ [(to_ascii_lowercase name, value)]\<rparr>"

definition json_response :: "int \<Rightarrow> json \<Rightarrow> http_response" where
  "json_response status value = \<lparr>rsp_status = status, rsp_headers = [], rsp_body = Json value\<rparr>"

definition public_json :: "json \<Rightarrow> http_response" where
  "public_json value =
     insert_header ''Access-Control-Allow-Origin'' ''*'' (json_response 200 value)"

definition oauth_error :: "int \<Rightarrow> string \<Rightarrow> string \<Rightarrow> http_response" where
  "oauth_error status error description =
     json_response status
       (JObj [(''error'', JStr error), (''error_description'', JStr description)])"

lemma response_simps [simp]:
  "rsp_status (status_response s) = s"
  "rsp_status (text_response s m) = s"
  "rsp_status (html_response p) = 200"
  "rsp_status (json_response s v) = s"
  "rsp_status (public_json v) = 200"
  "rsp_status (oauth_error s e d) = s"
  "rsp_status (insert_header n h r) = rsp_status r"
  "rsp_status (append_header n h r) = rsp_status r"
  "rsp_body (status_response s) = NoBody"
  "rsp_body (text_response s m) = Text m"
  "rsp_body (html_response p) = Html p"
  "rsp_body (json_response s v) = Json v"
  "rsp_body (public_json v) = Json v"
  "rsp_body (oauth_error s e d) =
     Json (JObj [(''error'', JStr e), (''error_description'', JStr d)])"
  "rsp_body (insert_header n h r) = rsp_body r"
  "rsp_body (append_header n h r) = rsp_body r"
  by (simp_all add: status_response_def text_response_def html_response_def json_response_def
      public_json_def oauth_error_def insert_header_def append_header_def)

text \<open>Request headers, in the order they arrived. \<open>HeaderMap::get\<close> is the first value of a
  name; \<open>HeaderValue::to_str\<close> accepts visible ASCII, space and tab only.\<close>

type_synonym headers = "(string \<times> string) list"

definition get_header :: "string \<Rightarrow> headers \<Rightarrow> string option" where
  "get_header name hs = map_option snd (find (\<lambda>(n, _). n = to_ascii_lowercase name) hs)"

definition get_all :: "string \<Rightarrow> headers \<Rightarrow> string list" where
  "get_all name hs = map snd (filter (\<lambda>(n, _). n = to_ascii_lowercase name) hs)"

definition code_point :: "char \<Rightarrow> nat" where
  "code_point c = of_char c"

definition visible :: "char \<Rightarrow> bool" where
  "visible c \<longleftrightarrow> (32 \<le> code_point c \<and> code_point c < 127) \<or> code_point c = 9"

definition to_str :: "string \<Rightarrow> string option" where
  "to_str v = (if list_all visible v then Some v else None)"

text \<open>\<open>HeaderValue::from_str\<close> accepts the same characters and the bytes of other code points.\<close>

definition header_value_ok :: "string \<Rightarrow> bool" where
  "header_value_ok v = list_all (\<lambda>c. (32 \<le> code_point c \<and> code_point c \<noteq> 127) \<or> code_point c = 9) v"

end
