(* ===== verification/Auth_Service.thy ===== *)
theory Auth_Service
  imports Auth_Store Http
begin

text \<open>
  The authentication service (src/server-rs/src/auth/service.rs, config.rs and crypto.rs): its
  settings, what it takes from other crates, and the access tokens it mints and verifies.
  \<open>externals\<close> collects the third-party functions: SHA-256 with base64 (\<open>token_signature\<close>),
  signing and decoding JSON Web Tokens, parsing and printing URLs, Unicode lower case,
  form encoding, SMTP and the answers of Google's endpoints. A lifetime is in nanoseconds.
\<close>

record claims =
  cl_iss :: string
  cl_sub :: string
  cl_aud :: "string list"
  cl_exp :: int
  cl_iat :: int
  cl_jti :: string
  cl_scope :: string
  cl_email :: string
  cl_timezone :: string

text \<open>\<open>url::Url\<close> as the handlers look at it and change it.\<close>

record parsed_url =
  url_scheme :: string
  url_username :: string
  url_password :: "string option"
  url_host :: "string option"
  url_path :: string
  url_query :: "(string \<times> string) list option"
  url_fragment :: "string option"

datatype 'a remote = Answer 'a | Failed | Timed_Out

record externals =
  x_token_signature :: "string \<Rightarrow> string"
  x_jwt_encode :: "claims \<Rightarrow> string option"
  x_jwt_decode :: "string \<Rightarrow> int \<Rightarrow> string \<Rightarrow> claims option"
  x_url_parse :: "string \<Rightarrow> parsed_url option"
  x_url_print :: "parsed_url \<Rightarrow> string"
  x_lowercase :: "string \<Rightarrow> string"
  x_form_encode :: "(string \<times> string) list \<Rightarrow> string"
  x_send_mail :: "string \<Rightarrow> string \<Rightarrow> bool"
  x_google_exchange :: "string \<Rightarrow> string remote"
  x_google_userinfo :: "string \<Rightarrow> (string \<times> bool) remote"

section \<open>Settings (config.rs)\<close>

record auth_settings =
  as_issuer_url :: string
  as_oauth_enabled :: bool
  as_disable_all_auth :: bool
  as_master_password :: "string option"
  as_master_password_from_env :: bool
  as_frontend_redirect_uris :: "string list"
  as_access_token_lifetime :: int
  as_refresh_token_lifetime :: int
  as_dev_cors_allowed_origins :: "string list"

definition access_token_lifetime_default :: int where
  "access_token_lifetime_default = seconds (15 * 60)"

definition refresh_token_lifetime_default :: int where
  "refresh_token_lifetime_default = seconds (168 * 60 * 60)"

definition login_session_lifetime :: int where
  "login_session_lifetime = seconds 120"

fun drop_slashes :: "string \<Rightarrow> string" where
  "drop_slashes [] = []"
| "drop_slashes (c # s) = (if c = CHR ''/'' then drop_slashes s else c # s)"

definition trim_end_slashes :: "string \<Rightarrow> string" where
  "trim_end_slashes s = rev (drop_slashes (rev s))"

definition normalize_auth_settings :: "auth_settings \<Rightarrow> error + auth_settings" where
  "normalize_auth_settings settings =
     (let s = settings\<lparr>as_issuer_url := trim_end_slashes (as_issuer_url settings)\<rparr>
      in if as_oauth_enabled s \<and> as_issuer_url s = '''' then Inl (Msg ''oauth issuer url is required'')
         else let s = (if as_access_token_lifetime s = 0
                       then s\<lparr>as_access_token_lifetime := access_token_lifetime_default\<rparr> else s)
              in Inr (if as_refresh_token_lifetime s = 0
                      then s\<lparr>as_refresh_token_lifetime := refresh_token_lifetime_default\<rparr> else s))"

record dcr_settings =
  dcr_enabled :: bool
  dcr_dynamic_redirect_hosts :: "string list"

record google_settings =
  gs_enabled :: bool
  gs_client_id :: string
  gs_client_secret :: string
  gs_auth :: string
  gs_token :: string
  gs_userinfo :: string

section \<open>The service\<close>

record service =
  sv_auth :: auth_settings
  sv_dcr :: dcr_settings
  sv_email_enabled :: bool
  sv_google_settings :: google_settings
  sv_google :: bool
  sv_passkey_enabled :: bool
  sv_dev_origins :: "string list"
  sv_timezone :: string
  sv_ext :: externals

abbreviation issuer_url :: "service \<Rightarrow> string" where
  "issuer_url sv \<equiv> as_issuer_url (sv_auth sv)"

abbreviation token_signature :: "service \<Rightarrow> string \<Rightarrow> string" where
  "token_signature sv \<equiv> x_token_signature (sv_ext sv)"

text \<open>\<open>code_challenge\<close> is the same digest (RFC 7636's S256).\<close>

definition code_challenge :: "service \<Rightarrow> string \<Rightarrow> string" where
  "code_challenge sv verifier = token_signature sv verifier"

definition normalize_origins :: "string list \<Rightarrow> string list" where
  "normalize_origins origins =
     remdups (filter (\<lambda>origin. origin \<noteq> '''') (map (\<lambda>origin. trim_end_slashes (trim origin)) origins))"

definition dev_origin_allowed :: "service \<Rightarrow> string \<Rightarrow> bool" where
  "dev_origin_allowed sv origin \<longleftrightarrow> origin \<in> set (sv_dev_origins sv)"

text \<open>The Google client exists when it is enabled; building it fails when one of its endpoints is
  not a URL.\<close>

definition google_client :: "service \<Rightarrow> error + bool" where
  "google_client sv =
     (let g = sv_google_settings sv; parses = (\<lambda>url. x_url_parse (sv_ext sv) url \<noteq> None)
      in if \<not> gs_enabled g then Inr False
         else if \<not> parses (gs_auth g) then Inl (Msg ''parse google auth URL'')
         else if \<not> parses (gs_token g) then Inl (Msg ''parse google token URL'')
         else if \<not> parses (gs_userinfo g) then Inl (Msg ''parse google userinfo URL'')
         else Inr True)"

text \<open>\<open>prepare_auth_settings\<close> normalises and saves first; the closure it returns commits the new
  settings, keeping a master password that came from the environment.\<close>

definition commit_auth_settings :: "auth_settings \<Rightarrow> bool \<Rightarrow> service \<Rightarrow> service" where
  "commit_auth_settings next google sv =
     sv\<lparr>sv_auth := (if as_master_password_from_env next
                    then next\<lparr>as_master_password := as_master_password (sv_auth sv)\<rparr> else next),
        sv_dev_origins := normalize_origins (as_dev_cors_allowed_origins next),
        sv_google := google\<rparr>"

definition prepare_auth_settings ::
    "service \<Rightarrow> auth_settings \<Rightarrow> (service \<Rightarrow> service) auth_db" where
  "prepare_auth_settings sv next =
     (case normalize_auth_settings next of
        Inl e \<Rightarrow> err e
      | Inr settings \<Rightarrow>
          try_bind (upsert_frontend_client (as_frontend_redirect_uris settings)) (\<lambda>_.
            case google_client sv of
              Inl e \<Rightarrow> err e
            | Inr google \<Rightarrow> ok (commit_auth_settings settings google)))"

datatype master_password_status = Disabled | Enabled | EnvVarOverride

definition master_password_status :: "service \<Rightarrow> master_password_status" where
  "master_password_status sv =
     (case as_master_password (sv_auth sv) of
        None \<Rightarrow> Disabled
      | Some _ \<Rightarrow> if as_master_password_from_env (sv_auth sv) then EnvVarOverride else Enabled)"

section \<open>Access tokens (crypto.rs)\<close>

text \<open>\<open>chrono::Duration::from_std\<close> fails beyond \<open>i64::MAX\<close> milliseconds.\<close>

definition from_std :: "int \<Rightarrow> ('t, int) fallible" where
  "from_std d = (if d \<le> (2 ^ 63 - 1) * 1000000 then ok d else err (Msg ''out of range''))"

lemma wp_from_std [wp_rules]:
  "wp (from_std d) Q w \<longleftrightarrow>
     (if d \<le> (2 ^ 63 - 1) * 1000000 then Q (Inr d) w else Q (Inl (Msg ''out of range'')) w)"
  by (simp add: from_std_def wp_ok wp_err)

definition mint_access_token :: "service \<Rightarrow> string \<Rightarrow> scope list \<Rightarrow> string \<Rightarrow> string auth_db" where
  "mint_access_token sv subject scopes timezone =
     try_bind (lift utc_now) (\<lambda>now.
     try_bind (from_std (as_access_token_lifetime (sv_auth sv))) (\<lambda>lifetime.
     try_bind (lift (random_token 32)) (\<lambda>jti.
       case x_jwt_encode (sv_ext sv)
         \<lparr>cl_iss = issuer_url sv, cl_sub = subject, cl_aud = [issuer_url sv],
          cl_exp = (now + lifetime) div nanos, cl_iat = now div nanos, cl_jti = jti,
          cl_scope = scopes_to_string scopes, cl_email = subject, cl_timezone = timezone\<rparr> of
         None \<Rightarrow> err (Msg ''sign access token'')
       | Some token \<Rightarrow> ok token)))"

text \<open>\<open>decode\<close> checks signature, algorithm, issuer, audience, expiry (no leeway) and the required
  claims; the service adds the check of the subject. The crate reads the clock itself.\<close>

definition verify_access_token :: "service \<Rightarrow> int \<Rightarrow> string \<Rightarrow> claims option" where
  "verify_access_token sv now token =
     (case x_jwt_decode (sv_ext sv) (issuer_url sv) now token of
        None \<Rightarrow> None
      | Some c \<Rightarrow> if cl_sub c \<noteq> '''' then Some c else None)"

end
