(* ===== verification/Token_Endpoint.thy ===== *)
theory Token_Endpoint
  imports Auth_Service
begin

text \<open>
  The token endpoint and the logout endpoint (src/server-rs/src/auth/oauth/token.rs). A request
  whose form cannot be decoded is \<open>None\<close>. Both handlers hold \<open>token_lock\<close> while they run.
\<close>

definition refresh_chain_lifetime :: int where
  "refresh_chain_lifetime = days 30"

definition INVALID_CLIENT :: string where
  "INVALID_CLIENT = ''Client authentication failed (e.g., unknown client, no client authentication included, or unsupported authentication method).''"

definition INVALID_GRANT :: string where
  "INVALID_GRANT = ''The provided authorization grant is invalid, expired, revoked, does not match the redirection URI used in the authorization request, or was issued to another client.''"

definition INVALID_REQUEST :: string where
  "INVALID_REQUEST = ''The request is missing a required parameter, includes an invalid parameter value, includes a parameter more than once, or is otherwise malformed.''"

definition UNSUPPORTED_GRANT_TYPE :: string where
  "UNSUPPORTED_GRANT_TYPE = ''The authorization grant type is not supported by the authorization server.''"

definition UNAUTHORIZED_CLIENT :: string where
  "UNAUTHORIZED_CLIENT = ''The client is not authorized to request this authorization grant type.''"

record token_request =
  trq_grant_type :: string
  trq_client_id :: "string option"
  trq_code :: "string option"
  trq_code_verifier :: "string option"
  trq_redirect_uri :: "string option"
  trq_refresh_token :: "string option"

record token_pair =
  tp_access :: oauth_token
  tp_refresh :: oauth_token
  tp_response :: json

definition invalid_client :: http_response where
  "invalid_client = oauth_error 401 ''invalid_client'' INVALID_CLIENT"

definition invalid_grant :: http_response where
  "invalid_grant = oauth_error 400 ''invalid_grant'' INVALID_GRANT"

definition token_response :: "http_response \<Rightarrow> http_response" where
  "token_response r =
     insert_header ''Pragma'' ''no-cache'' (insert_header ''Cache-Control'' ''no-store'' r)"

lemma token_response_simps [simp]:
  "rsp_status (token_response r) = rsp_status r"
  "rsp_body (token_response r) = rsp_body r"
  by (simp_all add: token_response_def)

lemma error_status_simps [simp]: "rsp_status invalid_client = 401" "rsp_status invalid_grant = 400"
  by (simp_all add: invalid_client_def invalid_grant_def)

text \<open>A list of fallible conversions, all or nothing.\<close>

fun collect_scopes :: "string list \<Rightarrow> scope list option" where
  "collect_scopes [] = Some []"
| "collect_scopes (w # ws) =
     (case scope_from_str w of
        None \<Rightarrow> None
      | Some sc \<Rightarrow> (case collect_scopes ws of None \<Rightarrow> None | Some scs \<Rightarrow> Some (sc # scs)))"

definition mint_token_pair ::
    "service \<Rightarrow> string \<Rightarrow> string \<Rightarrow> string \<Rightarrow> string \<Rightarrow> int \<Rightarrow> token_pair auth_db" where
  "mint_token_pair sv client_id subject scope_value request_id first_issued_at =
     try_bind (ok_or ''unknown scope'' (collect_scopes (split_whitespace scope_value))) (\<lambda>scopes.
     try_bind (mint_access_token sv subject scopes (sv_timezone sv)) (\<lambda>access_token.
     try_bind (lift utc_now) (\<lambda>now.
     try_bind (ok_or ''access token signature missing'' (rsplit_once (CHR ''.'') access_token))
       (\<lambda>(_, signature).
     try_bind (from_std (as_access_token_lifetime (sv_auth sv))) (\<lambda>access_lifetime.
     let access =
       \<lparr>tok_signature = signature, tok_client_id = client_id, tok_subject = subject,
        tok_scopes = map scope_name scopes, tok_expires_at = now + access_lifetime,
        tok_request_id = request_id, tok_active = True, tok_first_issued_at = None\<rparr>
     in
     try_bind (lift (random_token 32)) (\<lambda>refresh_token.
     try_bind (from_std (as_refresh_token_lifetime (sv_auth sv))) (\<lambda>refresh_lifetime.
     let refresh =
       \<lparr>tok_signature = token_signature sv refresh_token, tok_client_id = client_id,
        tok_subject = subject, tok_scopes = tok_scopes access,
        tok_expires_at = now + refresh_lifetime, tok_request_id = request_id,
        tok_active = True, tok_first_issued_at = Some first_issued_at\<rparr>
     in ok
       \<lparr>tp_access = access, tp_refresh = refresh,
        tp_response = JObj
          [(''access_token'', JStr access_token), (''token_type'', JStr ''bearer''),
           (''expires_in'', JNum (as_access_token_lifetime (sv_auth sv) div nanos)),
           (''refresh_token'', JStr refresh_token),
           (''scope'', JStr (join '' '' (tok_scopes access)))]\<rparr>)))))))"

text \<open>A failure to touch the client is only logged.\<close>

definition issued :: "string \<Rightarrow> json \<Rightarrow> http_response auth_io" where
  "issued client_id response = do {
     _ \<leftarrow> touch_client client_id;
     State_Monad.return (json_response 200 response)
   }"

definition present :: "string option \<Rightarrow> string option" where
  "present v = (case v of None \<Rightarrow> None | Some s \<Rightarrow> if s = '''' then None else Some s)"

lemma present_Some: "present v = Some s \<longleftrightarrow> v = Some s \<and> s \<noteq> ''''"
  by (auto simp: present_def split: option.splits)

definition code_mismatch :: "service \<Rightarrow> token_request \<Rightarrow> string \<Rightarrow> auth_code \<Rightarrow> bool" where
  "code_mismatch sv request client_id code_session \<longleftrightarrow>
     ac_client_id code_session \<noteq> client_id
     \<or> trq_redirect_uri request \<noteq> Some (ac_redirect_uri code_session)
     \<or> (case trq_code_verifier request of
          None \<Rightarrow> True
        | Some verifier \<Rightarrow>
            verifier = '''' \<or> ac_code_challenge_method code_session \<noteq> ''S256''
            \<or> code_challenge sv verifier \<noteq> ac_code_challenge code_session)"

definition revoke_and_refuse :: "string \<Rightarrow> http_response auth_io" where
  "revoke_and_refuse request_id = do {
     revoked \<leftarrow> revoke_token_chain request_id;
     State_Monad.return
       (case revoked of Inl _ \<Rightarrow> text_response 500 ''revoke token chain'' | Inr _ \<Rightarrow> invalid_grant)
   }"

definition exchange_authorization_code :: "service \<Rightarrow> token_request \<Rightarrow> http_response auth_io" where
  "exchange_authorization_code sv request =
     (case present (trq_client_id request) of
        None \<Rightarrow> State_Monad.return invalid_client
      | Some client_id \<Rightarrow> do {
          found \<leftarrow> client client_id;
          (case found of
             Inl _ \<Rightarrow> State_Monad.return (text_response 500 ''load client'')
           | Inr None \<Rightarrow> State_Monad.return invalid_client
           | Inr (Some c) \<Rightarrow>
               if ''authorization_code'' \<notin> set (oc_grant_types c)
               then State_Monad.return (oauth_error 400 ''unauthorized_client'' UNAUTHORIZED_CLIENT)
               else (case present (trq_code request) of
                  None \<Rightarrow> State_Monad.return (oauth_error 400 ''invalid_request'' INVALID_REQUEST)
                | Some code \<Rightarrow> do {
                    now \<leftarrow> utc_now;
                    loaded \<leftarrow> auth_code (token_signature sv) code now False;
                    (case loaded of
                       Inr None \<Rightarrow> State_Monad.return invalid_grant
                     | Inl _ \<Rightarrow> State_Monad.return (text_response 500 ''load authorization code'')
                     | Inr (Some code_session) \<Rightarrow>
                         if \<not> ac_active code_session then revoke_and_refuse code
                         else if code_mismatch sv request client_id code_session
                         then State_Monad.return invalid_grant
                         else do {
                           minted \<leftarrow> mint_token_pair sv client_id (ac_subject code_session)
                             (ac_scopes code_session) code now;
                           (case minted of
                              Inl _ \<Rightarrow> State_Monad.return (text_response 500 ''mint access token'')
                            | Inr token \<Rightarrow> do {
                                exchanged \<leftarrow> exchange_auth_code (token_signature sv) code
                                  (tp_access token) (tp_refresh token);
                                (case exchanged of
                                   Inr True \<Rightarrow> issued client_id (tp_response token)
                                 | Inr False \<Rightarrow> revoke_and_refuse code
                                 | Inl _ \<Rightarrow> State_Monad.return (text_response 500 ''create token''))
                              })
                         })
                  }))
        })"

definition exchange_refresh_token :: "service \<Rightarrow> token_request \<Rightarrow> http_response auth_io" where
  "exchange_refresh_token sv request =
     (case present (trq_client_id request) of
        None \<Rightarrow> State_Monad.return invalid_client
      | Some client_id \<Rightarrow> do {
          found \<leftarrow> client client_id;
          (case found of
             Inl _ \<Rightarrow> State_Monad.return (text_response 500 ''load client'')
           | Inr None \<Rightarrow> State_Monad.return invalid_client
           | Inr (Some c) \<Rightarrow>
               if ''refresh_token'' \<notin> set (oc_grant_types c)
               then State_Monad.return (oauth_error 400 ''unauthorized_client'' UNAUTHORIZED_CLIENT)
               else (case present (trq_refresh_token request) of
                  None \<Rightarrow> State_Monad.return (oauth_error 400 ''invalid_request'' INVALID_REQUEST)
                | Some presented \<Rightarrow> do {
                    now \<leftarrow> utc_now;
                    loaded \<leftarrow> refresh_token (token_signature sv presented) now False;
                    (case loaded of
                       Inr None \<Rightarrow> State_Monad.return invalid_grant
                     | Inl _ \<Rightarrow> State_Monad.return (text_response 500 ''load refresh token'')
                     | Inr (Some existing) \<Rightarrow>
                         if \<not> tok_active existing then revoke_and_refuse (tok_request_id existing)
                         else if tok_client_id existing \<noteq> client_id
                         then State_Monad.return invalid_grant
                         else (let first_issued_at =
                                 (case tok_first_issued_at existing of None \<Rightarrow> now | Some t \<Rightarrow> t)
                               in if now - first_issued_at > refresh_chain_lifetime
                                  then State_Monad.return invalid_grant
                                  else do {
                           minted \<leftarrow> mint_token_pair sv (tok_client_id existing) (tok_subject existing)
                             (join '' '' (tok_scopes existing)) (tok_request_id existing)
                             first_issued_at;
                           (case minted of
                              Inl _ \<Rightarrow> State_Monad.return (text_response 500 ''mint access token'')
                            | Inr token \<Rightarrow> do {
                                rotated \<leftarrow> rotate_refresh_token (token_signature sv presented) now
                                  (tp_access token) (tp_refresh token);
                                (case rotated of
                                   Inr True \<Rightarrow> issued client_id (tp_response token)
                                 | Inr False \<Rightarrow> State_Monad.return invalid_grant
                                 | Inl _ \<Rightarrow> State_Monad.return (text_response 500 ''create token''))
                              })
                         }))
                  }))
        })"

definition exchange :: "service \<Rightarrow> token_request option \<Rightarrow> http_response auth_io" where
  "exchange sv request =
     (case request of
        None \<Rightarrow> State_Monad.return
          (token_response (oauth_error 400 ''invalid_request'' INVALID_REQUEST))
      | Some r \<Rightarrow> do {
          response \<leftarrow>
            (if trq_grant_type r = ''authorization_code'' then exchange_authorization_code sv r
             else if trq_grant_type r = ''refresh_token'' then exchange_refresh_token sv r
             else State_Monad.return
               (oauth_error 400 ''unsupported_grant_type'' UNSUPPORTED_GRANT_TYPE));
          State_Monad.return (token_response response)
        })"

text \<open>\<open>logout\<close> runs both revocations and reports the first failure of the two.\<close>

definition logout :: "service \<Rightarrow> string option \<Rightarrow> http_response auth_io" where
  "logout sv request =
     (case request of
        None \<Rightarrow> State_Monad.return
          (token_response (oauth_error 400 ''invalid_request'' INVALID_REQUEST))
      | Some presented \<Rightarrow> do {
          now \<leftarrow> utc_now;
          loaded \<leftarrow> refresh_token (token_signature sv presented) now False;
          revoked \<leftarrow>
            (case loaded of
               Inl e \<Rightarrow> err e
             | Inr None \<Rightarrow> ok ()
             | Inr (Some token) \<Rightarrow> do {
                 one \<leftarrow> revoke_refresh_row (token_signature sv presented);
                 chain \<leftarrow> revoke_token_chain (tok_request_id token);
                 State_Monad.return (case one of Inl e \<Rightarrow> Inl e | Inr _ \<Rightarrow> chain)
               });
          State_Monad.return (token_response
            (case revoked of
               Inr _ \<Rightarrow> status_response 204
             | Inl _ \<Rightarrow> text_response 500 ''revoke token chain''))
        })"

end
