(* ===== verification/Ledger.thy ===== *)
theory Ledger
  imports Main
begin

text \<open>
  The abstract specification of the server's one-time credentials: a ledger of the live ones, and the
  number of random tokens drawn so far. \<open>d i\<close> is the digest of the \<open>i\<close>-th token. A step of the
  ledger may spend one live credential, which then is live no more, may revoke others, and may add
  digests of tokens drawn in that very step.
\<close>

text \<open>A credential is an authorization code or a refresh token, named by its signature.\<close>

type_synonym credential = "string + string"
type_synonym ledger = "credential set \<times> nat"

definition fresh :: "(nat \<Rightarrow> string) \<Rightarrow> nat \<Rightarrow> nat \<Rightarrow> credential set" where
  "fresh d m n = {c. \<exists>i. m \<le> i \<and> i < n \<and> (c = Inl (d i) \<or> c = Inr (d i))}"

inductive ledger_step :: "(nat \<Rightarrow> string) \<Rightarrow> ledger \<Rightarrow> credential option \<Rightarrow> ledger \<Rightarrow> bool" for d where
  spend: "c \<in> L \<Longrightarrow> L' \<subseteq> (L - {c}) \<union> fresh d n n' \<Longrightarrow> n \<le> n' \<Longrightarrow>
    ledger_step d (L, n) (Some c) (L', n')"
| other: "L' \<subseteq> L \<union> fresh d n n' \<Longrightarrow> n \<le> n' \<Longrightarrow> ledger_step d (L, n) None (L', n')"

inductive_cases ledger_step_cases: "ledger_step d (L, n) s (L', n')"

inductive ledger_run :: "(nat \<Rightarrow> string) \<Rightarrow> ledger \<Rightarrow> credential option list \<Rightarrow> ledger \<Rightarrow> bool" for d where
  start: "ledger_run d l [] l"
| more: "ledger_step d l s l' \<Longrightarrow> ledger_run d l' ss l'' \<Longrightarrow> ledger_run d l (s # ss) l''"

lemma fresh_mono: "m' \<le> m \<Longrightarrow> n \<le> n' \<Longrightarrow> fresh d m n \<subseteq> fresh d m' n'"
  unfolding fresh_def by (intro Collect_mono impI, elim exE, rule_tac x = i in exI) auto

lemma fresh_split: "n \<le> n' \<Longrightarrow> c \<in> fresh d 0 n \<Longrightarrow> c \<in> fresh d 0 n'"
  using fresh_mono [of 0 0 n n' d] by blast

text \<open>With distinct digests, what was drawn before is not drawn again.\<close>

lemma fresh_disjoint: "inj d \<Longrightarrow> c \<in> fresh d 0 n \<Longrightarrow> c \<notin> fresh d n n'"
  by (auto simp: fresh_def dest: injD)

definition anchored :: "(nat \<Rightarrow> string) \<Rightarrow> ledger \<Rightarrow> bool" where
  "anchored d l \<longleftrightarrow> fst l \<subseteq> fresh d 0 (snd l)"

lemma step_anchored: "ledger_step d l s l' \<Longrightarrow> anchored d l \<Longrightarrow> anchored d l'"
proof (induction rule: ledger_step.induct)
  case (spend c L L' n n')
  then show ?case
    using fresh_mono [of 0 0 n n' d] fresh_mono [of 0 n n' n' d] by (auto simp: anchored_def)
next
  case (other L' L n n')
  then show ?case
    using fresh_mono [of 0 0 n n' d] fresh_mono [of 0 n n' n' d] by (auto simp: anchored_def)
qed

text \<open>A credential of the past that is not live can neither come back nor be spent.\<close>

definition gone :: "(nat \<Rightarrow> string) \<Rightarrow> credential \<Rightarrow> ledger \<Rightarrow> bool" where
  "gone d c l \<longleftrightarrow> c \<notin> fst l \<and> c \<in> fresh d 0 (snd l)"

lemma step_gone:
  assumes "ledger_step d l s l'" "inj d" "gone d c l"
  shows "gone d c l' \<and> s \<noteq> Some c"
  using assms
proof (induction rule: ledger_step.induct)
  case (spend c' L L' n n')
  then have "c \<in> fresh d 0 n" "c \<notin> L" by (auto simp: gone_def)
  with spend fresh_disjoint [of d c n n'] show ?case
    by (auto simp: gone_def intro: fresh_split)
next
  case (other L' L n n')
  then have "c \<in> fresh d 0 n" "c \<notin> L" by (auto simp: gone_def)
  with other fresh_disjoint [of d c n n'] show ?case
    by (auto simp: gone_def intro: fresh_split)
qed

lemma run_gone: "ledger_run d l ss l' \<Longrightarrow> inj d \<Longrightarrow> gone d c l \<Longrightarrow> Some c \<notin> set ss"
  by (induction rule: ledger_run.induct) (auto dest: step_gone)

lemma spent_gone:
  assumes "ledger_step d l (Some c) l'" "inj d" "anchored d l"
  shows "gone d c l'"
  using assms
proof (cases rule: ledger_step.cases)
  case (spend L L' n n')
  then have "c \<in> fresh d 0 n" using assms(3) by (auto simp: anchored_def)
  with spend fresh_disjoint [OF assms(2) this, of n'] show ?thesis
    by (auto simp: gone_def intro: fresh_split)
qed

definition spent :: "credential option list \<Rightarrow> credential list" where
  "spent ss = List.map_filter (\<lambda>s. s) ss"

lemma spent_simps [simp]:
  "spent [] = []" "spent (None # ss) = spent ss" "spent (Some c # ss) = c # spent ss"
  by (simp_all add: spent_def List.map_filter_simps)

lemma set_spent: "c \<in> set (spent ss) \<longleftrightarrow> Some c \<in> set ss"
proof (induction ss)
  case (Cons s ss)
  then show ?case by (cases s) auto
qed simp

lemma ledger_single_use:
  assumes "ledger_run d l ss l'" "inj d" "anchored d l"
  shows "distinct (spent ss)"
  using assms
proof (induction rule: ledger_run.induct)
  case (more l s l' ss l'')
  then have "distinct (spent ss)" using step_anchored by blast
  then show ?case
  proof (cases s)
    case (Some c)
    with more have "gone d c l'" using spent_gone by blast
    with more have "Some c \<notin> set ss" using run_gone by blast
    with Some \<open>distinct (spent ss)\<close> show ?thesis by (simp add: set_spent)
  qed simp
qed simp

end
