(* ===== verification/Auth_Laws.thy ===== *)
theory Auth_Laws
  imports Auth_Service Ledger
begin

text \<open>
  What the tables of the authorization server promise, and the statements and store operations
  that keep it: the keys of each table are distinct and an authorization code belongs to a client
  that exists. Then how credentials (authorization codes and refresh tokens) come and go: a
  credential is live while its row is active, and only the insert of that very credential makes
  one live.
\<close>

section \<open>Well-formed tables\<close>

definition has_client :: "client_row list \<Rightarrow> string \<Rightarrow> bool" where
  "has_client clients ident \<longleftrightarrow> ident \<in> set (map ocr_id clients)"

lemma has_client_update:
  "(\<And>r. ocr_id (f r) = ocr_id r) \<Longrightarrow> has_client (update_rows P f cs) ident = has_client cs ident"
  by (simp only: has_client_def map_key_update_rows)

lemma has_client_append: "has_client cs ident \<Longrightarrow> has_client (cs @ cs') ident"
  by (auto simp: has_client_def)

definition wf_auth :: "auth_tables \<Rightarrow> bool" where
  "wf_auth t \<longleftrightarrow>
     distinct (map ocr_id (t_clients t))
     \<and> distinct (map lsr_id (t_sessions t))
     \<and> distinct (map lsr_callback_state (t_sessions t))
     \<and> distinct (map acr_signature (t_codes t))
     \<and> distinct (map atr_signature (t_access t))
     \<and> distinct (map rtr_signature (t_refresh t))
     \<and> distinct (map usr_id (t_users t))
     \<and> distinct (map usr_email (t_users t))
     \<and> (\<forall>c \<in> set (t_codes t). has_client (t_clients t) (acr_client_id c))"

lemma wf_authD:
  assumes "wf_auth t"
  shows "distinct (map ocr_id (t_clients t))" "distinct (map lsr_id (t_sessions t))"
    "distinct (map lsr_callback_state (t_sessions t))" "distinct (map acr_signature (t_codes t))"
    "distinct (map atr_signature (t_access t))" "distinct (map rtr_signature (t_refresh t))"
    "distinct (map usr_id (t_users t))" "distinct (map usr_email (t_users t))"
    "c \<in> set (t_codes t) \<Longrightarrow> has_client (t_clients t) (acr_client_id c)"
  using assms by (simp_all add: wf_auth_def)

text \<open>The tables of a statement that changes rows without their keys, or deletes rows.\<close>

lemma wf_update_clients:
  "wf_auth t \<Longrightarrow> (\<And>r. ocr_id (f r) = ocr_id r) \<Longrightarrow>
   wf_auth (t\<lparr>t_clients := update_rows P f (t_clients t)\<rparr>)"
  by (simp add: wf_auth_def map_key_update_rows has_client_update)

lemma wf_update_sessions:
  "wf_auth t \<Longrightarrow> (\<And>r. lsr_id (f r) = lsr_id r \<and> lsr_callback_state (f r) = lsr_callback_state r) \<Longrightarrow>
   wf_auth (t\<lparr>t_sessions := update_rows P f (t_sessions t)\<rparr>)"
  by (simp add: wf_auth_def map_key_update_rows)

lemma wf_delete_sessions: "wf_auth t \<Longrightarrow> wf_auth (t\<lparr>t_sessions := delete_rows P (t_sessions t)\<rparr>)"
  by (simp add: wf_auth_def distinct_delete_rows)

lemma wf_update_codes:
  "wf_auth t \<Longrightarrow>
   (\<And>r. acr_signature (f r) = acr_signature r \<and> acr_client_id (f r) = acr_client_id r) \<Longrightarrow>
   wf_auth (t\<lparr>t_codes := update_rows P f (t_codes t)\<rparr>)"
  by (auto simp: wf_auth_def map_key_update_rows set_update_rows)

lemma wf_delete_codes: "wf_auth t \<Longrightarrow> wf_auth (t\<lparr>t_codes := delete_rows P (t_codes t)\<rparr>)"
  by (auto simp: wf_auth_def distinct_delete_rows)

lemma wf_delete_access: "wf_auth t \<Longrightarrow> wf_auth (delete_access P t)"
  by (simp add: wf_auth_def distinct_delete_rows delete_access_def)

lemma wf_revoke_refresh: "wf_auth t \<Longrightarrow> wf_auth (snd (revoke_refresh P t))"
  by (simp add: wf_auth_def map_key_update_rows revoke_refresh_def)

lemma wf_delete_refresh: "wf_auth t \<Longrightarrow> wf_auth (t\<lparr>t_refresh := delete_rows P (t_refresh t)\<rparr>)"
  by (simp add: wf_auth_def distinct_delete_rows)

lemma wf_other: "wf_auth t \<Longrightarrow> wf_auth (t\<lparr>t_registrations := rs\<rparr>)"
  by (simp add: wf_auth_def)

lemma wf_update_users:
  "wf_auth t \<Longrightarrow> (\<And>u. usr_id (f u) = usr_id u \<and> usr_email (f u) = usr_email u) \<Longrightarrow>
   wf_auth (t\<lparr>t_users := update_rows P f (t_users t)\<rparr>)"
  by (simp add: wf_auth_def map_key_update_rows)

lemma wf_delete_user:
  "wf_auth t \<Longrightarrow> (\<And>u. usr_id (f u) = usr_id u \<and> usr_email (f u) = usr_email u) \<Longrightarrow>
   wf_auth (t\<lparr>t_users := update_rows P f (delete_rows Q (t_users t)), t_registrations := rs,
     t_credentials := cs\<rparr>)"
  by (simp add: wf_auth_def map_key_update_rows distinct_delete_rows)

lemmas wf_changes =
  wf_update_clients wf_update_sessions wf_delete_sessions wf_update_codes wf_delete_codes
  wf_delete_access wf_revoke_refresh wf_delete_refresh wf_other wf_update_users wf_delete_user

section \<open>The contract between the statements and the store\<close>

text \<open>A relation between worlds that every statement of the store guarantees; the inserts of a
  credential only for the signatures that \<open>creates\<close> admits. What the store and the handlers
  guarantee follows, once for every such relation.\<close>

locale auth_effects = effect_order R
  for R :: "auth_tables world \<Rightarrow> auth_tables world \<Rightarrow> bool" +
  fixes creates :: "string + string \<Rightarrow> bool"
  assumes create_code: "creates (Inl sg) \<Longrightarrow> guarantees R (create_auth_code_row sg a)"
    and create_refresh: "creates (Inr sg) \<Longrightarrow> guarantees R (create_refresh_row sg c s sc e r f)"
    and create_access: "guarantees R (create_access_row sg c s sc e r)"
    and create_session: "guarantees R (create_login_session_row ls b)"
    and save_client_row:
      "guarantees R (save_o_auth_client ident uris grants responses scopes app name pub pre)"
    and insert_user: "guarantees R (insert_user_row address role by)"
    and statements:
      "guarantees R (o_auth_client_opt ident)"
      "guarantees R (touch_o_auth_client now ident)"
      "guarantees R (cleanup_stale_o_auth_clients before now)"
      "guarantees R (login_sessions i cs)"
      "guarantees R (mark_session_authenticated sub ident now)"
      "guarantees R (bind_session bb ident now)"
      "guarantees R (claim_authenticated_session ident now)"
      "guarantees R (delete_session ident)"
      "guarantees R (save_session_email_otp e1 e2 e3 e4 e5 ident)"
      "guarantees R (increment_email_otp_attempts ident)"
      "guarantees R (auth_code_opt sg now ao)"
      "guarantees R (invalidate_code sg)"
      "guarantees R (update_code_pkce ch me sg)"
      "guarantees R (access_row_opt sg now)"
      "guarantees R (delete_access_row sg)"
      "guarantees R (delete_access_by_request req)"
      "guarantees R (delete_access_by_subject sub)"
      "guarantees R (refresh_row_opt sg now ao)"
      "guarantees R (revoke_refresh_row sg)"
      "guarantees R (revoke_refresh_by_request req)"
      "guarantees R (revoke_live_refresh_row sg now)"
      "guarantees R (delete_refresh_by_subject sub)"
      "guarantees R (users_query uid email)"
      "guarantees R (update_user_role_row role uid')"
      "guarantees R (delete_user_row uid')"
      "guarantees R (cleanup_expired_codes now)"
      "guarantees R (cleanup_expired_access now)"
      "guarantees R (cleanup_expired_refresh now)"
      "guarantees R (cleanup_expired_sessions now)"
      "guarantees R (cleanup_expired_registrations now)"
begin

lemmas effects =
  create_code create_refresh create_access create_session save_client_row insert_user statements

lemma store_clients:
  "guarantees R (save_client c)"
  "guarantees R (upsert_frontend_client uris)"
  "guarantees R (touch_client ident)"
  "guarantees R (client ident)"
  unfolding save_client_def upsert_frontend_client_def touch_client_def client_def
  by (intro guarantee_rules effects)+

lemma store_users: "guarantees R (user_role email)" "guarantees R (is_email_allowed email)"
  unfolding is_email_allowed_def user_role_def by (intro guarantee_rules effects)+

lemma store_sessions:
  "guarantees R (create_login_session ls)"
  "guarantees R (bind_login_session ident b)"
  "guarantees R (login_session_by_id ident)"
  "guarantees R (login_session_by_callback_state ident)"
  "guarantees R (mark_login_session_authenticated ident subject)"
  "guarantees R (claim_authenticated_login_session ident)"
  "guarantees R (delete_login_session ident)"
  "guarantees R (save_email_otp u)"
  unfolding create_login_session_def bind_login_session_def login_session_by_id_def
    login_session_by_callback_state_def mark_login_session_authenticated_def
    claim_authenticated_login_session_def delete_login_session_def save_email_otp_def
  by (intro guarantee_rules effects)+

lemma store_secrets:
  "guarantees R (verify_email_otp sg ident email otp)"
  "guarantees R (verify_email_magic_token sg ident email token)"
  unfolding verify_email_otp_def verify_email_magic_token_def verify_email_secret_def
    stored_secret_def
  by (intro guarantee_rules effects store_sessions)+

lemma store_cleanup: "guarantees R cleanup_expired"
  unfolding cleanup_expired_def by (intro guarantee_rules effects)

lemma store_tokens:
  "guarantees R (auth_code sg code now ao)"
  "guarantees R (invalidate_auth_code sg code)"
  "guarantees R (update_auth_code_pkce sg code challenge challenge_method)"
  "guarantees R (create_access_token token)"
  "guarantees R (access_token signature now)"
  "guarantees R (refresh_token signature now ao)"
  "guarantees R (revoke_live_refresh_token signature now)"
  "guarantees R (revoke_token_chain req)"
  unfolding auth_code_def invalidate_auth_code_def update_auth_code_pkce_def
    create_access_token_def access_token_def refresh_token_def revoke_live_refresh_token_def
    revoke_token_chain_def
  by (intro guarantee_rules effects)+

lemma store_creates:
  "creates (Inl (sg code)) \<Longrightarrow> guarantees R (create_auth_code sg code a)"
  "creates (Inr (tok_signature token)) \<Longrightarrow> guarantees R (create_refresh_token token)"
  "creates (Inr (tok_signature refresh)) \<Longrightarrow> guarantees R (insert_token_pair access refresh)"
  "creates (Inr (tok_signature refresh)) \<Longrightarrow> guarantees R (exchange_auth_code sg code access refresh)"
  "creates (Inr (tok_signature refresh)) \<Longrightarrow> guarantees R (rotate_refresh_token old now access refresh)"
  unfolding create_auth_code_def create_refresh_token_def exchange_auth_code_def
    rotate_refresh_token_def insert_token_pair_def
  by (intro guarantee_rules effects; assumption)+

lemmas store = store_clients store_users store_sessions store_secrets store_cleanup store_tokens

end

section \<open>Every statement keeps the tables well formed\<close>

lemma keeps_wf_save_client_row [guarantee_rules]:
  "keeps wf_auth (save_o_auth_client ident uris grants responses scopes app name pub pre)"
  unfolding save_o_auth_client_def
proof (intro kept.guarantees_bind kept.guarantees_utc_now keeps_exec)
  fix x :: int and t
  assume t: "wf_auth t"
  let ?new = "\<lparr>ocr_id = ident, ocr_redirect_uris = uris, ocr_grant_types = grants,
    ocr_response_types = responses, ocr_scopes = scopes, ocr_application_type = app,
    ocr_client_name = name, ocr_is_public = pub, ocr_is_preseeded = pre,
    ocr_created_at = to_timestamp x, ocr_last_used_at = None\<rparr>"
  have "wf_auth (t\<lparr>t_clients := t_clients t @ [?new]\<rparr>)" if "ident \<notin> set (map ocr_id (t_clients t))"
    using t that by (auto simp: wf_auth_def has_client_append)
  moreover have "wf_auth (t\<lparr>t_clients := update_rows (\<lambda>r. ocr_id r = ident)
      (\<lambda>r. r\<lparr>ocr_redirect_uris := uris, ocr_grant_types := grants, ocr_response_types := responses,
        ocr_scopes := scopes, ocr_application_type := app, ocr_client_name := name,
        ocr_is_public := pub, ocr_is_preseeded := pre\<rparr>) (t_clients t)\<rparr>)"
    by (rule wf_update_clients [OF t]) simp
  ultimately show "wf_auth (t\<lparr>t_clients :=
      (if ident \<in> set (map ocr_id (t_clients t))
       then update_rows (\<lambda>r. ocr_id r = ident)
         (\<lambda>r. r\<lparr>ocr_redirect_uris := uris, ocr_grant_types := grants,
           ocr_response_types := responses, ocr_scopes := scopes, ocr_application_type := app,
           ocr_client_name := name, ocr_is_public := pub, ocr_is_preseeded := pre\<rparr>)
         (t_clients t)
       else t_clients t @ [?new])\<rparr>)"
    by auto
qed

lemma keeps_wf_cleanup_clients [guarantee_rules]:
  "keeps wf_auth (cleanup_stale_o_auth_clients before now)"
  unfolding cleanup_stale_o_auth_clients_def
proof (rule keeps_exec)
  fix t
  assume t: "wf_auth t"
  show "wf_auth (let stale = stale_client before now t; gone = map ocr_id (filter stale (t_clients t))
    in t\<lparr>t_clients := delete_rows stale (t_clients t),
         t_codes := delete_rows (\<lambda>c. acr_client_id c \<in> set gone) (t_codes t)\<rparr>)"
    using t by (auto simp: wf_auth_def Let_def distinct_delete_rows has_client_def image_iff)
qed

lemma keeps_wf_create_session_row [guarantee_rules]:
  "keeps wf_auth (create_login_session_row s b)"
  unfolding create_login_session_row_def
  by (rule keeps_statement) (auto simp: wf_auth_def split: if_splits)

lemma keeps_wf_create_code_row [guarantee_rules]: "keeps wf_auth (create_auth_code_row sg a)"
  unfolding create_auth_code_row_def
  by (rule keeps_statement)
     (auto simp: wf_auth_def insert_row_Inr has_client_def split: if_splits sum.splits)

lemma keeps_wf_create_access_row [guarantee_rules]:
  "keeps wf_auth (create_access_row sg c s sc e r)"
  unfolding create_access_row_def
  by (rule keeps_statement) (auto simp: wf_auth_def insert_row_Inr split: sum.splits)

lemma keeps_wf_create_refresh_row [guarantee_rules]:
  "keeps wf_auth (create_refresh_row sg c s sc e r f)"
  unfolding create_refresh_row_def
  by (intro kept.guarantees_bind kept.guarantees_utc_now keeps_statement)
     (auto simp: wf_auth_def insert_row_Inr split: sum.splits)

lemma keeps_wf_insert_user [guarantee_rules]: "keeps wf_auth (insert_user_row email role by)"
  unfolding insert_user_row_def
  by (intro kept.guarantees_bind kept.guarantees_utc_now keeps_statement)
     (auto simp: wf_auth_def Let_def split: if_splits)

lemma keeps_wf_statements [guarantee_rules]:
  "keeps wf_auth (o_auth_client_opt ident)"
  "keeps wf_auth (touch_o_auth_client now ident)"
  "keeps wf_auth (login_sessions i c)"
  "keeps wf_auth (mark_session_authenticated sub ident now)"
  "keeps wf_auth (bind_session b ident now)"
  "keeps wf_auth (claim_authenticated_session ident now)"
  "keeps wf_auth (delete_session ident)"
  "keeps wf_auth (save_session_email_otp e1 e2 e3 e4 e5 ident)"
  "keeps wf_auth (increment_email_otp_attempts ident)"
  "keeps wf_auth (auth_code_opt sg now ao)"
  "keeps wf_auth (invalidate_code sg)"
  "keeps wf_auth (update_code_pkce ch me sg)"
  "keeps wf_auth (access_row_opt sg now)"
  "keeps wf_auth (delete_access_row sg)"
  "keeps wf_auth (delete_access_by_request r)"
  "keeps wf_auth (delete_access_by_subject s)"
  "keeps wf_auth (refresh_row_opt sg now ao)"
  "keeps wf_auth (revoke_refresh_row sg)"
  "keeps wf_auth (revoke_refresh_by_request r)"
  "keeps wf_auth (revoke_live_refresh_row sg now)"
  "keeps wf_auth (delete_refresh_by_subject s)"
  "keeps wf_auth (users_query uid email)"
  "keeps wf_auth (update_user_role_row role uid')"
  "keeps wf_auth (delete_user_row uid')"
  "keeps wf_auth (cleanup_expired_codes now)"
  "keeps wf_auth (cleanup_expired_access now)"
  "keeps wf_auth (cleanup_expired_refresh now)"
  "keeps wf_auth (cleanup_expired_sessions now)"
  "keeps wf_auth (cleanup_expired_registrations now)"
  unfolding o_auth_client_opt_def touch_o_auth_client_def login_sessions_def
    mark_session_authenticated_def bind_session_def claim_authenticated_session_def
    delete_session_def save_session_email_otp_def increment_email_otp_attempts_def
    auth_code_opt_def invalidate_code_def update_code_pkce_def access_row_opt_def
    delete_access_row_def delete_access_by_request_def delete_access_by_subject_def
    refresh_row_opt_def revoke_refresh_row_def revoke_refresh_by_request_def
    revoke_live_refresh_row_def delete_refresh_by_subject_def users_query_def
    update_user_role_row_def delete_user_row_def
    cleanup_expired_codes_def cleanup_expired_access_def cleanup_expired_refresh_def
    cleanup_expired_sessions_def cleanup_expired_registrations_def update_sessions_def
  by ((rule keeps_select | (rule keeps_exec keeps_exec_rows; simp add: Let_def wf_changes))+)

interpretation wf: auth_effects "kept wf_auth" "\<lambda>_. True"
  by unfold_locales (rule guarantee_rules)+

interpretation moving: auth_effects later "\<lambda>_. True"
  by unfold_locales
     (unfold create_auth_code_row_def create_refresh_row_def create_access_row_def
        create_login_session_row_def save_o_auth_client_def insert_user_row_def
        o_auth_client_opt_def touch_o_auth_client_def login_sessions_def
        mark_session_authenticated_def bind_session_def claim_authenticated_session_def
        delete_session_def save_session_email_otp_def increment_email_otp_attempts_def
        auth_code_opt_def invalidate_code_def update_code_pkce_def access_row_opt_def
        delete_access_row_def delete_access_by_request_def delete_access_by_subject_def
        refresh_row_opt_def revoke_refresh_row_def revoke_refresh_by_request_def
        revoke_live_refresh_row_def delete_refresh_by_subject_def users_query_def
        update_user_role_row_def delete_user_row_def
        cleanup_expired_codes_def cleanup_expired_access_def cleanup_expired_refresh_def
        cleanup_expired_sessions_def cleanup_expired_registrations_def
        cleanup_stale_o_auth_clients_def, (intro guarantee_rules)+)

section \<open>Credentials\<close>

text \<open>A credential is live while its row is active. \<open>settled S\<close>: no credential outside \<open>S\<close>
  became live.\<close>

definition live :: "auth_tables \<Rightarrow> credential \<Rightarrow> bool" where
  "live t x \<longleftrightarrow>
     (case x of
        Inl s \<Rightarrow> \<exists>c \<in> set (t_codes t). acr_signature c = s \<and> acr_active c
      | Inr s \<Rightarrow> \<exists>r \<in> set (t_refresh t). rtr_signature r = s \<and> rtr_active r)"

definition settled :: "credential set \<Rightarrow> auth_tables world \<Rightarrow> auth_tables world \<Rightarrow> bool" where
  "settled S w w' \<longleftrightarrow> (\<forall>s. live (w_tables w') s \<longrightarrow> live (w_tables w) s \<or> s \<in> S)"

lemma live_unchanged:
  "live (t\<lparr>t_clients := x\<rparr>) = live t" "live (t\<lparr>t_sessions := y\<rparr>) = live t"
  "live (t\<lparr>t_access := z\<rparr>) = live t" "live (t\<lparr>t_users := u\<rparr>) = live t"
  "live (t\<lparr>t_registrations := v\<rparr>) = live t" "live (t\<lparr>t_credentials := cr\<rparr>) = live t"
  by (simp_all add: live_def fun_eq_iff split: sum.splits)

lemma live_update_codes:
  "live (t\<lparr>t_codes := update_rows P f (t_codes t)\<rparr>) s \<Longrightarrow>
   (\<And>r. acr_signature (f r) = acr_signature r) \<Longrightarrow> (\<And>r. acr_active (f r) \<Longrightarrow> acr_active r) \<Longrightarrow>
   live t s"
  by (fastforce simp: live_def set_update_rows split: if_splits sum.splits)

lemma live_delete_codes: "live (t\<lparr>t_codes := delete_rows P (t_codes t)\<rparr>) s \<Longrightarrow> live t s"
  by (auto simp: live_def split: sum.splits)

lemma live_delete_refresh: "live (t\<lparr>t_refresh := delete_rows P (t_refresh t)\<rparr>) s \<Longrightarrow> live t s"
  by (auto simp: live_def split: sum.splits)

lemma live_revoke_refresh: "live (snd (revoke_refresh P t)) s \<Longrightarrow> live t s"
  by (auto simp: live_def revoke_refresh_def set_update_rows split: if_splits sum.splits)

lemma live_delete_access: "live (delete_access P t) = live t"
  by (simp add: delete_access_def live_unchanged)

interpretation settled: effect_order "settled S" for S
  by unfold_locales (auto simp: settled_def)

lemma settled_exec: "(\<And>t s. live (f t) s \<Longrightarrow> live t s) \<Longrightarrow> guarantees (settled S) (exec f)"
  unfolding exec_def by (rule settled.guarantees_statement) (auto simp: settled_def)

lemma settled_exec_rows:
  "(\<And>t s. live (snd (f t)) s \<Longrightarrow> live t s) \<Longrightarrow> guarantees (settled S) (exec_rows f)"
  unfolding exec_rows_def
  by (rule settled.guarantees_statement) (auto simp: settled_def dest!: arg_cong [where f = snd])

lemma settled_select: "guarantees (settled S) (select f)"
  unfolding select_def by (rule settled.guarantees_statement) (auto simp: settled_def)

lemma live_cleanup_clients:
  "live (let stale = Q t; gone = G t in
     t\<lparr>t_clients := delete_rows stale (t_clients t), t_codes := delete_rows (P gone) (t_codes t)\<rparr>) s
   \<Longrightarrow> live t s"
  by (auto simp: live_def Let_def split: sum.splits)

lemma settled_create_code:
  "Inl sg \<in> S \<Longrightarrow> guarantees (settled S) (create_auth_code_row sg a)"
  unfolding create_auth_code_row_def
  by (rule settled.guarantees_statement)
     (auto simp: settled_def live_def insert_row_Inr split: if_splits sum.splits)

lemma settled_create_refresh:
  "Inr sg \<in> S \<Longrightarrow> guarantees (settled S) (create_refresh_row sg c s sc e r f)"
  unfolding create_refresh_row_def
  by (intro settled.guarantees_bind settled.guarantees_utc_now settled.guarantees_statement)
     (auto simp: settled_def live_def insert_row_Inr split: sum.splits)

lemma settled_create_access: "guarantees (settled S) (create_access_row sg c s sc e r)"
  unfolding create_access_row_def
  by (rule settled.guarantees_statement)
     (auto simp: settled_def live_unchanged split: sum.splits)

lemma settled_create_session: "guarantees (settled S) (create_login_session_row ls b)"
  unfolding create_login_session_row_def
  by (rule settled.guarantees_statement)
     (auto simp: settled_def live_unchanged split: if_splits)

lemma settled_insert_user: "guarantees (settled S) (insert_user_row email role by)"
  unfolding insert_user_row_def
  by (intro settled.guarantees_bind settled.guarantees_utc_now settled.guarantees_statement)
     (auto simp: settled_def live_unchanged Let_def split: if_splits)

lemma settled_save_client_row:
  "guarantees (settled S) (save_o_auth_client ident uris grants responses scopes app name pub pre)"
  unfolding save_o_auth_client_def
  by (intro settled.guarantees_bind settled.guarantees_utc_now settled_exec)
     (simp add: live_unchanged)

interpretation settled: auth_effects "settled S" "\<lambda>s. s \<in> S" for S
  by unfold_locales
     (unfold o_auth_client_opt_def touch_o_auth_client_def login_sessions_def
        mark_session_authenticated_def bind_session_def claim_authenticated_session_def
        delete_session_def save_session_email_otp_def increment_email_otp_attempts_def
        auth_code_opt_def invalidate_code_def update_code_pkce_def access_row_opt_def
        delete_access_row_def delete_access_by_request_def delete_access_by_subject_def
        refresh_row_opt_def revoke_refresh_row_def revoke_refresh_by_request_def
        revoke_live_refresh_row_def delete_refresh_by_subject_def users_query_def
        update_user_role_row_def delete_user_row_def
        cleanup_expired_codes_def cleanup_expired_access_def cleanup_expired_refresh_def
        cleanup_expired_sessions_def cleanup_expired_registrations_def
        cleanup_stale_o_auth_clients_def update_sessions_def,
      (rule settled_create_code settled_create_refresh settled_create_access
         settled_create_session settled_save_client_row settled_insert_user settled_select
       | assumption
       | (rule settled_exec settled_exec_rows,
          auto simp: Let_def live_unchanged live_delete_access
            dest: live_revoke_refresh live_delete_codes live_delete_refresh
              live_update_codes live_cleanup_clients; fail)
       | (rule settled_exec settled_exec_rows, auto simp: Let_def live_def set_update_rows
            split: if_splits sum.splits; fail))+)

section \<open>What the transactions of the token store do\<close>

definition access_row_of :: "oauth_token \<Rightarrow> access_row" where
  "access_row_of token =
     \<lparr>atr_signature = tok_signature token, atr_client_id = tok_client_id token,
      atr_subject = tok_subject token, atr_scopes = Some (join '' '' (tok_scopes token)),
      atr_expires_at = to_timestamp (tok_expires_at token),
      atr_request_id = Some (tok_request_id token)\<rparr>"

definition refresh_row_of :: "oauth_token \<Rightarrow> int \<Rightarrow> refresh_row" where
  "refresh_row_of token created =
     \<lparr>rtr_signature = tok_signature token, rtr_client_id = tok_client_id token,
      rtr_subject = tok_subject token, rtr_scopes = Some (join '' '' (tok_scopes token)),
      rtr_expires_at = to_timestamp (tok_expires_at token),
      rtr_request_id = Some (tok_request_id token), rtr_active = True,
      rtr_created_at = created,
      rtr_first_issued_at = map_option to_timestamp (tok_first_issued_at token)\<rparr>"

text \<open>The abstract steps: spending a code, spending a refresh token. Each is all or nothing.\<close>

definition code_spent :: "string \<Rightarrow> oauth_token \<Rightarrow> oauth_token \<Rightarrow> auth_tables \<Rightarrow> auth_tables \<Rightarrow> bool" where
  "code_spent s access refresh t t' \<longleftrightarrow>
     (\<exists>c \<in> set (t_codes t). acr_signature c = s \<and> acr_active c)
     \<and> tok_signature access \<notin> atr_signature ` set (t_access t)
     \<and> tok_signature refresh \<notin> rtr_signature ` set (t_refresh t)
     \<and> (\<exists>created. t' = t\<lparr>
          t_codes := update_rows (\<lambda>c. acr_signature c = s \<and> acr_active c)
            (\<lambda>c. c\<lparr>acr_active := False\<rparr>) (t_codes t),
          t_access := t_access t @ [access_row_of access],
          t_refresh := t_refresh t @ [refresh_row_of refresh created]\<rparr>)"

definition refresh_spent ::
    "string \<Rightarrow> int \<Rightarrow> oauth_token \<Rightarrow> oauth_token \<Rightarrow> auth_tables \<Rightarrow> auth_tables \<Rightarrow> bool" where
  "refresh_spent s now access refresh t t' \<longleftrightarrow>
     (let spends = (\<lambda>r. rtr_signature r = s \<and> rtr_active r \<and> now < rtr_expires_at r);
          kept_access = delete_rows (\<lambda>a. atr_request_id a = Some (tok_request_id refresh)) (t_access t)
      in (\<exists>r \<in> set (t_refresh t). spends r)
         \<and> tok_signature access \<notin> atr_signature ` set kept_access
         \<and> tok_signature refresh \<notin> rtr_signature ` set (t_refresh t)
         \<and> (\<exists>created. t' = t\<lparr>
              t_access := kept_access @ [access_row_of access],
              t_refresh := update_rows spends (\<lambda>r. r\<lparr>rtr_active := False\<rparr>) (t_refresh t)
                @ [refresh_row_of refresh created]\<rparr>))"

lemma update_rows_none: "count_rows P rows = 0 \<Longrightarrow> update_rows P f rows = rows"
  by (induction rows) (auto simp: count_rows_def update_rows_def split: if_splits)

lemma count_rows_one:
  "distinct (map key rows) \<Longrightarrow> (\<And>r. P r \<Longrightarrow> key r = k) \<Longrightarrow>
   count_rows P rows = 1 \<longleftrightarrow> (\<exists>r \<in> set rows. P r)"
  using count_rows_key [of key rows P k] count_rows_pos [of P rows] by fastforce

lemma wp_create_access_row:
  "wp (create_access_row sg c s sc e req) Q w \<longleftrightarrow>
     (if w_faults w (w_queries w) then Q (Inl DbFault) (spend_statement w)
      else if sg \<in> atr_signature ` set (t_access (w_tables w))
      then Q (Inl Constraint) (spend_statement w)
      else Q (Inr ()) ((spend_statement w)\<lparr>w_tables := (w_tables w)\<lparr>t_access := t_access (w_tables w) @
        [\<lparr>atr_signature = sg, atr_client_id = c, atr_subject = s, atr_scopes = sc,
          atr_expires_at = e, atr_request_id = req\<rparr>]\<rparr>\<rparr>))"
  by (simp add: create_access_row_def wp_statement insert_row_def)

lemma wp_create_refresh_row:
  "wp (create_refresh_row sg c s sc e req first) Q w \<longleftrightarrow>
     (let w' = spend_statement (w\<lparr>w_reads := Suc (w_reads w)\<rparr>)
      in if w_faults w (w_queries w) then Q (Inl DbFault) w'
      else if sg \<in> rtr_signature ` set (t_refresh (w_tables w)) then Q (Inl Constraint) w'
      else Q (Inr ()) (w'\<lparr>w_tables := (w_tables w)\<lparr>t_refresh := t_refresh (w_tables w) @
        [\<lparr>rtr_signature = sg, rtr_client_id = c, rtr_subject = s, rtr_scopes = sc,
          rtr_expires_at = e, rtr_request_id = req, rtr_active = True,
          rtr_created_at = to_timestamp (w_clock w (w_reads w)),
          rtr_first_issued_at = first\<rparr>]\<rparr>\<rparr>))"
  by (simp add: create_refresh_row_def wp_rules insert_row_def Let_def)

lemma wp_exchange_auth_code_any:
  assumes wf: "wf_auth (w_tables w)"
    and error: "\<And>e w'. w_tables w' = w_tables w \<Longrightarrow> Q (Inl e) w'"
    and refused: "\<And>w'. w_tables w' = w_tables w \<Longrightarrow>
      \<not> (\<exists>c \<in> set (t_codes (w_tables w)). acr_signature c = sg code \<and> acr_active c) \<Longrightarrow>
      Q (Inr False) w'"
    and spent: "\<And>w'. code_spent (sg code) access refresh (w_tables w) (w_tables w') \<Longrightarrow>
      Q (Inr True) w'"
  shows "wp (exchange_auth_code sg code access refresh) Q w"
  unfolding exchange_auth_code_def
proof (rule wp_with_txI)
  fix e w'
  show "w_tables w' = w_tables w \<Longrightarrow> Q (Inl e) w'" by (rule error)
next
  let ?P = "\<lambda>r. acr_signature r = sg code \<and> acr_active r"
  let ?active = "\<exists>c \<in> set (t_codes (w_tables w)). ?P c"
  have one: "count_rows ?P (t_codes (w_tables w)) = Suc 0 \<longleftrightarrow> ?active"
    using count_rows_one [OF wf_authD(4) [OF wf], of ?P "sg code"] by simp
  have none: "\<not> ?active \<Longrightarrow> update_rows ?P f (t_codes (w_tables w)) = t_codes (w_tables w)" for f
    by (rule update_rows_none) (use count_rows_pos [of ?P] in blast)
  show "wp (try_bind (invalidate_code (sg code)) (\<lambda>invalidated. if invalidated \<noteq> 1 then ok False
        else try_bind (insert_token_pair access refresh) (\<lambda>_. ok True)))
      (\<lambda>r w'. \<forall>v. r = Inr v \<longrightarrow> Q (Inr v) (spend_statement w')) (spend_statement w)"
  proof (cases ?active)
    case True
    with one have "count_rows ?P (t_codes (w_tables w)) = Suc 0" by blast
    with True show ?thesis
      by (simp add: invalidate_code_def insert_token_pair_def wp_rules Let_def
          wp_create_access_row wp_create_refresh_row)
         (auto intro!: spent simp: code_spent_def access_row_of_def refresh_row_of_def)
  next
    case False
    with one have "count_rows ?P (t_codes (w_tables w)) \<noteq> Suc 0" by blast
    with False show ?thesis
      by (simp add: invalidate_code_def wp_rules Let_def none) (auto intro!: refused)
  qed
qed

lemma wp_exchange_auth_code:
  assumes wf: "wf_auth (w_tables w)"
    and error: "\<And>e w'. later w w' \<Longrightarrow> w_tables w' = w_tables w \<Longrightarrow> Q (Inl e) w'"
    and refused: "\<And>w'. later w w' \<Longrightarrow> w_tables w' = w_tables w \<Longrightarrow>
      \<not> (\<exists>c \<in> set (t_codes (w_tables w)). acr_signature c = sg code \<and> acr_active c) \<Longrightarrow>
      Q (Inr False) w'"
    and spent: "\<And>w'. later w w' \<Longrightarrow> code_spent (sg code) access refresh (w_tables w) (w_tables w') \<Longrightarrow>
      Q (Inr True) w'"
  shows "wp (exchange_auth_code sg code access refresh) Q w"
  by (rule wp_later [OF moving.store_creates(4)], simp, rule wp_exchange_auth_code_any)
     (use assms in auto)

lemma wp_rotate_refresh_token_any:
  assumes wf: "wf_auth (w_tables w)"
    and error: "\<And>e w'. w_tables w' = w_tables w \<Longrightarrow> Q (Inl e) w'"
    and refused: "\<And>w'. w_tables w' = w_tables w \<Longrightarrow>
      \<not> (\<exists>r \<in> set (t_refresh (w_tables w)).
        rtr_signature r = s \<and> rtr_active r \<and> to_timestamp now < rtr_expires_at r) \<Longrightarrow>
      Q (Inr False) w'"
    and spent: "\<And>w'. refresh_spent s (to_timestamp now) access refresh (w_tables w) (w_tables w') \<Longrightarrow>
      Q (Inr True) w'"
  shows "wp (rotate_refresh_token s now access refresh) Q w"
  unfolding rotate_refresh_token_def
proof (rule wp_with_txI)
  fix e w'
  show "w_tables w' = w_tables w \<Longrightarrow> Q (Inl e) w'" by (rule error)
next
  let ?P = "\<lambda>r. rtr_signature r = s \<and> rtr_active r \<and> to_timestamp now < rtr_expires_at r"
  let ?live = "\<exists>r \<in> set (t_refresh (w_tables w)). ?P r"
  have one: "count_rows ?P (t_refresh (w_tables w)) = Suc 0 \<longleftrightarrow> ?live"
    using count_rows_one [OF wf_authD(6) [OF wf], of ?P s] by simp
  have none: "\<not> ?live \<Longrightarrow> update_rows ?P f (t_refresh (w_tables w)) = t_refresh (w_tables w)" for f
    by (rule update_rows_none) (use count_rows_pos [of ?P] in blast)
  have same_keys: "rtr_signature ` set (update_rows ?P (\<lambda>r. r\<lparr>rtr_active := False\<rparr>) rows)
      = rtr_signature ` set rows" for rows
    by (simp flip: set_map add: map_key_update_rows del: set_map)
  show "wp (try_bind (revoke_live_refresh_row s (to_timestamp now)) (\<lambda>revoked.
        if revoked \<noteq> 1 then ok False
        else try_bind (delete_access_by_request (tok_request_id refresh)) (\<lambda>_.
          try_bind (insert_token_pair access refresh) (\<lambda>_. ok True))))
      (\<lambda>r w'. \<forall>v. r = Inr v \<longrightarrow> Q (Inr v) (spend_statement w')) (spend_statement w)"
  proof (cases ?live)
    case True
    with one have "count_rows ?P (t_refresh (w_tables w)) = Suc 0" by blast
    with True show ?thesis
      by (simp add: revoke_live_refresh_row_def revoke_refresh_def insert_token_pair_def wp_rules
          Let_def wp_create_access_row wp_create_refresh_row delete_access_by_request_def
          delete_access_def same_keys)
         (auto intro!: spent simp: refresh_spent_def Let_def access_row_of_def refresh_row_of_def)
  next
    case False
    with one have "count_rows ?P (t_refresh (w_tables w)) \<noteq> Suc 0" by blast
    with False show ?thesis
      by (simp add: revoke_live_refresh_row_def revoke_refresh_def wp_rules Let_def none)
         (auto intro!: refused)
  qed
qed

lemma wp_rotate_refresh_token:
  assumes wf: "wf_auth (w_tables w)"
    and error: "\<And>e w'. later w w' \<Longrightarrow> w_tables w' = w_tables w \<Longrightarrow> Q (Inl e) w'"
    and refused: "\<And>w'. later w w' \<Longrightarrow> w_tables w' = w_tables w \<Longrightarrow>
      \<not> (\<exists>r \<in> set (t_refresh (w_tables w)).
        rtr_signature r = s \<and> rtr_active r \<and> to_timestamp now < rtr_expires_at r) \<Longrightarrow>
      Q (Inr False) w'"
    and spent: "\<And>w'. later w w' \<Longrightarrow> refresh_spent s (to_timestamp now) access refresh (w_tables w) (w_tables w') \<Longrightarrow>
      Q (Inr True) w'"
  shows "wp (rotate_refresh_token s now access refresh) Q w"
  by (rule wp_later [OF moving.store_creates(5)], simp, rule wp_rotate_refresh_token_any)
     (use assms in auto)

end
