(* ===== verification/Token_Laws.thy ===== *)
theory Token_Laws
  imports Token_Endpoint Auth_Laws
begin

text \<open>
  What the token endpoint promises: which requests are answered with tokens, what the tables hold
  afterwards, and that a refused request creates nothing.
\<close>

section \<open>Guarantees of the handlers\<close>

context auth_effects
begin

lemma mint_access_token: "guarantees R (mint_access_token sv subject scopes timezone)"
  unfolding mint_access_token_def from_std_def by (intro guarantee_rules)

lemma mint_token_pair: "guarantees R (mint_token_pair sv cid sub scopes req first)"
  unfolding mint_token_pair_def from_std_def by (intro guarantee_rules mint_access_token)

lemma issued: "guarantees R (issued cid response)"
  unfolding issued_def by (intro guarantee_rules store)

lemma revoke_and_refuse: "guarantees R (revoke_and_refuse req)"
  unfolding revoke_and_refuse_def by (intro guarantee_rules store)

lemma logout: "guarantees R (logout sv request)"
  unfolding logout_def by (intro guarantee_rules effects store)

lemma exchange:
  assumes "\<And>s. creates s"
  shows "guarantees R (exchange sv request)"
  unfolding exchange_def exchange_authorization_code_def exchange_refresh_token_def
  by (intro guarantee_rules store store_creates assms mint_token_pair issued revoke_and_refuse)

end

section \<open>Steps of the handlers\<close>

text \<open>What each call can return, for any faults, in the form a proof about a handler uses.\<close>

lemma wp_client:
  assumes "\<And>r w'. later w w' \<Longrightarrow> w_tables w' = w_tables w \<Longrightarrow>
    isl r \<or> r = Inr (map_option client_of_row
      (find (\<lambda>c. ocr_id c = ident) (t_clients (w_tables w)))) \<Longrightarrow> Q r w'"
  shows "wp (client ident) Q w"
  by (simp add: client_def o_auth_client_opt_def wp_rules) (auto intro!: assms simp: later_def)

lemma wp_auth_code:
  assumes "\<And>r w'. later w w' \<Longrightarrow> w_tables w' = w_tables w \<Longrightarrow>
    isl r \<or> r = Inr (map_option code_of_row
      (find (\<lambda>c. (ao \<longrightarrow> acr_active c) \<and> acr_signature c = sg code \<and> to_timestamp now < acr_expires_at c)
        (t_codes (w_tables w)))) \<Longrightarrow> Q r w'"
  shows "wp (auth_code sg code now ao) Q w"
  by (simp add: auth_code_def auth_code_opt_def wp_rules) (auto intro!: assms simp: later_def)

lemma wp_refresh_token:
  assumes "\<And>r w'. later w w' \<Longrightarrow> w_tables w' = w_tables w \<Longrightarrow>
    isl r \<or> r = Inr (map_option (token_of_refresh_row signature)
      (find (\<lambda>c. (ao \<longrightarrow> rtr_active c) \<and> rtr_signature c = signature \<and> to_timestamp now < rtr_expires_at c)
        (t_refresh (w_tables w)))) \<Longrightarrow> Q r w'"
  shows "wp (refresh_token signature now ao) Q w"
  by (simp add: refresh_token_def refresh_row_opt_def wp_rules) (auto intro!: assms simp: later_def)

lemma collect_scopes_words: "collect_scopes ws = Some scs \<Longrightarrow> map scope_name scs = ws"
  by (induction ws arbitrary: scs)
     (auto simp: scope_from_str_Some split: option.splits)

text \<open>A minted pair: both tokens carry the client, subject, scopes and request id they were
  minted for, and the refresh token's signature is the digest of a token drawn meanwhile.\<close>

definition minted ::
    "service \<Rightarrow> string \<Rightarrow> string \<Rightarrow> string list \<Rightarrow> string \<Rightarrow> int \<Rightarrow> auth_tables world \<Rightarrow>
     auth_tables world \<Rightarrow> token_pair \<Rightarrow> bool" where
  "minted sv client_id subject scopes request_id first w w' p \<longleftrightarrow>
     (\<exists>scs. collect_scopes scopes = Some scs)
     \<and> tok_client_id (tp_access p) = client_id \<and> tok_client_id (tp_refresh p) = client_id
     \<and> tok_subject (tp_access p) = subject \<and> tok_subject (tp_refresh p) = subject
     \<and> tok_scopes (tp_access p) = scopes \<and> tok_scopes (tp_refresh p) = scopes
     \<and> tok_request_id (tp_access p) = request_id \<and> tok_request_id (tp_refresh p) = request_id
     \<and> tok_first_issued_at (tp_refresh p) = Some first
     \<and> (\<exists>x. drawn w w' 32 x \<and> tok_signature (tp_refresh p) = token_signature sv x)
     \<and> (\<exists>t. clock_read w w' t
          \<and> tok_expires_at (tp_access p) = t + as_access_token_lifetime (sv_auth sv)
          \<and> tok_expires_at (tp_refresh p) = t + as_refresh_token_lifetime (sv_auth sv))"

lemma wp_mint_access_token:
  assumes "\<And>r w'. later w w' \<Longrightarrow> w_tables w' = w_tables w \<Longrightarrow> Q r w'"
  shows "wp (mint_access_token sv subject scopes timezone) Q w"
  by (simp add: mint_access_token_def wp_rules split: option.splits)
     (auto intro!: assms simp: later_def)

lemma wp_mint_token_pair:
  assumes "\<And>r w'. later w w' \<Longrightarrow> w_tables w' = w_tables w \<Longrightarrow>
    (\<And>p. r = Inr p \<Longrightarrow> minted sv cid sub (split_whitespace scopes) req first w w' p) \<Longrightarrow> Q r w'"
  shows "wp (mint_token_pair sv cid sub scopes req first) Q w"
  unfolding mint_token_pair_def
  by (auto simp: wp_rules later_def minted_def collect_scopes_words Let_def
      intro!: wp_mint_access_token assms drawn_digest clock_read_clock
      split: option.splits sum.splits)

lemma wp_issued:
  assumes "\<And>w'. later w w' \<Longrightarrow> (w_tables w')\<lparr>t_clients := t_clients (w_tables w)\<rparr> = w_tables w \<Longrightarrow>
    Q (json_response 200 response) w'"
  shows "wp (issued cid response) Q w"
  unfolding issued_def touch_client_def touch_o_auth_client_def
  by (auto simp: wp_rules later_def intro!: assms)

text \<open>A refusal that revokes the chain of a request id. Half of it may be done when the second
  statement fails.\<close>

definition chain_revoked :: "string \<Rightarrow> auth_tables \<Rightarrow> auth_tables" where
  "chain_revoked req t =
     snd (revoke_refresh (\<lambda>r. rtr_request_id r = Some req)
       (delete_access (\<lambda>r. atr_request_id r = Some req) t))"

definition chain_broken :: "string \<Rightarrow> auth_tables \<Rightarrow> auth_tables \<Rightarrow> bool" where
  "chain_broken req t t' \<longleftrightarrow>
     t' = t \<or> t' = delete_access (\<lambda>r. atr_request_id r = Some req) t \<or> t' = chain_revoked req t"

lemma chain_broken_simps [simp]: "chain_broken req t t" "chain_broken req t (chain_revoked req t)"
  by (simp_all add: chain_broken_def)

lemma wp_revoke_token_chain:
  assumes "\<And>e w'. later w w' \<Longrightarrow> chain_broken req (w_tables w) (w_tables w') \<Longrightarrow> Q (Inl e) w'"
    and "\<And>w'. later w w' \<Longrightarrow> w_tables w' = chain_revoked req (w_tables w) \<Longrightarrow> Q (Inr ()) w'"
  shows "wp (revoke_token_chain req) Q w"
  unfolding revoke_token_chain_def delete_access_by_request_def revoke_refresh_by_request_def
  by (auto simp: wp_rules later_def chain_broken_def chain_revoked_def intro!: assms)

lemma wp_revoke_and_refuse:
  assumes "\<And>w'. later w w' \<Longrightarrow> chain_broken req (w_tables w) (w_tables w') \<Longrightarrow>
      Q (text_response 500 ''revoke token chain'') w'"
    and "\<And>w'. later w w' \<Longrightarrow> w_tables w' = chain_revoked req (w_tables w) \<Longrightarrow> Q invalid_grant w'"
  shows "wp (revoke_and_refuse req) Q w"
  unfolding revoke_and_refuse_def
  by (auto simp: wp_rules intro!: wp_revoke_token_chain assms)

lemmas handler_steps =
  wp_client wp_auth_code wp_refresh_token wp_mint_token_pair wp_issued wp_revoke_and_refuse
  wp_exchange_auth_code wp_rotate_refresh_token

section \<open>What a token request can do\<close>

text \<open>A code grant: the client is registered for it; the code is live, was issued to this client
  and for this redirect URI, has not expired, and the verifier matches its S256 challenge. The
  code is spent and one pair of tokens appears, for the subject and scopes of the code.\<close>

definition code_granted ::
    "service \<Rightarrow> token_request \<Rightarrow> auth_tables world \<Rightarrow> auth_tables world \<Rightarrow> bool" where
  "code_granted sv rq w w' \<longleftrightarrow>
     (\<exists>k \<in> set (t_clients (w_tables w)). \<exists>c \<in> set (t_codes (w_tables w)).
      \<exists>code verifier now p u v.
        trq_client_id rq = Some (ocr_id k) \<and> ''authorization_code'' \<in> set (ocr_grant_types k)
        \<and> trq_code rq = Some code \<and> acr_signature c = token_signature sv code \<and> acr_active c
        \<and> clock_read w w' now \<and> to_timestamp now < acr_expires_at c
        \<and> acr_client_id c = ocr_id k \<and> trq_redirect_uri rq = Some (acr_redirect_uri c)
        \<and> trq_code_verifier rq = Some verifier \<and> verifier \<noteq> ''''
        \<and> acr_code_challenge_method c = ''S256''
        \<and> acr_code_challenge c = code_challenge sv verifier
        \<and> later w u \<and> later u v \<and> later v w'
        \<and> minted sv (ocr_id k) (acr_subject c) (split_whitespace (coalesce (acr_scopes c)))
            code now u v p
        \<and> code_spent (acr_signature c) (tp_access p) (tp_refresh p) (w_tables w)
            ((w_tables w')\<lparr>t_clients := t_clients (w_tables w)\<rparr>))"

lemma code_of_row_simps [simp]:
  "ac_client_id (code_of_row r) = acr_client_id r"
  "ac_subject (code_of_row r) = acr_subject r"
  "ac_scopes (code_of_row r) = coalesce (acr_scopes r)"
  "ac_redirect_uri (code_of_row r) = acr_redirect_uri r"
  "ac_code_challenge (code_of_row r) = acr_code_challenge r"
  "ac_code_challenge_method (code_of_row r) = acr_code_challenge_method r"
  "ac_expires_at (code_of_row r) = acr_expires_at r"
  "ac_active (code_of_row r) = acr_active r"
  by (simp_all add: code_of_row_def)

definition code_request_outcome ::
    "service \<Rightarrow> token_request \<Rightarrow> auth_tables world \<Rightarrow> http_response \<Rightarrow> auth_tables world \<Rightarrow> bool" where
  "code_request_outcome sv rq w resp w' \<longleftrightarrow>
     (if rsp_status resp = 200 then code_granted sv rq w w'
      else rsp_status resp \<in> {400, 401, 500}
        \<and> (w_tables w' = w_tables w
          \<or> (\<exists>code. trq_code rq = Some code \<and> chain_broken code (w_tables w) (w_tables w'))))"

lemma code_refused:
  "rsp_status resp \<in> {400, 401, 500} \<Longrightarrow> w_tables w' = w_tables w \<Longrightarrow>
   code_request_outcome sv rq w resp w'"
  "rsp_status resp \<in> {400, 401, 500} \<Longrightarrow> trq_code rq = Some code \<Longrightarrow>
   chain_broken code (w_tables w) (w_tables w') \<Longrightarrow> code_request_outcome sv rq w resp w'"
  by (auto simp: code_request_outcome_def)

lemma code_mismatch_iff:
  "\<not> code_mismatch sv rq cid a \<longleftrightarrow>
     ac_client_id a = cid \<and> trq_redirect_uri rq = Some (ac_redirect_uri a)
     \<and> (\<exists>verifier. trq_code_verifier rq = Some verifier \<and> verifier \<noteq> ''''
          \<and> ac_code_challenge_method a = ''S256''
          \<and> ac_code_challenge a = code_challenge sv verifier)"
  by (auto simp: code_mismatch_def split: option.splits)

lemma spent_clients:
  "code_spent s access refresh t t' \<Longrightarrow> t_clients t' = t_clients t"
  "refresh_spent s now access refresh t t' \<Longrightarrow> t_clients t' = t_clients t"
  by (auto simp: code_spent_def refresh_spent_def Let_def)

lemma code_grantedI:
  assumes "k \<in> set (t_clients (w_tables w))" "c \<in> set (t_codes (w_tables w))"
    and "trq_client_id rq = Some (ocr_id k)" "''authorization_code'' \<in> set (ocr_grant_types k)"
    and "trq_code rq = Some code" "acr_signature c = token_signature sv code" "acr_active c"
    and "later w u0" "later (u0\<lparr>w_reads := Suc (w_reads u0)\<rparr>) u"
      "to_timestamp (w_clock u0 (w_reads u0)) < acr_expires_at c"
    and "\<not> code_mismatch sv rq (ocr_id k) (code_of_row c)"
    and "later u v" "minted sv (ocr_id k) (acr_subject c)
      (split_whitespace (coalesce (acr_scopes c))) code (w_clock u0 (w_reads u0)) u v p"
    and "later v x" "later x w'"
    and "code_spent (acr_signature c) (tp_access p) (tp_refresh p) (w_tables w) (w_tables x)"
    and "(w_tables w')\<lparr>t_clients := t_clients (w_tables x)\<rparr> = w_tables x"
  shows "code_granted sv rq w w'"
proof -
  obtain verifier where "trq_code_verifier rq = Some verifier" "verifier \<noteq> ''''"
      "acr_code_challenge_method c = ''S256''" "acr_code_challenge c = code_challenge sv verifier"
      "acr_client_id c = ocr_id k" "trq_redirect_uri rq = Some (acr_redirect_uri c)"
    using assms(11) by (auto simp: code_mismatch_iff)
  moreover have "clock_read w w' (w_clock u0 (w_reads u0))"
    using assms(8,9,12,14,15) clock_read_clock [of w "w_reads u0" w']
    by (auto simp: later_def)
  moreover have "later w u" "later v w'"
    using assms(8,9,14,15) by (auto simp: later_def)
  moreover have "t_clients (w_tables x) = t_clients (w_tables w)"
    using assms(16) by (rule spent_clients)
  ultimately show ?thesis
    unfolding code_granted_def using assms by metis
qed

lemma code_granted_outcome:
  "rsp_status resp = 200 \<Longrightarrow> code_granted sv rq w w' \<Longrightarrow> code_request_outcome sv rq w resp w'"
  by (simp add: code_request_outcome_def)

lemma exchange_authorization_code_outcome:
  assumes wf: "wf_auth (w_tables w)"
  shows "wp (exchange_authorization_code sv rq) (code_request_outcome sv rq w) w"
  unfolding exchange_authorization_code_def
  by (auto simp: wp_rules wf present_Some code_refused
      split: option.splits sum.splits intro!: handler_steps dest!: find_Some)
     (rule code_granted_outcome, simp, rule code_grantedI, assumption+, simp_all)

text \<open>A rotation: the presented refresh token is live, belongs to this client, and its chain began
  at most thirty days ago. It is spent, the chain's access tokens go, and one pair of tokens of the
  same subject, scopes, request id and start of the chain appears.\<close>

definition chain_start :: "refresh_row \<Rightarrow> int" where
  "chain_start r = of_timestamp (case rtr_first_issued_at r of None \<Rightarrow> rtr_created_at r | Some t \<Rightarrow> t)"

definition refresh_granted ::
    "service \<Rightarrow> token_request \<Rightarrow> auth_tables world \<Rightarrow> auth_tables world \<Rightarrow> bool" where
  "refresh_granted sv rq w w' \<longleftrightarrow>
     (\<exists>k \<in> set (t_clients (w_tables w)). \<exists>r \<in> set (t_refresh (w_tables w)).
      \<exists>presented now p u v.
        trq_client_id rq = Some (ocr_id k) \<and> ''refresh_token'' \<in> set (ocr_grant_types k)
        \<and> trq_refresh_token rq = Some presented
        \<and> rtr_signature r = token_signature sv presented \<and> rtr_active r
        \<and> rtr_client_id r = ocr_id k
        \<and> clock_read w w' now \<and> to_timestamp now < rtr_expires_at r
        \<and> now - chain_start r \<le> refresh_chain_lifetime
        \<and> later w u \<and> later u v \<and> later v w'
        \<and> minted sv (ocr_id k) (rtr_subject r) (split_whitespace (coalesce (rtr_scopes r)))
            (coalesce (rtr_request_id r)) (chain_start r) u v p
        \<and> refresh_spent (rtr_signature r) (to_timestamp now) (tp_access p) (tp_refresh p)
            (w_tables w) ((w_tables w')\<lparr>t_clients := t_clients (w_tables w)\<rparr>))"

text \<open>A request that is refused for a token that is no longer active revokes the chain of that
  token.\<close>

definition replayed_chain :: "service \<Rightarrow> token_request \<Rightarrow> auth_tables \<Rightarrow> auth_tables \<Rightarrow> bool" where
  "replayed_chain sv rq t t' \<longleftrightarrow>
     (\<exists>r \<in> set (t_refresh t). \<exists>presented.
        trq_refresh_token rq = Some presented \<and> rtr_signature r = token_signature sv presented
        \<and> \<not> rtr_active r \<and> chain_broken (coalesce (rtr_request_id r)) t t')"

definition refresh_request_outcome ::
    "service \<Rightarrow> token_request \<Rightarrow> auth_tables world \<Rightarrow> http_response \<Rightarrow> auth_tables world \<Rightarrow> bool" where
  "refresh_request_outcome sv rq w resp w' \<longleftrightarrow>
     (if rsp_status resp = 200 then refresh_granted sv rq w w'
      else rsp_status resp \<in> {400, 401, 500}
        \<and> (w_tables w' = w_tables w \<or> replayed_chain sv rq (w_tables w) (w_tables w')))"

lemma refresh_refused:
  "rsp_status resp \<in> {400, 401, 500} \<Longrightarrow> w_tables w' = w_tables w \<Longrightarrow>
   refresh_request_outcome sv rq w resp w'"
  "rsp_status resp \<in> {400, 401, 500} \<Longrightarrow> trq_refresh_token rq = Some presented \<Longrightarrow>
   r \<in> set (t_refresh (w_tables w)) \<Longrightarrow> rtr_signature r = token_signature sv presented \<Longrightarrow>
   \<not> rtr_active r \<Longrightarrow> chain_broken (coalesce (rtr_request_id r)) (w_tables w) (w_tables w') \<Longrightarrow>
   refresh_request_outcome sv rq w resp w'"
  by (auto simp: refresh_request_outcome_def replayed_chain_def)

lemma token_of_refresh_row_simps [simp]:
  "tok_client_id (token_of_refresh_row s r) = rtr_client_id r"
  "tok_subject (token_of_refresh_row s r) = rtr_subject r"
  "tok_scopes (token_of_refresh_row s r) = split_whitespace (coalesce (rtr_scopes r))"
  "tok_request_id (token_of_refresh_row s r) = coalesce (rtr_request_id r)"
  "tok_active (token_of_refresh_row s r) = rtr_active r"
  "tok_first_issued_at (token_of_refresh_row s r) = Some (chain_start r)"
  by (simp_all add: token_of_refresh_row_def chain_start_def)

lemma refresh_grantedI:
  assumes "k \<in> set (t_clients (w_tables w))" "r \<in> set (t_refresh (w_tables w))"
    and "trq_client_id rq = Some (ocr_id k)" "''refresh_token'' \<in> set (ocr_grant_types k)"
    and "trq_refresh_token rq = Some presented" "rtr_signature r = token_signature sv presented"
    and "rtr_active r" "rtr_client_id r = ocr_id k"
    and "later w u0" "later (u0\<lparr>w_reads := Suc (w_reads u0)\<rparr>) u"
      "to_timestamp (w_clock u0 (w_reads u0)) < rtr_expires_at r"
      "w_clock u0 (w_reads u0) - chain_start r \<le> refresh_chain_lifetime"
    and "later u v" "minted sv (ocr_id k) (rtr_subject r)
      (split_whitespace (coalesce (rtr_scopes r))) (coalesce (rtr_request_id r)) (chain_start r) u v p"
    and "later v x" "later x w'"
    and "refresh_spent (rtr_signature r) (to_timestamp (w_clock u0 (w_reads u0)))
      (tp_access p) (tp_refresh p) (w_tables w) (w_tables x)"
    and "(w_tables w')\<lparr>t_clients := t_clients (w_tables x)\<rparr> = w_tables x"
  shows "refresh_granted sv rq w w'"
proof -
  have "clock_read w w' (w_clock u0 (w_reads u0))"
    using assms(9,10,13,15,16) clock_read_clock [of w "w_reads u0" w']
    by (auto simp: later_def)
  moreover have "later w u" "later v w'"
    using assms(9,10,15,16) by (auto simp: later_def)
  moreover have "t_clients (w_tables x) = t_clients (w_tables w)"
    using assms(17) by (rule spent_clients)
  ultimately show ?thesis
    unfolding refresh_granted_def using assms by metis
qed

lemma refresh_granted_outcome:
  "rsp_status resp = 200 \<Longrightarrow> refresh_granted sv rq w w' \<Longrightarrow> refresh_request_outcome sv rq w resp w'"
  by (simp add: refresh_request_outcome_def)

lemma exchange_refresh_token_outcome:
  assumes wf: "wf_auth (w_tables w)"
  shows "wp (exchange_refresh_token sv rq) (refresh_request_outcome sv rq w) w"
  unfolding exchange_refresh_token_def
  by (auto simp: wp_rules wf present_Some refresh_refused Let_def
      split: option.splits sum.splits intro!: handler_steps dest!: find_Some)
     (rule refresh_granted_outcome, simp, rule refresh_grantedI, assumption+, simp_all)

section \<open>The endpoint\<close>

lemma code_outcome_token_response [simp]:
  "code_request_outcome sv rq w (token_response resp) w' = code_request_outcome sv rq w resp w'"
  by (simp add: code_request_outcome_def)

lemma refresh_outcome_token_response [simp]:
  "refresh_request_outcome sv rq w (token_response resp) w' = refresh_request_outcome sv rq w resp w'"
  by (simp add: refresh_request_outcome_def)

text \<open>C4: An authorization-code request, under any faults of the database: a 200 answer is given
  only to the registered client the code was issued to, for the redirect URI of the code, before
  the code expires and with the verifier of its S256 challenge; it spends the code and creates one
  access and one refresh token of the code's subject and scopes. Any other answer is 400, 401 or
  500 and leaves the tables alone or revokes the chain of the presented code.\<close>

theorem code_grant_sound:
  assumes "wf_auth (w_tables w)" and "trq_grant_type rq = ''authorization_code''"
    and "run_state (exchange sv (Some rq)) w = (resp, w')"
  shows "code_request_outcome sv rq w resp w'"
proof -
  have "wp (exchange sv (Some rq)) (code_request_outcome sv rq w) w"
    unfolding exchange_def
    by (simp add: wp_rules assms(2) exchange_authorization_code_outcome [OF assms(1)])
  from wp_run [OF assms(3) this] show ?thesis .
qed

text \<open>C5: A refresh request, under any faults of the database: a 200 answer is given only to the
  client of a live, unexpired refresh token whose chain started at most thirty days ago; it spends
  that token, deletes the access tokens of the chain and creates one access and one refresh token
  with the same subject, scopes, chain and chain start. Any other answer leaves the tables alone
  or, for a token that was spent before, revokes its chain.\<close>

theorem refresh_grant_sound:
  assumes "wf_auth (w_tables w)" and "trq_grant_type rq = ''refresh_token''"
    and "run_state (exchange sv (Some rq)) w = (resp, w')"
  shows "refresh_request_outcome sv rq w resp w'"
proof -
  have "wp (exchange sv (Some rq)) (refresh_request_outcome sv rq w) w"
    unfolding exchange_def
    by (simp add: wp_rules assms(2) exchange_refresh_token_outcome [OF assms(1)])
  from wp_run [OF assms(3) this] show ?thesis .
qed

section \<open>Replays\<close>

text \<open>After \<open>chain_revoked\<close> nothing of the chain works: no access token, no live refresh token.\<close>

definition chain_dead :: "string \<Rightarrow> auth_tables \<Rightarrow> bool" where
  "chain_dead req t \<longleftrightarrow>
     (\<forall>a \<in> set (t_access t). atr_request_id a \<noteq> Some req)
     \<and> (\<forall>r \<in> set (t_refresh t). rtr_request_id r = Some req \<longrightarrow> \<not> rtr_active r)"

lemma chain_dead_revoked: "chain_dead req (chain_revoked req t)"
  by (auto simp: chain_dead_def chain_revoked_def revoke_refresh_def delete_access_def set_update_rows)

lemma find_client:
  assumes "wf_auth t" "k \<in> set (t_clients t)"
  shows "find (\<lambda>c. ocr_id c = ocr_id k) (t_clients t) = Some k"
  by (rule find_unique [OF wf_authD(1) [OF assms(1)] assms(2)]) auto

lemma find_code:
  assumes "wf_auth t" "c \<in> set (t_codes t)" "now < acr_expires_at c"
  shows "find (\<lambda>r. acr_signature r = acr_signature c \<and> now < acr_expires_at r) (t_codes t) = Some c"
  by (rule find_unique [OF wf_authD(4) [OF assms(1)] assms(2)]) (use assms(3) in auto)

lemma find_refresh:
  assumes "wf_auth t" "r \<in> set (t_refresh t)" "now < rtr_expires_at r"
  shows "find (\<lambda>x. rtr_signature x = rtr_signature r \<and> now < rtr_expires_at x) (t_refresh t) = Some r"
  by (rule find_unique [OF wf_authD(6) [OF assms(1)] assms(2)]) (use assms(3) in auto)

text \<open>C6: A code that was spent and is presented again by a registered client, before it expires
  and with a database that answers, gets \<open>invalid_grant\<close>, and every token issued from it dies: its
  access tokens are gone and its refresh tokens inactive.\<close>

theorem code_replay_revokes_chain:
  assumes wf: "wf_auth (w_tables w)" and up: "\<And>n. \<not> w_faults w n"
    and k: "k \<in> set (t_clients (w_tables w))" "''authorization_code'' \<in> set (ocr_grant_types k)"
      "ocr_id k \<noteq> ''''"
    and c: "c \<in> set (t_codes (w_tables w))" "\<not> acr_active c"
      "acr_signature c = token_signature sv code" "code \<noteq> ''''"
      "to_timestamp (w_clock w (w_reads w)) < acr_expires_at c"
    and rq: "trq_grant_type rq = ''authorization_code''" "trq_client_id rq = Some (ocr_id k)"
      "trq_code rq = Some code"
    and run: "run_state (exchange sv (Some rq)) w = (resp, w')"
  shows "resp = token_response invalid_grant \<and> chain_dead code (w_tables w')"
proof -
  note c(3) [symmetric, simp]
  have "wp (exchange sv (Some rq)) (\<lambda>resp w'. resp = token_response invalid_grant
      \<and> w_tables w' = chain_revoked code (w_tables w)) w"
    by (simp add: exchange_def exchange_authorization_code_def wp_rules rq present_def k client_def
        o_auth_client_opt_def auth_code_def auth_code_opt_def up find_client [OF wf k(1)]
        find_code [OF wf c(1,5)] c(2,4) revoke_and_refuse_def revoke_token_chain_def
        delete_access_by_request_def revoke_refresh_by_request_def chain_revoked_def)
  from wp_run [OF run this] show ?thesis by (auto simp: chain_dead_revoked)
qed

text \<open>C7: A refresh token that was spent and is presented again kills its whole chain, under the
  same conditions.\<close>

theorem refresh_replay_revokes_chain:
  assumes wf: "wf_auth (w_tables w)" and up: "\<And>n. \<not> w_faults w n"
    and k: "k \<in> set (t_clients (w_tables w))" "''refresh_token'' \<in> set (ocr_grant_types k)"
      "ocr_id k \<noteq> ''''"
    and r: "r \<in> set (t_refresh (w_tables w))" "\<not> rtr_active r"
      "rtr_signature r = token_signature sv presented" "presented \<noteq> ''''"
      "to_timestamp (w_clock w (w_reads w)) < rtr_expires_at r"
    and rq: "trq_grant_type rq = ''refresh_token''" "trq_client_id rq = Some (ocr_id k)"
      "trq_refresh_token rq = Some presented"
    and run: "run_state (exchange sv (Some rq)) w = (resp, w')"
  shows "resp = token_response invalid_grant
    \<and> chain_dead (coalesce (rtr_request_id r)) (w_tables w')"
proof -
  note r(3) [symmetric, simp]
  have "wp (exchange sv (Some rq)) (\<lambda>resp w'. resp = token_response invalid_grant
      \<and> w_tables w' = chain_revoked (coalesce (rtr_request_id r)) (w_tables w)) w"
    by (simp add: exchange_def exchange_refresh_token_def wp_rules rq present_def k client_def
        o_auth_client_opt_def refresh_token_def refresh_row_opt_def up find_client [OF wf k(1)]
        find_refresh [OF wf r(1,5)] r(2,4) revoke_and_refuse_def revoke_token_chain_def
        delete_access_by_request_def revoke_refresh_by_request_def chain_revoked_def)
  from wp_run [OF run this] show ?thesis by (auto simp: chain_dead_revoked)
qed

text \<open>Signing out: with a database that answers, presenting a refresh token that has not
  expired, spent or live, answers 204 and leaves that token and its whole chain dead; presenting an
  unknown token answers 204 and changes nothing.\<close>

theorem logout_revokes_chain:
  assumes wf: "wf_auth (w_tables w)" and up: "\<And>n. \<not> w_faults w n"
    and run: "run_state (logout sv (Some presented)) w = (resp, w')"
  shows "rsp_status resp = 204 \<and>
    (case find (\<lambda>x. rtr_signature x = token_signature sv presented
         \<and> to_timestamp (w_clock w (w_reads w)) < rtr_expires_at x) (t_refresh (w_tables w)) of
       None \<Rightarrow> w_tables w' = w_tables w
     | Some r \<Rightarrow> chain_dead (coalesce (rtr_request_id r)) (w_tables w')
         \<and> (\<forall>x \<in> set (t_refresh (w_tables w')). rtr_signature x = rtr_signature r \<longrightarrow> \<not> rtr_active x))"
    (is "_ \<and> ?dead w'")
proof -
  have "wp (logout sv (Some presented)) (\<lambda>resp w'. rsp_status resp = 204 \<and> ?dead w') w"
    by (auto simp: logout_def wp_rules refresh_token_def refresh_row_opt_def up
        revoke_refresh_row_def revoke_token_chain_def delete_access_by_request_def
        revoke_refresh_by_request_def revoke_refresh_def delete_access_def set_update_rows
        chain_dead_def split: option.splits dest!: find_Some)
  from wp_run [OF run this] show ?thesis .
qed

section \<open>Requests that must succeed\<close>

text \<open>C16: The endpoint does answer: a request that meets the conditions of C4, when the database
  answers, the token can be signed, the lifetimes are in range and the new signatures are not taken,
  gets a 200.\<close>

theorem code_grant_complete:
  assumes wf: "wf_auth (w_tables w)" and up: "\<And>n. \<not> w_faults w n"
    and k: "k \<in> set (t_clients (w_tables w))" "''authorization_code'' \<in> set (ocr_grant_types k)"
      "ocr_id k \<noteq> ''''"
    and c: "c \<in> set (t_codes (w_tables w))" "acr_active c"
      "acr_signature c = token_signature sv code" "code \<noteq> ''''"
      "to_timestamp (w_clock w (w_reads w)) < acr_expires_at c"
      "collect_scopes (split_whitespace (coalesce (acr_scopes c))) = Some scopes"
    and rq: "trq_grant_type rq = ''authorization_code''" "trq_client_id rq = Some (ocr_id k)"
      "trq_code rq = Some code"
      "\<not> code_mismatch sv rq (ocr_id k) (code_of_row c)"
    and signs: "\<And>cl. x_jwt_encode (sv_ext sv) cl = Some (token cl)"
      "\<And>cl. rsplit_once (CHR ''.'') (token cl) = Some (body cl, mac cl)"
      "\<And>cl. mac cl \<notin> atr_signature ` set (t_access (w_tables w))"
      "\<And>n. token_signature sv (w_entropy w n 32) \<notin> rtr_signature ` set (t_refresh (w_tables w))"
    and lifetimes: "as_access_token_lifetime (sv_auth sv) \<le> (2 ^ 63 - 1) * 1000000"
      "as_refresh_token_lifetime (sv_auth sv) \<le> (2 ^ 63 - 1) * 1000000"
    and run: "run_state (exchange sv (Some rq)) w = (resp, w')"
  shows "rsp_status resp = 200"
proof -
  note c(3) [symmetric, simp]
  have one: "count_rows (\<lambda>r. acr_signature r = acr_signature c \<and> acr_active r) (t_codes (w_tables w)) = Suc 0"
    using count_rows_one [OF wf_authD(4) [OF wf],
        of "\<lambda>r. acr_signature r = acr_signature c \<and> acr_active r" "acr_signature c"] c(1,2) by auto
  have "wp (exchange sv (Some rq)) (\<lambda>resp w'. rsp_status resp = 200) w"
    by (simp add: exchange_def exchange_authorization_code_def wp_rules rq present_def k client_def
        o_auth_client_opt_def auth_code_def auth_code_opt_def up find_client [OF wf k(1)]
        find_code [OF wf c(1,5)] c(2,4,6) mint_token_pair_def mint_access_token_def signs
        lifetimes [simplified] exchange_auth_code_def wp_with_tx invalidate_code_def one Let_def
        insert_token_pair_def wp_create_access_row wp_create_refresh_row issued_def
        touch_client_def touch_o_auth_client_def)
  from wp_run [OF run this] show ?thesis .
qed

text \<open>The same for a refresh request that meets the conditions of C5.\<close>

theorem refresh_grant_complete:
  assumes wf: "wf_auth (w_tables w)" and up: "\<And>n. \<not> w_faults w n"
    and k: "k \<in> set (t_clients (w_tables w))" "''refresh_token'' \<in> set (ocr_grant_types k)"
      "ocr_id k \<noteq> ''''"
    and r: "r \<in> set (t_refresh (w_tables w))" "rtr_active r" "rtr_client_id r = ocr_id k"
      "rtr_signature r = token_signature sv presented" "presented \<noteq> ''''"
      "to_timestamp (w_clock w (w_reads w)) < rtr_expires_at r"
      "w_clock w (w_reads w) - chain_start r \<le> refresh_chain_lifetime"
      "collect_scopes (split_whitespace (coalesce (rtr_scopes r))) = Some scopes"
    and rq: "trq_grant_type rq = ''refresh_token''" "trq_client_id rq = Some (ocr_id k)"
      "trq_refresh_token rq = Some presented"
    and signs: "\<And>cl. x_jwt_encode (sv_ext sv) cl = Some (token cl)"
      "\<And>cl. rsplit_once (CHR ''.'') (token cl) = Some (body cl, mac cl)"
      "\<And>cl. mac cl \<notin> atr_signature ` set (t_access (w_tables w))"
      "\<And>n. token_signature sv (w_entropy w n 32) \<notin> rtr_signature ` set (t_refresh (w_tables w))"
    and lifetimes: "as_access_token_lifetime (sv_auth sv) \<le> (2 ^ 63 - 1) * 1000000"
      "as_refresh_token_lifetime (sv_auth sv) \<le> (2 ^ 63 - 1) * 1000000"
    and run: "run_state (exchange sv (Some rq)) w = (resp, w')"
  shows "rsp_status resp = 200"
proof -
  note r(4) [symmetric, simp]
  let ?live = "\<lambda>x. rtr_signature x = rtr_signature r \<and> rtr_active x
    \<and> to_timestamp (w_clock w (w_reads w)) < rtr_expires_at x"
  have one: "count_rows ?live (t_refresh (w_tables w)) = Suc 0"
    using count_rows_one [OF wf_authD(6) [OF wf], of ?live "rtr_signature r"] r(1,2,6) by auto
  have keys: "rtr_signature ` set (update_rows P (\<lambda>r. r\<lparr>rtr_active := False\<rparr>) rows)
      = rtr_signature ` set rows" for P rows
    by (simp flip: set_map add: map_key_update_rows del: set_map)
  have fresh: "mac cl \<notin> atr_signature ` {a \<in> set (t_access (w_tables w)). P a}" for cl P
    using signs(3) [of cl] by blast
  have "wp (exchange sv (Some rq)) (\<lambda>resp w'. rsp_status resp = 200) w"
    by (simp add: exchange_def exchange_refresh_token_def wp_rules rq present_def k client_def
        o_auth_client_opt_def refresh_token_def refresh_row_opt_def up find_client [OF wf k(1)]
        find_refresh [OF wf r(1,6)] r(2,3,5,7,8) mint_token_pair_def mint_access_token_def signs
        lifetimes [simplified] rotate_refresh_token_def wp_with_tx revoke_live_refresh_row_def
        revoke_refresh_def one Let_def delete_access_by_request_def delete_access_def fresh keys
        insert_token_pair_def wp_create_access_row wp_create_refresh_row issued_def
        touch_client_def touch_o_auth_client_def linorder_not_less)
  from wp_run [OF run this] show ?thesis .
qed

end
