(* ===== verification/Auth_Middleware.thy ===== *)
theory Auth_Middleware
  imports Token_Laws
begin

text \<open>
  Who a request to a protected resource is (src/server-rs/src/auth/middleware.rs): the bearer token,
  the master password, the switch that turns authentication off, and the development CORS headers.
  The rest of the server, which a request is passed on to, is the argument \<open>next\<close>; what reaches it
  is the identity.
\<close>

record identity =
  id_subject :: "string option"
  id_scopes :: "scope list"
  id_timezone :: string

definition bearer_token :: "headers \<Rightarrow> string option" where
  "bearer_token hs =
     (case Option.bind (get_header ''Authorization'' hs) to_str of
        None \<Rightarrow> None
      | Some v \<Rightarrow>
          (case split_whitespace v of
             [scheme, token] \<Rightarrow> if eq_ignore_ascii_case scheme ''bearer'' then Some token else None
           | _ \<Rightarrow> None))"

definition bearer_identity :: "service \<Rightarrow> int \<Rightarrow> headers \<Rightarrow> identity option" where
  "bearer_identity sv now hs =
     (case Option.bind (bearer_token hs) (verify_access_token sv now) of
        None \<Rightarrow> None
      | Some c \<Rightarrow> Some
          \<lparr>id_subject = Some (cl_sub c), id_scopes = parse_scopes (cl_scope c),
           id_timezone = (if cl_timezone c = '''' then sv_timezone sv else cl_timezone c)\<rparr>)"

definition master_password_presented :: "service \<Rightarrow> headers \<Rightarrow> bool" where
  "master_password_presented sv hs \<longleftrightarrow>
     (case as_master_password (sv_auth sv) of
        None \<Rightarrow> False
      | Some password \<Rightarrow> get_header ''x-api-key'' hs = Some password)"

definition master_identity :: "service \<Rightarrow> identity" where
  "master_identity sv =
     \<lparr>id_subject = None, id_scopes = all_scopes, id_timezone = sv_timezone sv\<rparr>"

definition request_identity :: "service \<Rightarrow> int \<Rightarrow> headers \<Rightarrow> identity option" where
  "request_identity sv now hs =
     (if as_disable_all_auth (sv_auth sv) then Some (master_identity sv)
      else case bearer_identity sv now hs of
        Some i \<Rightarrow> Some i
      | None \<Rightarrow> if master_password_presented sv hs then Some (master_identity sv) else None)"

definition unauthorized :: "service \<Rightarrow> string \<Rightarrow> http_response" where
  "unauthorized sv metadata_path =
     insert_header ''WWW-Authenticate''
       (''Bearer resource_metadata='' @ [CHR 0x22] @ issuer_url sv @ metadata_path @ [CHR 0x22])
       (text_response 401 ''unauthorized'')"

definition protect_resource ::
    "service \<Rightarrow> string \<Rightarrow> (identity \<Rightarrow> headers \<Rightarrow> http_response auth_io) \<Rightarrow> headers \<Rightarrow> http_response auth_io" where
  "protect_resource sv metadata_path next hs = do {
     now \<leftarrow> utc_now;
     (case request_identity sv (now div nanos) hs of
        Some i \<Rightarrow> next i hs
      | None \<Rightarrow> State_Monad.return (unauthorized sv metadata_path))
   }"

definition protect ::
    "service \<Rightarrow> (identity \<Rightarrow> headers \<Rightarrow> http_response auth_io) \<Rightarrow> headers \<Rightarrow> http_response auth_io" where
  "protect sv = protect_resource sv ''/.well-known/oauth-protected-resource''"

definition protect_mcp ::
    "service \<Rightarrow> (identity \<Rightarrow> headers \<Rightarrow> http_response auth_io) \<Rightarrow> headers \<Rightarrow> http_response auth_io" where
  "protect_mcp sv = protect_resource sv ''/.well-known/oauth-protected-resource/mcp''"

definition require_oauth :: "service \<Rightarrow> http_response auth_io \<Rightarrow> http_response auth_io" where
  "require_oauth sv next =
     (if as_oauth_enabled (sv_auth sv) then next else State_Monad.return (status_response 404))"

definition cors_headers :: "string \<Rightarrow> http_response \<Rightarrow> http_response" where
  "cors_headers origin r =
     insert_header ''Access-Control-Allow-Methods'' ''GET, POST, PATCH, DELETE, OPTIONS''
       (insert_header ''Access-Control-Allow-Headers'' ''Authorization, Content-Type, X-API-Key''
         (insert_header ''Vary'' ''Origin''
           (insert_header ''Access-Control-Expose-Headers'' ''Mcp-Session-Id''
             (insert_header ''Access-Control-Allow-Origin'' origin r))))"

definition dev_cors ::
    "service \<Rightarrow> string \<Rightarrow> headers \<Rightarrow> http_response auth_io \<Rightarrow> http_response auth_io" where
  "dev_cors sv verb hs next = do {
     response \<leftarrow>
       (if verb = ''OPTIONS'' then State_Monad.return (status_response 204) else next);
     State_Monad.return
       (case map_option trim_end_slashes (Option.bind (get_header ''Origin'' hs) to_str) of
          None \<Rightarrow> response
        | Some origin \<Rightarrow>
            if dev_origin_allowed sv origin then cors_headers origin response else response)
   }"

section \<open>A minted token is recognised\<close>

text \<open>What the server relies on of the JWT crate: a token it signed is decoded to the claims that were
  signed exactly while the issuer and the audience are the expected ones and the expiry has not passed.\<close>

definition jwt_law :: "service \<Rightarrow> bool" where
  "jwt_law sv \<longleftrightarrow>
     (\<forall>cl token iss now. x_jwt_encode (sv_ext sv) cl = Some token \<longrightarrow>
        x_jwt_decode (sv_ext sv) iss now token =
          (if cl_iss cl = iss \<and> iss \<in> set (cl_aud cl) \<and> now \<le> cl_exp cl then Some cl else None))"

definition header_word :: "string \<Rightarrow> bool" where
  "header_word token \<longleftrightarrow> plain_word token \<and> list_all visible token"

lemma bearer_token_word:
  assumes "get_header ''Authorization'' hs = Some (''Bearer '' @ token)" "header_word token"
  shows "bearer_token hs = Some token"
proof -
  have "list_all visible ''Bearer ''" by code_simp
  then have "to_str (''Bearer '' @ token) = Some (''Bearer '' @ token)"
    using assms(2) by (simp add: to_str_def header_word_def del: append_Cons append_Nil)
  moreover have "plain_word ''Bearer''"
    by (simp add: plain_word_def ws_heads_def byte_def char_of_def bit_0)
  then have "split_whitespace (''Bearer '' @ token) = [''Bearer'', token]"
    using split_join [of "[''Bearer'', token]"] assms(2) by (simp add: header_word_def)
  moreover have "eq_ignore_ascii_case ''Bearer'' ''bearer''" by code_simp
  ultimately show ?thesis
    unfolding bearer_token_def assms(1) by (simp del: append_Cons append_Nil)
qed

lemma wp_mint_claims:
  "wp (mint_access_token sv subject scopes timezone) (\<lambda>r w'. \<forall>token. r = Inr token \<longrightarrow>
     (\<exists>jti. x_jwt_encode (sv_ext sv)
       \<lparr>cl_iss = issuer_url sv, cl_sub = subject, cl_aud = [issuer_url sv],
        cl_exp = (w_clock w (w_reads w) + as_access_token_lifetime (sv_auth sv)) div nanos,
        cl_iat = w_clock w (w_reads w) div nanos, cl_jti = jti,
        cl_scope = scopes_to_string scopes, cl_email = subject, cl_timezone = timezone\<rparr> = Some token)) w"
  unfolding mint_access_token_def
  by (auto simp: wp_rules split: option.splits)

text \<open>C12: While authentication is on, a token that the server minted for a subject identifies exactly that subject, with exactly
  the scopes and the time zone it was minted with, at every instant up to its expiry; afterwards it
  identifies nobody, and the request is refused unless it carries the master password.\<close>

theorem minted_token_recognised:
  assumes jwt: "jwt_law sv"
    and mint: "run_state (mint_access_token sv subject scopes timezone) w = (Inr token, w')"
    and "subject \<noteq> ''''" "header_word token"
    and "get_header ''Authorization'' hs = Some (''Bearer '' @ token)"
    and on: "\<not> as_disable_all_auth (sv_auth sv)"
  shows "request_identity sv now hs =
    (if now \<le> (w_clock w (w_reads w) + as_access_token_lifetime (sv_auth sv)) div nanos
     then Some \<lparr>id_subject = Some subject, id_scopes = scopes,
       id_timezone = (if timezone = '''' then sv_timezone sv else timezone)\<rparr>
     else if master_password_presented sv hs then Some (master_identity sv) else None)"
proof -
  obtain cl where cl: "x_jwt_encode (sv_ext sv) cl = Some token" "cl_iss cl = issuer_url sv"
      "cl_aud cl = [issuer_url sv]" "cl_sub cl = subject" "cl_scope cl = scopes_to_string scopes"
      "cl_exp cl = (w_clock w (w_reads w) + as_access_token_lifetime (sv_auth sv)) div nanos"
      "cl_timezone cl = timezone"
    using wp_run [OF mint wp_mint_claims] by fastforce
  have "verify_access_token sv now token = (if now \<le> cl_exp cl then Some cl else None)"
    using jwt cl(1-4) assms(3) by (auto simp: verify_access_token_def jwt_law_def)
  moreover have "parse_scopes (cl_scope cl) = scopes"
    by (simp add: cl(5) parse_scopes_def split_scopes_to_string)
  ultimately show ?thesis
    by (simp add: request_identity_def bearer_identity_def bearer_token_word [OF assms(5,4)] on cl(4,6,7))
qed

definition entitled :: "service \<Rightarrow> int \<Rightarrow> headers \<Rightarrow> identity \<Rightarrow> bool" where
  "entitled sv now hs i \<longleftrightarrow>
     (as_disable_all_auth (sv_auth sv) \<or> master_password_presented sv hs) \<and> i = master_identity sv
     \<or> (\<exists>token c. bearer_token hs = Some token
          \<and> x_jwt_decode (sv_ext sv) (issuer_url sv) now token = Some c \<and> cl_sub c \<noteq> ''''
          \<and> id_subject i = Some (cl_sub c) \<and> id_scopes i = parse_scopes (cl_scope c))"

lemma request_identity_entitled: "request_identity sv now hs = Some i \<Longrightarrow> entitled sv now hs i"
  by (auto simp: request_identity_def bearer_identity_def entitled_def verify_access_token_def
      split: if_splits option.splits bind_splits)

text \<open>C13: Nothing behind the guard runs for a stranger. Whatever the protected handler does, a request
  to it either is answered 401 with the place of the resource metadata and leaves the tables alone, or
  the handler ran with an identity the request is entitled to at the time of the clock: that of a valid
  bearer token, or the administrator's with the master password or with authentication turned off.\<close>

theorem protect_guards:
  assumes "run_state (protect_resource sv path next hs) w = (resp, w')"
  shows "(rsp_status resp = 401 \<and> w_tables w' = w_tables w
       \<and> (''www-authenticate'', ''Bearer resource_metadata='' @ [CHR 0x22] @ issuer_url sv @ path @ [CHR 0x22])
           \<in> set (rsp_headers resp))
    \<or> (\<exists>i. entitled sv (w_clock w (w_reads w) div nanos) hs i
        \<and> run_state (next i hs) (w\<lparr>w_reads := Suc (w_reads w)\<rparr>) = (resp, w'))"
    (is "?ok resp w'")
proof -
  have "to_ascii_lowercase ''WWW-Authenticate'' = ''www-authenticate''" by code_simp
  then have "wp (protect_resource sv path next hs) ?ok w"
    unfolding protect_resource_def
    by (auto simp: wp_rules unauthorized_def insert_header_def split: option.splits
        dest!: request_identity_entitled intro!: wpI)
  from wp_run [OF assms this] show ?thesis .
qed

end
