(* ===== verification/Binding.thy ===== *)
theory Binding
  imports Auth_Service Token_Endpoint
begin

text \<open>
  The browser binding of a login session (src/server-rs/src/auth/oauth/binding.rs): a secret in a
  cookie, whose digest the session stores.
\<close>

record cookie =
  ck_name :: string
  ck_value :: string
  ck_path :: string
  ck_max_age_seconds :: int
  ck_http_only :: bool

definition secure_issuer :: "service \<Rightarrow> bool" where
  "secure_issuer sv = starts_with ''https://'' (issuer_url sv)"

definition cookie_text :: "service \<Rightarrow> cookie \<Rightarrow> string" where
  "cookie_text sv c =
     ck_name c @ ''='' @ ck_value c @ ''; Path='' @ ck_path c @ ''; Max-Age=''
     @ show_int (ck_max_age_seconds c) @ ''; SameSite=Lax''
     @ (if ck_http_only c then ''; HttpOnly'' else '''')
     @ (if secure_issuer sv then ''; Secure'' else '''')"

definition append_cookie :: "service \<Rightarrow> cookie \<Rightarrow> http_response \<Rightarrow> http_response" where
  "append_cookie sv c response =
     (if header_value_ok (cookie_text sv c)
      then append_header ''set-cookie'' (cookie_text sv c) response else response)"

lemma append_cookie_simps [simp]:
  "rsp_status (append_cookie sv c r) = rsp_status r"
  "rsp_body (append_cookie sv c r) = rsp_body r"
  by (simp_all add: append_cookie_def)

definition login_cookie_name :: "service \<Rightarrow> string" where
  "login_cookie_name sv = (if secure_issuer sv then ''__Host-tallyo_login'' else ''tallyo_login'')"

text \<open>\<open>Binding::attach\<close>\<close>

definition attach_binding :: "service \<Rightarrow> string \<Rightarrow> http_response \<Rightarrow> http_response" where
  "attach_binding sv secret response =
     append_cookie sv
       \<lparr>ck_name = login_cookie_name sv, ck_value = secret, ck_path = ''/'',
        ck_max_age_seconds = login_session_lifetime div nanos, ck_http_only = True\<rparr> response"

lemma attach_binding_simps [simp]:
  "rsp_status (attach_binding sv c r) = rsp_status r"
  "rsp_body (attach_binding sv c r) = rsp_body r"
  by (simp_all add: attach_binding_def)

text \<open>The first cookie of that name over all Cookie headers.\<close>

definition login_binding :: "headers \<Rightarrow> service \<Rightarrow> string option" where
  "login_binding hs sv =
     map_option snd (find (\<lambda>(name, _). name = login_cookie_name sv)
       (List.map_filter (\<lambda>pair. split_once (CHR ''='') (trim pair))
         (concat (map (split_at (CHR '';''))
           (List.map_filter to_str (get_all ''cookie'' hs))))))"

definition session_bound :: "service \<Rightarrow> login_session \<Rightarrow> string option \<Rightarrow> bool" where
  "session_bound sv session binding =
     (case binding of
        None \<Rightarrow> False
      | Some secret \<Rightarrow> token_signature sv secret = ls_browser_binding session)"

definition login_session_expired :: http_response where
  "login_session_expired = text_response 400 ''login session expired''"

datatype binding_error = Expired | Internal

definition binding_error_response :: "binding_error \<Rightarrow> http_response" where
  "binding_error_response e =
     (case e of Expired \<Rightarrow> login_session_expired | Internal \<Rightarrow> text_response 500 ''load login session'')"

definition session_live :: "login_session \<Rightarrow> int \<Rightarrow> bool" where
  "session_live session now \<longleftrightarrow> now < of_timestamp (ls_expires_at session)"

definition bound_login_session ::
    "service \<Rightarrow> string \<Rightarrow> headers \<Rightarrow> (binding_error + login_session) auth_io" where
  "bound_login_session sv session_id hs = do {
     found \<leftarrow> login_session_by_id session_id;
     (case found of
        Inl _ \<Rightarrow> State_Monad.return (Inl Internal)
      | Inr None \<Rightarrow> State_Monad.return (Inl Expired)
      | Inr (Some session) \<Rightarrow> do {
          now \<leftarrow> utc_now;
          State_Monad.return
            (if \<not> session_live session now then Inl Expired
             else if \<not> session_bound sv session (login_binding hs sv) then Inl Expired
             else Inr session)
        })
   }"

end
