(* ===== verification/Ip_Address.thy ===== *)
theory Ip_Address
  imports Rust_Text "HOL-Library.Word"
begin

text \<open>
  IP addresses as Rust's standard library has them (\<open>std::net::IpAddr\<close>): parsing, the canonical
  form of an IPv4-mapped address, and the loopback test. An address is its bits.
\<close>

datatype ip_addr = V4 "32 word" | V6 "128 word"

definition digit_value :: "int \<Rightarrow> char \<Rightarrow> int option" where
  "digit_value radix c =
     (let n = (of_char c :: int);
          d = (if 48 \<le> n \<and> n \<le> 57 then n - 48
               else if 97 \<le> n \<and> n \<le> 122 then n - 87
               else if 65 \<le> n \<and> n \<le> 90 then n - 55 else 255)
      in if d < radix then Some d else None)"

text \<open>A reader returns what it read and the text that is left.\<close>

fun read_digits :: "int \<Rightarrow> string \<Rightarrow> int \<Rightarrow> nat \<Rightarrow> int \<times> nat \<times> string" where
  "read_digits radix [] acc count = (acc, count, [])"
| "read_digits radix (c # s) acc count =
     (case digit_value radix c of
        None \<Rightarrow> (acc, count, c # s)
      | Some d \<Rightarrow> read_digits radix s (acc * radix + d) (Suc count))"

definition read_number :: "int \<Rightarrow> nat \<Rightarrow> bool \<Rightarrow> int \<Rightarrow> string \<Rightarrow> (int \<times> string) option" where
  "read_number radix max_digits allow_zero_prefix limit s =
     (case read_digits radix s 0 0 of (v, count, rest) \<Rightarrow>
        if count > max_digits \<or> count = 0
           \<or> (\<not> allow_zero_prefix \<and> take 1 s = ''0'' \<and> count > 1) \<or> v > limit
        then None else Some (v, rest))"

definition read_given_char :: "char \<Rightarrow> string \<Rightarrow> string option" where
  "read_given_char c s = (case s of [] \<Rightarrow> None | x # r \<Rightarrow> if x = c then Some r else None)"

definition read_separator :: "char \<Rightarrow> nat \<Rightarrow> (string \<Rightarrow> ('a \<times> string) option) \<Rightarrow> string \<Rightarrow>
    ('a \<times> string) option" where
  "read_separator c index inner s =
     (if index = 0 then inner s
      else case read_given_char c s of None \<Rightarrow> None | Some r \<Rightarrow> inner r)"

fun read_octets :: "nat \<Rightarrow> nat \<Rightarrow> string \<Rightarrow> (int list \<times> string) option" where
  "read_octets index 0 s = Some ([], s)"
| "read_octets index (Suc n) s =
     (case read_separator (CHR ''.'') index (read_number 10 3 False 255) s of
        None \<Rightarrow> None
      | Some (v, r) \<Rightarrow> (case read_octets (Suc index) n r of
            None \<Rightarrow> None
          | Some (vs, r') \<Rightarrow> Some (v # vs, r')))"

definition be_value :: "int \<Rightarrow> int list \<Rightarrow> int" where
  "be_value base vs = foldl (\<lambda>acc v. acc * base + v) 0 vs"

definition read_ipv4_addr :: "string \<Rightarrow> (int list \<times> string) option" where
  "read_ipv4_addr s = read_octets 0 4 s"

text \<open>Up to \<open>limit\<close> groups of an IPv6 address; the flag tells that they ended in an embedded
  IPv4 address, for which at least two groups must be left.\<close>

definition embedded_ipv4 :: "nat \<Rightarrow> nat \<Rightarrow> string \<Rightarrow> (int list \<times> string) option" where
  "embedded_ipv4 i left s =
     (if left = 0 then None
      else case read_separator (CHR '':'') i read_ipv4_addr s of
        None \<Rightarrow> None
      | Some (v, r) \<Rightarrow> Some ([be_value 256 (take 2 v), be_value 256 (drop 2 v)], r))"

fun read_groups :: "nat \<Rightarrow> nat \<Rightarrow> string \<Rightarrow> int list \<times> bool \<times> string" where
  "read_groups i 0 s = ([], False, s)"
| "read_groups i (Suc left) s =
     (case embedded_ipv4 i left s of
        Some (gs, r) \<Rightarrow> (gs, True, r)
      | None \<Rightarrow>
        (case read_separator (CHR '':'') i (read_number 16 4 True 65535) s of
           None \<Rightarrow> ([], False, s)
         | Some (g, r) \<Rightarrow>
             (case read_groups (Suc i) left r of (gs, v4, r') \<Rightarrow> (g # gs, v4, r'))))"

definition read_ipv6_addr :: "string \<Rightarrow> (int list \<times> string) option" where
  "read_ipv6_addr s =
     (case read_groups 0 8 s of (head, head_v4, r) \<Rightarrow>
        if length head = 8 then Some (head, r)
        else if head_v4 then None
        else (case Option.bind (read_given_char (CHR '':'') r) (read_given_char (CHR '':'')) of
           None \<Rightarrow> None
         | Some r' \<Rightarrow>
             (case read_groups 0 (8 - (length head + 1)) r' of (tail, _, r'') \<Rightarrow>
                Some (head @ replicate (8 - length head - length tail) 0 @ tail, r''))))"

definition parse_ip :: "string \<Rightarrow> ip_addr option" where
  "parse_ip s =
     (case read_ipv4_addr s of
        Some (octets, r) \<Rightarrow> if r = '''' then Some (V4 (of_int (be_value 256 octets))) else None
      | None \<Rightarrow>
        (case read_ipv6_addr s of
           Some (groups, r) \<Rightarrow> if r = '''' then Some (V6 (of_int (be_value 65536 groups))) else None
         | None \<Rightarrow> None))"

definition is_loopback :: "ip_addr \<Rightarrow> bool" where
  "is_loopback ip =
     (case ip of V4 a \<Rightarrow> drop_bit 24 a = 127 | V6 a \<Rightarrow> a = 1)"

text \<open>\<open>IpAddr::to_canonical\<close>: an IPv4-mapped address is the IPv4 address.\<close>

definition to_canonical :: "ip_addr \<Rightarrow> ip_addr" where
  "to_canonical ip =
     (case ip of
        V4 a \<Rightarrow> V4 a
      | V6 a \<Rightarrow> if drop_bit 32 a = 65535 then V4 (ucast a) else V6 a)"

lemma read_ipv4_examples:
  "read_ipv4_addr ''127.0.0.1'' = Some ([127, 0, 0, 1], '''')"
  "read_ipv4_addr ''01.2.3.4'' = None"
  by code_simp+

lemma read_ipv6_examples:
  "read_ipv6_addr ''::1'' = Some ([0, 0, 0, 0, 0, 0, 0, 1], '''')"
  "read_ipv6_addr ''[::1]'' = None"
  by code_simp+

lemma to_canonical_idem [simp]: "to_canonical (to_canonical ip) = to_canonical ip"
  by (simp add: to_canonical_def split: ip_addr.splits)

end
