(* ===== verification/Authorize.thy ===== *)
theory Authorize
  imports Binding Ip_Address
begin

text \<open>
  The authorization endpoint: starting a login, consent, dynamic client registration and the issue
  of an authorization code (src/server-rs/src/auth/oauth/authorize.rs).
\<close>

definition auth_code_lifetime :: int where
  "auth_code_lifetime = seconds 60"

definition max_redirect_uris :: nat where
  "max_redirect_uris = 10"

definition max_redirect_uri_bytes :: nat where
  "max_redirect_uri_bytes = 512"

definition max_client_name_bytes :: nat where
  "max_client_name_bytes = 256"

definition INVALID_SCOPE :: string where
  "INVALID_SCOPE = ''The requested scope is invalid, unknown, or malformed.''"

definition UNSUPPORTED_RESPONSE_TYPE :: string where
  "UNSUPPORTED_RESPONSE_TYPE = ''The authorization server does not support obtaining an authorization code using this method.''"

definition UNAUTHORIZED_CODE_CLIENT :: string where
  "UNAUTHORIZED_CODE_CLIENT = ''The client is not authorized to request an authorization code using this method.''"

record authorize_request =
  arq_client_id :: "string option"
  arq_redirect_uri :: "string option"
  arq_response_type :: "string option"
  arq_scope :: "string option"
  arq_state :: "string option"
  arq_code_challenge :: "string option"
  arq_code_challenge_method :: "string option"
  arq_auth_method :: "string option"
  arq_session_id :: "string option"

record consent_request =
  crq_session_id :: string
  crq_consent :: "string option"

record registration_request =
  rrq_client_name :: string
  rrq_redirect_uris :: "string list"
  rrq_grant_types :: "string list"
  rrq_response_types :: "string list"
  rrq_application_type :: string
  rrq_token_endpoint_auth_method :: string

section \<open>Redirect URIs\<close>

definition valid_redirect_uri :: "service \<Rightarrow> string \<Rightarrow> bool" where
  "valid_redirect_uri sv uri \<longleftrightarrow> x_url_parse (sv_ext sv) uri \<noteq> None"

definition authorization_redirect_uri ::
    "service \<Rightarrow> oauth_client \<Rightarrow> string option \<Rightarrow> string option" where
  "authorization_redirect_uri sv c requested =
     (case requested of
        Some uri \<Rightarrow>
          if valid_redirect_uri sv uri \<and> uri \<in> set (oc_redirect_uris c) then Some uri else None
      | None \<Rightarrow>
          (case oc_redirect_uris c of
             [uri] \<Rightarrow> if valid_redirect_uri sv uri then Some uri else None
           | _ \<Rightarrow> None))"

definition allowed_https_host :: "service \<Rightarrow> string option \<Rightarrow> bool" where
  "allowed_https_host sv host =
     (case present (map_option trim host) of
        None \<Rightarrow> False
      | Some h \<Rightarrow>
          (case Option.bind (x_url_parse (sv_ext sv) (issuer_url sv)) url_host of
             None \<Rightarrow> False
           | Some issuer \<Rightarrow> eq_ignore_ascii_case h issuer)
          \<or> list_ex (\<lambda>allowed. eq_ignore_ascii_case h (trim allowed))
              (dcr_dynamic_redirect_hosts (sv_dcr sv)))"

definition allowed_dynamic_redirect_uri :: "service \<Rightarrow> string \<Rightarrow> bool" where
  "allowed_dynamic_redirect_uri sv uri =
     (case x_url_parse (sv_ext sv) uri of
        None \<Rightarrow> False
      | Some parsed \<Rightarrow>
          if url_scheme parsed = '''' \<or> url_fragment parsed \<noteq> None
             \<or> url_username parsed \<noteq> '''' \<or> url_password parsed \<noteq> None
          then False
          else (let scheme = to_ascii_lowercase (url_scheme parsed)
                in if scheme = ''https'' then allowed_https_host sv (url_host parsed)
                   else if scheme = ''http''
                   then (case url_host parsed of
                           None \<Rightarrow> False
                         | Some host \<Rightarrow> eq_ignore_ascii_case host ''localhost''
                             \<or> (case parse_ip host of None \<Rightarrow> False | Some ip \<Rightarrow> is_loopback ip))
                   else scheme \<notin> {''javascript'', ''data'', ''file'', ''vbscript'', ''about'', ''blob'', ''mailto''}))"

definition set_query_value :: "string \<Rightarrow> string \<Rightarrow> parsed_url \<Rightarrow> parsed_url" where
  "set_query_value name val url =
     url\<lparr>url_query := Some (filter (\<lambda>(key, _). key \<noteq> name)
       (case url_query url of None \<Rightarrow> [] | Some pairs \<Rightarrow> pairs) @ [(name, val)])\<rparr>"

definition callback_url :: "service \<Rightarrow> string \<Rightarrow> string \<Rightarrow> string \<Rightarrow> string option" where
  "callback_url sv redirect_uri code state =
     (case x_url_parse (sv_ext sv) redirect_uri of
        None \<Rightarrow> None
      | Some url \<Rightarrow>
          (let callback = set_query_value ''code'' code url
           in Some (x_url_print (sv_ext sv)
                (if state = '''' then callback else set_query_value ''state'' state callback))))"

definition redirect :: "string \<Rightarrow> http_response" where
  "redirect location =
     (if header_value_ok location then insert_header ''Location'' location (status_response 302)
      else text_response 500 ''invalid redirect uri'')"

definition authorize_error ::
    "service \<Rightarrow> string \<Rightarrow> string option \<Rightarrow> string \<Rightarrow> string \<Rightarrow> http_response" where
  "authorize_error sv redirect_uri state error description =
     (case x_url_parse (sv_ext sv) redirect_uri of
        None \<Rightarrow> oauth_error 400 error description
      | Some url \<Rightarrow>
          (let url = set_query_value ''error_description'' description
                 (set_query_value ''error'' error url)
           in redirect (x_url_print (sv_ext sv)
                (case present state of None \<Rightarrow> url | Some s \<Rightarrow> set_query_value ''state'' s url))))"

section \<open>The consent page\<close>

definition escape_html :: "string \<Rightarrow> string" where
  "escape_html val =
     replace_all [CHR 0x27] ''&#39;'' (replace_all [CHR 0x22] ''&quot;''
       (replace_all ''>'' ''&gt;'' (replace_all ''<'' ''&lt;'' (replace_all ''&'' ''&amp;'' val))))"

definition role_for_session :: "login_session \<Rightarrow> role auth_db" where
  "role_for_session session =
     (if ls_subject session = '''' then ok Writer
      else try_bind (user_role (ls_subject session)) (ok_or ''user role not found''))"

definition CONSENT_TEMPLATE :: string where
  "CONSENT_TEMPLATE =
     ''<!doctype html><html lang=\"en\"><head><meta charset=\"utf-8\"><meta name=\"viewp''
     @ ''ort\" content=\"width=device-width, initial-scale=1\"><title>Authorize OAuth Cl''
     @ ''ient</title><style>body{margin:0;min-height:100vh;display:grid;place-items:c''
     @ ''enter;font-family:system-ui,sans-serif;background:#0f172a;color:#e2e8f0}main''
     @ ''{width:min(92vw,32rem);background:#111827;border:1px solid #334155;border-ra''
     @ ''dius:1rem;padding:2rem;box-shadow:0 24px 80px rgba(0,0,0,.35)}p,li{color:#cb''
     @ ''d5e1;line-height:1.5}code{display:block;overflow-wrap:anywhere;padding:.75re''
     @ ''m;border-radius:.5rem;background:#020617;color:#bfdbfe}form{display:flex;gap''
     @ '':.75rem;margin-top:1.5rem}button{border:0;border-radius:.5rem;padding:.75rem''
     @ '' 1rem;font-weight:700;cursor:pointer}button[value=\"allow\"]{background:#22c55''
     @ ''e;color:#052e16}button[value=\"deny\"]{background:#334155;color:#f8fafc}</styl''
     @ ''e></head><body><main><h1>Authorize {client}</h1><p>This third-party OAuth cl''
     @ ''ient wants access to your Tallyo account.</p><p>Redirect URI:</p><code>{redi''
     @ ''rect}</code><p>Scopes that will be granted:</p>{scopes}<form method=\"post\" a''
     @ ''ction=\"/consent\"><input type=\"hidden\" name=\"session_id\" value=\"{session}\"><b''
     @ ''utton type=\"submit\" name=\"consent\" value=\"allow\">Allow</button><button type=''
     @ ''\"submit\" name=\"consent\" value=\"deny\">Deny</button></form></main></body></htm''
     @ ''l>''"

definition render_consent :: "login_session \<Rightarrow> oauth_client \<Rightarrow> scope list \<Rightarrow> http_response" where
  "render_consent session c scopes =
     (let client_name = (if oc_client_name c = '''' then oc_id c else oc_client_name c);
          scope_list =
            (if scopes = [] then ''<p>No scopes requested.</p>''
             else ''<ul>'' @ concat (map (\<lambda>sc. ''<li>'' @ escape_html (scope_name sc) @ ''</li>'') scopes)
                  @ ''</ul>'')
      in html_response
        (replace_all ''{session}'' (escape_html (ls_id session))
          (replace_all ''{scopes}'' scope_list
            (replace_all ''{redirect}'' (escape_html (ls_redirect_uri session))
              (replace_all ''{client}'' (escape_html client_name) CONSENT_TEMPLATE)))))"

definition render_consent_for_session :: "string \<Rightarrow> http_response auth_io" where
  "render_consent_for_session session_id = do {
     found \<leftarrow> login_session_by_id session_id;
     (case found of
        Inl _ \<Rightarrow> State_Monad.return (text_response 500 ''load login session'')
      | Inr None \<Rightarrow> State_Monad.return (text_response 400 ''login session expired'')
      | Inr (Some session) \<Rightarrow>
          if \<not> ls_authenticated session
          then State_Monad.return (text_response 400 ''login session expired'')
          else do {
            now \<leftarrow> utc_now;
            if \<not> session_live session now
            then State_Monad.return (text_response 400 ''login session expired'')
            else do {
              loaded \<leftarrow> client (ls_client_id session);
              (case loaded of
                 Inr (Some c) \<Rightarrow> do {
                   role \<leftarrow> role_for_session session;
                   State_Monad.return
                     (case role of
                        Inl _ \<Rightarrow> text_response 500 ''load user role''
                      | Inr r \<Rightarrow> render_consent session c
                          (granted_scopes_for_role r (split_whitespace (ls_scopes session))))
                 }
               | _ \<Rightarrow> State_Monad.return (text_response 500 ''client not found''))
            }
          })
   }"

section \<open>Finishing an authorization\<close>

definition accepts_json :: "headers \<Rightarrow> bool" where
  "accepts_json hs \<longleftrightarrow> Option.bind (get_header ''Accept'' hs) to_str = Some ''application/json''"

definition complete_authorize ::
    "service \<Rightarrow> string \<Rightarrow> bool \<Rightarrow> headers \<Rightarrow> http_response auth_io" where
  "complete_authorize sv session_id consent_approved hs = do {
     bound \<leftarrow> bound_login_session sv session_id hs;
     (case bound of
        Inl e \<Rightarrow> State_Monad.return (binding_error_response e)
      | Inr session \<Rightarrow>
          if \<not> ls_authenticated session then State_Monad.return login_session_expired
          else do {
            loaded \<leftarrow> client (ls_client_id session);
            (case loaded of
               Inr (Some c) \<Rightarrow> do {
                 known \<leftarrow> role_for_session session;
                 (case known of
                    Inl _ \<Rightarrow> State_Monad.return (text_response 500 ''load user role'')
                  | Inr role \<Rightarrow>
                      (let scopes = granted_scopes_for_role role (split_whitespace (ls_scopes session))
                       in if \<not> oc_preseeded c \<and> \<not> consent_approved
                          then State_Monad.return (render_consent session c scopes)
                          else do {
                            claimed \<leftarrow> claim_authenticated_login_session (ls_id session);
                            (case claimed of
                               Inl _ \<Rightarrow> State_Monad.return (text_response 500 ''claim login session'')
                             | Inr False \<Rightarrow> State_Monad.return login_session_expired
                             | Inr True \<Rightarrow> do {
                                 code \<leftarrow> random_token 32;
                                 now \<leftarrow> utc_now;
                                 created \<leftarrow> create_auth_code (token_signature sv) code
                                   \<lparr>ac_client_id = ls_client_id session,
                                    ac_subject = ls_subject session,
                                    ac_scopes = scopes_to_string scopes,
                                    ac_redirect_uri = ls_redirect_uri session,
                                    ac_code_challenge = ls_code_challenge session,
                                    ac_code_challenge_method = ls_code_challenge_method session,
                                    ac_expires_at = to_timestamp (now + auth_code_lifetime),
                                    ac_active = True\<rparr>;
                                 State_Monad.return
                                   (case created of
                                      Inl _ \<Rightarrow> text_response 500 ''create authorization code''
                                    | Inr _ \<Rightarrow>
                                        (case callback_url sv (ls_redirect_uri session) code
                                            (ls_state session) of
                                           None \<Rightarrow> text_response 500 ''invalid redirect uri''
                                         | Some callback \<Rightarrow>
                                             if accepts_json hs
                                             then json_response 200
                                               (JObj [(''callback_url'', JStr callback)])
                                             else redirect callback))
                               })
                          }))
               }
             | _ \<Rightarrow> State_Monad.return (text_response 500 ''client not found''))
          })
   }"

definition deny_authorize :: "service \<Rightarrow> string \<Rightarrow> http_response auth_io" where
  "deny_authorize sv session_id = do {
     found \<leftarrow> login_session_by_id session_id;
     (case found of
        Inr (Some session) \<Rightarrow> do {
          _ \<leftarrow> delete_login_session (ls_id session);
          State_Monad.return
            (case x_url_parse (sv_ext sv) (ls_redirect_uri session) of
               None \<Rightarrow> text_response 403 ''access denied''
             | Some url \<Rightarrow>
                 (let url = set_query_value ''error'' ''access_denied'' url
                  in redirect (x_url_print (sv_ext sv)
                       (if ls_state session = '''' then url
                        else set_query_value ''state'' (ls_state session) url))))
        }
      | _ \<Rightarrow> State_Monad.return (text_response 400 ''login session expired''))
   }"

section \<open>Starting an authorization\<close>

definition requested_scopes :: "authorize_request \<Rightarrow> string list" where
  "requested_scopes request =
     (case arq_scope request of
        None \<Rightarrow> [''read'', ''write'']
      | Some s \<Rightarrow> if split_whitespace s = [] then [''read'', ''write''] else split_whitespace s)"

definition authorize_validation ::
    "authorize_request \<Rightarrow> oauth_client \<Rightarrow> (string \<times> string) option" where
  "authorize_validation request c =
     (if arq_response_type request \<noteq> Some ''code''
      then Some (''unsupported_response_type'', UNSUPPORTED_RESPONSE_TYPE)
      else if ''code'' \<notin> set (oc_response_types c)
              \<or> ''authorization_code'' \<notin> set (oc_grant_types c)
      then Some (''unauthorized_client'', UNAUTHORIZED_CODE_CLIENT)
      else if present (arq_code_challenge request) = None
              \<or> arq_code_challenge_method request \<noteq> Some ''S256''
      then Some (''invalid_request'', INVALID_REQUEST)
      else if \<not> list_all (\<lambda>scope. scope \<in> set (oc_scopes c)) (requested_scopes request)
      then Some (''invalid_scope'', INVALID_SCOPE)
      else None)"

definition login_page :: "service \<Rightarrow> string option \<Rightarrow> string \<Rightarrow> http_response" where
  "login_page sv auth_method session_id =
     (case auth_method of
        None \<Rightarrow> redirect (issuer_url sv @ ''/auth/login?login_session='' @ session_id)
      | Some m \<Rightarrow>
          if m = ''email'' \<and> \<not> sv_email_enabled sv then text_response 400 ''email auth is not enabled''
          else if m = ''google'' \<and> \<not> sv_google sv then text_response 400 ''google auth is not enabled''
          else if m = ''webauthn'' \<and> \<not> sv_passkey_enabled sv
          then text_response 400 ''webauthn is not enabled''
          else if m = ''webauthn''
          then json_response 200 (JObj [(''login_session_id'', JStr session_id)])
          else if m = ''email''
          then redirect (issuer_url sv @ ''/auth/email-challenge?login_session='' @ session_id)
          else if m = ''google''
          then redirect (issuer_url sv @ ''/auth/google?login_session='' @ session_id)
          else text_response 400 ''unsupported auth method'')"

definition text_or_empty :: "string option \<Rightarrow> string" where
  "text_or_empty v = (case v of None \<Rightarrow> '''' | Some s \<Rightarrow> s)"

definition start_authorize ::
    "service \<Rightarrow> authorize_request \<Rightarrow> oauth_client \<Rightarrow> string \<Rightarrow> http_response auth_io" where
  "start_authorize sv request c redirect_uri = do {
     secret \<leftarrow> random_token 32;
     session_id \<leftarrow> random_token 16;
     callback_state \<leftarrow> random_token 24;
     now \<leftarrow> utc_now;
     created \<leftarrow> create_login_session
       \<lparr>ls_id = session_id, ls_client_id = oc_id c, ls_redirect_uri = redirect_uri,
        ls_state = text_or_empty (arq_state request),
        ls_code_challenge = text_or_empty (arq_code_challenge request),
        ls_code_challenge_method = ''S256'',
        ls_scopes = join '' '' (requested_scopes request), ls_callback_state = callback_state,
        ls_subject = '''', ls_authenticated = False,
        ls_expires_at = to_timestamp (now + login_session_lifetime),
        ls_email = '''', ls_email_otp = '''', ls_email_otp_expires_at = None,
        ls_email_otp_attempts = 0, ls_email_magic_token = '''', ls_pkce_verifier = '''',
        ls_webauthn_session = '''', ls_purpose = '''',
        ls_browser_binding = token_signature sv secret\<rparr>;
     (case created of
        Inl _ \<Rightarrow> State_Monad.return (text_response 500 ''save login session'')
      | Inr _ \<Rightarrow> do {
          _ \<leftarrow> touch_client (oc_id c);
          State_Monad.return
            (attach_binding sv secret (login_page sv (arq_auth_method request) session_id))
        })
   }"

definition authorize :: "service \<Rightarrow> authorize_request \<Rightarrow> headers \<Rightarrow> http_response auth_io" where
  "authorize sv request hs =
     (case present (arq_session_id request) of
        Some session_id \<Rightarrow> complete_authorize sv session_id False hs
      | None \<Rightarrow> do {
          found \<leftarrow> client (text_or_empty (arq_client_id request));
          (case found of
             Inl _ \<Rightarrow> State_Monad.return (text_response 500 ''load client'')
           | Inr None \<Rightarrow> State_Monad.return (oauth_error 401 ''invalid_client'' INVALID_CLIENT)
           | Inr (Some c) \<Rightarrow>
               (case authorization_redirect_uri sv c (arq_redirect_uri request) of
                  None \<Rightarrow> State_Monad.return (oauth_error 400 ''invalid_request'' INVALID_REQUEST)
                | Some redirect_uri \<Rightarrow>
                    (case authorize_validation request c of
                       Some (error, description) \<Rightarrow> State_Monad.return
                         (authorize_error sv redirect_uri (arq_state request) error description)
                     | None \<Rightarrow> start_authorize sv request c redirect_uri)))
        })"

definition no_session :: http_response where
  "no_session = oauth_error 400 ''invalid_request'' ''No active authorization session''"

definition consent_form :: "consent_request option \<Rightarrow> http_response auth_io" where
  "consent_form form =
     (case form of
        None \<Rightarrow> State_Monad.return (text_response 400 ''invalid form'')
      | Some f \<Rightarrow> if crq_session_id f = '''' then State_Monad.return no_session
          else render_consent_for_session (crq_session_id f))"

definition consent :: "service \<Rightarrow> headers \<Rightarrow> consent_request option \<Rightarrow> http_response auth_io" where
  "consent sv hs form =
     (case form of
        None \<Rightarrow> State_Monad.return (text_response 400 ''invalid form'')
      | Some f \<Rightarrow> if crq_session_id f = '''' then State_Monad.return no_session
          else if crq_consent f = Some ''allow''
          then complete_authorize sv (crq_session_id f) True hs
          else deny_authorize sv (crq_session_id f))"

section \<open>Dynamic client registration\<close>

definition default_or :: "string list \<Rightarrow> string list \<Rightarrow> string list" where
  "default_or val d = (if val = [] then d else val)"

definition registration_malformed :: "registration_request \<Rightarrow> bool" where
  "registration_malformed r \<longleftrightarrow>
     rrq_redirect_uris r = [] \<or> length (rrq_redirect_uris r) > max_redirect_uris
     \<or> list_ex (\<lambda>uri. length uri > max_redirect_uri_bytes) (rrq_redirect_uris r)
     \<or> length (rrq_client_name r) > max_client_name_bytes
     \<or> (rrq_token_endpoint_auth_method r \<noteq> '''' \<and> rrq_token_endpoint_auth_method r \<noteq> ''none'')"

definition register :: "service \<Rightarrow> registration_request option \<Rightarrow> http_response auth_io" where
  "register sv request =
     (if \<not> dcr_enabled (sv_dcr sv) then State_Monad.return (status_response 404)
      else case request of
        None \<Rightarrow> State_Monad.return (text_response 400 ''invalid registration'')
      | Some r \<Rightarrow>
          if registration_malformed r
          then State_Monad.return (text_response 400 ''invalid registration'')
          else if list_ex (\<lambda>uri. \<not> allowed_dynamic_redirect_uri sv uri) (rrq_redirect_uris r)
          then State_Monad.return (text_response 400 ''redirect_uri must target the issuer host, an allowed host, localhost, or a private app scheme'')
          else do {
            client_id \<leftarrow> random_token 18;
            (let c = \<lparr>oc_id = client_id, oc_redirect_uris = rrq_redirect_uris r,
               oc_grant_types = default_or (rrq_grant_types r) [''authorization_code'', ''refresh_token''],
               oc_response_types = default_or (rrq_response_types r) [''code''],
               oc_scopes = client_allowed_scopes,
               oc_application_type =
                 (if rrq_application_type r = '''' then ''native'' else rrq_application_type r),
               oc_client_name = rrq_client_name r, oc_public = True, oc_preseeded = False\<rparr>
             in do {
               saved \<leftarrow> save_client c;
               (case saved of
                  Inl _ \<Rightarrow> State_Monad.return (text_response 500 ''save client'')
                | Inr _ \<Rightarrow> do {
                    now \<leftarrow> utc_now;
                    State_Monad.return (public_json (JObj
                      ([(''client_id'', JStr client_id), (''client_id_issued_at'', JNum (now div nanos)),
                        (''token_endpoint_auth_method'', JStr ''none''),
                        (''grant_types'', JArr (map JStr (oc_grant_types c))),
                        (''response_types'', JArr (map JStr (oc_response_types c))),
                        (''redirect_uris'', JArr (map JStr (oc_redirect_uris c)))]
                       @ (if oc_client_name c = '''' then []
                          else [(''client_name'', JStr (oc_client_name c))]))))
                  })
             })
          })"

end
