(* ===== verification/Identity_Provider.thy ===== *)
theory Identity_Provider
  imports Authorize
begin

text \<open>
  Proving who is at the browser: one-time codes and magic links by e-mail
  (src/server-rs/src/auth/email.rs, src/server-rs/src/auth/oauth/identity_provider.rs), Google
  (src/server-rs/src/auth/google.rs) and the invitations an administrator sends
  (src/server-rs/src/auth/service.rs). Sending mail and asking Google are parameters; the ten-second
  timeout around the Google exchange can strike in its two calls.
\<close>

definition otp_lifetime :: int where
  "otp_lifetime = seconds (10 * 60)"

definition otp_cooldown :: int where
  "otp_cooldown = seconds 60"

definition ERR_NOT_FOUND_OR_EXPIRED :: string where
  "ERR_NOT_FOUND_OR_EXPIRED = ''login session not found or expired''"

definition ERR_ALREADY_AUTHENTICATED :: string where
  "ERR_ALREADY_AUTHENTICATED = ''login session already authenticated''"

definition ERR_OTP_COOLDOWN :: string where
  "ERR_OTP_COOLDOWN = ''please wait before requesting a new code''"

definition ERR_EMAIL_AUTH_NOT_ENABLED :: string where
  "ERR_EMAIL_AUTH_NOT_ENABLED = ''email auth is not enabled''"

section \<open>E-mail (email.rs)\<close>

text \<open>\<open>random_range(100000..=999999)\<close>: an arbitrary number of that range, taken from a draw.\<close>

definition generate_otp :: "string auth_io" where
  "generate_otp = do {
     draw \<leftarrow> random_token 0;
     State_Monad.return (show_nat (100000 + length draw mod 900000))
   }"

definition normalize_email :: "service \<Rightarrow> string \<Rightarrow> string" where
  "normalize_email sv email = x_lowercase (sv_ext sv) (trim email)"

definition magic_link_url ::
    "service \<Rightarrow> string \<Rightarrow> string \<Rightarrow> string \<Rightarrow> bool \<Rightarrow> string" where
  "magic_link_url sv token session_id email onboarding =
     issuer_url sv @ ''/auth/email/magic?'' @ x_form_encode (sv_ext sv)
       ([(''token'', token), (''session_id'', session_id), (''email'', email)]
        @ (if onboarding then [(''onboarding'', ''passkey'')] else []))"

definition login_mail :: "string \<Rightarrow> string \<Rightarrow> string" where
  "login_mail code magic_link =
     ''Your Tallyo sign-in code is: '' @ code @ [CHR 10, CHR 10]
     @ ''Or, click this link to sign in instantly:'' @ [CHR 10] @ magic_link @ [CHR 10, CHR 10]
     @ ''Both must be used in the browser where you started signing in, within ''
     @ show_int (otp_lifetime div seconds 60) @ '' minutes.'' @ [CHR 10, CHR 10]
     @ ''If you didn'' @ [CHR 0x27] @ ''t request this, you can safely ignore this email.''"

text \<open>The answer tells whether a message says that the address may be unknown.\<close>

definition cooling_down :: "login_session \<Rightarrow> int \<Rightarrow> bool" where
  "cooling_down session now =
     (case ls_email_otp_expires_at session of
        None \<Rightarrow> False | Some e \<Rightarrow> now + (otp_lifetime - otp_cooldown) < of_timestamp e)"

definition send_email_code :: "service \<Rightarrow> string \<Rightarrow> string \<Rightarrow> string option auth_db" where
  "send_email_code sv session_id requested_email =
     try_bind (ensure (sv_email_enabled sv) ERR_EMAIL_AUTH_NOT_ENABLED) (\<lambda>_.
     let email = normalize_email sv requested_email in
     try_bind (is_email_allowed email) (\<lambda>allowed.
       if \<not> allowed then ok (Some ''If that address is registered, a code has been sent.'')
       else
         try_bind (login_session_by_id session_id) (\<lambda>found.
         try_bind (ok_or ERR_NOT_FOUND_OR_EXPIRED found) (\<lambda>session.
         try_bind (lift utc_now) (\<lambda>t0.
         try_bind (ensure (session_live session t0) ERR_NOT_FOUND_OR_EXPIRED) (\<lambda>_.
         try_bind (ensure (\<not> ls_authenticated session) ERR_ALREADY_AUTHENTICATED) (\<lambda>_.
         try_bind (lift utc_now) (\<lambda>t1.
         try_bind (ensure (\<not> cooling_down session t1) ERR_OTP_COOLDOWN) (\<lambda>_.
         try_bind (lift generate_otp) (\<lambda>code.
         try_bind (lift (random_token 32)) (\<lambda>magic_token.
         try_bind (lift utc_now) (\<lambda>t2.
         try_bind (save_email_otp
           \<lparr>eou_session_id = session_id, eou_email = email,
            eou_hashed_otp = token_signature sv code,
            eou_hashed_magic_token = token_signature sv magic_token,
            eou_pkce_verifier = '''', eou_expires_at = t2 + otp_lifetime\<rparr>) (\<lambda>_.
           if x_send_mail (sv_ext sv) email
                (login_mail code (magic_link_url sv magic_token session_id email False))
           then ok None else err (Msg ''send smtp message''))))))))))))))"

definition verify_email_code :: "service \<Rightarrow> string \<Rightarrow> string \<Rightarrow> string \<Rightarrow> login_session auth_db" where
  "verify_email_code sv session_id email code =
     verify_email_otp (token_signature sv) session_id (normalize_email sv email) code"

definition verify_email_magic_link :: "service \<Rightarrow> string \<Rightarrow> string \<Rightarrow> string \<Rightarrow> login_session auth_db" where
  "verify_email_magic_link sv session_id email token =
     verify_email_magic_token (token_signature sv) session_id (normalize_email sv email) token"

section \<open>Invitations (service.rs, email.rs)\<close>

definition build_invite_session ::
    "service \<Rightarrow> string \<Rightarrow> role \<Rightarrow> int \<Rightarrow> string \<Rightarrow> (string \<times> int) auth_db" where
  "build_invite_session sv email role ttl purpose =
     try_bind (lift (random_token 32)) (\<lambda>verifier.
     try_bind (lift (random_token 16)) (\<lambda>session_id.
     try_bind (lift (random_token 24)) (\<lambda>callback_state.
     try_bind (lift utc_now) (\<lambda>now.
     try_bind (from_std ttl) (\<lambda>lifetime.
     let expires_at = now + lifetime in
     try_bind (ok_or ''frontend redirect uri is required''
         (case as_frontend_redirect_uris (sv_auth sv) of [] \<Rightarrow> None | uri # _ \<Rightarrow> Some uri)) (\<lambda>redirect_uri.
     try_bind (create_login_session
       \<lparr>ls_id = session_id, ls_client_id = frontend_client_id, ls_redirect_uri = redirect_uri,
        ls_state = '''', ls_code_challenge = code_challenge sv verifier,
        ls_code_challenge_method = ''S256'',
        ls_scopes = scopes_to_string (scopes_for_role role), ls_callback_state = callback_state,
        ls_subject = '''', ls_authenticated = False, ls_expires_at = to_timestamp expires_at,
        ls_email = '''', ls_email_otp = '''', ls_email_otp_expires_at = None,
        ls_email_otp_attempts = 0, ls_email_magic_token = '''', ls_pkce_verifier = '''',
        ls_webauthn_session = '''', ls_purpose = purpose, ls_browser_binding = ''''\<rparr>) (\<lambda>_.
     try_bind (lift (random_token 32)) (\<lambda>token.
     try_bind (save_email_otp
       \<lparr>eou_session_id = session_id, eou_email = email, eou_hashed_otp = '''',
        eou_hashed_magic_token = token_signature sv token, eou_pkce_verifier = verifier,
        eou_expires_at = expires_at\<rparr>) (\<lambda>_.
     ok (magic_link_url sv token session_id email (purpose = ''passkey''), expires_at))))))))))"

definition invitation_mail :: "string \<Rightarrow> string \<Rightarrow> string" where
  "invitation_mail invited_by link =
     ''You'' @ [CHR 0x27] @ ''ve been invited to Tallyo by '' @ invited_by @ ''.'' @ [CHR 10, CHR 10]
     @ ''Click the link below to sign in '' @ map char_of [0xE2::nat, 0x80, 0x94]
     @ '' it expires in 24 hours:'' @ [CHR 10] @ link @ [CHR 10, CHR 10]
     @ ''If you didn'' @ [CHR 0x27] @ ''t expect this invitation, you can safely ignore this email.''"

definition send_invitation :: "service \<Rightarrow> string \<Rightarrow> role \<Rightarrow> string \<Rightarrow> unit auth_db" where
  "send_invitation sv email role invited_by =
     (if \<not> as_oauth_enabled (sv_auth sv) then ok ()
      else try_bind (build_invite_session sv email role (seconds (24 * 60 * 60)) '''') (\<lambda>(link, _).
        if x_send_mail (sv_ext sv) email (invitation_mail invited_by link) then ok ()
        else err (Msg ''send invitation email'')))"

definition create_invite_link :: "service \<Rightarrow> string \<Rightarrow> role \<Rightarrow> (string \<times> int) auth_db" where
  "create_invite_link sv email role =
     try_bind (ensure (as_oauth_enabled (sv_auth sv)) ''invitations are not configured'') (\<lambda>_.
       build_invite_session sv email role (seconds (15 * 60)) ''passkey'')"

section \<open>The e-mail endpoints\<close>

record email_send_request =
  esr_login_session_id :: string
  esr_email :: string

record email_verify_request =
  evr_login_session_id :: string
  evr_email :: string
  evr_code :: string

record magic_link_request =
  mlr_token :: string
  mlr_session_id :: string
  mlr_email :: string

definition email_verification_error :: "string \<Rightarrow> string \<Rightarrow> http_response" where
  "email_verification_error error message =
     json_response 400 (JObj [(''error'', JStr error), (''message'', JStr message)])"

definition email_session_error :: "binding_error \<Rightarrow> http_response" where
  "email_session_error e =
     (case e of
        Expired \<Rightarrow> email_verification_error ''expired'' ''Your sign-in session has expired. Please start over.''
      | Internal \<Rightarrow> binding_error_response e)"

definition invalid_magic_link :: http_response where
  "invalid_magic_link = text_response 400 ''Invalid or already used magic link.''"

definition email_send_response :: "error + string option \<Rightarrow> http_response" where
  "email_send_response r =
     (case r of
        Inr (Some message) \<Rightarrow>
          json_response 200 (JObj [(''sent'', JBool True), (''message'', JStr message)])
      | Inr None \<Rightarrow> json_response 200 (JObj [(''sent'', JBool True)])
      | Inl e \<Rightarrow>
          if e = Msg ERR_NOT_FOUND_OR_EXPIRED then text_response 400 ERR_NOT_FOUND_OR_EXPIRED
          else if e = Msg ERR_ALREADY_AUTHENTICATED then text_response 400 ERR_ALREADY_AUTHENTICATED
          else if e = Msg ERR_OTP_COOLDOWN then text_response 429 ERR_OTP_COOLDOWN
          else text_response 500 ''send email failed'')"

definition email_send ::
    "service \<Rightarrow> headers \<Rightarrow> email_send_request option \<Rightarrow> http_response auth_io" where
  "email_send sv hs request =
     (if \<not> sv_email_enabled sv
      then State_Monad.return (text_response 404 ERR_EMAIL_AUTH_NOT_ENABLED)
      else case request of
        None \<Rightarrow> State_Monad.return (text_response 400 ''invalid request'')
      | Some r \<Rightarrow>
          if esr_login_session_id r = '''' \<or> esr_email r = ''''
          then State_Monad.return (text_response 400 ''missing required fields'')
          else do {
            bound \<leftarrow> bound_login_session sv (esr_login_session_id r) hs;
            (case bound of
               Inl e \<Rightarrow> State_Monad.return (email_session_error e)
             | Inr _ \<Rightarrow> do {
                 result \<leftarrow> send_email_code sv (esr_login_session_id r) (esr_email r);
                 State_Monad.return (email_send_response result)
               })
          })"

definition email_verify_response :: "service \<Rightarrow> error + login_session \<Rightarrow> http_response" where
  "email_verify_response sv r =
     (case r of
        Inr session \<Rightarrow>
          json_response 200 (JObj [(''redirect_url'',
            JStr (issuer_url sv @ ''/authorize?session_id='' @ ls_id session))])
      | Inl e \<Rightarrow>
          if e = Msg ''invalid_code''
          then email_verification_error ''invalid_code'' ''Incorrect code. Please try again.''
          else if e = Msg ''too_many_attempts''
          then email_verification_error ''too_many_attempts''
                 ''Too many incorrect attempts. Please start over.''
          else if e = Msg ''expired''
          then email_verification_error ''expired'' ''Code has expired. Please start over.''
          else text_response 400 ''verification failed'')"

definition email_verify ::
    "service \<Rightarrow> headers \<Rightarrow> email_verify_request option \<Rightarrow> http_response auth_io" where
  "email_verify sv hs request =
     (if \<not> sv_email_enabled sv
      then State_Monad.return (text_response 404 ERR_EMAIL_AUTH_NOT_ENABLED)
      else case request of
        None \<Rightarrow> State_Monad.return (text_response 400 ''invalid request'')
      | Some r \<Rightarrow>
          if evr_login_session_id r = '''' \<or> evr_email r = '''' \<or> evr_code r = ''''
          then State_Monad.return (text_response 400 ''missing required fields'')
          else do {
            bound \<leftarrow> bound_login_session sv (evr_login_session_id r) hs;
            (case bound of
               Inl e \<Rightarrow> State_Monad.return (email_session_error e)
             | Inr _ \<Rightarrow> do {
                 result \<leftarrow> verify_email_code sv (evr_login_session_id r) (evr_email r) (evr_code r);
                 State_Monad.return (email_verify_response sv result)
               })
          })"

section \<open>Magic links\<close>

definition magic_cookie :: "string \<Rightarrow> string \<Rightarrow> string \<Rightarrow> cookie" where
  "magic_cookie name val path =
     \<lparr>ck_name = name, ck_value = val, ck_path = path, ck_max_age_seconds = 300,
      ck_http_only = False\<rparr>"

definition magic_link_session_unbound ::
    "service \<Rightarrow> string \<Rightarrow> headers \<Rightarrow> (http_response + bool) auth_io" where
  "magic_link_session_unbound sv session_id hs = do {
     found \<leftarrow> login_session_by_id session_id;
     State_Monad.return
       (case found of
          Inl _ \<Rightarrow> Inl (text_response 500 ''load login session'')
        | Inr None \<Rightarrow> Inl invalid_magic_link
        | Inr (Some session) \<Rightarrow>
            if ls_browser_binding session = '''' then Inr True
            else if session_bound sv session (login_binding hs sv) then Inr False
            else Inl login_session_expired)
   }"

definition bind_first_browser :: "service \<Rightarrow> string \<Rightarrow> (http_response + string) auth_io" where
  "bind_first_browser sv session_id = do {
     secret \<leftarrow> random_token 32;
     bound \<leftarrow> bind_login_session session_id (token_signature sv secret);
     State_Monad.return
       (case bound of
          Inr True \<Rightarrow> Inr secret
        | Inr False \<Rightarrow> Inl invalid_magic_link
        | Inl _ \<Rightarrow> Inl (text_response 500 ''bind login session''))
   }"

definition magic_cookies :: "service \<Rightarrow> login_session \<Rightarrow> http_response \<Rightarrow> http_response" where
  "magic_cookies sv session response =
     (let response =
        (if ls_pkce_verifier session = '''' then response
         else append_cookie sv
           (magic_cookie ''pkce-verifier'' (ls_pkce_verifier session) ''/auth/callback'') response)
      in if ls_purpose session = ''passkey''
         then append_cookie sv
           (magic_cookie ''st_post_login'' ''%2Fsettings%2Fpasskeys%3Fonboarding%3Dpasskey'' ''/'')
           response
         else response)"

definition email_magic :: "service \<Rightarrow> headers \<Rightarrow> magic_link_request \<Rightarrow> http_response auth_io" where
  "email_magic sv hs request =
     (if mlr_token request = '''' \<or> mlr_session_id request = '''' \<or> trim (mlr_email request) = ''''
      then State_Monad.return (text_response 400 ''missing required parameters'')
      else let email = x_lowercase (sv_ext sv) (trim (mlr_email request)) in do {
        allowed \<leftarrow> is_email_allowed email;
        (case allowed of
           Inl _ \<Rightarrow> State_Monad.return (text_response 500 ''check email allowed'')
         | Inr False \<Rightarrow> State_Monad.return invalid_magic_link
         | Inr True \<Rightarrow> do {
             checked \<leftarrow> magic_link_session_unbound sv (mlr_session_id request) hs;
             (case checked of
                Inl response \<Rightarrow> State_Monad.return response
              | Inr unbound \<Rightarrow> do {
                  verified \<leftarrow> verify_email_magic_link sv (mlr_session_id request) email (mlr_token request);
                  (case verified of
                     Inl e \<Rightarrow> State_Monad.return
                       (if e = Msg ''expired''
                        then text_response 400 ''Magic link has expired. Please request a new sign-in email.''
                        else invalid_magic_link)
                   | Inr session \<Rightarrow>
                       (let forward = redirect (issuer_url sv @ ''/authorize?session_id='' @ ls_id session)
                        in if unbound
                           then do {
                             first \<leftarrow> bind_first_browser sv (ls_id session);
                             State_Monad.return
                               (case first of
                                  Inl response \<Rightarrow> response
                                | Inr secret \<Rightarrow>
                                    magic_cookies sv session (attach_binding sv secret forward))
                           }
                           else State_Monad.return (magic_cookies sv session forward)))
                })
           })
      })"

section \<open>Google\<close>

definition google_authorization_url :: "service \<Rightarrow> string \<Rightarrow> string" where
  "google_authorization_url sv state =
     (case x_url_parse (sv_ext sv) (gs_auth (sv_google_settings sv)) of
        None \<Rightarrow> ''''
      | Some url \<Rightarrow> x_url_print (sv_ext sv) (url\<lparr>url_query :=
          Some ((case url_query url of None \<Rightarrow> [] | Some pairs \<Rightarrow> pairs)
            @ [(''client_id'', gs_client_id (sv_google_settings sv)),
               (''redirect_uri'', issuer_url sv @ ''/auth/google/callback''),
               (''response_type'', ''code''), (''scope'', ''openid email''),
               (''state'', state), (''access_type'', ''online'')])\<rparr>))"

definition google_email :: "service \<Rightarrow> string \<Rightarrow> string remote" where
  "google_email sv token =
     (case x_google_userinfo (sv_ext sv) token of
        Answer (email, verified) \<Rightarrow>
          if email = '''' then Failed else if \<not> verified then Failed else Answer email
      | Failed \<Rightarrow> Failed
      | Timed_Out \<Rightarrow> Timed_Out)"

definition google_login :: "service \<Rightarrow> headers \<Rightarrow> string \<Rightarrow> http_response auth_io" where
  "google_login sv hs session_id =
     (if \<not> sv_google sv then State_Monad.return (text_response 404 ''google auth is not enabled'')
      else do {
        bound \<leftarrow> bound_login_session sv session_id hs;
        State_Monad.return
          (case bound of
             Inl e \<Rightarrow> binding_error_response e
           | Inr session \<Rightarrow> redirect (google_authorization_url sv (ls_callback_state session)))
      })"

datatype google_callback_error =
  GState | GBinding | GToken | GEmail | GAllowed | GDenied | GSave | GTimeout

definition google_callback_inner ::
    "service \<Rightarrow> headers \<Rightarrow> string \<Rightarrow> string \<Rightarrow> (google_callback_error + string) auth_io" where
  "google_callback_inner sv hs state code = do {
     found \<leftarrow> login_session_by_callback_state state;
     (case found of
        Inl _ \<Rightarrow> State_Monad.return (Inl GState)
      | Inr None \<Rightarrow> State_Monad.return (Inl GState)
      | Inr (Some session) \<Rightarrow> do {
          now \<leftarrow> utc_now;
          if \<not> session_live session now then State_Monad.return (Inl GState)
          else if \<not> session_bound sv session (login_binding hs sv)
          then State_Monad.return (Inl GBinding)
          else (case x_google_exchange (sv_ext sv) code of
             Failed \<Rightarrow> State_Monad.return (Inl GToken)
           | Timed_Out \<Rightarrow> State_Monad.return (Inl GTimeout)
           | Answer token \<Rightarrow>
               (case google_email sv token of
                  Failed \<Rightarrow> State_Monad.return (Inl GEmail)
                | Timed_Out \<Rightarrow> State_Monad.return (Inl GTimeout)
                | Answer address \<Rightarrow>
                    (let email = x_lowercase (sv_ext sv) address in do {
                       allowed \<leftarrow> is_email_allowed email;
                       (case allowed of
                          Inl _ \<Rightarrow> State_Monad.return (Inl GAllowed)
                        | Inr False \<Rightarrow> State_Monad.return (Inl GDenied)
                        | Inr True \<Rightarrow> do {
                            marked \<leftarrow> mark_login_session_authenticated (ls_id session) email;
                            State_Monad.return
                              (case marked of Inl _ \<Rightarrow> Inl GSave | Inr _ \<Rightarrow> Inr (ls_id session))
                          })
                     })))
        })
   }"

definition google_callback :: "service \<Rightarrow> headers \<Rightarrow> string \<Rightarrow> string \<Rightarrow> http_response auth_io" where
  "google_callback sv hs state code =
     (if \<not> sv_google sv then State_Monad.return (text_response 404 ''google auth is not enabled'')
      else do {
        result \<leftarrow> google_callback_inner sv hs state code;
        State_Monad.return
          (case result of
             Inr session_id \<Rightarrow> redirect (issuer_url sv @ ''/authorize?session_id='' @ session_id)
           | Inl GState \<Rightarrow> text_response 400 ''authorization state expired''
           | Inl GBinding \<Rightarrow> login_session_expired
           | Inl GToken \<Rightarrow> text_response 502 ''google token exchange failed''
           | Inl GTimeout \<Rightarrow> text_response 502 ''google token exchange failed''
           | Inl GEmail \<Rightarrow> text_response 502 ''google email lookup failed''
           | Inl GAllowed \<Rightarrow> text_response 500 ''check email allowed''
           | Inl GDenied \<Rightarrow> text_response 400 ''google authentication failed''
           | Inl GSave \<Rightarrow> text_response 500 ''save login'')
      })"

end
