(* ===== verification/Authorize_Laws.thy ===== *)
theory Authorize_Laws
  imports Authorize Token_Laws
begin

text \<open>
  What the authorization endpoint promises: when a code is issued and what it stands for, which
  clients can register, and that the consent page shows the text it is given as text.
\<close>

section \<open>Guarantees of the handlers\<close>

context auth_effects
begin

lemma bound_login_session: "guarantees R (bound_login_session sv ident hs)"
  unfolding bound_login_session_def by (intro guarantee_rules store)

lemma role_for_session: "guarantees R (role_for_session session)"
  unfolding role_for_session_def by (intro guarantee_rules store)

lemma consent_form: "guarantees R (consent_form form)"
  unfolding consent_form_def render_consent_for_session_def
  by (intro guarantee_rules store role_for_session)

lemma deny_authorize: "guarantees R (deny_authorize sv ident)"
  unfolding deny_authorize_def by (intro guarantee_rules store)

lemma complete_authorize:
  "(\<And>s. creates s) \<Longrightarrow> guarantees R (complete_authorize sv ident approved hs)"
  unfolding complete_authorize_def Let_def
  by (intro guarantee_rules store store_creates role_for_session bound_login_session; simp)

lemma start_authorize: "guarantees R (start_authorize sv rq c uri)"
  unfolding start_authorize_def by (intro guarantee_rules store)

lemma authorize: "(\<And>s. creates s) \<Longrightarrow> guarantees R (authorize sv rq hs)"
  unfolding authorize_def by (intro guarantee_rules store complete_authorize start_authorize; simp)

lemma consent: "(\<And>s. creates s) \<Longrightarrow> guarantees R (consent sv hs form)"
  unfolding consent_def by (intro guarantee_rules complete_authorize deny_authorize; simp)

lemma register: "guarantees R (register sv request)"
  unfolding register_def Let_def by (intro guarantee_rules store)

end

section \<open>Steps of the handlers\<close>

lemma first_of_filtered:
  "first_session (map session_of_row (sort_key f (filter P rows))) =
     (if \<exists>r \<in> set rows. P r then Some (session_of_row (hd (sort_key f (filter P rows)))) else None)
   \<and> ((\<exists>r \<in> set rows. P r) \<longrightarrow> hd (sort_key f (filter P rows)) \<in> {r \<in> set rows. P r})"
proof (cases "sort_key f (filter P rows)")
  case Nil
  then have "filter P rows = []" by (metis set_empty set_sort)
  with Nil show ?thesis by (auto simp: first_session_def filter_empty_conv)
next
  case (Cons r rs)
  then have "r \<in> {r \<in> set rows. P r}" by (metis list.set_intros(1) set_filter set_sort)
  with Cons show ?thesis by (auto simp: first_session_def)
qed

lemma wp_login_session_by_id:
  assumes "\<And>r w'. later w w' \<Longrightarrow> w_tables w' = w_tables w \<Longrightarrow>
    r = Inl DbFault \<or> r = Inr None \<and> ident \<notin> lsr_id ` set (t_sessions (w_tables w))
    \<or> (\<exists>s \<in> set (t_sessions (w_tables w)). lsr_id s = ident \<and> r = Inr (Some (session_of_row s)))
    \<Longrightarrow> Q r w'"
  shows "wp (login_session_by_id ident) Q w"
proof -
  let ?f = "filter (\<lambda>r. lsr_id r = ident) (t_sessions (w_tables w))"
  show ?thesis
    using first_of_filtered [of lsr_id "\<lambda>r. lsr_id r = ident" "t_sessions (w_tables w)"]
    by (auto simp: login_session_by_id_def login_sessions_def wp_rules later_def image_iff
        intro!: assms split: if_splits)
qed

lemma wp_bound_login_session:
  assumes "\<And>e w'. later w w' \<Longrightarrow> w_tables w' = w_tables w \<Longrightarrow> Q (Inl e) w'"
    and "\<And>s secret w'. later w w' \<Longrightarrow> w_tables w' = w_tables w \<Longrightarrow>
      s \<in> set (t_sessions (w_tables w)) \<Longrightarrow> lsr_id s = ident \<Longrightarrow>
      login_binding hs sv = Some secret \<Longrightarrow>
      token_signature sv secret = coalesce (lsr_browser_binding s) \<Longrightarrow>
      Q (Inr (session_of_row s)) w'"
  shows "wp (bound_login_session sv ident hs) Q w"
  unfolding bound_login_session_def
  by (auto simp: wp_rules later_def session_bound_def intro!: wp_login_session_by_id
      split: sum.splits option.splits) (auto intro!: assms simp: later_def)

text \<open>The role of a subject is that of a user row with that e-mail address; a session without a
  subject counts as a writer's.\<close>

definition subject_role :: "auth_tables \<Rightarrow> string \<Rightarrow> role \<Rightarrow> bool" where
  "subject_role t subject role \<longleftrightarrow>
     (if subject = '''' then role = Writer
      else \<exists>u \<in> set (t_users t). usr_email u = subject
        \<and> role_from_str (to_ascii_uppercase (usr_role u)) = Some role)"

lemma wp_users_by_email:
  assumes "\<And>e w'. later w w' \<Longrightarrow> w_tables w' = w_tables w \<Longrightarrow> Q (Inl e) w'"
    and "\<And>rows w'. later w w' \<Longrightarrow> w_tables w' = w_tables w \<Longrightarrow>
      set rows = {u \<in> set (t_users (w_tables w)). usr_email u = email} \<Longrightarrow> Q (Inr rows) w'"
  shows "wp (users_query None (Some email)) Q w"
  unfolding users_query_def by (simp add: wp_rules) (intro conjI impI assms; simp add: later_def)

lemma wp_user_role:
  assumes "\<And>r w'. later w w' \<Longrightarrow> w_tables w' = w_tables w \<Longrightarrow>
    isl r \<or> r = Inr None \<and> email \<notin> usr_email ` set (t_users (w_tables w))
    \<or> (\<exists>u \<in> set (t_users (w_tables w)). \<exists>role. usr_email u = email
        \<and> role_from_str (to_ascii_uppercase (usr_role u)) = Some role \<and> r = Inr (Some role)) \<Longrightarrow>
    Q r w'"
  shows "wp (user_role email) Q w"
proof -
  have "wp (case rows of [] \<Rightarrow> ok None
      | u # _ \<Rightarrow> (case role_from_str (to_ascii_uppercase (usr_role u)) of
          None \<Rightarrow> err (Msg ''parse persisted user role'') | Some role \<Rightarrow> ok (Some role))) Q w'"
    if w': "later w w'" "w_tables w' = w_tables w"
      and rows: "set rows = {u \<in> set (t_users (w_tables w)). usr_email u = email}" for rows w'
  proof (cases rows)
    case Nil
    with rows have "email \<notin> usr_email ` set (t_users (w_tables w))" by auto
    with Nil show ?thesis by (simp add: wp_rules) (rule assms [OF w'], simp)
  next
    case (Cons u us)
    with rows have "u \<in> set (t_users (w_tables w))" "usr_email u = email" by auto
    with Cons show ?thesis
      by (auto simp: wp_rules intro!: assms [OF w'] split: option.splits)
  qed
  then show ?thesis
    unfolding user_role_def
    by (simp add: wp_try_bind) (rule wp_users_by_email, auto intro: assms)
qed

lemma wp_role_for_session:
  assumes "\<And>r w'. later w w' \<Longrightarrow> w_tables w' = w_tables w \<Longrightarrow>
    isl r \<or> (\<exists>role. r = Inr role \<and> subject_role (w_tables w) (ls_subject session) role) \<Longrightarrow> Q r w'"
  shows "wp (role_for_session session) Q w"
  unfolding role_for_session_def
  by (auto simp: wp_rules subject_role_def intro!: assms wp_user_role split: sum.splits option.splits)

lemma wp_claim_session:
  assumes wf: "wf_auth (w_tables w)"
    and error: "\<And>e w'. later w w' \<Longrightarrow> w_tables w' = w_tables w \<Longrightarrow> Q (Inl e) w'"
    and refused: "\<And>w'. later w w' \<Longrightarrow> w_tables w' = w_tables w \<Longrightarrow> Q (Inr False) w'"
    and claimed: "\<And>s now w'. later w w' \<Longrightarrow> s \<in> set (t_sessions (w_tables w)) \<Longrightarrow>
      lsr_id s = ident \<Longrightarrow> lsr_authenticated s \<Longrightarrow> clock_read w w' now \<Longrightarrow>
      to_timestamp now < lsr_expires_at s \<Longrightarrow>
      w_tables w' = (w_tables w)\<lparr>t_sessions :=
        delete_rows (\<lambda>r. lsr_id r = ident) (t_sessions (w_tables w))\<rparr> \<Longrightarrow> Q (Inr True) w'"
  shows "wp (claim_authenticated_login_session ident) Q w"
proof -
  let ?now = "w_clock w (w_reads w)"
  let ?P = "\<lambda>r. lsr_id r = ident \<and> lsr_authenticated r \<and> to_timestamp ?now < lsr_expires_at r"
  let ?rows = "t_sessions (w_tables w)"
  have one: "count_rows ?P ?rows = Suc 0 \<longleftrightarrow> (\<exists>r \<in> set ?rows. ?P r)"
    using count_rows_one [OF wf_authD(2) [OF wf], of ?P ident] by simp
  show ?thesis
  proof (cases "\<exists>r \<in> set ?rows. ?P r")
    case True
    then obtain s where s: "s \<in> set ?rows" "?P s" by blast
    have "delete_rows ?P ?rows = delete_rows (\<lambda>r. lsr_id r = ident) ?rows"
      unfolding delete_rows_def
    proof (rule filter_cong [OF refl])
      fix r
      assume "r \<in> set ?rows"
      with s wf_authD(2) [OF wf] show "(\<not> ?P r) = (lsr_id r \<noteq> ident)"
        by (metis distinct_map inj_onD)
    qed
    moreover have "count_rows ?P ?rows = Suc 0" using one True by blast
    ultimately show ?thesis
      using s clock_read_clock [of w "w_reads w"]
      by (auto simp: claim_authenticated_login_session_def claim_authenticated_session_def wp_rules
          Let_def later_def intro!: error claimed)
  next
    case False
    then have "count_rows ?P ?rows = 0" "delete_rows ?P ?rows = ?rows"
      by (auto simp: count_rows_def delete_rows_def filter_empty_conv filter_id_conv)
    then show ?thesis
      by (auto simp: claim_authenticated_login_session_def claim_authenticated_session_def wp_rules
          Let_def later_def intro!: error refused)
  qed
qed

lemma wp_create_auth_code:
  assumes "\<And>e w'. later w w' \<Longrightarrow> w_tables w' = w_tables w \<Longrightarrow> Q (Inl e) w'"
    and "\<And>w'. later w w' \<Longrightarrow> sg code \<notin> acr_signature ` set (t_codes (w_tables w)) \<Longrightarrow>
      w_tables w' = (w_tables w)\<lparr>t_codes := t_codes (w_tables w) @
        [\<lparr>acr_signature = sg code, acr_client_id = ac_client_id a, acr_subject = ac_subject a,
          acr_scopes = Some (ac_scopes a), acr_redirect_uri = ac_redirect_uri a,
          acr_code_challenge = ac_code_challenge a,
          acr_code_challenge_method = ac_code_challenge_method a,
          acr_expires_at = ac_expires_at a, acr_active = True\<rparr>]\<rparr> \<Longrightarrow> Q (Inr ()) w'"
  shows "wp (create_auth_code sg code a) Q w"
  by (auto simp: create_auth_code_def create_auth_code_row_def wp_rules insert_row_def later_def
      intro!: assms)

section \<open>Issuing a code\<close>

text \<open>The code stands for an authenticated, unexpired session of the client, presented by the
  browser it is bound to; the client is pre-registered or the user consented; its scopes are those
  the role of the subject grants. The session is consumed.\<close>

definition code_issued ::
    "service \<Rightarrow> string \<Rightarrow> bool \<Rightarrow> headers \<Rightarrow> auth_tables world \<Rightarrow> auth_tables world \<Rightarrow> bool" where
  "code_issued sv session_id approved hs w w' \<longleftrightarrow>
     (\<exists>s \<in> set (t_sessions (w_tables w)). \<exists>k \<in> set (t_clients (w_tables w)).
      \<exists>secret role code now issued_at.
        lsr_id s = session_id \<and> lsr_authenticated s
        \<and> clock_read w w' now \<and> to_timestamp now < lsr_expires_at s
        \<and> login_binding hs sv = Some secret
        \<and> token_signature sv secret = coalesce (lsr_browser_binding s)
        \<and> ocr_id k = lsr_client_id s \<and> (ocr_is_preseeded k \<or> approved)
        \<and> subject_role (w_tables w) (coalesce (lsr_subject s)) role
        \<and> drawn w w' 32 code \<and> clock_read w w' issued_at
        \<and> token_signature sv code \<notin> acr_signature ` set (t_codes (w_tables w))
        \<and> w_tables w' = (w_tables w)\<lparr>
            t_sessions := delete_rows (\<lambda>r. lsr_id r = session_id) (t_sessions (w_tables w)),
            t_codes := t_codes (w_tables w) @
              [\<lparr>acr_signature = token_signature sv code, acr_client_id = ocr_id k,
                acr_subject = coalesce (lsr_subject s),
                acr_scopes = Some (scopes_to_string (granted_scopes_for_role role
                  (split_whitespace (coalesce (lsr_scopes s))))),
                acr_redirect_uri = lsr_redirect_uri s,
                acr_code_challenge = lsr_code_challenge s,
                acr_code_challenge_method = lsr_code_challenge_method s,
                acr_expires_at = to_timestamp (issued_at + auth_code_lifetime),
                acr_active = True\<rparr>]\<rparr>)"

lemma session_unique:
  "wf_auth t \<Longrightarrow> s \<in> set (t_sessions t) \<Longrightarrow> s' \<in> set (t_sessions t) \<Longrightarrow> lsr_id s = lsr_id s' \<Longrightarrow> s = s'"
  by (meson distinct_map inj_onD wf_authD(2))

text \<open>Without a code, the session may be gone all the same: it is claimed before the code is
  stored.\<close>

definition no_code_issued :: "string \<Rightarrow> auth_tables \<Rightarrow> auth_tables \<Rightarrow> bool" where
  "no_code_issued session_id t t' \<longleftrightarrow>
     t' = t \<or> t' = t\<lparr>t_sessions := delete_rows (\<lambda>r. lsr_id r = session_id) (t_sessions t)\<rparr>"

definition completion_outcome ::
    "service \<Rightarrow> string \<Rightarrow> bool \<Rightarrow> headers \<Rightarrow> auth_tables world \<Rightarrow> http_response \<Rightarrow> auth_tables world \<Rightarrow> bool" where
  "completion_outcome sv session_id approved hs w resp w' \<longleftrightarrow>
     code_issued sv session_id approved hs w w'
     \<or> no_code_issued session_id (w_tables w) (w_tables w')
        \<and> (rsp_status resp \<in> {400, 500} \<or> (\<exists>page. resp = html_response page))"

lemma not_completed:
  "w_tables w' = w_tables w \<Longrightarrow> rsp_status resp \<in> {400, 500} \<Longrightarrow>
   completion_outcome sv session_id approved hs w resp w'"
  "w_tables w' = (w_tables w)\<lparr>t_sessions := delete_rows (\<lambda>r. lsr_id r = session_id) (t_sessions (w_tables w))\<rparr> \<Longrightarrow>
   rsp_status resp \<in> {400, 500} \<Longrightarrow> completion_outcome sv session_id approved hs w resp w'"
  "w_tables w' = w_tables w \<Longrightarrow> completion_outcome sv session_id approved hs w (render_consent ls c scs) w'"
  by (auto simp: completion_outcome_def no_code_issued_def render_consent_def Let_def)

lemma not_bound:
  "w_tables w' = w_tables w \<Longrightarrow>
   completion_outcome sv session_id approved hs w (binding_error_response e) w'"
  "w_tables w' = w_tables w \<Longrightarrow>
   completion_outcome sv session_id approved hs w login_session_expired w'"
  by (rule not_completed, assumption,
      cases e, auto simp: binding_error_response_def login_session_expired_def)+

lemma code_issuedI:
  assumes tables: "w_tables w' = (w_tables w)\<lparr>
            t_sessions := delete_rows (\<lambda>r. lsr_id r = lsr_id s) (t_sessions (w_tables w)),
            t_codes := t_codes (w_tables w) @
              [\<lparr>acr_signature = token_signature sv (w_entropy v (w_draws v) 32),
                acr_client_id = lsr_client_id s, acr_subject = coalesce (lsr_subject s),
                acr_scopes = Some (scopes_to_string (granted_scopes_for_role role
                  (split_whitespace (coalesce (lsr_scopes s))))),
                acr_redirect_uri = lsr_redirect_uri s,
                acr_code_challenge = lsr_code_challenge s,
                acr_code_challenge_method = lsr_code_challenge_method s,
                acr_expires_at = to_timestamp (w_clock v (w_reads v) + auth_code_lifetime),
                acr_active = True\<rparr>]\<rparr>"
    and wf: "wf_auth (w_tables w)"
    and now: "clock_read u v now" "to_timestamp now < lsr_expires_at s'"
    and s: "s' \<in> set (t_sessions (w_tables w))" "lsr_id s' = lsr_id s"
      "s \<in> set (t_sessions (w_tables w))" "lsr_authenticated s"
    and binding: "login_binding hs sv = Some secret"
      "token_signature sv secret = coalesce (lsr_browser_binding s)"
    and k: "k \<in> set (t_clients (w_tables w))" "ocr_id k = lsr_client_id s" "ocr_is_preseeded k \<or> approved"
    and role: "subject_role (w_tables w) (coalesce (lsr_subject s)) role"
    and order: "later w u" "later u v"
      "later (v\<lparr>w_draws := Suc (w_draws v), w_reads := Suc (w_reads v)\<rparr>) w'"
    and fresh: "token_signature sv (w_entropy v (w_draws v) 32) \<notin> acr_signature ` set (t_codes (w_tables w))"
  shows "completion_outcome sv (lsr_id s) approved hs w resp w'"
proof -
  have "s' = s" by (rule session_unique [OF wf s(1,3,2)])
  have at: "later w v" "later v w'" "w_draws v < w_draws w'" "w_reads v < w_reads w'"
    using order by (auto simp: later_def)
  have "clock_read w w' now"
    by (rule clock_read_mono [OF now(1)]) (use order at in auto)
  moreover have "drawn w w' 32 (w_entropy v (w_draws v) 32)"
    using drawn_entropy [of w "w_draws v" w' 32] at by (auto simp: later_def)
  moreover have "clock_read w w' (w_clock v (w_reads v))"
    using clock_read_clock [of w "w_reads v" w'] at by (auto simp: later_def)
  ultimately have "code_issued sv (lsr_id s) approved hs w w'"
    unfolding code_issued_def
    using s now binding k role fresh \<open>s' = s\<close>
    by (intro bexI [of _ s] bexI [of _ k] exI conjI) (assumption | simp add: tables k(2))+
  then show ?thesis by (simp add: completion_outcome_def)
qed

lemma complete_authorize_outcome:
  assumes wf: "wf_auth (w_tables w)"
  shows "wp (complete_authorize sv session_id approved hs)
    (completion_outcome sv session_id approved hs w) w"
  unfolding complete_authorize_def
  by (auto simp: wp_rules wf not_completed not_bound Let_def split: option.splits sum.splits bool.splits
      intro!: wp_bound_login_session wp_client wp_role_for_session wp_claim_session wp_create_auth_code
      dest!: find_Some)
     ((rule code_issuedI [OF _ wf], assumption+, (assumption | blast intro: later.R_trans)+)+)

text \<open>C8: Finishing an authorization, under any faults of the database: a code is stored only for
  an authenticated, unexpired session whose browser binding the request carries, for a pre-registered
  client or with the user's consent, with the scopes the role of the session's subject grants, and
  the session is deleted with it. Every other request stores no code and answers 400, 500 or with a
  page.\<close>

theorem code_issue_sound:
  assumes "wf_auth (w_tables w)"
    and "run_state (complete_authorize sv session_id approved hs) w = (resp, w')"
  shows "completion_outcome sv session_id approved hs w resp w'"
  by (rule wp_run [OF assms(2) complete_authorize_outcome [OF assms(1)]])

section \<open>Starting a login\<close>

lemma wp_touch_client:
  assumes "\<And>r w'. later w w' \<Longrightarrow> (w_tables w')\<lparr>t_clients := t_clients (w_tables w)\<rparr> = w_tables w \<Longrightarrow> Q r w'"
  shows "wp (touch_client ident) Q w"
  by (auto simp: touch_client_def touch_o_auth_client_def wp_rules later_def intro!: assms)

lemma wp_create_login_session:
  assumes "\<And>e w'. later w w' \<Longrightarrow> w_tables w' = w_tables w \<Longrightarrow> Q (Inl e) w'"
    and "\<And>w' row. later w w' \<Longrightarrow>
      ls_id s \<notin> lsr_id ` set (t_sessions (w_tables w)) \<Longrightarrow>
      row = \<lparr>lsr_id = ls_id s, lsr_client_id = ls_client_id s,
        lsr_redirect_uri = ls_redirect_uri s, lsr_state = Some (ls_state s),
        lsr_code_challenge = ls_code_challenge s,
        lsr_code_challenge_method = ls_code_challenge_method s,
        lsr_scopes = Some (ls_scopes s), lsr_callback_state = ls_callback_state s,
        lsr_subject = None, lsr_authenticated = False, lsr_expires_at = ls_expires_at s,
        lsr_email = None, lsr_email_otp = None, lsr_email_otp_expires_at = None,
        lsr_email_otp_attempts = 0, lsr_email_magic_token = None, lsr_pkce_verifier = None,
        lsr_webauthn_session = None, lsr_purpose = Some (ls_purpose s),
        lsr_browser_binding = non_empty (ls_browser_binding s)\<rparr> \<Longrightarrow>
      w_tables w' = (w_tables w)\<lparr>t_sessions := t_sessions (w_tables w) @ [row]\<rparr> \<Longrightarrow> Q (Inr ()) w'"
  shows "wp (create_login_session s) Q w"
  by (auto simp: create_login_session_def create_login_session_row_def wp_rules later_def
      intro!: assms)

text \<open>The session a login starts: for a registered redirect URI of a client with the code grant,
  scopes within those of the client, an S256 challenge, nobody authenticated, two minutes to live,
  bound to the secret in the cookie of the answer.\<close>

definition session_started ::
    "service \<Rightarrow> authorize_request \<Rightarrow> auth_tables world \<Rightarrow> http_response \<Rightarrow> auth_tables world \<Rightarrow> bool" where
  "session_started sv rq w resp w' \<longleftrightarrow>
     (\<exists>k \<in> set (t_clients (w_tables w)). \<exists>s secret now page.
        text_or_empty (arq_client_id rq) = ocr_id k \<and> lsr_client_id s = ocr_id k
        \<and> lsr_redirect_uri s \<in> set (ocr_redirect_uris k)
        \<and> valid_redirect_uri sv (lsr_redirect_uri s)
        \<and> ''code'' \<in> set (ocr_response_types k) \<and> ''authorization_code'' \<in> set (ocr_grant_types k)
        \<and> set (requested_scopes rq) \<subseteq> set (split_whitespace (ocr_scopes k))
        \<and> lsr_scopes s = Some (join '' '' (requested_scopes rq))
        \<and> arq_code_challenge rq = Some (lsr_code_challenge s) \<and> lsr_code_challenge s \<noteq> ''''
        \<and> lsr_code_challenge_method s = ''S256''
        \<and> \<not> lsr_authenticated s \<and> lsr_subject s = None
        \<and> clock_read w w' now \<and> lsr_expires_at s = to_timestamp (now + login_session_lifetime)
        \<and> drawn w w' 32 secret
        \<and> lsr_browser_binding s = non_empty (token_signature sv secret)
        \<and> resp = attach_binding sv secret page
        \<and> (w_tables w')\<lparr>t_clients := t_clients (w_tables w)\<rparr>
          = (w_tables w)\<lparr>t_sessions := t_sessions (w_tables w) @ [s]\<rparr>)"

definition start_outcome ::
    "service \<Rightarrow> authorize_request \<Rightarrow> auth_tables world \<Rightarrow> http_response \<Rightarrow> auth_tables world \<Rightarrow> bool" where
  "start_outcome sv rq w resp w' \<longleftrightarrow>
     w_tables w' = w_tables w \<or> session_started sv rq w resp w'"

lemma authorization_redirect_uri_Some:
  "authorization_redirect_uri sv c requested = Some uri \<Longrightarrow>
   uri \<in> set (oc_redirect_uris c) \<and> valid_redirect_uri sv uri"
  by (auto simp: authorization_redirect_uri_def split: option.splits list.splits if_splits)

lemma authorize_validation_None:
  "authorize_validation rq c = None \<Longrightarrow>
   ''code'' \<in> set (oc_response_types c) \<and> ''authorization_code'' \<in> set (oc_grant_types c)
   \<and> set (requested_scopes rq) \<subseteq> set (oc_scopes c)
   \<and> (\<exists>ch. arq_code_challenge rq = Some ch \<and> ch \<noteq> '''')"
  by (auto simp: authorize_validation_def list_all_iff present_def split: if_splits option.splits)

lemma wp_start_authorize:
  assumes "k \<in> set (t_clients (w_tables w))" "text_or_empty (arq_client_id rq) = ocr_id k"
    and "authorization_redirect_uri sv (client_of_row k) (arq_redirect_uri rq) = Some uri"
    and "authorize_validation rq (client_of_row k) = None"
  shows "wp (start_authorize sv rq (client_of_row k) uri) (start_outcome sv rq w) w"
proof -
  obtain ch where ch: "arq_code_challenge rq = Some ch" "ch \<noteq> ''''"
    using authorize_validation_None [OF assms(4)] by auto
  note facts = assms(1,2) ch authorization_redirect_uri_Some [OF assms(3), simplified]
    authorize_validation_None [OF assms(4), simplified]
  let ?v = "w\<lparr>w_draws := Suc (Suc (Suc (w_draws w))), w_reads := Suc (w_reads w)\<rparr>"
  show ?thesis
    unfolding start_authorize_def
  proof (simp add: wp_rules, rule wp_create_login_session, goal_cases)
    case (1 e u)
    then show ?case by (simp add: wp_rules start_outcome_def)
  next
    case (2 u row)
    have "wp (touch_client (ocr_id k)) (\<lambda>_. start_outcome sv rq w
        (attach_binding sv (w_entropy w (w_draws w) 32)
          (login_page sv (arq_auth_method rq) (w_entropy w (Suc (w_draws w)) 16)))) u"
    proof (rule wp_touch_client)
      fix x
      assume x: "later u x" "(w_tables x)\<lparr>t_clients := t_clients (w_tables u)\<rparr> = w_tables u"
      have "later ?v x" using 2(1) x(1) by (rule later.R_trans)
      then have "clock_read w x (w_clock w (w_reads w))" "drawn w x 32 (w_entropy w (w_draws w) 32)"
        by (auto simp: later_def intro!: clock_read_clock drawn_entropy)
      with x(2) 2(3,4) facts
      have "session_started sv rq w (attach_binding sv (w_entropy w (w_draws w) 32)
          (login_page sv (arq_auth_method rq) (w_entropy w (Suc (w_draws w)) 16))) x"
        unfolding session_started_def
        by (intro bexI [of _ k] exI [of _ row] exI [of _ "w_entropy w (w_draws w) 32"]
            exI [of _ "w_clock w (w_reads w)"] exI conjI) (simp_all add: text_or_empty_def)
      then show "start_outcome sv rq w (attach_binding sv (w_entropy w (w_draws w) 32)
          (login_page sv (arq_auth_method rq) (w_entropy w (Suc (w_draws w)) 16))) x"
        by (simp add: start_outcome_def)
    qed
    then show ?case by (simp add: wp_rules)
  qed
qed

lemma not_started: "w_tables w' = w_tables w \<Longrightarrow> start_outcome sv rq w resp w'"
  by (simp add: start_outcome_def)

lemma start_outcome_mono:
  assumes "start_outcome sv rq u resp w'" "later w u" "w_tables u = w_tables w"
  shows "start_outcome sv rq w resp w'"
  using assms(1) clock_read_mono [OF _ assms(2) later_refl] drawn_mono [OF _ assms(2) later_refl]
  unfolding start_outcome_def session_started_def assms(3) by blast

text \<open>A request to the authorization endpoint that does not name a session either leaves the
  tables alone or starts exactly one login session, and only for a registered client with the code
  grant, one of its registered redirect URIs, scopes it may ask for and an S256 challenge; the
  session expires in two minutes and only the browser that gets the answer's cookie is bound to it.\<close>

theorem authorize_starts_bound_session:
  assumes "present (arq_session_id rq) = None"
    and "run_state (authorize sv rq hs) w = (resp, w')"
  shows "start_outcome sv rq w resp w'"
proof -
  have "wp (authorize sv rq hs) (start_outcome sv rq w) w"
    unfolding authorize_def
    by (auto simp: assms(1) wp_rules not_started split: option.splits sum.splits
        intro!: wp_client wp_mono [OF wp_start_authorize] dest!: find_Some
        intro: start_outcome_mono)
  from wp_run [OF assms(2) this] show ?thesis .
qed

section \<open>Registration\<close>

lemma wp_save_client:
  assumes "\<And>e w'. later w w' \<Longrightarrow> w_tables w' = w_tables w \<Longrightarrow> Q (Inl e) w'"
    and "\<And>w' rows. later w w' \<Longrightarrow> w_tables w' = (w_tables w)\<lparr>t_clients := rows\<rparr> \<Longrightarrow>
      filter (\<lambda>r. ocr_id r \<noteq> oc_id c) rows = filter (\<lambda>r. ocr_id r \<noteq> oc_id c) (t_clients (w_tables w)) \<Longrightarrow>
      (\<exists>r \<in> set rows. ocr_id r = oc_id c) \<Longrightarrow>
      (\<forall>r \<in> set rows. ocr_id r = oc_id c \<longrightarrow>
        ocr_redirect_uris r = oc_redirect_uris c \<and> ocr_grant_types r = oc_grant_types c
        \<and> ocr_response_types r = oc_response_types c \<and> ocr_scopes r = join '' '' (oc_scopes c)
        \<and> ocr_is_public r = oc_public c \<and> ocr_is_preseeded r = oc_preseeded c) \<Longrightarrow> Q (Inr ()) w'"
  shows "wp (save_client c) Q w"
proof -
  let ?up = "\<lambda>r. r\<lparr>ocr_redirect_uris := oc_redirect_uris c, ocr_grant_types := oc_grant_types c,
    ocr_response_types := oc_response_types c, ocr_scopes := join '' '' (oc_scopes c),
    ocr_application_type := oc_application_type c, ocr_client_name := Some (oc_client_name c),
    ocr_is_public := oc_public c, ocr_is_preseeded := oc_preseeded c\<rparr>"
  let ?upd = "update_rows (\<lambda>r. ocr_id r = oc_id c) ?up"
  let ?rows = "t_clients (w_tables w)"
  have others: "filter (\<lambda>r. ocr_id r \<noteq> oc_id c) (?upd rows) = filter (\<lambda>r. ocr_id r \<noteq> oc_id c) rows"
    for rows
    by (induction rows) (auto simp: update_rows_def)
  have stored: "r \<in> set (?upd rows) \<Longrightarrow> ocr_id r = oc_id c \<Longrightarrow> \<exists>r' \<in> set rows. r = ?up r'" for r rows
    by (auto simp: set_update_rows split: if_splits)
  let ?u = "spend_statement (w\<lparr>w_reads := Suc (w_reads w)\<rparr>)"
  let ?new = "\<lparr>ocr_id = oc_id c, ocr_redirect_uris = oc_redirect_uris c,
    ocr_grant_types = oc_grant_types c, ocr_response_types = oc_response_types c,
    ocr_scopes = join '' '' (oc_scopes c), ocr_application_type = oc_application_type c,
    ocr_client_name = Some (oc_client_name c), ocr_is_public = oc_public c,
    ocr_is_preseeded = oc_preseeded c, ocr_created_at = to_timestamp (w_clock w (w_reads w)),
    ocr_last_used_at = None\<rparr>"
  have u: "later w ?u" "later w (?u\<lparr>w_tables := t\<rparr>)" for t by (auto simp: later_def)
  have error: "Q (Inl DbFault) ?u" by (rule assms(1) [OF u(1)]) simp
  show ?thesis
  proof (cases "oc_id c \<in> set (map ocr_id ?rows)")
    case True
    then obtain r where "r \<in> set ?rows" "ocr_id r = oc_id c" by auto
    then have "?up r \<in> set (?upd ?rows)" "ocr_id (?up r) = oc_id c"
      by (auto simp: set_update_rows)
    then have "\<exists>r \<in> set (?upd ?rows). ocr_id r = oc_id c" by blast
    then have "Q (Inr ()) (?u\<lparr>w_tables := (w_tables w)\<lparr>t_clients := ?upd ?rows\<rparr>\<rparr>)"
      by (intro assms(2) [OF u(2)]) (auto simp: others dest: stored)
    with True error show ?thesis
      by (simp add: save_client_def save_o_auth_client_def wp_rules)
  next
    case False
    then have "r \<in> set ?rows \<Longrightarrow> ocr_id r \<noteq> oc_id c" for r by force
    then have "Q (Inr ()) (?u\<lparr>w_tables := (w_tables w)\<lparr>t_clients := ?rows @ [?new]\<rparr>\<rparr>)"
      by (intro assms(2) [OF u(2)]) auto
    with False error show ?thesis
      by (simp add: save_client_def save_o_auth_client_def wp_rules)
  qed
qed

definition registered ::
    "service \<Rightarrow> registration_request \<Rightarrow> auth_tables world \<Rightarrow> auth_tables world \<Rightarrow> bool" where
  "registered sv rq w w' \<longleftrightarrow>
     (\<exists>cid rows. drawn w w' 18 cid
        \<and> w_tables w' = (w_tables w)\<lparr>t_clients := rows\<rparr>
        \<and> filter (\<lambda>r. ocr_id r \<noteq> cid) rows = filter (\<lambda>r. ocr_id r \<noteq> cid) (t_clients (w_tables w))
        \<and> (\<exists>r \<in> set rows. ocr_id r = cid)
        \<and> (\<forall>r \<in> set rows. ocr_id r = cid \<longrightarrow>
             \<not> ocr_is_preseeded r
             \<and> ocr_redirect_uris r = rrq_redirect_uris rq
             \<and> ocr_redirect_uris r \<noteq> [] \<and> length (ocr_redirect_uris r) \<le> 10
             \<and> (\<forall>uri \<in> set (ocr_redirect_uris r).
                  length uri \<le> 512 \<and> allowed_dynamic_redirect_uri sv uri)
             \<and> set (split_whitespace (ocr_scopes r)) = set client_allowed_scopes))"

lemma plain_client_scopes: "\<forall>s \<in> set client_allowed_scopes. plain_word s"
  by (auto simp: client_allowed_scopes_def plain_scope_name)
     (simp_all add: plain_word_def ws_heads_def byte_def char_of_def bit_0)

lemma registeredI:
  assumes "\<not> registration_malformed rq"
    and "\<forall>uri \<in> set (rrq_redirect_uris rq). allowed_dynamic_redirect_uri sv uri"
    and "later (w\<lparr>w_draws := Suc (w_draws w)\<rparr>) w'"
    and "w_tables w' = (w_tables w)\<lparr>t_clients := rows\<rparr>"
    and "filter (\<lambda>r. ocr_id r \<noteq> w_entropy w (w_draws w) 18) rows
      = filter (\<lambda>r. ocr_id r \<noteq> w_entropy w (w_draws w) 18) (t_clients (w_tables w))"
    and "\<exists>r \<in> set rows. ocr_id r = w_entropy w (w_draws w) 18"
    and "\<forall>r \<in> set rows. ocr_id r = w_entropy w (w_draws w) 18 \<longrightarrow>
      ocr_redirect_uris r = rrq_redirect_uris rq \<and> ocr_scopes r = join '' '' client_allowed_scopes
      \<and> \<not> ocr_is_preseeded r"
  shows "registered sv rq w w'"
proof -
  have scopes: "split_whitespace (join '' '' client_allowed_scopes) = client_allowed_scopes"
    by (rule split_join [OF plain_client_scopes])
  have "drawn w w' 18 (w_entropy w (w_draws w) 18)"
    by (rule drawn_entropy) (use assms(3) in \<open>auto simp: later_def\<close>)
  moreover have "rrq_redirect_uris rq \<noteq> []" "length (rrq_redirect_uris rq) \<le> 10"
      "\<forall>uri \<in> set (rrq_redirect_uris rq). length uri \<le> 512"
    using assms(1) by (auto simp: registration_malformed_def list_ex_iff max_redirect_uris_def
        max_redirect_uri_bytes_def)
  ultimately show ?thesis
    unfolding registered_def using assms scopes
    by (intro exI [of _ "w_entropy w (w_draws w) 18"] exI [of _ rows]) simp
qed

text \<open>Dynamic registration, under any faults: a 200 answer means that registration is enabled
  and that one client with a drawn id was stored that is never pre-registered (so its users are asked
  for consent), has one to ten redirect URIs of at most 512 bytes each, every one of them allowed, and
  only the scopes clients may have; every other client is as it was. Any other answer changes nothing.\<close>

theorem registration_sound:
  assumes "run_state (register sv request) w = (resp, w')"
  shows "if rsp_status resp = 200
         then dcr_enabled (sv_dcr sv) \<and> (\<exists>rq. request = Some rq \<and> registered sv rq w w')
         else w_tables w' = w_tables w"
    (is "?ok resp w'")
proof -
  have "wp (register sv request) ?ok w"
    unfolding register_def Let_def
    by (auto simp: wp_rules list_ex_iff intro!: wp_save_client split: option.splits)
       (rule registeredI, assumption, blast, force simp: later_def, simp, assumption, blast, simp)+
  from wp_run [OF assms this] show ?thesis .
qed

section \<open>The consent page\<close>

definition escape_char :: "char \<Rightarrow> string" where
  "escape_char c =
     (if c = CHR ''&'' then ''&amp;'' else if c = CHR ''<'' then ''&lt;''
      else if c = CHR ''>'' then ''&gt;'' else if c = CHR 0x22 then ''&quot;''
      else if c = CHR 0x27 then ''&#39;'' else [c])"

lemma replace_all_char: "replace_all [c] r s = concat (map (\<lambda>x. if x = c then r else [x]) s)"
  by (induction "[c]" r s rule: replace_all.induct) (auto simp: starts_with_def)

text \<open>Escaping is what the five replacements one after the other are meant to be: each
  character becomes its entity and nothing is escaped twice, so no text put into the consent page
  can open a tag or leave an attribute.\<close>

theorem escape_html_sound:
  "escape_html s = concat (map escape_char s)
   \<and> set (escape_html s) \<inter> {CHR ''<'', CHR ''>'', CHR 0x22, CHR 0x27} = {}"
proof
  show *: "escape_html s = concat (map escape_char s)"
    unfolding escape_html_def replace_all_char
    by (induction s) (simp_all add: escape_char_def)
  show "set (escape_html s) \<inter> {CHR ''<'', CHR ''>'', CHR 0x22, CHR 0x27} = {}"
    unfolding * by (auto simp: escape_char_def split: if_splits)
qed

end
