(* ===== verification/Login_Laws.thy ===== *)
theory Login_Laws
  imports Identity_Provider Authorize_Laws "HOL-Library.Multiset"
begin

text \<open>
  What proves an identity: a login session becomes authenticated only through a one-time code, a
  magic link or an answer of Google, for the address it was proved for, and a one-time code can be
  guessed at five times at most.
\<close>

section \<open>Guarantees of the handlers\<close>

context auth_effects
begin

lemma generate_otp: "guarantees R generate_otp"
  unfolding generate_otp_def by (intro guarantee_rules)

lemma send_email_code: "guarantees R (send_email_code sv ident email)"
  unfolding send_email_code_def Let_def by (intro guarantee_rules store generate_otp)

lemma email_send: "guarantees R (email_send sv hs request)"
  unfolding email_send_def by (intro guarantee_rules bound_login_session send_email_code)

lemma email_verify: "guarantees R (email_verify sv hs request)"
  unfolding email_verify_def verify_email_code_def
  by (intro guarantee_rules bound_login_session store)

lemma email_magic: "guarantees R (email_magic sv hs request)"
  unfolding email_magic_def verify_email_magic_link_def magic_link_session_unbound_def
    bind_first_browser_def Let_def
  by (intro guarantee_rules store)

lemma google_login: "guarantees R (google_login sv hs ident)"
  unfolding google_login_def by (intro guarantee_rules bound_login_session)

lemma google_callback: "guarantees R (google_callback sv hs state code)"
  unfolding google_callback_def google_callback_inner_def Let_def
  by (intro guarantee_rules store | split remote.split, intro conjI allI impI)+

lemma build_invite_session: "guarantees R (build_invite_session sv email role ttl purpose)"
  unfolding build_invite_session_def from_std_def Let_def by (intro guarantee_rules store)

lemma invitations:
  "guarantees R (send_invitation sv email role by)"
  "guarantees R (create_invite_link sv email role)"
  unfolding send_invitation_def create_invite_link_def
  by (intro guarantee_rules build_invite_session)+

end

section \<open>Who is authenticated\<close>

definition authenticated :: "auth_tables \<Rightarrow> (string \<times> string option) set" where
  "authenticated t =
     (\<lambda>s. (lsr_id s, lsr_subject s)) ` set (filter lsr_authenticated (t_sessions t))"

lemma authenticated_update:
  "(\<And>s. lsr_id (f s) = lsr_id s \<and> lsr_subject (f s) = lsr_subject s
     \<and> lsr_authenticated (f s) = lsr_authenticated s) \<Longrightarrow>
   authenticated (snd (update_sessions P f t)) = authenticated t"
proof -
  assume f: "\<And>s. lsr_id (f s) = lsr_id s \<and> lsr_subject (f s) = lsr_subject s
     \<and> lsr_authenticated (f s) = lsr_authenticated s"
  have "map (\<lambda>s. (lsr_id s, lsr_subject s)) (filter lsr_authenticated (update_rows P f rows))
      = map (\<lambda>s. (lsr_id s, lsr_subject s)) (filter lsr_authenticated rows)" for rows
    by (induction rows) (auto simp: update_rows_def f)
  then have "set (map (\<lambda>s. (lsr_id s, lsr_subject s)) (filter lsr_authenticated (update_rows P f rows)))
      = set (map (\<lambda>s. (lsr_id s, lsr_subject s)) (filter lsr_authenticated rows))" for rows
    by (rule arg_cong)
  then show ?thesis by (simp only: set_map authenticated_def update_sessions_def snd_conv
        auth_tables.select_convs auth_tables.update_convs) simp
qed

lemma count_rows_zero: "count_rows P rows = 0 \<longleftrightarrow> (\<forall>r \<in> set rows. \<not> P r)"
  by (auto simp: count_rows_def filter_empty_conv)

lemma wp_mark_session:
  assumes wf: "wf_auth (w_tables w)"
    and error: "\<And>e w'. later w w' \<Longrightarrow> w_tables w' = w_tables w \<Longrightarrow> Q (Inl e) w'"
    and marked: "\<And>w'. later w w' \<Longrightarrow> ident \<notin> fst ` authenticated (w_tables w) \<Longrightarrow>
      authenticated (w_tables w') = insert (ident, Some subject) (authenticated (w_tables w)) \<Longrightarrow>
      Q (Inr ()) w'"
  shows "wp (mark_login_session_authenticated ident subject) Q w"
proof -
  let ?now = "to_timestamp (w_clock w (w_reads w))"
  let ?P = "\<lambda>r. lsr_id r = ident \<and> \<not> lsr_authenticated r \<and> ?now < lsr_expires_at r"
  let ?f = "\<lambda>r. r\<lparr>lsr_subject := Some subject, lsr_authenticated := True\<rparr>"
  let ?rows = "t_sessions (w_tables w)"
  let ?u = "spend_statement (w\<lparr>w_reads := Suc (w_reads w)\<rparr>)"
  have u: "later w ?u" "later w (?u\<lparr>w_tables := t\<rparr>)" for t by (auto simp: later_def)
  have fault: "Q (Inl DbFault) ?u" by (rule error [OF u(1)]) simp
  show ?thesis
  proof (cases "\<exists>r \<in> set ?rows. ?P r")
    case True
    then obtain s where s: "s \<in> set ?rows" "?P s" by blast
    have same: "?P r \<longleftrightarrow> r = s" "lsr_id r = ident \<longleftrightarrow> r = s" if "r \<in> set ?rows" for r
      using session_unique [OF wf that s(1)] s(2) by auto
    have one: "count_rows ?P ?rows = Suc 0"
      using count_rows_one [OF wf_authD(2) [OF wf], of ?P ident] True by simp
    have "set (update_rows ?P ?f ?rows) = insert (?f s) (set ?rows - {s})"
      unfolding set_update_rows using same s(1) by (auto cong: image_cong)
    then have new: "authenticated ((w_tables w)\<lparr>t_sessions := update_rows ?P ?f ?rows\<rparr>)
        = insert (ident, Some subject) (authenticated (w_tables w))"
    proof -
      assume rows: "set (update_rows ?P ?f ?rows) = insert (?f s) (set ?rows - {s})"
      have "{x \<in> insert (?f s) (set ?rows - {s}). lsr_authenticated x}
          = insert (?f s) {x \<in> set ?rows. lsr_authenticated x}"
        using s by auto
      with rows s(2) show ?thesis by (simp add: authenticated_def)
    qed
    have "ident \<notin> fst ` authenticated (w_tables w)"
    proof
      assume "ident \<in> fst ` authenticated (w_tables w)"
      then obtain r where "r \<in> set ?rows" "lsr_id r = ident" "lsr_authenticated r"
        by (auto simp: authenticated_def)
      with same(2) [of r] s(2) show False by simp
    qed
    then have "Q (Inr ()) (?u\<lparr>w_tables := (w_tables w)\<lparr>t_sessions := update_rows ?P ?f ?rows\<rparr>\<rparr>)"
      by (intro marked [OF u(2)]) (simp_all add: new)
    with one fault show ?thesis
      by (simp add: mark_login_session_authenticated_def mark_session_authenticated_def wp_rules
          update_sessions_def)
  next
    case False
    then have none: "count_rows ?P ?rows = 0" using count_rows_zero by blast
    have "Q (Inl (Msg m)) (?u\<lparr>w_tables := w_tables w\<rparr>)" for m
      by (rule error [OF u(2)]) simp
    with none fault show ?thesis
      by (simp add: mark_login_session_authenticated_def mark_session_authenticated_def wp_rules
          update_sessions_def update_rows_none)
  qed
qed

text \<open>A secret proves an address: the session was sent it, to that address, it has not expired, and
  it was not used (a link) or guessed at too often (a code).\<close>

definition secret_live :: "bool \<Rightarrow> string \<Rightarrow> int \<Rightarrow> session_row \<Rightarrow> bool" where
  "secret_live otp stored now s \<longleftrightarrow>
     (\<exists>e. lsr_email_otp_expires_at s = Some e \<and> now < of_timestamp e) \<and> stored \<noteq> ''''
     \<and> (if otp then lsr_email_otp_attempts s < 5 \<and> lsr_email_otp s = Some stored
        else lsr_email_magic_token s = Some stored)"

text \<open>A login with an e-mailed secret either authenticates nobody and fails, or authenticates the
  session it names, for the address the secret was sent to.\<close>

definition login_outcome ::
    "(string \<Rightarrow> string) \<Rightarrow> bool \<Rightarrow> string \<Rightarrow> string \<Rightarrow> string \<Rightarrow> auth_tables world \<Rightarrow> bool \<Rightarrow>
     auth_tables world \<Rightarrow> bool" where
  "login_outcome sg otp ident email secret w success w' \<longleftrightarrow>
     (authenticated (w_tables w') = authenticated (w_tables w) \<and> \<not> success)
     \<or> (authenticated (w_tables w') = insert (ident, Some email) (authenticated (w_tables w))
        \<and> ident \<notin> fst ` authenticated (w_tables w)
        \<and> (\<exists>s \<in> set (t_sessions (w_tables w)). \<exists>now.
             clock_read w w' now \<and> lsr_id s = ident \<and> coalesce (lsr_email s) = email
             \<and> secret_live otp (sg secret) now s))"

lemma not_logged_in:
  "authenticated (w_tables w') = authenticated (w_tables w) \<Longrightarrow>
   login_outcome sg otp ident email secret w False w'"
  by (simp add: login_outcome_def)

lemma logged_in:
  assumes "later w u" "clock_read u v now" "later v v'" "later v' w'"
    and "authenticated (w_tables v') = insert (lsr_id s, Some (coalesce (lsr_email s))) (authenticated (w_tables w))"
    and "w_tables w' = w_tables v'"
    and "lsr_id s \<notin> fst ` authenticated (w_tables w)"
    and "s \<in> set (t_sessions (w_tables w))" "secret_live otp (sg secret) now s"
  shows "login_outcome sg otp (lsr_id s) (coalesce (lsr_email s)) secret w success w'"
proof -
  have "clock_read w w' now"
    by (rule clock_read_mono [OF assms(2,1) later.R_trans [OF assms(3,4)]])
  then show ?thesis
    unfolding login_outcome_def using assms(5-9) by auto
qed

lemma coalesce_nonempty: "coalesce v \<noteq> '''' \<Longrightarrow> v = Some (coalesce v)"
  by (cases v) auto

lemma wf_increment:
  "wf_auth t \<Longrightarrow> wf_auth (snd (update_sessions P
     (\<lambda>r. r\<lparr>lsr_email_otp_attempts := lsr_email_otp_attempts r + 1\<rparr>) t))"
  by (simp add: update_sessions_def wf_update_sessions)

lemma authenticated_increment:
  "authenticated (snd (update_sessions P
     (\<lambda>r. r\<lparr>lsr_email_otp_attempts := lsr_email_otp_attempts r + 1\<rparr>) t)) = authenticated t"
  by (rule authenticated_update) simp

lemma wp_stored_secret:
  assumes wf: "wf_auth (w_tables w)"
    and failed: "\<And>e w'. later w w' \<Longrightarrow> w_tables w' = w_tables w \<Longrightarrow> Q (Inl e) w'"
    and loaded: "\<And>stored now w'. later w w' \<Longrightarrow> wf_auth (w_tables w') \<Longrightarrow>
      authenticated (w_tables w') = authenticated (w_tables w) \<Longrightarrow>
      clock_read w w' now \<Longrightarrow> secret_live otp stored now s \<Longrightarrow> Q (Inr stored) w'"
  shows "wp (stored_secret ident (session_of_row s) otp) Q w"
proof -
  let ?v = "w\<lparr>w_reads := Suc (w_reads w)\<rparr>"
  let ?u = "spend_statement ?v"
  have at: "later w ?v" "later w ?u" "later w (?u\<lparr>w_tables := t\<rparr>)"
      "clock_read w (?u\<lparr>w_tables := t\<rparr>) (w_clock w (w_reads w))"
      "clock_read w ?v (w_clock w (w_reads w))" for t
    by (auto simp: later_def intro!: clock_read_clock)
  have errors: "Q (Inl e) w" "Q (Inl e) ?v" "Q (Inl e) ?u" for e
    by (auto intro!: failed at)
  show ?thesis
  proof (cases otp)
    case True
    then show ?thesis
      unfolding stored_secret_def increment_email_otp_attempts_def
      by (auto simp: wp_rules otp_live_def secret_live_def errors coalesce_nonempty
          authenticated_increment intro!: loaded at wf_increment wf split: option.splits)
  next
    case False
    then show ?thesis
      unfolding stored_secret_def
      by (auto simp: wp_rules otp_live_def secret_live_def errors coalesce_nonempty
          intro!: loaded at wf split: option.splits)
  qed
qed

lemma verify_email_secret_outcome:
  assumes wf: "wf_auth (w_tables w)"
  shows "wp (verify_email_secret sg ident email secret otp)
    (\<lambda>r w'. login_outcome sg otp ident email secret w (\<not> isl r) w') w"
  unfolding verify_email_secret_def
  by (auto simp: wp_rules wf not_logged_in split: option.splits sum.splits
      intro!: wp_login_session_by_id wp_mark_session wp_stored_secret intro: logged_in)

section \<open>The endpoints\<close>

lemma wp_verify_email_secret:
  assumes "wf_auth (w_tables w)"
    and "\<And>r w'. later w w' \<Longrightarrow> login_outcome sg otp ident email secret w (\<not> isl r) w' \<Longrightarrow> Q r w'"
  shows "wp (verify_email_secret sg ident email secret otp) Q w"
proof (rule wp_later)
  show "guarantees later (verify_email_secret sg ident email secret otp)"
    using moving.store_secrets unfolding verify_email_otp_def verify_email_magic_token_def
    by (cases otp) auto
  show "wp (verify_email_secret sg ident email secret otp) (\<lambda>r w'. later w w' \<longrightarrow> Q r w') w"
    by (rule wp_mono [OF verify_email_secret_outcome [OF assms(1)]]) (use assms(2) in blast)
qed

lemma login_outcome_mono:
  assumes "login_outcome sg otp ident email secret u success v"
    and "later w u" "later v w'" "w_tables u = w_tables w" "w_tables w' = w_tables v"
  shows "login_outcome sg otp ident email secret w success w'"
  using assms(1) clock_read_mono [OF _ assms(2,3)]
  unfolding login_outcome_def assms(4,5) by blast

text \<open>The session of a browser that presents its binding.\<close>

definition bound_to :: "service \<Rightarrow> headers \<Rightarrow> auth_tables \<Rightarrow> string \<Rightarrow> bool" where
  "bound_to sv hs t ident \<longleftrightarrow>
     (\<exists>s \<in> set (t_sessions t). \<exists>secret. lsr_id s = ident \<and> login_binding hs sv = Some secret
        \<and> token_signature sv secret = coalesce (lsr_browser_binding s))"

text \<open>A one-time code, under any faults of the database: the request authenticates nobody and
  is not answered 200, or it authenticates the session it names, which nobody had authenticated, for
  the normalised address of the request; and that only for the browser bound to the session, with
  the code e-mailed to that address, before it expires and with fewer than five guesses made.\<close>

theorem email_verify_sound:
  assumes wf: "wf_auth (w_tables w)"
    and run: "run_state (email_verify sv hs (Some rq)) w = (resp, w')"
  shows "login_outcome (token_signature sv) True (evr_login_session_id rq)
      (normalize_email sv (evr_email rq)) (evr_code rq) w (rsp_status resp = 200) w'
    \<and> (authenticated (w_tables w') \<noteq> authenticated (w_tables w) \<longrightarrow>
        bound_to sv hs (w_tables w) (evr_login_session_id rq))"
    (is "?ok resp w'")
proof -
  have verified: "wp (verify_email_code sv (evr_login_session_id rq) (evr_email rq) (evr_code rq))
      (\<lambda>r. ?ok (email_verify_response sv r)) u"
    if "later w u" "w_tables u = w_tables w" "bound_to sv hs (w_tables w) (evr_login_session_id rq)" for u
    unfolding verify_email_code_def verify_email_otp_def
  proof (rule wp_verify_email_secret)
    show "wf_auth (w_tables u)" using wf that by simp
    fix r :: "error + login_session" and v
    assume "login_outcome (token_signature sv) True (evr_login_session_id rq)
      (normalize_email sv (evr_email rq)) (evr_code rq) u (\<not> isl r) v"
    then have "login_outcome (token_signature sv) True (evr_login_session_id rq)
      (normalize_email sv (evr_email rq)) (evr_code rq) w (\<not> isl r) v"
      by (rule login_outcome_mono) (use that in simp_all)
    moreover have "rsp_status (email_verify_response sv r) = 200 \<longleftrightarrow> \<not> isl r"
      by (cases r) (auto simp: email_verify_response_def email_verification_error_def)
    ultimately show "?ok (email_verify_response sv r) v" using that(3) by simp
  qed
  have refused: "rsp_status (email_session_error e) \<noteq> 200" for e
    by (cases e) (simp_all add: email_session_error_def email_verification_error_def
        binding_error_response_def)
  have "wp (email_verify sv hs (Some rq)) ?ok w"
    unfolding email_verify_def
    by (auto simp: wp_rules not_logged_in refused simp del: not_imp
        intro!: wp_bound_login_session verified)
       (auto simp: bound_to_def)
  from wp_run [OF run this] show ?thesis .
qed

section \<open>Five guesses\<close>

text \<open>How many guesses the code of a session still allows.\<close>

definition guesses_left :: "string \<Rightarrow> auth_tables \<Rightarrow> nat" where
  "guesses_left ident t =
     (case find (\<lambda>s. lsr_id s = ident) (t_sessions t) of
        None \<Rightarrow> 0 | Some s \<Rightarrow> nat (5 - lsr_email_otp_attempts s))"

definition guesses_kept :: "string \<Rightarrow> auth_tables world \<Rightarrow> auth_tables world \<Rightarrow> bool" where
  "guesses_kept ident w w' \<longleftrightarrow> guesses_left ident (w_tables w') = guesses_left ident (w_tables w)"

interpretation guesses_kept: effect_order "guesses_kept ident" for ident
  by unfold_locales (auto simp: guesses_kept_def)

lemma guesses_kept_read: "guarantees (guesses_kept ident) (login_session_by_id ident')"
  unfolding login_session_by_id_def login_sessions_def select_def
  by (intro guarantee_rules guesses_kept.guarantees_statement) (auto simp: guesses_kept_def)

lemma guesses_kept_mark: "guarantees (guesses_kept ident) (mark_login_session_authenticated ident' subject)"
  unfolding mark_login_session_authenticated_def mark_session_authenticated_def exec_rows_def
  by (intro guarantee_rules guesses_kept.guarantees_statement)
     (auto simp: guesses_kept_def guesses_left_def update_sessions_def find_update_rows split: option.splits)

lemma wp_guaranteed: "guarantees R m \<Longrightarrow> (\<And>r w'. R w w' \<Longrightarrow> Q r w') \<Longrightarrow> wp m Q w"
  by (rule wpI) (blast dest: guaranteesD)

text \<open>
  A guess at the code of a session is checked in three parts, each with a statement of its own: the session is
  read; its attempts and its expiry are looked at in what was read, and the attempt is counted; the code that
  was read is compared, and the session becomes authenticated.
\<close>

definition open_guess :: "string \<Rightarrow> login_session auth_db" where
  "open_guess ident = try_bind (login_session_by_id ident) (ok_or ''login session not found'')"

definition count_guess :: "string \<Rightarrow> login_session \<Rightarrow> string auth_db" where
  "count_guess ident session = stored_secret ident session True"

definition settle_guess ::
    "service \<Rightarrow> string \<Rightarrow> string \<Rightarrow> string \<Rightarrow> login_session \<Rightarrow> string \<Rightarrow> login_session auth_db" where
  "settle_guess sv ident email code session stored =
     try_bind (ensure (ls_email session = normalize_email sv email \<and> stored = token_signature sv code) ''invalid_code'') (\<lambda>_.
     try_bind (mark_login_session_authenticated ident (ls_email session)) (\<lambda>_. open_guess ident))"

lemma try_bind_assoc: "try_bind (try_bind m f) g = try_bind m (\<lambda>x. try_bind (f x) g)"
proof -
  have "try_bind (try_bind m f) g = State_Monad.bind m
      (\<lambda>r. try_bind (case r of Inl e \<Rightarrow> State_Monad.return (Inl e) | Inr a \<Rightarrow> f a) g)"
    by (simp only: try_bind_def bind_assoc)
  also have "\<dots> = try_bind m (\<lambda>x. try_bind (f x) g)"
    unfolding try_bind_def [of m]
    by (rule arg_cong [where f = "State_Monad.bind m"]) (auto simp: try_bind_def fun_eq_iff split: sum.split)
  finally show ?thesis .
qed

lemma verify_email_code_parts:
  "verify_email_code sv ident email code =
     try_bind (open_guess ident) (\<lambda>session.
     try_bind (count_guess ident session) (\<lambda>stored. settle_guess sv ident email code session stored))"
  by (simp add: verify_email_code_def verify_email_otp_def verify_email_secret_def open_guess_def count_guess_def
      settle_guess_def try_bind_assoc cong: if_cong)

text \<open>
  Guesses at one session that overlap: those that have read the session, those whose attempt was counted, and how
  many codes were read for a comparison. At most \<open>k\<close> of them are between reading and counting at a time.
\<close>

record guessing =
  gsg_read :: "login_session multiset"
  gsg_counted :: "(login_session \<times> string) multiset"
  gsg_compared :: nat

inductive guess_step ::
    "service \<Rightarrow> string \<Rightarrow> nat \<Rightarrow> guessing \<times> auth_tables world \<Rightarrow> guessing \<times> auth_tables world \<Rightarrow> bool" for sv ident k where
  Reads: "size (gsg_read g) < k \<Longrightarrow> run_state (open_guess ident) w = (Inr session, w') \<Longrightarrow>
    guess_step sv ident k (g, w) (g\<lparr>gsg_read := add_mset session (gsg_read g)\<rparr>, w')"
| Counts: "session \<in># gsg_read g \<Longrightarrow> run_state (count_guess ident session) w = (Inr stored, w') \<Longrightarrow>
    guess_step sv ident k (g, w) (g\<lparr>gsg_read := gsg_read g - {#session#},
      gsg_counted := add_mset (session, stored) (gsg_counted g), gsg_compared := Suc (gsg_compared g)\<rparr>, w')"
| Refused: "session \<in># gsg_read g \<Longrightarrow> run_state (count_guess ident session) w = (Inl e, w') \<Longrightarrow>
    guess_step sv ident k (g, w) (g\<lparr>gsg_read := gsg_read g - {#session#}\<rparr>, w')"
| Settles: "(session, stored) \<in># gsg_counted g \<Longrightarrow>
    run_state (settle_guess sv ident email code session stored) w = (r, w') \<Longrightarrow>
    guess_step sv ident k (g, w) (g\<lparr>gsg_counted := gsg_counted g - {#(session, stored)#}\<rparr>, w')"
| Others: "guesses_left ident (w_tables w') \<le> guesses_left ident (w_tables w) \<Longrightarrow> guess_step sv ident k (g, w) (g, w')"

inductive guesses_reachable ::
    "service \<Rightarrow> string \<Rightarrow> nat \<Rightarrow> auth_tables world \<Rightarrow> guessing \<times> auth_tables world \<Rightarrow> bool" for sv ident k w where
  Unguessed: "guesses_reachable sv ident k w (\<lparr>gsg_read = {#}, gsg_counted = {#}, gsg_compared = 0\<rparr>, w)"
| Guessed: "guesses_reachable sv ident k w s \<Longrightarrow> guess_step sv ident k s s' \<Longrightarrow> guesses_reachable sv ident k w s'"

text \<open>Those that have read the session while it allowed another attempt.\<close>

definition hopeful :: "guessing \<Rightarrow> login_session multiset" where
  "hopeful g = filter_mset (\<lambda>s. ls_email_otp_attempts s < 5) (gsg_read g)"

definition guesses_ok :: "nat \<Rightarrow> nat \<Rightarrow> nat \<Rightarrow> guessing \<Rightarrow> bool" where
  "guesses_ok n k left g \<longleftrightarrow> size (gsg_read g) \<le> k
     \<and> (if 0 < left then gsg_compared g + left \<le> n else gsg_compared g + size (hopeful g) \<le> n + (k - 1))"

lemma hopeful_size: "size (hopeful g) \<le> size (gsg_read g)"
  unfolding hopeful_def by (rule size_filter_mset_lesseq)

lemma guesses_ok_less:
  assumes "guesses_ok n k left g" "left' \<le> left"
  shows "guesses_ok n k left' g"
  using assms hopeful_size [of g] by (auto simp: guesses_ok_def split: if_splits)

lemma first_session_found:
  "first_session (map session_of_row (sort_key lsr_id (filter (\<lambda>r. lsr_id r = ident) rows)))
     = map_option session_of_row (find (\<lambda>r. lsr_id r = ident) rows)"
proof -
  have "sorted (map lsr_id (filter (\<lambda>r. lsr_id r = ident) rows))"
    by (induction rows) (auto simp: sorted_map)
  then have "sort_key lsr_id (filter (\<lambda>r. lsr_id r = ident) rows) = filter (\<lambda>r. lsr_id r = ident) rows"
    by (rule sort_key_id_if_sorted)
  moreover have "first_session (map session_of_row (filter (\<lambda>r. lsr_id r = ident) rows))
      = map_option session_of_row (find (\<lambda>r. lsr_id r = ident) rows)"
    by (induction rows) (auto simp: first_session_def)
  ultimately show ?thesis by simp
qed

lemma wp_open_guess:
  assumes "\<And>e w'. w_tables w' = w_tables w \<Longrightarrow> Q (Inl e) w'"
    and "\<And>x w'. w_tables w' = w_tables w \<Longrightarrow>
      (ls_email_otp_attempts x < 5 \<longleftrightarrow> 0 < guesses_left ident (w_tables w)) \<Longrightarrow> Q (Inr x) w'"
  shows "wp (open_guess ident) Q w"
  unfolding open_guess_def login_session_by_id_def login_sessions_def
  by (cases "find (\<lambda>r. lsr_id r = ident) (t_sessions (w_tables w))")
     (auto simp: wp_rules first_session_found guesses_left_def session_of_row_def intro!: assms)

lemma wp_count_guess:
  assumes "\<And>e w'. w_tables w' = w_tables w \<Longrightarrow> Q (Inl e) w'"
    and "\<And>stored w'. ls_email_otp_attempts session < 5 \<Longrightarrow>
      guesses_left ident (w_tables w') = guesses_left ident (w_tables w) - 1 \<Longrightarrow> Q (Inr stored) w'"
  shows "wp (count_guess ident session) Q w"
proof -
  have "guesses_left ident (snd (update_sessions (\<lambda>r. lsr_id r = ident)
      (\<lambda>r. r\<lparr>lsr_email_otp_attempts := lsr_email_otp_attempts r + 1\<rparr>) t)) = guesses_left ident t - 1" for t
  proof (cases "find (\<lambda>r. lsr_id r = ident) (t_sessions t)")
    case None
    then show ?thesis by (simp add: guesses_left_def update_sessions_def find_update_rows)
  next
    case (Some a)
    then have "lsr_id a = ident" by (auto simp: find_Some_iff)
    with Some show ?thesis by (simp add: guesses_left_def update_sessions_def find_update_rows nat_diff_distrib')
  qed
  then show ?thesis
    unfolding count_guess_def stored_secret_def increment_email_otp_attempts_def
    by (auto simp: wp_rules intro!: assms)
qed

lemma guesses_kept_settle: "guarantees (guesses_kept ident) (settle_guess sv ident email code session stored)"
  unfolding settle_guess_def open_guess_def
  by (intro guarantee_rules guesses_kept_mark guesses_kept_read)

lemma guess_step_ok:
  assumes "guess_step sv ident k (g, w) (g', w')" "guesses_ok n k (guesses_left ident (w_tables w)) g"
  shows "guesses_ok n k (guesses_left ident (w_tables w')) g'"
  using assms(1)
proof cases
  case (Reads session)
  have "wp (open_guess ident) (\<lambda>r w'. \<forall>x. r = Inr x \<longrightarrow> w_tables w' = w_tables w \<and>
      (ls_email_otp_attempts x < 5 \<longleftrightarrow> 0 < guesses_left ident (w_tables w))) w"
    by (rule wp_open_guess) simp_all
  from wp_run [OF Reads(3) this] have "w_tables w' = w_tables w"
      "ls_email_otp_attempts session < 5 \<longleftrightarrow> 0 < guesses_left ident (w_tables w)" by simp_all
  with assms(2) Reads show ?thesis by (auto simp: guesses_ok_def hopeful_def split: if_splits)
next
  case (Counts session stored)
  have "wp (count_guess ident session) (\<lambda>r w'. \<forall>x. r = Inr x \<longrightarrow> ls_email_otp_attempts session < 5 \<and>
      guesses_left ident (w_tables w') = guesses_left ident (w_tables w) - 1) w"
    by (rule wp_count_guess) simp_all
  from wp_run [OF Counts(3) this] have left: "ls_email_otp_attempts session < 5"
      "guesses_left ident (w_tables w') = guesses_left ident (w_tables w) - 1" by simp_all
  obtain rest where rest: "gsg_read g = add_mset session rest" using Counts(2) by (blast dest: multi_member_split)
  have "size (hopeful g') \<le> size rest" "gsg_read g' = rest" "gsg_compared g' = Suc (gsg_compared g)"
    using hopeful_size [of g'] by (simp_all add: Counts(1) rest)
  moreover have "size (hopeful g) = Suc (size (hopeful g'))"
    using left(1) by (simp add: hopeful_def Counts(1) rest)
  ultimately show ?thesis
    using assms(2) left(2) by (auto simp: guesses_ok_def rest split: if_splits)
next
  case (Refused session e)
  have "wp (count_guess ident session) (\<lambda>r w'. isl r \<longrightarrow> w_tables w' = w_tables w) w"
    by (rule wp_count_guess) simp_all
  from wp_run [OF Refused(3) this] have "w_tables w' = w_tables w" by simp
  moreover have "size (gsg_read g') \<le> size (gsg_read g)" "size (hopeful g') \<le> size (hopeful g)"
    unfolding Refused(1) hopeful_def by (simp_all add: size_mset_mono multiset_filter_mono)
  ultimately show ?thesis
    using assms(2) by (auto simp: guesses_ok_def Refused(1) split: if_splits)
next
  case (Settles session stored email code r)
  have "guesses_left ident (w_tables w') = guesses_left ident (w_tables w)"
    using guaranteesD [OF guesses_kept_settle Settles(3)] by (simp add: guesses_kept_def)
  moreover have "hopeful g' = hopeful g" by (simp add: hopeful_def Settles(1))
  ultimately show ?thesis using assms(2) by (auto simp: guesses_ok_def Settles(1) split: if_splits)
next
  case Others
  then show ?thesis using guesses_ok_less [OF assms(2)] by simp
qed

text \<open>C9: Guesses at a one-time code run out. A guess is checked in three parts: the session is read, the
  attempt is counted, the code is compared. Whatever is guessed at the code of a session, with whatever addresses,
  codes, clocks and faults of the database, and however the parts of these guesses and other requests are
  interleaved: as long as no new code is sent, and at most k guesses at a time have read the session and
  are not counted yet, the code is compared at most n + k - 1 times, where n, five for a new code, is how many
  guesses the session had left; and while it has some left, it has counted every comparison. So guesses one
  after another get five comparisons, and only guesses that overlap can get more.\<close>

theorem five_guesses:
  assumes "guesses_reachable sv ident k start (g, w)"
  shows "gsg_compared g \<le> guesses_left ident (w_tables start) + (k - 1)
    \<and> (0 < guesses_left ident (w_tables w) \<longrightarrow>
        gsg_compared g + guesses_left ident (w_tables w) \<le> guesses_left ident (w_tables start))
    \<and> verify_email_code sv ident email code =
        try_bind (open_guess ident) (\<lambda>session.
        try_bind (count_guess ident session) (\<lambda>stored. settle_guess sv ident email code session stored))"
proof -
  have "guesses_ok (guesses_left ident (w_tables start)) k (guesses_left ident (w_tables (snd z))) (fst z)"
    if "guesses_reachable sv ident k start z" for z
    using that
  proof induction
    case Unguessed
    show ?case by (simp add: guesses_ok_def hopeful_def)
  next
    case (Guessed z z')
    then show ?case by (metis guess_step_ok prod.collapse)
  qed
  from this [OF assms] verify_email_code_parts show ?thesis by (auto simp: guesses_ok_def split: if_splits)
qed

section \<open>Magic links and Google\<close>

definition logins_kept :: "auth_tables world \<Rightarrow> auth_tables world \<Rightarrow> bool" where
  "logins_kept w w' \<longleftrightarrow> authenticated (w_tables w') = authenticated (w_tables w)"

interpretation logins_kept: effect_order logins_kept
  by unfold_locales (auto simp: logins_kept_def)

lemma logins_kept_bind: "guarantees logins_kept (bind_first_browser sv ident)"
  unfolding bind_first_browser_def bind_login_session_def bind_session_def exec_rows_def
  by (intro guarantee_rules logins_kept.guarantees_statement)
     (auto simp: logins_kept_def authenticated_update simp del: split_paired_Ex
       dest!: arg_cong [where f = snd])

lemma wp_is_email_allowed:
  assumes "\<And>r w'. later w w' \<Longrightarrow> w_tables w' = w_tables w \<Longrightarrow>
    (r = Inr True \<Longrightarrow> email \<in> usr_email ` set (t_users (w_tables w))) \<Longrightarrow> Q r w'"
  shows "wp (is_email_allowed email) Q w"
  unfolding is_email_allowed_def
  by (auto simp: wp_rules intro!: wp_user_role assms split: sum.splits)

text \<open>A session that no browser is bound to yet, as an invitation creates it.\<close>

definition unbound :: "auth_tables \<Rightarrow> string \<Rightarrow> bool" where
  "unbound t ident \<longleftrightarrow>
     (\<exists>s \<in> set (t_sessions t). lsr_id s = ident \<and> coalesce (lsr_browser_binding s) = '''')"

lemma wp_magic_link_session_unbound:
  assumes "\<And>r w'. later w w' \<Longrightarrow> w_tables w' = w_tables w \<Longrightarrow>
    (\<And>b. r = Inr b \<Longrightarrow> if b then unbound (w_tables w) ident else bound_to sv hs (w_tables w) ident) \<Longrightarrow>
    Q r w'"
  shows "wp (magic_link_session_unbound sv ident hs) Q w"
  unfolding magic_link_session_unbound_def
  by (auto simp: wp_rules unbound_def bound_to_def session_bound_def
      intro!: wp_login_session_by_id assms split: option.splits if_splits)

lemma wp_bind_first_browser:
  assumes "\<And>r w'. later w w' \<Longrightarrow> authenticated (w_tables w') = authenticated (w_tables w) \<Longrightarrow> Q r w'"
  shows "wp (bind_first_browser sv ident) Q w"
proof (rule wp_later)
  show "guarantees later (bind_first_browser sv ident)"
    unfolding bind_first_browser_def by (intro guarantee_rules moving.store)
  show "wp (bind_first_browser sv ident) (\<lambda>r w'. later w w' \<longrightarrow> Q r w') w"
    by (rule wp_guaranteed [OF logins_kept_bind]) (use assms in \<open>auto simp: logins_kept_def\<close>)
qed

definition magic_outcome ::
    "service \<Rightarrow> headers \<Rightarrow> magic_link_request \<Rightarrow> auth_tables world \<Rightarrow> auth_tables world \<Rightarrow> bool" where
  "magic_outcome sv hs rq w w' \<longleftrightarrow>
     login_outcome (token_signature sv) False (mlr_session_id rq)
       (normalize_email sv (normalize_email sv (mlr_email rq))) (mlr_token rq) w False w'
     \<and> (authenticated (w_tables w') \<noteq> authenticated (w_tables w) \<longrightarrow>
          normalize_email sv (mlr_email rq) \<in> usr_email ` set (t_users (w_tables w))
          \<and> (bound_to sv hs (w_tables w) (mlr_session_id rq)
             \<or> unbound (w_tables w) (mlr_session_id rq)))"

lemma magic_refused:
  "authenticated (w_tables w') = authenticated (w_tables w) \<Longrightarrow> magic_outcome sv hs rq w w'"
  by (simp add: magic_outcome_def not_logged_in)

lemma login_outcome_failed:
  "login_outcome sg otp ident email secret w b w' \<Longrightarrow> login_outcome sg otp ident email secret w False w'"
  by (auto simp: login_outcome_def)

lemma login_outcome_extend:
  assumes "login_outcome sg otp ident email secret u success v"
    and "later w u" "later v w'" "w_tables u = w_tables w"
    and "authenticated (w_tables w') = authenticated (w_tables v)"
  shows "login_outcome sg otp ident email secret w success w'"
  using assms(1) clock_read_mono [OF _ assms(2,3)]
  unfolding login_outcome_def assms(4,5) by blast

lemma magic_verified:
  assumes "login_outcome (token_signature sv) False (mlr_session_id rq)
       (normalize_email sv (usr_email x)) (mlr_token rq) v b v'"
    and "normalize_email sv (mlr_email rq) = usr_email x" "x \<in> set (t_users (w_tables w))"
    and "later w u" "later u v" "later v' w'" "w_tables u = w_tables w" "w_tables v = w_tables w"
      "authenticated (w_tables w') = authenticated (w_tables v')"
    and "unbound (w_tables u) (mlr_session_id rq) \<or> bound_to sv hs (w_tables u) (mlr_session_id rq)"
  shows "magic_outcome sv hs rq w w'"
  using login_outcome_failed [OF login_outcome_extend [OF assms(1) later.R_trans [OF assms(4,5)] assms(6,8,9)]]
    assms(2,3,7,10)
  by (auto simp: magic_outcome_def split: if_splits)

text \<open>C10: A magic link, under any faults of the database: the request authenticates nobody, or it
  authenticates the session it names, which nobody had authenticated, for the address of a known
  user, with the token mailed to that address, before it expires, and only in the browser that is
  bound to the session, or when no browser is.\<close>

theorem email_magic_sound:
  assumes wf: "wf_auth (w_tables w)"
    and run: "run_state (email_magic sv hs rq) w = (resp, w')"
  shows "magic_outcome sv hs rq w w'"
proof -
  have "wp (email_magic sv hs rq) (\<lambda>_. magic_outcome sv hs rq w) w"
    unfolding email_magic_def verify_email_magic_link_def verify_email_magic_token_def Let_def
      normalize_email_def [symmetric]
    by (auto simp: wp_rules wf magic_refused
        intro!: wp_is_email_allowed wp_magic_link_session_unbound wp_verify_email_secret
          wp_bind_first_browser
        split: sum.splits bool.splits)
       (erule magic_verified; assumption?; simp split: if_splits)+
  from wp_run [OF run this] show ?thesis .
qed

definition google_outcome ::
    "service \<Rightarrow> headers \<Rightarrow> string \<Rightarrow> string \<Rightarrow> auth_tables world \<Rightarrow> auth_tables world \<Rightarrow> bool" where
  "google_outcome sv hs state code w w' \<longleftrightarrow>
     authenticated (w_tables w') = authenticated (w_tables w)
     \<or> (\<exists>s \<in> set (t_sessions (w_tables w)). \<exists>token address.
          lsr_callback_state s = state \<and> bound_to sv hs (w_tables w) (lsr_id s)
          \<and> x_google_exchange (sv_ext sv) code = Answer token
          \<and> x_google_userinfo (sv_ext sv) token = Answer (address, True) \<and> address \<noteq> ''''
          \<and> x_lowercase (sv_ext sv) address \<in> usr_email ` set (t_users (w_tables w))
          \<and> lsr_id s \<notin> fst ` authenticated (w_tables w)
          \<and> authenticated (w_tables w')
            = insert (lsr_id s, Some (x_lowercase (sv_ext sv) address)) (authenticated (w_tables w)))"

lemma google_refused:
  "authenticated (w_tables w') = authenticated (w_tables w) \<Longrightarrow> google_outcome sv hs state code w w'"
  by (simp add: google_outcome_def)

lemma wp_login_session_by_callback:
  assumes "\<And>r w'. later w w' \<Longrightarrow> w_tables w' = w_tables w \<Longrightarrow>
    isl r \<or> r = Inr None \<or>
    (\<exists>s \<in> set (t_sessions (w_tables w)). lsr_callback_state s = state \<and> r = Inr (Some (session_of_row s)))
    \<Longrightarrow> Q r w'"
  shows "wp (login_session_by_callback_state state) Q w"
  using first_of_filtered [of lsr_id "\<lambda>r. lsr_callback_state r = state" "t_sessions (w_tables w)"]
  by (auto simp: login_session_by_callback_state_def login_sessions_def wp_rules later_def
      intro!: assms split: if_splits)

lemma google_email_Answer:
  "google_email sv token = Answer a \<Longrightarrow> x_google_userinfo (sv_ext sv) token = Answer (a, True) \<and> a \<noteq> ''''"
  by (auto simp: google_email_def split: remote.splits prod.splits if_splits)

lemma wp_case_remote [wp_rules]:
  "wp (case x of Answer a \<Rightarrow> f a | Failed \<Rightarrow> m | Timed_Out \<Rightarrow> n) Q w \<longleftrightarrow>
     (case x of Answer a \<Rightarrow> wp (f a) Q w | Failed \<Rightarrow> wp m Q w | Timed_Out \<Rightarrow> wp n Q w)"
  by (cases x) simp_all

text \<open>C11: Google's callback, under any faults of the database: the request authenticates nobody, or
  it authenticates the session of its state parameter, which nobody had authenticated, for the
  non-empty, verified address that Google reports for the request's code, when a user has that address,
  and only in the browser the session is bound to.\<close>

theorem google_callback_sound:
  assumes wf: "wf_auth (w_tables w)"
    and run: "run_state (google_callback sv hs state code) w = (resp, w')"
  shows "google_outcome sv hs state code w w'"
proof -
  have "wp (google_callback sv hs state code) (\<lambda>_. google_outcome sv hs state code w) w"
    unfolding google_callback_def google_callback_inner_def Let_def
    by (auto simp: wp_rules wf google_refused session_bound_def
        intro!: wp_login_session_by_callback wp_is_email_allowed wp_mark_session
        split: sum.splits bool.splits option.splits remote.splits)
       (auto simp: google_outcome_def bound_to_def dest!: google_email_Answer)
  from wp_run [OF run this] show ?thesis .
qed

end
