(* ===== verification/Auth_Users.thy ===== *)
theory Auth_Users
  imports Auth_Middleware Login_Laws
begin

text \<open>
  Managing users (src/server-rs/src/admin/store/users.rs, src/server-rs/src/admin/service.rs and the
  resolvers of src/server-rs/src/graph/users.rs): who is known, with which role, and what happens to
  the tokens of a user whose role changes or who is removed. Of an error that is wrapped into another
  one, the model keeps the outer message.
\<close>

record user =
  us_id :: int
  us_email :: string
  us_role :: role
  us_created_at :: int

definition user_of_row :: "user_row \<Rightarrow> error + user" where
  "user_of_row r =
     (case role_from_str (to_ascii_uppercase (usr_role r)) of
        None \<Rightarrow> Inl (Msg ''parse persisted user role'')
      | Some role \<Rightarrow> Inr \<lparr>us_id = usr_id r, us_email = usr_email r, us_role = role,
          us_created_at = of_timestamp (usr_created_at r)\<rparr>)"

fun users_of_rows :: "user_row list \<Rightarrow> error + user list" where
  "users_of_rows [] = Inr []"
| "users_of_rows (r # rs) =
     (case user_of_row r of
        Inl e \<Rightarrow> Inl e
      | Inr u \<Rightarrow> (case users_of_rows rs of Inl e \<Rightarrow> Inl e | Inr us \<Rightarrow> Inr (u # us)))"

definition of_sum :: "error + 'a \<Rightarrow> ('t, 'a) fallible" where
  "of_sum r = State_Monad.return r"

lemma wp_of_sum [wp_rules]: "wp (of_sum r) Q w \<longleftrightarrow> Q r w"
  by (simp add: of_sum_def wp_return)

section \<open>The store\<close>

definition users :: "user list auth_db" where
  "users = try_bind (users_query None None) (\<lambda>rows. of_sum (users_of_rows rows))"

definition find_user :: "int \<Rightarrow> user option auth_db" where
  "find_user ident =
     try_bind (users_query (Some ident) None) (\<lambda>rows.
       case rows of
         [] \<Rightarrow> ok None
       | r # _ \<Rightarrow> try_bind (of_sum (user_of_row r)) (\<lambda>u. ok (Some u)))"

definition user_by_id :: "int \<Rightarrow> user auth_db" where
  "user_by_id ident = try_bind (find_user ident) (ok_or ''user not found'')"

definition lookup_email :: "int \<Rightarrow> string auth_db" where
  "lookup_email ident =
     try_bind (users_query (Some ident) None) (\<lambda>rows.
       case rows of [] \<Rightarrow> err (Msg ''lookup user: user not found'') | r # _ \<Rightarrow> ok (usr_email r))"

definition revoke_subject_tokens :: "string \<Rightarrow> unit auth_db" where
  "revoke_subject_tokens email =
     try_bind (with_context ''revoke access tokens'' (delete_access_by_subject email)) (\<lambda>_.
     try_bind (with_context ''revoke refresh tokens'' (delete_refresh_by_subject email)) (\<lambda>_.
     ok ()))"

text \<open>A role is stored by its lower-case name.\<close>

definition stored_role :: "role \<Rightarrow> string" where
  "stored_role role = to_ascii_lowercase (role_name role)"

definition update_user_role :: "int \<Rightarrow> role \<Rightarrow> user auth_db" where
  "update_user_role ident role =
     try_bind (with_tx (try_bind (lookup_email ident) (\<lambda>email.
       try_bind (with_context ''update user role'' (update_user_role_row (stored_role role) ident)) (\<lambda>_.
         revoke_subject_tokens email)))) (\<lambda>_.
     with_context ''find updated user'' (user_by_id ident))"

definition insert_user :: "string \<Rightarrow> int option \<Rightarrow> role \<Rightarrow> user auth_db" where
  "insert_user email invited_by role =
     try_bind (with_context ''insert user'' (insert_user_row email (stored_role role) invited_by))
       (\<lambda>row. of_sum (user_of_row row))"

definition user_id_by_email :: "string \<Rightarrow> int auth_db" where
  "user_id_by_email email =
     try_bind (users_query None (Some email)) (\<lambda>rows.
       case rows of [] \<Rightarrow> err (Msg ''user not found'') | r # _ \<Rightarrow> ok (usr_id r))"

definition user_exists :: "string \<Rightarrow> bool auth_db" where
  "user_exists email = try_bind (users_query None (Some email)) (\<lambda>rows. ok (rows \<noteq> []))"

definition remove_user :: "int \<Rightarrow> unit auth_db" where
  "remove_user ident =
     with_tx (try_bind (lookup_email ident) (\<lambda>email.
       try_bind (with_context ''delete user'' (delete_user_row ident)) (\<lambda>_.
         revoke_subject_tokens email)))"

section \<open>The service\<close>

text \<open>Invitations go through the authentication service when the server runs one.\<close>

datatype inviter = NoInviter | AuthInviter service

definition inviter_send :: "inviter \<Rightarrow> string \<Rightarrow> role \<Rightarrow> string \<Rightarrow> unit auth_db" where
  "inviter_send inviter email role invited_by =
     (case inviter of
        NoInviter \<Rightarrow> ok ()
      | AuthInviter sv \<Rightarrow> send_invitation sv email role invited_by)"

definition inviter_link :: "inviter \<Rightarrow> string \<Rightarrow> role \<Rightarrow> (string \<times> int) auth_db" where
  "inviter_link inviter email role =
     (case inviter of
        NoInviter \<Rightarrow> err (Msg ''invitations are not configured'')
      | AuthInviter sv \<Rightarrow> create_invite_link sv email role)"

definition lookup_inviter :: "string option \<Rightarrow> int option auth_db" where
  "lookup_inviter invited_by =
     (case invited_by of
        None \<Rightarrow> ok None
      | Some email \<Rightarrow>
          try_bind (with_context ''lookup inviter'' (user_id_by_email email)) (\<lambda>i. ok (Some i)))"

text \<open>A user whose invitation cannot be sent is removed again.\<close>

definition invitation :: "inviter \<Rightarrow> string \<Rightarrow> string option \<Rightarrow> role \<Rightarrow> user \<Rightarrow> user auth_db" where
  "invitation inviter email invited_by role user = do {
     sent \<leftarrow> inviter_send inviter email role (text_or_empty invited_by);
     (case sent of
        Inr _ \<Rightarrow> ok user
      | Inl _ \<Rightarrow> do {
          removed \<leftarrow> remove_user (us_id user);
          (case removed of
             Inl _ \<Rightarrow> err (Msg ''send invitation (compensating delete also failed)'')
           | Inr _ \<Rightarrow> err (Msg ''send invitation''))
        })
   }"

definition add_user :: "inviter \<Rightarrow> string \<Rightarrow> string option \<Rightarrow> role \<Rightarrow> user auth_db" where
  "add_user inviter email invited_by role =
     try_bind (user_exists email) (\<lambda>exists.
       if exists then err (Msg ''user already exists'')
       else
         try_bind (lookup_inviter invited_by) (\<lambda>inviter_id.
         try_bind (insert_user email inviter_id role)
           (invitation inviter email invited_by role)))"

definition service_invite_link :: "inviter \<Rightarrow> int \<Rightarrow> (string \<times> int) auth_db" where
  "service_invite_link inviter user_id =
     try_bind (with_context ''lookup user'' (user_by_id user_id))
       (\<lambda>u. inviter_link inviter (us_email u) (us_role u))"

text \<open>The mutation of the API: the address is normalised and the inviter is the caller.\<close>

definition add_user_mutation ::
    "service \<Rightarrow> inviter \<Rightarrow> identity \<Rightarrow> string \<Rightarrow> role option \<Rightarrow> user auth_db" where
  "add_user_mutation sv inviter caller address role =
     (let email = x_lowercase (sv_ext sv) (trim address)
      in try_bind (ensure (email \<noteq> '''') ''email is required'') (\<lambda>_.
           add_user inviter email (present (id_subject caller))
             (case role of None \<Rightarrow> Writer | Some r \<Rightarrow> r)))"

section \<open>What the operations guarantee\<close>

context auth_effects
begin

lemma of_sum: "guarantees R (of_sum r)"
  unfolding of_sum_def by (intro guarantee_rules)

lemma admin_store:
  "guarantees R (find_user ident)"
  "guarantees R (lookup_email ident)"
  "guarantees R (revoke_subject_tokens email)"
  "guarantees R (insert_user email by role)"
  "guarantees R (user_id_by_email email)"
  "guarantees R (user_exists email)"
  unfolding find_user_def lookup_email_def revoke_subject_tokens_def insert_user_def
    user_id_by_email_def user_exists_def
  by (intro guarantee_rules effects of_sum)+

lemma user_by_id: "guarantees R (user_by_id ident)"
  unfolding user_by_id_def by (intro guarantee_rules admin_store)

lemma update_user_role: "guarantees R (update_user_role ident role)"
  unfolding update_user_role_def by (intro guarantee_rules effects admin_store user_by_id)

lemma remove_user: "guarantees R (remove_user ident)"
  unfolding remove_user_def by (intro guarantee_rules effects admin_store)

lemma inviter_send: "guarantees R (inviter_send inviter email role by)"
  unfolding inviter_send_def
  by (cases inviter) (simp_all add: guarantees_ok invitations)

lemma inviter_link: "guarantees R (inviter_link inviter email role)"
  unfolding inviter_link_def
  by (cases inviter) (simp_all add: guarantees_err invitations)

lemma add_user: "guarantees R (add_user inviter email by role)"
  unfolding add_user_def lookup_inviter_def invitation_def
  by (intro guarantee_rules admin_store inviter_send remove_user)

lemma service_invite_link: "guarantees R (service_invite_link inviter ident)"
  unfolding service_invite_link_def by (intro guarantee_rules user_by_id inviter_link)

lemma add_user_mutation: "guarantees R (add_user_mutation sv inviter caller address role)"
  unfolding add_user_mutation_def Let_def by (intro guarantee_rules add_user)

end

section \<open>Roles and tokens\<close>

lemma stored_role_roundtrip [simp]: "role_from_str (to_ascii_uppercase (stored_role r)) = Some r"
  by (cases r; simp only:; code_simp)

definition tokens_revoked :: "string \<Rightarrow> auth_tables \<Rightarrow> auth_tables \<Rightarrow> bool" where
  "tokens_revoked subject t t' \<longleftrightarrow>
     t_access t' = filter (\<lambda>a. atr_subject a \<noteq> subject) (t_access t)
     \<and> t_refresh t' = filter (\<lambda>r. rtr_subject r \<noteq> subject) (t_refresh t)
     \<and> t_codes t' = t_codes t \<and> t_sessions t' = t_sessions t \<and> t_clients t' = t_clients t"

definition known :: "auth_tables \<Rightarrow> (int \<times> string \<times> string) list" where
  "known t = map (\<lambda>u. (usr_id u, usr_email u, usr_role u)) (t_users t)"

definition user_removed :: "int \<Rightarrow> auth_tables \<Rightarrow> auth_tables \<Rightarrow> bool" where
  "user_removed ident t t' \<longleftrightarrow>
     (\<exists>u \<in> set (t_users t). usr_id u = ident \<and> tokens_revoked (usr_email u) t t')
     \<and> known t' = filter (\<lambda>u. fst u \<noteq> ident) (known t)
     \<and> (\<forall>u \<in> set (t_users t'). usr_invited_by u \<noteq> Some ident)
     \<and> (\<forall>c \<in> set (t_credentials t'). wcr_user_id c \<noteq> ident)
     \<and> (\<forall>c \<in> set (t_registrations t'). wrr_user_id c \<noteq> ident)"

definition role_changed :: "int \<Rightarrow> role \<Rightarrow> auth_tables \<Rightarrow> auth_tables \<Rightarrow> bool" where
  "role_changed ident role t t' \<longleftrightarrow>
     (\<exists>u \<in> set (t_users t). usr_id u = ident \<and> tokens_revoked (usr_email u) t t')
     \<and> t_users t' =
         map (\<lambda>u. if usr_id u = ident then u\<lparr>usr_role := stored_role role\<rparr> else u) (t_users t)
     \<and> t_credentials t' = t_credentials t \<and> t_registrations t' = t_registrations t"

lemma wp_users_query:
  assumes "\<And>w'. w_tables w' = w_tables w \<Longrightarrow> Q (Inl DbFault) w'"
    and "\<And>w' rows. w_tables w' = w_tables w \<Longrightarrow>
      set rows = set (filter (\<lambda>u. (case ident of None \<Rightarrow> True | Some i \<Rightarrow> usr_id u = i)
        \<and> (case email of None \<Rightarrow> True | Some e \<Rightarrow> usr_email u = e)) (t_users (w_tables w))) \<Longrightarrow>
      Q (Inr rows) w'"
  shows "wp (users_query ident email) Q w"
  unfolding users_query_def wp_select by (auto intro!: assms)

lemma wp_user_by_key:
  assumes "\<And>w'. w_tables w' = w_tables w \<Longrightarrow> Q (Inl DbFault) w'"
    and "\<And>w'. w_tables w' = w_tables w \<Longrightarrow> ident \<notin> usr_id ` set (t_users (w_tables w)) \<Longrightarrow>
      Q (Inr []) w'"
    and "\<And>w' row rest. w_tables w' = w_tables w \<Longrightarrow> row \<in> set (t_users (w_tables w)) \<Longrightarrow>
      usr_id row = ident \<Longrightarrow> Q (Inr (row # rest)) w'"
  shows "wp (users_query (Some ident) None) Q w"
proof (rule wp_users_query)
  fix w' :: "auth_tables world" and rows
  assume w': "w_tables w' = w_tables w"
    and "set rows = set (filter (\<lambda>u. (case Some ident of None \<Rightarrow> True | Some i \<Rightarrow> usr_id u = i)
        \<and> (case None of None \<Rightarrow> True | Some e \<Rightarrow> usr_email u = e)) (t_users (w_tables w)))"
  then have rows: "set rows = {u \<in> set (t_users (w_tables w)). usr_id u = ident}" by simp
  show "Q (Inr rows) w'"
  proof (cases rows)
    case Nil
    then have "ident \<notin> usr_id ` set (t_users (w_tables w))" using rows by auto
    then show ?thesis unfolding Nil by (rule assms(2) [OF w'])
  next
    case (Cons row rest)
    then have "row \<in> set (t_users (w_tables w)) \<and> usr_id row = ident"
      using rows by (metis (mono_tags, lifting) list.set_intros(1) mem_Collect_eq)
    then show ?thesis unfolding Cons by (intro assms(3) [OF w']) simp_all
  qed
qed (rule assms(1))

lemma wp_lookup_email:
  assumes "\<And>e w'. w_tables w' = w_tables w \<Longrightarrow> Q (Inl e) w'"
    and "\<And>w' u. w_tables w' = w_tables w \<Longrightarrow> u \<in> set (t_users (w_tables w)) \<Longrightarrow> usr_id u = ident \<Longrightarrow>
      Q (Inr (usr_email u)) w'"
  shows "wp (lookup_email ident) Q w"
  unfolding lookup_email_def wp_try_bind
  by (rule wp_user_by_key) (simp_all add: wp_rules assms)

lemma wp_find_user:
  assumes "\<And>e w'. w_tables w' = w_tables w \<Longrightarrow> Q (Inl e) w'"
    and "\<And>w'. w_tables w' = w_tables w \<Longrightarrow> ident \<notin> usr_id ` set (t_users (w_tables w)) \<Longrightarrow>
      Q (Inr None) w'"
    and "\<And>w' row u. w_tables w' = w_tables w \<Longrightarrow> row \<in> set (t_users (w_tables w)) \<Longrightarrow>
      usr_id row = ident \<Longrightarrow> user_of_row row = Inr u \<Longrightarrow> Q (Inr (Some u)) w'"
  shows "wp (find_user ident) Q w"
  unfolding find_user_def wp_try_bind
  by (rule wp_user_by_key) (simp_all add: wp_rules assms split: sum.split)

lemma user_of_row_Inr:
  "user_of_row row = Inr u \<Longrightarrow> us_id u = usr_id row \<and> us_email u = usr_email row
     \<and> role_from_str (to_ascii_uppercase (usr_role row)) = Some (us_role u)"
  by (auto simp: user_of_row_def split: option.splits)

lemma wp_revoke_subject_tokens:
  assumes "\<And>e w'. Q (Inl e) w'" and "\<And>w'. w_tables w' = (w_tables w)\<lparr>
      t_access := delete_rows (\<lambda>a. atr_subject a = email) (t_access (w_tables w)),
      t_refresh := delete_rows (\<lambda>r. rtr_subject r = email) (t_refresh (w_tables w))\<rparr> \<Longrightarrow> Q (Inr ()) w'"
  shows "wp (revoke_subject_tokens email) Q w"
  unfolding revoke_subject_tokens_def delete_access_by_subject_def delete_refresh_by_subject_def
    delete_access_def
  by (auto simp: wp_rules intro!: assms)

lemma user_removedI:
  assumes "u \<in> set (t_users t)" "usr_id u = ident"
    and "t' = t\<lparr>
       t_users := update_rows (\<lambda>u. usr_invited_by u = Some ident) (\<lambda>u. u\<lparr>usr_invited_by := None\<rparr>)
         (delete_rows (\<lambda>u. usr_id u = ident) (t_users t)),
       t_registrations := delete_rows (\<lambda>r. wrr_user_id r = ident) (t_registrations t),
       t_credentials := delete_rows (\<lambda>c. wcr_user_id c = ident) (t_credentials t),
       t_access := delete_rows (\<lambda>a. atr_subject a = usr_email u) (t_access t),
       t_refresh := delete_rows (\<lambda>r. rtr_subject r = usr_email u) (t_refresh t)\<rparr>"
  shows "user_removed ident t t'"
proof -
  have "tokens_revoked (usr_email u) t t'"
    by (simp add: tokens_revoked_def assms(3) delete_rows_def)
  moreover have "known t' = filter (\<lambda>u. fst u \<noteq> ident) (known t)"
    by (auto simp: known_def assms(3) update_rows_def delete_rows_def filter_map o_def)
  ultimately show ?thesis
    unfolding user_removed_def using assms(1,2) by (auto simp: assms(3) set_update_rows)
qed

lemma role_changedI:
  assumes "u \<in> set (t_users t)" "usr_id u = ident"
    and "t' = t\<lparr>
       t_users := update_rows (\<lambda>u. usr_id u = ident) (\<lambda>u. u\<lparr>usr_role := stored_role role\<rparr>) (t_users t),
       t_access := delete_rows (\<lambda>a. atr_subject a = usr_email u) (t_access t),
       t_refresh := delete_rows (\<lambda>r. rtr_subject r = usr_email u) (t_refresh t)\<rparr>"
  shows "role_changed ident role t t'"
proof -
  have "tokens_revoked (usr_email u) t t'"
    by (simp add: tokens_revoked_def assms(3) delete_rows_def)
  then show ?thesis
    unfolding role_changed_def using assms(1,2) by (auto simp: assms(3) update_rows_def)
qed

lemma wp_remove_user:
  "wp (remove_user ident) (\<lambda>r w'. case r of Inl _ \<Rightarrow> w_tables w' = w_tables w
    | Inr _ \<Rightarrow> user_removed ident (w_tables w) (w_tables w')) w"
    (is "wp _ ?ok w")
  unfolding remove_user_def
proof (rule wp_with_txI)
  show "wp (try_bind (lookup_email ident) (\<lambda>email.
      try_bind (with_context ''delete user'' (delete_user_row ident)) (\<lambda>_. revoke_subject_tokens email)))
    (\<lambda>r w'. \<forall>v. r = Inr v \<longrightarrow> ?ok (Inr v) (spend_statement w')) (spend_statement w)"
    by (auto simp: wp_rules delete_user_row_def intro!: wp_lookup_email wp_revoke_subject_tokens)
       (auto intro: user_removedI)
qed simp

text \<open>C14: Removing a user, under any faults of the database, is all or nothing. An error leaves the
  tables as they were. On success the user existed and is gone with his passkeys; of all access and
  refresh tokens exactly those of his address are deleted, and nobody is left with him as inviter.\<close>

theorem remove_user_sound:
  assumes "run_state (remove_user ident) w = (r, w')"
  shows "case r of Inl _ \<Rightarrow> w_tables w' = w_tables w
    | Inr _ \<Rightarrow> user_removed ident (w_tables w) (w_tables w')"
  by (rule wp_run [OF assms wp_remove_user])

definition role_outcome :: "int \<Rightarrow> role \<Rightarrow> auth_tables \<Rightarrow> error + user \<Rightarrow> auth_tables \<Rightarrow> bool" where
  "role_outcome ident role t r t' \<longleftrightarrow>
     (t' = t \<and> isl r)
     \<or> (role_changed ident role t t' \<and> (\<forall>u. r = Inr u \<longrightarrow> us_id u = ident \<and> us_role u = role))"

lemma wp_find_updated:
  assumes "role_changed ident role t (w_tables u)"
  shows "wp (with_context ''find updated user'' (user_by_id ident))
    (\<lambda>r w'. role_outcome ident role t r (w_tables w')) u"
proof -
  have stored: "us_id v = ident \<and> us_role v = role"
    if row: "row \<in> set (t_users (w_tables u))" "usr_id row = ident" and v: "user_of_row row = Inr v"
    for row v
  proof -
    from assms have "t_users (w_tables u) =
        map (\<lambda>u. if usr_id u = ident then u\<lparr>usr_role := stored_role role\<rparr> else u) (t_users t)"
      unfolding role_changed_def by blast
    with row(1) obtain x where "row = (if usr_id x = ident then x\<lparr>usr_role := stored_role role\<rparr> else x)"
      by (simp only: set_map) blast
    with row(2) have "usr_role row = stored_role role" by (simp split: if_splits)
    with user_of_row_Inr [OF v] row(2) show ?thesis by simp
  qed
  show ?thesis
    unfolding user_by_id_def wp_with_context wp_try_bind
    by (rule wp_find_user) (simp_all add: wp_ok_or role_outcome_def assms stored)
qed

text \<open>C15: Changing a role, under any faults of the database: either nothing changes and an error is
  reported, or the user has the new role and every access and refresh token of his address is deleted
  with the old one, so no token of the old role can be rotated; a user is only returned with the role
  that was asked for.\<close>

theorem update_user_role_sound:
  assumes "run_state (update_user_role ident role) w = (r, w')"
  shows "role_outcome ident role (w_tables w) r (w_tables w')"
proof -
  let ?ok = "\<lambda>r w'. role_outcome ident role (w_tables w) r (w_tables w')"
  have "wp (update_user_role ident role) ?ok w"
    unfolding update_user_role_def wp_try_bind
  proof (rule wp_with_txI)
    fix e w'
    show "w_tables w' = w_tables w \<Longrightarrow>
        case Inl e of Inl e \<Rightarrow> ?ok (Inl e) w'
        | Inr _ \<Rightarrow> wp (with_context ''find updated user'' (user_by_id ident)) ?ok w'"
      by (simp add: role_outcome_def)
  next
    show "wp (try_bind (lookup_email ident) (\<lambda>email.
        try_bind (with_context ''update user role'' (update_user_role_row (stored_role role) ident))
          (\<lambda>_. revoke_subject_tokens email)))
      (\<lambda>r w'. \<forall>v. r = Inr v \<longrightarrow> (case Inr v of Inl e \<Rightarrow> ?ok (Inl e) (spend_statement w')
        | Inr _ \<Rightarrow> wp (with_context ''find updated user'' (user_by_id ident)) ?ok (spend_statement w')))
      (spend_statement w)"
      unfolding wp_try_bind wp_with_context update_user_role_row_def wp_exec
      by (rule wp_lookup_email)
         (auto intro!: wp_revoke_subject_tokens wp_find_updated [unfolded wp_with_context] role_changedI)
  qed
  from wp_run [OF assms this] show ?thesis .
qed

section \<open>Adding a user\<close>

definition users_kept :: "auth_tables world \<Rightarrow> auth_tables world \<Rightarrow> bool" where
  "users_kept w w' \<longleftrightarrow> t_users (w_tables w') = t_users (w_tables w)"

interpretation users_kept: effect_order users_kept
  by unfold_locales (auto simp: users_kept_def)

lemma users_kept_sessions:
  "guarantees users_kept (create_login_session s)" "guarantees users_kept (save_email_otp u)"
  unfolding create_login_session_def create_login_session_row_def save_email_otp_def
    save_session_email_otp_def exec_def update_sessions_def
  by (intro guarantee_rules users_kept.guarantees_statement, auto simp: users_kept_def split: if_splits)+

lemma users_kept_send: "guarantees users_kept (inviter_send inviter email role by)"
  unfolding inviter_send_def send_invitation_def build_invite_session_def from_std_def Let_def
  by (cases inviter; simp only: inviter.case)
     (intro guarantee_rules users_kept_sessions; assumption?)+

lemma wp_insert_user:
  assumes "\<And>e w'. w_tables w' = w_tables w \<Longrightarrow> Q (Inl e) w'"
    and "\<And>w' u created. email \<notin> usr_email ` set (t_users (w_tables w)) \<Longrightarrow>
      us_id u \<notin> usr_id ` set (t_users (w_tables w)) \<Longrightarrow> us_email u = email \<Longrightarrow> us_role u = role \<Longrightarrow>
      w_tables w' = (w_tables w)\<lparr>t_users := t_users (w_tables w) @
        [\<lparr>usr_id = us_id u, usr_email = email, usr_role = stored_role role,
          usr_invited_by = by, usr_created_at = created\<rparr>]\<rparr> \<Longrightarrow> Q (Inr u) w'"
  shows "wp (insert_user email by role) Q w"
  unfolding insert_user_def insert_user_row_def
  by (auto simp: wp_rules Let_def user_of_row_def image_iff intro!: assms(1) assms(2))

definition add_user_outcome ::
    "string \<Rightarrow> role \<Rightarrow> auth_tables \<Rightarrow> error + user \<Rightarrow> auth_tables \<Rightarrow> bool" where
  "add_user_outcome email role t r t' \<longleftrightarrow>
     (case r of
        Inr u \<Rightarrow> email \<notin> usr_email ` set (t_users t) \<and> us_id u \<notin> usr_id ` set (t_users t)
          \<and> us_email u = email \<and> us_role u = role
          \<and> known t' = known t @ [(us_id u, email, stored_role role)]
      | Inl e \<Rightarrow> known t' = known t
          \<or> e = Msg ''send invitation (compensating delete also failed)''
            \<and> (\<exists>i. known t' = known t @ [(i, email, stored_role role)]))"

lemma known_removed:
  assumes "user_removed i t t'" "known t = known t0 @ [(i, email, role)]"
    and "i \<notin> usr_id ` set (t_users t0)"
  shows "known t' = known t0"
proof -
  have "fst u \<noteq> i" if "u \<in> set (known t0)" for u
    using that assms(3) by (auto simp: known_def)
  then have "filter (\<lambda>u. fst u \<noteq> i) (known t0) = known t0"
    by (simp add: filter_id_conv)
  then show ?thesis using assms(1,2) by (simp add: user_removed_def)
qed

lemma wp_invitation:
  assumes new: "email \<notin> usr_email ` set (t_users t)" "us_id user \<notin> usr_id ` set (t_users t)"
    "us_email user = email" "us_role user = role"
    and known: "known (w_tables u) = known t @ [(us_id user, email, stored_role role)]"
  shows "wp (invitation inviter email by role user) (\<lambda>r w'. add_user_outcome email role t r (w_tables w')) u"
  unfolding invitation_def wp_bind
proof (rule wpI)
  fix r v
  assume "run_state (inviter_send inviter email role (text_or_empty by)) u = (r, v)"
  from guaranteesD [OF users_kept_send this] known
  have v: "known (w_tables v) = known t @ [(us_id user, email, stored_role role)]"
    by (simp add: users_kept_def known_def)
  show "wp (case r of Inr _ \<Rightarrow> ok user
    | Inl _ \<Rightarrow> do {
        removed \<leftarrow> remove_user (us_id user);
        (case removed of
           Inl _ \<Rightarrow> err (Msg ''send invitation (compensating delete also failed)'')
         | Inr _ \<Rightarrow> err (Msg ''send invitation'')) })
      (\<lambda>r w'. add_user_outcome email role t r (w_tables w')) v"
  proof (cases r)
    case (Inl e)
    then show ?thesis
      unfolding Inl sum.case wp_bind
      by (intro wp_mono [OF wp_remove_user])
         (auto simp: wp_rules add_user_outcome_def v known_removed [OF _ v new(2)] split: sum.splits)
  next
    case (Inr x)
    then show ?thesis using new v by (simp add: wp_ok add_user_outcome_def)
  qed
qed

lemma wp_insert_and_invite:
  assumes "w_tables v = w_tables w"
  shows "wp (try_bind (insert_user email inviter_id role) (invitation inviter email by role))
    (\<lambda>r w'. add_user_outcome email role (w_tables w) r (w_tables w')) v"
  unfolding wp_try_bind
  by (rule wp_insert_user, simp add: assms add_user_outcome_def, simp only: sum.case,
      rule wp_invitation)
     (simp_all only: assms, simp_all add: known_def)

lemma wp_lookup_inviter:
  "w_tables v = w_tables w \<Longrightarrow> wp (lookup_inviter by) (\<lambda>_ u. w_tables u = w_tables w) v"
  unfolding lookup_inviter_def user_id_by_email_def
  by (auto simp: wp_rules split: option.splits list.splits intro!: wp_users_query)

text \<open>Adding a user, under any faults of the database: a user is only returned when the address
  was new, with the role that was asked for and an id nobody had, and is added at the end of the list.
  When an error is reported nobody was added, except when the compensating delete after a failed
  invitation failed as well, which the error says.\<close>

theorem add_user_sound:
  assumes "run_state (add_user inviter email by role) w = (r, w')"
  shows "add_user_outcome email role (w_tables w) r (w_tables w')"
proof -
  have refused: "add_user_outcome email role (w_tables w) (Inl e) (w_tables u)"
    if "w_tables u = w_tables w" for e u
    using that by (simp add: add_user_outcome_def)
  have "wp (add_user inviter email by role)
      (\<lambda>r w'. add_user_outcome email role (w_tables w) r (w_tables w')) w"
    unfolding add_user_def user_exists_def wp_try_bind [of "users_query _ _"]
      wp_try_bind [of "try_bind _ _"] wp_try_bind [of "lookup_inviter _"]
    by (auto simp: wp_ok wp_err wp_if refused wp_try_bind [of "lookup_inviter _"]
        intro!: wp_users_query wp_mono [OF wp_lookup_inviter] wp_insert_and_invite
        split: sum.splits)
  from wp_run [OF assms this] show ?thesis .
qed

end
