(* ===== verification/Auth_Scenario.thy ===== *)
theory Auth_Scenario
  imports Auth_Users
begin

text \<open>
  A small household: one browser client, one registered application, an administrator and a guest,
  with a login under way, an unused and a used authorization code and a refresh token of each kind.
  The parameters of the model are instantiated by simple functions. The properties of the other
  theories are applied here to concrete requests.
\<close>

definition demo_now :: int where
  "demo_now = 1000 * nanos"

definition app_url :: string where
  "app_url = ''https://app.test/cb''"

definition demo_parse :: "string \<Rightarrow> parsed_url option" where
  "demo_parse s =
     (if s = app_url \<or> s = ''https://tallyo.test'' then Some
        \<lparr>url_scheme = ''https'', url_username = [], url_password = None,
         url_host = Some ''tallyo.test'', url_path = ''/cb'', url_query = None, url_fragment = None\<rparr>
      else None)"

definition demo_print :: "parsed_url \<Rightarrow> string" where
  "demo_print u =
     url_scheme u @ ''://'' @ (case url_host u of None \<Rightarrow> [] | Some h \<Rightarrow> h) @ url_path u
     @ (case url_query u of None \<Rightarrow> []
        | Some q \<Rightarrow> ''?'' @ concat (map (\<lambda>(k, v). k @ ''='' @ v @ ''&'') q))"

definition demo_ext :: externals where
  "demo_ext =
     \<lparr>x_token_signature = (\<lambda>s. CHR ''d'' # s),
      x_jwt_encode = (\<lambda>c. Some (''h.p.m'' @ replicate (length (cl_jti c)) (CHR ''x''))),
      x_jwt_decode = (\<lambda>iss now token. None),
      x_url_parse = demo_parse, x_url_print = demo_print,
      x_lowercase = to_ascii_lowercase,
      x_form_encode = (\<lambda>ps. concat (map (\<lambda>(k, v). k @ ''='' @ v @ ''&'') ps)),
      x_send_mail = (\<lambda>address text. True),
      x_google_exchange = (\<lambda>code. if code = ''good'' then Answer ''gtoken'' else Failed),
      x_google_userinfo = (\<lambda>token. Answer (''guest@x.test'', True))\<rparr>"

definition demo_sv :: service where
  "demo_sv =
     \<lparr>sv_auth =
        \<lparr>as_issuer_url = ''https://tallyo.test'', as_oauth_enabled = True,
         as_disable_all_auth = False, as_master_password = None,
         as_master_password_from_env = False, as_frontend_redirect_uris = [app_url],
         as_access_token_lifetime = access_token_lifetime_default,
         as_refresh_token_lifetime = refresh_token_lifetime_default,
         as_dev_cors_allowed_origins = []\<rparr>,
      sv_dcr = \<lparr>dcr_enabled = True, dcr_dynamic_redirect_hosts = []\<rparr>,
      sv_email_enabled = True,
      sv_google_settings =
        \<lparr>gs_enabled = True, gs_client_id = ''gid'', gs_client_secret = ''gsecret'',
         gs_auth = ''ga'', gs_token = ''gt'', gs_userinfo = ''gu''\<rparr>,
      sv_google = True, sv_passkey_enabled = True, sv_dev_origins = [],
      sv_timezone = ''UTC'', sv_ext = demo_ext\<rparr>"

definition demo_client :: "string \<Rightarrow> bool \<Rightarrow> client_row" where
  "demo_client ident preseeded =
     \<lparr>ocr_id = ident, ocr_redirect_uris = [app_url],
      ocr_grant_types = [''authorization_code'', ''refresh_token''], ocr_response_types = [''code''],
      ocr_scopes = ''read'', ocr_application_type = ''web'', ocr_client_name = None,
      ocr_is_public = True, ocr_is_preseeded = preseeded, ocr_created_at = 0,
      ocr_last_used_at = None\<rparr>"

definition demo_session :: "string \<Rightarrow> string option \<Rightarrow> session_row" where
  "demo_session ident subject =
     \<lparr>lsr_id = ident, lsr_client_id = ''web'', lsr_redirect_uri = app_url, lsr_state = Some ''st'',
      lsr_code_challenge = ''dver'', lsr_code_challenge_method = ''S256'',
      lsr_scopes = Some ''read'', lsr_callback_state = CHR ''c'' # ident, lsr_subject = subject,
      lsr_authenticated = (subject \<noteq> None), lsr_expires_at = 1100,
      lsr_email = Some ''guest@x.test'', lsr_email_otp = Some ''d123456'',
      lsr_email_otp_expires_at = Some 1100, lsr_email_otp_attempts = 0,
      lsr_email_magic_token = Some ''dmagic'', lsr_pkce_verifier = None,
      lsr_webauthn_session = None, lsr_purpose = None, lsr_browser_binding = Some ''dsecret''\<rparr>"

definition demo_code :: "string \<Rightarrow> bool \<Rightarrow> code_row" where
  "demo_code signature active =
     \<lparr>acr_signature = signature, acr_client_id = ''web'', acr_subject = ''guest@x.test'',
      acr_scopes = Some ''read:tags'', acr_redirect_uri = app_url,
      acr_code_challenge = ''dver'', acr_code_challenge_method = ''S256'', acr_expires_at = 1050,
      acr_active = active\<rparr>"

definition demo_refresh :: "string \<Rightarrow> string \<Rightarrow> bool \<Rightarrow> refresh_row" where
  "demo_refresh signature chain active =
     \<lparr>rtr_signature = signature, rtr_client_id = ''web'', rtr_subject = ''guest@x.test'',
      rtr_scopes = Some ''read:tags'', rtr_expires_at = 2000, rtr_request_id = Some chain,
      rtr_active = active, rtr_created_at = 900, rtr_first_issued_at = Some 900\<rparr>"

definition demo_user :: "int \<Rightarrow> string \<Rightarrow> string \<Rightarrow> user_row" where
  "demo_user ident email role =
     \<lparr>usr_id = ident, usr_email = email, usr_role = role, usr_invited_by = None,
      usr_created_at = 0\<rparr>"

definition demo_tables :: auth_tables where
  "demo_tables =
     \<lparr>t_clients = [demo_client ''web'' True, demo_client ''app'' False],
      t_sessions = [demo_session ''s1'' None, demo_session ''s2'' (Some ''guest@x.test'')],
      t_codes = [demo_code ''dfresh'' True, demo_code ''dspent'' False],
      t_access =
        [\<lparr>atr_signature = ''a1'', atr_client_id = ''web'', atr_subject = ''guest@x.test'',
          atr_scopes = Some ''read:tags'', atr_expires_at = 1500, atr_request_id = Some ''old''\<rparr>],
      t_refresh = [demo_refresh ''drefresh'' ''old'' True, demo_refresh ''dused'' ''old'' False],
      t_users = [demo_user 1 ''admin@x.test'' ''admin'', demo_user 2 ''guest@x.test'' ''readonly''],
      t_registrations = [], t_credentials = []\<rparr>"

definition demo_world :: "auth_tables world" where
  "demo_world =
     \<lparr>w_clock = (\<lambda>n. demo_now), w_reads = 0,
      w_entropy = (\<lambda>n k. CHR ''t'' # replicate n (CHR ''x'')), w_draws = 0,
      w_faults = (\<lambda>n. False), w_queries = 0, w_tables = demo_tables\<rparr>"

definition code_rq :: "string \<Rightarrow> token_request" where
  "code_rq code =
     \<lparr>trq_grant_type = ''authorization_code'', trq_client_id = Some ''web'', trq_code = Some code,
      trq_code_verifier = Some ''ver'', trq_redirect_uri = Some app_url, trq_refresh_token = None\<rparr>"

definition refresh_rq :: "string \<Rightarrow> token_request" where
  "refresh_rq token =
     \<lparr>trq_grant_type = ''refresh_token'', trq_client_id = Some ''web'', trq_code = None,
      trq_code_verifier = None, trq_redirect_uri = None, trq_refresh_token = Some token\<rparr>"

lemma wf_demo: "wf_auth (w_tables demo_world)"
  by code_simp

section \<open>Tokens\<close>

lemma demo_simps:
  "t_clients (w_tables demo_world) = [demo_client ''web'' True, demo_client ''app'' False]"
  "t_codes (w_tables demo_world) = [demo_code ''dfresh'' True, demo_code ''dspent'' False]"
  "t_refresh (w_tables demo_world) = [demo_refresh ''drefresh'' ''old'' True, demo_refresh ''dused'' ''old'' False]"
  "atr_signature ` set (t_access (w_tables demo_world)) = {''a1''}"
  "w_faults demo_world n = False"
  "to_timestamp (w_clock demo_world n) = 1000" "to_timestamp (1000 * nanos) = 1000"
  "w_clock demo_world n = 1000 * nanos"
  "w_entropy demo_world n k = CHR ''t'' # replicate n (CHR ''x'')"
  "token_signature demo_sv x = CHR ''d'' # x"
  by (simp_all add: demo_world_def demo_tables_def demo_now_def to_timestamp_def nanos_def
      demo_sv_def demo_ext_def)

lemma demo_token:
  "x_jwt_encode (sv_ext demo_sv) cl = Some (''h.p.m'' @ replicate (length (cl_jti cl)) (CHR ''x''))"
  "rsplit_once (CHR ''.'') (''h.p.m'' @ replicate (length (cl_jti cl)) (CHR ''x''))
     = Some (''h.p'', CHR ''m'' # replicate (length (cl_jti cl)) (CHR ''x''))"
proof -
  have "split_once (CHR ''.'') (rev (CHR ''m'' # replicate n (CHR ''x'')) @ CHR ''.'' # ''p.h'')
      = Some (rev (CHR ''m'' # replicate n (CHR ''x'')), ''p.h'')" for n
    by (rule split_once_append) auto
  then show "rsplit_once (CHR ''.'') (''h.p.m'' @ replicate (length (cl_jti cl)) (CHR ''x''))
     = Some (''h.p'', CHR ''m'' # replicate (length (cl_jti cl)) (CHR ''x''))"
    by (simp add: rsplit_once_def)
qed (simp add: demo_sv_def demo_ext_def)

lemma demo_scopes: "collect_scopes (split_whitespace ''read:tags'') = Some [ReadTags]"
proof -
  have "''read:tags'' = scopes_to_string [ReadTags]"
    by (simp add: scopes_to_string_def)
  then show ?thesis
    by (simp only: split_scopes_to_string) (simp del: scope_name.simps)
qed

lemma demo_lifetimes:
  "as_access_token_lifetime (sv_auth demo_sv) \<le> (2 ^ 63 - 1) * 1000000"
  "as_refresh_token_lifetime (sv_auth demo_sv) \<le> (2 ^ 63 - 1) * 1000000"
  by (simp_all add: demo_sv_def access_token_lifetime_default_def
      refresh_token_lifetime_default_def seconds_def nanos_def)

lemma code_grant_sound_witness:
  "code_request_outcome demo_sv (code_rq ''fresh'') demo_world
     (fst (run_state (exchange demo_sv (Some (code_rq ''fresh''))) demo_world))
     (snd (run_state (exchange demo_sv (Some (code_rq ''fresh''))) demo_world))"
  by (rule code_grant_sound [OF wf_demo _ prod.collapse [symmetric]]) (simp add: code_rq_def)

lemma refresh_grant_sound_witness:
  "refresh_request_outcome demo_sv (refresh_rq ''refresh'') demo_world
     (fst (run_state (exchange demo_sv (Some (refresh_rq ''refresh''))) demo_world))
     (snd (run_state (exchange demo_sv (Some (refresh_rq ''refresh''))) demo_world))"
  by (rule refresh_grant_sound [OF wf_demo _ prod.collapse [symmetric]]) (simp add: refresh_rq_def)

lemma code_replay_witness:
  "fst (run_state (exchange demo_sv (Some (code_rq ''spent''))) demo_world) = token_response invalid_grant
   \<and> chain_dead ''spent''
       (w_tables (snd (run_state (exchange demo_sv (Some (code_rq ''spent''))) demo_world)))"
  by (rule code_replay_revokes_chain [OF wf_demo, where k = "demo_client ''web'' True"
        and c = "demo_code ''dspent'' False"])
     (simp_all add: demo_simps demo_client_def demo_code_def code_rq_def)

lemma refresh_replay_witness:
  "fst (run_state (exchange demo_sv (Some (refresh_rq ''used''))) demo_world) = token_response invalid_grant
   \<and> chain_dead (coalesce (rtr_request_id (demo_refresh ''dused'' ''old'' False)))
       (w_tables (snd (run_state (exchange demo_sv (Some (refresh_rq ''used''))) demo_world)))"
  by (rule refresh_replay_revokes_chain [OF wf_demo, where k = "demo_client ''web'' True"
        and r = "demo_refresh ''dused'' ''old'' False" and presented = "''used''"
        and rq = "refresh_rq ''used''" and sv = demo_sv])
     (simp_all add: demo_simps demo_client_def demo_refresh_def refresh_rq_def)

lemma logout_witness:
  "rsp_status (fst (run_state (logout demo_sv (Some ''refresh'')) demo_world)) = 204
   \<and> chain_dead ''old'' (w_tables (snd (run_state (logout demo_sv (Some ''refresh'')) demo_world)))"
  using logout_revokes_chain [OF wf_demo _ prod.collapse [symmetric], of demo_sv "''refresh''"]
  by (simp add: demo_simps demo_refresh_def)

lemma code_grant_complete_witness:
  "rsp_status (fst (run_state (exchange demo_sv (Some (code_rq ''fresh''))) demo_world)) = 200"
proof (rule code_grant_complete [OF wf_demo, where k = "demo_client ''web'' True"
      and w' = "snd (run_state (exchange demo_sv (Some (code_rq ''fresh''))) demo_world)"
      and c = "demo_code ''dfresh'' True" and code = "''fresh''" and scopes = "[ReadTags]"
      and token = "\<lambda>cl. ''h.p.m'' @ replicate (length (cl_jti cl)) (CHR ''x'')"
      and body = "\<lambda>cl. ''h.p''" and mac = "\<lambda>cl. CHR ''m'' # replicate (length (cl_jti cl)) (CHR ''x'')"])
  show "collect_scopes (split_whitespace (coalesce (acr_scopes (demo_code ''dfresh'' True)))) = Some [ReadTags]"
    by (simp add: demo_code_def demo_refresh_def demo_scopes)
  show "\<not> code_mismatch demo_sv (code_rq ''fresh'') (ocr_id (demo_client ''web'' True))
      (code_of_row (demo_code ''dfresh'' True))"
    by (simp add: code_mismatch_def code_rq_def demo_client_def code_of_row_def demo_code_def
        code_challenge_def demo_simps)
qed (simp_all only: demo_token demo_lifetimes prod.collapse,
    simp_all add: demo_simps demo_client_def demo_code_def code_rq_def demo_refresh_def)

lemma refresh_grant_complete_witness:
  "rsp_status (fst (run_state (exchange demo_sv (Some (refresh_rq ''refresh''))) demo_world)) = 200"
proof (rule refresh_grant_complete [OF wf_demo, where k = "demo_client ''web'' True"
      and w' = "snd (run_state (exchange demo_sv (Some (refresh_rq ''refresh''))) demo_world)"
      and r = "demo_refresh ''drefresh'' ''old'' True" and presented = "''refresh''"
      and scopes = "[ReadTags]"
      and token = "\<lambda>cl. ''h.p.m'' @ replicate (length (cl_jti cl)) (CHR ''x'')"
      and body = "\<lambda>cl. ''h.p''" and mac = "\<lambda>cl. CHR ''m'' # replicate (length (cl_jti cl)) (CHR ''x'')"])
  show "collect_scopes (split_whitespace (coalesce (rtr_scopes (demo_refresh ''drefresh'' ''old'' True))))
      = Some [ReadTags]"
    by (simp add: demo_code_def demo_refresh_def demo_scopes)
  show "w_clock demo_world (w_reads demo_world) - chain_start (demo_refresh ''drefresh'' ''old'' True)
      \<le> refresh_chain_lifetime"
    by (simp add: demo_simps chain_start_def demo_refresh_def of_timestamp_def refresh_chain_lifetime_def
        days_def seconds_def nanos_def)
qed (simp_all only: demo_token demo_lifetimes prod.collapse,
    simp_all add: demo_simps demo_client_def refresh_rq_def demo_refresh_def)

section \<open>Authorizations and logins\<close>

definition bound_headers :: headers where
  "bound_headers = [(''cookie'', ''__Host-tallyo_login=secret'')]"

definition start_rq :: authorize_request where
  "start_rq =
     \<lparr>arq_client_id = Some ''web'', arq_redirect_uri = Some app_url, arq_response_type = Some ''code'',
      arq_scope = Some ''read'', arq_state = Some ''st'', arq_code_challenge = Some ''dver'',
      arq_code_challenge_method = Some ''S256'', arq_auth_method = None, arq_session_id = None\<rparr>"

definition register_rq :: registration_request where
  "register_rq =
     \<lparr>rrq_client_name = ''App'', rrq_redirect_uris = [app_url], rrq_grant_types = [],
      rrq_response_types = [], rrq_application_type = '''', rrq_token_endpoint_auth_method = ''none''\<rparr>"

lemma code_issue_sound_witness:
  "completion_outcome demo_sv ''s2'' False bound_headers demo_world
     (fst (run_state (complete_authorize demo_sv ''s2'' False bound_headers) demo_world))
     (snd (run_state (complete_authorize demo_sv ''s2'' False bound_headers) demo_world))"
  by (rule code_issue_sound [OF wf_demo prod.collapse [symmetric]])

lemma authorize_starts_witness:
  "start_outcome demo_sv start_rq demo_world
     (fst (run_state (authorize demo_sv start_rq []) demo_world))
     (snd (run_state (authorize demo_sv start_rq []) demo_world))"
  by (rule authorize_starts_bound_session [OF _ prod.collapse [symmetric]])
     (simp add: start_rq_def present_def)

lemma registration_sound_witness:
  "let r = run_state (register demo_sv (Some register_rq)) demo_world
   in if rsp_status (fst r) = 200 then registered demo_sv register_rq demo_world (snd r)
      else w_tables (snd r) = w_tables demo_world"
  using registration_sound [of demo_sv "Some register_rq" demo_world, OF prod.collapse [symmetric]]
  by (simp add: Let_def split: if_splits)

definition verify_rq :: email_verify_request where
  "verify_rq = \<lparr>evr_login_session_id = ''s1'', evr_email = ''guest@x.test'', evr_code = ''123456''\<rparr>"

lemma email_verify_sound_witness:
  "let r = run_state (email_verify demo_sv bound_headers (Some verify_rq)) demo_world
   in authenticated (w_tables (snd r)) \<noteq> authenticated demo_tables \<longrightarrow>
      bound_to demo_sv bound_headers demo_tables ''s1''"
  using email_verify_sound [OF wf_demo, of demo_sv bound_headers verify_rq, OF prod.collapse [symmetric]]
  by (simp add: Let_def verify_rq_def demo_world_def)

text \<open>A session with one guess left, which two guesses read before either is counted.\<close>

definition last_guess_world :: "auth_tables world" where
  "last_guess_world =
     demo_world\<lparr>w_tables := demo_tables\<lparr>t_sessions := [(demo_session ''s1'' None)\<lparr>lsr_email_otp_attempts := 4\<rparr>]\<rparr>\<rparr>"

definition last_guess :: login_session where
  "last_guess = session_of_row ((demo_session ''s1'' None)\<lparr>lsr_email_otp_attempts := 4\<rparr>)"

lemma five_guesses_witness:
  "\<exists>g w. guesses_reachable demo_sv ''s1'' 2 last_guess_world (g, w) \<and> gsg_compared g = 2
     \<and> guesses_left ''s1'' (w_tables last_guess_world) = 1
     \<and> gsg_compared g \<le> guesses_left ''s1'' (w_tables last_guess_world) + 1"
proof -
  let ?r = "\<lambda>w. snd (run_state (open_guess ''s1'') w)" and ?c = "\<lambda>w. snd (run_state (count_guess ''s1'' last_guess) w)"
  let ?w0 = last_guess_world and ?stored = "''d123456''"
  let ?g = "\<lambda>r c n. \<lparr>gsg_read = r, gsg_counted = c, gsg_compared = n\<rparr>"
  have read: "run_state (open_guess ''s1'') ?w0 = (Inr last_guess, ?r ?w0)"
      "run_state (open_guess ''s1'') (?r ?w0) = (Inr last_guess, ?r (?r ?w0))"
    by (simp_all only: prod_eq_iff fst_conv snd_conv refl simp_thms) code_simp+
  have count: "run_state (count_guess ''s1'' last_guess) (?r (?r ?w0)) = (Inr ?stored, ?c (?r (?r ?w0)))"
      "run_state (count_guess ''s1'' last_guess) (?c (?r (?r ?w0))) = (Inr ?stored, ?c (?c (?r (?r ?w0))))"
    by (simp_all only: prod_eq_iff fst_conv snd_conv refl simp_thms) code_simp+
  note steps = Guessed [OF Guessed [OF Guessed [OF Guessed [OF Unguessed
      Reads [OF _ read(1)]] Reads [OF _ read(2)]] Counts [OF _ count(1)]] Counts [OF _ count(2)]]
  have "guesses_reachable demo_sv ''s1'' 2 ?w0
      (?g {#} {#(last_guess, ?stored), (last_guess, ?stored)#} 2, ?c (?c (?r (?r ?w0))))"
    using steps [where sv = demo_sv and k = 2] by (simp add: numeral_2_eq_2)
  moreover have "guesses_left ''s1'' (w_tables ?w0) = 1"
    by (simp add: guesses_left_def last_guess_world_def demo_world_def demo_tables_def demo_session_def)
  ultimately show ?thesis
    using five_guesses by fastforce
qed

definition magic_rq :: magic_link_request where
  "magic_rq = \<lparr>mlr_token = ''magic'', mlr_session_id = ''s1'', mlr_email = ''guest@x.test''\<rparr>"

lemma email_magic_sound_witness:
  "magic_outcome demo_sv bound_headers magic_rq demo_world
     (snd (run_state (email_magic demo_sv bound_headers magic_rq) demo_world))"
  by (rule email_magic_sound [OF wf_demo prod.collapse [symmetric]])

lemma google_callback_sound_witness:
  "google_outcome demo_sv bound_headers ''cs1'' ''good'' demo_world
     (snd (run_state (google_callback demo_sv bound_headers ''cs1'' ''good'') demo_world))"
  by (rule google_callback_sound [OF wf_demo prod.collapse [symmetric]])

section \<open>Users\<close>

lemma remove_user_sound_witness:
  "case fst (run_state (remove_user 2) demo_world) of
     Inl _ \<Rightarrow> w_tables (snd (run_state (remove_user 2) demo_world)) = w_tables demo_world
   | Inr _ \<Rightarrow> user_removed 2 (w_tables demo_world)
       (w_tables (snd (run_state (remove_user 2) demo_world)))"
  by (rule remove_user_sound [OF prod.collapse [symmetric]])

lemma update_user_role_sound_witness:
  "role_outcome 2 Writer (w_tables demo_world) (fst (run_state (update_user_role 2 Writer) demo_world))
     (w_tables (snd (run_state (update_user_role 2 Writer) demo_world)))"
  by (rule update_user_role_sound [OF prod.collapse [symmetric]])

lemma add_user_sound_witness:
  "add_user_outcome ''new@x.test'' Readonly (w_tables demo_world)
     (fst (run_state (add_user (AuthInviter demo_sv) ''new@x.test'' (Some ''admin@x.test'') Readonly) demo_world))
     (w_tables (snd (run_state
       (add_user (AuthInviter demo_sv) ''new@x.test'' (Some ''admin@x.test'') Readonly) demo_world)))"
  by (rule add_user_sound [OF prod.collapse [symmetric]])

section \<open>Access tokens\<close>

definition one_claim :: claims where
  "one_claim =
     \<lparr>cl_iss = ''https://tallyo.test'', cl_sub = ''guest@x.test'', cl_aud = [''https://tallyo.test''],
      cl_exp = 1900, cl_iat = 1000, cl_jti = ''t'', cl_scope = ''read:tags'',
      cl_email = ''guest@x.test'', cl_timezone = ''UTC''\<rparr>"

definition one_token_sv :: service where
  "one_token_sv = demo_sv\<lparr>sv_ext := demo_ext\<lparr>
     x_jwt_encode := (\<lambda>c. if c = one_claim then Some ''h.p.s'' else None),
     x_jwt_decode := (\<lambda>iss now token.
       if token = ''h.p.s'' \<and> iss = cl_iss one_claim \<and> now \<le> 1900 then Some one_claim else None)\<rparr>\<rparr>"

lemma one_token_ext:
  "x_jwt_encode (sv_ext one_token_sv) c = (if c = one_claim then Some ''h.p.s'' else None)"
  "x_jwt_decode (sv_ext one_token_sv) iss now token =
    (if token = ''h.p.s'' \<and> iss = cl_iss one_claim \<and> now \<le> 1900 then Some one_claim else None)"
  unfolding one_token_sv_def by simp_all

lemma one_claim_simps: "cl_aud one_claim = [cl_iss one_claim]" "cl_exp one_claim = 1900"
  by (simp_all add: one_claim_def)

lemma one_token_law: "jwt_law one_token_sv"
  unfolding jwt_law_def
proof (intro allI impI)
  fix cl token iss now
  assume "x_jwt_encode (sv_ext one_token_sv) cl = Some token"
  then have "cl = one_claim" "token = ''h.p.s''"
    unfolding one_token_ext by (auto split: if_splits)
  then show "x_jwt_decode (sv_ext one_token_sv) iss now token =
      (if cl_iss cl = iss \<and> iss \<in> set (cl_aud cl) \<and> now \<le> cl_exp cl then Some cl else None)"
    unfolding one_token_ext by (cases "iss = cl_iss one_claim") (simp_all add: one_claim_simps)
qed

lemma demo_draws: "w_draws demo_world = 0"
  by (simp add: demo_world_def)

lemma one_token_minted:
  "\<exists>w'. run_state (mint_access_token one_token_sv ''guest@x.test'' [ReadTags] ''UTC'') demo_world
     = (Inr ''h.p.s'', w')"
proof -
  have service: "as_access_token_lifetime (sv_auth one_token_sv) = 900000000000"
    "issuer_url one_token_sv = ''https://tallyo.test''"
    by (simp_all add: one_token_sv_def demo_sv_def access_token_lifetime_default_def seconds_def nanos_def)
  have claims: "\<lparr>cl_iss = ''https://tallyo.test'', cl_sub = ''guest@x.test'',
      cl_aud = [''https://tallyo.test''], cl_exp = (1000 * nanos + 900000000000) div nanos,
      cl_iat = 1000 * nanos div nanos, cl_jti = w_entropy demo_world 0 32,
      cl_scope = scopes_to_string [ReadTags], cl_email = ''guest@x.test'', cl_timezone = ''UTC''\<rparr>
    = one_claim"
    by (simp add: one_claim_def nanos_def scopes_to_string_def demo_simps)
  have "wp (mint_access_token one_token_sv ''guest@x.test'' [ReadTags] ''UTC'')
      (\<lambda>r w'. r = Inr ''h.p.s'') demo_world"
    unfolding mint_access_token_def using claims
    by (simp add: wp_try_bind wp_lift wp_utc_now wp_from_std wp_random_token wp_ok service demo_simps
        demo_draws one_token_ext(1))
  then show ?thesis by (simp add: wp_def split: prod.splits)
qed

definition bearer_headers :: headers where
  "bearer_headers = [(''authorization'', ''Bearer h.p.s'')]"

lemma bearer_header: "get_header ''Authorization'' bearer_headers = Some (''Bearer '' @ ''h.p.s'')"
  by code_simp

lemma minted_token_recognised_witness:
  "request_identity one_token_sv 1800 bearer_headers =
     Some \<lparr>id_subject = Some ''guest@x.test'', id_scopes = [ReadTags], id_timezone = ''UTC''\<rparr>
   \<and> request_identity one_token_sv 1901 bearer_headers = None"
proof -
  obtain w' where mint: "run_state (mint_access_token one_token_sv ''guest@x.test'' [ReadTags] ''UTC'') demo_world
      = (Inr ''h.p.s'', w')"
    using one_token_minted by blast
  have word: "header_word ''h.p.s''"
    by (simp add: header_word_def plain_word_def ws_heads_def byte_def char_of_def bit_0
        visible_def code_point_def)
  have "\<not> as_disable_all_auth (sv_auth one_token_sv)" "\<not> master_password_presented one_token_sv bearer_headers"
    by (simp_all add: one_token_sv_def demo_sv_def master_password_presented_def)
  moreover have "(w_clock demo_world (w_reads demo_world) + as_access_token_lifetime (sv_auth one_token_sv))
      div nanos = 1900"
    by (simp add: demo_simps one_token_sv_def demo_sv_def access_token_lifetime_default_def seconds_def nanos_def)
  ultimately show ?thesis
    using minted_token_recognised [OF one_token_law mint _ word bearer_header] by simp
qed

lemma protect_guards_witness:
  "let r = run_state (protect_resource one_token_sv ''/p'' (\<lambda>i hs. State_Monad.return (status_response 200)) []) demo_world
   in rsp_status (fst r) = 401 \<and> w_tables (snd r) = w_tables demo_world"
proof -
  have "\<not> entitled one_token_sv now [] i" for now i
    by (simp add: entitled_def one_token_sv_def demo_sv_def master_password_presented_def
        bearer_token_def get_header_def)
  with protect_guards [of one_token_sv "''/p''" "\<lambda>i hs. State_Monad.return (status_response 200)" "[]"
      demo_world, OF prod.collapse [symmetric]]
  show ?thesis by (simp add: Let_def)
qed

end
