(* ===== verification/Auth_System.thy ===== *)
theory Auth_System
  imports Auth_Users
begin

text \<open>
  The authorization server as one state machine: every request it answers, the clean-up of expired
  rows, the changes an administrator makes to users and to the settings, in any order, from any
  client, under any faults of the database. A request runs to its end before the next one starts
  (the token endpoint and the logout hold \<open>token_lock\<close> for that; for the others the model does not
  follow how their statements interleave).

  The abstract machine is a ledger of live credentials. A step of the ledger may spend one live
  credential and may add digests of tokens drawn in the step; the server's steps are steps of the
  ledger, and a credential is spent at most once in any run of the ledger.
\<close>

section \<open>Requests\<close>

datatype auth_request =
    Token_Request "token_request option"
  | Logout_Request "string option"
  | Authorize_Request authorize_request headers
  | Consent_Page_Request "consent_request option"
  | Consent_Request headers "consent_request option"
  | Register_Request "registration_request option"
  | Email_Send_Request headers "email_send_request option"
  | Email_Verify_Request headers "email_verify_request option"
  | Email_Magic_Request headers magic_link_request
  | Google_Login_Request headers string
  | Google_Callback_Request headers string string
  | Cleanup
  | Add_User identity string "role option"
  | Remove_User int
  | Update_User int role
  | Invite_Link int

definition answered :: "http_response auth_io \<Rightarrow> http_response option auth_io" where
  "answered m = do { r \<leftarrow> m; State_Monad.return (Some r) }"

definition silent :: "'a auth_io \<Rightarrow> http_response option auth_io" where
  "silent m = do { _ \<leftarrow> m; State_Monad.return None }"

fun handle :: "service \<Rightarrow> auth_request \<Rightarrow> http_response option auth_io" where
  "handle sv (Token_Request rq) = answered (exchange sv rq)"
| "handle sv (Logout_Request rq) = answered (logout sv rq)"
| "handle sv (Authorize_Request rq hs) = answered (authorize sv rq hs)"
| "handle sv (Consent_Page_Request form) = answered (consent_form form)"
| "handle sv (Consent_Request hs form) = answered (consent sv hs form)"
| "handle sv (Register_Request rq) = answered (register sv rq)"
| "handle sv (Email_Send_Request hs rq) = answered (email_send sv hs rq)"
| "handle sv (Email_Verify_Request hs rq) = answered (email_verify sv hs rq)"
| "handle sv (Email_Magic_Request hs rq) = answered (email_magic sv hs rq)"
| "handle sv (Google_Login_Request hs ident) = answered (google_login sv hs ident)"
| "handle sv (Google_Callback_Request hs state code) = answered (google_callback sv hs state code)"
| "handle sv Cleanup = silent cleanup_expired"
| "handle sv (Add_User caller address role) =
     silent (add_user_mutation sv (AuthInviter sv) caller address role)"
| "handle sv (Remove_User ident) = silent (remove_user ident)"
| "handle sv (Update_User ident role) = silent (update_user_role ident role)"
| "handle sv (Invite_Link ident) = silent (service_invite_link (AuthInviter sv) ident)"

fun creating :: "auth_request \<Rightarrow> bool" where
  "creating (Token_Request rq) = True"
| "creating (Authorize_Request rq hs) = True"
| "creating (Consent_Request hs form) = True"
| "creating _ = False"

context auth_effects
begin

lemma answered: "guarantees R m \<Longrightarrow> guarantees R (answered m)"
  unfolding answered_def by (intro guarantee_rules)

lemma silent: "guarantees R m \<Longrightarrow> guarantees R (silent m)"
  unfolding silent_def by (intro guarantee_rules)

lemmas quiet_handlers =
  logout consent_form register email_send email_verify email_magic google_login google_callback
  store_cleanup add_user_mutation remove_user update_user_role service_invite_link

lemma handle_quiet: "\<not> creating rq \<Longrightarrow> guarantees R (handle sv rq)"
  by (cases rq) (simp_all add: answered silent quiet_handlers)

lemma handle_any: "(\<And>s. creates s) \<Longrightarrow> guarantees R (handle sv rq)"
  by (cases rq) (simp_all add: answered silent quiet_handlers exchange authorize consent)

lemma prepare_auth_settings: "guarantees R (prepare_auth_settings sv next)"
  unfolding prepare_auth_settings_def by (intro guarantee_rules store)

end

section \<open>Steps\<close>

text \<open>The state is the service, whose settings may change, and the world. A change of the settings
  takes effect when its preparation succeeds.\<close>

datatype event = Request auth_request "http_response option" | Settings auth_settings

type_synonym system = "service \<times> auth_tables world"

inductive step :: "system \<Rightarrow> event \<Rightarrow> system \<Rightarrow> bool" where
  request: "run_state (handle sv rq) w = (resp, w') \<Longrightarrow> step (sv, w) (Request rq resp) (sv, w')"
| settings: "run_state (prepare_auth_settings sv next) w = (Inr commit, w') \<Longrightarrow>
    step (sv, w) (Settings next) (commit sv, w')"
| refused: "run_state (prepare_auth_settings sv next) w = (Inl e, w') \<Longrightarrow>
    step (sv, w) (Settings next) (sv, w')"

inductive_cases request_step: "step (sv, w) (Request rq resp) s'"
inductive_cases settings_step: "step (sv, w) (Settings next) s'"

inductive run :: "system \<Rightarrow> event list \<Rightarrow> system \<Rightarrow> bool" where
  stop: "run s [] s"
| go: "step s e s' \<Longrightarrow> run s' es s'' \<Longrightarrow> run s (e # es) s''"

inductive_simps run_simps: "run s [] s'" "run s (e # es) s'"

text \<open>What an effect relation that every statement guarantees says about steps and runs.\<close>

context auth_effects
begin

lemma step_any:
  assumes "\<And>s. creates s" and "step s e s'"
  shows "R (snd s) (snd s')"
  using assms(2)
proof cases
  case (request sv rq w resp w')
  then show ?thesis using guaranteesD [OF handle_any [OF assms(1)]] by simp
next
  case (settings sv new w commit w')
  then show ?thesis using guaranteesD [OF prepare_auth_settings] by simp
next
  case (refused sv new w e w')
  then show ?thesis using guaranteesD [OF prepare_auth_settings] by simp
qed

lemma run_any:
  assumes "\<And>s. creates s" and "run s es s'"
  shows "R (snd s) (snd s')"
  using assms(2)
proof (induction rule: run.induct)
  case (stop s)
  then show ?case by (simp add: R_refl)
next
  case (go s e s' es s'')
  then show ?case using step_any [OF assms(1)] R_trans by blast
qed

end

text \<open>C3: In every run of the server, whatever requests come in whatever order, whatever fails and
  however the clock moves, the tables stay well formed: keys are unique, so a session, a code or a
  token is found under one signature only, and every authorization code belongs to a registered client.\<close>

theorem tables_stay_well_formed:
  assumes "run (sv, w) es (sv', w')" and "wf_auth (w_tables w)"
  shows "wf_auth (w_tables w')"
  using wf.run_any [OF _ assms(1)] assms(2) by (simp add: kept_def)

section \<open>The server keeps a ledger\<close>

definition ledger_of :: "auth_tables world \<Rightarrow> ledger" where
  "ledger_of w = ({c. live (w_tables w) c}, w_draws w)"

definition digest :: "service \<Rightarrow> auth_tables world \<Rightarrow> nat \<Rightarrow> string" where
  "digest sv w i = token_signature sv (w_entropy w i 32)"

text \<open>The credential a request redeems: a token request that is answered 200.\<close>

fun redeemed :: "service \<Rightarrow> event \<Rightarrow> credential option" where
  "redeemed sv (Request (Token_Request (Some rq)) (Some resp)) =
     (if rsp_status resp \<noteq> 200 then None
      else if trq_grant_type rq = ''authorization_code''
      then map_option (\<lambda>code. Inl (token_signature sv code)) (trq_code rq)
      else if trq_grant_type rq = ''refresh_token''
      then map_option (\<lambda>token. Inr (token_signature sv token)) (trq_refresh_token rq)
      else None)"
| "redeemed sv _ = None"

lemma live_chain_broken: "chain_broken req t t' \<Longrightarrow> live t' c \<Longrightarrow> live t c"
  by (auto simp: chain_broken_def chain_revoked_def live_delete_access
      dest!: live_revoke_refresh)

lemma live_code_spent:
  assumes "code_spent s access refresh t t'" "live t' c"
  shows "(live t c \<and> c \<noteq> Inl s) \<or> c = Inr (tok_signature refresh)"
  using assms by (cases c) (auto simp: code_spent_def live_def set_update_rows refresh_row_of_def
      split: if_splits)

lemma live_refresh_spent:
  assumes "refresh_spent s now access refresh t t'" "live t' c" "wf_auth t"
  shows "(live t c \<and> c \<noteq> Inr s) \<or> c = Inr (tok_signature refresh)"
proof -
  let ?spends = "\<lambda>r. rtr_signature r = s \<and> rtr_active r \<and> now < rtr_expires_at r"
  obtain r created where r: "r \<in> set (t_refresh t)" "?spends r"
    and t': "t_codes t' = t_codes t" "t_refresh t' =
      update_rows ?spends (\<lambda>r. r\<lparr>rtr_active := False\<rparr>) (t_refresh t) @ [refresh_row_of refresh created]"
    using assms(1) unfolding refresh_spent_def Let_def by auto
  show ?thesis
  proof (cases c)
    case (Inl x)
    with assms(2) t'(1) show ?thesis by (simp add: live_def)
  next
    case (Inr x)
    with assms(2) obtain y where y: "y \<in> set (t_refresh t')" "rtr_signature y = x" "rtr_active y"
      by (auto simp: live_def)
    then consider "y = refresh_row_of refresh created"
      | z where "z \<in> set (t_refresh t)" "y = (if ?spends z then z\<lparr>rtr_active := False\<rparr> else z)"
      unfolding t'(2) by (simp only: set_append set_update_rows list.set) blast
    then show ?thesis
    proof cases
      case 1
      with Inr y(2) show ?thesis by (simp add: refresh_row_of_def)
    next
      case 2
      with y(3) have "\<not> ?spends z" "y = z" by (auto split: if_splits)
      moreover from this 2 r have "rtr_signature z \<noteq> s"
        using wf_authD(6) [OF assms(3)] by (metis distinct_map inj_onD)
      ultimately show ?thesis using Inr y 2(1) by (auto simp: live_def)
    qed
  qed
qed

lemma drawn_fresh: "drawn w w' 32 x \<Longrightarrow>
  Inl (token_signature sv x) \<in> fresh (digest sv w) (w_draws w) (w_draws w')
  \<and> Inr (token_signature sv x) \<in> fresh (digest sv w) (w_draws w) (w_draws w')"
  by (auto simp: drawn_def fresh_def digest_def)

lemma minted_fresh:
  assumes "minted sv cid sub scs req first u v p" "later w u" "later v w'"
  shows "Inr (tok_signature (tp_refresh p)) \<in> fresh (digest sv w) (w_draws w) (w_draws w')"
proof -
  obtain x where "drawn u v 32 x" and sig: "tok_signature (tp_refresh p) = token_signature sv x"
    using assms(1) by (auto simp: minted_def)
  then have "drawn w w' 32 x" using assms(2,3) by (blast intro: drawn_mono)
  then show ?thesis unfolding sig by (blast dest: drawn_fresh)
qed

text \<open>A token request.\<close>

lemma code_outcome_ledger:
  assumes out: "code_request_outcome sv rq w resp w'" and "later w w'"
    and "trq_grant_type rq = ''authorization_code''"
  shows "ledger_step (digest sv w) (ledger_of w) (redeemed sv (Request (Token_Request (Some rq)) (Some resp)))
    (ledger_of w')"
proof (cases "rsp_status resp = 200")
  case True
  with out have "code_granted sv rq w w'" by (simp add: code_request_outcome_def)
  then obtain c code u v p cid first where c: "c \<in> set (t_codes (w_tables w))" "acr_active c"
      "trq_code rq = Some code" "acr_signature c = token_signature sv code"
      and p: "later w u" "later v w'"
        "minted sv cid (acr_subject c) (split_whitespace (coalesce (acr_scopes c))) code first u v p"
      and spent: "code_spent (acr_signature c) (tp_access p) (tp_refresh p) (w_tables w)
        ((w_tables w')\<lparr>t_clients := t_clients (w_tables w)\<rparr>)"
    unfolding code_granted_def by blast
  have "live (w_tables w) (Inl (acr_signature c))" using c by (auto simp: live_def)
  moreover have "live (w_tables w') x \<Longrightarrow> (live (w_tables w) x \<and> x \<noteq> Inl (acr_signature c))
      \<or> x \<in> fresh (digest sv w) (w_draws w) (w_draws w')" for x
    using live_code_spent [OF spent, of x] minted_fresh [OF p(3,1,2)] by (auto simp: live_unchanged)
  ultimately show ?thesis
    using assms(2,3) True c(3,4) by (auto simp: ledger_of_def later_def intro!: ledger_step.spend)
next
  case False
  with out have "live (w_tables w') x \<Longrightarrow> live (w_tables w) x" for x
    by (auto simp: code_request_outcome_def dest: live_chain_broken)
  with False assms(2) show ?thesis by (auto simp: ledger_of_def later_def intro!: ledger_step.other)
qed

lemma refresh_outcome_ledger:
  assumes out: "refresh_request_outcome sv rq w resp w'" and "later w w'"
    and "trq_grant_type rq = ''refresh_token''" and wf: "wf_auth (w_tables w)"
  shows "ledger_step (digest sv w) (ledger_of w) (redeemed sv (Request (Token_Request (Some rq)) (Some resp)))
    (ledger_of w')"
proof (cases "rsp_status resp = 200")
  case True
  with out have "refresh_granted sv rq w w'" by (simp add: refresh_request_outcome_def)
  then obtain r presented now u v p cid first req where r: "r \<in> set (t_refresh (w_tables w))"
      "rtr_active r" "trq_refresh_token rq = Some presented"
      "rtr_signature r = token_signature sv presented"
      and p: "later w u" "later v w'"
        "minted sv cid (rtr_subject r) (split_whitespace (coalesce (rtr_scopes r))) req first u v p"
      and spent: "refresh_spent (rtr_signature r) now (tp_access p) (tp_refresh p) (w_tables w)
        ((w_tables w')\<lparr>t_clients := t_clients (w_tables w)\<rparr>)"
    unfolding refresh_granted_def by blast
  have "live (w_tables w) (Inr (rtr_signature r))" using r by (auto simp: live_def)
  moreover have "live (w_tables w') x \<Longrightarrow> (live (w_tables w) x \<and> x \<noteq> Inr (rtr_signature r))
      \<or> x \<in> fresh (digest sv w) (w_draws w) (w_draws w')" for x
    using live_refresh_spent [OF spent _ wf, of x] minted_fresh [OF p(3,1,2)]
    by (auto simp: live_unchanged)
  ultimately show ?thesis
    using assms(2,3) True r(3,4) by (auto simp: ledger_of_def later_def intro!: ledger_step.spend)
next
  case False
  with out have "live (w_tables w') x \<Longrightarrow> live (w_tables w) x" for x
    by (auto simp: refresh_request_outcome_def replayed_chain_def dest: live_chain_broken)
  with False assms(2) show ?thesis by (auto simp: ledger_of_def later_def intro!: ledger_step.other)
qed

lemma completion_ledger:
  assumes "completion_outcome sv ident approved hs w resp w'" and "later w w'"
  shows "ledger_step (digest sv w) (ledger_of w) None (ledger_of w')"
proof -
  have "live (w_tables w) x \<or> x \<in> fresh (digest sv w) (w_draws w) (w_draws w')"
    if "live (w_tables w') x" for x
    using assms(1) unfolding completion_outcome_def
  proof
    assume "code_issued sv ident approved hs w w'"
    then obtain code sessions row where drawn: "drawn w w' 32 code"
      and "acr_signature row = token_signature sv code"
      and "w_tables w' = (w_tables w)\<lparr>t_sessions := sessions, t_codes := t_codes (w_tables w) @ [row]\<rparr>"
      unfolding code_issued_def by force
    then have "live (w_tables w) x \<or> x = Inl (token_signature sv code)"
      using that by (cases x) (auto simp: live_def)
    with drawn_fresh [OF drawn, of sv] show ?thesis by blast
  qed (use that in \<open>auto simp: no_code_issued_def live_unchanged\<close>)
  with assms(2) show ?thesis by (auto simp: ledger_of_def later_def intro!: ledger_step.other)
qed

lemma settled_ledger:
  assumes "settled {} w w'" and "later w w'"
  shows "ledger_step d (ledger_of w) None (ledger_of w')"
  using assms by (auto simp: settled_def ledger_of_def later_def intro!: ledger_step.other)

lemma run_answered: "run_state (answered m) w = (resp, w') \<longleftrightarrow>
    (\<exists>r. resp = Some r \<and> run_state m w = (r, w'))"
  by (auto simp: answered_def split: prod.splits)

lemma moving_handle: "run_state (handle sv rq) w = (resp, w') \<Longrightarrow> later w w'"
  using guaranteesD [OF moving.handle_any] by blast

lemma settled_handle:
  "\<not> creating rq \<Longrightarrow> run_state (handle sv rq) w = (resp, w') \<Longrightarrow> settled {} w w'"
  using guaranteesD [OF settled.handle_quiet] by blast

lemma redeemed_other: "\<not> (\<exists>rq. r = Token_Request rq) \<Longrightarrow> redeemed sv (Request r resp) = None"
  by (cases r) simp_all

lemma token_request_ledger:
  assumes run: "run_state (exchange sv rq) w = (resp, w')" and wf: "wf_auth (w_tables w)"
    and moved: "later w w'"
  shows "ledger_step (digest sv w) (ledger_of w) (redeemed sv (Request (Token_Request rq) (Some resp)))
    (ledger_of w')"
proof (cases rq)
  case None
  then have "w' = w" using run by (simp add: exchange_def)
  with None show ?thesis by (auto simp: ledger_of_def intro!: ledger_step.other)
next
  case (Some r)
  have *: "wp (exchange sv (Some r)) (\<lambda>resp w'. later w w' \<longrightarrow> ledger_step (digest sv w) (ledger_of w)
      (redeemed sv (Request (Token_Request (Some r)) (Some resp))) (ledger_of w')) w"
  proof -
    consider "trq_grant_type r = ''authorization_code''" | "trq_grant_type r = ''refresh_token''"
      | "trq_grant_type r \<noteq> ''authorization_code''" "trq_grant_type r \<noteq> ''refresh_token''" by blast
    then show ?thesis
    proof cases
      case 1
      then have "wp (exchange sv (Some r)) (code_request_outcome sv r w) w"
        using exchange_authorization_code_outcome [OF wf] by (simp add: exchange_def wp_rules)
      then show ?thesis by (rule wp_mono) (blast intro: code_outcome_ledger [OF _ _ 1])
    next
      case 2
      then have "wp (exchange sv (Some r)) (refresh_request_outcome sv r w) w"
        using exchange_refresh_token_outcome [OF wf] by (simp add: exchange_def wp_rules)
      then show ?thesis by (rule wp_mono) (blast intro: refresh_outcome_ledger [OF _ _ 2 wf])
    next
      case 3
      then show ?thesis
        by (auto simp: exchange_def wp_rules ledger_of_def intro!: ledger_step.other)
    qed
  qed
  from wp_run [OF _ *] run moved show ?thesis by (simp add: Some)
qed

lemma completing_ledger:
  assumes "run_state (complete_authorize sv ident approved hs) w = (resp, w')"
    and "wf_auth (w_tables w)" "later w w'"
  shows "ledger_step (digest sv w) (ledger_of w) None (ledger_of w')"
  using wp_run [OF assms(1) complete_authorize_outcome [OF assms(2)]] assms(3)
  by (rule completion_ledger)

lemma authorize_ledger:
  assumes run: "run_state (authorize sv rq hs) w = (resp, w')"
    and wf: "wf_auth (w_tables w)" and moved: "later w w'"
  shows "ledger_step (digest sv w) (ledger_of w) None (ledger_of w')"
proof (cases "present (arq_session_id rq)")
  case None
  then have "guarantees (settled {}) (authorize sv rq hs)"
    unfolding authorize_def None option.case
    by (intro guarantee_rules settled.store settled.start_authorize)
  from settled_ledger [OF guaranteesD [OF this run] moved] show ?thesis .
next
  case (Some ident)
  with run have "run_state (complete_authorize sv ident False hs) w = (resp, w')"
    by (simp add: authorize_def)
  then show ?thesis using wf moved by (rule completing_ledger)
qed

lemma consent_ledger:
  assumes run: "run_state (consent sv hs form) w = (resp, w')"
    and wf: "wf_auth (w_tables w)" and moved: "later w w'"
  shows "ledger_step (digest sv w) (ledger_of w) None (ledger_of w')"
proof (cases "\<exists>f. form = Some f \<and> crq_session_id f \<noteq> '''' \<and> crq_consent f = Some ''allow''")
  case True
  then obtain f where "form = Some f" "crq_session_id f \<noteq> ''''" "crq_consent f = Some ''allow''" by blast
  with run have "run_state (complete_authorize sv (crq_session_id f) True hs) w = (resp, w')"
    by (simp add: consent_def)
  then show ?thesis using wf moved by (rule completing_ledger)
next
  case False
  then have "guarantees (settled {}) (consent sv hs form)"
    unfolding consent_def
    by (auto intro!: guarantee_rules settled.guarantees_return settled.deny_authorize split: option.splits)
  from settled_ledger [OF guaranteesD [OF this run] moved] show ?thesis .
qed

lemma prepared_commit:
  assumes "run_state (prepare_auth_settings sv new) w = (Inr commit, w')"
  shows "sv_ext (commit sv) = sv_ext sv"
proof -
  have "wp (prepare_auth_settings sv new) (\<lambda>r w'. \<forall>c. r = Inr c \<longrightarrow> sv_ext (c sv) = sv_ext sv) w"
    unfolding prepare_auth_settings_def
    by (auto simp: wp_rules commit_auth_settings_def split: sum.splits intro!: wpI)
  from wp_run [OF assms this] show ?thesis by simp
qed

lemma step_ledger:
  assumes "step (sv, w) e (sv', w')" and wf: "wf_auth (w_tables w)"
  shows "ledger_step (digest sv w) (ledger_of w) (redeemed sv e) (ledger_of w')
    \<and> digest sv' w' = digest sv w"
proof -
  have moved: "later w w'" using moving.step_any [OF _ assms(1)] by simp
  have same: "sv_ext sv' = sv_ext sv \<Longrightarrow> digest sv' w' = digest sv w"
    using moved by (simp add: digest_def later_def fun_eq_iff)
  show ?thesis using assms(1)
  proof cases
    case (request rq resp)
    note run = this(3)
    have "ledger_step (digest sv w) (ledger_of w) (redeemed sv (Request rq resp)) (ledger_of w')"
    proof (cases "creating rq")
      case True
      then consider t where "rq = Token_Request t" | a hs where "rq = Authorize_Request a hs"
        | hs f where "rq = Consent_Request hs f" by (cases rq) auto
      then show ?thesis
      proof cases
        case 1
        with run obtain r where "resp = Some r" "run_state (exchange sv t) w = (r, w')"
          by (auto simp: run_answered)
        with 1 token_request_ledger [OF this(2) wf moved] show ?thesis by simp
      next
        case 2
        with run show ?thesis using authorize_ledger wf moved by (auto simp: run_answered)
      next
        case 3
        with run show ?thesis using consent_ledger wf moved by (auto simp: run_answered)
      qed
    next
      case False
      then have "redeemed sv (Request rq resp) = None" by (cases rq) simp_all
      with settled_ledger [OF settled_handle [OF False run] moved] show ?thesis by simp
    qed
    with request same show ?thesis by simp
  next
    case (settings new commit)
    from settled_ledger [OF guaranteesD [OF settled.prepare_auth_settings settings(3)] moved]
    show ?thesis using settings(1,2) same prepared_commit [OF settings(3)] by simp
  next
    case (refused new e)
    from settled_ledger [OF guaranteesD [OF settled.prepare_auth_settings refused(3)] moved]
    show ?thesis using refused(1,2) same by simp
  qed
qed

text \<open>Runs.\<close>

lemma prepared_external: "step (sv, w) e (sv', w') \<Longrightarrow> sv_ext sv' = sv_ext sv"
  by (cases rule: step.cases) (auto dest: prepared_commit)

lemma redeemed_external: "sv_ext sv' = sv_ext sv \<Longrightarrow> redeemed sv' e = redeemed sv e"
  by (cases "(sv', e)" rule: redeemed.cases) (simp_all cong: map_option_cong)

lemma run_ledger:
  assumes "run s es s'" and "wf_auth (w_tables (snd s))"
  shows "ledger_run (digest (fst s) (snd s)) (ledger_of (snd s)) (map (redeemed (fst s)) es)
    (ledger_of (snd s'))"
  using assms
proof (induction rule: run.induct)
  case (stop s)
  then show ?case by (auto intro: ledger_run.start)
next
  case (go s e s' es s'')
  obtain sv w sv' w' where s: "s = (sv, w)" "s' = (sv', w')" by (cases s, cases s') auto
  from go(1) have step: "step (sv, w) e (sv', w')" by (simp add: s)
  have "wf_auth (w_tables w')"
    using wf.step_any [OF _ step] go.prems by (simp add: kept_def s)
  with go.IH have "ledger_run (digest sv' w') (ledger_of w') (map (redeemed sv') es) (ledger_of (snd s''))"
    by (simp add: s)
  moreover have "redeemed sv' = redeemed sv"
    using redeemed_external [OF prepared_external [OF step]] by blast
  ultimately show ?case
    using step_ledger [OF step] go.prems by (auto simp: s intro: ledger_run.more)
qed

text \<open>C2: Refinement: whatever the server does in one step - a request of any kind with any answer,
  a clean-up, a change of users or settings, with statements failing at will - is a step of the
  ledger: only a token request answered 200 spends a credential, namely the live code or refresh token
  it presented, and nothing becomes live but digests of tokens drawn in that very step.\<close>

theorem server_refines_ledger:
  assumes "step (sv, w) e (sv', w')" and "wf_auth (w_tables w)"
  shows "ledger_step (digest sv w) (ledger_of w) (redeemed sv e) (ledger_of w')
    \<and> digest sv' w' = digest sv w"
  using assms by (rule step_ledger)

text \<open>C1: Single use: in every run of the server, no authorization code and no refresh token is
  redeemed by two answered token requests - not by a replay, not after a failed or interrupted
  exchange, not across clean-ups, changes of users or of the settings - provided the digests of
  the tokens drawn are distinct and the live credentials at the start were drawn by the server.\<close>

theorem credentials_redeemed_once:
  assumes "run (sv, w) es (sv', w')" and "wf_auth (w_tables w)"
    and "inj (digest sv w)" and "anchored (digest sv w) (ledger_of w)"
  shows "distinct (spent (map (redeemed sv) es))"
  using ledger_single_use [OF _ assms(3,4)] run_ledger [OF assms(1)] assms(2) by simp

end
