(* ===== verification/System_Scenario.thy ===== *)
theory System_Scenario
  imports Auth_Scenario Auth_System
begin

text \<open>
  The household of \<open>Auth_Scenario\<close> under several requests: an authorization code is presented twice,
  a refresh token in between, and the settings change. The live credentials were drawn by the server.
\<close>

definition drawn_tables :: auth_tables where
  "drawn_tables = demo_tables\<lparr>t_codes := [demo_code ''dt'' True, demo_code ''dtx'' False],
     t_refresh := [demo_refresh ''dtx'' ''old'' True]\<rparr>"

definition drawn_world :: "auth_tables world" where
  "drawn_world = demo_world\<lparr>w_draws := 2, w_tables := drawn_tables\<rparr>"

lemma wf_drawn: "wf_auth (w_tables drawn_world)"
  by code_simp

lemma digest_drawn: "digest demo_sv drawn_world i = ''dt'' @ replicate i (CHR ''x'')"
  by (simp add: digest_def drawn_world_def demo_simps)

lemma inj_drawn: "inj (digest demo_sv drawn_world)"
  by (rule injI) (metis digest_drawn append_same_eq same_append_eq length_replicate)

lemma live_drawn: "live drawn_tables c \<Longrightarrow> c = Inl ''dt'' \<or> c = Inr ''dtx''"
  by (cases c) (auto simp: live_def drawn_tables_def demo_tables_def demo_code_def demo_refresh_def)

lemma anchored_drawn: "anchored (digest demo_sv drawn_world) (ledger_of drawn_world)"
proof -
  have "\<exists>i. 0 \<le> i \<and> i < 2 \<and> (c = Inl (digest demo_sv drawn_world i) \<or> c = Inr (digest demo_sv drawn_world i))"
    if "live drawn_tables c" for c
    using live_drawn [OF that]
  proof
    assume "c = Inl ''dt''" then show ?thesis by (intro exI [of _ 0]) (simp add: digest_drawn)
  next
    assume "c = Inr ''dtx''" then show ?thesis by (intro exI [of _ 1]) (simp add: digest_drawn)
  qed
  moreover have "w_draws drawn_world = 2" "w_tables drawn_world = drawn_tables"
    by (simp_all add: drawn_world_def)
  ultimately show ?thesis
    by (simp add: anchored_def ledger_of_def fresh_def subset_iff)
qed

fun answers :: "service \<Rightarrow> auth_request list \<Rightarrow> auth_tables world \<Rightarrow> event list \<times> auth_tables world" where
  "answers sv [] w = ([], w)"
| "answers sv (rq # rqs) w =
     (let (resp, w1) = run_state (handle sv rq) w; (es, w2) = answers sv rqs w1
      in (Request rq resp # es, w2))"

lemma answers_run: "run (sv, w) (fst (answers sv rqs w)) (sv, snd (answers sv rqs w))"
proof (induction rqs arbitrary: w)
  case Nil
  then show ?case by (simp add: run_simps)
next
  case (Cons rq rqs)
  obtain resp w1 where first: "run_state (handle sv rq) w = (resp, w1)" by fastforce
  with Cons.IH [of w1] show ?case
    by (auto simp: run_simps case_prod_beta intro: step.request)
qed

definition replays :: "auth_request list" where
  "replays = [Token_Request (Some (code_rq ''t'')), Token_Request (Some (refresh_rq ''tx'')),
     Token_Request (Some (code_rq ''t'')), Cleanup, Token_Request (Some (refresh_rq ''tx''))]"

lemma credentials_redeemed_once_witness:
  "distinct (spent (map (redeemed demo_sv) (fst (answers demo_sv replays drawn_world))))"
  by (rule credentials_redeemed_once [OF answers_run wf_drawn inj_drawn anchored_drawn])

lemma tables_stay_well_formed_witness: "wf_auth (w_tables (snd (answers demo_sv replays drawn_world)))"
  by (rule tables_stay_well_formed [OF answers_run wf_drawn])

lemma drawn_step:
  "step (demo_sv, drawn_world)
     (Request (Token_Request (Some (code_rq ''t'')))
       (fst (run_state (handle demo_sv (Token_Request (Some (code_rq ''t'')))) drawn_world)))
     (demo_sv, snd (run_state (handle demo_sv (Token_Request (Some (code_rq ''t'')))) drawn_world))"
  by (rule step.request) simp

lemma server_refines_ledger_witness:
  "ledger_step (digest demo_sv drawn_world) (ledger_of drawn_world)
     (redeemed demo_sv (Request (Token_Request (Some (code_rq ''t'')))
       (fst (run_state (handle demo_sv (Token_Request (Some (code_rq ''t'')))) drawn_world))))
     (ledger_of (snd (run_state (handle demo_sv (Token_Request (Some (code_rq ''t'')))) drawn_world)))"
  using server_refines_ledger [OF drawn_step wf_drawn] by blast

end
