(* ===== verification/Client_Ip.thy ===== *)
theory Client_Ip
  imports Ip_Address Http
begin

text \<open>
  The address a request is charged to (src/server-rs/src/middleware/client_ip.rs): the peer's own
  address, unless the peer is a trusted proxy, in which case the proxies' headers are believed.
  Networks are values of the \<open>ipnet\<close> crate, which is not part of the program: its constructor,
  parser, truncation and membership test are a parameter.
\<close>

unbundle bit_operations_syntax

record 'net ipnet_crate =
  x_net_new :: "ip_addr \<Rightarrow> nat \<Rightarrow> 'net option"
  x_net_parse :: "string \<Rightarrow> 'net option"
  x_net_trunc :: "'net \<Rightarrow> 'net"
  x_net_contains :: "'net \<Rightarrow> ip_addr \<Rightarrow> bool"

definition host_bits :: "ip_addr \<Rightarrow> nat" where
  "host_bits ip = (case ip of V4 _ \<Rightarrow> 32 | V6 _ \<Rightarrow> 128)"

definition parse_trusted_proxy_cidr :: "'net ipnet_crate \<Rightarrow> string \<Rightarrow> error + 'net" where
  "parse_trusted_proxy_cidr x value =
     (case (case parse_ip value of
              Some address \<Rightarrow>
                (case x_net_new x address (host_bits address) of
                   Some network \<Rightarrow> Inr network | None \<Rightarrow> Inl (Msg ''invalid prefix length''))
            | None \<Rightarrow>
                (case x_net_parse x value of
                   Some network \<Rightarrow> Inr network | None \<Rightarrow> Inl (Msg ''parse trusted proxy CIDR''))) of
        Inl e \<Rightarrow> Inl e
      | Inr network \<Rightarrow> Inr (x_net_trunc x network))"

fun collect_results :: "('e + 'a) list \<Rightarrow> 'e + 'a list" where
  "collect_results [] = Inr []"
| "collect_results (Inl e # rs) = Inl e"
| "collect_results (Inr a # rs) =
     (case collect_results rs of Inl e \<Rightarrow> Inl e | Inr as \<Rightarrow> Inr (a # as))"

definition parse_trusted_proxy_cidrs :: "'net ipnet_crate \<Rightarrow> string list \<Rightarrow> error + 'net list" where
  "parse_trusted_proxy_cidrs x values =
     collect_results (map (parse_trusted_proxy_cidr x) (filter (\<lambda>v. v \<noteq> '''') (map trim values)))"

text \<open>The resolver is the list of trusted networks; a list that does not parse leaves it as it was.\<close>

definition set_trusted_proxy_cidrs ::
    "'net ipnet_crate \<Rightarrow> string list \<Rightarrow> 'net list \<Rightarrow> (error + unit) \<times> 'net list" where
  "set_trusted_proxy_cidrs x values trusted =
     (case parse_trusted_proxy_cidrs x values of
        Inl e \<Rightarrow> (Inl e, trusted)
      | Inr networks \<Rightarrow> (Inr (), networks))"

definition is_trusted_proxy :: "'net ipnet_crate \<Rightarrow> 'net list \<Rightarrow> ip_addr \<Rightarrow> bool" where
  "is_trusted_proxy x trusted address = list_ex (\<lambda>network. x_net_contains x network address) trusted"

definition forwarded_client_ip :: "'net ipnet_crate \<Rightarrow> 'net list \<Rightarrow> string \<Rightarrow> ip_addr option" where
  "forwarded_client_ip x trusted forwarded =
     (let addresses = List.map_filter (\<lambda>value. parse_ip (trim value)) (split_at (CHR '','') forwarded)
      in case find (\<lambda>address. \<not> is_trusted_proxy x trusted address) (rev addresses) of
           Some address \<Rightarrow> Some address
         | None \<Rightarrow> (case addresses of [] \<Rightarrow> None | address # _ \<Rightarrow> Some address))"

definition forwarded_for :: "headers \<Rightarrow> string option" where
  "forwarded_for hs = Option.bind (get_header ''X-Forwarded-For'' hs) to_str"

definition client_ip :: "'net ipnet_crate \<Rightarrow> 'net list \<Rightarrow> ip_addr \<Rightarrow> headers \<Rightarrow> ip_addr" where
  "client_ip x trusted peer hs =
     (let remote = to_canonical peer
      in if \<not> is_trusted_proxy x trusted remote then remote
         else case Option.bind (forwarded_for hs) (forwarded_client_ip x trusted) of
           Some address \<Rightarrow> address
         | None \<Rightarrow>
             (case Option.bind (Option.bind (get_header ''X-Real-IP'' hs) to_str)
                     (\<lambda>value. parse_ip (trim value)) of
                Some address \<Rightarrow> address
              | None \<Rightarrow> remote))"

text \<open>The key of an address: an IPv6 address counts as its /64 network.\<close>

definition canonicalize_ip :: "ip_addr \<Rightarrow> ip_addr" where
  "canonicalize_ip address =
     (case to_canonical address of
        V4 a \<Rightarrow> V4 a
      | V6 a \<Rightarrow> V6 (push_bit 64 (drop_bit 64 a)))"

section \<open>Properties\<close>

lemma map_filter_append: "List.map_filter f (xs @ ys) = List.map_filter f xs @ List.map_filter f ys"
  by (simp add: List.map_filter_def)

lemma find_append: "find P (xs @ ys) = (case find P xs of None \<Rightarrow> find P ys | Some x \<Rightarrow> Some x)"
  by (induction xs) auto

text \<open>A hop is what a trusted proxy appends: an entry that is no address, or a trusted one.\<close>

definition trusted_hop :: "'net ipnet_crate \<Rightarrow> 'net list \<Rightarrow> string \<Rightarrow> bool" where
  "trusted_hop x trusted hop \<longleftrightarrow> CHR '','' \<notin> set hop \<and>
     (case parse_ip (trim hop) of None \<Rightarrow> True | Some address \<Rightarrow> is_trusted_proxy x trusted address)"

lemma trusted_hops_skipped:
  assumes "\<forall>hop \<in> set hops. trusted_hop x trusted hop"
  shows "find (\<lambda>address. \<not> is_trusted_proxy x trusted address)
    (rev (List.map_filter (\<lambda>value. parse_ip (trim value)) hops)) = None"
proof -
  have "is_trusted_proxy x trusted address"
    if "address \<in> set (List.map_filter (\<lambda>value. parse_ip (trim value)) hops)" for address
    using that assms by (fastforce simp: List.map_filter_def trusted_hop_def split: option.splits)
  then show ?thesis by (auto simp: find_None_iff)
qed

lemma forwarded_last_untrusted:
  assumes "\<forall>hop \<in> set hops. trusted_hop x trusted hop"
    and "CHR '','' \<notin> set entry" "parse_ip (trim entry) = Some address"
    and "\<not> is_trusted_proxy x trusted address"
  shows "forwarded_client_ip x trusted (forged @ '','' @ join '','' (entry # hops)) = Some address"
proof -
  have "split_at (CHR '','') (forged @ '','' @ join '','' (entry # hops)) =
      split_at (CHR '','') forged @ entry # hops"
    using assms(1,2) split_at_join [of "entry # hops"] 
    by (simp add: split_at_append trusted_hop_def)
  then show ?thesis
    using trusted_hops_skipped [OF assms(1)] assms(3,4)
    by (simp add: forwarded_client_ip_def Let_def map_filter_append List.map_filter_simps find_append)
qed

lemma forwarded_entry:
  assumes "\<forall>hop \<in> set hops. trusted_hop x trusted hop"
    and "CHR '','' \<notin> set entry" "parse_ip (trim entry) = Some address"
    and "\<not> is_trusted_proxy x trusted address"
  shows "forwarded_client_ip x trusted (join '','' (entry # hops)) = Some address"
proof -
  have "split_at (CHR '','') (join '','' (entry # hops)) = entry # hops"
    using assms(1,2) split_at_join [of "entry # hops"] by (simp add: trusted_hop_def)
  then show ?thesis
    using trusted_hops_skipped [OF assms(1)] assms(3,4)
    by (simp add: forwarded_client_ip_def Let_def List.map_filter_simps find_append)
qed

text \<open>C36: The address a request is charged to cannot be chosen by the client. A peer that is no trusted
  proxy is charged by its own address, whatever headers it sends or leaves out. Behind trusted proxies that
  append to the X-Forwarded-For header, the address is the last one they report that is not a proxy of theirs,
  whatever the client itself wrote in front of it and whatever other headers there are.\<close>

theorem client_ip_not_forged:
  "(\<not> is_trusted_proxy x trusted (to_canonical peer) \<longrightarrow> client_ip x trusted peer hs = to_canonical peer)
   \<and> (is_trusted_proxy x trusted (to_canonical peer)
      \<and> (\<forall>hop \<in> set hops. trusted_hop x trusted hop)
      \<and> CHR '','' \<notin> set entry \<and> parse_ip (trim entry) = Some address \<and> \<not> is_trusted_proxy x trusted address
      \<and> forwarded_for hs \<in> {Some (join '','' (entry # hops)), Some (forged @ '','' @ join '','' (entry # hops))}
      \<longrightarrow> client_ip x trusted peer hs = address)"
  using forwarded_last_untrusted [of hops x trusted entry address forged] forwarded_entry [of hops x trusted entry address]
  by (auto simp: client_ip_def Let_def)

text \<open>Addresses of one /64 network share a key, and no others do.\<close>

lemma canonicalize_v6:
  assumes "to_canonical (V6 a) = V6 a" "to_canonical (V6 b) = V6 b"
  shows "canonicalize_ip (V6 a) = canonicalize_ip (V6 b) \<longleftrightarrow> drop_bit 64 a = drop_bit 64 b"
proof
  assume "canonicalize_ip (V6 a) = canonicalize_ip (V6 b)"
  then have eq: "push_bit 64 (drop_bit 64 a) = push_bit 64 (drop_bit 64 b)"
    using assms by (simp add: canonicalize_ip_def)
  have "bit a (64 + n) = bit b (64 + n)" if "64 + n < 128" for n
    using arg_cong [OF eq, of "\<lambda>w. bit w (64 + n)"] that by (simp add: bit_simps)
  moreover have "n < 128" if "bit c n" for c :: "128 word" and n
    using bit_imp_le_length [OF that] by simp
  ultimately have "bit a (64 + n) = bit b (64 + n)" for n by blast
  then show "drop_bit 64 a = drop_bit 64 b"
    by (intro bit_eqI) (simp add: bit_simps)
qed (use assms in \<open>simp add: canonicalize_ip_def\<close>)

text \<open>A proxy at 10.0.0.1 in front of a client at 9.9.9.9 that claims to be 8.8.8.8.\<close>

definition host_nets :: "ip_addr ipnet_crate" where
  "host_nets = \<lparr>x_net_new = (\<lambda>a n. Some a), x_net_parse = (\<lambda>s. None), x_net_trunc = id,
     x_net_contains = (=)\<rparr>"

lemma client_ip_not_forged_witness:
  "client_ip host_nets [V4 0x0A000001] (V4 0x0A000001) [(''x-forwarded-for'', ''8.8.8.8,9.9.9.9,10.0.0.1'')]
     = V4 0x09090909
   \<and> client_ip host_nets [V4 0x0A000001] (V4 1) [(''x-forwarded-for'', ''8.8.8.8,9.9.9.9,10.0.0.1'')] = V4 1
   \<and> client_ip host_nets [V4 0x0A000001] (V4 1) [(''x-real-ip'', ''8.8.8.8'')] = V4 1"
proof -
  have trims: "trim ''10.0.0.1'' = ''10.0.0.1''" "trim ''9.9.9.9'' = ''9.9.9.9''"
    by (rule trim_printable, simp add: printable_def)+
  have parsed: "parse_ip ''10.0.0.1'' = Some (V4 0x0A000001)" "parse_ip ''9.9.9.9'' = Some (V4 0x09090909)"
    by code_simp+
  have hop: "trusted_hop host_nets [V4 0x0A000001] ''10.0.0.1''"
    by (simp add: trusted_hop_def trims parsed is_trusted_proxy_def host_nets_def)
  have entry: "parse_ip (trim ''9.9.9.9'') = Some (V4 0x09090909)"
    "\<not> is_trusted_proxy host_nets [V4 0x0A000001] (V4 0x09090909)"
    by (simp_all add: trims parsed is_trusted_proxy_def host_nets_def)
  have peers: "is_trusted_proxy host_nets [V4 0x0A000001] (to_canonical (V4 0x0A000001))"
    "\<not> is_trusted_proxy host_nets [V4 0x0A000001] (to_canonical (V4 1))" "to_canonical (V4 1) = V4 1"
    by (simp_all add: is_trusted_proxy_def host_nets_def to_canonical_def)
  have header: "forwarded_for [(''x-forwarded-for'', ''8.8.8.8,9.9.9.9,10.0.0.1'')] =
      Some (''8.8.8.8'' @ '','' @ join '','' (''9.9.9.9'' # [''10.0.0.1'']))"
    by (simp add: forwarded_for_def get_header_def to_ascii_lowercase_def ascii_lower_char_def Let_def
        to_str_def visible_def code_point_def char_of_def bit_0)
  note untrusted = conjunct1 [OF client_ip_not_forged, rule_format, OF peers(2), unfolded peers(3)]
  have "client_ip host_nets [V4 0x0A000001] (V4 0x0A000001) [(''x-forwarded-for'', ''8.8.8.8,9.9.9.9,10.0.0.1'')]
      = V4 0x09090909"
    by (rule conjunct2 [OF client_ip_not_forged [of _ _ _ _ "[''10.0.0.1'']" "''9.9.9.9''" _ "''8.8.8.8''"], rule_format])
      (use hop entry header peers in simp)
  with untrusted show ?thesis by simp
qed

end
