(* ===== verification/Rate_Limit.thy ===== *)
theory Rate_Limit
  imports Client_Ip "HOL-Library.Multiset"
begin

text \<open>
  The rate limiters of the authentication routes (src/server-rs/src/middleware/ratelimit.rs): one
  window per client address, opened by the first request of the address and forgotten when it is
  over. Instants are nanoseconds of the monotonic clock. No code runs under the lock that could
  poison it, so taking it never fails.
\<close>

record window =
  win_started :: int
  win_requests :: nat

type_synonym windows = "ip_addr \<Rightarrow> window option"

record rate_limiter =
  lim_request_limit :: nat
  lim_window :: int

text \<open>\<open>Instant::duration_since\<close> is zero for a later instant.\<close>

definition duration_since :: "int \<Rightarrow> int \<Rightarrow> int" where
  "duration_since now earlier = max 0 (now - earlier)"

definition retain :: "(window \<Rightarrow> bool) \<Rightarrow> windows \<Rightarrow> windows" where
  "retain keep ws = (\<lambda>key. case ws key of None \<Rightarrow> None | Some w \<Rightarrow> if keep w then Some w else None)"

definition reserve :: "rate_limiter \<Rightarrow> int \<Rightarrow> ip_addr \<Rightarrow> windows \<Rightarrow> bool \<times> windows" where
  "reserve lim now key ws =
     (let ws = retain (\<lambda>w. duration_since now (win_started w) < lim_window lim) ws;
          w = (case ws key of None \<Rightarrow> \<lparr>win_started = now, win_requests = 0\<rparr> | Some w \<Rightarrow> w)
      in if win_requests w \<ge> lim_request_limit lim then (False, ws(key \<mapsto> w))
         else (True, ws(key \<mapsto> w\<lparr>win_requests := win_requests w + 1\<rparr>)))"

definition release :: "ip_addr \<Rightarrow> windows \<Rightarrow> windows" where
  "release key ws =
     (case ws key of
        None \<Rightarrow> ws
      | Some w \<Rightarrow> ws(key \<mapsto> w\<lparr>win_requests := win_requests w - 1\<rparr>))"

definition too_many_requests :: http_response where
  "too_many_requests = text_response 429 ''too many requests''"

text \<open>A request: the peer's address where the connection has one, and the headers.\<close>

record request =
  req_peer :: "ip_addr option"
  req_headers :: headers

definition rate_key :: "'net ipnet_crate \<Rightarrow> 'net list \<Rightarrow> request \<Rightarrow> ip_addr" where
  "rate_key x trusted rq =
     (let remote = (case req_peer rq of None \<Rightarrow> V4 0 | Some a \<Rightarrow> a)
      in canonicalize_ip (client_ip x trusted remote (req_headers rq)))"

text \<open>The plain middleware, given the answer of the handler behind it.\<close>

definition rate_limit_with_client_ip ::
    "'net ipnet_crate \<Rightarrow> 'net list \<Rightarrow> rate_limiter \<Rightarrow> int \<Rightarrow> request \<Rightarrow> http_response \<Rightarrow> windows \<Rightarrow>
      http_response \<times> windows" where
  "rate_limit_with_client_ip x trusted lim now rq answer ws =
     (case reserve lim now (rate_key x trusted rq) ws of
        (reserved, ws) \<Rightarrow> if \<not> reserved then (too_many_requests, ws) else (answer, ws))"

text \<open>
  The middleware that counts only failed logins acts twice, before the handler runs and when it has answered;
  other requests act in between. A request without the credential goes to its handler and nothing follows.
\<close>

datatype arrival = Unlimited | Turned_Away http_response | Admitted ip_addr

definition unauthorized_arrival ::
    "'net ipnet_crate \<Rightarrow> 'net list \<Rightarrow> rate_limiter \<Rightarrow> string \<Rightarrow> int \<Rightarrow> request \<Rightarrow> windows \<Rightarrow> arrival \<times> windows" where
  "unauthorized_arrival x trusted lim credential_header now rq ws =
     (if get_header credential_header (req_headers rq) = None then (Unlimited, ws)
      else (let key = rate_key x trusted rq
            in case reserve lim now key ws of
                 (reserved, ws) \<Rightarrow> if \<not> reserved then (Turned_Away too_many_requests, ws) else (Admitted key, ws)))"

definition unauthorized_answer :: "ip_addr \<Rightarrow> http_response \<Rightarrow> windows \<Rightarrow> http_response \<times> windows" where
  "unauthorized_answer key response ws =
     (response, if rsp_status response \<noteq> 401 then release key ws else ws)"

section \<open>A meter\<close>

text \<open>What a limit does: a state that, for every span of time, has a capacity
  which every charge in that span lowers. Charges in one span are then bounded by the capacity.\<close>

fun charges :: "(int \<Rightarrow> 'r \<Rightarrow> 's \<Rightarrow> bool \<times> 's) \<Rightarrow> (int \<times> 'r) list \<Rightarrow> 's \<Rightarrow> bool list" where
  "charges serve [] s = []"
| "charges serve ((t, r) # rs) s = (let (charged, s') = serve t r s in charged # charges serve rs s')"

definition charged_within :: "int \<Rightarrow> int \<Rightarrow> (int \<times> 'r) list \<Rightarrow> bool list \<Rightarrow> nat" where
  "charged_within start span rs bs =
     length (filter (\<lambda>((t, _), b). b \<and> start \<le> t \<and> t < start + span) (zip rs bs))"

lemma charged_within_simps [simp]:
  "charged_within start span [] bs = 0"
  "charged_within start span ((t, r) # rs) (b # bs) =
     (if b \<and> start \<le> t \<and> t < start + span then Suc (charged_within start span rs bs)
      else charged_within start span rs bs)"
  by (simp_all add: charged_within_def)

lemma charged_within_late:
  assumes "\<forall>(t, r) \<in> set rs. start + span \<le> t"
  shows "charged_within start span rs bs = 0"
unfolding charged_within_def length_0_conv
  by (rule filter_False) (use assms in \<open>force dest: set_zip_leftD\<close>)

locale meter =
  fixes serve :: "int \<Rightarrow> 'r \<Rightarrow> 's \<Rightarrow> bool \<times> 's"
    and capacity :: "int \<Rightarrow> 's \<Rightarrow> nat"
    and span :: int
    and budget :: nat
  assumes charge: "start \<le> t \<Longrightarrow> t < start + span \<Longrightarrow> serve t r s = (b, s') \<Longrightarrow>
      capacity start s' + of_bool b \<le> capacity start s"
    and capacity_le: "capacity start s \<le> budget"
begin

lemma charged_capacity:
  assumes "sorted (map fst rs)" and "\<forall>(t, r) \<in> set rs. start \<le> t"
  shows "charged_within start span rs (charges serve rs s) \<le> capacity start s"
  using assms
proof (induction rs arbitrary: s)
  case (Cons x rs)
  obtain t r where x: "x = (t, r)" by fastforce
  obtain b s' where served: "serve t r s = (b, s')" by fastforce
  show ?case
  proof (cases "t < start + span")
    case True
    with Cons.prems x have "capacity start s' + of_bool b \<le> capacity start s"
      by (intro charge [OF _ _ served]) auto
    with Cons.IH [of s'] Cons.prems show ?thesis by (auto simp: x served)
  next
    case False
    with Cons.prems x have "\<forall>(t, r) \<in> set (x # rs). start + span \<le> t" by fastforce
    then show ?thesis by (simp add: charged_within_late)
  qed
qed simp

lemma charged_bounded:
  assumes "sorted (map fst rs)"
  shows "charged_within start span rs (charges serve rs s) \<le> budget"
  using assms
proof (induction rs arbitrary: s)
  case (Cons x rs)
  obtain t r where x: "x = (t, r)" by fastforce
  show ?case
  proof (cases "start \<le> t")
    case True
    with Cons.prems x have "\<forall>(t, r) \<in> set (x # rs). start \<le> t" by fastforce
    from charged_capacity [OF Cons.prems this, of s] capacity_le [of start s] show ?thesis by simp
  next
    case False
    with Cons show ?thesis by (simp add: x split: prod.splits)
  qed
qed simp

end

section \<open>The windows of an address\<close>

text \<open>What one address may still take in a span: the rest of its window, and a whole window more
  when its window began before the span did.\<close>

definition capacity :: "rate_limiter \<Rightarrow> ip_addr \<Rightarrow> int \<Rightarrow> windows \<Rightarrow> nat" where
  "capacity lim key start ws =
     (case ws key of
        None \<Rightarrow> lim_request_limit lim
      | Some w \<Rightarrow> lim_request_limit lim - win_requests w
          + (if win_started w < start then lim_request_limit lim else 0))"

lemma capacity_le: "capacity lim key start ws \<le> 2 * lim_request_limit lim"
  by (auto simp: capacity_def split: option.splits)

lemma reserve_capacity:
  assumes "start \<le> now" "now < start + lim_window lim" "reserve lim now key' ws = (b, ws')"
  shows "capacity lim key start ws' + of_bool (b \<and> key' = key) \<le> capacity lim key start ws"
  using assms
  by (auto simp: reserve_def retain_def capacity_def duration_since_def Let_def
      split: option.splits if_splits)

section \<open>Properties\<close>

text \<open>A request is handed to a middleware with the answer its handler has for it. What counts as a
  charge is an answer to a request of \<open>key\<close> that satisfies \<open>counted\<close>.\<close>

type_synonym middleware = "int \<Rightarrow> request \<Rightarrow> http_response \<Rightarrow> windows \<Rightarrow> http_response \<times> windows"

definition serving :: "middleware \<Rightarrow> (request \<Rightarrow> http_response \<Rightarrow> bool) \<Rightarrow> int \<Rightarrow> request \<times> http_response \<Rightarrow>
    windows \<Rightarrow> bool \<times> windows" where
  "serving mw counted now = (\<lambda>(rq, answer) ws.
     case mw now rq answer ws of (response, ws') \<Rightarrow> (counted rq response, ws'))"

definition passed :: "'net ipnet_crate \<Rightarrow> 'net list \<Rightarrow> ip_addr \<Rightarrow> request \<Rightarrow> http_response \<Rightarrow> bool" where
  "passed x trusted key rq response \<longleftrightarrow> rate_key x trusted rq = key \<and> rsp_status response \<noteq> 429"

lemma too_many_status [simp]: "rsp_status too_many_requests = 429"
  by (simp add: too_many_requests_def)

interpretation plain: meter
  "serving (rate_limit_with_client_ip x trusted lim) (passed x trusted key)"
  "capacity lim key" "lim_window lim" "2 * lim_request_limit lim"
  for x trusted lim key
proof
  fix start t r s b s'
  assume t: "start \<le> t" "t < start + lim_window lim"
    and "serving (rate_limit_with_client_ip x trusted lim) (passed x trusted key) t r s = (b, s')"
  then obtain rq answer reserved where "reserve lim t (rate_key x trusted rq) s = (reserved, s')"
    and "b \<longrightarrow> reserved \<and> rate_key x trusted rq = key"
    by (auto simp: serving_def rate_limit_with_client_ip_def passed_def split: prod.splits if_splits)
  with reserve_capacity [OF t this(1), of key]
  show "capacity lim key start s' + of_bool b \<le> capacity lim key start s"
    by (auto simp: of_bool_def split: if_splits)
qed (rule capacity_le)

text \<open>C37: The rate limit holds over every span as long as its window, not only over the fixed windows
  it counts in: of the requests charged to one address (one /64 network for IPv6), in any order with
  those of others, at most twice the limit get an answer other than 429 within the span, whenever
  it starts and whatever was counted before.\<close>

theorem rate_limit_bound:
  assumes "sorted (map fst rqs)"
  shows "charged_within start (lim_window lim) rqs
    (charges (serving (rate_limit_with_client_ip x trusted lim) (passed x trusted key)) rqs ws)
    \<le> 2 * lim_request_limit lim"
  using assms by (rule plain.charged_bounded)

section \<open>Failed logins\<close>

text \<open>
  Requests that overlap. A permit is an address and the start of the window that granted it. It is open until its
  request is answered; it is used up by a 401 and when the request is cut off, and otherwise given back, to
  a later window when its own is over.
\<close>

type_synonym permit = "ip_addr \<times> int"

record limiter =
  ltr_windows :: windows
  ltr_now :: int
  ltr_open :: "permit multiset"
  ltr_failures :: "permit multiset"
  ltr_cut_off :: "permit multiset"
  ltr_late :: "permit multiset"

definition held :: "limiter \<Rightarrow> permit multiset" where
  "held s = ltr_open s + ltr_failures s + ltr_cut_off s"

text \<open>The window of the address that a permit of the window \<open>start\<close> goes back to, if it is another one.\<close>

definition late_to :: "permit \<Rightarrow> windows \<Rightarrow> permit multiset" where
  "late_to p ws = (case ws (fst p) of
     None \<Rightarrow> {#} | Some w \<Rightarrow> if win_started w = snd p then {#} else {#(fst p, win_started w)#})"

inductive limiter_step ::
    "'net ipnet_crate \<Rightarrow> 'net list \<Rightarrow> rate_limiter \<Rightarrow> string \<Rightarrow> limiter \<Rightarrow> limiter \<Rightarrow> bool" for x trusted lim header where
  Admits: "ltr_now s \<le> now \<Longrightarrow>
    unauthorized_arrival x trusted lim header now rq (ltr_windows s) = (Admitted key, ws) \<Longrightarrow>
    limiter_step x trusted lim header s (s\<lparr>ltr_windows := ws, ltr_now := now,
      ltr_open := add_mset (key, win_started (the (ws key))) (ltr_open s)\<rparr>)"
| Turns_Away: "ltr_now s \<le> now \<Longrightarrow>
    unauthorized_arrival x trusted lim header now rq (ltr_windows s) = (Turned_Away response, ws) \<Longrightarrow>
    limiter_step x trusted lim header s (s\<lparr>ltr_windows := ws, ltr_now := now\<rparr>)"
| Fails: "p \<in># ltr_open s \<Longrightarrow> rsp_status response = 401 \<Longrightarrow>
    unauthorized_answer (fst p) response (ltr_windows s) = (response, ws) \<Longrightarrow>
    limiter_step x trusted lim header s (s\<lparr>ltr_windows := ws, ltr_open := ltr_open s - {#p#},
      ltr_failures := add_mset p (ltr_failures s)\<rparr>)"
| Succeeds: "p \<in># ltr_open s \<Longrightarrow> rsp_status response \<noteq> 401 \<Longrightarrow>
    unauthorized_answer (fst p) response (ltr_windows s) = (response, ws) \<Longrightarrow>
    limiter_step x trusted lim header s (s\<lparr>ltr_windows := ws, ltr_open := ltr_open s - {#p#},
      ltr_late := ltr_late s + late_to p (ltr_windows s)\<rparr>)"
| Cut_Off: "p \<in># ltr_open s \<Longrightarrow>
    limiter_step x trusted lim header s (s\<lparr>ltr_open := ltr_open s - {#p#}, ltr_cut_off := add_mset p (ltr_cut_off s)\<rparr>)"

inductive limiter_reachable ::
    "'net ipnet_crate \<Rightarrow> 'net list \<Rightarrow> rate_limiter \<Rightarrow> string \<Rightarrow> limiter \<Rightarrow> bool" for x trusted lim header where
  Fresh: "limiter_reachable x trusted lim header \<lparr>ltr_windows = Map.empty, ltr_now = now, ltr_open = {#},
    ltr_failures = {#}, ltr_cut_off = {#}, ltr_late = {#}\<rparr>"
| Steps: "limiter_reachable x trusted lim header s \<Longrightarrow> limiter_step x trusted lim header s s' \<Longrightarrow>
    limiter_reachable x trusted lim header s'"

text \<open>The counter of a window against the permits it has granted and that are still held.\<close>

definition window_ok :: "rate_limiter \<Rightarrow> limiter \<Rightarrow> ip_addr \<Rightarrow> bool" where
  "window_ok lim s key \<longleftrightarrow>
     (case ltr_windows s key of
        None \<Rightarrow> \<forall>b. (key, b) \<in># held s \<longrightarrow> b < ltr_now s
      | Some w \<Rightarrow> win_started w \<le> ltr_now s \<and> win_requests w \<le> lim_request_limit lim
          \<and> win_requests w \<le> count (held s) (key, win_started w)
          \<and> count (held s) (key, win_started w) \<le> win_requests w + count (ltr_late s) (key, win_started w)
          \<and> (\<forall>b. (key, b) \<in># held s \<longrightarrow> b \<le> win_started w))"

definition limiter_ok :: "rate_limiter \<Rightarrow> limiter \<Rightarrow> bool" where
  "limiter_ok lim s \<longleftrightarrow> (\<forall>key. window_ok lim s key)
     \<and> (\<forall>p. count (held s) p \<le> lim_request_limit lim + count (ltr_late s) p)"

lemma limiter_okI:
  "(\<And>key. window_ok lim s key) \<Longrightarrow> (\<And>p. count (held s) p \<le> lim_request_limit lim + count (ltr_late s) p) \<Longrightarrow> limiter_ok lim s"
  by (simp add: limiter_ok_def)

lemma limiter_okD: "limiter_ok lim s \<Longrightarrow> count (held s) p \<le> lim_request_limit lim + count (ltr_late s) p"
  by (cases p) (simp add: limiter_ok_def)

lemma limiter_ok_same:
  assumes "held s' = held s" "ltr_late s' = ltr_late s" "ltr_windows s' = ltr_windows s" "ltr_now s' = ltr_now s"
  shows "limiter_ok lim s' = limiter_ok lim s"
  unfolding limiter_ok_def window_ok_def assms ..

text \<open>A reservation first forgets the windows that are over.\<close>

definition current :: "rate_limiter \<Rightarrow> int \<Rightarrow> limiter \<Rightarrow> limiter" where
  "current lim now s = s\<lparr>ltr_now := now,
     ltr_windows := retain (\<lambda>w. duration_since now (win_started w) < lim_window lim) (ltr_windows s)\<rparr>"

lemma held_current [simp]: "held (current lim now s) = held s" "ltr_late (current lim now s) = ltr_late s"
  by (simp_all add: current_def held_def)

lemma current_ok:
  assumes "limiter_ok lim s" "ltr_now s \<le> now" "0 < lim_window lim"
  shows "limiter_ok lim (current lim now s)"
proof (rule limiter_okI)
  fix key
  have ok: "window_ok lim s key" using assms(1) by (simp add: limiter_ok_def)
  show "window_ok lim (current lim now s) key"
  proof (cases "ltr_windows s key")
    case None
    with ok assms(2) have "ltr_windows (current lim now s) key = None" "\<forall>b. (key, b) \<in># held s \<longrightarrow> b < now"
      by (auto simp: current_def retain_def window_ok_def)
    then show ?thesis by (simp add: window_ok_def) (simp add: current_def)
  next
    case (Some w)
    show ?thesis
    proof (cases "duration_since now (win_started w) < lim_window lim")
      case True
      with Some have "ltr_windows (current lim now s) key = Some w" by (simp add: current_def retain_def)
      with ok Some assms(2) show ?thesis by (auto simp: window_ok_def current_def held_def)
    next
      case False
      with Some have "ltr_windows (current lim now s) key = None" by (simp add: current_def retain_def)
      moreover have "win_started w < now" using False assms(3) by (simp add: duration_since_def)
      ultimately show ?thesis using ok Some by (auto simp: window_ok_def current_def held_def)
    qed
  qed
qed (simp add: limiter_okD [OF assms(1)])

definition window_now :: "rate_limiter \<Rightarrow> int \<Rightarrow> limiter \<Rightarrow> ip_addr \<Rightarrow> window" where
  "window_now lim now s key =
     (case ltr_windows (current lim now s) key of None \<Rightarrow> \<lparr>win_started = now, win_requests = 0\<rparr> | Some w \<Rightarrow> w)"

lemma reserve_current: "reserve lim now key (ltr_windows s) =
    (let w = window_now lim now s key; ws = ltr_windows (current lim now s)
     in if win_requests w \<ge> lim_request_limit lim then (False, ws(key \<mapsto> w))
        else (True, ws(key \<mapsto> w\<lparr>win_requests := win_requests w + 1\<rparr>)))"
  by (simp add: reserve_def window_now_def current_def Let_def)

lemma window_now_ok:
  assumes "limiter_ok lim s" "ltr_now s \<le> now" "0 < lim_window lim" "w = window_now lim now s key"
  shows "win_started w \<le> now" "win_requests w \<le> lim_request_limit lim"
    "win_requests w \<le> count (held s) (key, win_started w)"
    "count (held s) (key, win_started w) \<le> win_requests w + count (ltr_late s) (key, win_started w)"
    "\<forall>b. (key, b) \<in># held s \<longrightarrow> b \<le> win_started w" "now - win_started w < lim_window lim"
proof -
  have "window_ok lim (current lim now s) key"
    using current_ok [OF assms(1-3)] by (simp add: limiter_ok_def)
  then have "win_started w \<le> now \<and> win_requests w \<le> lim_request_limit lim
    \<and> win_requests w \<le> count (held s) (key, win_started w)
    \<and> count (held s) (key, win_started w) \<le> win_requests w + count (ltr_late s) (key, win_started w)
    \<and> (\<forall>b. (key, b) \<in># held s \<longrightarrow> b \<le> win_started w)"
    using assms(4)
  proof (cases "ltr_windows (current lim now s) key")
    case None
    with \<open>window_ok lim (current lim now s) key\<close> have before: "\<forall>b. (key, b) \<in># held s \<longrightarrow> b < now"
      by (simp add: window_ok_def) (simp add: current_def)
    then have "(key, now) \<notin># held s" by blast
    then have "count (held s) (key, now) = 0" by (simp only: not_in_iff)
    with None before assms(4) show ?thesis by (auto simp: window_now_def)
  next
    case (Some w')
    with \<open>window_ok lim (current lim now s) key\<close> assms(4) show ?thesis
      by (simp add: window_ok_def window_now_def) (simp add: current_def)
  qed
  then show "win_started w \<le> now" "win_requests w \<le> lim_request_limit lim"
    "win_requests w \<le> count (held s) (key, win_started w)"
    "count (held s) (key, win_started w) \<le> win_requests w + count (ltr_late s) (key, win_started w)"
    "\<forall>b. (key, b) \<in># held s \<longrightarrow> b \<le> win_started w"
    by simp_all
  show "now - win_started w < lim_window lim"
    using assms(3,4)
    by (auto simp: window_now_def current_def retain_def duration_since_def split: option.splits if_splits)
qed

lemma other_window:
  assumes "limiter_ok lim s" "key' \<noteq> key" "ltr_windows s' key' = ltr_windows s key'" "ltr_now s \<le> ltr_now s'"
    and "\<And>b. count (held s') (key', b) = count (held s) (key', b)"
    and "\<And>b. count (ltr_late s') (key', b) = count (ltr_late s) (key', b)"
  shows "window_ok lim s' key'"
proof -
  have member: "(key', b) \<in># held s' \<longleftrightarrow> (key', b) \<in># held s" for b
    by (simp only: count_greater_zero_iff [symmetric] assms(5))
  have "window_ok lim s key'" using assms(1) by (simp add: limiter_ok_def)
  then show ?thesis
    using assms(4) by (auto simp: window_ok_def assms(3,5,6) member split: option.splits)
qed

lemma limiter_step_ok:
  assumes "limiter_step x trusted lim header s s'" "limiter_ok lim s" "0 < lim_window lim"
  shows "limiter_ok lim s'"
  using assms(1)
proof cases
  case (Admits now rq key ws)
  let ?w = "window_now lim now s key"
  note now = current_ok [OF assms(2) Admits(2) assms(3)] and w = window_now_ok [OF assms(2) Admits(2) assms(3) refl, of key]
  from Admits(3) have room: "win_requests ?w < lim_request_limit lim"
    and ws: "ws = (ltr_windows (current lim now s))(key \<mapsto> ?w\<lparr>win_requests := win_requests ?w + 1\<rparr>)"
    by (auto simp: unauthorized_arrival_def Let_def reserve_current split: if_splits)
  have s': "held s' = add_mset (key, win_started ?w) (held s)" "ltr_late s' = ltr_late s" "ltr_windows s' = ws" "ltr_now s' = now"
    by (simp_all add: Admits(1) held_def ws)
  show ?thesis
  proof (rule limiter_okI)
    fix key'
    show "window_ok lim s' key'"
    proof (cases "key' = key")
      case True
      then show ?thesis using w room by (auto simp: window_ok_def s' ws)
    next
      case False
      show ?thesis
        by (rule other_window [OF now False]) (use False in \<open>simp_all add: s' ws\<close>, simp add: current_def)
    qed
  next
    fix p
    show "count (held s') p \<le> lim_request_limit lim + count (ltr_late s') p"
      using limiter_okD [OF assms(2), of p] w(4) room by (auto simp: s')
  qed
next
  case (Turns_Away now rq response ws)
  obtain key where ws: "ws = (ltr_windows (current lim now s))(key \<mapsto> window_now lim now s key)"
    using Turns_Away(3) by (auto simp: unauthorized_arrival_def Let_def reserve_current split: if_splits)
  note now = current_ok [OF assms(2) Turns_Away(2) assms(3)]
    and w = window_now_ok [OF assms(2) Turns_Away(2) assms(3) refl, of key]
  have s': "held s' = held s" "ltr_late s' = ltr_late s" "ltr_windows s' = ws" "ltr_now s' = now"
    by (simp_all add: Turns_Away(1) held_def)
  show ?thesis
  proof (rule limiter_okI)
    fix key'
    show "window_ok lim s' key'"
    proof (cases "key' = key")
      case True
      then show ?thesis using w by (auto simp: window_ok_def s' ws)
    next
      case False
      show ?thesis
        by (rule other_window [OF now False]) (use False in \<open>simp_all add: s' ws\<close>, simp add: current_def)
    qed
  qed (simp add: s' limiter_okD [OF assms(2)])
next
  case (Fails p response ws)
  then have "held s' = held s" by (simp add: held_def)
  moreover have "ltr_late s' = ltr_late s" "ltr_windows s' = ltr_windows s" "ltr_now s' = ltr_now s"
    using Fails by (auto simp: unauthorized_answer_def)
  ultimately show ?thesis using limiter_ok_same assms(2) by blast
next
  case (Cut_Off p)
  then have "held s' = held s" "ltr_late s' = ltr_late s" "ltr_windows s' = ltr_windows s" "ltr_now s' = ltr_now s"
    by (simp_all add: held_def)
  then show ?thesis using limiter_ok_same assms(2) by blast
next
  case (Succeeds p response ws)
  obtain key b where p: "p = (key, b)" by (cases p)
  have ws: "ws = release key (ltr_windows s)" using Succeeds(3,4) by (auto simp: unauthorized_answer_def p)
  have held: "held s = add_mset p (held s')" using Succeeds(2) by (simp add: Succeeds(1) held_def)
  have late: "ltr_late s' = ltr_late s + late_to p (ltr_windows s)" by (simp add: Succeeds(1))
  have windows: "ltr_windows s' = release key (ltr_windows s)" "ltr_now s' = ltr_now s" by (simp_all add: Succeeds(1) ws)
  show ?thesis
  proof (rule limiter_okI)
    fix key'
    show "window_ok lim s' key'"
    proof (cases "key' = key")
      case True
      have ok: "window_ok lim s key" using assms(2) by (simp add: limiter_ok_def)
      show ?thesis
      proof (cases "ltr_windows s key")
        case None
        with ok show ?thesis by (auto simp: True window_ok_def windows held release_def)
      next
        case (Some w)
        have "window_ok lim s key" by (rule ok)
        then show ?thesis
          by (auto simp: True window_ok_def windows held late p late_to_def Some release_def split: if_splits)
      qed
    next
      case False
      show ?thesis
        by (rule other_window [OF assms(2) False])
          (use False in \<open>auto simp: windows held late p late_to_def release_def split: option.splits\<close>)
    qed
  next
    fix q
    have "count (held s') q \<le> count (held s) q" by (simp add: held)
    also have "\<dots> \<le> lim_request_limit lim + count (ltr_late s) q" by (rule limiter_okD [OF assms(2)])
    finally show "count (held s') q \<le> lim_request_limit lim + count (ltr_late s') q" by (simp add: late)
  qed
qed

text \<open>C38: Failed logins are limited, and only they fill a window, however requests overlap. In each window of an
  address at most as many requests are answered 401 as the limit says, and one more for each permit of an
  earlier window that is given back only then; a request is turned away only when the window of its address
  is not over and as many of its permits as the limit says are held, by requests that failed, are still
  unanswered or were cut off; and a request without the credential always reaches its handler and changes
  no window.\<close>

theorem unauthorized_limit:
  assumes "limiter_reachable x trusted lim header s" "0 < lim_window lim"
  shows "count (ltr_failures s) (key, start) \<le> lim_request_limit lim + count (ltr_late s) (key, start)
    \<and> (ltr_now s \<le> now \<and> unauthorized_arrival x trusted lim header now rq (ltr_windows s) = (Turned_Away response, ws) \<longrightarrow>
        (\<exists>opened. now - opened < lim_window lim \<and> response = too_many_requests \<and>
          lim_request_limit lim \<le> count (ltr_failures s + ltr_open s + ltr_cut_off s) (rate_key x trusted rq, opened)))
    \<and> (get_header header (req_headers rq) = None \<longrightarrow>
        unauthorized_arrival x trusted lim header now rq (ltr_windows s) = (Unlimited, ltr_windows s))"
proof (intro conjI impI)
  have ok: "limiter_ok lim s"
    using assms(1)
  proof induction
    case (Fresh now)
    show ?case by (simp add: limiter_ok_def window_ok_def held_def)
  next
    case (Steps s s')
    with limiter_step_ok assms(2) show ?case by blast
  qed
  have "count (held s) (key, start) \<le> lim_request_limit lim + count (ltr_late s) (key, start)"
    using ok by (simp add: limiter_ok_def)
  then show "count (ltr_failures s) (key, start) \<le> lim_request_limit lim + count (ltr_late s) (key, start)"
    by (simp add: held_def)
  show "unauthorized_arrival x trusted lim header now rq (ltr_windows s) = (Unlimited, ltr_windows s)"
    if "get_header header (req_headers rq) = None"
    using that by (simp add: unauthorized_arrival_def)
  assume away: "ltr_now s \<le> now \<and> unauthorized_arrival x trusted lim header now rq (ltr_windows s) = (Turned_Away response, ws)"
  let ?w = "window_now lim now s (rate_key x trusted rq)"
  note w = window_now_ok [OF ok conjunct1 [OF away] assms(2) refl, of "rate_key x trusted rq"]
  have "lim_request_limit lim \<le> win_requests ?w" "response = too_many_requests"
    using away by (auto simp: unauthorized_arrival_def Let_def reserve_current split: if_splits)
  with w(3,6) show "\<exists>opened. now - opened < lim_window lim \<and> response = too_many_requests \<and>
      lim_request_limit lim \<le> count (ltr_failures s + ltr_open s + ltr_cut_off s) (rate_key x trusted rq, opened)"
    by (intro exI [of _ "win_started ?w"]) (simp add: held_def ac_simps)
qed

text \<open>Four requests of one address in a window that admits one, for the plain limit.\<close>

definition burst :: "(int \<times> request \<times> http_response) list" where
  "burst = map (\<lambda>t. (t, \<lparr>req_peer = Some (V4 7), req_headers = [(''authorization'', ''x'')]\<rparr>,
     status_response 401)) [0, 5, 9, 12]"

lemma rate_limit_bound_witness:
  "charged_within 4 10 burst
     (charges (serving (rate_limit_with_client_ip host_nets [] \<lparr>lim_request_limit = 1, lim_window = 10\<rparr>)
        (passed host_nets [] (V4 7))) burst Map.empty) \<le> 2"
  using rate_limit_bound [of burst 4 "\<lparr>lim_request_limit = 1, lim_window = 10\<rparr>"]
  by (simp add: burst_def)

text \<open>One request with the credential is in progress where one is allowed; a second one is turned away.\<close>

definition login_rq :: request where
  "login_rq = \<lparr>req_peer = Some (V4 7), req_headers = [(''authorization'', ''x'')]\<rparr>"

definition one_at_a_time :: rate_limiter where
  "one_at_a_time = \<lparr>lim_request_limit = 1, lim_window = 10\<rparr>"

lemma unauthorized_limit_witness:
  "\<exists>s ws. limiter_reachable host_nets [] one_at_a_time ''authorization'' s
     \<and> unauthorized_arrival host_nets [] one_at_a_time ''authorization'' 5 login_rq (ltr_windows s)
         = (Turned_Away too_many_requests, ws)
     \<and> (\<exists>opened. 5 - opened < 10 \<and> 1 \<le> count (ltr_failures s + ltr_open s + ltr_cut_off s) (V4 7, opened))"
proof -
  let ?idle = "\<lparr>ltr_windows = Map.empty, ltr_now = 0, ltr_open = {#}, ltr_failures = {#}, ltr_cut_off = {#}, ltr_late = {#}\<rparr>"
  let ?ws = "Map.empty(V4 7 \<mapsto> \<lparr>win_started = 0, win_requests = 1\<rparr>)"
  let ?s = "?idle\<lparr>ltr_windows := ?ws, ltr_open := {#(V4 7, 0)#}\<rparr>"
  have key: "rate_key host_nets [] login_rq = V4 7"
    by (simp add: rate_key_def login_rq_def client_ip_def is_trusted_proxy_def canonicalize_ip_def to_canonical_def Let_def)
  have header: "get_header ''authorization'' (req_headers login_rq) \<noteq> None"
    by (simp add: login_rq_def get_header_def to_ascii_lowercase_def ascii_lower_char_def Let_def code_point_def)
  have "unauthorized_arrival host_nets [] one_at_a_time ''authorization'' 0 login_rq Map.empty = (Admitted (V4 7), ?ws)"
    using header by (simp add: unauthorized_arrival_def key reserve_def retain_def one_at_a_time_def Let_def)
  then have "limiter_step host_nets [] one_at_a_time ''authorization'' ?idle ?s"
    using Admits [where s = ?idle and now = 0 and x = host_nets and trusted = "[]" and lim = one_at_a_time
        and header = "''authorization''" and rq = login_rq and key = "V4 7" and ws = ?ws] by simp
  then have reached: "limiter_reachable host_nets [] one_at_a_time ''authorization'' ?s" by (intro Steps [OF Fresh])
  have away: "unauthorized_arrival host_nets [] one_at_a_time ''authorization'' 5 login_rq (ltr_windows ?s)
      = (Turned_Away too_many_requests, ?ws)"
    using header by (simp add: unauthorized_arrival_def key reserve_def retain_def duration_since_def one_at_a_time_def Let_def
        fun_eq_iff)
  have "\<exists>opened. 5 - opened < lim_window one_at_a_time \<and> too_many_requests = too_many_requests \<and>
      lim_request_limit one_at_a_time \<le> count (ltr_failures ?s + ltr_open ?s + ltr_cut_off ?s) (rate_key host_nets [] login_rq, opened)"
    by (rule conjunct1 [OF conjunct2 [OF unauthorized_limit [OF reached]], rule_format, OF _ conjI [OF _ away]])
      (simp_all add: one_at_a_time_def)
  then have "\<exists>opened. 5 - opened < 10 \<and> 1 \<le> count (ltr_failures ?s + ltr_open ?s + ltr_cut_off ?s) (V4 7, opened)"
    by (simp add: key one_at_a_time_def)
  with reached away show ?thesis by (intro exI [of _ ?s] exI [of _ ?ws] conjI)
qed

end
