(* ===== verification/Rust_Number.thy ===== *)
theory Rust_Number
  imports Rust_Text "HOL-Library.Word"
begin

text \<open>
  Integers as Rust prints and reads them (\<open>Display\<close> and \<open>FromStr\<close> of \<open>i64\<close> and \<open>u64\<close>), and the bounds
  of the 64-bit types.
\<close>

section \<open>Bounds\<close>

definition i64_min :: int where "i64_min = - (2 ^ 63)"
definition i64_max :: int where "i64_max = 2 ^ 63 - 1"
definition u64_max :: int where "u64_max = 2 ^ 64 - 1"

definition in_i64 :: "int \<Rightarrow> bool" where
  "in_i64 v \<longleftrightarrow> i64_min \<le> v \<and> v \<le> i64_max"

definition all_digits :: "string \<Rightarrow> bool" where
  "all_digits s \<longleftrightarrow> s \<noteq> '''' \<and> list_all is_ascii_digit s"

definition digit_of :: "char \<Rightarrow> int" where
  "digit_of c = int (of_char c) - 48"

definition digits_value :: "string \<Rightarrow> int" where
  "digits_value s = foldl (\<lambda>acc c. acc * 10 + digit_of c) 0 s"

text \<open>\<open>str::parse\<close> for \<open>u64\<close>.\<close>

definition parse_u64 :: "string \<Rightarrow> int option" where
  "parse_u64 s =
     (let digits = (if take 1 s = ''+'' then drop 1 s else s)
      in if all_digits digits \<and> digits_value digits \<le> u64_max then Some (digits_value digits)
         else None)"

text \<open>\<open>str::parse\<close> for \<open>i64\<close>.\<close>

definition parse_i64 :: "string \<Rightarrow> int option" where
  "parse_i64 s =
     (let negative = (take 1 s = ''-'');
          digits = (if negative \<or> take 1 s = ''+'' then drop 1 s else s);
          v = (if negative then - digits_value digits else digits_value digits)
      in if all_digits digits \<and> in_i64 v then Some v else None)"

section \<open>Decimal numerals\<close>

lemma is_ascii_digit_char [simp]: "n < 10 \<Longrightarrow> is_ascii_digit (char_of (48 + n :: nat))"
  by (simp add: is_ascii_digit_def Let_def)

lemma digit_of_char [simp]: "n < 10 \<Longrightarrow> digit_of (char_of (48 + n :: nat)) = int n"
  by (simp add: digit_of_def)

lemma digits_value_snoc [simp]: "digits_value (s @ [c]) = digits_value s * 10 + digit_of c"
  by (simp add: digits_value_def)

lemma digits_value_Nil [simp]: "digits_value '''' = 0"
  by (simp add: digits_value_def)

lemma all_digits_append [simp]:
  "all_digits (a @ b) \<longleftrightarrow> (a \<noteq> '''' \<or> b \<noteq> '''') \<and> list_all is_ascii_digit a \<and> list_all is_ascii_digit b"
  by (auto simp: all_digits_def)

lemma show_nat_digits: "all_digits (show_nat n) \<and> digits_value (show_nat n) = int n"
proof (induction n rule: show_nat.induct)
  case (1 n)
  show ?case
  proof (cases "n < 10")
    case True
    then show ?thesis
      using digits_value_snoc [of "''''" "char_of (48 + n)"]
      by (simp add: show_nat.simps [of n] all_digits_def)
  next
    case False
    then have "int (n div 10) * 10 + int (n mod 10) = int n" by presburger
    with False 1 show ?thesis
      by (simp add: show_nat.simps [of n] all_digits_def)
  qed
qed

lemma digits_value_append:
  "digits_value (a @ b) = digits_value a * 10 ^ length b + digits_value b"
proof (induction b rule: rev_induct)
  case (snoc c b)
  then show ?case
    using digits_value_snoc [of "a @ b" c] by (simp add: algebra_simps)
qed simp

lemma digits_value_nonneg: "list_all is_ascii_digit s \<Longrightarrow> 0 \<le> digits_value s"
proof (induction s rule: rev_induct)
  case (snoc c s)
  have "is_ascii_digit c \<Longrightarrow> 0 \<le> digit_of c"
    by (simp add: is_ascii_digit_def digit_of_def Let_def)
  with snoc show ?case by simp
qed simp

lemma is_digit_sign: "is_ascii_digit c \<Longrightarrow> c \<noteq> CHR ''+'' \<and> c \<noteq> CHR ''-'' \<and> c \<noteq> CHR ''.''"
  by (auto simp: is_ascii_digit_def)

lemma parse_u64_digits: "all_digits s \<Longrightarrow>
    parse_u64 s = (if digits_value s \<le> u64_max then Some (digits_value s) else None)"
  by (cases s) (auto simp: parse_u64_def all_digits_def dest: is_digit_sign)

lemma split_once_None: "split_once c s = None \<longleftrightarrow> c \<notin> set s"
  by (induction s) auto

lemma parse_show_int: "in_i64 v \<Longrightarrow> parse_i64 (show_int v) = Some v"
proof -
  assume v: "in_i64 v"
  have "hd (show_nat n) \<noteq> CHR ''-'' \<and> hd (show_nat n) \<noteq> CHR ''+'' \<and> show_nat n \<noteq> ''''" for n
    using show_nat_digits [of n] by (cases "show_nat n") (auto simp: all_digits_def dest: is_digit_sign)
  then have head: "take 1 (show_nat n) \<noteq> ''-'' \<and> take 1 (show_nat n) \<noteq> ''+''" for n
    by (simp add: take_Suc)
  show ?thesis
    using show_nat_digits [of "nat \<bar>v\<bar>"] v head [of "nat v"]
    by (cases "v < 0") (simp_all add: parse_i64_def show_int_def Let_def)
qed

lemma show_int_nonempty: "show_int v \<noteq> ''''"
  using show_nat_digits [of "nat v"] by (auto simp: show_int_def all_digits_def)

lemma in_i64_sint [simp]: "in_i64 (sint (c :: 64 word))"
  using sint_range_size [of c] by (simp add: in_i64_def i64_min_def i64_max_def word_size)

lemma show_nat_plain: "c \<in> set (show_nat n) \<Longrightarrow> is_ascii_digit c"
  using show_nat_digits [of n] by (auto simp: all_digits_def list_all_iff)

lemma show_int_plain: "CHR '','' \<notin> set (show_int v)" "show_int v \<noteq> ''''"
  using show_nat_plain [of "CHR '',''"] show_nat_digits
  by (auto simp: show_int_def is_ascii_digit_def all_digits_def)

end
