(* ===== verification/Money.thy ===== *)
theory Money
  imports Rust_Number
begin

text \<open>
  Amounts of money (src/server-rs/src/money.rs): cents in a signed 64-bit integer, so \<open>+\<close>, \<open>-\<close> and
  negation wrap as in the release build. The conversions from and to 64-bit floating point numbers
  are not modelled.
\<close>

type_synonym cents = "64 word"

definition decimal_digits :: "string \<Rightarrow> bool" where
  "decimal_digits value \<longleftrightarrow> value \<noteq> '''' \<and> list_all is_ascii_digit value"

lemma decimal_digits_eq [simp]: "decimal_digits = all_digits"
  by (simp add: decimal_digits_def all_digits_def fun_eq_iff)

text \<open>\<open>Cents::parse_decimal\<close>, from the inside: the digits on both sides of the point, the text
  behind the sign, and the whole.\<close>

definition of_magnitude :: "bool \<Rightarrow> int \<Rightarrow> error + cents" where
  "of_magnitude negative magnitude =
     (let max_magnitude = i64_max + (if negative then 1 else 0)
      in if magnitude > max_magnitude then Inl (Msg ''parse money: cents overflow'')
         else if negative \<and> magnitude = max_magnitude then Inr (of_int i64_min)
         else Inr (if negative then - of_int magnitude else of_int magnitude))"

definition decimal_parts :: "bool \<Rightarrow> string \<Rightarrow> string \<Rightarrow> error + cents" where
  "decimal_parts negative dollars fraction =
     (if length fraction > 2 then Inl (Msg ''parse money: more than two fractional digits'')
      else
        (let dollars = (if dollars = '''' then ''0'' else dollars);
             fraction = (if length fraction = 0 then ''00''
                         else if length fraction = 1 then fraction @ ''0'' else fraction)
         in if \<not> (decimal_digits dollars \<and> decimal_digits fraction)
            then Inl (Msg ''parse money: invalid decimal'')
            else case parse_u64 (dollars @ fraction) of
              None \<Rightarrow> Inl (Msg ''parse money'')
            | Some magnitude \<Rightarrow> of_magnitude negative magnitude))"

definition unsigned_decimal :: "bool \<Rightarrow> string \<Rightarrow> error + cents" where
  "unsigned_decimal negative value =
     (if value = '''' then Inl (Msg ''parse money: missing digits'')
      else case split_once (CHR ''.'') value of
        None \<Rightarrow> decimal_parts negative value ''''
      | Some (dollars, fraction) \<Rightarrow> decimal_parts negative dollars fraction)"

definition parse_decimal :: "string \<Rightarrow> error + cents" where
  "parse_decimal value =
     (if value = '''' then Inl (Msg ''parse money: empty value'')
      else if hd value = CHR ''-'' then unsigned_decimal True (tl value)
      else if hd value = CHR ''+'' then unsigned_decimal False (tl value)
      else unsigned_decimal False value)"

text \<open>How amounts are printed into a CSV file (src/server-rs/src/transactions/csv.rs).\<close>

definition unsigned_abs :: "cents \<Rightarrow> nat" where
  "unsigned_abs c = nat \<bar>sint c\<bar>"

definition two_digits :: "nat \<Rightarrow> string" where
  "two_digits n = (if n < 10 then CHR ''0'' # show_nat n else show_nat n)"

definition format_cents :: "cents \<Rightarrow> string" where
  "format_cents cents =
     (let sign = (if sint cents < 0 then ''-'' else ''''); magnitude = unsigned_abs cents
      in sign @ show_nat (magnitude div 100) @ ''.'' @ two_digits (magnitude mod 100))"

definition sum_cents :: "cents list \<Rightarrow> cents" where
  "sum_cents = foldl (+) 0"

section \<open>What a decimal denotes\<close>

text \<open>A decimal is an optional sign, digits and up to two decimals; it denotes cents, exactly.\<close>

definition decimal :: "bool \<Rightarrow> string \<Rightarrow> string \<Rightarrow> int" where
  "decimal negative dollars fraction =
     (if negative then -1 else 1) *
       (100 * digits_value dollars + 10 ^ (2 - length fraction) * digits_value fraction)"

definition unsigned_text :: "string \<Rightarrow> string \<Rightarrow> string \<Rightarrow> bool" where
  "unsigned_text s dollars fraction \<longleftrightarrow>
     s \<noteq> '''' \<and> list_all is_ascii_digit dollars \<and> list_all is_ascii_digit fraction \<and> length fraction \<le> 2
     \<and> (s = dollars @ ''.'' @ fraction \<or> s = dollars \<and> fraction = '''')"

definition denotes :: "string \<Rightarrow> int \<Rightarrow> bool" where
  "denotes s v \<longleftrightarrow> (\<exists>text dollars fraction. unsigned_text text dollars fraction \<and>
     ((s = text \<or> s = CHR ''+'' # text) \<and> v = decimal False dollars fraction
      \<or> s = CHR ''-'' # text \<and> v = decimal True dollars fraction))"

lemma pad_fraction:
  assumes "length fraction \<le> 2" "list_all is_ascii_digit fraction"
  shows "\<exists>padded. padded = (if length fraction = 0 then ''00''
      else if length fraction = 1 then fraction @ ''0'' else fraction)
    \<and> length padded = 2 \<and> list_all is_ascii_digit padded
    \<and> digits_value padded = 10 ^ (2 - length fraction) * digits_value fraction"
proof -
  consider "length fraction = 0" | "length fraction = 1" | "length fraction = 2"
    using assms(1) by linarith
  then show ?thesis
    by cases (use assms(2) in \<open>simp_all add: digits_value_def digit_of_def is_ascii_digit_def\<close>)
qed

lemma of_magnitude_iff:
  assumes "0 \<le> m"
  shows "(if m \<le> u64_max then of_magnitude negative m else Inl e) = Inr c \<longleftrightarrow>
    in_i64 (if negative then - m else m) \<and> c = of_int (if negative then - m else m)"
proof -
  have bounds: "u64_max = 2 * i64_max + 1" "i64_min = - i64_max - 1" "0 < i64_max"
    by (simp_all add: u64_max_def i64_max_def i64_min_def)
  show ?thesis
  proof (cases "m = i64_max + 1")
    case True
    with bounds have "i64_min = - m" "m \<le> u64_max" by simp_all
    with True bounds show ?thesis
      by (cases negative) (auto simp: of_magnitude_def in_i64_def Let_def split: if_splits)
  next
    case False
    with bounds assms show ?thesis
      by (cases negative) (auto simp: of_magnitude_def in_i64_def Let_def split: if_splits)
  qed
qed

lemma decimal_parts_digits:
  assumes "length fraction \<le> 2" "list_all is_ascii_digit fraction" "list_all is_ascii_digit dollars"
  shows "decimal_parts negative dollars fraction = Inr c \<longleftrightarrow>
    in_i64 (decimal negative dollars fraction) \<and> c = of_int (decimal negative dollars fraction)"
proof -
  let ?dollars = "if dollars = '''' then ''0'' else dollars"
  obtain padded where padded: "padded = (if length fraction = 0 then ''00''
      else if length fraction = 1 then fraction @ ''0'' else fraction)"
    "length padded = 2" "list_all is_ascii_digit padded"
    "digits_value padded = 10 ^ (2 - length fraction) * digits_value fraction"
    using pad_fraction [OF assms(1,2)] by blast
  have dollars: "all_digits ?dollars" "digits_value ?dollars = digits_value dollars"
    using assms(3) by (simp_all add: all_digits_def is_ascii_digit_def digits_value_def digit_of_def)
  let ?m = "digits_value (?dollars @ padded)"
  have m: "?m = 100 * digits_value dollars + 10 ^ (2 - length fraction) * digits_value fraction"
    using padded dollars by (simp add: digits_value_append)
  have digits: "all_digits (?dollars @ padded)" "all_digits padded"
    using dollars(1) padded(2,3) by (auto simp: all_digits_def)
  then have "0 \<le> ?m" by (intro digits_value_nonneg) (simp add: all_digits_def)
  have v: "decimal negative dollars fraction = (if negative then - ?m else ?m)"
    by (simp add: decimal_def m)
  have "decimal_parts negative dollars fraction = (case parse_u64 (?dollars @ padded) of
      None \<Rightarrow> Inl (Msg ''parse money'')
    | Some magnitude \<Rightarrow> of_magnitude negative magnitude)"
    using assms(1) dollars(1) digits(2)
    by (simp only: decimal_parts_def Let_def padded(1) [symmetric] of_magnitude_def) simp
  also have "\<dots> = (if ?m \<le> u64_max then of_magnitude negative ?m else Inl (Msg ''parse money''))"
    by (simp only: parse_u64_digits [OF digits(1)] option.case split: if_splits) simp
  finally have "decimal_parts negative dollars fraction =
      (if ?m \<le> u64_max then of_magnitude negative ?m else Inl (Msg ''parse money''))" .
  then show ?thesis
    unfolding v by (simp only: of_magnitude_iff [OF \<open>0 \<le> ?m\<close>])
qed

lemma decimal_parts_refused:
  assumes "\<not> (length fraction \<le> 2 \<and> list_all is_ascii_digit fraction \<and> list_all is_ascii_digit dollars)"
  shows "decimal_parts negative dollars fraction \<noteq> Inr c"
  using assms by (simp add: decimal_parts_def Let_def all_digits_def) auto

lemma decimal_parts_iff:
  "decimal_parts negative dollars fraction = Inr c \<longleftrightarrow>
     length fraction \<le> 2 \<and> list_all is_ascii_digit fraction \<and> list_all is_ascii_digit dollars
     \<and> in_i64 (decimal negative dollars fraction) \<and> c = of_int (decimal negative dollars fraction)"
  using decimal_parts_digits decimal_parts_refused by blast

lemma no_point: "list_all is_ascii_digit s \<Longrightarrow> CHR ''.'' \<notin> set s"
  by (auto simp: list_all_iff dest: is_digit_sign)

lemma unsigned_decimal_iff:
  "unsigned_decimal negative value = Inr c \<longleftrightarrow>
     (\<exists>dollars fraction. unsigned_text value dollars fraction
        \<and> in_i64 (decimal negative dollars fraction) \<and> c = of_int (decimal negative dollars fraction))"
proof (cases "split_once (CHR ''.'') value")
  case None
  then have "CHR ''.'' \<notin> set value" by (simp add: split_once_None)
  with None show ?thesis
    by (auto simp: unsigned_decimal_def unsigned_text_def decimal_parts_iff)
next
  case (Some p)
  then obtain d f where p: "split_once (CHR ''.'') value = Some (d, f)" by (cases p) auto
  then have shape: "value = d @ ''.'' @ f" using split_once_Some by fastforce
  have "unsigned_text value dollars fraction \<longleftrightarrow> dollars = d \<and> fraction = f
      \<and> length f \<le> 2 \<and> list_all is_ascii_digit f \<and> list_all is_ascii_digit d" for dollars fraction
  proof
    assume *: "unsigned_text value dollars fraction"
    then have "CHR ''.'' \<notin> set dollars" by (simp add: unsigned_text_def no_point)
    with * shape have "value = dollars @ CHR ''.'' # fraction" by (auto simp: unsigned_text_def)
    with \<open>CHR ''.'' \<notin> set dollars\<close> p have "dollars = d \<and> fraction = f"
      using split_once_append [of "CHR ''.''" dollars fraction] by simp
    with * show "dollars = d \<and> fraction = f \<and> length f \<le> 2 \<and> list_all is_ascii_digit f
        \<and> list_all is_ascii_digit d" by (simp add: unsigned_text_def)
  qed (simp add: unsigned_text_def shape)
  with p shape show ?thesis
    by (simp add: unsigned_decimal_def decimal_parts_iff conj_ac)
qed

lemma unsigned_text_head: "unsigned_text s dollars fraction \<Longrightarrow> s \<noteq> '''' \<and> hd s \<noteq> CHR ''-'' \<and> hd s \<noteq> CHR ''+''"
  by (cases dollars) (auto simp: unsigned_text_def dest: is_digit_sign)

lemma parse_decimal_iff:
  "parse_decimal s = Inr c \<longleftrightarrow> (\<exists>v. denotes s v \<and> in_i64 v \<and> c = of_int v)"
proof (cases s)
  case Nil
  then show ?thesis by (auto simp: parse_decimal_def denotes_def dest: unsigned_text_head)
next
  case (Cons a r)
  have "denotes s v \<longleftrightarrow> (\<exists>dollars fraction.
      (if a = CHR ''-'' then unsigned_text r dollars fraction \<and> v = decimal True dollars fraction
       else if a = CHR ''+'' then unsigned_text r dollars fraction \<and> v = decimal False dollars fraction
       else unsigned_text s dollars fraction \<and> v = decimal False dollars fraction))" for v
    unfolding denotes_def Cons
    by (cases "a = CHR ''-''"; cases "a = CHR ''+''") (auto dest: unsigned_text_head)
  then show ?thesis
    unfolding parse_decimal_def Cons unsigned_decimal_iff
    by (cases "a = CHR ''-''"; cases "a = CHR ''+''") (simp_all add: unsigned_decimal_iff, blast+)
qed

text \<open>C39: Amounts are read exactly: a text is accepted if, and only if, it is a decimal with at most two
  decimals whose value in cents fits a signed 64-bit integer, and the amount is that value - no
  rounding, no wrap-around, the smallest integer included.\<close>

theorem parse_decimal_exact:
  "parse_decimal s = Inr c \<longleftrightarrow> (\<exists>v. denotes s v \<and> in_i64 v \<and> c = of_int v)"
  by (rule parse_decimal_iff)

section \<open>Printing and reading back\<close>

lemma two_digits:
  assumes "n < 100"
  shows "length (two_digits n) = 2 \<and> list_all is_ascii_digit (two_digits n) \<and> digits_value (two_digits n) = int n"
proof (cases "n < 10")
  case True
  then have "two_digits n = [CHR ''0'', char_of (48 + n)]"
    by (simp add: two_digits_def show_nat.simps [of n])
  moreover have "is_ascii_digit (CHR ''0'')" "digit_of (CHR ''0'') = 0"
    by (simp_all add: is_ascii_digit_def digit_of_def)
  ultimately show ?thesis
    using True digits_value_snoc [of "[CHR ''0'']" "char_of (48 + n)"] digits_value_snoc [of "''''" "CHR ''0''"]
    by simp
next
  case False
  with assms have "n div 10 < 10" by simp
  then have "length (show_nat n) = 2"
    using False by (simp add: show_nat.simps [of n] show_nat.simps [of "n div 10"])
  with False show_nat_digits [of n] show ?thesis by (simp add: two_digits_def all_digits_def)
qed

lemma format_cents_denotes: "denotes (format_cents c) (sint c)"
proof -
  let ?n = "unsigned_abs c"
  let ?text = "show_nat (?n div 100) @ ''.'' @ two_digits (?n mod 100)"
  have "unsigned_text ?text (show_nat (?n div 100)) (two_digits (?n mod 100))"
    using two_digits [of "?n mod 100"] show_nat_digits [of "?n div 100"]
    by (simp add: unsigned_text_def all_digits_def)
  moreover have "decimal negative (show_nat (?n div 100)) (two_digits (?n mod 100)) =
      (if negative then -1 else 1) * \<bar>sint c\<bar>" for negative
  proof -
    have "100 * int (?n div 100) + int (?n mod 100) = int ?n"
      by (metis mult_div_mod_eq of_nat_add of_nat_mult of_nat_numeral)
    then show ?thesis
      using two_digits [of "?n mod 100"] show_nat_digits [of "?n div 100"]
      by (simp add: decimal_def unsigned_abs_def)
  qed
  moreover have "format_cents c = (if sint c < 0 then CHR ''-'' # ?text else ?text)"
    by (simp add: format_cents_def Let_def)
  ultimately show ?thesis
    unfolding denotes_def by (intro exI [of _ ?text] exI conjI) (assumption, simp)
qed

text \<open>What the CSV export writes for an amount, the import reads back as that amount, for every
  amount there is, negative ones and the smallest integer included.\<close>

theorem cents_roundtrip: "parse_decimal (format_cents c) = Inr c"
proof -
  have "in_i64 (sint c)"
    using sint_range_size [of c] by (simp add: in_i64_def i64_min_def i64_max_def word_size)
  with format_cents_denotes [of c] show ?thesis
    unfolding parse_decimal_iff by (intro exI [of _ "sint c"]) simp
qed

end
