(* ===== verification/Global_Id.thy ===== *)
theory Global_Id
  imports Rust_Number
begin

text \<open>
  The opaque identifiers of the API (src/server-rs/src/ids.rs): base64 of \<open>v1:type:id\<close>. The base64
  codec is a crate, and a parameter here; what is used of it is that it decodes what it encoded.
\<close>

section \<open>UTF-8\<close>

text \<open>\<open>str::from_utf8\<close>: the well-formed byte sequences.\<close>

definition between :: "nat \<Rightarrow> nat \<Rightarrow> char \<Rightarrow> bool" where
  "between lo hi c \<longleftrightarrow> lo \<le> of_char c \<and> of_char c \<le> hi"

definition continuation :: "char \<Rightarrow> bool" where
  "continuation = between 128 191"

text \<open>The number of bytes of the sequence a text begins with, 0 when it is ill-formed.\<close>

definition utf8_len :: "string \<Rightarrow> nat" where
  "utf8_len s =
     (case s of
        [] \<Rightarrow> 0
      | c # r \<Rightarrow>
          let second = (\<lambda>lo hi. r \<noteq> [] \<and> between lo hi (hd r));
              third = (length r \<ge> 2 \<and> continuation (r ! 1));
              fourth = (length r \<ge> 3 \<and> continuation (r ! 2))
          in if between 0 127 c then 1
             else if between 194 223 c then (if second 128 191 then 2 else 0)
             else if between 224 239 c then
               (if second (if c = byte 224 then 160 else 128) (if c = byte 237 then 159 else 191) \<and> third
                then 3 else 0)
             else if between 240 244 c then
               (if second (if c = byte 240 then 144 else 128) (if c = byte 244 then 143 else 191)
                   \<and> third \<and> fourth
                then 4 else 0)
             else 0)"

function utf8_valid :: "string \<Rightarrow> bool" where
  "utf8_valid s =
     (if s = [] then True else if utf8_len s = 0 then False else utf8_valid (drop (utf8_len s) s))"
  by pat_completeness auto
termination
  by (relation "measure length") auto

declare utf8_valid.simps [simp del]

lemma utf8_valid_Nil [simp]: "utf8_valid []"
  by (simp add: utf8_valid.simps)

definition ascii :: "char \<Rightarrow> bool" where
  "ascii = between 0 127"

lemma utf8_valid_ascii: "list_all ascii s \<Longrightarrow> utf8_valid s"
proof (induction s)
  case (Cons c s)
  then show ?case by (simp add: utf8_valid.simps [of "c # s"] utf8_len_def ascii_def)
qed simp

section \<open>Identifiers\<close>

datatype global_id_type =
    PlaidItem | SimpleFinConnection | Asset | Account | Connection | Owner | RecurringCharge | User
  | Budget | Category | CategoryGroup | Rule | Tag | Transaction | BalanceSnapshotReview
  | AccountSnapshot | SimpleFinAccessToken

fun type_name :: "global_id_type \<Rightarrow> string" where
  "type_name PlaidItem = ''PlaidItem''"
| "type_name SimpleFinConnection = ''SimpleFinConnection''"
| "type_name Asset = ''Asset''"
| "type_name Account = ''Account''"
| "type_name Connection = ''Connection''"
| "type_name Owner = ''Owner''"
| "type_name RecurringCharge = ''RecurringCharge''"
| "type_name User = ''User''"
| "type_name Budget = ''Budget''"
| "type_name Category = ''Category''"
| "type_name CategoryGroup = ''CategoryGroup''"
| "type_name Rule = ''Rule''"
| "type_name Tag = ''Tag''"
| "type_name Transaction = ''Transaction''"
| "type_name BalanceSnapshotReview = ''BalanceSnapshotReview''"
| "type_name AccountSnapshot = ''AccountSnapshot''"
| "type_name SimpleFinAccessToken = ''SimpleFinAccessToken''"

definition all_types :: "global_id_type list" where
  "all_types = [PlaidItem, SimpleFinConnection, Asset, Account, Connection, Owner, RecurringCharge,
     User, Budget, Category, CategoryGroup, Rule, Tag, Transaction, BalanceSnapshotReview,
     AccountSnapshot, SimpleFinAccessToken]"

definition type_from_str :: "string \<Rightarrow> global_id_type option" where
  "type_from_str s = find (\<lambda>t. type_name t = s) all_types"

record global_id =
  gid_typ :: global_id_type
  gid_id :: "64 word"

record base64 =
  x_b64_encode :: "string \<Rightarrow> string"
  x_b64_decode :: "string \<Rightarrow> string option"

definition encode_global_id :: "base64 \<Rightarrow> global_id_type \<Rightarrow> 64 word \<Rightarrow> string" where
  "encode_global_id x typ ident =
     x_b64_encode x (''v1'' @ '':'' @ type_name typ @ '':'' @ show_int (sint ident))"

definition encoded_string :: "base64 \<Rightarrow> global_id \<Rightarrow> string" where
  "encoded_string x g = encode_global_id x (gid_typ g) (gid_id g)"

definition invalid_global_id :: error where
  "invalid_global_id = Msg ''invalid global id''"

text \<open>\<open>splitn(3, ':')\<close>, when it has three parts.\<close>

definition split_three :: "string \<Rightarrow> (string \<times> string \<times> string) option" where
  "split_three s =
     (case split_once (CHR '':'') s of
        None \<Rightarrow> None
      | Some (a, r) \<Rightarrow> map_option (\<lambda>(b, c). (a, b, c)) (split_once (CHR '':'') r))"

definition decode_global_id :: "base64 \<Rightarrow> string \<Rightarrow> error + global_id" where
  "decode_global_id x s =
     (case x_b64_decode x s of
        None \<Rightarrow> Inl invalid_global_id
      | Some decoded \<Rightarrow>
          if \<not> utf8_valid decoded then Inl invalid_global_id
          else case split_three decoded of
            None \<Rightarrow> Inl invalid_global_id
          | Some (version, name, ident) \<Rightarrow>
              if version = '''' \<or> name = '''' \<or> ident = '''' \<or> version \<noteq> ''v1'' then Inl invalid_global_id
              else case type_from_str name of
                None \<Rightarrow> Inl invalid_global_id
              | Some typ \<Rightarrow>
                  (case parse_i64 ident of
                     None \<Rightarrow> Inl invalid_global_id
                   | Some i \<Rightarrow>
                       (let g = \<lparr>gid_typ = typ, gid_id = of_int i\<rparr>
                        in if encoded_string x g \<noteq> s then Inl invalid_global_id else Inr g)))"

definition i64_of_type :: "global_id \<Rightarrow> global_id_type \<Rightarrow> error + 64 word" where
  "i64_of_type g expected =
     (if gid_typ g \<noteq> expected
      then Inl (Msg (''wrong global id type \"'' @ type_name (gid_typ g) @ ''\", expected \"''
        @ type_name expected @ ''\"''))
      else Inr (gid_id g))"

section \<open>Round trip\<close>

definition base64_law :: "base64 \<Rightarrow> bool" where
  "base64_law x \<longleftrightarrow> (\<forall>s. x_b64_decode x (x_b64_encode x s) = Some s)"

lemma type_in_all: "t \<in> set all_types"
  by (cases t) (simp_all add: all_types_def)

lemma type_name_eq: "type_name a = type_name b \<Longrightarrow> a = b"
  by (cases a; cases b) simp_all

lemma type_from_str_name: "type_from_str (type_name t) = Some t"
proof -
  have "find (\<lambda>u. type_name u = type_name t) all_types \<noteq> None"
    using type_in_all by (auto simp: find_None_iff)
  then show ?thesis
    by (auto simp: type_from_str_def dest: find_Some type_name_eq)
qed

lemma type_name_plain: "type_name t \<noteq> '''' \<and> CHR '':'' \<notin> set (type_name t) \<and> list_all ascii (type_name t)"
  by (cases t) (simp_all add: ascii_def between_def)

lemma show_nat_ascii: "list_all ascii (show_nat n)"
proof -
  have "is_ascii_digit c \<Longrightarrow> ascii c" for c
    by (simp add: is_ascii_digit_def ascii_def between_def Let_def)
  then show ?thesis
    using show_nat_digits [of n] by (simp add: all_digits_def list_all_iff)
qed

lemma show_int_ascii: "list_all ascii (show_int i)"
  using show_nat_ascii by (simp add: show_int_def ascii_def between_def)

lemma split_three_encoded:
  "split_three (''v1'' @ '':'' @ type_name t @ '':'' @ s) = Some (''v1'', type_name t, s)"
proof -
  have "split_once (CHR '':'') (type_name t @ CHR '':'' # s) = Some (type_name t, s)"
    using type_name_plain [of t] by (intro split_once_append) simp
  then show ?thesis by (simp add: split_three_def)
qed

lemma decode_encoded:
  assumes "base64_law x"
  shows "decode_global_id x (encoded_string x g) = Inr g"
proof -
  let ?plain = "''v1'' @ '':'' @ type_name (gid_typ g) @ '':'' @ show_int (sint (gid_id g))"
  have "utf8_valid ?plain"
    using type_name_plain show_int_ascii
    by (intro utf8_valid_ascii) (simp add: ascii_def between_def)
  moreover have "x_b64_decode x (encoded_string x g) = Some ?plain"
    using assms by (simp add: base64_law_def encoded_string_def encode_global_id_def)
  ultimately show ?thesis
    unfolding decode_global_id_def
    using type_name_plain [of "gid_typ g"] show_int_nonempty [of "sint (gid_id g)"]
    by (simp only: option.case split_three_encoded prod.case type_from_str_name parse_show_int
        in_i64_sint Let_def) (cases g, simp)
qed

text \<open>C40: Identifiers are opaque and canonical: decoding accepts exactly the texts that encoding
  produces, and gives back what was encoded. So no two texts stand for one object, no text stands for
  two, and the check of the type refuses an identifier of any other type.\<close>

theorem global_id_roundtrip:
  assumes "base64_law x"
  shows "(decode_global_id x s = Inr g \<longleftrightarrow> s = encoded_string x g)
    \<and> (i64_of_type g expected = Inr i \<longleftrightarrow> g = \<lparr>gid_typ = expected, gid_id = i\<rparr>)"
proof (intro conjI iffI)
  assume "decode_global_id x s = Inr g"
  then show "s = encoded_string x g"
    by (auto simp: decode_global_id_def Let_def split: option.splits prod.splits if_splits)
next
  assume "s = encoded_string x g"
  then show "decode_global_id x s = Inr g" by (simp add: decode_encoded [OF assms])
qed (auto simp: i64_of_type_def split: if_splits)

lemma global_id_roundtrip_witness:
  "decode_global_id \<lparr>x_b64_encode = rev, x_b64_decode = (\<lambda>s. Some (rev s))\<rparr> ''7:yrogetaC:1v''
     = Inr \<lparr>gid_typ = Category, gid_id = 7\<rparr>"
proof -
  let ?x = "\<lparr>x_b64_encode = rev, x_b64_decode = (\<lambda>s. Some (rev s))\<rparr>"
  have "base64_law ?x" by (simp add: base64_law_def)
  moreover have "''7:yrogetaC:1v'' = encoded_string ?x \<lparr>gid_typ = Category, gid_id = 7\<rparr>"
    by code_simp
  ultimately show ?thesis using global_id_roundtrip by blast
qed

end
