(* ===== verification/Tx_Tables.thy ===== *)
theory Tx_Tables
  imports Money "HOL-Library.List_Lexorder" "HOL-Library.Product_Lexorder"
begin

text \<open>
  The tables of the transaction component and its statements (src/server-rs/src/database/queries.rs,
  generated from src/server-rs/sql/queries). Row keys are integers, amounts are cents, timestamps
  whole seconds; the columns \<open>created_at\<close>, \<open>updated_at\<close> and \<open>health_updated_at\<close>, which no statement
  here reads, and the message beside a health state of a Plaid item, are left out. A time that SQLite
  takes itself is a reading of the same clock. SQLite's \<open>lower\<close> folds ASCII letters only, and \<open>instr\<close> on texts finds a substring.
\<close>

section \<open>Rows\<close>

record account_row =
  acc_id :: int
  acc_external_id :: string
  acc_connection_id :: "int option"
  acc_owner_id :: int
  acc_name :: string
  acc_type :: string
  acc_subtype :: "string option"
  acc_mask :: "string option"
  acc_notes :: "string option"
  acc_is_closed :: bool
  acc_is_hidden :: bool
  acc_needs_review :: bool
  acc_review_reason :: "string option"
  acc_manual :: bool

record connection_row =
  con_id :: int
  con_source_table :: string
  con_source_id :: int
  con_name :: "string option"
  con_owner_id :: int
  con_is_active :: bool

record owner_row =
  own_id :: int
  own_name :: string

record category_row =
  cat_id :: int
  cat_name :: string
  cat_kind :: string

record txn_row =
  txn_id :: int
  txn_source :: string
  txn_external_id :: string
  txn_account_id :: int
  txn_amount_cents :: cents
  txn_datetime :: int
  txn_posted_datetime :: int
  txn_merchant_name :: "string option"
  txn_original_name :: "string option"
  txn_logo_url :: "string option"
  txn_category_id :: int
  txn_is_reviewed :: bool
  txn_is_recurring :: bool
  txn_is_hidden :: bool
  txn_pending :: bool
  txn_notes :: "string option"
  txn_plaid_category :: "string option"
  txn_raw_provider_json :: "string option"
  txn_staged_for_llm :: bool
  txn_pfc2_categorized :: bool

record rule_row =
  rul_id :: int
  rul_merchant_pattern :: string
  rul_original_pattern :: string
  rul_merchant_name :: "string option"
  rul_category_id :: "int option"
  rul_should_hide :: "bool option"
  rul_should_be_recurring :: "bool option"
  rul_amount_min_cents :: "cents option"
  rul_amount_max_cents :: "cents option"
  rul_priority :: int

record charge_row =
  chg_id :: int
  chg_external_id :: string
  chg_account_id :: int
  chg_description :: string
  chg_merchant_name :: "string option"
  chg_frequency :: string
  chg_status :: string
  chg_is_active :: bool
  chg_average_amount_cents :: cents
  chg_last_amount_cents :: cents
  chg_first_date :: string
  chg_last_date :: string
  chg_is_user_modified :: bool

record item_row =
  pit_id :: int
  pit_access_token :: string
  pit_credential_id :: int
  pit_cursor :: "string option"
  pit_last_synced_at :: "int option"
  pit_next_sync_at :: "int option"
  pit_next_recurring_sync_at :: "int option"
  pit_sync_cron :: string
  pit_recurring_sync_cron :: string
  pit_investments_enabled :: bool
  pit_logo_url :: "string option"
  pit_health_state :: string
  pit_health_error_code :: "string option"

record credential_row =
  crd_id :: int
  crd_client_id :: string
  crd_secret :: string
  crd_environment :: string

record sync_log_row =
  slr_item_id :: int
  slr_api :: string
  slr_added :: string
  slr_modified :: string
  slr_removed :: string

record sf_token_row =
  sft_id :: int
  sft_access_url :: string
  sft_owner_id :: int
  sft_last_synced_at :: "int option"
  sft_next_sync_at :: "int option"
  sft_sync_cron :: string

record sf_connection_row =
  sfc_id :: int
  sfc_external_id :: string
  sfc_access_token_id :: int
  sfc_org_id :: "string option"
  sfc_org_domain :: "string option"
  sfc_org_url :: "string option"
  sfc_sfin_url :: "string option"
  sfc_logo_url :: "string option"
  sfc_health_state :: string
  sfc_health_error_message :: "string option"
  sfc_last_synced_at :: "int option"

record sf_log_row =
  sfl_access_token_id :: int
  sfl_start_date :: "string option"
  sfl_added :: string
  sfl_modified :: string
  sfl_pending_removed :: string
  sfl_error :: "string option"

record tx_tables =
  b_owners :: "owner_row list"
  b_connections :: "connection_row list"
  b_accounts :: "account_row list"
  b_categories :: "category_row list"
  b_tags :: "int list"
  b_transactions :: "txn_row list"
  b_transaction_tags :: "(int \<times> int) list"
  b_rules :: "rule_row list"
  b_rule_accounts :: "(int \<times> int) list"
  b_rule_tags :: "(int \<times> int) list"
  b_mappings :: "(string \<times> int) list"
  b_charges :: "charge_row list"
  b_charge_transactions :: "(int \<times> int) list"
  b_credentials :: "credential_row list"
  b_items :: "item_row list"
  b_sync_log :: "sync_log_row list"
  b_sf_tokens :: "sf_token_row list"
  b_sf_connections :: "sf_connection_row list"
  b_sf_log :: "sf_log_row list"

type_synonym 'a tx_io = "(tx_tables, 'a) io"
type_synonym 'a tx_db = "(tx_tables, 'a) fallible"

text \<open>Pairs are keys: an insert that is to be ignored on a conflict adds what is not there.\<close>

definition insert_or_ignore :: "'a list \<Rightarrow> 'a list \<Rightarrow> 'a list" where
  "insert_or_ignore new rows = rows @ remdups (filter (\<lambda>x. x \<notin> set rows) new)"

lemma set_insert_or_ignore [simp]: "set (insert_or_ignore new rows) = set rows \<union> set new"
  by (auto simp: insert_or_ignore_def)

lemma insert_or_ignore_again [simp]: "set new \<subseteq> set rows \<Longrightarrow> insert_or_ignore new rows = rows"
  by (auto simp: insert_or_ignore_def filter_empty_conv)

section \<open>Text in SQL\<close>

fun instr :: "string \<Rightarrow> string \<Rightarrow> bool" where
  "instr [] p = (p = [])"
| "instr (c # s) p = (starts_with p (c # s) \<or> instr s p)"

abbreviation lower :: "string \<Rightarrow> string" where
  "lower \<equiv> to_ascii_lowercase"

definition signed_le :: "cents \<Rightarrow> cents \<Rightarrow> bool" where
  "signed_le a b \<longleftrightarrow> sint a \<le> sint b"

section \<open>Accounts\<close>

text \<open>Accounts joined with their owners, by external ids.\<close>

definition account_records :: "string list \<Rightarrow> account_row list tx_db" where
  "account_records external_ids = select (\<lambda>t.
     map snd (sort_key (\<lambda>(owner, a). (own_name owner, acc_name a))
       (concat (map (\<lambda>a. map (\<lambda>owner. (owner, a))
           (filter (\<lambda>owner. own_id owner = acc_owner_id a) (b_owners t)))
         (filter (\<lambda>a. acc_external_id a \<in> set external_ids) (b_accounts t))))))"

definition fk_account :: "tx_tables \<Rightarrow> account_row \<Rightarrow> bool" where
  "fk_account t a \<longleftrightarrow> acc_owner_id a \<in> own_id ` set (b_owners t)
     \<and> (case acc_connection_id a of None \<Rightarrow> True | Some c \<Rightarrow> c \<in> con_id ` set (b_connections t))"

definition upsert_account_row :: "account_row \<Rightarrow> int tx_db" where
  "upsert_account_row p = statement (\<lambda>t.
     case find (\<lambda>a. acc_external_id a = acc_external_id p) (b_accounts t) of
       None \<Rightarrow>
         (let a = p\<lparr>acc_id := next_id (map acc_id (b_accounts t)),
                acc_review_reason := (if acc_needs_review p then Some ''TYPE'' else None), acc_manual := False\<rparr>
          in if fk_account t a then Inr (acc_id a, t\<lparr>b_accounts := b_accounts t @ [a]\<rparr>) else Inl Constraint)
     | Some old \<Rightarrow>
         (let a = old\<lparr>acc_connection_id := acc_connection_id p, acc_owner_id := acc_owner_id p,
                acc_subtype := (case acc_subtype old of None \<Rightarrow> acc_subtype p | Some s \<Rightarrow> Some s),
                acc_mask := (case acc_mask old of None \<Rightarrow> acc_mask p | Some s \<Rightarrow> Some s)\<rparr>
          in if fk_account t a
             then Inr (acc_id a, t\<lparr>b_accounts := update_rows (\<lambda>x. acc_id x = acc_id old) (\<lambda>_. a) (b_accounts t)\<rparr>)
             else Inl Constraint))"

text \<open>The accounts of a Plaid item, for the statement's other filter.\<close>

definition account_records_of_item :: "int \<Rightarrow> account_row list tx_db" where
  "account_records_of_item item_id = select (\<lambda>t.
     map snd (sort_key (\<lambda>(owner, a). (own_name owner, acc_name a))
       (concat (map (\<lambda>a. map (\<lambda>owner. (owner, a))
           (filter (\<lambda>owner. own_id owner = acc_owner_id a) (b_owners t)))
         (filter (\<lambda>a. \<exists>c \<in> set (b_connections t). acc_connection_id a = Some (con_id c)
            \<and> con_source_table c = ''plaid_items'' \<and> con_source_id c = item_id) (b_accounts t))))))"

section \<open>Transactions\<close>

definition synced_transaction_state :: "string \<Rightarrow> string \<Rightarrow> (bool \<times> int) option tx_db" where
  "synced_transaction_state external_id source = select (\<lambda>t.
     map_option (\<lambda>r. (txn_is_reviewed r, txn_category_id r))
       (find (\<lambda>r. txn_external_id r = external_id \<and> txn_source r = source) (b_transactions t)))"

definition fk_txn :: "tx_tables \<Rightarrow> txn_row \<Rightarrow> bool" where
  "fk_txn t r \<longleftrightarrow> txn_account_id r \<in> acc_id ` set (b_accounts t)
     \<and> txn_category_id r \<in> cat_id ` set (b_categories t)"

definition txn_key :: "txn_row \<Rightarrow> string \<times> string" where
  "txn_key r = (txn_source r, txn_external_id r)"

text \<open>What a synced transaction changes in the row that is already there.\<close>

definition merge_synced :: "txn_row \<Rightarrow> txn_row \<Rightarrow> txn_row" where
  "merge_synced p old =
     old\<lparr>txn_account_id := txn_account_id p, txn_amount_cents := txn_amount_cents p,
         txn_datetime := txn_datetime p, txn_posted_datetime := txn_posted_datetime p,
         txn_merchant_name := txn_merchant_name p, txn_original_name := txn_original_name p,
         txn_logo_url := txn_logo_url p,
         txn_category_id := (if txn_is_reviewed old then txn_category_id old else txn_category_id p),
         txn_is_reviewed := (if txn_is_reviewed old then txn_is_reviewed old else txn_is_reviewed p),
         txn_staged_for_llm := (if txn_is_reviewed old then txn_staged_for_llm old else txn_staged_for_llm p),
         txn_pfc2_categorized :=
           (if txn_is_reviewed old then txn_pfc2_categorized old else txn_pfc2_categorized p),
         txn_plaid_category := txn_plaid_category p, txn_raw_provider_json := txn_raw_provider_json p,
         txn_pending := txn_pending p\<rparr>"

definition replace_txn :: "txn_row \<Rightarrow> tx_tables \<Rightarrow> error + int \<times> tx_tables" where
  "replace_txn r t =
     (if fk_txn t r
      then Inr (txn_id r, t\<lparr>b_transactions := update_rows (\<lambda>x. txn_id x = txn_id r) (\<lambda>_. r) (b_transactions t)\<rparr>)
      else Inl Constraint)"

definition append_txn :: "txn_row \<Rightarrow> tx_tables \<Rightarrow> error + int \<times> tx_tables" where
  "append_txn p t =
     (let r = p\<lparr>txn_id := next_id (map txn_id (b_transactions t))\<rparr>
      in if fk_txn t r then Inr (txn_id r, t\<lparr>b_transactions := b_transactions t @ [r]\<rparr>) else Inl Constraint)"

definition upsert_synced_row :: "txn_row \<Rightarrow> int tx_db" where
  "upsert_synced_row p = statement (\<lambda>t.
     case find (\<lambda>r. txn_key r = txn_key p) (b_transactions t) of
       None \<Rightarrow> append_txn (p\<lparr>txn_notes := None\<rparr>) t
     | Some old \<Rightarrow> replace_txn (merge_synced p old) t)"

definition insert_transaction_row :: "txn_row \<Rightarrow> int option tx_db" where
  "insert_transaction_row p = statement (\<lambda>t.
     if txn_key p \<in> txn_key ` set (b_transactions t) then Inr (None, t)
     else case append_txn (p\<lparr>txn_pending := False, txn_logo_url := None, txn_plaid_category := None,
            txn_raw_provider_json := None, txn_staged_for_llm := False, txn_pfc2_categorized := False\<rparr>) t of
       Inl e \<Rightarrow> Inl e
     | Inr (i, t') \<Rightarrow> Inr (Some i, t'))"

definition merge_imported :: "txn_row \<Rightarrow> txn_row \<Rightarrow> txn_row" where
  "merge_imported p old =
     old\<lparr>txn_account_id := txn_account_id p, txn_amount_cents := txn_amount_cents p,
         txn_datetime := txn_datetime p, txn_posted_datetime := txn_posted_datetime p,
         txn_merchant_name := txn_merchant_name p, txn_original_name := txn_original_name p,
         txn_category_id := txn_category_id p, txn_is_reviewed := txn_is_reviewed p,
         txn_is_recurring := txn_is_recurring p, txn_is_hidden := txn_is_hidden p,
         txn_notes := txn_notes p, txn_staged_for_llm := False, txn_pfc2_categorized := False\<rparr>"

definition update_by_source_external_id :: "txn_row \<Rightarrow> int tx_db" where
  "update_by_source_external_id p = statement (\<lambda>t.
     case find (\<lambda>r. txn_key r = txn_key p) (b_transactions t) of
       None \<Rightarrow> Inl DbFault
     | Some old \<Rightarrow> replace_txn (merge_imported p old) t)"

text \<open>Deleting a transaction deletes its tags and its links to recurring charges.\<close>

definition delete_transactions :: "(txn_row \<Rightarrow> bool) \<Rightarrow> tx_tables \<Rightarrow> tx_tables" where
  "delete_transactions P t =
     (let gone = txn_id ` set (filter P (b_transactions t))
      in t\<lparr>b_transactions := delete_rows P (b_transactions t),
           b_transaction_tags := delete_rows (\<lambda>(txn, tag). txn \<in> gone) (b_transaction_tags t),
           b_charge_transactions := delete_rows (\<lambda>(charge, txn). txn \<in> gone) (b_charge_transactions t)\<rparr>)"

definition delete_synced_row :: "string \<Rightarrow> string \<Rightarrow> nat tx_db" where
  "delete_synced_row source external_id = exec_rows (\<lambda>t.
     let P = (\<lambda>r. txn_source r = source \<and> txn_external_id r = external_id)
     in (count_rows P (b_transactions t), delete_transactions P t))"

definition add_transaction_tags :: "int list \<Rightarrow> int list \<Rightarrow> unit tx_db" where
  "add_transaction_tags tag_ids transaction_ids = exec (\<lambda>t.
     t\<lparr>b_transaction_tags := insert_or_ignore
         (concat (map (\<lambda>r. map (\<lambda>tag. (txn_id r, tag)) (filter (\<lambda>tag. tag \<in> set tag_ids) (b_tags t)))
           (filter (\<lambda>r. txn_id r \<in> set transaction_ids) (b_transactions t))))
         (b_transaction_tags t)\<rparr>)"

text \<open>\<open>None\<close> leaves a column as it is. Setting the category marks the transaction as reviewed.\<close>

record field_updates =
  set_merchant_name :: "string option option"
  set_notes :: "string option option"
  set_recurring :: "bool option"
  set_hidden :: "bool option"
  set_category :: "int option"

definition update_fields :: "field_updates \<Rightarrow> txn_row \<Rightarrow> txn_row" where
  "update_fields u r =
     r\<lparr>txn_merchant_name := (case set_merchant_name u of Some v \<Rightarrow> v | None \<Rightarrow> txn_merchant_name r),
       txn_notes := (case set_notes u of Some v \<Rightarrow> v | None \<Rightarrow> txn_notes r),
       txn_is_recurring := (case set_recurring u of Some v \<Rightarrow> v | None \<Rightarrow> txn_is_recurring r),
       txn_is_hidden := (case set_hidden u of Some v \<Rightarrow> v | None \<Rightarrow> txn_is_hidden r),
       txn_category_id := (case set_category u of Some v \<Rightarrow> v | None \<Rightarrow> txn_category_id r),
       txn_is_reviewed := (if set_category u \<noteq> None then True else txn_is_reviewed r),
       txn_staged_for_llm := (if set_category u \<noteq> None then False else txn_staged_for_llm r),
       txn_pfc2_categorized := (if set_category u \<noteq> None then False else txn_pfc2_categorized r)\<rparr>"

definition update_transaction_fields :: "field_updates \<Rightarrow> int list \<Rightarrow> nat tx_db" where
  "update_transaction_fields u ids = statement (\<lambda>t.
     let P = (\<lambda>r. txn_id r \<in> set ids)
     in if (\<forall>r \<in> set (b_transactions t). P r \<longrightarrow> fk_txn t (update_fields u r))
        then Inr (count_rows P (b_transactions t),
          t\<lparr>b_transactions := update_rows P (update_fields u) (b_transactions t)\<rparr>)
        else Inl Constraint)"

section \<open>Categories and mappings\<close>

text \<open>Categories are listed in their sort order; \<open>b_categories\<close> holds them in that order.\<close>

definition list_categories :: "category_row list tx_db" where
  "list_categories = select b_categories"

definition plaid_category_id_by_detailed :: "string \<Rightarrow> int option tx_db" where
  "plaid_category_id_by_detailed detailed = select (\<lambda>t.
     map_option snd (find (\<lambda>(d, c). d = detailed) (b_mappings t)))"

section \<open>Rules\<close>

definition rule_text_match :: "string \<Rightarrow> string \<Rightarrow> rule_row \<Rightarrow> bool" where
  "rule_text_match merchant original_name r \<longleftrightarrow>
     rul_merchant_pattern r \<noteq> '''' \<and> instr (lower merchant) (lower (rul_merchant_pattern r))
     \<or> rul_original_pattern r \<noteq> '''' \<and> instr (lower original_name) (lower (rul_original_pattern r))"

definition rule_amount_match :: "cents \<Rightarrow> rule_row \<Rightarrow> bool" where
  "rule_amount_match amount r \<longleftrightarrow>
     (case rul_amount_min_cents r of None \<Rightarrow> True | Some m \<Rightarrow> signed_le m amount)
     \<and> (case rul_amount_max_cents r of None \<Rightarrow> True | Some m \<Rightarrow> signed_le amount m)"

definition rule_account_match :: "tx_tables \<Rightarrow> int \<Rightarrow> rule_row \<Rightarrow> bool" where
  "rule_account_match t account_id r \<longleftrightarrow>
     (case filter (\<lambda>(rule, account). rule = rul_id r) (b_rule_accounts t) of
        [] \<Rightarrow> True
      | accounts \<Rightarrow> account_id \<in> snd ` set accounts)"

definition rule_matches :: "tx_tables \<Rightarrow> string \<Rightarrow> string \<Rightarrow> cents \<Rightarrow> int \<Rightarrow> rule_row \<Rightarrow> bool" where
  "rule_matches t merchant original_name amount account_id r \<longleftrightarrow>
     rule_text_match merchant original_name r \<and> rule_amount_match amount r
     \<and> rule_account_match t account_id r"

definition best_rule :: "tx_tables \<Rightarrow> string \<Rightarrow> string \<Rightarrow> cents \<Rightarrow> int \<Rightarrow> rule_row option" where
  "best_rule t merchant original_name amount account_id =
     (case sort_key (\<lambda>r. (- rul_priority r, - rul_id r))
         (filter (rule_matches t merchant original_name amount account_id) (b_rules t)) of
        [] \<Rightarrow> None | r # _ \<Rightarrow> Some r)"

text \<open>The tags come as one text, \<open>group_concat(tag_id, ',')\<close>.\<close>

definition rule_tag_text :: "tx_tables \<Rightarrow> rule_row \<Rightarrow> string" where
  "rule_tag_text t r =
     join '','' (map (\<lambda>(rule, tag). show_int tag) (filter (\<lambda>(rule, tag). rule = rul_id r) (b_rule_tags t)))"

definition auto_rule_result ::
    "string \<Rightarrow> string \<Rightarrow> cents \<Rightarrow> int \<Rightarrow> (rule_row \<times> string) option tx_db" where
  "auto_rule_result merchant original_name amount account_id = select (\<lambda>t.
     map_option (\<lambda>r. (r, rule_tag_text t r)) (best_rule t merchant original_name amount account_id))"

definition fk_rule :: "tx_tables \<Rightarrow> rule_row \<Rightarrow> bool" where
  "fk_rule t r \<longleftrightarrow> (case rul_category_id r of None \<Rightarrow> True | Some c \<Rightarrow> c \<in> cat_id ` set (b_categories t))"

definition create_rule_row :: "rule_row \<Rightarrow> int tx_db" where
  "create_rule_row p = statement (\<lambda>t.
     let r = p\<lparr>rul_id := next_id (map rul_id (b_rules t))\<rparr>
     in if fk_rule t r then Inr (rul_id r, t\<lparr>b_rules := b_rules t @ [r]\<rparr>) else Inl Constraint)"

definition update_rule_row :: "rule_row \<Rightarrow> nat tx_db" where
  "update_rule_row p = statement (\<lambda>t.
     let P = (\<lambda>r. rul_id r = rul_id p)
     in if count_rows P (b_rules t) > 0 \<and> \<not> fk_rule t p then Inl Constraint
        else Inr (count_rows P (b_rules t), t\<lparr>b_rules := update_rows P (\<lambda>_. p) (b_rules t)\<rparr>))"

definition delete_rule_row :: "int \<Rightarrow> nat tx_db" where
  "delete_rule_row ident = exec_rows (\<lambda>t.
     (count_rows (\<lambda>r. rul_id r = ident) (b_rules t),
      t\<lparr>b_rules := delete_rows (\<lambda>r. rul_id r = ident) (b_rules t),
        b_rule_accounts := delete_rows (\<lambda>(rule, account). rule = ident) (b_rule_accounts t),
        b_rule_tags := delete_rows (\<lambda>(rule, tag). rule = ident) (b_rule_tags t)\<rparr>))"

definition delete_rule_accounts :: "int \<Rightarrow> unit tx_db" where
  "delete_rule_accounts rule_id = exec (\<lambda>t.
     t\<lparr>b_rule_accounts := delete_rows (\<lambda>(rule, account). rule = rule_id) (b_rule_accounts t)\<rparr>)"

definition insert_rule_account :: "int \<Rightarrow> int \<Rightarrow> unit tx_db" where
  "insert_rule_account rule_id account_id = statement (\<lambda>t.
     if (rule_id, account_id) \<in> set (b_rule_accounts t) \<or> rule_id \<notin> rul_id ` set (b_rules t)
        \<or> account_id \<notin> acc_id ` set (b_accounts t) then Inl Constraint
     else Inr ((), t\<lparr>b_rule_accounts := b_rule_accounts t @ [(rule_id, account_id)]\<rparr>))"

definition delete_rule_tags :: "int \<Rightarrow> unit tx_db" where
  "delete_rule_tags rule_id = exec (\<lambda>t.
     t\<lparr>b_rule_tags := delete_rows (\<lambda>(rule, tag). rule = rule_id) (b_rule_tags t)\<rparr>)"

text \<open>\<open>INSERT OR IGNORE\<close> ignores a taken key; a missing tag or rule is still an error.\<close>

definition insert_rule_tag :: "int \<Rightarrow> int \<Rightarrow> unit tx_db" where
  "insert_rule_tag rule_id tag_id = statement (\<lambda>t.
     if (rule_id, tag_id) \<in> set (b_rule_tags t) then Inr ((), t)
     else if rule_id \<notin> rul_id ` set (b_rules t) \<or> tag_id \<notin> set (b_tags t) then Inl Constraint
     else Inr ((), t\<lparr>b_rule_tags := b_rule_tags t @ [(rule_id, tag_id)]\<rparr>))"

text \<open>The transactions a rule applies to when it is applied to those that are already there. An
  absent filter is left out of the statement.\<close>

definition retroactive_match ::
    "string option \<Rightarrow> string option \<Rightarrow> cents option \<Rightarrow> cents option \<Rightarrow> int list option \<Rightarrow> txn_row \<Rightarrow> bool" where
  "retroactive_match merchant_pattern original_pattern amount_min amount_max account_ids x \<longleftrightarrow>
     (False
      \<or> (case merchant_pattern of None \<Rightarrow> False | Some p \<Rightarrow>
           instr (lower (case txn_merchant_name x of Some m \<Rightarrow> m | None \<Rightarrow>
             (case txn_original_name x of Some m \<Rightarrow> m | None \<Rightarrow> ''''))) p)
      \<or> (case original_pattern of None \<Rightarrow> False | Some p \<Rightarrow>
           instr (lower (case txn_original_name x of Some m \<Rightarrow> m | None \<Rightarrow> '''')) p))
     \<and> (case amount_min of None \<Rightarrow> True | Some m \<Rightarrow> signed_le m (txn_amount_cents x))
     \<and> (case amount_max of None \<Rightarrow> True | Some m \<Rightarrow> signed_le (txn_amount_cents x) m)
     \<and> (case account_ids of None \<Rightarrow> True | Some ids \<Rightarrow> txn_account_id x \<in> set ids)"

definition retroactive_rule_transaction_ids ::
    "string option \<Rightarrow> string option \<Rightarrow> cents option \<Rightarrow> cents option \<Rightarrow> int list option \<Rightarrow> int list tx_db" where
  "retroactive_rule_transaction_ids merchant_pattern original_pattern amount_min amount_max account_ids =
     select (\<lambda>t. map txn_id (filter
       (retroactive_match merchant_pattern original_pattern amount_min amount_max account_ids)
       (b_transactions t)))"

section \<open>Recurring charges\<close>

definition upsert_recurring_row :: "charge_row \<Rightarrow> int tx_db" where
  "upsert_recurring_row p = statement (\<lambda>t.
     if chg_account_id p \<notin> acc_id ` set (b_accounts t) then Inl Constraint
     else case find (\<lambda>c. chg_external_id c = chg_external_id p) (b_charges t) of
       None \<Rightarrow>
         (let c = p\<lparr>chg_id := next_id (map chg_id (b_charges t))\<rparr>
          in Inr (chg_id c, t\<lparr>b_charges := b_charges t @ [c]\<rparr>))
     | Some old \<Rightarrow>
         Inr (chg_id old, t\<lparr>b_charges :=
           update_rows (\<lambda>c. chg_id c = chg_id old) (\<lambda>_. p\<lparr>chg_id := chg_id old\<rparr>) (b_charges t)\<rparr>))"

definition delete_charge_transactions :: "int \<Rightarrow> unit tx_db" where
  "delete_charge_transactions charge_id = exec (\<lambda>t.
     t\<lparr>b_charge_transactions := delete_rows (\<lambda>(charge, txn). charge = charge_id) (b_charge_transactions t)\<rparr>)"

definition insert_charge_transactions :: "int \<Rightarrow> string list \<Rightarrow> unit tx_db" where
  "insert_charge_transactions charge_id external_ids = statement (\<lambda>t.
     let txns = filter (\<lambda>r. txn_source r = ''plaid'' \<and> txn_external_id r \<in> set external_ids) (b_transactions t)
     in if txns \<noteq> [] \<and> charge_id \<notin> chg_id ` set (b_charges t) then Inl Constraint
        else Inr ((), t\<lparr>b_charge_transactions :=
          insert_or_ignore (map (\<lambda>r. (charge_id, txn_id r)) txns) (b_charge_transactions t)\<rparr>))"

definition accounts_of_item :: "tx_tables \<Rightarrow> int \<Rightarrow> int list" where
  "accounts_of_item t item_id =
     map acc_id (filter (\<lambda>a. \<exists>c \<in> set (b_connections t). acc_connection_id a = Some (con_id c)
       \<and> con_source_id c = item_id \<and> con_source_table c = ''plaid_items'') (b_accounts t))"

definition in_active_charge :: "tx_tables \<Rightarrow> int \<Rightarrow> txn_row \<Rightarrow> bool" where
  "in_active_charge t item_id r \<longleftrightarrow>
     (\<exists>c \<in> set (b_charges t). chg_is_active c \<and> (chg_id c, txn_id r) \<in> set (b_charge_transactions t)
        \<and> chg_account_id c \<in> set (accounts_of_item t item_id))"

definition update_recurring_for_item :: "int \<Rightarrow> unit tx_db" where
  "update_recurring_for_item item_id = exec (\<lambda>t.
     t\<lparr>b_transactions := update_rows
         (\<lambda>r. txn_account_id r \<in> set (accounts_of_item t item_id)
            \<and> txn_is_recurring r \<noteq> in_active_charge t item_id r)
         (\<lambda>r. r\<lparr>txn_is_recurring := in_active_charge t item_id r\<rparr>) (b_transactions t)\<rparr>)"

section \<open>Plaid items\<close>

text \<open>An item that is due with what the join with its connection and owner adds; \<open>due_only\<close> leaves
  out items of inactive connections and those whose next run is in the future.\<close>

record item_secret =
  ise_item :: item_row
  ise_owner_id :: int
  ise_institution_name :: "string option"

definition item_secrets :: "tx_tables \<Rightarrow> (item_row \<Rightarrow> connection_row \<Rightarrow> bool) \<Rightarrow> item_secret list" where
  "item_secrets t P =
     sort_key (\<lambda>i. pit_id (ise_item i)) (concat (map (\<lambda>pi. concat (map (\<lambda>c.
         map (\<lambda>owner. \<lparr>ise_item = pi, ise_owner_id = con_owner_id c, ise_institution_name = con_name c\<rparr>)
           (filter (\<lambda>owner. own_id owner = con_owner_id c) (b_owners t)))
       (filter (\<lambda>c. con_source_id c = pit_id pi \<and> con_source_table c = ''plaid_items'' \<and> P pi c)
         (b_connections t)))) (b_items t)))"

definition due_at :: "int \<Rightarrow> int option \<Rightarrow> bool" where
  "due_at now at \<longleftrightarrow> (case at of None \<Rightarrow> True | Some a \<Rightarrow> a \<le> now)"

definition plaid_items_due :: "bool \<Rightarrow> int \<Rightarrow> item_secret list tx_db" where
  "plaid_items_due recurring now = select (\<lambda>t. item_secrets t (\<lambda>pi c. con_is_active c
     \<and> due_at (to_timestamp now) (if recurring then pit_next_recurring_sync_at pi else pit_next_sync_at pi)))"

definition plaid_item_secret_by_id :: "int \<Rightarrow> item_secret option tx_db" where
  "plaid_item_secret_by_id ident = select (\<lambda>t.
     case item_secrets t (\<lambda>pi c. pit_id pi = ident) of [] \<Rightarrow> None | i # _ \<Rightarrow> Some i)"

definition update_item :: "int \<Rightarrow> (item_row \<Rightarrow> item_row) \<Rightarrow> unit tx_db" where
  "update_item ident f = exec (\<lambda>t. t\<lparr>b_items := update_rows (\<lambda>i. pit_id i = ident) f (b_items t)\<rparr>)"

definition sync_cursor_row :: "int \<Rightarrow> string option option tx_db" where
  "sync_cursor_row ident = select (\<lambda>t. map_option pit_cursor (find (\<lambda>i. pit_id i = ident) (b_items t)))"

definition set_sync_cursor_row :: "bool \<Rightarrow> string option \<Rightarrow> int option \<Rightarrow> int \<Rightarrow> unit tx_db" where
  "set_sync_cursor_row set_cursor cursor next_sync_at ident =
     try_bind (lift utc_now) (\<lambda>now. update_item ident (\<lambda>i. i\<lparr>
       pit_cursor := (if set_cursor then cursor else pit_cursor i), pit_next_sync_at := next_sync_at,
       pit_last_synced_at := Some (to_timestamp now)\<rparr>))"

definition plaid_credential_secret_by_id :: "int \<Rightarrow> credential_row option tx_db" where
  "plaid_credential_secret_by_id ident = select (\<lambda>t. find (\<lambda>c. crd_id c = ident) (b_credentials t))"

definition set_item_recurring_synced_row :: "int option \<Rightarrow> int \<Rightarrow> unit tx_db" where
  "set_item_recurring_synced_row next_recurring_sync_at ident =
     update_item ident (\<lambda>i. i\<lparr>pit_next_recurring_sync_at := next_recurring_sync_at\<rparr>)"

definition set_plaid_item_health_row :: "string \<Rightarrow> string option \<Rightarrow> int \<Rightarrow> unit tx_db" where
  "set_plaid_item_health_row state code ident =
     update_item ident (\<lambda>i. i\<lparr>pit_health_state := state, pit_health_error_code := code\<rparr>)"

definition log_sync_batch_row :: "sync_log_row \<Rightarrow> unit tx_db" where
  "log_sync_batch_row row = statement (\<lambda>t.
     if slr_item_id row \<in> pit_id ` set (b_items t) then Inr ((), t\<lparr>b_sync_log := b_sync_log t @ [row]\<rparr>)
     else Inl Constraint)"

section \<open>Connections\<close>

definition connection_by_source :: "string \<Rightarrow> int \<Rightarrow> connection_row option tx_db" where
  "connection_by_source source_table source_id = select (\<lambda>t.
     find (\<lambda>c. con_source_table c = source_table \<and> con_source_id c = source_id) (b_connections t))"

definition upsert_connection_row :: "string \<Rightarrow> int \<Rightarrow> string option \<Rightarrow> int \<Rightarrow> int tx_db" where
  "upsert_connection_row source_table source_id name owner_id = statement (\<lambda>t.
     if owner_id \<notin> own_id ` set (b_owners t) then Inl Constraint
     else case find (\<lambda>c. con_source_table c = source_table \<and> con_source_id c = source_id) (b_connections t) of
       None \<Rightarrow>
         (let c = \<lparr>con_id = next_id (map con_id (b_connections t)), con_source_table = source_table,
                con_source_id = source_id, con_name = name, con_owner_id = owner_id, con_is_active = True\<rparr>
          in Inr (con_id c, t\<lparr>b_connections := b_connections t @ [c]\<rparr>))
     | Some old \<Rightarrow>
         Inr (con_id old, t\<lparr>b_connections := update_rows (\<lambda>c. con_id c = con_id old)
           (\<lambda>c. c\<lparr>con_is_active := True, con_name := (case name of None \<Rightarrow> con_name c | Some n \<Rightarrow> Some n),
                 con_owner_id := owner_id\<rparr>) (b_connections t)\<rparr>))"

definition hidden_account_ids_by_connection :: "int \<Rightarrow> string list tx_db" where
  "hidden_account_ids_by_connection connection_id = select (\<lambda>t.
     map acc_external_id (filter (\<lambda>a. acc_connection_id a = Some connection_id \<and> acc_is_hidden a) (b_accounts t)))"

definition plaid_transaction_ids_in_window :: "string list \<Rightarrow> int \<Rightarrow> int \<Rightarrow> string list tx_db" where
  "plaid_transaction_ids_in_window account_ids datetime_from datetime_to = select (\<lambda>t.
     map txn_external_id (filter (\<lambda>r. txn_source r = ''plaid'' \<and> datetime_from \<le> txn_datetime r
       \<and> txn_datetime r < datetime_to
       \<and> (\<exists>a \<in> set (b_accounts t). acc_id a = txn_account_id r \<and> acc_external_id a \<in> set account_ids))
       (b_transactions t)))"

section \<open>SimpleFIN\<close>

definition simple_fin_tokens_due :: "int \<Rightarrow> sf_token_row list tx_db" where
  "simple_fin_tokens_due now = select (\<lambda>t.
     sort_key sft_id (filter (\<lambda>k. due_at (to_timestamp now) (sft_next_sync_at k)) (b_sf_tokens t)))"

definition simple_fin_token_by_connection :: "int \<Rightarrow> sf_token_row option tx_db" where
  "simple_fin_token_by_connection connection_id = select (\<lambda>t.
     find (\<lambda>k. \<exists>c \<in> set (b_sf_connections t). sfc_id c = connection_id \<and> sfc_access_token_id c = sft_id k)
       (b_sf_tokens t))"

definition set_simple_fin_token_synced_row :: "int option \<Rightarrow> int option \<Rightarrow> int \<Rightarrow> unit tx_db" where
  "set_simple_fin_token_synced_row last_synced_at next_sync_at ident = exec (\<lambda>t.
     t\<lparr>b_sf_tokens := update_rows (\<lambda>k. sft_id k = ident)
        (\<lambda>k. k\<lparr>sft_last_synced_at := last_synced_at, sft_next_sync_at := next_sync_at\<rparr>) (b_sf_tokens t)\<rparr>)"

definition upsert_simple_fin_connection_row :: "sf_connection_row \<Rightarrow> int tx_db" where
  "upsert_simple_fin_connection_row p = statement (\<lambda>t.
     if sfc_access_token_id p \<notin> sft_id ` set (b_sf_tokens t) then Inl Constraint
     else case find (\<lambda>c. sfc_external_id c = sfc_external_id p) (b_sf_connections t) of
       None \<Rightarrow>
         (let c = p\<lparr>sfc_id := next_id (map sfc_id (b_sf_connections t)), sfc_health_state := ''HEALTHY'',
                sfc_health_error_message := None, sfc_last_synced_at := None\<rparr>
          in Inr (sfc_id c, t\<lparr>b_sf_connections := b_sf_connections t @ [c]\<rparr>))
     | Some old \<Rightarrow>
         Inr (sfc_id old, t\<lparr>b_sf_connections := update_rows (\<lambda>c. sfc_id c = sfc_id old)
           (\<lambda>c. c\<lparr>sfc_access_token_id := sfc_access_token_id p, sfc_org_id := sfc_org_id p,
                 sfc_org_domain := sfc_org_domain p, sfc_org_url := sfc_org_url p,
                 sfc_sfin_url := sfc_sfin_url p, sfc_logo_url := sfc_logo_url p\<rparr>) (b_sf_connections t)\<rparr>))"

definition simple_fin_connections_of_token :: "int \<Rightarrow> string list \<Rightarrow> (string \<times> int) list tx_db" where
  "simple_fin_connections_of_token token_id external_ids = select (\<lambda>t.
     map (\<lambda>c. (sfc_external_id c, sfc_id c)) (sort_key sfc_id (filter (\<lambda>c. sfc_access_token_id c = token_id
       \<and> sfc_external_id c \<in> set external_ids
       \<and> (\<exists>k \<in> set (b_connections t). con_source_table k = ''simplefin_connections'' \<and> con_source_id k = sfc_id c))
       (b_sf_connections t))))"

definition set_simple_fin_connection_health_row ::
    "string \<Rightarrow> string option \<Rightarrow> int option \<Rightarrow> int \<Rightarrow> unit tx_db" where
  "set_simple_fin_connection_health_row state message last_synced_at ident = exec (\<lambda>t.
     t\<lparr>b_sf_connections := update_rows (\<lambda>c. sfc_id c = ident)
        (\<lambda>c. c\<lparr>sfc_health_state := state, sfc_health_error_message := message,
              sfc_last_synced_at := last_synced_at\<rparr>) (b_sf_connections t)\<rparr>)"

definition log_simple_fin_sync_batch_row :: "sf_log_row \<Rightarrow> unit tx_db" where
  "log_simple_fin_sync_batch_row row = statement (\<lambda>t.
     if sfl_access_token_id row \<in> sft_id ` set (b_sf_tokens t) then Inr ((), t\<lparr>b_sf_log := b_sf_log t @ [row]\<rparr>)
     else Inl Constraint)"

definition accounts_of_token :: "tx_tables \<Rightarrow> int \<Rightarrow> int list" where
  "accounts_of_token t token_id =
     map acc_id (filter (\<lambda>a. \<exists>c \<in> set (b_connections t). acc_connection_id a = Some (con_id c)
         \<and> con_source_table c = ''simplefin_connections''
         \<and> (\<exists>k \<in> set (b_sf_connections t). con_source_id c = sfc_id k \<and> sfc_access_token_id k = token_id))
       (b_accounts t))"

definition pending_simple_fin_transaction_ids :: "int \<Rightarrow> string list tx_db" where
  "pending_simple_fin_transaction_ids token_id = select (\<lambda>t.
     map txn_external_id (filter (\<lambda>r. txn_account_id r \<in> set (accounts_of_token t token_id)
       \<and> txn_source r = ''simplefin'' \<and> txn_pending r) (b_transactions t)))"

end
