(* ===== verification/Tx_Rules.thy ===== *)
theory Tx_Rules
  imports Tx_Tables Global_Id
begin

text \<open>
  Categorization (src/server-rs/src/transactions/store/auto_categorize.rs) and the rules it uses
  (rules.rs and rule_values.rs beside it): a transaction takes what the best matching rule says, and
  otherwise the category its provider's category is mapped to.
\<close>

section \<open>Categorization\<close>

record auto_category =
  aut_category_id :: "int option"
  aut_merchant_name :: "string option"
  aut_tag_ids :: "int list"
  aut_should_hide :: "bool option"
  aut_should_be_recurring :: "bool option"
  aut_from_pfc2 :: bool

definition no_category :: auto_category where
  "no_category = \<lparr>aut_category_id = None, aut_merchant_name = None, aut_tag_ids = [],
     aut_should_hide = None, aut_should_be_recurring = None, aut_from_pfc2 = False\<rparr>"

fun parse_all :: "string list \<Rightarrow> int list option" where
  "parse_all [] = Some []"
| "parse_all (s # ss) =
     (case parse_i64 s of
        None \<Rightarrow> None
      | Some i \<Rightarrow> (case parse_all ss of None \<Rightarrow> None | Some is \<Rightarrow> Some (i # is)))"

definition parse_tag_ids :: "string \<Rightarrow> int list option" where
  "parse_tag_ids s = parse_all (filter (\<lambda>ident. ident \<noteq> '''') (split_at (CHR '','') s))"

definition auto_categorization_result ::
    "string option \<Rightarrow> string option \<Rightarrow> cents \<Rightarrow> int \<Rightarrow> auto_category tx_db" where
  "auto_categorization_result merchant_name original_name amount account_id =
     (let original_name = (case original_name of Some s \<Rightarrow> s | None \<Rightarrow> '''');
          merchant = (case merchant_name of Some s \<Rightarrow> s | None \<Rightarrow> original_name)
      in try_bind (auto_rule_result merchant original_name amount account_id) (\<lambda>found.
         case found of
           None \<Rightarrow> ok no_category
         | Some (rule, tags) \<Rightarrow>
             try_bind (ok_or ''invalid digit found in string'' (parse_tag_ids tags)) (\<lambda>tag_ids.
             ok \<lparr>aut_category_id = rul_category_id rule, aut_merchant_name = rul_merchant_name rule,
                 aut_tag_ids = tag_ids, aut_should_hide = rul_should_hide rule,
                 aut_should_be_recurring = rul_should_be_recurring rule, aut_from_pfc2 = False\<rparr>)))"

definition plaid_detailed_category :: "string option \<Rightarrow> string" where
  "plaid_detailed_category category =
     (let category = (case category of Some s \<Rightarrow> s | None \<Rightarrow> '''');
          detailed = (case split_once (CHR '':'') category of None \<Rightarrow> category | Some (_, d) \<Rightarrow> d)
      in to_ascii_uppercase (trim detailed))"

definition auto_categorization_result_with_plaid_category ::
    "string option \<Rightarrow> string option \<Rightarrow> cents \<Rightarrow> int \<Rightarrow> string option \<Rightarrow> auto_category tx_db" where
  "auto_categorization_result_with_plaid_category merchant_name original_name amount account_id plaid_category =
     try_bind (auto_categorization_result merchant_name original_name amount account_id) (\<lambda>result.
     if aut_category_id result \<noteq> None then ok result
     else
       (let detailed = plaid_detailed_category plaid_category
        in if detailed = '''' then ok result
           else try_bind (plaid_category_id_by_detailed detailed) (\<lambda>found.
             ok (case found of
                   None \<Rightarrow> result
                 | Some category_id \<Rightarrow>
                     result\<lparr>aut_category_id := Some category_id, aut_from_pfc2 := True\<rparr>))))"

section \<open>Rule input\<close>

text \<open>The input types of the mutations; identifiers are texts.\<close>

record transaction_updates =
  upd_merchant_name :: "string option"
  upd_notes :: "string option"
  upd_is_recurring :: "bool option"
  upd_is_hidden :: "bool option"
  upd_category_id :: "string option"
  upd_tag_ids :: "string list option"

record rule_raw =
  raw_id :: "int option"
  raw_merchant_pattern :: "string option"
  raw_original_pattern :: "string option"
  raw_amount_min :: "cents option"
  raw_amount_max :: "cents option"
  raw_account_ids :: "string list option"
  raw_priority :: "int option"
  raw_apply_retroactively :: "bool option"
  raw_updates :: transaction_updates

record rule_changes =
  rch_category_id :: "int option"
  rch_merchant_name :: "string option"
  rch_tag_ids :: "int list"
  rch_should_hide :: "bool option"
  rch_should_be_recurring :: "bool option"

record rule_values =
  rva_id :: "int option"
  rva_merchant_pattern :: string
  rva_original_pattern :: string
  rva_amount_min :: "cents option"
  rva_amount_max :: "cents option"
  rva_account_ids :: "int list"
  rva_priority :: int
  rva_apply_retroactively :: bool
  rva_changes :: rule_changes

definition trimmed :: "string option \<Rightarrow> string option" where
  "trimmed s =
     (case s of None \<Rightarrow> None | Some s \<Rightarrow> (let s = trim s in if s = '''' then None else Some s))"

definition local_id :: "base64 \<Rightarrow> string \<Rightarrow> global_id_type \<Rightarrow> error + int" where
  "local_id x ident expected =
     (case decode_global_id x ident of
        Inl e \<Rightarrow> Inl e
      | Inr g \<Rightarrow> (case i64_of_type g expected of Inl e \<Rightarrow> Inl e | Inr i \<Rightarrow> Inr (sint i)))"

fun collect_ids :: "(error + int) list \<Rightarrow> error + int list" where
  "collect_ids [] = Inr []"
| "collect_ids (r # rs) =
     (case r of
        Inl e \<Rightarrow> Inl e
      | Inr i \<Rightarrow> (case collect_ids rs of Inl e \<Rightarrow> Inl e | Inr is \<Rightarrow> Inr (i # is)))"

definition local_ids :: "base64 \<Rightarrow> string list option \<Rightarrow> global_id_type \<Rightarrow> error + int list" where
  "local_ids x ids expected =
     collect_ids (map (\<lambda>ident. local_id x ident expected) (case ids of None \<Rightarrow> [] | Some is \<Rightarrow> is))"

definition changes_from_updates :: "base64 \<Rightarrow> transaction_updates \<Rightarrow> error + rule_changes" where
  "changes_from_updates x u =
     (case (case upd_category_id u of
              None \<Rightarrow> Inr None
            | Some ident \<Rightarrow> (case local_id x ident Category of Inl e \<Rightarrow> Inl e | Inr i \<Rightarrow> Inr (Some i))) of
        Inl e \<Rightarrow> Inl e
      | Inr category_id \<Rightarrow>
          (case local_ids x (upd_tag_ids u) Tag of
             Inl e \<Rightarrow> Inl e
           | Inr tag_ids \<Rightarrow>
               Inr \<lparr>rch_category_id = category_id, rch_merchant_name = trimmed (upd_merchant_name u),
                    rch_tag_ids = tag_ids, rch_should_hide = upd_is_hidden u,
                    rch_should_be_recurring = upd_is_recurring u\<rparr>))"

definition has_action :: "rule_changes \<Rightarrow> bool" where
  "has_action c \<longleftrightarrow> rch_category_id c \<noteq> None \<or> rch_merchant_name c \<noteq> None \<or> rch_tag_ids c \<noteq> []
     \<or> rch_should_hide c \<noteq> None \<or> rch_should_be_recurring c \<noteq> None"

definition unwrap_or_default :: "string option \<Rightarrow> string" where
  "unwrap_or_default s = (case s of None \<Rightarrow> '''' | Some s \<Rightarrow> s)"

definition values_from_raw :: "base64 \<Rightarrow> rule_raw \<Rightarrow> error + rule_values" where
  "values_from_raw x raw =
     (case changes_from_updates x (raw_updates raw) of
        Inl e \<Rightarrow> Inl e
      | Inr changes \<Rightarrow>
          if \<not> has_action changes
          then Inl (Msg ''changes.categoryId, changes.merchantName, changes.tagIds, changes.isHidden, or changes.isRecurring is required'')
          else
            (let merchant_pattern = unwrap_or_default (trimmed (raw_merchant_pattern raw));
                 original_pattern = unwrap_or_default (trimmed (raw_original_pattern raw))
             in if \<not> (merchant_pattern \<noteq> '''' \<or> original_pattern \<noteq> '''')
                then Inl (Msg ''merchantPattern or originalPattern is required'')
                else case local_ids x (raw_account_ids raw) Account of
                  Inl e \<Rightarrow> Inl e
                | Inr account_ids \<Rightarrow>
                    Inr \<lparr>rva_id = raw_id raw, rva_merchant_pattern = merchant_pattern,
                         rva_original_pattern = original_pattern, rva_amount_min = raw_amount_min raw,
                         rva_amount_max = raw_amount_max raw, rva_account_ids = account_ids,
                         rva_priority = (case raw_priority raw of None \<Rightarrow> 0 | Some p \<Rightarrow> p),
                         rva_apply_retroactively =
                           (case raw_apply_retroactively raw of None \<Rightarrow> False | Some b \<Rightarrow> b),
                         rva_changes = changes\<rparr>))"

section \<open>Creating, changing and deleting rules\<close>

definition rule_of_values :: "int \<Rightarrow> rule_values \<Rightarrow> rule_row" where
  "rule_of_values ident v =
     \<lparr>rul_id = ident, rul_merchant_pattern = rva_merchant_pattern v,
      rul_original_pattern = rva_original_pattern v,
      rul_merchant_name = rch_merchant_name (rva_changes v),
      rul_category_id = rch_category_id (rva_changes v),
      rul_should_hide = rch_should_hide (rva_changes v),
      rul_should_be_recurring = rch_should_be_recurring (rva_changes v),
      rul_amount_min_cents = rva_amount_min v, rul_amount_max_cents = rva_amount_max v,
      rul_priority = rva_priority v\<rparr>"

fun for_each :: "('a \<Rightarrow> unit tx_db) \<Rightarrow> 'a list \<Rightarrow> unit tx_db" where
  "for_each f [] = ok ()"
| "for_each f (x # xs) = try_bind (f x) (\<lambda>_. for_each f xs)"

definition replace_rule_accounts :: "int \<Rightarrow> int list \<Rightarrow> unit tx_db" where
  "replace_rule_accounts rule_id account_ids =
     try_bind (delete_rule_accounts rule_id) (\<lambda>_. for_each (insert_rule_account rule_id) account_ids)"

definition replace_rule_tags :: "int \<Rightarrow> int list \<Rightarrow> unit tx_db" where
  "replace_rule_tags rule_id tag_ids =
     try_bind (delete_rule_tags rule_id) (\<lambda>_. for_each (insert_rule_tag rule_id) tag_ids)"

definition none_if_empty :: "'a list \<Rightarrow> 'a list option" where
  "none_if_empty xs = (if xs = [] then None else Some xs)"

definition updates_of_changes :: "rule_changes \<Rightarrow> field_updates" where
  "updates_of_changes c =
     \<lparr>set_merchant_name = (case rch_merchant_name c of None \<Rightarrow> None | Some m \<Rightarrow> Some (Some m)),
      set_notes = None, set_recurring = rch_should_be_recurring c, set_hidden = rch_should_hide c,
      set_category = rch_category_id c\<rparr>"

definition apply_to_transactions :: "rule_values \<Rightarrow> int list \<Rightarrow> nat tx_db" where
  "apply_to_transactions v ids =
     (let u = updates_of_changes (rva_changes v)
      in try_bind
           (if set_merchant_name u \<noteq> None \<or> set_recurring u \<noteq> None \<or> set_hidden u \<noteq> None
               \<or> set_category u \<noteq> None
            then try_bind (update_transaction_fields u ids) (\<lambda>_. ok ()) else ok ()) (\<lambda>_.
         try_bind
           (if rch_tag_ids (rva_changes v) \<noteq> []
            then add_transaction_tags (rch_tag_ids (rva_changes v)) ids else ok ()) (\<lambda>_.
         ok (length ids))))"

definition apply_retroactively :: "rule_values \<Rightarrow> nat tx_db" where
  "apply_retroactively v =
     (if \<not> rva_apply_retroactively v then ok 0
      else try_bind (retroactive_rule_transaction_ids
          (map_option to_ascii_lowercase (none_if_empty (rva_merchant_pattern v)))
          (map_option to_ascii_lowercase (none_if_empty (rva_original_pattern v)))
          (rva_amount_min v) (rva_amount_max v) (none_if_empty (rva_account_ids v))) (\<lambda>ids.
        if ids = [] then ok 0 else apply_to_transactions v ids))"

text \<open>The rule is read back after the transaction has committed; a rule that is not there then makes
  the code panic.\<close>

definition rule_by_id :: "int \<Rightarrow> rule_row option tx_db" where
  "rule_by_id ident = select (\<lambda>t.
     case sort_key (\<lambda>r. (- rul_priority r, - rul_id r)) (filter (\<lambda>r. rul_id r = ident) (b_rules t)) of
       [] \<Rightarrow> None | r # _ \<Rightarrow> Some r)"

definition store_rule :: "int \<Rightarrow> rule_values \<Rightarrow> nat tx_db" where
  "store_rule ident v =
     try_bind (replace_rule_accounts ident (rva_account_ids v)) (\<lambda>_.
     try_bind (replace_rule_tags ident (rch_tag_ids (rva_changes v))) (\<lambda>_.
     apply_retroactively v))"

definition create_rule :: "base64 \<Rightarrow> rule_raw \<Rightarrow> (rule_row \<times> nat) tx_db" where
  "create_rule x input =
     (case values_from_raw x (input\<lparr>raw_id := None\<rparr>) of
        Inl e \<Rightarrow> err e
      | Inr v \<Rightarrow>
          try_bind (with_tx (
            try_bind (create_rule_row (rule_of_values 0 v)) (\<lambda>ident.
            try_bind (store_rule ident v) (\<lambda>updated.
            ok (ident, updated))))) (\<lambda>(ident, updated).
          try_bind (rule_by_id ident) (\<lambda>found.
          try_bind (ok_or ''newly created rule must be readable'' found) (\<lambda>rule.
          ok (rule, updated)))))"

definition update_rule :: "base64 \<Rightarrow> string \<Rightarrow> rule_raw \<Rightarrow> (rule_row \<times> nat) tx_db" where
  "update_rule x rule_id input =
     (case local_id x rule_id Rule of
        Inl e \<Rightarrow> err e
      | Inr ident \<Rightarrow>
        (case values_from_raw x (input\<lparr>raw_id := Some ident\<rparr>) of
           Inl e \<Rightarrow> err e
         | Inr v \<Rightarrow>
             try_bind (with_tx (
               try_bind (update_rule_row (rule_of_values ident v)) (\<lambda>rows.
               if rows = 0 then err (Msg (''rule '' @ show_int ident @ '' not found''))
               else store_rule ident v))) (\<lambda>updated.
             try_bind (rule_by_id ident) (\<lambda>found.
             try_bind (ok_or ''updated rule must be readable'' found) (\<lambda>rule.
             ok (rule, updated))))))"

definition delete_rule :: "int \<Rightarrow> bool tx_db" where
  "delete_rule ident = try_bind (delete_rule_row ident) (\<lambda>rows. ok (rows > 0))"

end
