(* ===== verification/Tx_Sync.thy ===== *)
theory Tx_Sync
  imports Tx_Rules
begin

text \<open>
  What a provider reports is stored as a list of events (src/server-rs/src/transactions/sync/types.rs
  and persister.rs), in one database transaction. A synced transaction (store/sync.rs) is inserted, or
  merged into the row of its source and external id.
\<close>

section \<open>Events\<close>

datatype transaction_source = Plaid_Source | Simplefin_Source | Manual_Source

fun source_name :: "transaction_source \<Rightarrow> string" where
  "source_name Plaid_Source = ''plaid''"
| "source_name Simplefin_Source = ''simplefin''"
| "source_name Manual_Source = ''manual''"

datatype account_type =
    Depository | Credit | Loan | Investment | Other | Property | CryptoWallet

fun account_type_name :: "account_type \<Rightarrow> string" where
  "account_type_name Depository = ''DEPOSITORY''"
| "account_type_name Credit = ''CREDIT''"
| "account_type_name Loan = ''LOAN''"
| "account_type_name Investment = ''INVESTMENT''"
| "account_type_name Other = ''OTHER''"
| "account_type_name Property = ''PROPERTY''"
| "account_type_name CryptoWallet = ''CRYPTO_WALLET''"

record synced_transaction =
  syn_external_id :: string
  syn_account_id :: string
  syn_amount :: cents
  syn_datetime :: int
  syn_posted_datetime :: int
  syn_merchant_name :: "string option"
  syn_original_name :: "string option"
  syn_logo_url :: "string option"
  syn_plaid_category :: "string option"
  syn_raw_provider_json :: "string option"
  syn_source :: transaction_source
  syn_pending :: bool
  syn_hidden_by_account :: bool
  syn_stage_for_llm :: bool

record account_draft =
  dra_external_id :: string
  dra_connection_id :: int
  dra_owner_id :: int
  dra_name :: string
  dra_account_type :: account_type
  dra_subtype :: "string option"
  dra_mask :: "string option"
  dra_needs_review :: bool

record removed_transaction =
  rem_external_id :: string
  rem_source :: transaction_source

record recurring_draft =
  rec_external_id :: string
  rec_account_id :: string
  rec_description :: string
  rec_merchant_name :: "string option"
  rec_frequency :: string
  rec_status :: string
  rec_is_active :: bool
  rec_average_amount :: cents
  rec_last_amount :: cents
  rec_first_date :: string
  rec_last_date :: string
  rec_is_user_modified :: bool
  rec_transaction_ids :: "string list"

datatype persist_event =
    AccountUpsert account_draft
  | Upsert synced_transaction
  | Removal removed_transaction
  | Recurring recurring_draft
  | MarkRecurring int

record item_counts =
  cnt_accounts_upserted :: "32 word"
  cnt_added :: "32 word"
  cnt_modified :: "32 word"
  cnt_removed :: "32 word"

definition no_counts :: item_counts where
  "no_counts = \<lparr>cnt_accounts_upserted = 0, cnt_added = 0, cnt_modified = 0, cnt_removed = 0\<rparr>"

section \<open>Synced transactions\<close>

definition uncategorized_category_id :: int where
  "uncategorized_category_id = 0"

record synced_category =
  syc_new_record :: bool
  syc_category_id :: int
  syc_merchant_name :: "string option"
  syc_is_reviewed :: bool
  syc_staged_for_llm :: bool
  syc_pfc2_categorized :: bool
  syc_tag_ids :: "int list"
  syc_should_hide :: "bool option"
  syc_should_be_recurring :: "bool option"

definition category_result :: "(bool \<times> int) option \<Rightarrow> auto_category \<Rightarrow> synced_category" where
  "category_result state category =
     (case state of
        Some (True, category_id) \<Rightarrow>
          \<lparr>syc_new_record = False, syc_category_id = category_id,
           syc_merchant_name = aut_merchant_name category, syc_is_reviewed = True,
           syc_staged_for_llm = False, syc_pfc2_categorized = False, syc_tag_ids = [],
           syc_should_hide = None, syc_should_be_recurring = None\<rparr>
      | state \<Rightarrow>
          \<lparr>syc_new_record = (state = None),
           syc_category_id = (case aut_category_id category of
              None \<Rightarrow> uncategorized_category_id | Some c \<Rightarrow> c),
           syc_merchant_name = aut_merchant_name category,
           syc_is_reviewed = (aut_category_id category \<noteq> None),
           syc_staged_for_llm = (aut_category_id category = None \<or> aut_from_pfc2 category),
           syc_pfc2_categorized = aut_from_pfc2 category, syc_tag_ids = aut_tag_ids category,
           syc_should_hide = aut_should_hide category,
           syc_should_be_recurring = aut_should_be_recurring category\<rparr>)"

definition account_by_external_id :: "string \<Rightarrow> account_row option tx_db" where
  "account_by_external_id external_id =
     try_bind (account_records [external_id]) (\<lambda>rows.
       ok (case rows of [] \<Rightarrow> None | a # _ \<Rightarrow> Some a))"

definition existing_account :: "string \<Rightarrow> account_row tx_db" where
  "existing_account external_id =
     try_bind (account_by_external_id external_id) (\<lambda>found.
       ok_or (''account '' @ external_id @ '' not found'') found)"

definition synced_row :: "synced_transaction \<Rightarrow> account_row \<Rightarrow> synced_category \<Rightarrow> txn_row" where
  "synced_row s account result =
     \<lparr>txn_id = 0, txn_source = source_name (syn_source s), txn_external_id = syn_external_id s,
      txn_account_id = acc_id account, txn_amount_cents = syn_amount s,
      txn_datetime = to_timestamp (syn_datetime s),
      txn_posted_datetime = to_timestamp (syn_posted_datetime s),
      txn_merchant_name = (case syc_merchant_name result of
         Some m \<Rightarrow> Some m | None \<Rightarrow> syn_merchant_name s),
      txn_original_name = syn_original_name s, txn_logo_url = syn_logo_url s,
      txn_category_id = syc_category_id result, txn_is_reviewed = syc_is_reviewed result,
      txn_is_recurring = (case syc_should_be_recurring result of None \<Rightarrow> False | Some b \<Rightarrow> b),
      txn_is_hidden = (syn_hidden_by_account s
         \<or> (case syc_should_hide result of None \<Rightarrow> False | Some b \<Rightarrow> b)),
      txn_pending = syn_pending s, txn_notes = None, txn_plaid_category = syn_plaid_category s,
      txn_raw_provider_json = syn_raw_provider_json s,
      txn_staged_for_llm = (syn_stage_for_llm s \<and> syc_staged_for_llm result),
      txn_pfc2_categorized = syc_pfc2_categorized result\<rparr>"

definition upsert_synced_transaction :: "synced_transaction \<Rightarrow> bool tx_db" where
  "upsert_synced_transaction s =
     try_bind (existing_account (syn_account_id s)) (\<lambda>account.
     try_bind (synced_transaction_state (syn_external_id s) (source_name (syn_source s))) (\<lambda>state.
     try_bind (auto_categorization_result_with_plaid_category (syn_merchant_name s) (syn_original_name s)
         (syn_amount s) (acc_id account) (syn_plaid_category s)) (\<lambda>category.
     let result = category_result state category
     in try_bind (upsert_synced_row (synced_row s account result)) (\<lambda>transaction_id.
        try_bind (if syc_tag_ids result \<noteq> []
                  then add_transaction_tags (syc_tag_ids result) [transaction_id] else ok ()) (\<lambda>_.
        ok (syc_new_record result))))))"

definition delete_synced_transaction :: "transaction_source \<Rightarrow> string \<Rightarrow> unit tx_db" where
  "delete_synced_transaction source external_id =
     try_bind (delete_synced_row (source_name source) external_id) (\<lambda>_. ok ())"

section \<open>Recurring charges\<close>

definition upsert_recurring_charge :: "recurring_draft \<Rightarrow> int tx_db" where
  "upsert_recurring_charge d =
     try_bind (existing_account (rec_account_id d)) (\<lambda>account.
       upsert_recurring_row
         \<lparr>chg_id = 0, chg_external_id = rec_external_id d, chg_account_id = acc_id account,
          chg_description = rec_description d, chg_merchant_name = rec_merchant_name d,
          chg_frequency = rec_frequency d, chg_status = rec_status d, chg_is_active = rec_is_active d,
          chg_average_amount_cents = rec_average_amount d, chg_last_amount_cents = rec_last_amount d,
          chg_first_date = rec_first_date d, chg_last_date = rec_last_date d,
          chg_is_user_modified = rec_is_user_modified d\<rparr>)"

definition replace_charge_transactions :: "int \<Rightarrow> string list \<Rightarrow> unit tx_db" where
  "replace_charge_transactions charge_id transaction_ids =
     try_bind (delete_charge_transactions charge_id) (\<lambda>_.
       if transaction_ids = [] then ok () else insert_charge_transactions charge_id transaction_ids)"

definition mark_recurring_from_streams :: "int \<Rightarrow> unit tx_db" where
  "mark_recurring_from_streams item_id = update_recurring_for_item item_id"

section \<open>The persister\<close>

definition account_of_draft :: "account_draft \<Rightarrow> account_row" where
  "account_of_draft d =
     \<lparr>acc_id = 0, acc_external_id = dra_external_id d, acc_connection_id = Some (dra_connection_id d),
      acc_owner_id = dra_owner_id d, acc_name = dra_name d, acc_type = account_type_name (dra_account_type d),
      acc_subtype = dra_subtype d, acc_mask = dra_mask d, acc_notes = None, acc_is_closed = False,
      acc_is_hidden = False, acc_needs_review = dra_needs_review d, acc_review_reason = None,
      acc_manual = False\<rparr>"

fun apply_event :: "bool \<Rightarrow> persist_event \<Rightarrow> item_counts \<Rightarrow> item_counts tx_db" where
  "apply_event stage_for_llm (AccountUpsert draft) counts =
     try_bind (upsert_account_row (account_of_draft draft)) (\<lambda>_.
       ok (counts\<lparr>cnt_accounts_upserted := cnt_accounts_upserted counts + 1\<rparr>))"
| "apply_event stage_for_llm (Upsert draft) counts =
     try_bind (upsert_synced_transaction (draft\<lparr>syn_stage_for_llm := stage_for_llm\<rparr>)) (\<lambda>new.
       ok (if new then counts\<lparr>cnt_added := cnt_added counts + 1\<rparr>
           else counts\<lparr>cnt_modified := cnt_modified counts + 1\<rparr>))"
| "apply_event stage_for_llm (Removal removal) counts =
     try_bind (delete_synced_transaction (rem_source removal) (rem_external_id removal)) (\<lambda>_.
       ok (counts\<lparr>cnt_removed := cnt_removed counts + 1\<rparr>))"
| "apply_event stage_for_llm (Recurring charge) counts =
     try_bind (upsert_recurring_charge charge) (\<lambda>charge_id.
     try_bind (replace_charge_transactions charge_id (rec_transaction_ids charge)) (\<lambda>_.
       ok counts))"
| "apply_event stage_for_llm (MarkRecurring source_id) counts =
     try_bind (mark_recurring_from_streams source_id) (\<lambda>_. ok counts)"

fun persist_events :: "bool \<Rightarrow> persist_event list \<Rightarrow> item_counts \<Rightarrow> item_counts tx_db" where
  "persist_events stage_for_llm [] counts = ok counts"
| "persist_events stage_for_llm (e # es) counts =
     try_bind (apply_event stage_for_llm e counts) (persist_events stage_for_llm es)"

text \<open>\<open>stage_for_llm\<close> says whether a categorizer is set when the persister starts; it cannot be
  changed while the persister runs.\<close>

definition persist :: "bool \<Rightarrow> persist_event list \<Rightarrow> item_counts tx_db" where
  "persist stage_for_llm events = with_tx (persist_events stage_for_llm events no_counts)"

end
