(* ===== verification/Plaid_Convert.thy ===== *)
theory Plaid_Convert
  imports Tx_Sync
begin

text \<open>
  What Plaid answers and how it becomes events (src/server-rs/src/transactions/sync/plaid_convert.rs,
  plaid_investments.rs, the conversion of plaid_recurring.rs, accounts/types.rs and the data types of
  clients/plaid.rs). Doubles are their bit patterns, a \<open>NaiveDate\<close> is a number of days and a
  \<open>DateTime\<close> a number of nanoseconds since the epoch. What crates compute from texts and doubles is a
  parameter.
\<close>

section \<open>Plaid's data\<close>

type_synonym f64 = "64 word"

record plaid_account =
  pac_account_id :: string
  pac_name :: string
  pac_account_type :: string
  pac_subtype :: "string option"
  pac_mask :: "string option"

record counterparty =
  cou_logo_url :: "string option"
  cou_website :: "string option"

record plaid_transaction =
  ptr_transaction_id :: string
  ptr_account_id :: string
  ptr_amount :: f64
  ptr_date :: string
  ptr_name :: string
  ptr_merchant_name :: "string option"
  ptr_original_description :: "string option"
  ptr_logo_url :: "string option"
  ptr_authorized_date :: "string option"
  ptr_authorized_datetime :: "int option"
  ptr_datetime :: "int option"
  ptr_category :: "string list"
  ptr_personal_finance_category :: "(string \<times> string) option"
  ptr_counterparties :: "counterparty list option"
  ptr_pending :: bool
  ptr_extra :: string

record plaid_removed =
  prm_transaction_id :: "string option"
  prm_extra :: string

record sync_response =
  rsp_added :: "plaid_transaction list"
  rsp_modified :: "plaid_transaction list"
  rsp_removed :: "plaid_removed list"
  rsp_next_cursor :: string
  rsp_has_more :: bool

record security =
  sec_security_id :: string
  sec_ticker_symbol :: "string option"
  sec_is_cash_equivalent :: "bool option"
  sec_name :: "string option"

record investment_transaction =
  inv_id :: string
  inv_account_id :: string
  inv_security_id :: "string option"
  inv_date :: string
  inv_name :: string
  inv_amount :: f64
  inv_type :: string
  inv_subtype :: string
  inv_extra :: string

record investments_response =
  irs_securities :: "security list"
  irs_transactions :: "investment_transaction list"
  irs_total :: "32 word"

record transaction_stream =
  tst_account_id :: string
  tst_stream_id :: string
  tst_description :: string
  tst_merchant_name :: "string option"
  tst_first_date :: string
  tst_last_date :: string
  tst_frequency :: string
  tst_transaction_ids :: "string list"
  tst_average_amount :: "f64 option"
  tst_last_amount :: "f64 option"
  tst_is_active :: bool
  tst_status :: string
  tst_is_user_modified :: bool

text \<open>The crates: IEEE arithmetic on dollars, \<open>NaiveDate::parse_from_str\<close>, \<open>serde_json\<close>, \<open>url\<close>,
  \<open>croner\<close> and the Unicode table of upper case letters.\<close>

record crates =
  x_dollars :: "f64 \<Rightarrow> cents option"
  x_parse_date :: "string \<Rightarrow> int option"
  x_transaction_json :: "plaid_transaction \<Rightarrow> string option"
  x_transactions_json :: "plaid_transaction list \<Rightarrow> string option"
  x_removed_json :: "plaid_removed list \<Rightarrow> string option"
  x_investment_json :: "investment_transaction \<Rightarrow> string option"
  x_investments_json :: "investment_transaction list \<Rightarrow> string option"
  x_texts_json :: "string list \<Rightarrow> string option"
  x_host :: "string \<Rightarrow> string option"
  x_next_occurrence :: "string \<Rightarrow> int \<Rightarrow> int option"
  x_first_upper :: "string \<Rightarrow> string"

section \<open>Times\<close>

definition day_seconds :: int where
  "day_seconds = 86400"

definition day_nanos :: int where
  "day_nanos = day_seconds * nanos"

definition half_day_nanos :: int where
  "half_day_nanos = 43200 * nanos"

definition normalize_datetime :: "int \<Rightarrow> int" where
  "normalize_datetime datetime =
     (if datetime mod day_nanos = 0 then datetime + half_day_nanos else datetime)"

definition date_at_noon :: "crates \<Rightarrow> string \<Rightarrow> error + int" where
  "date_at_noon x value =
     (case x_parse_date x value of
        None \<Rightarrow> Inl (Msg ''parse plaid date'')
      | Some days \<Rightarrow> Inr (days * day_nanos + half_day_nanos))"

definition transaction_datetime :: "crates \<Rightarrow> plaid_transaction \<Rightarrow> error + int" where
  "transaction_datetime x p =
     (case ptr_authorized_datetime p of
        Some datetime \<Rightarrow> Inr (normalize_datetime datetime)
      | None \<Rightarrow>
          (case none_if_empty (unwrap_or_default (ptr_authorized_date p)) of
             Some date \<Rightarrow> date_at_noon x date
           | None \<Rightarrow>
               (case ptr_datetime p of
                  Some datetime \<Rightarrow> Inr (normalize_datetime datetime)
                | None \<Rightarrow> date_at_noon x (ptr_date p))))"

definition transaction_posted_datetime :: "crates \<Rightarrow> plaid_transaction \<Rightarrow> error + int" where
  "transaction_posted_datetime x p =
     (case ptr_datetime p of
        Some datetime \<Rightarrow> Inr (normalize_datetime datetime)
      | None \<Rightarrow> date_at_noon x (ptr_date p))"

section \<open>Transactions\<close>

definition non_empty_text :: "string option \<Rightarrow> string option" where
  "non_empty_text value = (case value of None \<Rightarrow> None | Some v \<Rightarrow> none_if_empty v)"

definition or_else :: "'a option \<Rightarrow> 'a option \<Rightarrow> 'a option" where
  "or_else a b = (case a of None \<Rightarrow> b | Some v \<Rightarrow> Some v)"

fun find_map :: "('a \<Rightarrow> 'b option) \<Rightarrow> 'a list \<Rightarrow> 'b option" where
  "find_map f [] = None"
| "find_map f (x # xs) = or_else (f x) (find_map f xs)"

definition duckduckgo_favicon_url :: "crates \<Rightarrow> string \<Rightarrow> string option" where
  "duckduckgo_favicon_url x website =
     (let website = trim website
      in if website = '''' then None
         else let url = (if starts_with ''//'' website then ''https:'' @ website
                         else if instr website ''://'' then website
                         else ''https://'' @ website)
              in case x_host x url of
                   None \<Rightarrow> None
                 | Some host \<Rightarrow>
                     if host = '''' then None
                     else Some (''https://icons.duckduckgo.com/ip3/'' @ host @ ''.ico''))"

definition transaction_logo_url :: "crates \<Rightarrow> plaid_transaction \<Rightarrow> string option" where
  "transaction_logo_url x p =
     (let parties = (case ptr_counterparties p of None \<Rightarrow> [] | Some cs \<Rightarrow> cs)
      in or_else (ptr_logo_url p) (or_else (find_map cou_logo_url parties)
           (find_map (\<lambda>c. Option.bind (cou_website c) (duckduckgo_favicon_url x)) parties)))"

definition plaid_category :: "plaid_transaction \<Rightarrow> string option" where
  "plaid_category p =
     or_else (map_option (\<lambda>(primary, detailed). primary @ '':'' @ detailed) (ptr_personal_finance_category p))
       (if ptr_category p \<noteq> [] then Some (join '':'' (ptr_category p)) else None)"

definition from_dollars_checked :: "crates \<Rightarrow> f64 \<Rightarrow> error + cents" where
  "from_dollars_checked x dollars =
     (case x_dollars x dollars of None \<Rightarrow> Inl (Msg ''parse money'') | Some c \<Rightarrow> Inr c)"

text \<open>The \<open>?\<close> operator without effects.\<close>

definition and_then :: "error + 'a \<Rightarrow> ('a \<Rightarrow> error + 'b) \<Rightarrow> error + 'b" where
  "and_then r f = (case r of Inl e \<Rightarrow> Inl e | Inr a \<Rightarrow> f a)"

definition json_or :: "string \<Rightarrow> string option \<Rightarrow> error + string" where
  "json_or message json = (case json of None \<Rightarrow> Inl (Msg message) | Some s \<Rightarrow> Inr s)"

definition transaction_from_plaid ::
    "crates \<Rightarrow> string list \<Rightarrow> plaid_transaction \<Rightarrow> error + synced_transaction" where
  "transaction_from_plaid x hidden p =
     and_then (from_dollars_checked x (ptr_amount p)) (\<lambda>amount.
     and_then (transaction_datetime x p) (\<lambda>datetime.
     and_then (transaction_posted_datetime x p) (\<lambda>posted.
     and_then (json_or ''marshal raw plaid transaction'' (x_transaction_json x p)) (\<lambda>json.
     Inr \<lparr>syn_external_id = ptr_transaction_id p, syn_account_id = ptr_account_id p, syn_amount = amount,
          syn_datetime = datetime, syn_posted_datetime = posted,
          syn_merchant_name = non_empty_text (ptr_merchant_name p),
          syn_original_name = or_else (non_empty_text (ptr_original_description p)) (none_if_empty (ptr_name p)),
          syn_logo_url = transaction_logo_url x p, syn_plaid_category = plaid_category p,
          syn_raw_provider_json = Some json, syn_source = Plaid_Source, syn_pending = ptr_pending p,
          syn_hidden_by_account = (ptr_account_id p \<in> set hidden), syn_stage_for_llm = False\<rparr>))))"

fun traverse :: "('a \<Rightarrow> error + 'b) \<Rightarrow> 'a list \<Rightarrow> error + 'b list" where
  "traverse f [] = Inr []"
| "traverse f (x # xs) = and_then (f x) (\<lambda>y. and_then (traverse f xs) (\<lambda>ys. Inr (y # ys)))"

section \<open>Accounts\<close>

definition type_from_plaid :: "string \<Rightarrow> account_type" where
  "type_from_plaid value =
     (if value = ''depository'' then Depository else if value = ''credit'' then Credit
      else if value = ''loan'' then Loan else if value = ''investment'' then Investment else Other)"

definition draft_from_plaid :: "int \<Rightarrow> int \<Rightarrow> plaid_account \<Rightarrow> account_draft" where
  "draft_from_plaid connection_id owner_id a =
     \<lparr>dra_external_id = pac_account_id a, dra_connection_id = connection_id, dra_owner_id = owner_id,
      dra_name = pac_name a, dra_account_type = type_from_plaid (pac_account_type a),
      dra_subtype = pac_subtype a, dra_mask = pac_mask a, dra_needs_review = False\<rparr>"

definition transaction_syncable :: "account_draft \<Rightarrow> bool" where
  "transaction_syncable d \<longleftrightarrow> dra_account_type d \<in> {Depository, Credit}"

definition filter_out_investment_accounts ::
    "string list \<Rightarrow> plaid_transaction list \<Rightarrow> plaid_transaction list" where
  "filter_out_investment_accounts investment_account_ids transactions =
     filter (\<lambda>p. ptr_account_id p \<notin> set investment_account_ids) transactions"

section \<open>Recurring streams\<close>

definition recurring_charge :: "crates \<Rightarrow> transaction_stream \<Rightarrow> error + recurring_draft" where
  "recurring_charge x s =
     and_then (from_dollars_checked x (case tst_average_amount s of None \<Rightarrow> 0 | Some a \<Rightarrow> a)) (\<lambda>average.
     and_then (from_dollars_checked x (case tst_last_amount s of None \<Rightarrow> 0 | Some a \<Rightarrow> a)) (\<lambda>last_amount.
     Inr \<lparr>rec_external_id = tst_stream_id s, rec_account_id = tst_account_id s,
          rec_description = tst_description s, rec_merchant_name = trimmed (tst_merchant_name s),
          rec_frequency = tst_frequency s, rec_status = tst_status s, rec_is_active = tst_is_active s,
          rec_average_amount = average, rec_last_amount = last_amount,
          rec_first_date = tst_first_date s, rec_last_date = tst_last_date s,
          rec_is_user_modified = tst_is_user_modified s, rec_transaction_ids = tst_transaction_ids s\<rparr>))"

section \<open>Investments\<close>

definition funds_in :: string where
  "funds_in = ''TRANSFER_IN:TRANSFER_IN_INVESTMENT_AND_RETIREMENT_FUNDS''"

definition funds_out :: string where
  "funds_out = ''TRANSFER_OUT:TRANSFER_OUT_INVESTMENT_AND_RETIREMENT_FUNDS''"

definition investment_subtype_pfc2 :: "(string \<times> string) list" where
  "investment_subtype_pfc2 =
    [(''dividend'', ''INCOME:INCOME_DIVIDENDS''),
     (''non-qualified dividend'', ''INCOME:INCOME_DIVIDENDS''),
     (''qualified dividend'', ''INCOME:INCOME_DIVIDENDS''),
     (''interest'', ''INCOME:INCOME_INTEREST_EARNED''),
     (''deposit'', funds_in),
     (''contribution'', funds_in),
     (''withdrawal'', funds_out),
     (''distribution'', funds_out),
     (''long-term capital gain'', ''INCOME:INCOME_DIVIDENDS''),
     (''short-term capital gain'', ''INCOME:INCOME_DIVIDENDS''),
     (''unqualified gain'', ''INCOME:INCOME_DIVIDENDS''),
     (''return of principal'', ''INCOME:INCOME_DIVIDENDS''),
     (''dividend reinvestment'', funds_out),
     (''interest reinvestment'', funds_out),
     (''long-term capital gain reinvestment'', funds_out),
     (''short-term capital gain reinvestment'', funds_out),
     (''account fee'', ''BANK_FEES:BANK_FEES_OTHER_BANK_FEES''),
     (''fund fee'', ''BANK_FEES:BANK_FEES_OTHER_BANK_FEES''),
     (''management fee'', ''BANK_FEES:BANK_FEES_OTHER_BANK_FEES''),
     (''legal fee'', ''BANK_FEES:BANK_FEES_OTHER_BANK_FEES''),
     (''trust fee'', ''BANK_FEES:BANK_FEES_OTHER_BANK_FEES''),
     (''transfer fee'', ''BANK_FEES:BANK_FEES_OTHER_BANK_FEES''),
     (''miscellaneous fee'', ''BANK_FEES:BANK_FEES_OTHER_BANK_FEES''),
     (''margin expense'', ''BANK_FEES:BANK_FEES_OTHER_BANK_FEES''),
     (''tax'', ''BANK_FEES:BANK_FEES_OTHER_BANK_FEES''),
     (''tax withheld'', ''BANK_FEES:BANK_FEES_OTHER_BANK_FEES''),
     (''non-resident tax'', ''BANK_FEES:BANK_FEES_OTHER_BANK_FEES''),
     (''pending credit'', ''TRANSFER_IN:TRANSFER_IN_OTHER_TRANSFER_IN''),
     (''pending debit'', ''TRANSFER_OUT:TRANSFER_OUT_OTHER_TRANSFER_OUT''),
     (''adjustment'', funds_out),
     (''rebalance'', funds_out),
     (''merger'', funds_out),
     (''spin off'', funds_out),
     (''split'', funds_out),
     (''stock distribution'', funds_out),
     (''assignment'', funds_out),
     (''exercise'', funds_out),
     (''expire'', funds_out),
     (''request'', funds_out),
     (''send'', funds_out),
     (''trade'', funds_out),
     (''loan payment'', funds_out),
     (''interest receivable'', funds_out)]"

definition investment_type_pfc2 :: "(string \<times> string) list" where
  "investment_type_pfc2 =
    [(''buy'', funds_out),
     (''sell'', funds_in),
     (''transfer'', ''TRANSFER_OUT:TRANSFER_OUT_ACCOUNT_TRANSFER''),
     (''cancel'', ''TRANSFER_IN:TRANSFER_IN_OTHER_TRANSFER_IN'')]"

definition synthetic_investment_pfc2 :: "investment_transaction \<Rightarrow> string option" where
  "synthetic_investment_pfc2 p =
     or_else (map_of investment_subtype_pfc2 (inv_subtype p)) (map_of investment_type_pfc2 (inv_type p))"

definition title_words :: "crates \<Rightarrow> string \<Rightarrow> string" where
  "title_words x value = join '' '' (map (x_first_upper x) (split_whitespace value))"

definition investment_fallback_name :: "crates \<Rightarrow> investment_transaction \<Rightarrow> string" where
  "investment_fallback_name x p =
     (let subtype = title_words x (inv_subtype p)
      in if subtype = '''' then ''Investment Activity'' else ''Investment '' @ subtype)"

definition derive_investment_merchant_name ::
    "crates \<Rightarrow> (string \<Rightarrow> security option) \<Rightarrow> string option \<Rightarrow> investment_transaction \<Rightarrow> string" where
  "derive_investment_merchant_name x securities institution_name p =
     (let prefix = (case non_empty_text institution_name of None \<Rightarrow> '''' | Some name \<Rightarrow> name @ '' - '');
          found = Option.bind (non_empty_text (inv_security_id p)) securities;
          security = (case found of
            None \<Rightarrow> None | Some s \<Rightarrow> if sec_is_cash_equivalent s = Some True then None else Some s)
      in case Option.bind security (\<lambda>s. non_empty_text (sec_name s)) of
           None \<Rightarrow> prefix @ investment_fallback_name x p
         | Some name \<Rightarrow>
             (case Option.bind security (\<lambda>s. non_empty_text (sec_ticker_symbol s)) of
                None \<Rightarrow> prefix @ name
              | Some ticker \<Rightarrow> prefix @ name @ '' ('' @ ticker @ '')''))"

definition investment_transaction_from_plaid ::
    "crates \<Rightarrow> (string \<Rightarrow> security option) \<Rightarrow> string option \<Rightarrow> string option \<Rightarrow> string list
     \<Rightarrow> investment_transaction \<Rightarrow> error + synced_transaction" where
  "investment_transaction_from_plaid x securities institution_name logo_url hidden p =
     and_then (date_at_noon x (inv_date p)) (\<lambda>datetime.
     and_then (from_dollars_checked x (inv_amount p)) (\<lambda>amount.
     and_then (json_or ''marshal raw plaid investment transaction'' (x_investment_json x p)) (\<lambda>json.
     Inr \<lparr>syn_external_id = inv_id p, syn_account_id = inv_account_id p, syn_amount = amount,
          syn_datetime = datetime, syn_posted_datetime = datetime,
          syn_merchant_name = Some (derive_investment_merchant_name x securities institution_name p),
          syn_original_name = none_if_empty (inv_name p), syn_logo_url = logo_url,
          syn_plaid_category = synthetic_investment_pfc2 p, syn_raw_provider_json = Some json,
          syn_source = Plaid_Source, syn_pending = False,
          syn_hidden_by_account = (inv_account_id p \<in> set hidden), syn_stage_for_llm = False\<rparr>)))"

text \<open>Both ends are days; the window reaches back a week before the last sync, or thirty days.\<close>

definition investment_transaction_date_range :: "item_secret \<Rightarrow> int \<Rightarrow> int \<times> int" where
  "investment_transaction_date_range item now =
     (let start = (case pit_last_synced_at (ise_item item) of
            Some at \<Rightarrow> of_timestamp at - 7 * day_nanos
          | None \<Rightarrow> now - 30 * day_nanos)
      in (start div day_nanos, now div day_nanos))"

definition investment_batch_log ::
    "crates \<Rightarrow> int \<Rightarrow> investment_transaction list \<Rightarrow> string list \<Rightarrow> error + sync_log_row" where
  "investment_batch_log x item_id transactions removed =
     and_then (json_or ''marshal raw plaid investment transactions'' (x_investments_json x transactions)) (\<lambda>added.
     and_then (json_or ''marshal removed plaid investment transaction ids'' (x_texts_json x removed)) (\<lambda>gone.
     Inr \<lparr>slr_item_id = item_id, slr_api = ''investments'', slr_added = added, slr_modified = ''[]'',
          slr_removed = gone\<rparr>))"

end
