(* ===== verification/Runs.thy ===== *)
theory Runs
  imports Prelude
begin

text \<open>
  Programs that talk to a provider. The code looks at an error of a provider only for its code, so a
  refusal carries that and other failures are errors like any other. A loop that runs as long as the
  provider says that there is more has fuel here, and \<open>Unfinished\<close> is the result of a run that needed
  more than it had; that a run does not end so is then a theorem.
\<close>

datatype api_error = Api_Error "string option" | Request_Error

datatype 'a outcome = Done 'a | Refused "string option" | Unfinished

type_synonym ('t, 'a) run = "('t, 'a outcome) fallible"

definition finish :: "'a \<Rightarrow> ('t, 'a) run" where
  "finish a = ok (Done a)"

definition and_done :: "('t, 'a) run \<Rightarrow> ('a \<Rightarrow> ('t, 'b) run) \<Rightarrow> ('t, 'b) run" where
  "and_done m f = try_bind m (\<lambda>r.
     case r of Done a \<Rightarrow> f a | Refused code \<Rightarrow> ok (Refused code) | Unfinished \<Rightarrow> ok Unfinished)"

definition answer :: "string \<Rightarrow> api_error + 'a \<Rightarrow> ('t, 'a) run" where
  "answer message r =
     (case r of
        Inl (Api_Error code) \<Rightarrow> ok (Refused code)
      | Inl Request_Error \<Rightarrow> err (Msg message)
      | Inr a \<Rightarrow> finish a)"

definition of_result :: "error + 'a \<Rightarrow> ('t, 'a) fallible" where
  "of_result r = (case r of Inl e \<Rightarrow> err e | Inr a \<Rightarrow> ok a)"

fun iterate :: "nat \<Rightarrow> ('s \<Rightarrow> ('t, 's + 'a) run) \<Rightarrow> 's \<Rightarrow> ('t, 'a) run" where
  "iterate 0 body s = ok Unfinished"
| "iterate (Suc n) body s =
     and_done (body s) (\<lambda>r. case r of Inl s' \<Rightarrow> iterate n body s' | Inr a \<Rightarrow> finish a)"

section \<open>Reasoning about runs\<close>

lemma wp_finish [wp_rules]: "wp (finish a) Q w \<longleftrightarrow> Q (Inr (Done a)) w"
  by (simp add: finish_def wp_rules)

lemma wp_and_done [wp_rules]:
  "wp (and_done m f) Q w \<longleftrightarrow> wp m (\<lambda>r w'. case r of
     Inl e \<Rightarrow> Q (Inl e) w' | Inr (Done a) \<Rightarrow> wp (f a) Q w'
   | Inr (Refused c) \<Rightarrow> Q (Inr (Refused c)) w' | Inr Unfinished \<Rightarrow> Q (Inr Unfinished) w') w"
  by (auto simp: and_done_def wp_try_bind wp_ok intro!: arg_cong [where f = "\<lambda>Q. wp m Q w"] ext
      split: sum.splits outcome.splits)

lemma wp_of_result [wp_rules]: "wp (of_result r) Q w \<longleftrightarrow> Q r w"
  by (cases r) (simp_all add: of_result_def wp_rules)

text \<open>When nothing is to be known of the first program.\<close>

lemma wp_try_bind_any:
  "(\<And>e w'. Q (Inl e) w') \<Longrightarrow> (\<And>a w'. wp (f a) Q w') \<Longrightarrow> wp (try_bind m f) Q w"
  unfolding wp_try_bind by (rule wpI) (simp split: sum.splits)

context effect_order
begin

lemma guarantees_finish [guarantee_rules]: "guarantees R (finish a)"
  by (simp add: finish_def guarantees_ok)

lemma guarantees_of_result [guarantee_rules]: "guarantees R (of_result r)"
  by (simp add: guarantees_def wp_of_result R_refl)

lemma guarantees_case_outcome [guarantee_rules]:
  "(\<And>a. x = Done a \<Longrightarrow> guarantees R (f a)) \<Longrightarrow> (\<And>c. x = Refused c \<Longrightarrow> guarantees R (g c)) \<Longrightarrow>
   guarantees R h \<Longrightarrow> guarantees R (case x of Done a \<Rightarrow> f a | Refused c \<Rightarrow> g c | Unfinished \<Rightarrow> h)"
  by (cases x) simp_all

lemma guarantees_and_done [guarantee_rules]:
  "guarantees R m \<Longrightarrow> (\<And>a. guarantees R (f a)) \<Longrightarrow> guarantees R (and_done m f)"
  unfolding and_done_def by (intro guarantee_rules)

lemma guarantees_case_api_error [guarantee_rules]:
  "(\<And>c. x = Api_Error c \<Longrightarrow> guarantees R (f c)) \<Longrightarrow> (x = Request_Error \<Longrightarrow> guarantees R g) \<Longrightarrow>
   guarantees R (case x of Api_Error c \<Rightarrow> f c | Request_Error \<Rightarrow> g)"
  by (cases x) simp_all

lemma guarantees_answer [guarantee_rules]: "guarantees R (answer m r)"
  unfolding answer_def by (intro guarantee_rules)

lemma guarantees_iterate [guarantee_rules]:
  assumes "\<And>s. guarantees R (body s)"
  shows "guarantees R (iterate n body s)"
proof (induction n arbitrary: s)
  case (Suc n)
  then show ?case by (auto intro!: guarantee_rules assms)
qed (simp add: guarantees_ok)

end

lemma wp_iterate:
  assumes "I s w" "\<And>s w. I s w \<Longrightarrow> Q (Inr Unfinished) w"
    and "\<And>s w. I s w \<Longrightarrow> wp (body s) (\<lambda>r w'. (\<forall>s'. r = Inr (Done (Inl s')) \<longrightarrow> I s' w')
      \<and> (\<forall>a. r = Inr (Done (Inr a)) \<longrightarrow> Q (Inr (Done a)) w') \<and> (\<forall>c. r = Inr (Refused c) \<longrightarrow> Q (Inr (Refused c)) w')
      \<and> (r = Inr Unfinished \<longrightarrow> Q (Inr Unfinished) w') \<and> (\<forall>e. r = Inl e \<longrightarrow> Q (Inl e) w')) w"
  shows "wp (iterate n body s) Q w"
  using assms(1)
proof (induction n arbitrary: s w)
  case 0
  then show ?case by (simp add: wp_ok assms(2))
next
  case (Suc n)
  show ?case
    unfolding iterate.simps wp_and_done
    by (rule wp_mono [OF assms(3) [OF Suc.prems]])
       (auto simp: wp_finish intro: Suc.IH split: sum.splits outcome.splits)
qed

end
