(* ===== verification/Plaid_Sync.thy ===== *)
theory Plaid_Sync
  imports Plaid_Convert Runs
begin

text \<open>
  Synchronizing a Plaid item (src/server-rs/src/transactions/sync/plaid.rs, plaid_investments.rs,
  plaid_recurring.rs, accounts/plaid_factory.rs and store/plaid_sync.rs): the pages of
  \<open>/transactions/sync\<close> are stored one after the other, and the cursor after each of them.

  Plaid is a parameter: \<open>a_sync client n token cursor\<close> is its answer to the \<open>n\<close>-th request of a
  run.
\<close>

section \<open>The provider\<close>

datatype plaid_environment = Production | Sandbox | Development

definition environment_from :: "string \<Rightarrow> plaid_environment" where
  "environment_from value =
     (let value = to_ascii_lowercase value
      in if value = ''production'' then Production else if value = ''sandbox'' then Sandbox
         else Development)"

record plaid_client =
  cli_client_id :: string
  cli_secret :: string
  cli_environment :: plaid_environment

record plaid_api =
  a_accounts :: "plaid_client \<Rightarrow> string \<Rightarrow> api_error + plaid_account list"
  a_sync :: "plaid_client \<Rightarrow> nat \<Rightarrow> string \<Rightarrow> string \<Rightarrow> api_error + sync_response"
  a_investments :: "plaid_client \<Rightarrow> nat \<Rightarrow> string \<Rightarrow> int \<Rightarrow> int \<Rightarrow> string list \<Rightarrow> 32 word
    \<Rightarrow> api_error + investments_response"
  a_recurring :: "plaid_client \<Rightarrow> string \<Rightarrow> string list
    \<Rightarrow> api_error + transaction_stream list \<times> transaction_stream list"

type_synonym 'a tx_run = "(tx_tables, 'a) run"

section \<open>Statements of the sync store\<close>

definition next_after :: "crates \<Rightarrow> string \<Rightarrow> int \<Rightarrow> error + int" where
  "next_after x cron after =
     (case x_next_occurrence x cron after of None \<Rightarrow> Inl (Msg ''invalid cron'') | Some t \<Rightarrow> Inr t)"

definition schedule :: "crates \<Rightarrow> string \<Rightarrow> ('t, int) fallible" where
  "schedule x cron = try_bind (lift utc_now) (\<lambda>now. of_result (next_after x cron now))"

definition sync_cursor :: "int \<Rightarrow> string tx_db" where
  "sync_cursor item_id = try_bind (sync_cursor_row item_id) (\<lambda>row.
     ok (case row of None \<Rightarrow> '''' | Some cursor \<Rightarrow> unwrap_or_default cursor))"

definition set_sync_cursor :: "int \<Rightarrow> string option \<Rightarrow> int \<Rightarrow> unit tx_db" where
  "set_sync_cursor item_id cursor next_sync_at =
     set_sync_cursor_row (cursor \<noteq> None) cursor (Some (to_timestamp next_sync_at)) item_id"

definition set_item_recurring_synced :: "int \<Rightarrow> int \<Rightarrow> unit tx_db" where
  "set_item_recurring_synced item_id next_recurring_sync_at =
     set_item_recurring_synced_row (Some (to_timestamp next_recurring_sync_at)) item_id"

text \<open>A log that cannot be written is only reported.\<close>

definition log_batch :: "sync_log_row \<Rightarrow> unit tx_db" where
  "log_batch row = do { _ \<leftarrow> log_sync_batch_row row; ok () }"

definition set_healthy :: "int \<Rightarrow> unit tx_db" where
  "set_healthy item_id = set_plaid_item_health_row ''HEALTHY'' None item_id"

definition record_plaid_item_error :: "int \<Rightarrow> string option option \<Rightarrow> unit tx_db" where
  "record_plaid_item_error item_id api = do {
     _ \<leftarrow> set_plaid_item_health_row
       (if api = Some (Some ''ITEM_LOGIN_REQUIRED'') then ''LINK_UPDATE_REQUIRED'' else ''SYNC_ERROR'')
       (Option.bind api id) item_id;
     ok ()
   }"

section \<open>Pages\<close>

definition MAX_SYNC_PAGINATION_RESTARTS :: nat where
  "MAX_SYNC_PAGINATION_RESTARTS = 3"

definition PAGINATION_MUTATION :: string where
  "PAGINATION_MUTATION = ''TRANSACTIONS_SYNC_MUTATION_DURING_PAGINATION''"

definition is_pagination_mutation :: "api_error \<Rightarrow> bool" where
  "is_pagination_mutation e \<longleftrightarrow> e = Api_Error (Some PAGINATION_MUTATION)"

record page_loop =
  lop_cursor :: string
  lop_first_page :: bool
  lop_drafts :: "account_draft list"
  lop_counts :: item_counts
  lop_restarts :: nat
  lop_added :: "plaid_transaction list"
  lop_modified :: "plaid_transaction list"
  lop_removed :: "plaid_removed list"
  lop_calls :: nat

definition start_pages :: "string \<Rightarrow> account_draft list \<Rightarrow> page_loop" where
  "start_pages cursor drafts =
     \<lparr>lop_cursor = cursor, lop_first_page = True, lop_drafts = drafts, lop_counts = no_counts,
      lop_restarts = 0, lop_added = [], lop_modified = [], lop_removed = [], lop_calls = 0\<rparr>"

definition add_counts :: "item_counts \<Rightarrow> item_counts \<Rightarrow> item_counts" where
  "add_counts whole page =
     \<lparr>cnt_accounts_upserted = cnt_accounts_upserted whole + cnt_accounts_upserted page,
      cnt_added = cnt_added whole + cnt_added page, cnt_modified = cnt_modified whole + cnt_modified page,
      cnt_removed = cnt_removed whole + cnt_removed page\<rparr>"

definition removals :: "plaid_removed list \<Rightarrow> persist_event list" where
  "removals rs = map (\<lambda>external_id. Removal \<lparr>rem_external_id = external_id, rem_source = Plaid_Source\<rparr>)
     (List.map_filter prm_transaction_id rs)"

definition page_events ::
    "crates \<Rightarrow> string list \<Rightarrow> string list \<Rightarrow> sync_response \<Rightarrow> error + persist_event list" where
  "page_events x hidden investment_account_ids r =
     and_then (traverse (transaction_from_plaid x hidden)
       (filter_out_investment_accounts investment_account_ids (rsp_added r)
        @ filter_out_investment_accounts investment_account_ids (rsp_modified r))) (\<lambda>transactions.
     Inr (removals (rsp_removed r) @ map Upsert transactions))"

definition next_page :: "string list \<Rightarrow> sync_response \<Rightarrow> item_counts \<Rightarrow> page_loop \<Rightarrow> page_loop" where
  "next_page investment_account_ids r counts l =
     l\<lparr>lop_cursor := rsp_next_cursor r, lop_first_page := False, lop_drafts := [],
       lop_counts := add_counts (lop_counts l) counts, lop_restarts := 0,
       lop_added := lop_added l @ filter_out_investment_accounts investment_account_ids (rsp_added r),
       lop_modified := lop_modified l @ filter_out_investment_accounts investment_account_ids (rsp_modified r),
       lop_removed := lop_removed l @ rsp_removed r, lop_calls := Suc (lop_calls l)\<rparr>"

definition batch_log :: "crates \<Rightarrow> int \<Rightarrow> page_loop \<Rightarrow> error + sync_log_row" where
  "batch_log x item_id l =
     and_then (json_or ''marshal'' (x_transactions_json x (lop_added l))) (\<lambda>added.
     and_then (json_or ''marshal'' (x_transactions_json x (lop_modified l))) (\<lambda>modified.
     and_then (json_or ''marshal'' (x_removed_json x (lop_removed l))) (\<lambda>removed.
     Inr \<lparr>slr_item_id = item_id, slr_api = ''transactions'', slr_added = added, slr_modified = modified,
          slr_removed = removed\<rparr>)))"

definition empty_batch :: "int \<Rightarrow> sync_log_row" where
  "empty_batch item_id = \<lparr>slr_item_id = item_id, slr_api = ''transactions'', slr_added = ''[]'',
     slr_modified = ''[]'', slr_removed = ''[]''\<rparr>"

text \<open>A page is stored in one database transaction; the cursor follows in a statement of its own.\<close>

definition store_page ::
    "crates \<Rightarrow> bool \<Rightarrow> item_row \<Rightarrow> string list \<Rightarrow> string list \<Rightarrow> sync_response \<Rightarrow> page_loop
     \<Rightarrow> (page_loop + item_counts) tx_run" where
  "store_page x stage item hidden investment_account_ids r l =
     try_bind (of_result (page_events x hidden investment_account_ids r)) (\<lambda>events.
     try_bind (schedule x (pit_sync_cron item)) (\<lambda>next_sync_at.
     try_bind (with_context ''persist batch failed; cursor not advanced, will retry next sync''
       (persist stage (map AccountUpsert (if lop_first_page l then lop_drafts l else []) @ events))) (\<lambda>counts.
     try_bind (set_sync_cursor (pit_id item) (none_if_empty (rsp_next_cursor r)) next_sync_at) (\<lambda>_.
     try_bind (set_healthy (pit_id item)) (\<lambda>_.
     let l' = next_page investment_account_ids r counts l
     in if rsp_has_more r then finish (Inl l')
        else try_bind (of_result (batch_log x (pit_id item) l')) (\<lambda>row.
             try_bind (log_batch row) (\<lambda>_. finish (Inr (lop_counts l')))))))))"

text \<open>\<open>stage n\<close>: whether a categorizer is set when the persister handles the \<open>n\<close>-th answer.\<close>

definition sync_page ::
    "crates \<Rightarrow> plaid_api \<Rightarrow> plaid_client \<Rightarrow> (nat \<Rightarrow> bool) \<Rightarrow> item_row \<Rightarrow> string list \<Rightarrow> string list
     \<Rightarrow> page_loop \<Rightarrow> (page_loop + item_counts) tx_run" where
  "sync_page x api client stage item hidden investment_account_ids l =
     (case a_sync api client (lop_calls l) (pit_access_token item) (lop_cursor l) of
        Inr r \<Rightarrow> store_page x (stage (lop_calls l)) item hidden investment_account_ids r l
      | Inl e \<Rightarrow>
          if is_pagination_mutation e \<and> lop_restarts l + 1 < MAX_SYNC_PAGINATION_RESTARTS
          then finish (Inl (l\<lparr>lop_restarts := lop_restarts l + 1, lop_calls := Suc (lop_calls l)\<rparr>))
          else answer ''sync transactions'' (Inl e))"

definition sync_pages ::
    "crates \<Rightarrow> plaid_api \<Rightarrow> plaid_client \<Rightarrow> (nat \<Rightarrow> bool) \<Rightarrow> nat \<Rightarrow> item_row \<Rightarrow> account_draft list \<Rightarrow> int
     \<Rightarrow> string list \<Rightarrow> item_counts tx_run" where
  "sync_pages x api client stage fuel item drafts connection_id investment_account_ids =
     try_bind (sync_cursor (pit_id item)) (\<lambda>cursor.
     try_bind (hidden_account_ids_by_connection connection_id) (\<lambda>hidden.
     iterate fuel (sync_page x api client stage item hidden investment_account_ids)
       (start_pages cursor drafts)))"

section \<open>Investments\<close>

record investment_loop =
  ivl_offset :: "32 word"
  ivl_securities :: "(string \<times> security) list"
  ivl_events :: "persist_event list"
  ivl_transactions :: "investment_transaction list"
  ivl_calls :: nat

definition investment_page ::
    "crates \<Rightarrow> plaid_api \<Rightarrow> plaid_client \<Rightarrow> item_secret \<Rightarrow> string list \<Rightarrow> string list \<Rightarrow> int \<times> int
     \<Rightarrow> investment_loop \<Rightarrow> (investment_loop + investment_loop) tx_run" where
  "investment_page x api client item account_ids hidden days l =
     and_done (answer ''investments transactions'' (a_investments api client (ivl_calls l)
       (pit_access_token (ise_item item)) (fst days) (snd days) account_ids (ivl_offset l))) (\<lambda>r.
     let securities = rev (map (\<lambda>s. (sec_security_id s, s)) (irs_securities r)) @ ivl_securities l;
         count = of_nat (length (irs_transactions r)) :: 32 word
     in try_bind (of_result (traverse (investment_transaction_from_plaid x (map_of securities)
             (ise_institution_name item) (pit_logo_url (ise_item item)) hidden) (irs_transactions r))) (\<lambda>synced.
        let l' = \<lparr>ivl_offset = ivl_offset l + count, ivl_securities = securities,
              ivl_events = ivl_events l @ map Upsert synced,
              ivl_transactions = ivl_transactions l @ irs_transactions r, ivl_calls = Suc (ivl_calls l)\<rparr>
        in if sint (irs_total r) \<le> sint (ivl_offset l') then finish (Inr l')
           else if \<not> 0 < sint count then err (Msg ''plaid returned an empty investments page'')
           else finish (Inl l')))"

definition investment_events ::
    "crates \<Rightarrow> plaid_api \<Rightarrow> plaid_client \<Rightarrow> nat \<Rightarrow> item_secret \<Rightarrow> string list \<Rightarrow> int
     \<Rightarrow> persist_event list tx_run" where
  "investment_events x api client fuel item account_ids connection_id =
     try_bind (hidden_account_ids_by_connection connection_id) (\<lambda>hidden.
     try_bind (lift utc_now) (\<lambda>now.
     let days = investment_transaction_date_range item now
     in and_done (iterate fuel (investment_page x api client item account_ids hidden days)
            \<lparr>ivl_offset = 0, ivl_securities = [], ivl_events = [], ivl_transactions = [], ivl_calls = 0\<rparr>) (\<lambda>l.
        try_bind (plaid_transaction_ids_in_window account_ids (fst days * day_seconds)
            ((snd days + 1) * day_seconds)) (\<lambda>stored.
        let gone = filter (\<lambda>external_id. external_id \<notin> inv_id ` set (ivl_transactions l)) stored
        in try_bind (of_result (investment_batch_log x (pit_id (ise_item item)) (ivl_transactions l) gone)) (\<lambda>row.
           try_bind (log_batch row) (\<lambda>_.
           finish (ivl_events l @ map (\<lambda>external_id.
             Removal \<lparr>rem_external_id = external_id, rem_source = Plaid_Source\<rparr>) gone)))))))"

section \<open>Items\<close>

definition client_for_credential :: "int \<Rightarrow> plaid_client tx_db" where
  "client_for_credential credential_id =
     try_bind (plaid_credential_secret_by_id credential_id) (\<lambda>found.
     try_bind (ok_or (''plaid credential '' @ show_int credential_id @ '' not found'') found) (\<lambda>c.
     ok \<lparr>cli_client_id = crd_client_id c, cli_secret = crd_secret c,
         cli_environment = environment_from (crd_environment c)\<rparr>))"

definition account_drafts :: "plaid_api \<Rightarrow> plaid_client \<Rightarrow> item_secret \<Rightarrow> int \<Rightarrow> account_draft list tx_run" where
  "account_drafts api client item connection_id =
     and_done (answer ''fetch Plaid accounts'' (a_accounts api client (pit_access_token (ise_item item)))) (\<lambda>accounts.
     finish (map (draft_from_plaid connection_id (ise_owner_id item)) accounts))"

definition investment_account_ids_for_sync :: "item_secret \<Rightarrow> account_draft list \<Rightarrow> string list" where
  "investment_account_ids_for_sync item drafts =
     (if pit_investments_enabled (ise_item item)
      then map dra_external_id (filter (\<lambda>d. dra_account_type d = Investment) drafts) else [])"

definition sync_without_pages ::
    "crates \<Rightarrow> bool \<Rightarrow> item_row \<Rightarrow> persist_event list \<Rightarrow> item_counts tx_run" where
  "sync_without_pages x stage item events =
     try_bind (schedule x (pit_sync_cron item)) (\<lambda>next_sync_at.
     try_bind (persist stage events) (\<lambda>counts.
     try_bind (set_sync_cursor (pit_id item) None next_sync_at) (\<lambda>_.
     try_bind (set_healthy (pit_id item)) (\<lambda>_.
     try_bind (log_batch (empty_batch (pit_id item))) (\<lambda>_. finish counts)))))"

definition sync_inner ::
    "crates \<Rightarrow> plaid_api \<Rightarrow> bool \<Rightarrow> (nat \<Rightarrow> bool) \<Rightarrow> nat \<Rightarrow> item_secret \<Rightarrow> item_counts tx_run" where
  "sync_inner x api stage stages fuel item =
     (let row = ise_item item
      in try_bind (client_for_credential (pit_credential_id row)) (\<lambda>client.
         try_bind (connection_by_source ''plaid_items'' (pit_id row)) (\<lambda>found.
         try_bind (ok_or (''no connection for plaid item '' @ show_int (pit_id row)) found) (\<lambda>connection.
         and_done (account_drafts api client item (con_id connection)) (\<lambda>drafts.
         let investment_ids = investment_account_ids_for_sync item drafts
         in and_done (if investment_ids = [] then finish []
              else with_context ''sync investment transactions''
                (investment_events x api client fuel item investment_ids (con_id connection))) (\<lambda>investments.
            let events = map AccountUpsert drafts @ investments
            in if \<not> list_ex transaction_syncable drafts then sync_without_pages x stage row events
               else if investment_ids = []
               then sync_pages x api client stages fuel row drafts (con_id connection) investment_ids
               else try_bind (persist stage events) (\<lambda>counts.
                    and_done (sync_pages x api client stages fuel row [] (con_id connection) investment_ids)
                      (\<lambda>page_counts. finish (add_counts counts page_counts)))))))))"

section \<open>Reports\<close>

record item_report =
  irp_counts :: item_counts
  irp_error :: bool

definition report_success :: "item_counts \<Rightarrow> item_report" where
  "report_success counts = \<lparr>irp_counts = counts, irp_error = False\<rparr>"

definition report_failure :: item_report where
  "report_failure = \<lparr>irp_counts = no_counts, irp_error = True\<rparr>"

definition sync_plaid_item ::
    "crates \<Rightarrow> plaid_api \<Rightarrow> bool \<Rightarrow> (nat \<Rightarrow> bool) \<Rightarrow> nat \<Rightarrow> item_secret \<Rightarrow> item_report tx_run" where
  "sync_plaid_item x api stage stages fuel item = do {
     r \<leftarrow> sync_inner x api stage stages fuel item;
     (case r of
        Inr (Done counts) \<Rightarrow> finish (report_success counts)
      | Inr (Refused code) \<Rightarrow>
          try_bind (record_plaid_item_error (pit_id (ise_item item)) (Some code)) (\<lambda>_. finish report_failure)
      | Inr Unfinished \<Rightarrow> ok Unfinished
      | Inl _ \<Rightarrow>
          try_bind (record_plaid_item_error (pit_id (ise_item item)) None) (\<lambda>_. finish report_failure))
   }"

fun sync_items ::
    "crates \<Rightarrow> plaid_api \<Rightarrow> bool \<Rightarrow> (nat \<Rightarrow> bool) \<Rightarrow> nat \<Rightarrow> item_secret list \<Rightarrow> item_report list tx_run" where
  "sync_items x api stage stages fuel [] = finish []"
| "sync_items x api stage stages fuel (item # items) =
     and_done (sync_plaid_item x api stage stages fuel item) (\<lambda>report.
     and_done (sync_items x api stage stages fuel items) (\<lambda>reports. finish (report # reports)))"

definition plaid_sync_due ::
    "crates \<Rightarrow> plaid_api \<Rightarrow> bool \<Rightarrow> (nat \<Rightarrow> bool) \<Rightarrow> nat \<Rightarrow> item_report list tx_run" where
  "plaid_sync_due x api stage stages fuel = do {
     now \<leftarrow> utc_now;
     due \<leftarrow> plaid_items_due False now;
     (case due of
        Inr items \<Rightarrow> sync_items x api stage stages fuel items
      | Inl _ \<Rightarrow> finish [report_failure])
   }"

definition plaid_sync_connection_into ::
    "crates \<Rightarrow> plaid_api \<Rightarrow> bool \<Rightarrow> (nat \<Rightarrow> bool) \<Rightarrow> nat \<Rightarrow> int \<Rightarrow> item_report tx_run" where
  "plaid_sync_connection_into x api stage stages fuel item_id = do {
     found \<leftarrow> plaid_item_secret_by_id item_id;
     (case found of
        Inr (Some item) \<Rightarrow> sync_plaid_item x api stage stages fuel item
      | _ \<Rightarrow> finish report_failure)
   }"

section \<open>Recurring streams\<close>

definition syncable_account_external_ids_by_item :: "int \<Rightarrow> string list tx_db" where
  "syncable_account_external_ids_by_item item_id =
     try_bind (account_records_of_item item_id) (\<lambda>rows.
     ok (map acc_external_id (filter (\<lambda>a. \<not> acc_manual a \<and> \<not> acc_is_closed a) rows)))"

text \<open>Plaid's refusal of a request for streams only postpones the next one.\<close>

definition sync_recurring_inner :: "crates \<Rightarrow> plaid_api \<Rightarrow> bool \<Rightarrow> item_secret \<Rightarrow> unit tx_db" where
  "sync_recurring_inner x api stage item =
     (let row = ise_item item;
          postpone = try_bind (schedule x (pit_recurring_sync_cron row)) (set_item_recurring_synced (pit_id row))
      in try_bind (with_context ''sync recurring streams: failed to fetch accounts''
           (syncable_account_external_ids_by_item (pit_id row))) (\<lambda>account_ids.
         if account_ids = [] then postpone
         else try_bind (with_context ''sync recurring streams: failed to create client''
             (client_for_credential (pit_credential_id row))) (\<lambda>client.
           case a_recurring api client (pit_access_token row) account_ids of
             Inl _ \<Rightarrow> postpone
           | Inr (inflow, outflow) \<Rightarrow>
               try_bind (of_result (traverse (recurring_charge x) (inflow @ outflow))) (\<lambda>charges.
               try_bind (schedule x (pit_recurring_sync_cron row)) (\<lambda>next_sync_at.
               try_bind (persist stage (map Recurring charges @ [MarkRecurring (pit_id row)])) (\<lambda>_.
               set_item_recurring_synced (pit_id row) next_sync_at))))))"

definition sync_recurring :: "crates \<Rightarrow> plaid_api \<Rightarrow> bool \<Rightarrow> item_secret \<Rightarrow> (tx_tables, item_report) io" where
  "sync_recurring x api stage item = do {
     r \<leftarrow> sync_recurring_inner x api stage item;
     State_Monad.return (case r of Inr _ \<Rightarrow> report_success no_counts | Inl _ \<Rightarrow> report_failure)
   }"

fun sync_recurring_items ::
    "crates \<Rightarrow> plaid_api \<Rightarrow> bool \<Rightarrow> item_secret list \<Rightarrow> (tx_tables, item_report list) io" where
  "sync_recurring_items x api stage [] = State_Monad.return []"
| "sync_recurring_items x api stage (item # items) = do {
     report \<leftarrow> sync_recurring x api stage item;
     reports \<leftarrow> sync_recurring_items x api stage items;
     State_Monad.return (report # reports)
   }"

definition plaid_sync_recurring_due :: "crates \<Rightarrow> plaid_api \<Rightarrow> bool \<Rightarrow> (tx_tables, item_report list) io" where
  "plaid_sync_recurring_due x api stage = do {
     now \<leftarrow> utc_now;
     due \<leftarrow> plaid_items_due True now;
     (case due of
        Inr items \<Rightarrow> sync_recurring_items x api stage items
      | Inl _ \<Rightarrow> State_Monad.return [report_failure])
   }"

end
