(* ===== verification/Simplefin_Sync.thy ===== *)
theory Simplefin_Sync
  imports Plaid_Sync
begin

text \<open>
  Synchronizing the accounts behind a SimpleFIN access token (src/server-rs/src/clients/simplefin.rs,
  accounts/simplefin_types.rs, accounts/store/simplefin.rs, transactions/sync/simplefin.rs and
  simplefin_helpers.rs). An answer holds the pending transactions too, so a stored pending transaction
  that a complete answer does not name is gone.

  The HTTP exchange, URLs, base64, JSON, the parser of doubles and the Unicode tables are parameters.
\<close>

section \<open>SimpleFIN's data\<close>

record sf_connection =
  sco_conn_id :: string
  sco_name :: string
  sco_org_id :: string
  sco_org_url :: string
  sco_sfin_url :: string

record sf_transaction =
  stx_id :: string
  stx_posted :: int
  stx_transacted_at :: int
  stx_amount :: string
  stx_description :: string
  stx_payee :: string
  stx_pending :: bool
  stx_extra :: string

record sf_account =
  sac_id :: string
  sac_conn_id :: string
  sac_name :: string
  sac_currency :: string
  sac_balance :: string
  sac_transactions :: "sf_transaction list"
  sac_holdings :: bool

record sf_error =
  ser_conn_id :: string
  ser_message :: string

record account_set =
  set_connections :: "sf_connection list"
  set_accounts :: "sf_account list"
  set_errors :: "sf_error list"
  set_skipped_non_usd :: "sf_account list"

section \<open>The client\<close>

record url =
  url_scheme :: string
  url_host :: "string option"
  url_rest :: string

record sf_bridge =
  h_base64 :: "string \<Rightarrow> string option"
  h_url :: "string \<Rightarrow> url option"
  h_accounts :: "url \<Rightarrow> int option \<Rightarrow> bool \<Rightarrow> error + account_set"
  h_claim :: "url \<Rightarrow> error + string"

definition ALLOWED_HOSTS :: "string list" where
  "ALLOWED_HOSTS = [''bridge.simplefin.org'', ''beta-bridge.simplefin.org'']"

definition ensure_allowed :: "url \<Rightarrow> error + unit" where
  "ensure_allowed u =
     (if url_scheme u \<noteq> ''https'' then Inl (Msg ''simplefin url must use https'')
      else case url_host u of
        None \<Rightarrow> Inl (Msg ''simplefin url host is not allowed'')
      | Some host \<Rightarrow>
          if list_ex (\<lambda>allowed. eq_ignore_ascii_case host allowed) ALLOWED_HOSTS then Inr ()
          else Inl (Msg ''simplefin url host is not allowed''))"

definition is_usd :: "string \<Rightarrow> bool" where
  "is_usd currency =
     (let currency = trim currency in currency = '''' \<or> eq_ignore_ascii_case currency ''USD'')"

definition parse_access_url :: "sf_bridge \<Rightarrow> string \<Rightarrow> error + url" where
  "parse_access_url h access_url =
     (case h_url h access_url of None \<Rightarrow> Inl (Msg ''invalid simplefin access URL'') | Some u \<Rightarrow> Inr u)"

definition get_accounts :: "sf_bridge \<Rightarrow> string \<Rightarrow> int option \<Rightarrow> bool \<Rightarrow> error + account_set" where
  "get_accounts h access_url start_date pending =
     and_then (parse_access_url h access_url) (\<lambda>u.
     and_then (ensure_allowed u) (\<lambda>_.
     and_then (h_accounts h u start_date pending) (\<lambda>decoded.
     Inr (decoded\<lparr>set_accounts := filter (\<lambda>a. is_usd (sac_currency a)) (set_accounts decoded),
       set_skipped_non_usd := filter (\<lambda>a. \<not> is_usd (sac_currency a)) (set_accounts decoded)\<rparr>))))"

definition claim_token :: "sf_bridge \<Rightarrow> string \<Rightarrow> error + string" where
  "claim_token h setup_token =
     (case h_base64 h (trim setup_token) of
        None \<Rightarrow> Inl (Msg ''decode setup token'')
      | Some claim_url \<Rightarrow>
          (case h_url h (trim claim_url) of
             None \<Rightarrow> Inl (Msg ''decode setup token'')
           | Some u \<Rightarrow>
               and_then (ensure_allowed u) (\<lambda>_.
               and_then (h_claim h u) (\<lambda>body.
               let access_url = trim body
               in if access_url = '''' then Inl (Msg ''empty access URL returned by claim endpoint'')
                  else and_then (parse_access_url h access_url) (\<lambda>u.
                       and_then (ensure_allowed u) (\<lambda>_. Inr access_url))))))"

section \<open>Accounts\<close>

text \<open>Characters are encoded in UTF-8: the first and the last one of a text.\<close>

definition continuation :: "char \<Rightarrow> bool" where
  "continuation c \<longleftrightarrow> 128 \<le> (of_char c :: nat) \<and> (of_char c :: nat) < 192"

definition next_char :: "string \<Rightarrow> string option" where
  "next_char s = (case s of [] \<Rightarrow> None | c # cs \<Rightarrow> Some (c # takeWhile continuation cs))"

definition next_back_char :: "string \<Rightarrow> string option" where
  "next_back_char s =
     (case dropWhile continuation (rev s) of
        [] \<Rightarrow> None
      | c # _ \<Rightarrow> Some (c # rev (takeWhile continuation (rev s))))"

definition name_and_mask :: "string \<Rightarrow> string \<times> string option" where
  "name_and_mask name =
     (let trimmed = trim_end name; plain = (trim name, None)
      in if trimmed = '''' \<or> last trimmed \<noteq> CHR '')'' then plain
         else case rsplit_once (CHR ''('') (butlast trimmed) of
           None \<Rightarrow> plain
         | Some (base, digits) \<Rightarrow>
             if (case next_back_char base of None \<Rightarrow> True | Some c \<Rightarrow> c \<notin> set ws_table)
                \<or> digits = '''' \<or> \<not> list_all is_ascii_digit digits \<or> trim base = '''' then plain
             else (trim base, Some digits))"

record sf_crates =
  y_crates :: crates
  y_alphanumeric :: "string \<Rightarrow> bool"
  y_f64 :: "string \<Rightarrow> f64 option"
  y_timestamp :: "int \<Rightarrow> bool"
  y_transaction_json :: "sf_transaction \<Rightarrow> string option"
  y_error_text :: "error \<Rightarrow> string"
  y_arrange :: "string list \<Rightarrow> string list"

function occurrences :: "string \<Rightarrow> string \<Rightarrow> string \<Rightarrow> (string \<times> string) list" where
  "occurrences p before [] = []"
| "occurrences p before (c # s) =
     (if starts_with p (c # s)
      then (before, drop (length p) (c # s)) # occurrences p (before @ p) (drop (length p - 1) s)
      else occurrences p (before @ [c]) s)"
  by pat_completeness auto
termination
  by (relation "measure (\<lambda>(p, before, s). length s)") auto

definition has_keyword :: "sf_crates \<Rightarrow> string \<Rightarrow> string list \<Rightarrow> bool" where
  "has_keyword y name keywords =
     list_ex (\<lambda>keyword. list_ex (\<lambda>(before, after).
         (case next_back_char before of None \<Rightarrow> True | Some c \<Rightarrow> \<not> y_alphanumeric y c)
         \<and> (case next_char after of None \<Rightarrow> True | Some c \<Rightarrow> \<not> y_alphanumeric y c))
       (occurrences keyword [] name)) keywords"

text \<open>Doubles: whether one is below or above zero.\<close>

definition f64_magnitude :: "f64 \<Rightarrow> nat" where
  "f64_magnitude d = unat d mod 2 ^ 63"

definition f64_ordered :: "f64 \<Rightarrow> bool" where
  "f64_ordered d \<longleftrightarrow> f64_magnitude d \<noteq> 0 \<and> f64_magnitude d \<le> 2047 * 2 ^ 52"

definition f64_negative :: "f64 \<Rightarrow> bool" where
  "f64_negative d \<longleftrightarrow> f64_ordered d \<and> 2 ^ 63 \<le> unat d"

definition f64_positive :: "f64 \<Rightarrow> bool" where
  "f64_positive d \<longleftrightarrow> f64_ordered d \<and> unat d < 2 ^ 63"

definition infer_account_type :: "sf_crates \<Rightarrow> string \<Rightarrow> bool \<Rightarrow> f64 \<Rightarrow> account_type \<times> bool" where
  "infer_account_type y name has_holdings balance =
     (let name = join '' '' (split_whitespace (to_ascii_lowercase name))
      in if has_holdings then (Investment, False)
         else if instr name ''brokerage'' then (Investment, False)
         else if has_keyword y name
           [''checking'', ''savings'', ''money market'', ''cd'', ''hsa'', ''cash mgmt'', ''cash management'',
            ''high yield'']
         then (Depository, False)
         else if has_keyword y name
           [''card'', ''credit'', ''visa'', ''mastercard'', ''amex'', ''american express'', ''freedom'',
            ''sapphire'', ''platinum'', ''gold'', ''blue cash'', ''hyatt'', ''gateway'', ''mileage'',
            ''rewards'', ''cashback'']
         then (Credit, False)
         else if has_keyword y name
           [''loan'', ''mortgage'', ''auto'', ''heloc'', ''student'', ''line of credit'']
         then (Loan, False)
         else if f64_negative balance then (Credit, False)
         else if f64_positive balance then (Depository, False)
         else (Credit, True))"

definition draft_from_simplefin :: "sf_crates \<Rightarrow> int \<Rightarrow> int \<Rightarrow> sf_account \<Rightarrow> account_draft" where
  "draft_from_simplefin y connection_id owner_id a =
     (let (name, digits) = name_and_mask (sac_name a);
          balance = (case y_f64 y (trim (sac_balance a)) of None \<Rightarrow> 0 | Some d \<Rightarrow> d);
          (account_type, needs_review) = infer_account_type y name (sac_holdings a) balance
      in \<lparr>dra_external_id = sac_id a, dra_connection_id = connection_id, dra_owner_id = owner_id,
          dra_name = name, dra_account_type = account_type, dra_subtype = None, dra_mask = digits,
          dra_needs_review = needs_review\<rparr>)"

definition skipped_label :: "sf_account \<Rightarrow> string" where
  "skipped_label a =
     (let name = fst (name_and_mask (sac_name a))
      in (if name = '''' then sac_id a else name) @ '' ('' @ to_ascii_uppercase (trim (sac_currency a)) @ '')'')"

definition skipped_accounts_messages :: "sf_account list \<Rightarrow> string \<Rightarrow> string option" where
  "skipped_accounts_messages skipped conn_id =
     (let labels = map skipped_label (filter (\<lambda>a. sac_conn_id a = conn_id) skipped)
      in if labels = [] then None else Some (''Skipped non-USD accounts: '' @ join '', '' labels))"

definition org_domain :: "sf_crates \<Rightarrow> string \<Rightarrow> string" where
  "org_domain y url = (case x_host (y_crates y) url of None \<Rightarrow> url | Some host \<Rightarrow> host)"

definition connection_params :: "sf_crates \<Rightarrow> int \<Rightarrow> sf_connection \<Rightarrow> sf_connection_row" where
  "connection_params y token_id c =
     \<lparr>sfc_id = 0, sfc_external_id = sco_conn_id c, sfc_access_token_id = token_id,
      sfc_org_id = none_if_empty (sco_org_id c), sfc_org_domain = none_if_empty (org_domain y (sco_org_url c)),
      sfc_org_url = none_if_empty (sco_org_url c), sfc_sfin_url = none_if_empty (sco_sfin_url c),
      sfc_logo_url = duckduckgo_favicon_url (y_crates y) (sco_org_url c), sfc_health_state = '''',
      sfc_health_error_message = None, sfc_last_synced_at = None\<rparr>"

section \<open>Transactions\<close>

definition start_date :: "int option \<Rightarrow> int \<Rightarrow> int" where
  "start_date last_synced_at now =
     (case last_synced_at of
        Some at \<Rightarrow> of_timestamp at - 14 * day_nanos
      | None \<Rightarrow> now - 89 * day_nanos)"

definition non_blank :: "string \<Rightarrow> string option" where
  "non_blank s = none_if_empty (trim s)"

definition timestamp_at :: "sf_crates \<Rightarrow> int \<Rightarrow> error + int" where
  "timestamp_at y s =
     (if y_timestamp y s then Inr (of_timestamp s)
      else Inl (Msg (''invalid simplefin transaction timestamp '' @ show_int s)))"

definition context_of :: "string \<Rightarrow> error + 'a \<Rightarrow> error + 'a" where
  "context_of message r = (case r of Inl _ \<Rightarrow> Inl (Msg message) | Inr a \<Rightarrow> Inr a)"

definition transaction_from_simple_fin ::
    "sf_crates \<Rightarrow> string \<Rightarrow> bool \<Rightarrow> sf_transaction \<Rightarrow> error + synced_transaction" where
  "transaction_from_simple_fin y account_id hidden p =
     and_then (context_of ''parse simplefin amount'' (parse_decimal (trim (stx_amount p)))) (\<lambda>amount.
     and_then (timestamp_at y (stx_transacted_at p)) (\<lambda>datetime.
     and_then (timestamp_at y (if stx_posted p = 0 then stx_transacted_at p else stx_posted p)) (\<lambda>posted.
     and_then (json_or ''marshal simplefin transaction'' (y_transaction_json y p)) (\<lambda>json.
     Inr \<lparr>syn_external_id = stx_id p, syn_account_id = account_id, syn_amount = - amount,
          syn_datetime = datetime, syn_posted_datetime = posted,
          syn_merchant_name = or_else (non_blank (stx_payee p)) (non_blank (stx_description p)),
          syn_original_name = non_blank (stx_description p), syn_logo_url = None, syn_plaid_category = None,
          syn_raw_provider_json = Some json, syn_source = Simplefin_Source,
          syn_pending = (stx_pending p \<or> stx_posted p = 0), syn_hidden_by_account = hidden,
          syn_stage_for_llm = False\<rparr>))))"

section \<open>The sync of a token\<close>

definition log_sync :: "sf_crates \<Rightarrow> int \<Rightarrow> int \<Rightarrow> string list \<Rightarrow> string list \<Rightarrow> error option \<Rightarrow> unit tx_db" where
  "log_sync y token_id start fetched removed failure = do {
     _ \<leftarrow> try_bind (of_result (json_or ''marshal'' (x_texts_json (y_crates y) fetched))) (\<lambda>fetched.
       try_bind (of_result (json_or ''marshal'' (x_texts_json (y_crates y) removed))) (\<lambda>removed.
       log_simple_fin_sync_batch_row
         \<lparr>sfl_access_token_id = token_id, sfl_start_date = Some (show_int (to_timestamp start)),
          sfl_added = ''[]'', sfl_modified = fetched, sfl_pending_removed = removed,
          sfl_error = map_option (y_error_text y) failure\<rparr>));
     ok ()
   }"

definition link_simple_fin_connection :: "sf_crates \<Rightarrow> sf_token_row \<Rightarrow> sf_connection \<Rightarrow> (int \<times> int) tx_db" where
  "link_simple_fin_connection y token c = with_tx (
     try_bind (upsert_simple_fin_connection_row (connection_params y (sft_id token) c)) (\<lambda>simple_fin_connection_id.
     try_bind (with_context ''upsert simplefin connection row''
       (upsert_connection_row ''simplefin_connections'' simple_fin_connection_id (none_if_empty (sco_name c))
         (sft_owner_id token))) (\<lambda>connection_id.
     ok (simple_fin_connection_id, connection_id))))"

type_synonym links = "(string \<times> int \<times> int) list"

fun link_connections :: "sf_crates \<Rightarrow> sf_token_row \<Rightarrow> sf_connection list \<Rightarrow> links \<Rightarrow> links tx_db" where
  "link_connections y token [] links = ok links"
| "link_connections y token (c # cs) links =
     try_bind (with_context ''link simplefin connection'' (link_simple_fin_connection y token c)) (\<lambda>ids.
     link_connections y token cs ((sco_conn_id c, ids) # links))"

text \<open>Health that cannot be written is only reported.\<close>

definition set_health :: "int \<Rightarrow> string \<Rightarrow> string option \<Rightarrow> int \<Rightarrow> (tx_tables, unit) io" where
  "set_health connection_id state message now = do {
     _ \<leftarrow> set_simple_fin_connection_health_row state message (Some (to_timestamp now)) connection_id;
     State_Monad.return ()
   }"

fun for_each :: "('a \<Rightarrow> ('t, unit) io) \<Rightarrow> 'a list \<Rightarrow> ('t, unit) io" where
  "for_each f [] = State_Monad.return ()"
| "for_each f (x # xs) = do { f x; for_each f xs }"

definition connection_ids_by_external_id :: "int \<Rightarrow> string list \<Rightarrow> (string \<times> int) list tx_db" where
  "connection_ids_by_external_id token_id external_ids =
     (if external_ids = [] then ok [] else simple_fin_connections_of_token token_id external_ids)"

definition set_connection_health :: "sf_token_row \<Rightarrow> account_set \<Rightarrow> links \<Rightarrow> int \<Rightarrow> (tx_tables, unit) io" where
  "set_connection_health token s links now = do {
     for_each (\<lambda>c. case map_of links (sco_conn_id c) of
         None \<Rightarrow> State_Monad.return ()
       | Some (ident, _) \<Rightarrow> set_health ident ''HEALTHY''
           (skipped_accounts_messages (set_skipped_non_usd s) (sco_conn_id c)) now) (set_connections s);
     found \<leftarrow> connection_ids_by_external_id (sft_id token)
       (map ser_conn_id (filter (\<lambda>e. map_of links (ser_conn_id e) = None) (set_errors s)));
     let resolved = (case found of Inl _ \<Rightarrow> [] | Inr pairs \<Rightarrow> pairs);
     for_each (\<lambda>e. case or_else (map_option fst (map_of links (ser_conn_id e))) (map_of (rev resolved) (ser_conn_id e)) of
         None \<Rightarrow> State_Monad.return ()
       | Some ident \<Rightarrow> set_health ident ''SYNC_ERROR'' (Some (ser_message e)) now) (set_errors s)
   }"

record sync_page =
  spg_events :: "persist_event list"
  spg_fetched_ids :: "string list"
  spg_removed_ids :: "string list"

definition hidden_once :: "int \<Rightarrow> (int \<times> string list) list \<Rightarrow> (int \<times> string list) list tx_db" where
  "hidden_once connection_id cache =
     (case map_of cache connection_id of
        Some _ \<Rightarrow> ok cache
      | None \<Rightarrow> try_bind (hidden_account_ids_by_connection connection_id) (\<lambda>ids. ok ((connection_id, ids) # cache)))"

fun page_accounts ::
    "sf_crates \<Rightarrow> sf_token_row \<Rightarrow> links \<Rightarrow> sf_account list \<Rightarrow> (int \<times> string list) list
     \<Rightarrow> persist_event list \<times> string list \<Rightarrow> (persist_event list \<times> string list) tx_db" where
  "page_accounts y token links [] cache (events, fetched) = ok (events, fetched)"
| "page_accounts y token links (a # accounts) cache (events, fetched) =
     (case map_of links (sac_conn_id a) of
        None \<Rightarrow> page_accounts y token links accounts cache (events, fetched)
      | Some (_, connection_id) \<Rightarrow>
          try_bind (hidden_once connection_id cache) (\<lambda>cache.
          try_bind (of_result (traverse (transaction_from_simple_fin y (sac_id a)
              (sac_id a \<in> set (the (map_of cache connection_id)))) (sac_transactions a))) (\<lambda>synced.
          page_accounts y token links accounts cache
            (events @ AccountUpsert (draft_from_simplefin y connection_id (sft_owner_id token) a) # map Upsert synced,
             fetched @ map stx_id (sac_transactions a)))))"

definition simplefin_page ::
    "sf_crates \<Rightarrow> sf_token_row \<Rightarrow> links \<Rightarrow> account_set \<Rightarrow> string list \<Rightarrow> sync_page tx_db" where
  "simplefin_page y token links s pending =
     try_bind (page_accounts y token links (set_accounts s) [] ([], [])) (\<lambda>(events, fetched).
     let removed = (if set_errors s \<noteq> [] then []
           else y_arrange y (remdups (filter (\<lambda>i. i \<notin> set fetched) pending)))
     in ok \<lparr>spg_events = events @ map (\<lambda>i. Removal \<lparr>rem_external_id = i, rem_source = Simplefin_Source\<rparr>) removed,
            spg_fetched_ids = y_arrange y (remdups fetched), spg_removed_ids = removed\<rparr>)"

definition store_simplefin ::
    "sf_crates \<Rightarrow> bool \<Rightarrow> sf_token_row \<Rightarrow> int \<Rightarrow> int \<Rightarrow> bool \<Rightarrow> sync_page \<Rightarrow> item_counts tx_db" where
  "store_simplefin y stage token now start partial page = do {
     persisted \<leftarrow> persist stage (spg_events page);
     (case persisted of
        Inl e \<Rightarrow> do {
          _ \<leftarrow> log_sync y (sft_id token) start (spg_fetched_ids page) (spg_removed_ids page) (Some e);
          err e
        }
      | Inr counts \<Rightarrow>
          if partial then ok counts
          else try_bind (of_result (next_after (y_crates y) (sft_sync_cron token) now)) (\<lambda>next_sync_at.
               try_bind (set_simple_fin_token_synced_row (Some (to_timestamp now)) (Some (to_timestamp next_sync_at))
                 (sft_id token)) (\<lambda>_.
               try_bind (log_sync y (sft_id token) start (spg_fetched_ids page) (spg_removed_ids page) None) (\<lambda>_.
               ok counts))))
   }"

definition simplefin_sync_inner :: "sf_crates \<Rightarrow> sf_bridge \<Rightarrow> bool \<Rightarrow> sf_token_row \<Rightarrow> item_counts tx_db" where
  "simplefin_sync_inner y h stage token = do {
     now \<leftarrow> utc_now;
     let start = start_date (sft_last_synced_at token) now;
     (case get_accounts h (sft_access_url token) (Some (to_timestamp start)) True of
        Inl e \<Rightarrow> do {
          _ \<leftarrow> log_sync y (sft_id token) start [] [] (Some e);
          err e
        }
      | Inr s \<Rightarrow>
          try_bind (link_connections y token (set_connections s) []) (\<lambda>links. do {
            set_connection_health token s links now;
            try_bind (pending_simple_fin_transaction_ids (sft_id token)) (\<lambda>pending.
            try_bind (simplefin_page y token links s pending) (\<lambda>page.
            store_simplefin y stage token now start (set_errors s \<noteq> []) page))
          }))
   }"

definition simplefin_sync :: "sf_crates \<Rightarrow> sf_bridge \<Rightarrow> bool \<Rightarrow> sf_token_row \<Rightarrow> (tx_tables, item_report) io" where
  "simplefin_sync y h stage token = do {
     r \<leftarrow> simplefin_sync_inner y h stage token;
     State_Monad.return (case r of Inr counts \<Rightarrow> report_success counts | Inl _ \<Rightarrow> report_failure)
   }"

fun simplefin_sync_tokens ::
    "sf_crates \<Rightarrow> sf_bridge \<Rightarrow> bool \<Rightarrow> sf_token_row list \<Rightarrow> (tx_tables, item_report list) io" where
  "simplefin_sync_tokens y h stage [] = State_Monad.return []"
| "simplefin_sync_tokens y h stage (token # tokens) = do {
     report \<leftarrow> simplefin_sync y h stage token;
     reports \<leftarrow> simplefin_sync_tokens y h stage tokens;
     State_Monad.return (report # reports)
   }"

definition simplefin_sync_due :: "sf_crates \<Rightarrow> sf_bridge \<Rightarrow> bool \<Rightarrow> (tx_tables, item_report list) io" where
  "simplefin_sync_due y h stage = do {
     now \<leftarrow> utc_now;
     due \<leftarrow> simple_fin_tokens_due now;
     (case due of
        Inr tokens \<Rightarrow> simplefin_sync_tokens y h stage tokens
      | Inl _ \<Rightarrow> State_Monad.return [report_failure])
   }"

definition simplefin_sync_connection_into ::
    "sf_crates \<Rightarrow> sf_bridge \<Rightarrow> bool \<Rightarrow> int \<Rightarrow> (tx_tables, item_report) io" where
  "simplefin_sync_connection_into y h stage connection_id = do {
     found \<leftarrow> simple_fin_token_by_connection connection_id;
     (case found of
        Inr (Some token) \<Rightarrow> simplefin_sync y h stage token
      | _ \<Rightarrow> State_Monad.return report_failure)
   }"

end
