(* ===== verification/Tx_Laws.thy ===== *)
theory Tx_Laws
  imports Tx_Sync
begin

text \<open>
  What the persister keeps: the tables stay well formed, and what the user decided about a
  transaction - its category, its review, hiding it, its notes and tags - survives every sync. A
  relation that every statement of the persister guarantees is guaranteed by the persister.
\<close>

section \<open>Well-formed tables\<close>

definition wf_tx :: "tx_tables \<Rightarrow> bool" where
  "wf_tx t \<longleftrightarrow>
     distinct (map own_id (b_owners t)) \<and> distinct (map acc_id (b_accounts t))
     \<and> distinct (map acc_external_id (b_accounts t))
     \<and> (\<forall>a \<in> set (b_accounts t). fk_account t a)
     \<and> distinct (map txn_id (b_transactions t)) \<and> distinct (map txn_key (b_transactions t))
     \<and> (\<forall>r \<in> set (b_transactions t). fk_txn t r)
     \<and> (\<forall>(txn, tag) \<in> set (b_transaction_tags t). txn \<in> txn_id ` set (b_transactions t))
     \<and> distinct (map rul_id (b_rules t)) \<and> distinct (map chg_id (b_charges t))"

lemma wf_txD:
  assumes "wf_tx t"
  shows "distinct (map own_id (b_owners t))" "distinct (map acc_id (b_accounts t))"
    "distinct (map acc_external_id (b_accounts t))" "\<forall>a \<in> set (b_accounts t). fk_account t a"
    "distinct (map txn_id (b_transactions t))" "distinct (map txn_key (b_transactions t))"
    "\<forall>r \<in> set (b_transactions t). fk_txn t r" "distinct (map rul_id (b_rules t))"
    "\<forall>(txn, tag) \<in> set (b_transaction_tags t). txn \<in> txn_id ` set (b_transactions t)"
    "distinct (map chg_id (b_charges t))"
  using assms by (simp_all add: wf_tx_def)

section \<open>The contract between the statements and the persister\<close>

locale tx_effects = effect_order R
  for R :: "tx_tables world \<Rightarrow> tx_tables world \<Rightarrow> bool" +
  fixes removable :: "string \<times> string \<Rightarrow> bool"
  assumes delete_synced: "removable (source, external_id) \<Longrightarrow> guarantees R (delete_synced_row source external_id)"
    and statements:
      "guarantees R (account_records ids)"
      "guarantees R (upsert_account_row a)"
      "guarantees R (synced_transaction_state external_id source)"
      "guarantees R (auto_rule_result m n amount account)"
      "guarantees R (plaid_category_id_by_detailed d)"
      "guarantees R (upsert_synced_row p)"
      "guarantees R (add_transaction_tags tags txns)"
      "guarantees R (upsert_recurring_row c)"
      "guarantees R (delete_charge_transactions charge)"
      "guarantees R (insert_charge_transactions charge txns')"
      "guarantees R (update_recurring_for_item item)"
begin

lemma upserts:
  "guarantees R (existing_account external_id)"
  "guarantees R (auto_categorization_result_with_plaid_category m n amount account category)"
  unfolding existing_account_def account_by_external_id_def
    auto_categorization_result_with_plaid_category_def auto_categorization_result_def Let_def
  by (intro guarantee_rules statements)+

lemma synced: "guarantees R (upsert_synced_transaction s)"
  unfolding upsert_synced_transaction_def by (intro guarantee_rules statements upserts)

lemma recurring:
  "guarantees R (upsert_recurring_charge d)"
  "guarantees R (replace_charge_transactions charge ids)"
  unfolding upsert_recurring_charge_def replace_charge_transactions_def
  by (intro guarantee_rules statements upserts)+

lemma event:
  assumes "\<And>r. e = Removal r \<Longrightarrow> removable (source_name (rem_source r), rem_external_id r)"
  shows "guarantees R (apply_event stage e counts)"
  using assms
  by (cases e)
     (auto simp: delete_synced_transaction_def mark_recurring_from_streams_def
       intro!: guarantee_rules statements synced recurring delete_synced)

lemma events:
  assumes "\<And>r. Removal r \<in> set es \<Longrightarrow> removable (source_name (rem_source r), rem_external_id r)"
  shows "guarantees R (persist_events stage es counts)"
  using assms
proof (induction es arbitrary: counts)
  case (Cons e es)
  then show ?case by (auto intro!: guarantee_rules event)
qed (simp add: guarantees_ok)

lemma persisted:
  assumes "\<And>r. Removal r \<in> set es \<Longrightarrow> removable (source_name (rem_source r), rem_external_id r)"
  shows "guarantees R (persist stage es)"
  unfolding persist_def by (intro guarantees_with_tx events assms)

end

section \<open>The statements keep the tables well formed\<close>

lemma fk_txn_cong: "b_accounts t' = b_accounts t \<Longrightarrow> b_categories t' = b_categories t \<Longrightarrow> fk_txn t' = fk_txn t"
  by (simp add: fk_txn_def fun_eq_iff)

lemma fk_account_cong: "b_owners t' = b_owners t \<Longrightarrow> b_connections t' = b_connections t \<Longrightarrow> fk_account t' = fk_account t"
  by (auto simp: fk_account_def fun_eq_iff split: option.splits)

lemma merge_synced_key [simp]:
  "txn_key (merge_synced p old) = txn_key old" "txn_id (merge_synced p old) = txn_id old"
  by (simp_all add: merge_synced_def txn_key_def)

lemma map_update_one:
  "distinct (map f xs) \<Longrightarrow> old \<in> set xs \<Longrightarrow> f new = f old \<Longrightarrow> g new = g old \<Longrightarrow>
   map g (update_rows (\<lambda>x. f x = f new) (\<lambda>_. new) xs) = map g xs"
  by (auto simp: update_rows_def distinct_map dest: inj_onD)

lemma set_update_one:
  assumes "distinct (map f xs)" "old \<in> set xs" "f new = f old"
  shows "set (update_rows (\<lambda>x. f x = f new) (\<lambda>_. new) xs) = insert new (set xs - {old})"
  using assms by (auto simp: set_update_rows distinct_map inj_on_def)

lemma wf_txI:
  assumes "distinct (map own_id (b_owners t))" "distinct (map acc_id (b_accounts t))"
    "distinct (map acc_external_id (b_accounts t))" "\<forall>a \<in> set (b_accounts t). fk_account t a"
    "distinct (map txn_id (b_transactions t))" "distinct (map txn_key (b_transactions t))"
    "\<forall>r \<in> set (b_transactions t). fk_txn t r" "distinct (map rul_id (b_rules t))"
    "\<forall>(txn, tag) \<in> set (b_transaction_tags t). txn \<in> txn_id ` set (b_transactions t)"
    "distinct (map chg_id (b_charges t))"
  shows "wf_tx t"
  unfolding wf_tx_def using assms by (intro conjI)

lemma wf_transactions:
  assumes "wf_tx t" "distinct (map txn_id rs)" "distinct (map txn_key rs)" "\<forall>r \<in> set rs. fk_txn t r"
    and "txn_id ` set (b_transactions t) \<subseteq> txn_id ` set rs"
  shows "wf_tx (t\<lparr>b_transactions := rs\<rparr>)"
proof (rule wf_txI)
  let ?t = "t\<lparr>b_transactions := rs\<rparr>"
  show "\<forall>a \<in> set (b_accounts ?t). fk_account ?t a"
    using wf_txD(4) [OF assms(1)] fk_account_cong [of ?t t] by simp
  show "\<forall>r \<in> set (b_transactions ?t). fk_txn ?t r"
    using assms(4) fk_txn_cong [of ?t t] by simp
  show "\<forall>(txn, tag) \<in> set (b_transaction_tags ?t). txn \<in> txn_id ` set (b_transactions ?t)"
    using wf_txD(9) [OF assms(1)] assms(5) by auto
qed (use assms(2,3) wf_txD [OF assms(1)] in simp_all)

lemma wf_replace_txn:
  assumes "wf_tx t" "old \<in> set (b_transactions t)" "txn_id r = txn_id old" "txn_key r = txn_key old"
    and "replace_txn r t = Inr (i, t')"
  shows "wf_tx t'"
proof -
  let ?rs = "update_rows (\<lambda>x. txn_id x = txn_id r) (\<lambda>_. r) (b_transactions t)"
  have t': "t' = t\<lparr>b_transactions := ?rs\<rparr>" and fk: "fk_txn t r"
    using assms(5) by (auto simp: replace_txn_def split: if_splits)
  have keys: "map txn_id ?rs = map txn_id (b_transactions t)" "map txn_key ?rs = map txn_key (b_transactions t)"
    using map_update_one [OF wf_txD(5) [OF assms(1)] assms(2,3)] assms(3,4) by simp_all
  then have "txn_id ` set ?rs = txn_id ` set (b_transactions t)" by (metis set_map)
  moreover have "\<forall>x \<in> set ?rs. fk_txn t x"
    using fk wf_txD(7) [OF assms(1)] by (auto simp: set_update_rows)
  ultimately show ?thesis
    unfolding t' using keys wf_txD(5,6) [OF assms(1)] by (intro wf_transactions [OF assms(1)]) simp_all
qed

lemma wf_append_txn:
  assumes "wf_tx t" "txn_key p \<notin> txn_key ` set (b_transactions t)" "append_txn p t = Inr (i, t')"
  shows "wf_tx t'"
proof -
  define r where "r = p\<lparr>txn_id := next_id (map txn_id (b_transactions t))\<rparr>"
  have t': "t' = t\<lparr>b_transactions := b_transactions t @ [r]\<rparr>" and "fk_txn t r"
    using assms(3) by (auto simp: append_txn_def r_def Let_def split: if_splits)
  moreover have "txn_key r = txn_key p" "txn_id r \<notin> txn_id ` set (b_transactions t)"
    using next_id_fresh [of "map txn_id (b_transactions t)"] by (simp_all add: r_def txn_key_def)
  ultimately show ?thesis
    unfolding t' using assms(2) wf_txD(5-7) [OF assms(1)]
    by (intro wf_transactions [OF assms(1)]) auto
qed

lemma found_key: "find (\<lambda>r. txn_key r = k) rows = Some old \<Longrightarrow> old \<in> set rows \<and> txn_key old = k"
  by (blast dest: find_Some)

lemma not_found_key: "find (\<lambda>r. txn_key r = k) rows = None \<Longrightarrow> k \<notin> txn_key ` set rows"
  by (auto simp: find_None_iff)

lemma append_txn_Inr: "append_txn p t = Inr (i, t') \<longleftrightarrow>
    (let r = p\<lparr>txn_id := next_id (map txn_id (b_transactions t))\<rparr>
     in fk_txn t r \<and> i = txn_id r \<and> t' = t\<lparr>b_transactions := b_transactions t @ [r]\<rparr>)"
  by (auto simp: append_txn_def Let_def)

lemma keeps_upsert_synced_row: "keeps wf_tx (upsert_synced_row p)"
  unfolding upsert_synced_row_def
proof (rule keeps_statement)
  fix t a t'
  assume t: "wf_tx t" and step: "(case find (\<lambda>r. txn_key r = txn_key p) (b_transactions t) of
      None \<Rightarrow> append_txn (p\<lparr>txn_notes := None\<rparr>) t
    | Some old \<Rightarrow> replace_txn (merge_synced p old) t) = Inr (a, t')"
  show "wf_tx t'"
  proof (cases "find (\<lambda>r. txn_key r = txn_key p) (b_transactions t)")
    case None
    then have "txn_key (p\<lparr>txn_notes := None\<rparr>) \<notin> txn_key ` set (b_transactions t)"
      using not_found_key by (simp add: txn_key_def)
    with t None step show ?thesis using wf_append_txn by simp
  next
    case (Some old)
    with step have "replace_txn (merge_synced p old) t = Inr (a, t')" by simp
    with found_key [OF Some] show ?thesis by (intro wf_replace_txn [OF t, of old]) simp_all
  qed
qed

text \<open>A change of other columns of the transactions.\<close>

lemma wf_update_transactions:
  assumes "wf_tx t" "\<And>r. txn_id (f r) = txn_id r" "\<And>r. txn_key (f r) = txn_key r"
    and "\<And>r. r \<in> set (b_transactions t) \<Longrightarrow> P r \<Longrightarrow> fk_txn t (f r)"
  shows "wf_tx (t\<lparr>b_transactions := update_rows P f (b_transactions t)\<rparr>)"
proof (rule wf_transactions [OF assms(1)])
  show "distinct (map txn_id (update_rows P f (b_transactions t)))"
    "distinct (map txn_key (update_rows P f (b_transactions t)))"
    using wf_txD(5,6) [OF assms(1)] assms(2,3) by (simp_all add: map_key_update_rows)
  show "\<forall>r \<in> set (update_rows P f (b_transactions t)). fk_txn t r"
    using wf_txD(7) [OF assms(1)] assms(4) by (auto simp: set_update_rows)
  show "txn_id ` set (b_transactions t) \<subseteq> txn_id ` set (update_rows P f (b_transactions t))"
    using assms(2) by (metis map_key_update_rows set_map order_refl)
qed

lemma delete_transactions_simps [simp]:
  "b_transactions (delete_transactions P t) = delete_rows P (b_transactions t)"
  "b_accounts (delete_transactions P t) = b_accounts t"
  "b_owners (delete_transactions P t) = b_owners t"
  "b_connections (delete_transactions P t) = b_connections t"
  "b_categories (delete_transactions P t) = b_categories t"
  "b_rules (delete_transactions P t) = b_rules t"
  "b_charges (delete_transactions P t) = b_charges t"
  "b_transaction_tags (delete_transactions P t) =
     delete_rows (\<lambda>(txn, tag). txn \<in> txn_id ` set (filter P (b_transactions t))) (b_transaction_tags t)"
  by (simp_all add: delete_transactions_def Let_def)

lemma wf_delete_transactions:
  assumes "wf_tx t"
  shows "wf_tx (delete_transactions P t)"
proof (rule wf_txI)
  let ?t = "delete_transactions P t"
  show "\<forall>a \<in> set (b_accounts ?t). fk_account ?t a"
    using wf_txD(4) [OF assms(1)] fk_account_cong [of ?t t] by simp
  show "\<forall>r \<in> set (b_transactions ?t). fk_txn ?t r"
    using wf_txD(7) [OF assms(1)] fk_txn_cong [of ?t t] by simp
  show "\<forall>(txn, tag) \<in> set (b_transaction_tags ?t). txn \<in> txn_id ` set (b_transactions ?t)"
    using wf_txD(9) [OF assms(1)] by fastforce
qed (use wf_txD [OF assms(1)] in \<open>simp_all add: distinct_delete_rows\<close>)

lemma wf_accounts:
  assumes "wf_tx t" "distinct (map acc_id as)" "distinct (map acc_external_id as)"
    and "\<forall>a \<in> set as. fk_account t a" "acc_id ` set (b_accounts t) \<subseteq> acc_id ` set as"
  shows "wf_tx (t\<lparr>b_accounts := as\<rparr>)"
proof (rule wf_txI)
  let ?t = "t\<lparr>b_accounts := as\<rparr>"
  show "\<forall>a \<in> set (b_accounts ?t). fk_account ?t a"
    using assms(4) fk_account_cong [of ?t t] by simp
  show "\<forall>r \<in> set (b_transactions ?t). fk_txn ?t r"
    using wf_txD(7) [OF assms(1)] assms(5) by (auto simp: fk_txn_def)
qed (use assms(2,3) wf_txD [OF assms(1)] in simp_all)

lemma keeps_upsert_account_row: "keeps wf_tx (upsert_account_row p)"
  unfolding upsert_account_row_def
proof (rule keeps_statement)
  fix t i t'
  assume t: "wf_tx t" and step: "(case find (\<lambda>a. acc_external_id a = acc_external_id p) (b_accounts t) of
       None \<Rightarrow>
         (let a = p\<lparr>acc_id := next_id (map acc_id (b_accounts t)),
                acc_review_reason := (if acc_needs_review p then Some ''TYPE'' else None), acc_manual := False\<rparr>
          in if fk_account t a then Inr (acc_id a, t\<lparr>b_accounts := b_accounts t @ [a]\<rparr>) else Inl Constraint)
     | Some old \<Rightarrow>
         (let a = old\<lparr>acc_connection_id := acc_connection_id p, acc_owner_id := acc_owner_id p,
                acc_subtype := (case acc_subtype old of None \<Rightarrow> acc_subtype p | Some s \<Rightarrow> Some s),
                acc_mask := (case acc_mask old of None \<Rightarrow> acc_mask p | Some s \<Rightarrow> Some s)\<rparr>
          in if fk_account t a
             then Inr (acc_id a, t\<lparr>b_accounts := update_rows (\<lambda>x. acc_id x = acc_id old) (\<lambda>_. a) (b_accounts t)\<rparr>)
             else Inl Constraint)) = Inr (i, t')"
  show "wf_tx t'"
  proof (cases "find (\<lambda>a. acc_external_id a = acc_external_id p) (b_accounts t)")
    case None
    define a where "a = p\<lparr>acc_id := next_id (map acc_id (b_accounts t)),
      acc_review_reason := (if acc_needs_review p then Some ''TYPE'' else None), acc_manual := False\<rparr>"
    have t': "t' = t\<lparr>b_accounts := b_accounts t @ [a]\<rparr>" and "fk_account t a"
      using None step by (auto simp: a_def Let_def split: if_splits)
    moreover have "acc_external_id a \<notin> acc_external_id ` set (b_accounts t)"
      using None by (auto simp: a_def find_None_iff)
    moreover have "acc_id a \<notin> acc_id ` set (b_accounts t)"
      using next_id_fresh [of "map acc_id (b_accounts t)"] by (simp add: a_def)
    ultimately show ?thesis
      unfolding t' using wf_txD(2-4) [OF t] by (intro wf_accounts [OF t]) auto
  next
    case (Some old)
    define a where "a = old\<lparr>acc_connection_id := acc_connection_id p, acc_owner_id := acc_owner_id p,
      acc_subtype := (case acc_subtype old of None \<Rightarrow> acc_subtype p | Some s \<Rightarrow> Some s),
      acc_mask := (case acc_mask old of None \<Rightarrow> acc_mask p | Some s \<Rightarrow> Some s)\<rparr>"
    have keys: "acc_id a = acc_id old" "acc_external_id a = acc_external_id old" by (simp_all add: a_def)
    let ?as = "update_rows (\<lambda>x. acc_id x = acc_id a) (\<lambda>_. a) (b_accounts t)"
    have t': "t' = t\<lparr>b_accounts := ?as\<rparr>" and fk: "fk_account t a"
      using Some step by (auto simp: a_def Let_def split: if_splits)
    have old: "old \<in> set (b_accounts t)" using find_Some [OF Some] by simp
    have "map acc_id ?as = map acc_id (b_accounts t)"
      "map acc_external_id ?as = map acc_external_id (b_accounts t)"
      using map_update_one [OF wf_txD(2) [OF t] old] keys by simp_all
    moreover from this have "acc_id ` set ?as = acc_id ` set (b_accounts t)" by (metis set_map)
    moreover have "\<forall>x \<in> set ?as. fk_account t x"
      using fk wf_txD(4) [OF t] by (auto simp: set_update_rows)
    ultimately show ?thesis
      unfolding t' using wf_txD(2,3) [OF t] by (intro wf_accounts [OF t]) simp_all
  qed
qed

text \<open>Changes of tables nothing here depends on.\<close>

lemma wf_charges:
  assumes "wf_tx t" "distinct (map chg_id cs)"
  shows "wf_tx (t\<lparr>b_charges := cs\<rparr>)"
  using assms fk_txn_cong [of "t\<lparr>b_charges := cs\<rparr>" t] fk_account_cong [of "t\<lparr>b_charges := cs\<rparr>" t]
  by (intro wf_txI) (simp_all add: wf_txD)

lemma wf_charge_transactions:
  assumes "wf_tx t"
  shows "wf_tx (t\<lparr>b_charge_transactions := cs\<rparr>)"
  using assms fk_txn_cong [of "t\<lparr>b_charge_transactions := cs\<rparr>" t]
    fk_account_cong [of "t\<lparr>b_charge_transactions := cs\<rparr>" t]
  by (intro wf_txI) (simp_all add: wf_txD)

lemma wf_transaction_tags:
  assumes "wf_tx t" "\<forall>(txn, tag) \<in> set ts. txn \<in> txn_id ` set (b_transactions t)"
  shows "wf_tx (t\<lparr>b_transaction_tags := ts\<rparr>)"
  using assms fk_txn_cong [of "t\<lparr>b_transaction_tags := ts\<rparr>" t]
    fk_account_cong [of "t\<lparr>b_transaction_tags := ts\<rparr>" t]
  by (intro wf_txI) (simp_all add: wf_txD)

lemma keeps_selects:
  "keeps wf_tx (account_records ids)"
  "keeps wf_tx (synced_transaction_state external_id source)"
  "keeps wf_tx (auto_rule_result m n amount account)"
  "keeps wf_tx (plaid_category_id_by_detailed d)"
  unfolding account_records_def synced_transaction_state_def auto_rule_result_def
    plaid_category_id_by_detailed_def
  by (rule keeps_select)+

lemma keeps_delete_synced_row: "keeps wf_tx (delete_synced_row source external_id)"
  unfolding delete_synced_row_def
  by (rule keeps_exec_rows) (simp add: Let_def wf_delete_transactions del: delete_transactions_simps)

lemma keeps_add_transaction_tags: "keeps wf_tx (add_transaction_tags tags txns)"
  unfolding add_transaction_tags_def
  by (rule keeps_exec, rule wf_transaction_tags, assumption) (auto dest!: wf_txD(9))

lemma keeps_recurring:
  "keeps wf_tx (upsert_recurring_row c)"
  "keeps wf_tx (delete_charge_transactions charge)"
  "keeps wf_tx (insert_charge_transactions charge ids)"
  "keeps wf_tx (update_recurring_for_item item)"
proof -
  show "keeps wf_tx (upsert_recurring_row c)"
    unfolding upsert_recurring_row_def
  proof (rule keeps_statement)
    fix t i t'
    assume t: "wf_tx t" and step: "(if chg_account_id c \<notin> acc_id ` set (b_accounts t) then Inl Constraint
     else case find (\<lambda>x. chg_external_id x = chg_external_id c) (b_charges t) of
       None \<Rightarrow>
         (let c = c\<lparr>chg_id := next_id (map chg_id (b_charges t))\<rparr>
          in Inr (chg_id c, t\<lparr>b_charges := b_charges t @ [c]\<rparr>))
     | Some old \<Rightarrow>
         Inr (chg_id old, t\<lparr>b_charges :=
           update_rows (\<lambda>x. chg_id x = chg_id old) (\<lambda>_. c\<lparr>chg_id := chg_id old\<rparr>) (b_charges t)\<rparr>)) = Inr (i, t')"
    have "distinct (map chg_id (b_charges t @ [c\<lparr>chg_id := next_id (map chg_id (b_charges t))\<rparr>]))"
      using wf_txD(10) [OF t] next_id_fresh [of "map chg_id (b_charges t)"] by simp
    moreover have "distinct (map chg_id (update_rows (\<lambda>x. chg_id x = chg_id old)
        (\<lambda>_. c\<lparr>chg_id := chg_id old\<rparr>) (b_charges t)))" for old
    proof -
      have "map chg_id (update_rows (\<lambda>x. chg_id x = chg_id old) (\<lambda>_. c\<lparr>chg_id := chg_id old\<rparr>) (b_charges t))
          = map chg_id (b_charges t)" by (simp add: update_rows_def)
      with wf_txD(10) [OF t] show ?thesis by simp
    qed
    ultimately show "wf_tx t'"
      using step wf_charges [OF t]
      by (auto simp: Let_def simp del: map_append split: if_splits option.splits)
  qed
  show "keeps wf_tx (delete_charge_transactions charge)"
    unfolding delete_charge_transactions_def by (rule keeps_exec) (rule wf_charge_transactions)
  show "keeps wf_tx (insert_charge_transactions charge ids)"
    unfolding insert_charge_transactions_def
    by (rule keeps_statement) (auto simp: Let_def intro: wf_charge_transactions split: if_splits)
  show "keeps wf_tx (update_recurring_for_item item)"
    unfolding update_recurring_for_item_def
    by (rule keeps_exec, rule wf_update_transactions)
       (auto simp: txn_key_def fk_txn_def dest: wf_txD(7))
qed

interpretation wf_tx: tx_effects "kept wf_tx" "\<lambda>_. True"
  by unfold_locales
     (rule keeps_selects keeps_delete_synced_row keeps_add_transaction_tags keeps_recurring
        keeps_upsert_synced_row keeps_upsert_account_row)+

section \<open>What the user decided survives a sync\<close>

definition kept_row :: "tx_tables \<Rightarrow> tx_tables \<Rightarrow> txn_row \<Rightarrow> txn_row \<Rightarrow> bool" where
  "kept_row t t' r r' \<longleftrightarrow>
     txn_id r' = txn_id r \<and> txn_key r' = txn_key r \<and> txn_is_hidden r' = txn_is_hidden r
     \<and> txn_notes r' = txn_notes r
     \<and> (\<forall>tag. (txn_id r, tag) \<in> set (b_transaction_tags t) \<longrightarrow> (txn_id r, tag) \<in> set (b_transaction_tags t'))
     \<and> (txn_is_reviewed r \<longrightarrow> txn_is_reviewed r' \<and> txn_category_id r' = txn_category_id r
          \<and> txn_staged_for_llm r' = txn_staged_for_llm r
          \<and> txn_pfc2_categorized r' = txn_pfc2_categorized r)"

definition rows_kept :: "(string \<times> string) set \<Rightarrow> tx_tables \<Rightarrow> tx_tables \<Rightarrow> bool" where
  "rows_kept removed t t' \<longleftrightarrow>
     (\<forall>r \<in> set (b_transactions t). txn_key r \<notin> removed \<longrightarrow>
        (\<exists>r' \<in> set (b_transactions t'). kept_row t t' r r'))"

definition decisions_kept :: "(string \<times> string) set \<Rightarrow> tx_tables world \<Rightarrow> tx_tables world \<Rightarrow> bool" where
  "decisions_kept removed w w' \<longleftrightarrow>
     (wf_tx (w_tables w) \<longrightarrow> wf_tx (w_tables w') \<and> rows_kept removed (w_tables w) (w_tables w'))"

lemma kept_row_refl [simp]: "kept_row t t r r"
  by (simp add: kept_row_def)

lemma kept_row_trans: "kept_row t u r x \<Longrightarrow> kept_row u v x y \<Longrightarrow> kept_row t v r y"
  by (simp add: kept_row_def)

lemma rows_kept_refl [simp]: "rows_kept removed t t"
  unfolding rows_kept_def using kept_row_refl by blast

lemma rows_kept_trans: "rows_kept removed t u \<Longrightarrow> rows_kept removed u v \<Longrightarrow> rows_kept removed t v"
  unfolding rows_kept_def by (metis kept_row_trans kept_row_def)

interpretation decisions: effect_order "decisions_kept removed" for removed
  by unfold_locales (auto simp: decisions_kept_def intro: rows_kept_trans)

lemma rows_kept_same:
  "b_transactions t' = b_transactions t \<Longrightarrow> b_transaction_tags t' = b_transaction_tags t \<Longrightarrow> rows_kept removed t t'"
  by (auto simp: rows_kept_def kept_row_def)

lemma rows_kept_update:
  assumes "b_transactions t' = update_rows P f (b_transactions t)"
    and "b_transaction_tags t' = b_transaction_tags t" "\<And>r. r \<in> set (b_transactions t) \<Longrightarrow> P r \<Longrightarrow> kept_row t t r (f r)"
  shows "rows_kept removed t t'"
  unfolding rows_kept_def
proof (intro ballI impI)
  fix r
  assume r: "r \<in> set (b_transactions t)"
  then have "(if P r then f r else r) \<in> set (b_transactions t')"
    by (simp add: assms(1) set_update_rows)
  moreover have "kept_row t t' r (if P r then f r else r)"
    using assms(3) [OF r] assms(2) by (simp add: kept_row_def)
  ultimately show "\<exists>r' \<in> set (b_transactions t'). kept_row t t' r r'" by blast
qed

lemma rows_kept_replace:
  assumes "wf_tx t" "old \<in> set (b_transactions t)" "txn_id r = txn_id old" "kept_row t t old r"
    and "replace_txn r t = Inr (i, t')"
  shows "rows_kept removed t t'"
proof -
  have t': "t' = t\<lparr>b_transactions := update_rows (\<lambda>x. txn_id x = txn_id r) (\<lambda>_. r) (b_transactions t)\<rparr>"
    using assms(5) by (auto simp: replace_txn_def split: if_splits)
  have "x = old" if "x \<in> set (b_transactions t)" "txn_id x = txn_id r" for x
    using that assms(2,3) wf_txD(5) [OF assms(1)] by (metis distinct_map inj_onD)
  then show ?thesis
    using assms(4) by (intro rows_kept_update [where P = "\<lambda>x. txn_id x = txn_id r" and f = "\<lambda>_. r"])
      (auto simp: t')
qed

lemma rows_kept_append:
  assumes "append_txn p t = Inr (i, t')"
  shows "rows_kept removed t t'"
proof -
  have "set (b_transactions t) \<subseteq> set (b_transactions t')" "b_transaction_tags t' = b_transaction_tags t"
    using assms by (auto simp: append_txn_Inr Let_def)
  then show ?thesis by (auto simp: rows_kept_def kept_row_def)
qed

lemma rows_kept_delete:
  assumes "\<And>r. P r \<Longrightarrow> txn_key r \<in> removed" and "wf_tx t"
  shows "rows_kept removed t (delete_transactions P t)"
  unfolding rows_kept_def
proof (intro ballI impI)
  fix r
  assume r: "r \<in> set (b_transactions t)" "txn_key r \<notin> removed"
  then have "\<not> P r" using assms(1) by blast
  moreover have "txn_id r \<notin> txn_id ` set (filter P (b_transactions t))"
    using r(1) \<open>\<not> P r\<close> wf_txD(5) [OF assms(2)] by (auto simp: distinct_map dest: inj_onD)
  ultimately show "\<exists>r' \<in> set (b_transactions (delete_transactions P t)).
      kept_row t (delete_transactions P t) r r'"
    using r(1) by (intro bexI [of _ r]) (auto simp: kept_row_def)
qed

lemma decisions_statement:
  assumes "keeps wf_tx (statement f)"
    and "\<And>t a t'. wf_tx t \<Longrightarrow> f t = Inr (a, t') \<Longrightarrow> rows_kept removed t t'"
  shows "guarantees (decisions_kept removed) (statement f)"
proof (rule decisions.guarantees_statement)
  fix w :: "tx_tables world" and a t
  assume run: "f (w_tables w) = Inr (a, t)"
  have "wf_tx t" if "wf_tx (w_tables w)"
  proof -
    let ?w = "w\<lparr>w_faults := (\<lambda>_. False)\<rparr> :: tx_tables world"
    have "run_state (statement f) ?w = (Inr a, (spend_statement ?w)\<lparr>w_tables := t\<rparr>)"
      using run by (simp add: run_statement)
    from keepsD [OF assms(1) this] that show ?thesis by simp
  qed
  with assms(2) [OF _ run] show "decisions_kept removed w (w\<lparr>w_tables := t\<rparr>)"
    by (simp add: decisions_kept_def)
qed

lemma decisions_select: "guarantees (decisions_kept removed) (select f)"
  unfolding select_def by (rule decisions_statement) (auto intro: keeps_select [unfolded select_def])

lemma decisions_exec:
  "keeps wf_tx (exec f) \<Longrightarrow> (\<And>t. wf_tx t \<Longrightarrow> rows_kept removed t (f t)) \<Longrightarrow>
   guarantees (decisions_kept removed) (exec f)"
  unfolding exec_def by (rule decisions_statement) auto

lemma kept_merge_synced: "kept_row t t old (merge_synced p old)"
  by (simp add: kept_row_def merge_synced_def txn_key_def)

lemma decisions_upsert_synced_row: "guarantees (decisions_kept removed) (upsert_synced_row p)"
  using keeps_upsert_synced_row [of p] unfolding upsert_synced_row_def
proof (rule decisions_statement)
  fix t a t'
  assume t: "wf_tx t" and step: "(case find (\<lambda>r. txn_key r = txn_key p) (b_transactions t) of
      None \<Rightarrow> append_txn (p\<lparr>txn_notes := None\<rparr>) t
    | Some old \<Rightarrow> replace_txn (merge_synced p old) t) = Inr (a, t')"
  show "rows_kept removed t t'"
  proof (cases "find (\<lambda>r. txn_key r = txn_key p) (b_transactions t)")
    case None
    with step show ?thesis by (simp add: rows_kept_append)
  next
    case (Some old)
    with step have "replace_txn (merge_synced p old) t = Inr (a, t')" by simp
    with found_key [OF Some] kept_merge_synced show ?thesis
      by (intro rows_kept_replace [OF t, of old]) simp_all
  qed
qed

interpretation reviews: tx_effects "decisions_kept removed" "\<lambda>key. key \<in> removed" for removed
proof unfold_locales
  fix source external_id
  assume "(source, external_id) \<in> removed"
  then show "guarantees (decisions_kept removed) (delete_synced_row source external_id)"
    using keeps_delete_synced_row [of source external_id]
    unfolding delete_synced_row_def exec_rows_def
    by (intro decisions_statement) (auto simp: Let_def txn_key_def intro: rows_kept_delete simp del: delete_transactions_simps)
next
  fix p show "guarantees (decisions_kept removed) (upsert_account_row p)"
    using keeps_upsert_account_row [of p] unfolding upsert_account_row_def
    by (rule decisions_statement)
       (auto simp: Let_def split: option.splits if_splits intro!: rows_kept_same)
next
  fix tags txns show "guarantees (decisions_kept removed) (add_transaction_tags tags txns)"
    using keeps_add_transaction_tags [of tags txns] unfolding add_transaction_tags_def
    by (rule decisions_exec) (auto simp: rows_kept_def kept_row_def)
next
  fix c show "guarantees (decisions_kept removed) (upsert_recurring_row c)"
    using keeps_recurring(1) [of c] unfolding upsert_recurring_row_def
    by (rule decisions_statement)
       (auto simp: Let_def split: option.splits if_splits intro!: rows_kept_same)
next
  fix charge show "guarantees (decisions_kept removed) (delete_charge_transactions charge)"
    using keeps_recurring(2) [of charge] unfolding delete_charge_transactions_def
    by (rule decisions_exec) (simp add: rows_kept_same)
next
  fix charge ids show "guarantees (decisions_kept removed) (insert_charge_transactions charge ids)"
    using keeps_recurring(3) [of charge ids] unfolding insert_charge_transactions_def
    by (rule decisions_statement) (auto simp: Let_def split: if_splits intro!: rows_kept_same)
next
  fix item show "guarantees (decisions_kept removed) (update_recurring_for_item item)"
    using keeps_recurring(4) [of item] unfolding update_recurring_for_item_def
    by (rule decisions_exec)
       (rule rows_kept_update, simp, simp, simp add: kept_row_def txn_key_def)
qed (simp_all only: account_records_def synced_transaction_state_def auto_rule_result_def
    plaid_category_id_by_detailed_def decisions_select decisions_upsert_synced_row)

text \<open>The tables that no event touches.\<close>

definition outside :: "tx_tables \<Rightarrow> tx_tables" where
  "outside t = t\<lparr>b_accounts := [], b_transactions := [], b_transaction_tags := [], b_charges := [],
     b_charge_transactions := []\<rparr>"

definition outside_same :: "tx_tables world \<Rightarrow> tx_tables world \<Rightarrow> bool" where
  "outside_same w w' \<longleftrightarrow> outside (w_tables w') = outside (w_tables w)"

interpretation outside_same: effect_order outside_same
  by unfold_locales (auto simp: outside_same_def)

lemma outside_statement:
  "(\<And>t a t'. f t = Inr (a, t') \<Longrightarrow> outside t' = outside t) \<Longrightarrow> guarantees outside_same (statement f)"
  by (rule outside_same.guarantees_statement) (simp add: outside_same_def)

lemma append_replace_outside:
  "append_txn p t = Inr (i, t') \<Longrightarrow> outside t' = outside t"
  "replace_txn p t = Inr (i, t') \<Longrightarrow> outside t' = outside t"
  by (auto simp: append_txn_def replace_txn_def outside_def Let_def split: if_splits)

interpretation outside: tx_effects outside_same "\<lambda>_. True"
proof unfold_locales
  fix source external_id show "guarantees outside_same (delete_synced_row source external_id)"
    unfolding delete_synced_row_def exec_rows_def
    by (rule outside_statement) (auto simp: Let_def delete_transactions_def outside_def)
next
  fix p show "guarantees outside_same (upsert_synced_row p)"
    unfolding upsert_synced_row_def
    by (rule outside_statement) (auto intro: append_replace_outside split: option.splits)
qed (unfold account_records_def synced_transaction_state_def auto_rule_result_def
      plaid_category_id_by_detailed_def upsert_account_row_def add_transaction_tags_def
      upsert_recurring_row_def delete_charge_transactions_def insert_charge_transactions_def
      update_recurring_for_item_def select_def exec_def,
    (rule outside_statement, auto simp: Let_def outside_def split: option.splits if_splits)+)

lemma persist_outside: "run_state (persist stage es) w = (r, w') \<Longrightarrow> outside (w_tables w') = outside (w_tables w)"
  using outside.persisted [of es stage] by (auto dest!: guaranteesD simp: outside_same_def)

definition removed_keys :: "persist_event list \<Rightarrow> (string \<times> string) set" where
  "removed_keys es = {(source_name (rem_source r), rem_external_id r) | r. Removal r \<in> set es}"

lemma decisions_persist: "guarantees (decisions_kept (removed_keys es)) (persist stage es)"
  by (rule reviews.persisted) (auto simp: removed_keys_def)

text \<open>C17: Whatever a provider reports, in whatever order and even if statements fail, a sync does not
  undo what the user decided: every transaction the provider did not remove is still there, with
  the same key, notes, hidden flag and all its tags, and a reviewed one keeps its review and its category;
  and the tables stay well formed, so no transaction is ever stored twice.\<close>

theorem sync_keeps_decisions:
  assumes "run_state (persist stage es) w = (result, w')" and "wf_tx (w_tables w)"
  shows "wf_tx (w_tables w') \<and> rows_kept (removed_keys es) (w_tables w) (w_tables w')"
  using assms decisions_persist [of es stage] by (auto dest!: guaranteesD simp: decisions_kept_def)

end
