(* ===== verification/Simplefin_Laws.thy ===== *)
theory Simplefin_Laws
  imports Simplefin_Sync Tx_Laws
begin

text \<open>
  Requests only go to the bridge; and what a SimpleFIN sync may remove.
\<close>

section \<open>The bridge\<close>

definition on_bridge :: "url \<Rightarrow> bool" where
  "on_bridge u \<longleftrightarrow> url_scheme u = ''https''
     \<and> (\<exists>host. url_host u = Some host \<and> to_ascii_lowercase host \<in> {''bridge.simplefin.org'', ''beta-bridge.simplefin.org''})"

lemma ensure_allowed_bridge: "ensure_allowed u = Inr () \<longleftrightarrow> on_bridge u"
proof -
  have "to_ascii_lowercase ''bridge.simplefin.org'' = ''bridge.simplefin.org''"
    "to_ascii_lowercase ''beta-bridge.simplefin.org'' = ''beta-bridge.simplefin.org''"
    by code_simp+
  then show ?thesis
    by (auto simp: ensure_allowed_def on_bridge_def ALLOWED_HOSTS_def eq_ignore_ascii_case_def split: option.splits)
qed

text \<open>Two networks that agree on the bridge, and may differ everywhere else.\<close>

definition same_bridge :: "sf_bridge \<Rightarrow> sf_bridge \<Rightarrow> bool" where
  "same_bridge h h' \<longleftrightarrow> h_base64 h' = h_base64 h \<and> h_url h' = h_url h
     \<and> (\<forall>u. on_bridge u \<longrightarrow> h_accounts h' u = h_accounts h u \<and> h_claim h' u = h_claim h u)"

lemma and_then_cong: "r = r' \<Longrightarrow> (\<And>a. r' = Inr a \<Longrightarrow> f a = g a) \<Longrightarrow> and_then r f = and_then r' g"
  by (simp add: and_then_def split: sum.splits)

text \<open>C22: Whatever access URL is stored and whatever setup token a user pastes, the server asks nobody
  but the SimpleFIN bridge: what it gets does not depend on what any other host, or any host over
  plain HTTP, would answer; and an access URL that a claim returns is again one of the bridge.\<close>

theorem requests_stay_on_bridge:
  assumes "same_bridge h h'"
  shows "get_accounts h' access_url start pending = get_accounts h access_url start pending
    \<and> claim_token h' setup_token = claim_token h setup_token
    \<and> (\<forall>claimed. claim_token h setup_token = Inr claimed \<longrightarrow> (\<exists>u. h_url h claimed = Some u \<and> on_bridge u))"
proof (intro conjI allI impI)
  have bridge: "h_base64 h' = h_base64 h" "h_url h' = h_url h"
    "\<And>u x. ensure_allowed u = Inr x \<Longrightarrow> h_accounts h' u = h_accounts h u \<and> h_claim h' u = h_claim h u"
    using assms by (auto simp: same_bridge_def ensure_allowed_bridge)
  show "get_accounts h' access_url start pending = get_accounts h access_url start pending"
    unfolding get_accounts_def parse_access_url_def bridge(1,2)
    by (intro and_then_cong refl) (simp_all add: bridge(3))
  have parse: "parse_access_url h' = parse_access_url h"
    by (simp add: parse_access_url_def fun_eq_iff bridge(2))
  show "claim_token h' setup_token = claim_token h setup_token"
    unfolding claim_token_def bridge(1,2) parse Let_def
    by (auto intro!: and_then_cong simp: bridge(3) split: option.splits)
next
  fix claimed
  assume "claim_token h setup_token = Inr claimed"
  then show "\<exists>u. h_url h claimed = Some u \<and> on_bridge u"
    by (auto simp: claim_token_def and_then_def Let_def parse_access_url_def ensure_allowed_bridge [symmetric]
        split: option.splits sum.splits if_splits)
qed

section \<open>What a sync leaves alone\<close>

lemma wf_connections:
  assumes "wf_tx t" "con_id ` set (b_connections t) \<subseteq> con_id ` set cs"
  shows "wf_tx (t\<lparr>b_connections := cs\<rparr>)"
proof (rule wf_txI)
  let ?t = "t\<lparr>b_connections := cs\<rparr>"
  show "\<forall>a \<in> set (b_accounts ?t). fk_account ?t a"
    using wf_txD(4) [OF assms(1)] assms(2) by (fastforce simp: fk_account_def split: option.splits)
  show "\<forall>r \<in> set (b_transactions ?t). fk_txn ?t r"
    using wf_txD(7) [OF assms(1)] by (simp add: fk_txn_def)
qed (use wf_txD [OF assms(1)] in simp_all)

text \<open>Bookkeeping of SimpleFIN: it changes neither accounts nor transactions.\<close>

definition ledger_same :: "tx_tables world \<Rightarrow> tx_tables world \<Rightarrow> bool" where
  "ledger_same w w' \<longleftrightarrow>
     (wf_tx (w_tables w) \<longrightarrow> wf_tx (w_tables w'))
     \<and> b_accounts (w_tables w') = b_accounts (w_tables w) \<and> b_transactions (w_tables w') = b_transactions (w_tables w)
     \<and> b_transaction_tags (w_tables w') = b_transaction_tags (w_tables w)"

interpretation ledger_same: effect_order ledger_same
  by unfold_locales (auto simp: ledger_same_def)

lemma ledger_statement:
  "(\<And>t a t'. f t = Inr (a, t') \<Longrightarrow> (wf_tx t \<longrightarrow> wf_tx t') \<and> b_accounts t' = b_accounts t
     \<and> b_transactions t' = b_transactions t \<and> b_transaction_tags t' = b_transaction_tags t) \<Longrightarrow>
   guarantees ledger_same (statement f)"
  by (rule ledger_same.guarantees_statement) (auto simp: ledger_same_def)

lemma wf_simplefin [simp]:
  "wf_tx (t\<lparr>b_sf_connections := x\<rparr>) = wf_tx t" "wf_tx (t\<lparr>b_sf_tokens := y\<rparr>) = wf_tx t"
  "wf_tx (t\<lparr>b_sf_log := z\<rparr>) = wf_tx t"
  by (simp_all add: wf_tx_def fk_account_def fk_txn_def cong: option.case_cong)

lemma ledger_rows:
  "guarantees ledger_same (upsert_simple_fin_connection_row c)"
  "guarantees ledger_same (upsert_connection_row source i name owner)"
  "guarantees ledger_same (set_simple_fin_connection_health_row state message at i)"
  "guarantees ledger_same (set_simple_fin_token_synced_row m n i)"
  "guarantees ledger_same (log_simple_fin_sync_batch_row row)"
  "guarantees ledger_same (select f)"
proof -
  show "guarantees ledger_same (upsert_simple_fin_connection_row c)"
    unfolding upsert_simple_fin_connection_row_def
    by (rule ledger_statement) (auto simp: Let_def split: if_splits option.splits)
  show "guarantees ledger_same (upsert_connection_row source i name owner)"
    unfolding upsert_connection_row_def
    by (rule ledger_statement)
       (auto simp: Let_def image_update_rows intro!: wf_connections split: if_splits option.splits)
  show "guarantees ledger_same (set_simple_fin_connection_health_row state message at i)"
    "guarantees ledger_same (set_simple_fin_token_synced_row m n i)"
    "guarantees ledger_same (log_simple_fin_sync_batch_row row)"
    "guarantees ledger_same (select f)"
    unfolding set_simple_fin_connection_health_row_def set_simple_fin_token_synced_row_def
      log_simple_fin_sync_batch_row_def select_def exec_def
    by (rule ledger_statement, auto split: if_splits)+
qed

context effect_order
begin

lemma guarantees_for_each: "(\<And>x. guarantees R (f x)) \<Longrightarrow> guarantees R (for_each f xs)"
  by (induction xs) (auto intro!: guarantee_rules)

end

lemma ledger_links:
  "guarantees ledger_same (link_connections y token cs links)"
  "guarantees ledger_same (set_connection_health token s links now)"
  "guarantees ledger_same (log_sync y i start fetched removed failure)"
proof -
  show "guarantees ledger_same (link_connections y token cs links)"
    by (induction cs arbitrary: links)
       (auto simp: link_simple_fin_connection_def intro!: guarantee_rules ledger_rows)
  show "guarantees ledger_same (set_connection_health token s links now)"
    unfolding set_connection_health_def connection_ids_by_external_id_def simple_fin_connections_of_token_def set_health_def
    by (intro guarantee_rules ledger_same.guarantees_for_each ledger_rows)
  show "guarantees ledger_same (log_sync y i start fetched removed failure)"
    unfolding log_sync_def by (intro guarantee_rules ledger_rows)
qed

section \<open>What a sync may remove\<close>

text \<open>The tables that say which accounts a token has.\<close>

definition links_same :: "tx_tables world \<Rightarrow> tx_tables world \<Rightarrow> bool" where
  "links_same w w' \<longleftrightarrow> b_connections (w_tables w') = b_connections (w_tables w)
     \<and> b_sf_connections (w_tables w') = b_sf_connections (w_tables w)"

interpretation links_same: effect_order links_same
  by unfold_locales (auto simp: links_same_def)

lemma links_rows:
  "guarantees links_same (set_simple_fin_token_synced_row m n i)"
  "guarantees links_same (log_sync y i start fetched removed failure)"
  "guarantees links_same (persist stage es)"
proof -
  show "guarantees links_same (set_simple_fin_token_synced_row m n i)"
    unfolding set_simple_fin_token_synced_row_def exec_def
    by (rule links_same.guarantees_statement) (auto simp: links_same_def)
  show "guarantees links_same (log_sync y i start fetched removed failure)"
    unfolding log_sync_def log_simple_fin_sync_batch_row_def
    by (intro guarantee_rules links_same.guarantees_statement) (auto simp: links_same_def split: if_splits)
  show "guarantees links_same (persist stage es)"
    unfolding guarantees_def
  proof (intro allI wpI)
    fix w :: "tx_tables world" and r w'
    assume "run_state (persist stage es) w = (r, w')"
    note same = persist_outside [OF this]
    show "links_same w w'"
      using arg_cong [OF same, of b_connections] arg_cong [OF same, of b_sf_connections]
      by (simp add: links_same_def outside_def)
  qed
qed

definition answered_ids :: "account_set \<Rightarrow> links \<Rightarrow> string set" where
  "answered_ids s links =
     (\<Union>a \<in> set (set_accounts s). if map_of links (sac_conn_id a) = None then {} else stx_id ` set (sac_transactions a))"

lemma wp_page_accounts:
  assumes "\<And>e w'. w_tables w' = w_tables w \<Longrightarrow> Q (Inl e) w'"
    and "\<And>es ids w'. w_tables w' = w_tables w \<Longrightarrow> (\<forall>r. Removal r \<in> set es \<longrightarrow> Removal r \<in> set events) \<Longrightarrow>
      set ids = set fetched \<union> (\<Union>a \<in> set accounts.
        if map_of links (sac_conn_id a) = None then {} else stx_id ` set (sac_transactions a)) \<Longrightarrow> Q (Inr (es, ids)) w'"
  shows "wp (page_accounts y token links accounts cache (events, fetched)) Q w"
  using assms
proof (induction accounts arbitrary: cache events fetched w)
  case Nil
  then show ?case by (simp add: wp_ok)
next
  case (Cons a accounts)
  show ?case
  proof (cases "map_of links (sac_conn_id a)")
    case None
    with Cons show ?thesis by simp
  next
    case (Some ids)
    obtain i c where ids: "ids = (i, c)" by (cases ids)
    have hidden: "guarantees untouched (hidden_once c cache)"
      unfolding hidden_once_def hidden_account_ids_by_connection_def
      by (intro guarantee_rules)
    have rest: "wp (try_bind (of_result (traverse (transaction_from_simple_fin y (sac_id a) hid) (sac_transactions a))) (\<lambda>synced.
        page_accounts y token links accounts cache'
          (events @ AccountUpsert (draft_from_simplefin y c (sft_owner_id token) a) # map Upsert synced,
           fetched @ map stx_id (sac_transactions a)))) Q w1"
      if "w_tables w1 = w_tables w" for w1 cache' hid
    proof (cases "traverse (transaction_from_simple_fin y (sac_id a) hid) (sac_transactions a)")
      case (Inl e)
      then show ?thesis by (simp add: wp_try_bind wp_of_result Cons.prems(1) that)
    next
      case (Inr synced)
      have upserts: "Removal r \<notin> Upsert ` set synced" for r by auto
      show ?thesis
        unfolding wp_try_bind wp_of_result Inr sum.case
        by (rule Cons.IH) (simp_all add: that Some Cons.prems upserts Un_assoc)
    qed
    show ?thesis
      unfolding page_accounts.simps Some ids option.case prod.case
      by (rule wp_try_bindI, rule wpI)
         (use guaranteesD [OF hidden] rest Cons.prems(1) in \<open>auto simp: untouched_def split: sum.splits\<close>)
  qed
qed

lemma ledger_decisions: "guarantees ledger_same m \<Longrightarrow> guarantees (decisions_kept removed) m"
  unfolding guarantees_def ledger_same_def decisions_kept_def
  by (blast intro: wp_mono rows_kept_same)

lemma store_decisions:
  "guarantees (decisions_kept (removed_keys (spg_events page))) (store_simplefin y stage token now start partial page)"
  unfolding store_simplefin_def
  by (intro guarantee_rules effect_order.guarantees_of_result [OF decisions.effect_order_axioms]
      decisions_persist ledger_rows [THEN ledger_decisions] ledger_links [THEN ledger_decisions])

lemma store_links: "guarantees links_same (store_simplefin y stage token now start partial page)"
  unfolding store_simplefin_def by (intro guarantee_rules links_rows)

lemma wp_link_connections:
  assumes "\<And>e w'. ledger_same w w' \<Longrightarrow> Q (Inl e) w'"
    and "\<And>links' w'. ledger_same w w' \<Longrightarrow>
      dom (map_of links') = dom (map_of links) \<union> sco_conn_id ` set cs \<Longrightarrow> Q (Inr links') w'"
  shows "wp (link_connections y token cs links) Q w"
  using assms
proof (induction cs arbitrary: links w)
  case Nil
  then show ?case by (simp add: wp_ok ledger_same.R_refl)
next
  case (Cons c cs)
  have link: "guarantees ledger_same (with_context m (link_simple_fin_connection y token c))" for m
    unfolding link_simple_fin_connection_def by (intro guarantee_rules ledger_rows)
  show ?case
    unfolding link_connections.simps
  proof (rule wp_try_bindI, rule wpI)
    fix r w1
    assume "run_state (with_context ''link simplefin connection'' (link_simple_fin_connection y token c)) w = (r, w1)"
    then have w1: "ledger_same w w1" by (rule guaranteesD [OF link])
    show "case r of Inl e \<Rightarrow> Q (Inl e) w1
      | Inr ids \<Rightarrow> wp (link_connections y token cs ((sco_conn_id c, ids) # links)) Q w1"
    proof (cases r)
      case (Inr ids)
      show ?thesis
        unfolding Inr sum.case
      proof (rule Cons.IH)
        fix e w2
        assume "ledger_same w1 w2"
        then show "Q (Inl e) w2" by (rule Cons.prems(1) [OF ledger_same.R_trans [OF w1]])
      next
        fix links' :: links and w2
        assume "ledger_same w1 w2"
          and "dom (map_of links') = dom (map_of ((sco_conn_id c, ids) # links)) \<union> sco_conn_id ` set cs"
        then show "Q (Inr links') w2"
          by (intro Cons.prems(2) ledger_same.R_trans [OF w1]) simp_all
      qed
    qed (simp add: Cons.prems(1) w1)
  qed
qed

text \<open>The transactions a sync may take for gone: pending ones of the token's accounts that an answer
  without errors names in none of the accounts the sync takes in, those in US dollars (the client drops the
  others) whose connection the answer lists.\<close>

definition gone_pending :: "tx_tables \<Rightarrow> tx_tables \<Rightarrow> int \<Rightarrow> error + account_set \<Rightarrow> (string \<times> string) set" where
  "gone_pending t t' token_id answered = {(''simplefin'', i) | i s r.
     answered = Inr s \<and> set_errors s = []
     \<and> (\<forall>a \<in> set (set_accounts s). sac_conn_id a \<in> sco_conn_id ` set (set_connections s) \<longrightarrow>
          i \<notin> stx_id ` set (sac_transactions a))
     \<and> r \<in> set (b_transactions t) \<and> txn_key r = (''simplefin'', i) \<and> txn_pending r
     \<and> txn_account_id r \<in> set (accounts_of_token (t'\<lparr>b_accounts := b_accounts t\<rparr>) token_id)}"

lemma rows_kept_mono: "rows_kept removed t t' \<Longrightarrow> removed \<subseteq> removed' \<Longrightarrow> rows_kept removed' t t'"
  by (auto simp: rows_kept_def)

lemma rows_kept_ledger:
  assumes "ledger_same u v" "rows_kept removed (w_tables v) t"
  shows "rows_kept removed (w_tables u) t"
  using assms unfolding rows_kept_def kept_row_def ledger_same_def by simp

definition only_gone :: "tx_tables world \<Rightarrow> int \<Rightarrow> error + account_set \<Rightarrow> tx_tables world \<Rightarrow> bool" where
  "only_gone w token_id answered w' \<longleftrightarrow> wf_tx (w_tables w')
     \<and> rows_kept (gone_pending (w_tables w) (w_tables w') token_id answered) (w_tables w) (w_tables w')"

lemma only_gone_ledger: "wf_tx (w_tables w) \<Longrightarrow> ledger_same w w' \<Longrightarrow> only_gone w token_id answered w'"
  by (auto simp: only_gone_def ledger_same_def intro: rows_kept_same)

lemma wp_store_gone:
  assumes "wf_tx (w_tables w)" "ledger_same w w1"
    and gone: "\<And>t' :: tx_tables. b_connections t' = b_connections (w_tables w1) \<Longrightarrow>
      b_sf_connections t' = b_sf_connections (w_tables w1) \<Longrightarrow>
      removed_keys (spg_events page) \<subseteq> gone_pending (w_tables w) t' token_id answered"
  shows "wp (store_simplefin y stage token now start partial page) (\<lambda>_. only_gone w token_id answered) w1"
proof (rule wpI)
  fix r w'
  assume run: "run_state (store_simplefin y stage token now start partial page) w1 = (r, w')"
  from guaranteesD [OF store_decisions run] assms(1,2)
  have "wf_tx (w_tables w')" "rows_kept (removed_keys (spg_events page)) (w_tables w1) (w_tables w')"
    by (simp_all add: decisions_kept_def ledger_same_def)
  moreover from guaranteesD [OF store_links run] gone
  have "removed_keys (spg_events page) \<subseteq> gone_pending (w_tables w) (w_tables w') token_id answered"
    by (simp add: links_same_def)
  ultimately show "only_gone w token_id answered w'"
    unfolding only_gone_def using rows_kept_ledger [OF assms(2)] rows_kept_mono by blast
qed

lemma wp_page_gone:
  assumes "wf_tx (w_tables w)" "ledger_same w w1" "\<forall>ids. set (y_arrange y ids) = set ids"
    and links: "dom (map_of links) = sco_conn_id ` set (set_connections s)"
  shows "wp (try_bind (pending_simple_fin_transaction_ids (sft_id token)) (\<lambda>pending.
      try_bind (simplefin_page y token links s pending) (\<lambda>page.
      store_simplefin y stage token now start partial page))) (\<lambda>_. only_gone w (sft_id token) (Inr s)) w1"
proof -
  let ?pending = "map txn_external_id (filter (\<lambda>r. txn_account_id r \<in> set (accounts_of_token (w_tables w1) (sft_id token))
     \<and> txn_source r = ''simplefin'' \<and> txn_pending r) (b_transactions (w_tables w1)))"
  have "wp (simplefin_page y token links s ?pending) (\<lambda>r w2. case r of
      Inl e \<Rightarrow> only_gone w (sft_id token) (Inr s) w2
    | Inr page \<Rightarrow> wp (store_simplefin y stage token now start partial page)
        (\<lambda>_. only_gone w (sft_id token) (Inr s)) w2) (spend_statement w1)"
    unfolding simplefin_page_def
  proof (rule wp_try_bindI, rule wp_page_accounts, goal_cases)
    case (1 e w2)
    with assms(2) have "ledger_same w w2" by (simp add: ledger_same_def)
    then show ?case by (simp add: only_gone_ledger assms(1))
  next
    case (2 es ids w2)
    have w2: "ledger_same w w2" using assms(2) 2(1) by (simp add: ledger_same_def)
    show ?case
      unfolding sum.case prod.case wp_let Let_def wp_ok
    proof (rule wp_store_gone [OF assms(1) w2], rule subsetI)
      fix t' :: tx_tables and key
      assume t': "b_connections t' = b_connections (w_tables w2)" "b_sf_connections t' = b_sf_connections (w_tables w2)"
      assume "key \<in> removed_keys (spg_events \<lparr>spg_events = es @ map (\<lambda>i. Removal \<lparr>rem_external_id = i, rem_source = Simplefin_Source\<rparr>)
         (if set_errors s \<noteq> [] then [] else y_arrange y (remdups (filter (\<lambda>i. i \<notin> set ids) ?pending))),
         spg_fetched_ids = y_arrange y (remdups ids), spg_removed_ids = (if set_errors s \<noteq> [] then []
           else y_arrange y (remdups (filter (\<lambda>i. i \<notin> set ids) ?pending)))\<rparr>)"
      then obtain i where i: "key = (''simplefin'', i)" "set_errors s = []" "i \<notin> set ids" "i \<in> set ?pending"
        using 2(2) assms(3) by (auto simp: removed_keys_def split: if_splits)
      from i(4) obtain r where r: "r \<in> set (b_transactions (w_tables w1))" "txn_key r = (''simplefin'', i)" "txn_pending r"
          "txn_account_id r \<in> set (accounts_of_token (w_tables w1) (sft_id token))"
        by (auto simp: txn_key_def)
      have "accounts_of_token (t'\<lparr>b_accounts := b_accounts (w_tables w)\<rparr>) (sft_id token)
          = accounts_of_token (w_tables w1) (sft_id token)"
        using t' 2(1) assms(2) by (simp add: accounts_of_token_def ledger_same_def)
      moreover have "\<forall>a \<in> set (set_accounts s). sac_conn_id a \<in> sco_conn_id ` set (set_connections s) \<longrightarrow>
          i \<notin> stx_id ` set (sac_transactions a)"
        using i(3) 2(3) links by (fastforce simp: dom_def)
      ultimately show "key \<in> gone_pending (w_tables w) t' (sft_id token) (Inr s)"
        using r assms(2) i(1,2) unfolding gone_pending_def ledger_same_def by force
    qed
  qed
  then show ?thesis
    unfolding pending_simple_fin_transaction_ids_def
    by (intro wp_try_bindI) (simp add: wp_select wp_try_bind only_gone_ledger [OF assms(1,2), of _ "Inr s", unfolded only_gone_def]
        only_gone_def)
qed

text \<open>C21: What a SimpleFIN sync may remove: whatever SimpleFIN answers and whichever statements fail, a
  transaction disappears only if it was pending, belonged to an account of the synced token, and an answer
  without errors names it in none of the accounts that the sync takes in, which are those in US dollars whose
  connection the same answer lists (that the answer names it in an account the sync skips does not save it);
  every other transaction is still there with the user's decisions, notes and tags, and the tables stay
  well formed.\<close>

theorem simplefin_removes_only_gone_pending:
  assumes "run_state (simplefin_sync_inner y h stage token) w = (result, w')"
    and "wf_tx (w_tables w)" and "\<forall>ids. set (y_arrange y ids) = set ids"
  shows "wf_tx (w_tables w')
    \<and> rows_kept (gone_pending (w_tables w) (w_tables w') (sft_id token)
        (get_accounts h (sft_access_url token)
          (Some (to_timestamp (start_date (sft_last_synced_at token) (w_clock w (w_reads w))))) True))
      (w_tables w) (w_tables w')"
proof -
  define answered where "answered = get_accounts h (sft_access_url token)
    (Some (to_timestamp (start_date (sft_last_synced_at token) (w_clock w (w_reads w))))) True"
  have read: "ledger_same w (w\<lparr>w_reads := Suc (w_reads w)\<rparr>)" by (simp add: ledger_same_def)
  note same = only_gone_ledger [OF assms(2) ledger_same.R_trans [OF read]]
  have "wp (simplefin_sync_inner y h stage token) (\<lambda>_. only_gone w (sft_id token) answered) w"
    unfolding simplefin_sync_inner_def wp_bind wp_utc_now Let_def answered_def [symmetric] wp_case_sum
  proof (cases answered, goal_cases)
    case (1 e)
    show ?case
      unfolding 1 sum.case wp_bind wp_err
      by (rule wpI) (rule same [OF guaranteesD [OF ledger_links(3)]])
  next
    case (2 s)
    show ?case
      unfolding 2 sum.case
    proof (rule wp_try_bindI, rule wp_link_connections, goal_cases)
      case (1 e w1)
      then show ?case by (simp add: same)
    next
      case (2 links w1)
      show ?case
        unfolding sum.case wp_bind
        by (rule wpI, rule wp_page_gone [OF assms(2) ledger_same.R_trans [OF read ledger_same.R_trans [OF 2(1)]] assms(3)])
           (use guaranteesD [OF ledger_links(2)] 2(2) in auto)
    qed
  qed
  from wp_run [OF assms(1) this] show ?thesis unfolding only_gone_def answered_def .
qed

end
