(* ===== verification/Plaid_Laws.thy ===== *)
theory Plaid_Laws
  imports Plaid_Sync Tx_Laws
begin

text \<open>
  The pages of a Plaid item: the loop ends when Plaid does, what is stored is a chain of pages, and the
  stored cursor never runs ahead of them.
\<close>

context effect_order
begin

lemma guarantees_schedule [guarantee_rules]: "guarantees R (schedule x cron)"
  unfolding schedule_def by (intro guarantee_rules)

end

section \<open>The loop ends\<close>

text \<open>A provider that, from its \<open>k\<close>-th answer on, has nothing more to give.\<close>

definition runs_dry :: "plaid_api \<Rightarrow> plaid_client \<Rightarrow> nat \<Rightarrow> bool" where
  "runs_dry api client k \<longleftrightarrow>
     (\<forall>n token cursor r. k \<le> n \<longrightarrow> a_sync api client n token cursor = Inr r \<longrightarrow> \<not> rsp_has_more r)"

definition page_fuel :: "nat \<Rightarrow> page_loop \<Rightarrow> nat" where
  "page_fuel k l =
     (if lop_calls l < k then k - lop_calls l + MAX_SYNC_PAGINATION_RESTARTS
      else MAX_SYNC_PAGINATION_RESTARTS - lop_restarts l)"

lemma wp_store_page_result:
  "wp (store_page x stage item hidden investments r l) (\<lambda>res w'. res \<noteq> Inr Unfinished
     \<and> (\<forall>l'. res = Inr (Done (Inl l')) \<longrightarrow> rsp_has_more r \<and> lop_calls l' = Suc (lop_calls l) \<and> lop_restarts l' = 0)) w"
proof -
  let ?Q = "\<lambda>(res :: error + (page_loop + item_counts) outcome) w'. res \<noteq> Inr Unfinished
     \<and> (\<forall>l'. res = Inr (Done (Inl l')) \<longrightarrow> rsp_has_more r \<and> lop_calls l' = Suc (lop_calls l) \<and> lop_restarts l' = 0)"
  have last: "wp (let l' = next_page investments r counts l
     in if rsp_has_more r then finish (Inl l')
        else try_bind (of_result (batch_log x (pit_id item) l')) (\<lambda>row.
             try_bind (log_batch row) (\<lambda>_. finish (Inr (lop_counts l'))))) ?Q w1" for counts w1
  proof (cases "rsp_has_more r")
    case True
    then show ?thesis by (simp add: Let_def wp_finish next_page_def)
  next
    case False
    have "wp (try_bind (of_result b) (\<lambda>row. try_bind (log_batch row) (\<lambda>_. finish (Inr c)))) ?Q w1" for b c
      by (intro wp_try_bind_any) (simp_all add: wp_finish)
    with False show ?thesis by (simp add: Let_def)
  qed
  show ?thesis
    unfolding store_page_def by (intro wp_try_bind_any last) simp_all
qed

lemma sync_page_progress:
  assumes "runs_dry api client k" "lop_restarts l < MAX_SYNC_PAGINATION_RESTARTS"
  shows "wp (sync_page x api client stage item hidden investments l) (\<lambda>res w'. res \<noteq> Inr Unfinished
     \<and> (\<forall>l'. res = Inr (Done (Inl l')) \<longrightarrow>
         page_fuel k l' < page_fuel k l \<and> lop_restarts l' < MAX_SYNC_PAGINATION_RESTARTS)) w"
proof (cases "a_sync api client (lop_calls l) (pit_access_token item) (lop_cursor l)")
  case (Inl e)
  let ?l = "l\<lparr>lop_restarts := lop_restarts l + 1, lop_calls := Suc (lop_calls l)\<rparr>"
  have "page_fuel k ?l < page_fuel k l" if "lop_restarts l + 1 < MAX_SYNC_PAGINATION_RESTARTS"
    using that unfolding page_fuel_def MAX_SYNC_PAGINATION_RESTARTS_def by (cases "Suc (lop_calls l) < k") auto
  then show ?thesis
    unfolding sync_page_def Inl sum.case wp_if wp_finish answer_def
    by (cases e) (simp_all add: wp_ok wp_err)
next
  case (Inr r)
  have more: "\<not> k \<le> lop_calls l" if "rsp_has_more r"
    using assms(1) Inr that unfolding runs_dry_def by blast
  have down: "page_fuel k l' < page_fuel k l \<and> lop_restarts l' < MAX_SYNC_PAGINATION_RESTARTS"
    if "rsp_has_more r" "lop_calls l' = Suc (lop_calls l)" "lop_restarts l' = 0" for l'
    using more that unfolding page_fuel_def MAX_SYNC_PAGINATION_RESTARTS_def by simp arith
  show ?thesis
    unfolding sync_page_def Inr sum.case
    by (rule wp_mono [OF wp_store_page_result]) (metis down)
qed

lemma pages_finish:
  assumes "runs_dry api client k" "lop_restarts l < MAX_SYNC_PAGINATION_RESTARTS" "page_fuel k l \<le> fuel"
  shows "wp (iterate fuel (sync_page x api client stage item hidden investments) l)
    (\<lambda>res w'. res \<noteq> Inr Unfinished) w"
  using assms(2,3)
proof (induction fuel arbitrary: l w)
  case 0
  then show ?case by (auto simp: page_fuel_def MAX_SYNC_PAGINATION_RESTARTS_def split: if_splits)
next
  case (Suc fuel)
  show ?case
    unfolding iterate.simps wp_and_done
    by (rule wp_mono [OF sync_page_progress [OF assms(1) Suc.prems(1)]])
       (use Suc in \<open>force simp: wp_finish split: sum.splits outcome.splits\<close>)
qed

text \<open>C20: The pages of a Plaid item are fetched by a loop that ends as soon as Plaid does: if Plaid
  has nothing more to give from its \<open>k\<close>-th answer on, the loop takes at most \<open>k\<close> answers and the three
  that restarts may cost, whatever else Plaid answers and whichever statements fail.\<close>

theorem sync_pages_terminates:
  assumes "runs_dry api client k" and "k + MAX_SYNC_PAGINATION_RESTARTS \<le> fuel"
    and "run_state (sync_pages x api client stage fuel item drafts connection_id investments) w = (result, w')"
  shows "result \<noteq> Inr Unfinished"
proof -
  have "wp (sync_pages x api client stage fuel item drafts connection_id investments)
      (\<lambda>res w'. res \<noteq> Inr Unfinished) w"
    unfolding sync_pages_def wp_try_bind sync_cursor_def sync_cursor_row_def
      hidden_account_ids_by_connection_def wp_select
    using assms(2)
    by (auto simp: wp_ok intro!: pages_finish [OF assms(1)]
        simp: start_pages_def page_fuel_def MAX_SYNC_PAGINATION_RESTARTS_def)
  with assms(3) show ?thesis by (auto dest: wp_run)
qed

section \<open>The chain of pages\<close>

lemma persist_items: "run_state (persist stage es) w = (r, w') \<Longrightarrow> b_items (w_tables w') = b_items (w_tables w)"
  by (drule persist_outside) (drule arg_cong [of _ _ b_items], simp add: outside_def)

lemma persist_error: "run_state (persist stage es) w = (Inl e, w') \<Longrightarrow> w_tables w' = w_tables w"
  unfolding persist_def using wp_run [OF _ wp_with_tx_error] by fastforce

definition stored_cursor :: "tx_tables \<Rightarrow> int \<Rightarrow> string option" where
  "stored_cursor t ident = Option.bind (find (\<lambda>i. pit_id i = ident) (b_items t)) pit_cursor"

text \<open>The tables without the bookkeeping of the sync itself.\<close>

definition household :: "tx_tables \<Rightarrow> tx_tables" where
  "household t = t\<lparr>b_items := [], b_sync_log := []\<rparr>"

record position =
  pos_first :: bool
  pos_cursor :: string
  pos_saved :: "string option"
  pos_tables :: tx_tables

definition start_position :: "tx_tables \<Rightarrow> int \<Rightarrow> position" where
  "start_position t ident =
     \<lparr>pos_first = True, pos_cursor = unwrap_or_default (stored_cursor t ident),
      pos_saved = stored_cursor t ident, pos_tables = t\<rparr>"

text \<open>One page: an answer Plaid gave to the cursor, stored as a whole.\<close>

inductive feeds ::
    "crates \<Rightarrow> plaid_api \<Rightarrow> plaid_client \<Rightarrow> string \<Rightarrow> account_draft list \<Rightarrow> string list \<Rightarrow> string list
     \<Rightarrow> position \<Rightarrow> position \<Rightarrow> bool"
  for x api client token drafts hidden investments
where
  page: "feeds x api client token drafts hidden investments p
    \<lparr>pos_first = False, pos_cursor = rsp_next_cursor r,
     pos_saved = (if rsp_next_cursor r = '''' then pos_saved p else Some (rsp_next_cursor r)),
     pos_tables = w_tables w'\<rparr>"
  if "a_sync api client n token (pos_cursor p) = Inr r"
    and "page_events x hidden investments r = Inr events"
    and "household (w_tables w) = household (pos_tables p)"
    and "run_state (persist stage (map AccountUpsert (if pos_first p then drafts else []) @ events)) w
      = (Inr counts, w')"

text \<open>The stored cursor is that of the last page stored or, between a page and its cursor, of the one
  before it.\<close>

definition caught_up ::
    "(position \<Rightarrow> position \<Rightarrow> bool) \<Rightarrow> int \<Rightarrow> position \<Rightarrow> bool \<Rightarrow> tx_tables \<Rightarrow> bool" where
  "caught_up R ident p0 finished t \<longleftrightarrow>
     (\<exists>p. R\<^sup>*\<^sup>* p0 p \<and> household t = household (pos_tables p)
        \<and> (stored_cursor t ident = pos_saved p
           \<or> \<not> finished \<and> (\<exists>q. R\<^sup>*\<^sup>* p0 q \<and> R q p \<and> stored_cursor t ident = pos_saved q)))"

definition bookkeeping :: "tx_tables world \<Rightarrow> tx_tables world \<Rightarrow> bool" where
  "bookkeeping w w' \<longleftrightarrow>
     household (w_tables w') = household (w_tables w)
     \<and> map pit_id (b_items (w_tables w')) = map pit_id (b_items (w_tables w))
     \<and> stored_cursor (w_tables w') = stored_cursor (w_tables w)"

interpretation bookkeeping: effect_order bookkeeping
  by unfold_locales (auto simp: bookkeeping_def)

lemma map_pit_id_update: "(\<And>i. pit_id (f i) = pit_id i) \<Longrightarrow> map pit_id (update_rows P f items) = map pit_id items"
  by (simp add: update_rows_def)

lemma bookkeeping_update_item:
  assumes "\<And>i. pit_id (f i) = pit_id i" "\<And>i. pit_cursor (f i) = pit_cursor i"
  shows "guarantees bookkeeping (update_item ident f)"
  unfolding update_item_def exec_def
  by (rule bookkeeping.guarantees_statement)
     (auto simp: bookkeeping_def household_def stored_cursor_def fun_eq_iff find_update_rows
        map_pit_id_update assms split: option.splits bind_splits)

lemma bookkeeping_log: "guarantees bookkeeping (log_batch row)"
  unfolding log_batch_def log_sync_batch_row_def
  by (intro guarantee_rules bookkeeping.guarantees_statement)
     (auto simp: bookkeeping_def household_def stored_cursor_def split: if_splits)

lemma bookkeeping_healthy: "guarantees bookkeeping (set_healthy ident)"
  unfolding set_healthy_def set_plaid_item_health_row_def by (rule bookkeeping_update_item) simp_all

lemma wp_bookkept: "guarantees bookkeeping m \<Longrightarrow> (\<And>r w'. bookkeeping w w' \<Longrightarrow> Q r w') \<Longrightarrow> wp m Q w"
  by (rule wpI) (blast dest: guaranteesD)

lemma wp_set_sync_cursor:
  assumes "\<And>e w'. w_tables w' = w_tables w \<Longrightarrow> Q (Inl e) w'"
    and "\<And>w'. household (w_tables w') = household (w_tables w) \<Longrightarrow>
      map pit_id (b_items (w_tables w')) = map pit_id (b_items (w_tables w)) \<Longrightarrow>
      stored_cursor (w_tables w') ident = (if cursor = None then stored_cursor (w_tables w) ident else cursor) \<Longrightarrow>
      Q (Inr ()) w'"
    and "ident \<in> pit_id ` set (b_items (w_tables w))"
  shows "wp (set_sync_cursor ident cursor next_sync_at) Q w"
proof -
  have "find (\<lambda>i. pit_id i = ident) (b_items (w_tables w)) \<noteq> None"
    using assms(3) by (auto simp: find_None_iff)
  then obtain i where found: "find (\<lambda>i. pit_id i = ident) (b_items (w_tables w)) = Some i" by blast
  then have ident: "pit_id i = ident" by (auto dest: find_Some)
  show ?thesis
    unfolding set_sync_cursor_def set_sync_cursor_row_def update_item_def exec_def wp_try_bind wp_lift wp_utc_now
      sum.case wp_statement
    by (auto simp: household_def stored_cursor_def find_update_rows map_pit_id_update found ident
        intro!: assms(1,2))
qed

lemma caught_upI:
  "R\<^sup>*\<^sup>* p0 p \<Longrightarrow> household t = household (pos_tables p) \<Longrightarrow> stored_cursor t ident = pos_saved p \<Longrightarrow>
   caught_up R ident p0 finished t"
  unfolding caught_up_def by blast

lemma caught_up_pending:
  "R\<^sup>*\<^sup>* p0 q \<Longrightarrow> R q p \<Longrightarrow> household t = household (pos_tables p) \<Longrightarrow> stored_cursor t ident = pos_saved q \<Longrightarrow>
   caught_up R ident p0 False t"
  unfolding caught_up_def by (blast intro: rtranclp.rtrancl_into_rtrancl)

definition in_step ::
    "(position \<Rightarrow> position \<Rightarrow> bool) \<Rightarrow> int \<Rightarrow> account_draft list \<Rightarrow> position \<Rightarrow> page_loop \<Rightarrow> tx_tables world \<Rightarrow> bool" where
  "in_step R ident drafts p0 l w \<longleftrightarrow>
     ident \<in> set (map pit_id (b_items (w_tables w)))
     \<and> (\<exists>p. R\<^sup>*\<^sup>* p0 p \<and> household (w_tables w) = household (pos_tables p)
        \<and> stored_cursor (w_tables w) ident = pos_saved p \<and> lop_cursor l = pos_cursor p
        \<and> lop_first_page l = pos_first p \<and> (lop_first_page l \<longrightarrow> lop_drafts l = drafts))"

lemma in_step_caught_up: "in_step R ident drafts p0 l w \<Longrightarrow> caught_up R ident p0 b (w_tables w)"
  by (auto simp: in_step_def caught_up_def)

lemma in_step_bookkeeping: "in_step R ident drafts p0 l w \<Longrightarrow> bookkeeping w w' \<Longrightarrow> in_step R ident drafts p0 l w'"
  by (auto simp: in_step_def bookkeeping_def)

text \<open>The end of a page: nothing but bookkeeping is left.\<close>

lemma wp_page_end:
  assumes "in_step R (pit_id item) drafts p0 (next_page investments r counts l) w"
  shows "wp (try_bind (set_healthy (pit_id item)) (\<lambda>_.
     let l' = next_page investments r counts l
     in if rsp_has_more r then finish (Inl l')
        else try_bind (of_result (batch_log x (pit_id item) l')) (\<lambda>row.
             try_bind (log_batch row) (\<lambda>_. finish (Inr (lop_counts l')))))) (\<lambda>res w'.
     (\<forall>l'. res = Inr (Done (Inl l')) \<longrightarrow> in_step R (pit_id item) drafts p0 l' w')
     \<and> caught_up R (pit_id item) p0 (\<exists>c. res = Inr (Done (Inr c))) (w_tables w')) w"
    (is "wp _ ?Q w")
proof -
  have last: "wp (try_bind (of_result b) (\<lambda>row. try_bind (log_batch row) (\<lambda>_. finish (Inr c)))) ?Q w1"
    if "in_step R (pit_id item) drafts p0 (next_page investments r counts l) w1" for b c w1
    using in_step_caught_up [OF that] in_step_caught_up [OF in_step_bookkeeping [OF that]]
    unfolding wp_try_bind wp_of_result wp_finish
    by (cases b) (auto intro!: wp_bookkept [OF bookkeeping_log] split: sum.splits)
  show ?thesis
  proof (subst wp_try_bind, rule wp_bookkept [OF bookkeeping_healthy], goal_cases)
    case (1 r' w1)
    then have step: "in_step R (pit_id item) drafts p0 (next_page investments r counts l) w1"
      by (rule in_step_bookkeeping [OF assms])
    show ?case
      by (cases r') (use in_step_caught_up [OF step] last [OF step] step in \<open>simp_all add: Let_def wp_finish\<close>)
  qed
qed

lemma wp_store_page:
  assumes step: "in_step (feeds x api client (pit_access_token item) drafts hidden investments) (pit_id item) drafts p0 l w"
    and r: "a_sync api client n (pit_access_token item) (lop_cursor l) = Inr r"
  shows "wp (store_page x stage item hidden investments r l) (\<lambda>res w'.
     (\<forall>l'. res = Inr (Done (Inl l')) \<longrightarrow>
       in_step (feeds x api client (pit_access_token item) drafts hidden investments) (pit_id item) drafts p0 l' w')
     \<and> caught_up (feeds x api client (pit_access_token item) drafts hidden investments) (pit_id item) p0
         (\<exists>c. res = Inr (Done (Inr c))) (w_tables w')) w"
    (is "wp _ ?Q w")
proof -
  let ?R = "feeds x api client (pit_access_token item) drafts hidden investments"
  obtain p where p: "?R\<^sup>*\<^sup>* p0 p" "household (w_tables w) = household (pos_tables p)"
      "stored_cursor (w_tables w) (pit_id item) = pos_saved p" "lop_cursor l = pos_cursor p"
      "(if lop_first_page l then lop_drafts l else []) = (if pos_first p then drafts else [])"
    and item: "pit_id item \<in> pit_id ` set (b_items (w_tables w))"
    using step by (auto simp: in_step_def)
  have error: "?Q (Inl e) w'" if "w_tables w' = w_tables w" for e w'
    using that p by (auto intro: caught_upI)
  have saved: "wp (try_bind (set_sync_cursor (pit_id item) (none_if_empty (rsp_next_cursor r)) next) (\<lambda>_.
      try_bind (set_healthy (pit_id item)) (\<lambda>_.
      let l' = next_page investments r counts l
      in if rsp_has_more r then finish (Inl l')
         else try_bind (of_result (batch_log x (pit_id item) l')) (\<lambda>row.
              try_bind (log_batch row) (\<lambda>_. finish (Inr (lop_counts l')))))) ) ?Q w2"
    if events: "page_events x hidden investments r = Inr events"
      and w1: "w_tables w1 = w_tables w"
      and run: "run_state (persist stage (map AccountUpsert (if lop_first_page l then lop_drafts l else []) @ events)) w1
        = (Inr counts, w2)" for "next" counts events w1 w2
  proof -
    let ?p = "\<lparr>pos_first = False, pos_cursor = rsp_next_cursor r,
      pos_saved = (if rsp_next_cursor r = '''' then pos_saved p else Some (rsp_next_cursor r)),
      pos_tables = w_tables w2\<rparr>"
    have fed: "?R p ?p"
      using feeds.page [OF r [unfolded p(4)] events _ run [unfolded p(5)]] p(2) w1 by simp
    have items: "b_items (w_tables w2) = b_items (w_tables w)" using persist_items [OF run] w1 by simp
    then have cursor: "stored_cursor (w_tables w2) (pit_id item) = pos_saved p"
      using p(3) by (simp add: stored_cursor_def)
    have next_in_step: "in_step ?R (pit_id item) drafts p0 (next_page investments r counts l) w3"
      if "household (w_tables w3) = household (w_tables w2)"
        "map pit_id (b_items (w_tables w3)) = map pit_id (b_items (w_tables w2))"
        "stored_cursor (w_tables w3) (pit_id item) = pos_saved ?p" for w3
      using that item items rtranclp.rtrancl_into_rtrancl [OF p(1) fed]
      by (auto simp: in_step_def next_page_def intro!: exI [of _ ?p])
    show ?thesis
    proof (subst wp_try_bind, rule wp_set_sync_cursor, goal_cases)
      case (1 e w')
      then show ?case using caught_up_pending [OF p(1) fed, of "w_tables w'"] cursor by simp
    next
      case (2 w')
      then show ?case
        by (simp del: Let_def) (intro wp_page_end next_in_step; simp add: cursor none_if_empty_def)
    next
      case 3
      then show ?case using item items by simp
    qed
  qed
  show ?thesis
  proof (cases "page_events x hidden investments r")
    case (Inl e)
    then show ?thesis using error [OF refl] by (simp add: store_page_def wp_try_bind wp_of_result)
  next
    case (Inr events)
    show ?thesis
      unfolding store_page_def Inr
    proof (subst wp_try_bind, simp only: wp_of_result sum.case, subst wp_try_bind, rule wpI, goal_cases)
      case (1 r1 w1)
      have w1: "w_tables w1 = w_tables w"
        using guaranteesD [OF untouched.guarantees_schedule 1] by (simp add: untouched_def)
      show ?case
      proof (cases r1)
        case (Inl e)
        then show ?thesis using error [OF w1] by simp
      next
        case scheduled: (Inr at)
        show ?thesis
          unfolding scheduled sum.case
        proof (subst wp_try_bind, subst wp_with_context, rule wpI, goal_cases)
          case (1 r2 w2)
          show ?case
          proof (cases r2)
            case (Inl e)
            have "w_tables w2 = w_tables w"
              using persist_error [OF 1 [unfolded Inl]] w1 by simp
            with Inl show ?thesis using error by simp
          next
            case (Inr counts)
            then show ?thesis using saved [OF \<open>page_events x hidden investments r = Inr events\<close> w1, of counts w2] 1 by simp
          qed
        qed
      qed
    qed
  qed
qed

lemma wp_sync_page:
  assumes step: "in_step (feeds x api client (pit_access_token item) drafts hidden investments) (pit_id item) drafts p0 l w"
  shows "wp (sync_page x api client stage item hidden investments l) (\<lambda>res w'.
     (\<forall>l'. res = Inr (Done (Inl l')) \<longrightarrow>
       in_step (feeds x api client (pit_access_token item) drafts hidden investments) (pit_id item) drafts p0 l' w')
     \<and> caught_up (feeds x api client (pit_access_token item) drafts hidden investments) (pit_id item) p0
         (\<exists>c. res = Inr (Done (Inr c))) (w_tables w')) w"
proof (cases "a_sync api client (lop_calls l) (pit_access_token item) (lop_cursor l)")
  case (Inr r)
  show ?thesis unfolding sync_page_def Inr sum.case by (rule wp_store_page [OF step Inr])
next
  case (Inl e)
  have "in_step (feeds x api client (pit_access_token item) drafts hidden investments) (pit_id item) drafts p0
      (l\<lparr>lop_restarts := lop_restarts l + 1, lop_calls := Suc (lop_calls l)\<rparr>) w"
    using step by (simp add: in_step_def)
  then show ?thesis
    unfolding sync_page_def Inl sum.case wp_if wp_finish answer_def
    by (cases e) (simp_all add: wp_ok wp_err in_step_caught_up [OF step])
qed

text \<open>C18: Whatever Plaid answers and whichever statements fail, what a sync of pages leaves in the
  tables is a chain of whole pages: the first answers the cursor that was stored, each further one the
  cursor the page before it gave, and each was stored in one piece, over what the pages before it had
  left. The stored cursor is the one of the last of them, or of the last but one when the run was cut
  off between a page and its cursor. So a sync that starts again never misses a page; at most it is
  given one again.\<close>

theorem cursor_never_ahead:
  assumes "run_state (sync_pages x api client stage fuel item drafts connection_id investments) w = (result, w')"
    and "pit_id item \<in> pit_id ` set (b_items (w_tables w))"
  shows "\<exists>hidden. caught_up (feeds x api client (pit_access_token item) drafts hidden investments) (pit_id item)
    (start_position (w_tables w) (pit_id item)) (\<exists>counts. result = Inr (Done counts)) (w_tables w')"
proof -
  let ?p0 = "start_position (w_tables w) (pit_id item)"
  let ?hidden = "map acc_external_id (filter (\<lambda>a. acc_connection_id a = Some connection_id \<and> acc_is_hidden a)
    (b_accounts (w_tables w)))"
  let ?R = "feeds x api client (pit_access_token item) drafts ?hidden investments"
  let ?Q = "\<lambda>res w'. caught_up ?R (pit_id item) ?p0 (\<exists>counts. res = Inr (Done counts)) (w_tables w')"
  have start: "in_step ?R (pit_id item) drafts ?p0
      (start_pages (unwrap_or_default (stored_cursor (w_tables w) (pit_id item))) drafts) w1"
    if "w_tables w1 = w_tables w" for w1
    using assms(2) that by (auto simp: in_step_def start_pages_def start_position_def)
  have loop: "wp (iterate fuel (sync_page x api client stage item ?hidden investments) l) ?Q w1"
    if "in_step ?R (pit_id item) drafts ?p0 l w1" for l w1
    using that
  proof (rule wp_iterate)
    fix l and w2 :: "tx_tables world"
    assume step: "in_step ?R (pit_id item) drafts ?p0 l w2"
    show "?Q (Inr Unfinished) w2" using in_step_caught_up [OF step] by simp
    show "wp (sync_page x api client stage item ?hidden investments l) (\<lambda>r w'.
        (\<forall>s'. r = Inr (Done (Inl s')) \<longrightarrow> in_step ?R (pit_id item) drafts ?p0 s' w')
        \<and> (\<forall>a. r = Inr (Done (Inr a)) \<longrightarrow> ?Q (Inr (Done a)) w') \<and> (\<forall>c. r = Inr (Refused c) \<longrightarrow> ?Q (Inr (Refused c)) w')
        \<and> (r = Inr Unfinished \<longrightarrow> ?Q (Inr Unfinished) w') \<and> (\<forall>e. r = Inl e \<longrightarrow> ?Q (Inl e) w')) w2"
      by (rule wp_mono [OF wp_sync_page [OF step]]) auto
  qed
  have cursor: "(case find (\<lambda>i. pit_id i = pit_id item) (b_items (w_tables w)) of
      None \<Rightarrow> '''' | Some i \<Rightarrow> (unwrap_or_default \<circ> pit_cursor) i)
    = unwrap_or_default (stored_cursor (w_tables w) (pit_id item))"
    by (simp add: stored_cursor_def unwrap_or_default_def split: option.splits)
  have "wp (sync_pages x api client stage fuel item drafts connection_id investments) ?Q w"
    unfolding sync_pages_def sync_cursor_def sync_cursor_row_def hidden_account_ids_by_connection_def wp_try_bind
      wp_select
    using loop [OF start] in_step_caught_up [OF start [OF refl]] by (auto simp: wp_ok cursor)
  from wp_run [OF assms(1) this] show ?thesis by blast
qed

end
