(* ===== verification/Tx_Replay.thy ===== *)
theory Tx_Replay
  imports Tx_Laws
begin

text \<open>
  Storing a page of a provider again does nothing: the cursor of a page is written after the page, so
  a sync that is cut off between them is given the page a second time.
\<close>

section \<open>What an upsert computes\<close>

definition account_found :: "tx_tables \<Rightarrow> string \<Rightarrow> account_row option" where
  "account_found t external_id =
     (case map snd (sort_key (\<lambda>(owner, a). (own_name owner, acc_name a))
       (concat (map (\<lambda>a. map (\<lambda>owner. (owner, a))
           (filter (\<lambda>owner. own_id owner = acc_owner_id a) (b_owners t)))
         (filter (\<lambda>a. acc_external_id a \<in> set [external_id]) (b_accounts t))))) of
        [] \<Rightarrow> None | a # _ \<Rightarrow> Some a)"

definition categorized ::
    "tx_tables \<Rightarrow> string option \<Rightarrow> string option \<Rightarrow> cents \<Rightarrow> int \<Rightarrow> string option \<Rightarrow> auto_category option" where
  "categorized t merchant original amount account plaid_category =
     (let original = (case original of Some s \<Rightarrow> s | None \<Rightarrow> '''');
          merchant = (case merchant of Some s \<Rightarrow> s | None \<Rightarrow> original);
          detailed = plaid_detailed_category plaid_category
      in case (case best_rule t merchant original amount account of
            None \<Rightarrow> Some no_category
          | Some rule \<Rightarrow> map_option (\<lambda>tags.
              \<lparr>aut_category_id = rul_category_id rule, aut_merchant_name = rul_merchant_name rule,
               aut_tag_ids = tags, aut_should_hide = rul_should_hide rule,
               aut_should_be_recurring = rul_should_be_recurring rule, aut_from_pfc2 = False\<rparr>)
              (parse_tag_ids (rule_tag_text t rule))) of
         None \<Rightarrow> None
       | Some result \<Rightarrow>
           if aut_category_id result \<noteq> None \<or> detailed = '''' then Some result
           else Some (case map_option snd (find (\<lambda>(d, c). d = detailed) (b_mappings t)) of
                  None \<Rightarrow> result
                | Some category_id \<Rightarrow> result\<lparr>aut_category_id := Some category_id, aut_from_pfc2 := True\<rparr>))"

lemma wp_existing_account:
  assumes "\<And>e w'. Q (Inl e) w'"
    and "\<And>a. account_found (w_tables w) external_id = Some a \<Longrightarrow> Q (Inr a) (spend_statement w)"
  shows "wp (existing_account external_id) Q w"
  using assms
  unfolding existing_account_def account_by_external_id_def account_records_def wp_try_bind wp_select
  by (simp add: wp_ok wp_ok_or account_found_def split: list.splits option.splits)

lemma wp_categorized:
  assumes "\<And>e w'. Q (Inl e) w'"
    and "\<And>c w'. w_tables w' = w_tables w \<Longrightarrow> categorized (w_tables w) m o' a acc p = Some c \<Longrightarrow> Q (Inr c) w'"
  shows "wp (auto_categorization_result_with_plaid_category m o' a acc p) Q w"
  using assms
  unfolding auto_categorization_result_with_plaid_category_def auto_categorization_result_def
    auto_rule_result_def plaid_category_id_by_detailed_def wp_try_bind wp_select Let_def
  by (auto simp: wp_ok wp_if wp_select wp_try_bind ok_or_def wp_err categorized_def Let_def no_category_def
      split: option.splits)

text \<open>The row an upsert stores, and what it leaves in the tables.\<close>

definition synced_state :: "tx_tables \<Rightarrow> synced_transaction \<Rightarrow> (bool \<times> int) option" where
  "synced_state t s = map_option (\<lambda>r. (txn_is_reviewed r, txn_category_id r))
     (find (\<lambda>r. txn_key r = (source_name (syn_source s), syn_external_id s)) (b_transactions t))"

definition store_synced :: "txn_row \<Rightarrow> tx_tables \<Rightarrow> error + int \<times> tx_tables" where
  "store_synced p t =
     (case find (\<lambda>r. txn_key r = txn_key p) (b_transactions t) of
        None \<Rightarrow> append_txn (p\<lparr>txn_notes := None\<rparr>) t
      | Some old \<Rightarrow> replace_txn (merge_synced p old) t)"

definition tag_transaction :: "int list \<Rightarrow> int \<Rightarrow> tx_tables \<Rightarrow> tx_tables" where
  "tag_transaction tags ident t = t\<lparr>b_transaction_tags := insert_or_ignore
     (concat (map (\<lambda>r. map (\<lambda>tag. (txn_id r, tag)) (filter (\<lambda>tag. tag \<in> set tags) (b_tags t)))
       (filter (\<lambda>r. txn_id r \<in> set [ident]) (b_transactions t)))) (b_transaction_tags t)\<rparr>"

definition upserted :: "synced_transaction \<Rightarrow> tx_tables \<Rightarrow> tx_tables \<Rightarrow> bool" where
  "upserted s t t' \<longleftrightarrow>
     (\<exists>account category i t1.
        account_found t (syn_account_id s) = Some account
        \<and> categorized t (syn_merchant_name s) (syn_original_name s) (syn_amount s) (acc_id account)
            (syn_plaid_category s) = Some category
        \<and> (let result = category_result (synced_state t s) category
           in store_synced (synced_row s account result) t = Inr (i, t1)
              \<and> t' = (if syc_tag_ids result = [] then t1 else tag_transaction (syc_tag_ids result) i t1)))"

lemma wp_upsert_synced_transaction:
  assumes "\<And>e w'. Q (Inl e) w'" and "\<And>b w'. upserted s (w_tables w) (w_tables w') \<Longrightarrow> Q (Inr b) w'"
  shows "wp (upsert_synced_transaction s) Q w"
  unfolding upsert_synced_transaction_def
proof (rule wp_try_bindI, rule wp_existing_account, goal_cases)
  case (2 account)
  have state: "map_option (\<lambda>r. (txn_is_reviewed r, txn_category_id r))
      (find (\<lambda>r. txn_external_id r = syn_external_id s \<and> txn_source r = source_name (syn_source s)) rows)
    = map_option (\<lambda>r. (txn_is_reviewed r, txn_category_id r))
      (find (\<lambda>r. txn_key r = (source_name (syn_source s), syn_external_id s)) rows)" for rows
    by (rule arg_cong [where f = "map_option _"], rule find_cong) (auto simp: txn_key_def)
  have row: "wp (try_bind (upsert_synced_row (synced_row s account result)) (\<lambda>transaction_id.
      try_bind (if syc_tag_ids result \<noteq> [] then add_transaction_tags (syc_tag_ids result) [transaction_id] else ok ())
        (\<lambda>_. ok (syc_new_record result)))) Q w2"
    if "w_tables w2 = w_tables w" and "result = category_result (synced_state (w_tables w) s) category"
      and "categorized (w_tables w) (syn_merchant_name s) (syn_original_name s) (syn_amount s) (acc_id account)
        (syn_plaid_category s) = Some category" for w2 result category
  proof -
    have upserted: "upserted s (w_tables w) (if syc_tag_ids result = [] then t1 else tag_transaction (syc_tag_ids result) i t1)"
      if "store_synced (synced_row s account result) (w_tables w) = Inr (i, t1)" for i t1
      using that 2 \<open>result = _\<close> \<open>categorized _ _ _ _ _ _ = _\<close> unfolding upserted_def Let_def by blast
    show ?thesis
      unfolding wp_try_bind upsert_synced_row_def store_synced_def [symmetric] wp_statement
      using upserted \<open>w_tables w2 = w_tables w\<close>
      by (auto simp: wp_ok assms(1) add_transaction_tags_def wp_exec tag_transaction_def
          intro!: assms(2) split: sum.splits)
  qed
  have categorize: "wp (try_bind (auto_categorization_result_with_plaid_category (syn_merchant_name s)
      (syn_original_name s) (syn_amount s) (acc_id account) (syn_plaid_category s)) (\<lambda>category.
    let result = category_result (synced_state (w_tables w) s) category
    in try_bind (upsert_synced_row (synced_row s account result)) (\<lambda>transaction_id.
       try_bind (if syc_tag_ids result \<noteq> [] then add_transaction_tags (syc_tag_ids result) [transaction_id] else ok ())
         (\<lambda>_. ok (syc_new_record result))))) Q (spend_statement (spend_statement w))"
    by (rule wp_try_bindI, rule wp_categorized, simp only: sum.case assms(1))
       (simp only: sum.case Let_def, rule row, simp_all)
  show ?case
    unfolding sum.case
    by (rule wp_try_bindI)
       (simp only: synced_transaction_state_def wp_select sum.case state spend_statement_simps assms(1)
          synced_state_def [symmetric] categorize if_cancel)
qed (simp add: assms(1))

section \<open>Rows by key\<close>

definition row_of :: "tx_tables \<Rightarrow> string \<times> string \<Rightarrow> txn_row option" where
  "row_of t k = find (\<lambda>r. txn_key r = k) (b_transactions t)"

definition row_tags :: "tx_tables \<Rightarrow> txn_row \<Rightarrow> int set" where
  "row_tags t r = {tag. (txn_id r, tag) \<in> set (b_transaction_tags t)}"

text \<open>The tables that no transaction of a page changes.\<close>

definition catalog :: "tx_tables \<Rightarrow> tx_tables" where
  "catalog t = t\<lparr>b_transactions := [], b_transaction_tags := [], b_charge_transactions := []\<rparr>"

lemma catalogD:
  assumes "catalog t' = catalog t"
  shows "b_accounts t' = b_accounts t" "b_owners t' = b_owners t" "b_rules t' = b_rules t"
    "b_rule_accounts t' = b_rule_accounts t" "b_rule_tags t' = b_rule_tags t" "b_tags t' = b_tags t"
    "b_mappings t' = b_mappings t" "b_categories t' = b_categories t" "b_connections t' = b_connections t"
  using arg_cong [OF assms, of b_accounts] arg_cong [OF assms, of b_owners] arg_cong [OF assms, of b_rules]
    arg_cong [OF assms, of b_rule_accounts] arg_cong [OF assms, of b_rule_tags] arg_cong [OF assms, of b_tags]
    arg_cong [OF assms, of b_mappings] arg_cong [OF assms, of b_categories] arg_cong [OF assms, of b_connections]
  by (simp_all add: catalog_def)

lemma found_catalog:
  assumes "catalog t' = catalog t"
  shows "account_found t' = account_found t" and "categorized t' = categorized t"
  unfolding account_found_def [abs_def] categorized_def [abs_def] best_rule_def rule_matches_def
    rule_account_match_def rule_tag_text_def catalogD [OF assms]
  by (rule refl)+

lemma row_of_Some: "wf_tx t \<Longrightarrow> row_of t k = Some r \<longleftrightarrow> r \<in> set (b_transactions t) \<and> txn_key r = k"
  unfolding row_of_def using wf_txD(6) [of t]
  by (auto dest: find_Some intro: find_unique [where key = txn_key])

lemma row_of_None: "row_of t k = None \<longleftrightarrow> k \<notin> txn_key ` set (b_transactions t)"
  unfolding row_of_def by (auto simp: find_None_iff)

lemma row_of_same:
  assumes "wf_tx t" "wf_tx t'"
    and "\<And>r. txn_key r = k \<Longrightarrow> r \<in> set (b_transactions t') \<longleftrightarrow> r \<in> set (b_transactions t)"
  shows "row_of t' k = row_of t k"
proof (rule option.expand)
  show "(row_of t' k = None) = (row_of t k = None)"
    using assms(3) by (auto simp: row_of_None)
  show "the (row_of t' k) = the (row_of t k)" if "row_of t' k \<noteq> None" "row_of t k \<noteq> None"
    using that assms by (auto simp: row_of_Some) (metis option.sel row_of_Some)
qed

text \<open>What happens to one transaction leaves the others alone.\<close>

definition surroundings :: "string \<times> string \<Rightarrow> tx_tables \<Rightarrow> tx_tables \<Rightarrow> bool" where
  "surroundings k t t' \<longleftrightarrow> catalog t' = catalog t
     \<and> (\<forall>k'. k' \<noteq> k \<longrightarrow> row_of t' k' = row_of t k'
          \<and> (\<forall>r. row_of t k' = Some r \<longrightarrow> row_tags t r \<subseteq> row_tags t' r))"

lemma surroundings_trans: "surroundings k t u \<Longrightarrow> surroundings k u v \<Longrightarrow> surroundings k t v"
  unfolding surroundings_def by (metis subset_trans)

lemma surroundings_delete:
  assumes "wf_tx t"
  shows "surroundings k t (delete_transactions (\<lambda>r. txn_key r = k) t)" (is "surroundings k t ?t'")
    and "row_of (delete_transactions (\<lambda>r. txn_key r = k) t) k = None"
proof -
  have "catalog ?t' = catalog t"
    by (simp add: catalog_def delete_transactions_def Let_def)
  moreover have "row_of ?t' k' = row_of t k'" if "k' \<noteq> k" for k'
    using that by (intro row_of_same assms wf_delete_transactions) auto
  moreover have "row_tags t r \<subseteq> row_tags ?t' r" if "k' \<noteq> k" "row_of t k' = Some r" for k' r
  proof -
    have r: "r \<in> set (b_transactions t)" "txn_key r \<noteq> k"
      using that by (auto simp: row_of_Some [OF assms])
    then have "txn_id r \<notin> txn_id ` set (filter (\<lambda>r. txn_key r = k) (b_transactions t))"
      using wf_txD(5) [OF assms] by (auto simp: distinct_map dest: inj_onD)
    then show ?thesis by (auto simp: row_tags_def delete_transactions_def Let_def)
  qed
  ultimately show "surroundings k t ?t'" unfolding surroundings_def by blast
  show "row_of ?t' k = None" by (auto simp: row_of_None)
qed

lemma store_synced_row:
  assumes "wf_tx t" "store_synced p t = Inr (i, t')"
  shows "wf_tx t'" "surroundings (txn_key p) t t'"
    and "\<exists>r. row_of t' (txn_key p) = Some r \<and> txn_id r = i
      \<and> r = (case row_of t (txn_key p) of
          None \<Rightarrow> p\<lparr>txn_notes := None, txn_id := i\<rparr> | Some old \<Rightarrow> merge_synced p old)"
proof -
  have wf: "wf_tx t'" and *: "catalog t' = catalog t \<and> b_transaction_tags t' = b_transaction_tags t
    \<and> (\<exists>r. txn_key r = txn_key p \<and> r \<in> set (b_transactions t') \<and> txn_id r = i
       \<and> (\<forall>x. txn_key x \<noteq> txn_key p \<longrightarrow> x \<in> set (b_transactions t') \<longleftrightarrow> x \<in> set (b_transactions t))
       \<and> r = (case row_of t (txn_key p) of
          None \<Rightarrow> p\<lparr>txn_notes := None, txn_id := i\<rparr> | Some old \<Rightarrow> merge_synced p old))"
  proof (atomize(full), cases "row_of t (txn_key p)")
    case None
    with assms(2) have stored: "append_txn (p\<lparr>txn_notes := None\<rparr>) t = Inr (i, t')"
      by (simp add: store_synced_def row_of_def)
    have "txn_key (p\<lparr>txn_notes := None\<rparr>) = txn_key p" "txn_key (p\<lparr>txn_notes := None, txn_id := j\<rparr>) = txn_key p" for j
      by (simp_all add: txn_key_def)
    moreover have "txn_key p \<notin> txn_key ` set (b_transactions t)"
      using None by (simp add: row_of_None)
    ultimately show "wf_tx t' \<and> catalog t' = catalog t \<and> b_transaction_tags t' = b_transaction_tags t
    \<and> (\<exists>r. txn_key r = txn_key p \<and> r \<in> set (b_transactions t') \<and> txn_id r = i
       \<and> (\<forall>x. txn_key x \<noteq> txn_key p \<longrightarrow> x \<in> set (b_transactions t') \<longleftrightarrow> x \<in> set (b_transactions t))
       \<and> r = (case row_of t (txn_key p) of
          None \<Rightarrow> p\<lparr>txn_notes := None, txn_id := i\<rparr> | Some old \<Rightarrow> merge_synced p old))"
      using stored wf_append_txn [OF assms(1) _ stored]
      by (simp add: append_txn_Inr Let_def catalog_def None) blast
  next
    case (Some old)
    with assms(2) have stored: "replace_txn (merge_synced p old) t = Inr (i, t')"
      by (simp add: store_synced_def row_of_def)
    have old: "old \<in> set (b_transactions t)" "txn_key old = txn_key p"
      using Some by (auto simp: row_of_Some [OF assms(1)])
    have t': "i = txn_id old"
      "t' = t\<lparr>b_transactions := update_rows (\<lambda>x. txn_id x = txn_id (merge_synced p old)) (\<lambda>_. merge_synced p old) (b_transactions t)\<rparr>"
      using stored by (auto simp: replace_txn_def split: if_splits)
    have "set (b_transactions t') = insert (merge_synced p old) (set (b_transactions t) - {old})"
      unfolding t' using set_update_one [OF wf_txD(5) [OF assms(1)] old(1), of "merge_synced p old"] by simp
    then show "wf_tx t' \<and> catalog t' = catalog t \<and> b_transaction_tags t' = b_transaction_tags t
    \<and> (\<exists>r. txn_key r = txn_key p \<and> r \<in> set (b_transactions t') \<and> txn_id r = i
       \<and> (\<forall>x. txn_key x \<noteq> txn_key p \<longrightarrow> x \<in> set (b_transactions t') \<longleftrightarrow> x \<in> set (b_transactions t))
       \<and> r = (case row_of t (txn_key p) of
          None \<Rightarrow> p\<lparr>txn_notes := None, txn_id := i\<rparr> | Some old \<Rightarrow> merge_synced p old))"
      using old Some wf_replace_txn [OF assms(1) old(1) _ _ stored]
      by (auto simp: t'(1) catalog_def) (auto simp: t'(2))
  qed
  show "wf_tx t'" by (rule wf)
  show "surroundings (txn_key p) t t'"
    unfolding surroundings_def using * row_of_same [OF assms(1) wf] by (auto simp: row_tags_def)
  show "\<exists>r. row_of t' (txn_key p) = Some r \<and> txn_id r = i
      \<and> r = (case row_of t (txn_key p) of
          None \<Rightarrow> p\<lparr>txn_notes := None, txn_id := i\<rparr> | Some old \<Rightarrow> merge_synced p old)"
    using * row_of_Some [OF wf] by blast
qed

section \<open>Events that have been stored\<close>

text \<open>A row that a synced transaction would not change any more.\<close>

definition fixed_row :: "synced_transaction \<Rightarrow> tx_tables \<Rightarrow> bool" where
  "fixed_row s t \<longleftrightarrow>
     (\<exists>account category r.
        account_found t (syn_account_id s) = Some account
        \<and> categorized t (syn_merchant_name s) (syn_original_name s) (syn_amount s) (acc_id account)
            (syn_plaid_category s) = Some category
        \<and> row_of t (source_name (syn_source s), syn_external_id s) = Some r
        \<and> (let result = category_result (Some (txn_is_reviewed r, txn_category_id r)) category
           in merge_synced (synced_row s account result) r = r
              \<and> set (syc_tag_ids result) \<inter> set (b_tags t) \<subseteq> row_tags t r))"

lemma synced_row_key [simp]: "txn_key (synced_row s account result) = (source_name (syn_source s), syn_external_id s)"
  by (simp add: synced_row_def txn_key_def)

lemma merge_again:
  assumes "r = (case old of None \<Rightarrow> (synced_row s account result)\<lparr>txn_notes := None, txn_id := i\<rparr>
      | Some r \<Rightarrow> merge_synced (synced_row s account result) r)"
    and "result = category_result (map_option (\<lambda>r. (txn_is_reviewed r, txn_category_id r)) old) category"
    and "again = category_result (Some (txn_is_reviewed r, txn_category_id r)) category"
  shows "merge_synced (synced_row s account again) r = r"
    and "set (syc_tag_ids again) \<subseteq> set (syc_tag_ids result)"
proof -
  have "merge_synced (synced_row s account again) r = r \<and> set (syc_tag_ids again) \<subseteq> set (syc_tag_ids result)"
  proof (cases old)
    case None
    show ?thesis
      unfolding assms None
      by (cases "aut_category_id category") (simp_all add: category_result_def merge_synced_def synced_row_def)
  next
    case (Some x)
    show ?thesis
      unfolding assms Some
      by (cases "txn_is_reviewed x"; cases "aut_category_id category")
         (simp_all add: category_result_def merge_synced_def synced_row_def)
  qed
  then show "merge_synced (synced_row s account again) r = r" "set (syc_tag_ids again) \<subseteq> set (syc_tag_ids result)"
    by simp_all
qed

lemma tag_transaction_simps [simp]:
  "b_transactions (tag_transaction tags i t) = b_transactions t"
  "row_of (tag_transaction tags i t) = row_of t"
  "catalog (tag_transaction tags i t) = catalog t"
  "b_tags (tag_transaction tags i t) = b_tags t"
  by (simp_all add: tag_transaction_def row_of_def [abs_def] catalog_def)

lemma tag_transaction_tags:
  "row_tags (tag_transaction tags i t) r =
     row_tags t r \<union> (if txn_id r = i \<and> (\<exists>x \<in> set (b_transactions t). txn_id x = i) then set tags \<inter> set (b_tags t) else {})"
  by (auto simp: row_tags_def tag_transaction_def)

lemma wf_tag_transaction: "wf_tx t \<Longrightarrow> wf_tx (tag_transaction tags i t)"
  unfolding tag_transaction_def by (rule wf_transaction_tags) (auto dest!: wf_txD(9))

lemma surroundings_tag: "surroundings k t (tag_transaction tags i t)"
  by (auto simp: surroundings_def tag_transaction_tags)

lemma upserted_fixes:
  assumes "wf_tx t" "upserted s t t'"
  shows "wf_tx t'" "fixed_row s t'" "surroundings (source_name (syn_source s), syn_external_id s) t t'"
proof -
  from assms(2) obtain account category i t1 where found: "account_found t (syn_account_id s) = Some account"
      "categorized t (syn_merchant_name s) (syn_original_name s) (syn_amount s) (acc_id account)
            (syn_plaid_category s) = Some category"
    and stored: "store_synced (synced_row s account (category_result (synced_state t s) category)) t = Inr (i, t1)"
    and t': "t' = (if syc_tag_ids (category_result (synced_state t s) category) = [] then t1
        else tag_transaction (syc_tag_ids (category_result (synced_state t s) category)) i t1)"
    unfolding upserted_def Let_def by blast
  note row = store_synced_row [OF assms(1) stored, unfolded synced_row_key]
  show wf: "wf_tx t'" using row(1) by (simp add: t' wf_tag_transaction)
  have around: "surroundings (source_name (syn_source s), syn_external_id s) t t'"
    using row(2) surroundings_trans [OF row(2) surroundings_tag] by (simp add: t')
  then show "surroundings (source_name (syn_source s), syn_external_id s) t t'" .
  then have catalog: "catalog t' = catalog t" unfolding surroundings_def by blast
  from row(3) obtain r where r: "row_of t1 (source_name (syn_source s), syn_external_id s) = Some r" "txn_id r = i"
      "r = (case row_of t (source_name (syn_source s), syn_external_id s) of
        None \<Rightarrow> (synced_row s account (category_result (synced_state t s) category))\<lparr>txn_notes := None, txn_id := i\<rparr>
      | Some old \<Rightarrow> merge_synced (synced_row s account (category_result (synced_state t s) category)) old)"
    by blast
  have row_of': "row_of t' (source_name (syn_source s), syn_external_id s) = Some r"
    by (simp add: t' r(1))
  have state: "synced_state t s = map_option (\<lambda>r. (txn_is_reviewed r, txn_category_id r))
      (row_of t (source_name (syn_source s), syn_external_id s))"
    by (simp add: synced_state_def row_of_def)
  note again = merge_again [OF r(3) arg_cong [OF state, of "\<lambda>x. category_result x category"] refl]
  have "set (syc_tag_ids (category_result (synced_state t s) category)) \<inter> set (b_tags t') \<subseteq> row_tags t' r"
    using r(1,2) row_of_Some [OF row(1)] by (auto simp: t' tag_transaction_tags)
  then show "fixed_row s t'"
    unfolding fixed_row_def Let_def found_catalog(1) [OF catalog] found_catalog(2) [OF catalog]
    using found row_of' again by blast
qed

lemma fixed_row_upserted:
  assumes "wf_tx t" "fixed_row s t" "upserted s t t'"
  shows "t' = t"
proof -
  from assms(2) obtain account category r where found: "account_found t (syn_account_id s) = Some account"
      "categorized t (syn_merchant_name s) (syn_original_name s) (syn_amount s) (acc_id account)
            (syn_plaid_category s) = Some category"
    and row: "row_of t (source_name (syn_source s), syn_external_id s) = Some r"
    and same: "merge_synced (synced_row s account (category_result (Some (txn_is_reviewed r, txn_category_id r)) category)) r = r"
      "set (syc_tag_ids (category_result (Some (txn_is_reviewed r, txn_category_id r)) category)) \<inter> set (b_tags t)
        \<subseteq> row_tags t r"
    unfolding fixed_row_def Let_def by blast
  have state: "synced_state t s = Some (txn_is_reviewed r, txn_category_id r)"
    using row by (simp add: synced_state_def row_of_def)
  have r: "r \<in> set (b_transactions t)" using row row_of_Some [OF assms(1)] by blast
  have "update_rows (\<lambda>x. txn_id x = txn_id r) (\<lambda>_. r) (b_transactions t) = b_transactions t"
    using wf_txD(5) [OF assms(1)] r unfolding update_rows_def
    by (intro map_idI) (auto simp: distinct_map dest: inj_onD)
  then have stored: "store_synced (synced_row s account (category_result (synced_state t s) category)) t =
      (if fk_txn t r then Inr (txn_id r, t) else Inl Constraint)"
    using row same(1) by (simp add: store_synced_def row_of_def state replace_txn_def)
  have "insert_or_ignore (concat (map (\<lambda>x. map (\<lambda>tag. (txn_id x, tag)) (filter (\<lambda>tag. tag \<in> set tags) (b_tags t)))
       (filter (\<lambda>x. txn_id x \<in> set [txn_id r]) (b_transactions t)))) (b_transaction_tags t) = b_transaction_tags t"
    if "set tags \<inter> set (b_tags t) \<subseteq> row_tags t r" for tags
    using that by (intro insert_or_ignore_again) (auto simp: row_tags_def)
  then have tagged: "tag_transaction tags (txn_id r) t = t" if "set tags \<inter> set (b_tags t) \<subseteq> row_tags t r" for tags
    using that by (simp add: tag_transaction_def)
  show ?thesis
    using assms(3) found stored tagged [OF same(2)] unfolding upserted_def Let_def state
    by (auto split: if_splits)
qed

text \<open>An account that a draft would not change any more.\<close>

definition fixed_account :: "account_draft \<Rightarrow> tx_tables \<Rightarrow> bool" where
  "fixed_account d t \<longleftrightarrow>
     (\<exists>a \<in> set (b_accounts t). acc_external_id a = dra_external_id d
        \<and> acc_connection_id a = Some (dra_connection_id d) \<and> acc_owner_id a = dra_owner_id d
        \<and> (acc_subtype a = None \<longrightarrow> dra_subtype d = None) \<and> (acc_mask a = None \<longrightarrow> dra_mask d = None))"

definition merge_draft :: "account_draft \<Rightarrow> account_row \<Rightarrow> account_row" where
  "merge_draft d old = old\<lparr>acc_connection_id := Some (dra_connection_id d), acc_owner_id := dra_owner_id d,
     acc_subtype := (case acc_subtype old of None \<Rightarrow> dra_subtype d | Some s \<Rightarrow> Some s),
     acc_mask := (case acc_mask old of None \<Rightarrow> dra_mask d | Some s \<Rightarrow> Some s)\<rparr>"

lemma wp_upsert_draft:
  assumes "wf_tx (w_tables w)" and "\<And>e w'. Q (Inl e) w'"
    and "\<And>i w' a. w_tables w' = (w_tables w)\<lparr>b_accounts := b_accounts (w_tables w) @ [a]\<rparr> \<Longrightarrow>
      acc_external_id a = dra_external_id d \<Longrightarrow> fixed_account d (w_tables w') \<Longrightarrow>
      dra_external_id d \<notin> acc_external_id ` set (b_accounts (w_tables w)) \<Longrightarrow> Q (Inr i) w'"
    and "\<And>i w' old. old \<in> set (b_accounts (w_tables w)) \<Longrightarrow> acc_external_id old = dra_external_id d \<Longrightarrow>
      w_tables w' = (w_tables w)\<lparr>b_accounts :=
        update_rows (\<lambda>x. acc_id x = acc_id (merge_draft d old)) (\<lambda>_. merge_draft d old) (b_accounts (w_tables w))\<rparr> \<Longrightarrow> Q (Inr i) w'"
  shows "wp (upsert_account_row (account_of_draft d)) Q w"
proof (cases "find (\<lambda>a. acc_external_id a = dra_external_id d) (b_accounts (w_tables w))")
  case None
  then have "dra_external_id d \<notin> acc_external_id ` set (b_accounts (w_tables w))" by (auto simp: find_None_iff)
  with None show ?thesis
    unfolding upsert_account_row_def wp_statement
    by (auto simp: account_of_draft_def Let_def assms(2) fixed_account_def intro!: assms(3))
next
  case (Some old)
  with find_Some [OF Some] show ?thesis
    unfolding upsert_account_row_def wp_statement
    by (auto simp: account_of_draft_def Let_def assms(2) merge_draft_def [symmetric] intro!: assms(4) [of old])
       (simp_all add: merge_draft_def account_of_draft_def cong: option.case_cong)
qed

lemma set_merged:
  assumes "wf_tx t" "old \<in> set (b_accounts t)"
  shows "set (update_rows (\<lambda>x. acc_id x = acc_id (merge_draft d old)) (\<lambda>_. merge_draft d old) (b_accounts t))
    = insert (merge_draft d old) (set (b_accounts t) - {old})"
  by (rule set_update_one [OF wf_txD(2) [OF assms(1)] assms(2)]) (simp add: merge_draft_def)

lemma fixed_account_step:
  assumes "wf_tx (w_tables w)"
  shows "wp (upsert_account_row (account_of_draft d)) (\<lambda>r w'. (\<exists>i. r = Inr i) \<longrightarrow>
    fixed_account d (w_tables w')
    \<and> (\<forall>d'. dra_external_id d' \<noteq> dra_external_id d \<longrightarrow> fixed_account d' (w_tables w) \<longrightarrow> fixed_account d' (w_tables w'))
    \<and> (fixed_account d (w_tables w) \<longrightarrow> w_tables w' = w_tables w)) w"
proof (rule wp_upsert_draft [OF assms], goal_cases)
  case (2 i w' a)
  then have "\<not> fixed_account d (w_tables w)" by (force simp: fixed_account_def)
  moreover have "fixed_account d' (w_tables w')" if "fixed_account d' (w_tables w)" for d'
    using that unfolding fixed_account_def 2(1) by simp
  ultimately show ?case using 2(3) by blast
next
  case (3 i w' old)
  have accounts: "set (b_accounts (w_tables w')) = insert (merge_draft d old) (set (b_accounts (w_tables w)) - {old})"
    using set_merged [OF assms 3(1)] by (simp add: 3(3))
  have keys: "acc_external_id (merge_draft d old) = dra_external_id d" "acc_id (merge_draft d old) = acc_id old"
    using 3(2) by (simp_all add: merge_draft_def)
  have "fixed_account d (w_tables w')"
    unfolding fixed_account_def accounts
    by (rule bexI [of _ "merge_draft d old"])
       (auto simp: keys(2) 3(2) merge_draft_def split: option.splits)
  moreover have "fixed_account d' (w_tables w')" if "dra_external_id d' \<noteq> dra_external_id d" "fixed_account d' (w_tables w)" for d'
    using that 3(2) unfolding fixed_account_def accounts by auto
  moreover have "w_tables w' = w_tables w" if "fixed_account d (w_tables w)"
  proof -
    from that obtain a where a: "a \<in> set (b_accounts (w_tables w))" "acc_external_id a = dra_external_id d"
        "merge_draft d a = a"
      unfolding fixed_account_def merge_draft_def by (auto split: option.splits)
    then have "a = old"
      using 3(1,2) wf_txD(3) [OF assms] by (metis distinct_map inj_onD)
    with a(3) have same: "merge_draft d old = old" by simp
    have "update_rows (\<lambda>x. acc_id x = acc_id old) (\<lambda>_. old) (b_accounts (w_tables w)) = b_accounts (w_tables w)"
      using wf_txD(2) [OF assms] 3(1) unfolding update_rows_def
      by (intro map_idI) (auto simp: distinct_map dest: inj_onD)
    with 3(3) show ?thesis by (simp add: same)
  qed
  ultimately show ?case by blast
qed simp

section \<open>Pages\<close>

text \<open>A page holds accounts, then transactions that are gone or stored.\<close>

fun event_key :: "persist_event \<Rightarrow> (string \<times> string) option" where
  "event_key (Upsert s) = Some (source_name (syn_source s), syn_external_id s)"
| "event_key (Removal r) = Some (source_name (rem_source r), rem_external_id r)"
| "event_key _ = None"

fun settled :: "bool \<Rightarrow> persist_event \<Rightarrow> tx_tables \<Rightarrow> bool" where
  "settled stage (AccountUpsert d) t = fixed_account d t"
| "settled stage (Upsert s) t = fixed_row (s\<lparr>syn_stage_for_llm := stage\<rparr>) t"
| "settled stage (Removal r) t = (row_of t (source_name (rem_source r), rem_external_id r) = None)"
| "settled stage _ t = False"

definition changes :: "persist_event list \<Rightarrow> bool" where
  "changes es \<longleftrightarrow> (\<forall>e \<in> set es. event_key e \<noteq> None) \<and> distinct (map event_key es)"

lemma settled_surroundings:
  assumes "surroundings k t t'" "settled stage e t" "event_key e \<noteq> Some k" "event_key e \<noteq> None \<or> (\<exists>d. e = AccountUpsert d)"
  shows "settled stage e t'"
proof -
  have catalog: "catalog t' = catalog t" using assms(1) by (simp add: surroundings_def)
  show ?thesis
  proof (cases e)
    case (AccountUpsert d)
    with assms(2) catalogD(1) [OF catalog] show ?thesis by (simp add: fixed_account_def)
  next
    case (Upsert s)
    then have "(source_name (syn_source s), syn_external_id s) \<noteq> k" using assms(3) by simp
    with assms(1) have "row_of t' (source_name (syn_source s), syn_external_id s)
        = row_of t (source_name (syn_source s), syn_external_id s)"
      "\<And>r. row_of t (source_name (syn_source s), syn_external_id s) = Some r \<Longrightarrow> row_tags t r \<subseteq> row_tags t' r"
      unfolding surroundings_def by blast+
    with assms(2) [unfolded Upsert] show ?thesis
      unfolding Upsert settled.simps fixed_row_def Let_def found_catalog(1) [OF catalog]
        found_catalog(2) [OF catalog] catalogD(6) [OF catalog]
      by simp blast
  next
    case (Removal r)
    with assms show ?thesis by (auto simp: surroundings_def)
  qed (use assms in auto)
qed

lemma surroundings_synced_delete:
  assumes "wf_tx (w_tables w)"
  shows "wp (delete_synced_transaction source external_id) (\<lambda>r w'. (\<exists>u. r = Inr u) \<longrightarrow>
    surroundings (source_name source, external_id) (w_tables w) (w_tables w')
    \<and> row_of (w_tables w') (source_name source, external_id) = None
    \<and> (row_of (w_tables w) (source_name source, external_id) = None \<longrightarrow> w_tables w' = w_tables w)) w"
proof -
  have key: "(\<lambda>r. txn_source r = source_name source \<and> txn_external_id r = external_id)
      = (\<lambda>r. txn_key r = (source_name source, external_id))"
    by (auto simp: txn_key_def fun_eq_iff)
  have gone: "delete_transactions (\<lambda>r. txn_key r = k) t = t" if "row_of t k = None" for t :: tx_tables and k
  proof -
    have none: "filter (\<lambda>r. txn_key r = k) (b_transactions t) = []"
      using that by (auto simp: row_of_None filter_empty_conv)
    have "delete_rows (\<lambda>r. txn_key r = k) (b_transactions t) = b_transactions t"
      using that unfolding row_of_None delete_rows_def by (intro filter_True) auto
    then show ?thesis by (simp add: delete_transactions_def none delete_rows_def)
  qed
  show ?thesis
    unfolding delete_synced_transaction_def delete_synced_row_def key wp_try_bind wp_exec_rows Let_def
    using surroundings_delete [OF assms] gone by (simp add: wp_ok)
qed

lemma apply_event_settles:
  assumes "wf_tx (w_tables w)" "event_key e \<noteq> None \<or> (\<exists>d. e = AccountUpsert d)"
  shows "wp (apply_event stage e counts) (\<lambda>r w'. (\<exists>c. r = Inr c) \<longrightarrow>
    wf_tx (w_tables w') \<and> settled stage e (w_tables w')
    \<and> (settled stage e (w_tables w) \<longrightarrow> w_tables w' = w_tables w)
    \<and> (\<forall>k. event_key e = Some k \<longrightarrow> surroundings k (w_tables w) (w_tables w'))
    \<and> (\<forall>d d'. e = AccountUpsert d \<longrightarrow> dra_external_id d' \<noteq> dra_external_id d \<longrightarrow>
         settled stage (AccountUpsert d') (w_tables w) \<longrightarrow> settled stage (AccountUpsert d') (w_tables w'))) w"
    (is "wp _ ?Q w")
proof -
  have wf: "wp (apply_event stage e counts) (\<lambda>r w'. wf_tx (w_tables w')) w"
    by (rule wpI) (use wf_tx.event [of e stage counts] assms(1) in \<open>auto dest!: guaranteesD simp: kept_def\<close>)
  show ?thesis
  proof (cases e)
    case (AccountUpsert d)
    have "wp (apply_event stage e counts) (\<lambda>r w'. (\<exists>c. r = Inr c) \<longrightarrow> fixed_account d (w_tables w')
      \<and> (\<forall>d'. dra_external_id d' \<noteq> dra_external_id d \<longrightarrow> fixed_account d' (w_tables w) \<longrightarrow> fixed_account d' (w_tables w'))
      \<and> (fixed_account d (w_tables w) \<longrightarrow> w_tables w' = w_tables w)) w"
      unfolding AccountUpsert apply_event.simps wp_try_bind
      by (rule wp_mono [OF fixed_account_step [OF assms(1)]]) (simp add: wp_ok split: sum.splits)
    from wp_conj [OF wf this] show ?thesis
      by (rule wp_mono) (simp add: AccountUpsert)
  next
    case (Upsert s)
    have "wp (apply_event stage e counts) (\<lambda>r w'. (\<exists>c. r = Inr c) \<longrightarrow>
        upserted (s\<lparr>syn_stage_for_llm := stage\<rparr>) (w_tables w) (w_tables w')) w"
      unfolding Upsert apply_event.simps
      by (rule wp_try_bindI, rule wp_upsert_synced_transaction) (simp_all add: wp_ok)
    from wp_conj [OF wf this] show ?thesis
      by (rule wp_mono)
         (use upserted_fixes [OF assms(1)] fixed_row_upserted [OF assms(1)] in \<open>force simp: Upsert\<close>)
  next
    case (Removal x)
    have "wp (apply_event stage e counts) (\<lambda>r w'. (\<exists>c. r = Inr c) \<longrightarrow>
      surroundings (source_name (rem_source x), rem_external_id x) (w_tables w) (w_tables w')
      \<and> row_of (w_tables w') (source_name (rem_source x), rem_external_id x) = None
      \<and> (row_of (w_tables w) (source_name (rem_source x), rem_external_id x) = None \<longrightarrow> w_tables w' = w_tables w)) w"
      unfolding Removal apply_event.simps wp_try_bind
      by (rule wp_mono [OF surroundings_synced_delete [OF assms(1)]]) (simp add: wp_ok split: sum.splits)
    from wp_conj [OF wf this] show ?thesis
      by (rule wp_mono) (simp add: Removal)
  qed (use assms(2) in auto)
qed

text \<open>A page whose events do not get in each other's way.\<close>

definition tidy :: "persist_event list \<Rightarrow> bool" where
  "tidy es \<longleftrightarrow> (\<exists>ds cs. es = map AccountUpsert ds @ cs \<and> distinct (map dra_external_id ds) \<and> changes cs)"

definition storable :: "persist_event \<Rightarrow> bool" where
  "storable e \<longleftrightarrow> event_key e \<noteq> None \<or> (\<exists>d. e = AccountUpsert d)"

definition apart :: "persist_event \<Rightarrow> persist_event \<Rightarrow> bool" where
  "apart e e' \<longleftrightarrow> storable e'
     \<and> (\<forall>d d'. e = AccountUpsert d \<longrightarrow> e' = AccountUpsert d' \<longrightarrow> dra_external_id d' \<noteq> dra_external_id d)
     \<and> (event_key e \<noteq> None \<longrightarrow> event_key e' \<noteq> None \<and> event_key e' \<noteq> event_key e)"

lemma tidy_Cons:
  assumes "tidy (e # es)"
  shows "tidy es" "\<forall>e' \<in> set es. apart e e'" "storable e"
proof -
  from assms obtain ds cs where page: "e # es = map AccountUpsert ds @ cs" "distinct (map dra_external_id ds)"
      "\<forall>c \<in> set cs. event_key c \<noteq> None" "distinct (map event_key cs)"
    unfolding tidy_def changes_def by blast
  have "tidy es \<and> (\<forall>e' \<in> set es. apart e e') \<and> storable e"
  proof (cases ds)
    case Nil
    with page have key: "event_key e \<noteq> None" "\<forall>c \<in> set es. event_key c \<noteq> None" "distinct (map event_key es)"
        "event_key e \<notin> event_key ` set es"
      by (metis append_Nil list.simps(8) list.set_intros distinct.simps(2) list.simps(9) list.set_map)+
    then have "es = map AccountUpsert [] @ es \<and> distinct (map dra_external_id []) \<and> changes es"
      by (simp add: changes_def)
    then have "tidy es" unfolding tidy_def by blast
    moreover have "apart e e'" if "e' \<in> set es" for e'
    proof -
      from that key(2) have "event_key e' \<noteq> None" by blast
      moreover from that key(4) have "event_key e' \<noteq> event_key e" by (metis imageI)
      moreover have "e \<noteq> AccountUpsert d" for d using key(1) by auto
      ultimately show ?thesis by (simp add: apart_def storable_def)
    qed
    ultimately show ?thesis using key(1) by (simp add: storable_def)
  next
    case (Cons d ds')
    with page have e: "e = AccountUpsert d" and es: "es = map AccountUpsert ds' @ cs"
        and ds: "distinct (map dra_external_id ds')" "dra_external_id d \<notin> dra_external_id ` set ds'"
      by simp_all
    have "tidy es" unfolding tidy_def changes_def using es ds(1) page(3,4) by blast
    moreover have "apart e e'" if "e' \<in> set es" for e'
    proof -
      from that es consider d' where "d' \<in> set ds'" "e' = AccountUpsert d'" | "e' \<in> set cs" by auto
      then show ?thesis
      proof cases
        case 1
        with ds(2) have "dra_external_id d' \<noteq> dra_external_id d" by (metis imageI)
        with 1 show ?thesis by (simp add: apart_def storable_def e)
      next
        case 2
        with page(3) have "event_key e' \<noteq> None" by blast
        then show ?thesis by (auto simp: apart_def storable_def e)
      qed
    qed
    ultimately show ?thesis by (simp add: e storable_def)
  qed
  then show "tidy es" "\<forall>e' \<in> set es. apart e e'" "storable e" by blast+
qed

lemma settled_apart:
  assumes "wf_tx (w_tables w)" "apart e e'" "settled stage e (w_tables w)" "storable e"
  shows "wp (apply_event stage e' counts) (\<lambda>r w'. (\<exists>c. r = Inr c) \<longrightarrow> settled stage e (w_tables w')) w"
proof (rule wp_mono [OF apply_event_settles [OF assms(1)]])
  show "event_key e' \<noteq> None \<or> (\<exists>d. e' = AccountUpsert d)"
    using assms(2) by (simp add: apart_def storable_def)
next
  fix r w'
  assume "(\<exists>c. r = Inr c) \<longrightarrow> wf_tx (w_tables w') \<and> settled stage e' (w_tables w')
    \<and> (settled stage e' (w_tables w) \<longrightarrow> w_tables w' = w_tables w)
    \<and> (\<forall>k. event_key e' = Some k \<longrightarrow> surroundings k (w_tables w) (w_tables w'))
    \<and> (\<forall>d d'. e' = AccountUpsert d \<longrightarrow> dra_external_id d' \<noteq> dra_external_id d \<longrightarrow>
         settled stage (AccountUpsert d') (w_tables w) \<longrightarrow> settled stage (AccountUpsert d') (w_tables w'))"
  then have surr: "\<And>k. event_key e' = Some k \<Longrightarrow> surroundings k (w_tables w) (w_tables w')"
    and acc: "\<And>d d'. e' = AccountUpsert d \<Longrightarrow> dra_external_id d' \<noteq> dra_external_id d \<Longrightarrow>
         settled stage (AccountUpsert d') (w_tables w) \<Longrightarrow> settled stage (AccountUpsert d') (w_tables w')"
    if "\<exists>c. r = Inr c"
    using that by blast+
  show "(\<exists>c. r = Inr c) \<longrightarrow> settled stage e (w_tables w')"
  proof
    assume c: "\<exists>c. r = Inr c"
    show "settled stage e (w_tables w')"
    proof (cases "event_key e'")
      case (Some k)
      with assms(2) have "event_key e \<noteq> Some k" unfolding apart_def by auto
      with settled_surroundings [OF surr [OF c Some] assms(3)] assms(4) show ?thesis
        unfolding storable_def by blast
    next
      case None
      with assms(2,4) obtain d d' where "e = AccountUpsert d" "e' = AccountUpsert d'"
          "dra_external_id d' \<noteq> dra_external_id d"
        unfolding apart_def storable_def by metis
      with acc [OF c] assms(3) show ?thesis by metis
    qed
  qed
qed

lemma persist_events_settle:
  assumes "tidy es" "wf_tx (w_tables w)"
  shows "wp (persist_events stage es counts) (\<lambda>r w'. (\<exists>c. r = Inr c) \<longrightarrow>
    wf_tx (w_tables w') \<and> (\<forall>e \<in> set es. settled stage e (w_tables w'))
    \<and> (\<forall>e. storable e \<longrightarrow> (\<forall>e' \<in> set es. apart e e') \<longrightarrow> settled stage e (w_tables w) \<longrightarrow> settled stage e (w_tables w'))) w"
  using assms
proof (induction es arbitrary: counts w)
  case Nil
  then show ?case by (simp add: wp_ok)
next
  case (Cons e es)
  note tidy = tidy_Cons [OF Cons.prems(1)]
  have step: "wp (apply_event stage e counts) (\<lambda>r w'. (\<exists>c. r = Inr c) \<longrightarrow> wf_tx (w_tables w')
      \<and> settled stage e (w_tables w') \<and> (\<forall>e1. storable e1 \<longrightarrow> apart e1 e \<longrightarrow> settled stage e1 (w_tables w) \<longrightarrow>
          settled stage e1 (w_tables w'))) w"
  proof (rule wpI, intro impI conjI allI, goal_cases)
    case (1 r w')
    then show ?case using wp_run [OF _ apply_event_settles [OF Cons.prems(2) tidy(3) [unfolded storable_def]]] by metis
  next
    case (2 r w')
    then show ?case using wp_run [OF _ apply_event_settles [OF Cons.prems(2) tidy(3) [unfolded storable_def]]] by metis
  next
    case (3 r w' e1)
    then show ?case using wp_run [OF 3(1) settled_apart [OF Cons.prems(2) 3(4) 3(5) 3(3)]] by blast
  qed
  show ?case
    unfolding persist_events.simps
  proof (rule wp_try_bindI, rule wp_mono [OF step], goal_cases)
    case (1 r w1)
    show ?case
    proof (cases r)
      case (Inr c)
      with 1 have wf: "wf_tx (w_tables w1)" and e: "settled stage e (w_tables w1)"
        and others: "\<And>e1. storable e1 \<Longrightarrow> apart e1 e \<Longrightarrow> settled stage e1 (w_tables w) \<Longrightarrow> settled stage e1 (w_tables w1)"
        by blast+
      show ?thesis
        unfolding Inr sum.case
        by (rule wp_mono [OF Cons.IH [OF tidy(1) wf]]) (use e others tidy(2,3) in auto)
    qed simp
  qed
qed

lemma settled_events_again:
  assumes "\<forall>e \<in> set es. storable e \<and> settled stage e (w_tables w)" "wf_tx (w_tables w)"
  shows "wp (persist_events stage es counts) (\<lambda>r w'. (\<exists>c. r = Inr c) \<longrightarrow> w_tables w' = w_tables w) w"
  using assms
proof (induction es arbitrary: counts w)
  case Nil
  then show ?case by (simp add: wp_ok)
next
  case (Cons e es)
  then have "event_key e \<noteq> None \<or> (\<exists>d. e = AccountUpsert d)" and e: "settled stage e (w_tables w)"
    by (simp_all add: storable_def)
  from apply_event_settles [OF Cons.prems(2) this(1), of stage counts]
  have step: "wp (apply_event stage e counts) (\<lambda>r w'. (\<exists>c. r = Inr c) \<longrightarrow> w_tables w' = w_tables w) w"
    by (rule wp_mono) (use e in blast)
  show ?case
    unfolding persist_events.simps
  proof (rule wp_try_bindI, rule wp_mono [OF step], goal_cases)
    case (1 r w1)
    show ?case
    proof (cases r)
      case (Inr c)
      with 1 have same: "w_tables w1 = w_tables w" by blast
      show ?thesis
        unfolding Inr sum.case same [symmetric]
        by (rule Cons.IH) (use Cons.prems in \<open>auto simp: same\<close>)
    qed simp
  qed
qed

end
