(* ===== verification/Plaid_Replay.thy ===== *)
theory Plaid_Replay
  imports Tx_Replay Plaid_Sync
begin

text \<open>
  The pages of Plaid are tidy, so that storing one of them again changes nothing.
\<close>

lemma transaction_from_plaid_key:
  "transaction_from_plaid x hidden p = Inr s \<Longrightarrow>
   syn_external_id s = ptr_transaction_id p \<and> syn_source s = Plaid_Source"
  by (auto simp: transaction_from_plaid_def and_then_def split: sum.splits)

lemma traverse_keys:
  "traverse (transaction_from_plaid x hidden) ps = Inr ss \<Longrightarrow>
   map syn_external_id ss = map ptr_transaction_id ps \<and> (\<forall>s \<in> set ss. syn_source s = Plaid_Source)"
proof (induction ps arbitrary: ss)
  case (Cons p ps)
  then show ?case
    by (auto simp: and_then_def transaction_from_plaid_key split: sum.splits)
qed simp

lemma page_events_keys:
  assumes "page_events x hidden investments r = Inr events"
  shows "map event_key events = map (\<lambda>i. Some (''plaid'', i))
    (List.map_filter prm_transaction_id (rsp_removed r)
     @ map ptr_transaction_id (filter_out_investment_accounts investments (rsp_added r)
         @ filter_out_investment_accounts investments (rsp_modified r)))"
proof -
  from assms obtain ss where ss: "traverse (transaction_from_plaid x hidden)
      (filter_out_investment_accounts investments (rsp_added r)
       @ filter_out_investment_accounts investments (rsp_modified r)) = Inr ss"
    and events: "events = removals (rsp_removed r) @ map Upsert ss"
    by (auto simp: page_events_def and_then_def split: sum.splits)
  have "map event_key (map Upsert ss) = map (\<lambda>s. Some (''plaid'', syn_external_id s)) ss"
    using conjunct2 [OF traverse_keys [OF ss]] by simp
  then have "map event_key (map Upsert ss) = map (\<lambda>i. Some (''plaid'', i)) (map syn_external_id ss)"
    by (simp add: comp_def)
  moreover have "map event_key (removals (rsp_removed r))
      = map (\<lambda>i. Some (''plaid'', i)) (List.map_filter prm_transaction_id (rsp_removed r))"
    by (simp add: removals_def)
  ultimately show ?thesis
    unfolding events map_append using traverse_keys [OF ss] by (metis map_append)
qed

lemma page_tidy:
  assumes "page_events x hidden investments r = Inr events"
    and "distinct (map ptr_transaction_id (rsp_added r @ rsp_modified r)
      @ List.map_filter prm_transaction_id (rsp_removed r))"
    and "distinct (map dra_external_id drafts)"
  shows "tidy (map AccountUpsert drafts @ events)"
proof -
  have "distinct (List.map_filter prm_transaction_id (rsp_removed r)
     @ map ptr_transaction_id (filter_out_investment_accounts investments (rsp_added r)
         @ filter_out_investment_accounts investments (rsp_modified r)))"
    using assms(2) unfolding filter_out_investment_accounts_def
    by (auto simp: distinct_map_filter)
  then have "distinct (map event_key events)"
    unfolding page_events_keys [OF assms(1)] by (subst distinct_map) (auto simp: inj_on_def)
  moreover have "event_key ` set events \<subseteq> range (\<lambda>i. Some (''plaid'', i))"
    using arg_cong [OF page_events_keys [OF assms(1)], of set] by auto
  then have "\<forall>e \<in> set events. event_key e \<noteq> None" by force
  ultimately show ?thesis
    unfolding tidy_def changes_def using assms(3) by blast
qed

lemma tidy_storable: "tidy es \<Longrightarrow> e \<in> set es \<Longrightarrow> storable e"
  by (auto simp: tidy_def changes_def storable_def)

lemma run_with_tx:
  assumes "run_state (with_tx m) w = (Inr a, w')"
  shows "\<exists>w1. run_state m (spend_statement w) = (Inr a, w1) \<and> w_tables w' = w_tables w1"
proof -
  have "wp (with_tx m) (\<lambda>r w'. \<forall>a. r = Inr a \<longrightarrow>
      (\<exists>w1. run_state m (spend_statement w) = (Inr a, w1) \<and> w_tables w' = w_tables w1)) w"
    by (auto simp: wp_with_tx Let_def intro!: wpI split: sum.splits)
  with assms show ?thesis by (blast dest: wp_run)
qed

text \<open>C19: The cursor of a page is written after the page, so a sync that was cut off in between is
  given the page a second time. That does no harm: when a page, and the accounts that come with the first
  one, have been stored, storing them again leaves every table as it is, so no transaction, tag or account is
  added, and nothing that was decided about a transaction is lost; only that a page names every
  transaction and every account once is needed of Plaid.\<close>

theorem page_replay_harmless:
  assumes "page_events x hidden investments r = Inr events"
    and "distinct (map ptr_transaction_id (rsp_added r @ rsp_modified r)
      @ List.map_filter prm_transaction_id (rsp_removed r))"
    and "distinct (map dra_external_id drafts)"
    and "wf_tx (w_tables w)"
    and "run_state (persist stage (map AccountUpsert drafts @ events)) w = (Inr counts, w1)"
    and "w_tables w2 = w_tables w1"
    and "run_state (persist stage (map AccountUpsert drafts @ events)) w2 = (result, w3)"
  shows "w_tables w3 = w_tables w1"
proof (cases result)
  case (Inl e)
  with assms(7) have "w_tables w3 = w_tables w2"
    using wp_run [OF _ wp_with_tx_error] by (fastforce simp: persist_def)
  with assms(6) show ?thesis by simp
next
  case (Inr c)
  note tidy = page_tidy [OF assms(1-3)]
  from run_with_tx [OF assms(5) [unfolded persist_def]] obtain u where
    u: "run_state (persist_events stage (map AccountUpsert drafts @ events) no_counts) (spend_statement w) = (Inr counts, u)"
      "w_tables w1 = w_tables u"
    by blast
  from wp_run [OF u(1) persist_events_settle [OF tidy]] assms(4)
  have settled: "wf_tx (w_tables w2)"
    "\<forall>e \<in> set (map AccountUpsert drafts @ events). storable e \<and> settled stage e (w_tables w2)"
    using tidy_storable [OF tidy] by (simp_all add: assms(6) u(2))
  from run_with_tx [OF assms(7) [unfolded persist_def Inr]] obtain v where
    v: "run_state (persist_events stage (map AccountUpsert drafts @ events) no_counts) (spend_statement w2) = (Inr c, v)"
      "w_tables w3 = w_tables v"
    by blast
  from wp_run [OF v(1) settled_events_again] settled have "w_tables v = w_tables w2" by simp
  with v(2) assms(6) show ?thesis by simp
qed

end
