(* ===== verification/Tx_Rule_Laws.thy ===== *)
theory Tx_Rule_Laws
  imports Tx_Laws
begin

text \<open>
  A rule means the same to the transactions that are already stored, when it is applied
  retroactively, as to those that come later: the statement that collects the transactions and the one
  that picks a rule for a transaction agree.
\<close>

section \<open>One rule, two statements\<close>

definition original_of :: "txn_row \<Rightarrow> string" where
  "original_of x = (case txn_original_name x of Some s \<Rightarrow> s | None \<Rightarrow> '''')"

definition payee_of :: "txn_row \<Rightarrow> string" where
  "payee_of x = (case txn_merchant_name x of Some s \<Rightarrow> s | None \<Rightarrow> original_of x)"

definition rule_hits :: "tx_tables \<Rightarrow> rule_row \<Rightarrow> txn_row \<Rightarrow> bool" where
  "rule_hits t rule x \<longleftrightarrow>
     rule_matches t (payee_of x) (original_of x) (txn_amount_cents x) (txn_account_id x) rule"

definition scoped_to :: "tx_tables \<Rightarrow> int \<Rightarrow> int list \<Rightarrow> bool" where
  "scoped_to t rule_id account_ids \<longleftrightarrow>
     filter (\<lambda>(rule, account). rule = rule_id) (b_rule_accounts t) = map (Pair rule_id) account_ids"

lemma rule_account_match_scoped:
  assumes "scoped_to t (rul_id rule) ids"
  shows "rule_account_match t account rule \<longleftrightarrow> ids = [] \<or> account \<in> set ids"
  using assms by (cases ids) (auto simp: rule_account_match_def scoped_to_def image_image)

lemma none_if_empty_case: "(case map_option f (none_if_empty p) of None \<Rightarrow> False | Some q \<Rightarrow> Q q) \<longleftrightarrow> p \<noteq> [] \<and> Q (f p)"
  by (simp add: none_if_empty_def)

lemma retroactive_hits:
  assumes "scoped_to t ident (rva_account_ids v)"
  shows "retroactive_match (map_option to_ascii_lowercase (none_if_empty (rva_merchant_pattern v)))
      (map_option to_ascii_lowercase (none_if_empty (rva_original_pattern v)))
      (rva_amount_min v) (rva_amount_max v) (none_if_empty (rva_account_ids v)) x
    \<longleftrightarrow> rule_hits t (rule_of_values ident v) x"
proof -
  have accounts: "rule_account_match t a (rule_of_values ident v) \<longleftrightarrow>
      (case none_if_empty (rva_account_ids v) of None \<Rightarrow> True | Some ids \<Rightarrow> a \<in> set ids)" for a
    using rule_account_match_scoped [of t "rule_of_values ident v"] assms
    by (simp add: rule_of_values_def none_if_empty_def)
  show ?thesis
    unfolding retroactive_match_def rule_hits_def rule_matches_def rule_text_match_def
      rule_amount_match_def accounts none_if_empty_case
    by (simp add: rule_of_values_def payee_of_def original_of_def conj_assoc split: option.splits)
qed

section \<open>Storing a rule\<close>

definition rule_effect :: "rule_row \<Rightarrow> txn_row \<Rightarrow> txn_row" where
  "rule_effect rule =
     update_fields
       \<lparr>set_merchant_name = map_option Some (rul_merchant_name rule), set_notes = None,
        set_recurring = rul_should_be_recurring rule, set_hidden = rul_should_hide rule,
        set_category = rul_category_id rule\<rparr>"

lemma rule_effect_updates: "update_fields (updates_of_changes (rva_changes v)) = rule_effect (rule_of_values ident v)"
  by (simp add: rule_effect_def updates_of_changes_def rule_of_values_def map_option_case)

lemma update_fields_nothing:
  assumes "set_merchant_name u = None" "set_notes u = None" "set_recurring u = None"
    "set_hidden u = None" "set_category u = None"
  shows "update_fields u = id"
  using assms by (simp add: update_fields_def fun_eq_iff)

lemma update_rows_id [simp]: "update_rows P id rows = rows"
  by (simp add: update_rows_def if_distrib cong: if_cong)

lemma wp_insert_rule_account:
  assumes "\<And>e w'. Q (Inl e) w'"
    and "\<And>w'. w_tables w' = (w_tables w)\<lparr>b_rule_accounts := b_rule_accounts (w_tables w) @ [(rule_id, a)]\<rparr> \<Longrightarrow>
      Q (Inr ()) w'"
  shows "wp (insert_rule_account rule_id a) Q w"
  unfolding insert_rule_account_def wp_statement using assms by simp

lemma wp_insert_rule_accounts:
  "wp (for_each (insert_rule_account rule_id) ids)
     (\<lambda>r w'. r = Inr () \<longrightarrow> w_tables w' = (w_tables w)\<lparr>b_rule_accounts :=
        b_rule_accounts (w_tables w) @ map (Pair rule_id) ids\<rparr>) w"
proof (induction ids arbitrary: w)
  case Nil
  show ?case by (simp add: wp_rules)
next
  case (Cons i ids)
  show ?case
    unfolding for_each.simps wp_try_bind
    by (rule wp_insert_rule_account) (simp, simp, rule wp_mono [OF Cons.IH], simp)
qed

lemma wp_replace_rule_accounts:
  "wp (replace_rule_accounts rule_id ids)
     (\<lambda>r w'. r = Inr () \<longrightarrow> (\<exists>accounts. w_tables w' = (w_tables w)\<lparr>b_rule_accounts := accounts\<rparr>)
        \<and> scoped_to (w_tables w') rule_id ids) w"
proof -
  have "filter (\<lambda>(rule, account). rule = rule_id)
      (filter (\<lambda>x. \<not> (case x of (rule, account) \<Rightarrow> rule = rule_id)) rows @ map (Pair rule_id) ids)
    = map (Pair rule_id) ids" for rows
    by (auto simp: filter_empty_conv filter_id_conv filter_map)
  then show ?thesis
    unfolding replace_rule_accounts_def delete_rule_accounts_def wp_try_bind wp_exec
    by (auto intro!: wp_mono [OF wp_insert_rule_accounts] exI simp: scoped_to_def delete_rows_def)
qed

definition tagged :: "tx_tables \<Rightarrow> int \<Rightarrow> int list \<Rightarrow> bool" where
  "tagged t rule_id tag_ids \<longleftrightarrow>
     (\<forall>tag. (rule_id, tag) \<in> set (b_rule_tags t) \<longleftrightarrow> tag \<in> set tag_ids) \<and> set tag_ids \<subseteq> set (b_tags t)"

lemma wp_insert_rule_tag:
  assumes "\<And>e w'. Q (Inl e) w'"
    and "\<And>w' tags. w_tables w' = (w_tables w)\<lparr>b_rule_tags := tags\<rparr> \<Longrightarrow>
      set tags = insert (rule_id, tag) (set (b_rule_tags (w_tables w))) \<Longrightarrow>
      (rule_id, tag) \<in> set (b_rule_tags (w_tables w)) \<or> tag \<in> set (b_tags (w_tables w)) \<Longrightarrow> Q (Inr ()) w'"
  shows "wp (insert_rule_tag rule_id tag) Q w"
proof -
  have "Q (Inr ()) (spend_statement w\<lparr>w_tables := w_tables w\<rparr>)"
    if "(rule_id, tag) \<in> set (b_rule_tags (w_tables w))"
    using that by (intro assms(2) [where tags = "b_rule_tags (w_tables w)"]) auto
  moreover have "Q (Inr ()) (spend_statement w\<lparr>w_tables := (w_tables w)\<lparr>b_rule_tags :=
      b_rule_tags (w_tables w) @ [(rule_id, tag)]\<rparr>\<rparr>)" if "tag \<in> set (b_tags (w_tables w))"
    using that by (intro assms(2) [where tags = "b_rule_tags (w_tables w) @ [(rule_id, tag)]"]) auto
  ultimately show ?thesis
    unfolding insert_rule_tag_def wp_statement using assms(1) by simp
qed

lemma wp_insert_rule_tags:
  "wp (for_each (insert_rule_tag rule_id) ids)
     (\<lambda>r w'. r = Inr () \<longrightarrow> (\<exists>tags. w_tables w' = (w_tables w)\<lparr>b_rule_tags := tags\<rparr>
        \<and> set tags = set (b_rule_tags (w_tables w)) \<union> Pair rule_id ` set ids)
        \<and> (\<forall>tag \<in> set ids. (rule_id, tag) \<in> set (b_rule_tags (w_tables w)) \<or> tag \<in> set (b_tags (w_tables w)))) w"
proof (induction ids arbitrary: w)
  case Nil
  show ?case by (auto simp: wp_rules intro!: exI [of _ "b_rule_tags (w_tables w)"])
next
  case (Cons i ids)
  show ?case
    unfolding for_each.simps wp_try_bind
    by (rule wp_insert_rule_tag) (simp, simp, rule wp_mono [OF Cons.IH], auto)
qed

lemma wp_replace_rule_tags:
  "wp (replace_rule_tags rule_id ids)
     (\<lambda>r w'. r = Inr () \<longrightarrow> (\<exists>tags. w_tables w' = (w_tables w)\<lparr>b_rule_tags := tags\<rparr>)
        \<and> tagged (w_tables w') rule_id ids) w"
proof -
  let ?t = "(w_tables w)\<lparr>b_rule_tags := delete_rows (\<lambda>(rule, tag). rule = rule_id) (b_rule_tags (w_tables w))\<rparr>"
  have tagged: "tagged (?t\<lparr>b_rule_tags := tags\<rparr>) rule_id ids"
    if "set tags = set (b_rule_tags ?t) \<union> Pair rule_id ` set ids"
      "\<forall>tag \<in> set ids. (rule_id, tag) \<in> set (b_rule_tags ?t) \<or> tag \<in> set (b_tags ?t)" for tags
    using that by (auto simp: tagged_def)
  have "wp (for_each (insert_rule_tag rule_id) ids)
     (\<lambda>r w'. r = Inr () \<longrightarrow> (\<exists>tags. w_tables w' = (w_tables w)\<lparr>b_rule_tags := tags\<rparr>)
        \<and> tagged (w_tables w') rule_id ids) ((spend_statement w)\<lparr>w_tables := ?t\<rparr>)"
    by (rule wp_mono [OF wp_insert_rule_tags]) (use tagged in force)
  then show ?thesis
    by (simp add: replace_rule_tags_def delete_rule_tags_def wp_try_bind wp_exec)
qed

section \<open>Applying it\<close>

text \<open>The tables after the transactions that a rule hits have been changed and tagged.\<close>

definition retroactively :: "rule_row \<Rightarrow> int list \<Rightarrow> tx_tables \<Rightarrow> tx_tables \<Rightarrow> bool" where
  "retroactively rule tag_ids t t' \<longleftrightarrow>
     (\<exists>rows tags. t' = t\<lparr>b_transactions := rows, b_transaction_tags := tags\<rparr>
        \<and> rows = update_rows (rule_hits t rule) (rule_effect rule) (b_transactions t)
        \<and> set tags = set (b_transaction_tags t)
            \<union> {(txn_id x, tag) | x tag. x \<in> set (b_transactions t) \<and> rule_hits t rule x \<and> tag \<in> set tag_ids})"

lemma effect_keys [simp]: "txn_id (rule_effect rule x) = txn_id x" "txn_key (rule_effect rule x) = txn_key x"
  by (simp_all add: rule_effect_def update_fields_def txn_key_def)

lemma hit_ids:
  assumes "distinct (map txn_id rows)" "x \<in> set rows"
  shows "txn_id x \<in> set (map txn_id (filter P rows)) \<longleftrightarrow> P x"
  using assms by (auto simp: distinct_map dest: inj_onD)

lemma update_rows_cong: "(\<And>x. x \<in> set rows \<Longrightarrow> P x = Q x) \<Longrightarrow> update_rows P f rows = update_rows Q f rows"
  by (simp add: update_rows_def)

lemma wp_update_hits:
  assumes "distinct (map txn_id (b_transactions (w_tables w)))"
    and "ids = map txn_id (filter H (b_transactions (w_tables w)))"
    and "\<And>w'. w_tables w' = (w_tables w)\<lparr>b_transactions := update_rows H f (b_transactions (w_tables w))\<rparr> \<Longrightarrow>
      Q (Inr ()) w'"
    and "\<And>e w'. Q (Inl e) w'" and "f = update_fields u" "set_notes u = None"
  shows "wp (if set_merchant_name u \<noteq> None \<or> set_recurring u \<noteq> None \<or> set_hidden u \<noteq> None \<or> set_category u \<noteq> None
      then try_bind (update_transaction_fields u ids) (\<lambda>_. ok ()) else ok ()) Q w"
proof (cases "set_merchant_name u \<noteq> None \<or> set_recurring u \<noteq> None \<or> set_hidden u \<noteq> None \<or> set_category u \<noteq> None")
  case True
  have "update_rows (\<lambda>r. txn_id r \<in> set ids) (update_fields u) (b_transactions (w_tables w)) =
      update_rows H f (b_transactions (w_tables w))"
    using hit_ids [OF assms(1), of _ H] by (auto simp: assms(2,5) intro: update_rows_cong)
  with True show ?thesis
    by (auto simp: wp_try_bind update_transaction_fields_def wp_statement Let_def wp_ok
        intro!: assms(3,4))
next
  case False
  with assms(6) have "f = id" by (simp add: assms(5) update_fields_nothing)
  then have "Q (Inr ()) w" by (intro assms(3)) simp
  with False show ?thesis by (simp add: wp_ok)
qed

lemma wp_tag_hits:
  assumes "ids = map txn_id (filter H rows)" "set tag_ids \<subseteq> set (b_tags (w_tables w))"
    and "map txn_id (b_transactions (w_tables w)) = map txn_id rows"
    and "\<And>w' tags. w_tables w' = (w_tables w)\<lparr>b_transaction_tags := tags\<rparr> \<Longrightarrow>
      set tags = set (b_transaction_tags (w_tables w))
        \<union> {(txn_id x, tag) | x tag. x \<in> set rows \<and> H x \<and> tag \<in> set tag_ids} \<Longrightarrow> Q (Inr ()) w'"
    and "\<And>e w'. Q (Inl e) w'"
  shows "wp (if tag_ids \<noteq> [] then add_transaction_tags tag_ids ids else ok ()) Q w"
proof (cases "tag_ids = []")
  case True
  then show ?thesis using assms(4) [of w "b_transaction_tags (w_tables w)"] by (simp add: wp_ok)
next
  case False
  let ?new = "concat (map (\<lambda>r. map (\<lambda>tag. (txn_id r, tag))
      (filter (\<lambda>tag. tag \<in> set tag_ids) (b_tags (w_tables w))))
    (filter (\<lambda>r. txn_id r \<in> set ids) (b_transactions (w_tables w))))"
  have "set ?new = {(i, tag). i \<in> txn_id ` set (b_transactions (w_tables w)) \<and> i \<in> set ids \<and> tag \<in> set tag_ids}"
    using assms(2) by (auto 0 3)
  also have "\<dots> = {(i, tag). i \<in> txn_id ` set (filter H rows) \<and> tag \<in> set tag_ids}"
  proof -
    have "txn_id ` set (b_transactions (w_tables w)) = txn_id ` set rows"
      using assms(3) by (metis set_map)
    then show ?thesis by (auto simp: assms(1))
  qed
  also have "\<dots> = {(txn_id x, tag) | x tag. x \<in> set rows \<and> H x \<and> tag \<in> set tag_ids}"
    by auto
  finally have new: "set ?new = {(txn_id x, tag) | x tag. x \<in> set rows \<and> H x \<and> tag \<in> set tag_ids}" .
  have "Q (Inr ()) (spend_statement w\<lparr>w_tables := (w_tables w)\<lparr>b_transaction_tags :=
      insert_or_ignore ?new (b_transaction_tags (w_tables w))\<rparr>\<rparr>)"
    by (rule assms(4) [where tags = "insert_or_ignore ?new (b_transaction_tags (w_tables w))"])
       (simp_all only: set_insert_or_ignore new, simp)
  with False assms(5) show ?thesis
    by (simp only: add_transaction_tags_def wp_exec if_True simp_thms not_False_eq_True if_False split: if_splits)
qed

lemma wp_apply_retroactively:
  assumes "wf_tx (w_tables w)" "scoped_to (w_tables w) ident (rva_account_ids v)"
    and "set (rch_tag_ids (rva_changes v)) \<subseteq> set (b_tags (w_tables w))"
  shows "wp (apply_retroactively v) (\<lambda>r w'. \<forall>n. r = Inr n \<longrightarrow>
     (if rva_apply_retroactively v
      then n = length (filter (rule_hits (w_tables w) (rule_of_values ident v)) (b_transactions (w_tables w)))
        \<and> retroactively (rule_of_values ident v) (rch_tag_ids (rva_changes v)) (w_tables w) (w_tables w')
      else n = 0 \<and> w_tables w' = w_tables w)) w"
proof (cases "rva_apply_retroactively v")
  case True
  let ?H = "rule_hits (w_tables w) (rule_of_values ident v)" and ?u = "updates_of_changes (rva_changes v)"
  let ?rows = "b_transactions (w_tables w)" and ?tags = "rch_tag_ids (rva_changes v)"
  let ?ids = "map txn_id (filter ?H ?rows)"
  let ?Q = "\<lambda>r w'. \<forall>n. r = Inr n \<longrightarrow> n = length ?ids
    \<and> retroactively (rule_of_values ident v) ?tags (w_tables w) (w_tables w')"
  have dist: "distinct (map txn_id ?rows)" using wf_txD(5) [OF assms(1)] .
  have none: "retroactively (rule_of_values ident v) ?tags (w_tables w) (w_tables w)" if "?ids = []"
  proof -
    have "update_rows ?H f ?rows = ?rows" for f
      using that by (auto simp: update_rows_def filter_empty_conv intro!: map_idI)
    moreover have "{(txn_id x, tag) | x tag. x \<in> set ?rows \<and> ?H x \<and> tag \<in> set ?tags} = {}"
      using that by (auto simp: filter_empty_conv)
    ultimately show ?thesis
      unfolding retroactively_def
      by (intro exI [of _ ?rows] exI [of _ "b_transaction_tags (w_tables w)"]) (simp only: Un_empty_right, simp)
  qed
  have hits: "wp (apply_to_transactions v ?ids) ?Q (spend_statement w)"
    unfolding apply_to_transactions_def Let_def wp_try_bind
  proof (rule wp_update_hits [where H = ?H and f = "rule_effect (rule_of_values ident v)"], goal_cases)
    case (3 w1)
    then have w1: "w_tables w1 = (w_tables w)\<lparr>b_transactions :=
        update_rows ?H (rule_effect (rule_of_values ident v)) ?rows\<rparr>" by simp
    show ?case
      unfolding sum.case
    proof (rule wp_tag_hits [where rows = ?rows and H = ?H], goal_cases)
      case (4 w2 tags)
      then show ?case
        by (simp add: wp_ok w1 retroactively_def) (intro exI conjI; simp)
    qed (use assms(3) w1 in \<open>simp_all add: map_key_update_rows\<close>)
  next
    case 5
    show ?case by (rule rule_effect_updates [symmetric])
  qed (use dist in \<open>simp_all add: updates_of_changes_def\<close>)
  show ?thesis
    using True none hits retroactive_hits [OF assms(2)]
    by (simp add: apply_retroactively_def wp_try_bind retroactive_rule_transaction_ids_def wp_select
        wp_if wp_ok Let_def cong: filter_cong)
qed (simp add: apply_retroactively_def wp_ok)

section \<open>Creating and changing a rule\<close>

lemma wf_rules:
  assumes "wf_tx t" "distinct (map rul_id rs)"
  shows "wf_tx (t\<lparr>b_rules := rs\<rparr>)"
  using assms fk_txn_cong [of "t\<lparr>b_rules := rs\<rparr>" t] fk_account_cong [of "t\<lparr>b_rules := rs\<rparr>" t]
  by (intro wf_txI) (simp_all add: wf_txD)

lemma wf_rule_scope:
  assumes "wf_tx t"
  shows "wf_tx (t\<lparr>b_rule_accounts := as, b_rule_tags := ts\<rparr>)"
  using assms fk_txn_cong [of "t\<lparr>b_rule_accounts := as, b_rule_tags := ts\<rparr>" t]
    fk_account_cong [of "t\<lparr>b_rule_accounts := as, b_rule_tags := ts\<rparr>" t]
  by (intro wf_txI) (simp_all add: wf_txD)

definition rule_applied :: "bool \<Rightarrow> rule_row \<Rightarrow> nat \<Rightarrow> tx_tables \<Rightarrow> tx_tables \<Rightarrow> bool" where
  "rule_applied apply_now rule n t t' \<longleftrightarrow>
     (if apply_now
      then n = length (filter (rule_hits t' rule) (b_transactions t))
        \<and> b_transactions t' = update_rows (rule_hits t' rule) (rule_effect rule) (b_transactions t)
        \<and> (\<forall>txn tag. (txn, tag) \<in> set (b_transaction_tags t') \<longleftrightarrow>
             (txn, tag) \<in> set (b_transaction_tags t)
             \<or> (\<exists>x \<in> set (b_transactions t). txn = txn_id x \<and> rule_hits t' rule x
                  \<and> (rul_id rule, tag) \<in> set (b_rule_tags t')))
      else n = 0 \<and> b_transactions t' = b_transactions t \<and> b_transaction_tags t' = b_transaction_tags t)"

lemma rule_hits_cong: "b_rule_accounts t' = b_rule_accounts t \<Longrightarrow> rule_hits t' = rule_hits t"
  by (simp add: rule_hits_def rule_matches_def rule_account_match_def fun_eq_iff)

lemma retroactively_applied:
  assumes "retroactively rule tag_ids t t'" "tagged t (rul_id rule) tag_ids"
  shows "rule_applied True rule (length (filter (rule_hits t rule) (b_transactions t))) t t' \<and> b_rules t' = b_rules t"
proof -
  obtain rows tags where t': "t' = t\<lparr>b_transactions := rows, b_transaction_tags := tags\<rparr>"
    and rows: "rows = update_rows (rule_hits t rule) (rule_effect rule) (b_transactions t)"
    and tags: "set tags = set (b_transaction_tags t)
      \<union> {(txn_id x, tag) | x tag. x \<in> set (b_transactions t) \<and> rule_hits t rule x \<and> tag \<in> set tag_ids}"
    using assms(1) unfolding retroactively_def by blast
  have hits: "rule_hits t' = rule_hits t" by (rule rule_hits_cong) (simp add: t')
  have "(rul_id rule, tag) \<in> set (b_rule_tags t') \<longleftrightarrow> tag \<in> set tag_ids" for tag
    using assms(2) by (simp add: tagged_def t')
  then show ?thesis
    unfolding rule_applied_def hits using rows tags by (auto simp: t')
qed

lemma wp_store_rule:
  assumes "wf_tx (w_tables w)"
  shows "wp (store_rule ident v) (\<lambda>r w'. \<forall>n. r = Inr n \<longrightarrow> b_rules (w_tables w') = b_rules (w_tables w)
     \<and> rule_applied (rva_apply_retroactively v) (rule_of_values ident v) n (w_tables w) (w_tables w')) w"
proof -
  have applied: "wp (apply_retroactively v) (\<lambda>r w'. \<forall>n. r = Inr n \<longrightarrow> b_rules (w_tables w') = b_rules (w_tables w)
      \<and> rule_applied (rva_apply_retroactively v) (rule_of_values ident v) n (w_tables w) (w_tables w')) w1"
    if w1: "w_tables w1 = (w_tables w)\<lparr>b_rule_accounts := as, b_rule_tags := ts\<rparr>"
      "scoped_to (w_tables w1) ident (rva_account_ids v)"
      "tagged (w_tables w1) ident (rch_tag_ids (rva_changes v))" for w1 as ts
  proof (rule wp_mono [OF wp_apply_retroactively [OF _ w1(2)]])
    show "wf_tx (w_tables w1)" using assms by (simp add: w1(1) wf_rule_scope)
    show "set (rch_tag_ids (rva_changes v)) \<subseteq> set (b_tags (w_tables w1))" using w1(3) by (simp add: tagged_def)
    fix r w'
    have rule: "rul_id (rule_of_values ident v) = ident" by (simp add: rule_of_values_def)
    have same: "b_transactions (w_tables w1) = b_transactions (w_tables w)"
      "b_transaction_tags (w_tables w1) = b_transaction_tags (w_tables w)"
      "b_rules (w_tables w1) = b_rules (w_tables w)" by (simp_all add: w1(1))
    assume "\<forall>n. r = Inr n \<longrightarrow>
       (if rva_apply_retroactively v
        then n = length (filter (rule_hits (w_tables w1) (rule_of_values ident v)) (b_transactions (w_tables w1)))
          \<and> retroactively (rule_of_values ident v) (rch_tag_ids (rva_changes v)) (w_tables w1) (w_tables w')
        else n = 0 \<and> w_tables w' = w_tables w1)"
    then show "\<forall>n. r = Inr n \<longrightarrow> b_rules (w_tables w') = b_rules (w_tables w)
        \<and> rule_applied (rva_apply_retroactively v) (rule_of_values ident v) n (w_tables w) (w_tables w')"
      using retroactively_applied [of "rule_of_values ident v" "rch_tag_ids (rva_changes v)" "w_tables w1" "w_tables w'"]
        w1(3) by (auto simp: rule same rule_applied_def split: if_splits)
  qed
  show ?thesis
    unfolding store_rule_def wp_try_bind
  proof (rule wp_mono [OF wp_replace_rule_accounts], goal_cases)
    case (1 r1 w1)
    show ?case
    proof (cases r1)
      case (Inr u)
      with 1 obtain as where w1: "w_tables w1 = (w_tables w)\<lparr>b_rule_accounts := as\<rparr>"
        "scoped_to (w_tables w1) ident (rva_account_ids v)" by auto
      show ?thesis
        unfolding Inr sum.case wp_try_bind
      proof (rule wp_mono [OF wp_replace_rule_tags], goal_cases)
        case (1 r2 w2)
        show ?case
        proof (cases r2)
          case r2: (Inr u2)
          with 1 obtain tags where w2: "w_tables w2 = (w_tables w1)\<lparr>b_rule_tags := tags\<rparr>"
            "tagged (w_tables w2) ident (rch_tag_ids (rva_changes v))" by auto
          show ?thesis
            unfolding r2 sum.case
            by (rule applied [where as = as and ts = tags]) (use w1 w2 in \<open>simp_all add: scoped_to_def\<close>)
        qed simp
      qed
    qed simp
  qed
qed

lemma filter_key:
  assumes "distinct (map key rows)" "r \<in> set rows"
  shows "filter (\<lambda>x. key x = key r) rows = [r]"
  using assms
proof (induction rows)
  case (Cons x rows)
  show ?case
  proof (cases "x = r")
    case True
    with Cons.prems show ?thesis by (auto simp: filter_empty_conv rev_image_eqI)
  next
    case False
    with Cons show ?thesis by (auto simp: rev_image_eqI)
  qed
qed simp

lemma wp_read_rule:
  assumes "distinct (map rul_id (b_rules (w_tables w)))" "rule \<in> set (b_rules (w_tables w))"
    and "\<And>e w'. Q (Inl e) w'" "\<And>w'. w_tables w' = w_tables w \<Longrightarrow> Q (Inr (rule, n)) w'"
  shows "wp (try_bind (rule_by_id (rul_id rule)) (\<lambda>found.
    try_bind (ok_or message found) (\<lambda>rule. ok (rule, n)))) Q w"
  using filter_key [OF assms(1,2)] assms(3,4)
  by (simp add: wp_try_bind rule_by_id_def wp_select wp_ok_or wp_ok)

lemma filter_update_one:
  assumes "distinct (map key rows)" "r \<in> set rows" "key p = key r"
  shows "p \<in> set (update_rows (\<lambda>x. key x = key p) (\<lambda>_. p) rows)"
  using assms by (auto simp: update_rows_def image_iff)

lemma map_replace_key:
  "key p = k \<Longrightarrow> map key (update_rows (\<lambda>x. key x = k) (\<lambda>_. p) rows) = map key rows"
  by (auto simp: update_rows_def)

lemma rul_id_of_values [simp]: "rul_id (rule_of_values ident v) = ident"
  by (simp add: rule_of_values_def)

text \<open>What a mutation that stores a rule returns, and what it leaves in the tables.\<close>

definition rule_stored ::
    "(tx_tables \<Rightarrow> rule_row \<Rightarrow> rule_row list) \<Rightarrow> rule_values \<Rightarrow> rule_row \<times> nat \<Rightarrow> tx_tables \<Rightarrow> tx_tables \<Rightarrow> bool" where
  "rule_stored rules v = (\<lambda>(rule, n) t t'.
     rule = rule_of_values (rul_id rule) v \<and> b_rules t' = rules t rule
     \<and> rule_applied (rva_apply_retroactively v) rule n t t')"

lemma stored_and_read:
  assumes wf: "wf_tx ((w_tables w)\<lparr>b_rules := rs\<rparr>)" and rule: "rule_of_values ident v \<in> set rs"
    and w1: "w_tables w1 = (w_tables (w :: tx_tables world))\<lparr>b_rules := rs\<rparr>"
    and Q: "\<And>n (w' :: tx_tables world). b_rules (w_tables w') = rs \<Longrightarrow>
      rule_applied (rva_apply_retroactively v) (rule_of_values ident v) n (w_tables w) (w_tables w') \<Longrightarrow> Q n w'"
  shows "wp (store_rule ident v) (\<lambda>r w'. \<forall>n. r = Inr n \<longrightarrow> Q n w') w1"
proof (rule wp_mono [OF wp_store_rule])
  show "wf_tx (w_tables w1)" using wf by (simp add: w1)
  fix r and w' :: "tx_tables world"
  assume stored: "\<forall>n. r = Inr n \<longrightarrow> b_rules (w_tables w') = b_rules (w_tables w1)
     \<and> rule_applied (rva_apply_retroactively v) (rule_of_values ident v) n (w_tables w1) (w_tables w')"
  have "rule_applied b x n (w_tables w1) t' = rule_applied b x n (w_tables w) t'" for b x n t'
    by (simp add: rule_applied_def w1)
  with stored show "\<forall>n. r = Inr n \<longrightarrow> Q n w'" using Q by (simp add: w1)
qed

lemma wp_create_rule:
  assumes wf: "wf_tx (w_tables w)" and v: "values_from_raw x (input\<lparr>raw_id := None\<rparr>) = Inr v"
  shows "wp (create_rule x input) (\<lambda>r w'. \<forall>out. r = Inr out \<longrightarrow>
     rul_id (fst out) \<notin> rul_id ` set (b_rules (w_tables w))
     \<and> rule_stored (\<lambda>t rule. b_rules t @ [rule]) v out (w_tables w) (w_tables w')) w"
proof -
  let ?rows = "b_rules (w_tables w)" and ?ident = "next_id (map rul_id (b_rules (w_tables w)))"
  let ?rule = "rule_of_values ?ident v"
  let ?P = "\<lambda>n w'. b_rules (w_tables w') = ?rows @ [?rule]
    \<and> rule_applied (rva_apply_retroactively v) ?rule n (w_tables w) (w_tables w')"
  have wf': "wf_tx ((w_tables w)\<lparr>b_rules := ?rows @ [?rule]\<rparr>)"
    using wf next_id_fresh [of "map rul_id ?rows"] by (intro wf_rules) (auto simp: wf_txD)
  have renumber: "(rule_of_values 0 v)\<lparr>rul_id := i\<rparr> = rule_of_values i v" for i
    by (simp add: rule_of_values_def)
  have read: "wp (try_bind (rule_by_id ?ident) (\<lambda>found.
      try_bind (ok_or ''newly created rule must be readable'' found) (\<lambda>rule. ok (rule, n))))
    (\<lambda>r w'. \<forall>out. r = Inr out \<longrightarrow> rul_id (fst out) \<notin> rul_id ` set ?rows
      \<and> rule_stored (\<lambda>t rule. b_rules t @ [rule]) v out (w_tables w) (w_tables w')) w1" if "?P n w1" for n w1
    using that wf_txD(8) [OF wf'] next_id_fresh [of "map rul_id ?rows"]
    by (intro wp_read_rule [where rule = ?rule, simplified rul_id_of_values]) (auto simp: rule_stored_def)
  have "wp (try_bind (create_rule_row (rule_of_values 0 v)) (\<lambda>ident. try_bind (store_rule ident v) (\<lambda>updated.
      ok (ident, updated))))
    (\<lambda>r w'. \<forall>i n. r = Inr (i, n) \<longrightarrow> i = ?ident \<and> ?P n w') (spend_statement w)"
    unfolding wp_try_bind create_rule_row_def wp_statement
    using stored_and_read [OF wf', of ?ident v _ ?P]
    by (auto simp: Let_def renumber wp_ok intro!: wp_mono [OF stored_and_read [OF wf', of ?ident v _ ?P]] split: sum.splits)
  then have "wp (with_tx (try_bind (create_rule_row (rule_of_values 0 v)) (\<lambda>ident. try_bind (store_rule ident v) (\<lambda>updated.
      ok (ident, updated)))))
    (\<lambda>r w'. \<forall>i n. r = Inr (i, n) \<longrightarrow> i = ?ident \<and> ?P n w') w"
    by (intro wp_with_txI) (auto elim!: wp_mono)
  then show ?thesis
    unfolding create_rule_def v sum.case wp_try_bind
    by (rule wp_mono) (use read in \<open>auto split: sum.splits\<close>)
qed

lemma wp_update_rule:
  assumes wf: "wf_tx (w_tables w)" and ident: "local_id x rule_id Rule = Inr ident"
    and v: "values_from_raw x (input\<lparr>raw_id := Some ident\<rparr>) = Inr v"
  shows "wp (update_rule x rule_id input) (\<lambda>r w'. \<forall>out. r = Inr out \<longrightarrow>
     rul_id (fst out) = ident \<and> ident \<in> rul_id ` set (b_rules (w_tables w))
     \<and> rule_stored (\<lambda>t rule. update_rows (\<lambda>r. rul_id r = rul_id rule) (\<lambda>_. rule) (b_rules t)) v out
         (w_tables w) (w_tables w')) w"
proof -
  let ?rows = "b_rules (w_tables w)" and ?rule = "rule_of_values ident v"
  let ?new = "update_rows (\<lambda>r. rul_id r = ident) (\<lambda>_. ?rule) ?rows"
  let ?P = "\<lambda>n w'. b_rules (w_tables w') = ?new \<and> ident \<in> rul_id ` set ?rows
    \<and> rule_applied (rva_apply_retroactively v) ?rule n (w_tables w) (w_tables w')"
  have wf': "wf_tx ((w_tables w)\<lparr>b_rules := ?new\<rparr>)"
    using wf by (intro wf_rules) (simp_all add: wf_txD map_replace_key)
  have there: "?rule \<in> set ?new" if "ident \<in> rul_id ` set ?rows"
    using that filter_update_one [OF wf_txD(8) [OF wf], of _ ?rule] by (auto simp: image_iff)
  have read: "wp (try_bind (rule_by_id ident) (\<lambda>found.
      try_bind (ok_or ''updated rule must be readable'' found) (\<lambda>rule. ok (rule, n))))
    (\<lambda>r w'. \<forall>out. r = Inr out \<longrightarrow> rul_id (fst out) = ident \<and> ident \<in> rul_id ` set ?rows
      \<and> rule_stored (\<lambda>t rule. update_rows (\<lambda>r. rul_id r = rul_id rule) (\<lambda>_. rule) (b_rules t)) v out
          (w_tables w) (w_tables w')) w1" if "?P n w1" for n w1
    using that wf_txD(8) [OF wf'] there
    by (intro wp_read_rule [where rule = ?rule, simplified rul_id_of_values]) (auto simp: rule_stored_def)
  have count: "count_rows (\<lambda>r. rul_id r = ident) ?rows = 0 \<longleftrightarrow> ident \<notin> rul_id ` set ?rows"
    by (auto simp: count_rows_def filter_empty_conv)
  have "wp (try_bind (update_rule_row ?rule) (\<lambda>rows.
      if rows = 0 then err (Msg (''rule '' @ show_int ident @ '' not found'')) else store_rule ident v))
    (\<lambda>r w'. \<forall>n. r = Inr n \<longrightarrow> ?P n w') (spend_statement w)"
    unfolding wp_try_bind update_rule_row_def wp_statement
    using stored_and_read [OF wf', of ident v _ ?P] there
    by (auto simp: Let_def wp_if wp_err count intro!: wp_mono [OF stored_and_read [OF wf', of ident v _ ?P]] split: sum.splits)
  then have "wp (with_tx (try_bind (update_rule_row ?rule) (\<lambda>rows.
      if rows = 0 then err (Msg (''rule '' @ show_int ident @ '' not found'')) else store_rule ident v)))
    (\<lambda>r w'. \<forall>n. r = Inr n \<longrightarrow> ?P n w') w"
    by (intro wp_with_txI) (auto elim!: wp_mono)
  then show ?thesis
    unfolding update_rule_def ident v sum.case wp_try_bind
    by (rule wp_mono) (use read [unfolded wp_try_bind] in \<open>simp split: sum.splits\<close>)
qed

section \<open>What a rule does to a transaction that arrives\<close>

text \<open>The best rule is the one of the highest priority, the youngest among equals.\<close>

definition outranks :: "rule_row \<Rightarrow> rule_row \<Rightarrow> bool" where
  "outranks r r' \<longleftrightarrow>
     rul_priority r' < rul_priority r \<or> rul_priority r' = rul_priority r \<and> rul_id r' \<le> rul_id r"

lemma hd_sort_key: "hd_opt = (case sort_key f rows of [] \<Rightarrow> None | r # _ \<Rightarrow> Some r) \<Longrightarrow>
    (hd_opt = None \<longleftrightarrow> rows = []) \<and> (\<forall>r. hd_opt = Some r \<longrightarrow> r \<in> set rows \<and> (\<forall>x \<in> set rows. f r \<le> f x))"
proof (cases "sort_key f rows")
  case (Cons r rs)
  have "set (sort_key f rows) = set rows" "sorted (map f (sort_key f rows))" by simp_all
  moreover assume "hd_opt = (case sort_key f rows of [] \<Rightarrow> None | r # _ \<Rightarrow> Some r)"
  ultimately show ?thesis using Cons by auto
qed (metis list.simps(4) option.distinct(1) set_empty set_sort)

lemma best_rule_iff:
  assumes "wf_tx t"
  shows "best_rule t m o' a acc = Some r \<longleftrightarrow>
    r \<in> set (b_rules t) \<and> rule_matches t m o' a acc r
    \<and> (\<forall>x \<in> set (b_rules t). rule_matches t m o' a acc x \<longrightarrow> outranks r x)"
    and "best_rule t m o' a acc = None \<longleftrightarrow> (\<forall>x \<in> set (b_rules t). \<not> rule_matches t m o' a acc x)"
proof -
  let ?rows = "filter (rule_matches t m o' a acc) (b_rules t)"
  have le: "(- rul_priority r, - rul_id r) \<le> (- rul_priority x, - rul_id x) \<longleftrightarrow> outranks r x" for r x
    by (auto simp: outranks_def)
  note best = hd_sort_key [OF best_rule_def [of t m o' a acc], unfolded le]
  show "best_rule t m o' a acc = None \<longleftrightarrow> (\<forall>x \<in> set (b_rules t). \<not> rule_matches t m o' a acc x)"
    using best by (simp add: filter_empty_conv)
  have unique: "r = x" if "outranks r x" "outranks x r" "r \<in> set (b_rules t)" "x \<in> set (b_rules t)" for r x
    using that wf_txD(8) [OF assms] by (auto simp: outranks_def distinct_map dest: inj_onD)
  show "best_rule t m o' a acc = Some r \<longleftrightarrow>
    r \<in> set (b_rules t) \<and> rule_matches t m o' a acc r
    \<and> (\<forall>x \<in> set (b_rules t). rule_matches t m o' a acc x \<longrightarrow> outranks r x)"
    using best unique by (cases "best_rule t m o' a acc") (auto simp: filter_empty_conv)
qed

text \<open>The tags of a rule survive being read as one text.\<close>

definition tags_of_rule :: "tx_tables \<Rightarrow> rule_row \<Rightarrow> int list" where
  "tags_of_rule t r = map snd (filter (\<lambda>(rule, tag). rule = rul_id r) (b_rule_tags t))"

lemma parse_all_show: "\<forall>i \<in> set is. in_i64 i \<Longrightarrow> parse_all (map show_int is) = Some is"
  by (induction "is") (simp_all add: parse_show_int)

lemma parse_rule_tags:
  assumes "\<forall>(rule, tag) \<in> set (b_rule_tags t). in_i64 tag"
  shows "parse_tag_ids (rule_tag_text t r) = Some (tags_of_rule t r)"
proof -
  have joined: "rule_tag_text t r = join '','' (map show_int (tags_of_rule t r))"
    by (simp add: rule_tag_text_def tags_of_rule_def comp_def case_prod_unfold)
  have "filter (\<lambda>ident. ident \<noteq> '''') (split_at (CHR '','') (join '','' (map show_int ids))) = map show_int ids" for ids
    by (cases "ids = []") (auto simp: split_at_join show_int_plain filter_id_conv)
  moreover have "\<forall>i \<in> set (tags_of_rule t r). in_i64 i" using assms by (auto simp: tags_of_rule_def)
  ultimately show ?thesis by (simp add: parse_tag_ids_def joined parse_all_show)
qed

definition actions_of :: "tx_tables \<Rightarrow> rule_row \<Rightarrow> auto_category" where
  "actions_of t r =
     \<lparr>aut_category_id = rul_category_id r, aut_merchant_name = rul_merchant_name r,
      aut_tag_ids = tags_of_rule t r, aut_should_hide = rul_should_hide r,
      aut_should_be_recurring = rul_should_be_recurring r, aut_from_pfc2 = False\<rparr>"

lemma wp_auto_categorization:
  assumes "\<forall>(rule, tag) \<in> set (b_rule_tags (w_tables w)). in_i64 tag"
  shows "wp (auto_categorization_result m o' a acc) (\<lambda>r w'. w_tables w' = w_tables w \<and> (\<forall>c. r = Inr c \<longrightarrow>
    (let original = (case o' of Some s \<Rightarrow> s | None \<Rightarrow> ''''); merchant = (case m of Some s \<Rightarrow> s | None \<Rightarrow> original)
     in c = (case best_rule (w_tables w) merchant original a acc of
               None \<Rightarrow> no_category | Some rule \<Rightarrow> actions_of (w_tables w) rule))) \<and> (\<forall>e. r = Inl e \<longrightarrow> e = DbFault)) w"
  unfolding auto_categorization_result_def auto_rule_result_def Let_def wp_try_bind wp_select
  by (auto simp: wp_rules parse_rule_tags [OF assms] ok_or_def actions_of_def split: option.splits)

section \<open>Properties\<close>

text \<open>C34: When a rule is created, a new row holds it as the input says, the other rules stay, and if
  the input asks for it the rule is applied to exactly those stored transactions that it would be
  chosen from for a transaction with the same names, amount and account that arrives: each of them takes
  the fields the rule sets and the tags stored with the rule, no other transaction changes, and the
  number reported is their number.\<close>

theorem created_rule_applied:
  assumes "run_state (create_rule x input) w = (Inr (rule, n), w')" and "wf_tx (w_tables w)"
  shows "\<exists>v. values_from_raw x (input\<lparr>raw_id := None\<rparr>) = Inr v
    \<and> rule = rule_of_values (rul_id rule) v \<and> rul_id rule \<notin> rul_id ` set (b_rules (w_tables w))
    \<and> b_rules (w_tables w') = b_rules (w_tables w) @ [rule]
    \<and> rule_applied (rva_apply_retroactively v) rule n (w_tables w) (w_tables w')"
proof (cases "values_from_raw x (input\<lparr>raw_id := None\<rparr>)")
  case (Inl e)
  with assms(1) show ?thesis by (auto dest: wp_run simp: create_rule_def wp_rules)
next
  case (Inr v)
  with wp_run [OF assms(1) wp_create_rule [OF assms(2) Inr]] show ?thesis
    by (auto simp: rule_stored_def)
qed

text \<open>Changing a rule replaces its row, and only its row, by what the input says, and applies it
  to the stored transactions in the same way; an identifier no rule has is refused.\<close>

theorem updated_rule_applied:
  assumes "run_state (update_rule x rule_id input) w = (Inr (rule, n), w')" and "wf_tx (w_tables w)"
  shows "\<exists>v ident. local_id x rule_id Rule = Inr ident \<and> values_from_raw x (input\<lparr>raw_id := Some ident\<rparr>) = Inr v
    \<and> rule = rule_of_values ident v \<and> ident \<in> rul_id ` set (b_rules (w_tables w))
    \<and> b_rules (w_tables w') = update_rows (\<lambda>r. rul_id r = ident) (\<lambda>_. rule) (b_rules (w_tables w))
    \<and> rule_applied (rva_apply_retroactively v) rule n (w_tables w) (w_tables w')"
proof -
  obtain ident v where v: "local_id x rule_id Rule = Inr ident" "values_from_raw x (input\<lparr>raw_id := Some ident\<rparr>) = Inr v"
    using assms(1) by (auto simp: update_rule_def err_def split: sum.splits)
  show ?thesis
    using wp_run [OF assms(1) wp_update_rule [OF assms(2) v]] v by (auto simp: rule_stored_def)
qed

text \<open>C35: What categorization says of a transaction is decided by one rule: among the rules that match
  its names, its amount and its account, the one of the highest priority, and the youngest among equals.
  Every action of that rule is taken over, all its tags included, although they are read as one text;
  without a matching rule nothing is set, and only the database can make it fail.\<close>

theorem categorization_follows_best_rule:
  assumes "run_state (auto_categorization_result merchant original amount account) w = (result, w')"
    and "wf_tx (w_tables w)" and "\<forall>(rule, tag) \<in> set (b_rule_tags (w_tables w)). in_i64 tag"
    and "m = (case merchant of None \<Rightarrow> o' | Some s \<Rightarrow> s)" and "o' = (case original of None \<Rightarrow> '''' | Some s \<Rightarrow> s)"
  shows "w_tables w' = w_tables w \<and>
    (case result of
       Inl e \<Rightarrow> e = DbFault
     | Inr c \<Rightarrow>
        (let rules = {r \<in> set (b_rules (w_tables w)). rule_matches (w_tables w) m o' amount account r}
         in if rules = {} then c = no_category
            else \<exists>r \<in> rules. (\<forall>x \<in> rules. outranks r x) \<and> c = actions_of (w_tables w) r))"
proof -
  have "w_tables w' = w_tables w" "\<forall>e. result = Inl e \<longrightarrow> e = DbFault"
    "\<forall>c. result = Inr c \<longrightarrow> c = (case best_rule (w_tables w) m o' amount account of
        None \<Rightarrow> no_category | Some rule \<Rightarrow> actions_of (w_tables w) rule)"
    using wp_run [OF assms(1) wp_auto_categorization [OF assms(3)]] unfolding assms(4,5) Let_def by blast+
  then show ?thesis
    using best_rule_iff [OF assms(2), of m o' amount account]
    by (cases "best_rule (w_tables w) m o' amount account") (fastforce simp: Let_def split: sum.splits)+
qed

end
