(* ===== verification/Tx_Scenario.thy ===== *)
theory Tx_Scenario
  imports Tx_Rule_Laws
begin

text \<open>
  A small household, on which the properties of the transaction component are applied: one account,
  a reviewed transaction with a tag and notes, one that nobody has looked at yet, and a rule.
\<close>

definition demo_account :: account_row where
  "demo_account = \<lparr>acc_id = 3, acc_external_id = ''a1'', acc_connection_id = Some 2, acc_owner_id = 1,
     acc_name = ''Checking'', acc_type = ''DEPOSITORY'', acc_subtype = None, acc_mask = None,
     acc_notes = None, acc_is_closed = False, acc_is_hidden = False, acc_needs_review = False,
     acc_review_reason = None, acc_manual = False\<rparr>"

definition demo_txn :: "int \<Rightarrow> string \<Rightarrow> string \<Rightarrow> bool \<Rightarrow> txn_row" where
  "demo_txn ident external_id name reviewed =
     \<lparr>txn_id = ident, txn_source = ''plaid'', txn_external_id = external_id, txn_account_id = 3,
      txn_amount_cents = 450, txn_datetime = 1000, txn_posted_datetime = 1000,
      txn_merchant_name = Some name, txn_original_name = Some name, txn_logo_url = None,
      txn_category_id = (if reviewed then 7 else 0), txn_is_reviewed = reviewed,
      txn_is_recurring = False, txn_is_hidden = reviewed, txn_pending = False,
      txn_notes = (if reviewed then Some ''mine'' else None), txn_plaid_category = None,
      txn_raw_provider_json = None, txn_staged_for_llm = False, txn_pfc2_categorized = False\<rparr>"

definition demo_rule :: rule_row where
  "demo_rule = \<lparr>rul_id = 4, rul_merchant_pattern = ''tea'', rul_original_pattern = '''',
     rul_merchant_name = None, rul_category_id = Some 7, rul_should_hide = None,
     rul_should_be_recurring = None, rul_amount_min_cents = None, rul_amount_max_cents = None,
     rul_priority = 1\<rparr>"

definition demo_tx :: tx_tables where
  "demo_tx = \<lparr>b_owners = [\<lparr>own_id = 1, own_name = ''Ann''\<rparr>],
     b_connections = [\<lparr>con_id = 2, con_source_table = ''plaid_items'', con_source_id = 9,
       con_name = Some ''Bank'', con_owner_id = 1, con_is_active = True\<rparr>],
     b_accounts = [demo_account],
     b_categories = [\<lparr>cat_id = 0, cat_name = ''Uncategorized'', cat_kind = ''EXPENSE''\<rparr>, \<lparr>cat_id = 7, cat_name = ''Food'', cat_kind = ''EXPENSE''\<rparr>],
     b_tags = [5], b_transactions = [demo_txn 1 ''t1'' ''Tea'' True, demo_txn 2 ''t2'' ''Coffee'' False],
     b_transaction_tags = [(1, 5)], b_rules = [demo_rule], b_rule_accounts = [], b_rule_tags = [(4, 5)],
     b_mappings = [], b_charges = [], b_charge_transactions = [], b_credentials = [],
     b_items = [\<lparr>pit_id = 9, pit_access_token = ''k'', pit_credential_id = 1, pit_cursor = None,
       pit_last_synced_at = None, pit_next_sync_at = None, pit_next_recurring_sync_at = None,
       pit_sync_cron = '''', pit_recurring_sync_cron = '''', pit_investments_enabled = False,
       pit_logo_url = None, pit_health_state = ''HEALTHY'', pit_health_error_code = None\<rparr>],
     b_sync_log = [], b_sf_tokens = [], b_sf_connections = [], b_sf_log = []\<rparr>"

definition tx_world :: "tx_tables world" where
  "tx_world = \<lparr>w_clock = (\<lambda>n. 2000 * nanos), w_reads = 0, w_entropy = (\<lambda>n k. ''''), w_draws = 0,
     w_faults = (\<lambda>n. False), w_queries = 0, w_tables = demo_tx\<rparr>"

lemma wf_demo_tx: "wf_tx (w_tables tx_world)"
  by code_simp

lemma run_pair: "fst (run_state m w) = r \<Longrightarrow> run_state m w = (r, snd (run_state m w))"
  by (simp add: prod_eq_iff)

section \<open>A page of events\<close>

definition demo_synced :: "string \<Rightarrow> string \<Rightarrow> synced_transaction" where
  "demo_synced external_id name =
     \<lparr>syn_external_id = external_id, syn_account_id = ''a1'', syn_amount = 470,
      syn_datetime = 1500 * nanos, syn_posted_datetime = 1500 * nanos, syn_merchant_name = Some name,
      syn_original_name = None, syn_logo_url = None, syn_plaid_category = None,
      syn_raw_provider_json = None, syn_source = Plaid_Source, syn_pending = False,
      syn_hidden_by_account = False, syn_stage_for_llm = False\<rparr>"

definition demo_page :: "persist_event list" where
  "demo_page = [Removal \<lparr>rem_external_id = ''t2'', rem_source = Plaid_Source\<rparr>,
     Upsert (demo_synced ''t1'' ''Tea''), Upsert (demo_synced ''t3'' ''Green tea'')]"

lemma sync_keeps_decisions_witness:
  "let t' = w_tables (snd (run_state (persist True demo_page) tx_world))
   in wf_tx t' \<and> rows_kept (removed_keys demo_page) demo_tx t'
      \<and> map txn_external_id (b_transactions t') = [''t1'', ''t3'']
      \<and> map txn_notes (b_transactions t') = [Some ''mine'', None]"
proof -
  have "w_tables tx_world = demo_tx" by (simp add: tx_world_def)
  moreover have "map txn_external_id (b_transactions (w_tables (snd (run_state (persist True demo_page) tx_world))))
      = [''t1'', ''t3'']
    \<and> map txn_notes (b_transactions (w_tables (snd (run_state (persist True demo_page) tx_world)))) = [Some ''mine'', None]"
    by code_simp
  ultimately show ?thesis
    using sync_keeps_decisions [OF prod.collapse [symmetric] wf_demo_tx, of True demo_page] by (simp add: Let_def)
qed

section \<open>Rules\<close>

definition no_base64 :: base64 where
  "no_base64 = \<lparr>x_b64_encode = rev, x_b64_decode = (\<lambda>s. Some (rev s))\<rparr>"

definition demo_raw :: rule_raw where
  "demo_raw = \<lparr>raw_id = None, raw_merchant_pattern = Some ''coffee'', raw_original_pattern = None,
     raw_amount_min = Some 100, raw_amount_max = None, raw_account_ids = None, raw_priority = None,
     raw_apply_retroactively = Some True,
     raw_updates = \<lparr>upd_merchant_name = None, upd_notes = None, upd_is_recurring = None,
       upd_is_hidden = Some True, upd_category_id = None, upd_tag_ids = None\<rparr>\<rparr>"

definition demo_values :: "int option \<Rightarrow> rule_values" where
  "demo_values ident = \<lparr>rva_id = ident, rva_merchant_pattern = ''coffee'', rva_original_pattern = '''',
     rva_amount_min = Some 100, rva_amount_max = None, rva_account_ids = [], rva_priority = 0,
     rva_apply_retroactively = True,
     rva_changes = \<lparr>rch_category_id = None, rch_merchant_name = None, rch_tag_ids = [],
       rch_should_hide = Some True, rch_should_be_recurring = None\<rparr>\<rparr>"

lemma trimmed_coffee: "trimmed (Some ''coffee'') = Some ''coffee''"
  by (simp add: trimmed_def trim_printable printable_def)

lemma values_demo: "values_from_raw no_base64 (demo_raw\<lparr>raw_id := ident\<rparr>) = Inr (demo_values ident)"
  by (simp add: values_from_raw_def demo_raw_def demo_values_def trimmed_coffee changes_from_updates_def
      local_ids_def has_action_def unwrap_or_default_def) (simp add: trimmed_def)

lemma created_rule_applied_witness:
  "\<exists>w'. run_state (create_rule no_base64 demo_raw) tx_world = (Inr (rule_of_values 5 (demo_values None), 1), w')
     \<and> b_rules (w_tables w') = [demo_rule, rule_of_values 5 (demo_values None)]
     \<and> rule_applied True (rule_of_values 5 (demo_values None)) 1 demo_tx (w_tables w')"
proof -
  have "fst (run_state (create_rule no_base64 demo_raw) tx_world) = Inr (rule_of_values 5 (demo_values None), 1)"
    unfolding create_rule_def values_demo sum.case by code_simp
  note run = run_pair [OF this]
  have "b_rules (w_tables tx_world) = [demo_rule]" "w_tables tx_world = demo_tx"
    by (simp_all add: tx_world_def demo_tx_def)
  with created_rule_applied [OF run wf_demo_tx] run show ?thesis
    by (auto simp: values_demo demo_values_def)
qed

definition rule_four :: string where
  "rule_four = ''4:eluR:1v''"

lemma rule_four_id: "local_id no_base64 rule_four Rule = Inr 4"
proof -
  let ?g = "\<lparr>gid_typ = Rule, gid_id = 4\<rparr>"
  have law: "base64_law no_base64" by (simp add: base64_law_def no_base64_def)
  have "encoded_string no_base64 ?g = rule_four" by code_simp
  with decode_encoded [OF law, of ?g] have "decode_global_id no_base64 rule_four = Inr ?g" by metis
  then show ?thesis by (simp add: local_id_def i64_of_type_def)
qed

lemma updated_rule_applied_witness:
  "\<exists>w'. run_state (update_rule no_base64 rule_four demo_raw) tx_world
         = (Inr (rule_of_values 4 (demo_values (Some 4)), 1), w')
     \<and> b_rules (w_tables w') = [rule_of_values 4 (demo_values (Some 4))]
     \<and> rule_applied True (rule_of_values 4 (demo_values (Some 4))) 1 demo_tx (w_tables w')"
proof -
  have "fst (run_state (update_rule no_base64 rule_four demo_raw) tx_world)
      = Inr (rule_of_values 4 (demo_values (Some 4)), 1)"
    unfolding update_rule_def rule_four_id values_demo sum.case by code_simp
  note run = run_pair [OF this]
  have "b_rules (w_tables tx_world) = [demo_rule]" "w_tables tx_world = demo_tx" "rul_id demo_rule = 4"
    by (simp_all add: tx_world_def demo_tx_def demo_rule_def)
  with updated_rule_applied [OF run wf_demo_tx] run rule_four_id show ?thesis
    by (auto simp: values_demo demo_values_def update_rows_def)
qed

lemma categorization_follows_best_rule_witness:
  "\<exists>w'. run_state (auto_categorization_result (Some ''Green tea'') None 470 3) tx_world = (Inr (actions_of demo_tx demo_rule), w')
     \<and> w_tables w' = demo_tx"
proof -
  let ?out = "run_state (auto_categorization_result (Some ''Green tea'') None 470 3) tx_world"
  have run: "?out = (fst ?out, snd ?out)" by simp
  have tags: "\<forall>(rule, tag) \<in> set (b_rule_tags (w_tables tx_world)). in_i64 tag"
    by (simp add: tx_world_def demo_tx_def in_i64_def i64_min_def i64_max_def)
  have "{r \<in> set (b_rules (w_tables tx_world)). rule_matches (w_tables tx_world) ''Green tea'' '''' 470 3 r} = {demo_rule}"
  proof -
    have "rule_matches demo_tx ''Green tea'' '''' 470 3 demo_rule" by code_simp
    moreover have "b_rules demo_tx = [demo_rule]" by (simp add: demo_tx_def)
    ultimately show ?thesis by (auto simp: tx_world_def)
  qed
  moreover have "\<exists>c. fst ?out = Inr c"
  proof -
    have "isl (fst ?out) = False" by code_simp
    then show ?thesis by (cases "fst ?out") simp_all
  qed
  ultimately show ?thesis
    using categorization_follows_best_rule [OF run wf_demo_tx tags, of "''Green tea''" "''''"]
    by (cases ?out) (auto simp: Let_def tx_world_def)
qed

end
