(* ===== verification/Plaid_Scenario.thy ===== *)
theory Plaid_Scenario
  imports Plaid_Laws Plaid_Replay Tx_Scenario
begin

text \<open>
  A Plaid item that is synchronized: Plaid has a page and more of them, refuses the next request
  because its data changed, and then has a last page.
\<close>

definition demo_crates :: crates where
  "demo_crates = \<lparr>x_dollars = Some, x_parse_date = (\<lambda>_. Some 5), x_transaction_json = (\<lambda>_. Some ''{}''),
     x_transactions_json = (\<lambda>_. Some ''[]''), x_removed_json = (\<lambda>_. Some ''[]''),
     x_investment_json = (\<lambda>_. Some ''{}''), x_investments_json = (\<lambda>_. Some ''[]''),
     x_texts_json = (\<lambda>_. Some ''[]''), x_host = (\<lambda>_. None), x_next_occurrence = (\<lambda>_ n. Some (n + nanos)),
     x_first_upper = (\<lambda>s. s)\<rparr>"

definition demo_ptr :: "string \<Rightarrow> string \<Rightarrow> plaid_transaction" where
  "demo_ptr external_id name =
     \<lparr>ptr_transaction_id = external_id, ptr_account_id = ''a1'', ptr_amount = 470, ptr_date = '''',
      ptr_name = name, ptr_merchant_name = None, ptr_original_description = None, ptr_logo_url = None,
      ptr_authorized_date = None, ptr_authorized_datetime = None, ptr_datetime = None, ptr_category = [],
      ptr_personal_finance_category = None, ptr_counterparties = None, ptr_pending = False, ptr_extra = ''''\<rparr>"

definition demo_sync :: "nat \<Rightarrow> string \<Rightarrow> api_error + sync_response" where
  "demo_sync n cursor =
     (if n = 0 then Inr \<lparr>rsp_added = [demo_ptr ''t3'' ''Green tea''], rsp_modified = [demo_ptr ''t1'' ''Tea''],
          rsp_removed = [], rsp_next_cursor = ''c1'', rsp_has_more = True\<rparr>
      else if n = 1 then Inl (Api_Error (Some PAGINATION_MUTATION))
      else Inr \<lparr>rsp_added = [], rsp_modified = [],
          rsp_removed = [\<lparr>prm_transaction_id = Some ''t2'', prm_extra = ''''\<rparr>],
          rsp_next_cursor = cursor @ ''c2'', rsp_has_more = False\<rparr>)"

definition demo_api :: plaid_api where
  "demo_api = \<lparr>a_accounts = (\<lambda>_ _. Inl Request_Error), a_sync = (\<lambda>_ n _ cursor. demo_sync n cursor),
     a_investments = (\<lambda>_ _ _ _ _ _ _. Inl Request_Error), a_recurring = (\<lambda>_ _ _. Inl Request_Error)\<rparr>"

definition demo_client :: plaid_client where
  "demo_client = \<lparr>cli_client_id = '''', cli_secret = '''', cli_environment = Sandbox\<rparr>"

definition demo_pages :: "item_counts tx_run" where
  "demo_pages = sync_pages demo_crates demo_api demo_client (\<lambda>_. True) 5 (hd (b_items demo_tx)) [] 2 []"

definition after_pages :: "(error + item_counts outcome) \<times> tx_tables" where
  "after_pages = (case run_state demo_pages tx_world of (r, w) \<Rightarrow> (r, w_tables w))"

lemma after_pages:
  "fst after_pages = Inr (Done \<lparr>cnt_accounts_upserted = 0, cnt_added = 1, cnt_modified = 1, cnt_removed = 1\<rparr>)"
  "stored_cursor (snd after_pages) 9 = Some ''c1c2''"
  "map txn_external_id (b_transactions (snd after_pages)) = [''t1'', ''t3'']"
  by code_simp+

lemma demo_dry: "runs_dry demo_api demo_client 2"
  by (auto simp: runs_dry_def demo_api_def demo_sync_def)

lemma sync_pages_terminates_witness: "fst (run_state demo_pages tx_world) \<noteq> Inr Unfinished"
  unfolding demo_pages_def
  by (rule sync_pages_terminates [OF demo_dry _ prod.collapse [symmetric]])
     (simp add: MAX_SYNC_PAGINATION_RESTARTS_def)

lemma cursor_never_ahead_witness:
  "stored_cursor (snd after_pages) 9 = Some ''c1c2''
   \<and> (\<exists>hidden. caught_up (feeds demo_crates demo_api demo_client ''k'' [] hidden []) 9
        (start_position demo_tx 9) True (snd after_pages))"
proof -
  have tables: "w_tables tx_world = demo_tx" by (simp add: tx_world_def)
  have item: "pit_id (hd (b_items demo_tx)) = 9" "pit_access_token (hd (b_items demo_tx)) = ''k''"
    by (simp_all add: demo_tx_def)
  have "pit_id (hd (b_items demo_tx)) \<in> pit_id ` set (b_items (w_tables tx_world))"
    by (simp add: tables demo_tx_def)
  from cursor_never_ahead [OF prod.collapse [symmetric] this, where x = demo_crates and api = demo_api
      and client = demo_client and stage = "\<lambda>_. True" and fuel = 5 and drafts = "[]" and connection_id = 2
      and investments = "[]"]
  obtain hidden where "caught_up (feeds demo_crates demo_api demo_client ''k'' [] hidden []) 9
      (start_position demo_tx 9) (\<exists>counts. fst (run_state demo_pages tx_world) = Inr (Done counts))
      (w_tables (snd (run_state demo_pages tx_world)))"
    unfolding item tables demo_pages_def [symmetric] by blast
  moreover have run: "fst after_pages = fst (run_state demo_pages tx_world)"
    "snd after_pages = w_tables (snd (run_state demo_pages tx_world))"
    by (simp_all add: after_pages_def split: prod.splits)
  moreover have "\<exists>counts. fst (run_state demo_pages tx_world) = Inr (Done counts)"
    using after_pages(1) unfolding run(1) by blast
  ultimately have "caught_up (feeds demo_crates demo_api demo_client ''k'' [] hidden []) 9
      (start_position demo_tx 9) True (snd after_pages)"
    by simp
  with after_pages(2) show ?thesis by blast
qed

section \<open>A page given twice\<close>

definition demo_draft :: account_draft where
  "demo_draft = \<lparr>dra_external_id = ''a1'', dra_connection_id = 2, dra_owner_id = 1, dra_name = ''Checking'',
     dra_account_type = Depository, dra_subtype = Some ''checking'', dra_mask = None, dra_needs_review = False\<rparr>"

definition demo_response :: sync_response where
  "demo_response = \<lparr>rsp_added = [demo_ptr ''t3'' ''Green tea''], rsp_modified = [demo_ptr ''t1'' ''Tea''],
     rsp_removed = [\<lparr>prm_transaction_id = Some ''t2'', prm_extra = ''''\<rparr>], rsp_next_cursor = ''c1'',
     rsp_has_more = False\<rparr>"

definition demo_events :: "persist_event list" where
  "demo_events = (case page_events demo_crates [] [] demo_response of Inr es \<Rightarrow> es | Inl _ \<Rightarrow> [])"

abbreviation stored_once :: "(error + item_counts) \<times> tx_tables world" where
  "stored_once \<equiv> run_state (persist True (map AccountUpsert [demo_draft] @ demo_events)) tx_world"

lemma page_replay_harmless_witness:
  "map txn_external_id (b_transactions (w_tables (snd stored_once))) = [''t1'', ''t3'']
   \<and> w_tables (snd (run_state (persist True (map AccountUpsert [demo_draft] @ demo_events)) (snd stored_once)))
     = w_tables (snd stored_once)"
proof
  show "map txn_external_id (b_transactions (w_tables (snd stored_once))) = [''t1'', ''t3'']"
    by code_simp
  have events: "page_events demo_crates [] [] demo_response = Inr demo_events"
    by code_simp
  have names: "distinct (map ptr_transaction_id (rsp_added demo_response @ rsp_modified demo_response)
      @ List.map_filter prm_transaction_id (rsp_removed demo_response))"
    by code_simp
  have "fst stored_once
      = Inr \<lparr>cnt_accounts_upserted = 1, cnt_added = 1, cnt_modified = 1, cnt_removed = 1\<rparr>"
    by code_simp
  from page_replay_harmless [OF events names _ wf_demo_tx run_pair [OF this] refl prod.collapse [symmetric]]
  show "w_tables (snd (run_state (persist True (map AccountUpsert [demo_draft] @ demo_events)) (snd stored_once)))
     = w_tables (snd stored_once)"
    by simp
qed

end
