(* ===== verification/Simplefin_Scenario.thy ===== *)
theory Simplefin_Scenario
  imports Simplefin_Laws Plaid_Scenario
begin

text \<open>
  A SimpleFIN token with one account: one of its two pending transactions is posted in the answer, the
  other one is not named any more.
\<close>

definition demo_sf_crates :: sf_crates where
  "demo_sf_crates = \<lparr>y_crates = demo_crates, y_alphanumeric = (\<lambda>c. c \<notin> {'' '', ''-''}), y_f64 = (\<lambda>_. None),
     y_timestamp = (\<lambda>_. True), y_transaction_json = (\<lambda>_. Some ''{}''), y_error_text = (\<lambda>_. ''error''),
     y_arrange = (\<lambda>ids. ids)\<rparr>"

definition demo_set :: account_set where
  "demo_set = \<lparr>set_connections = [\<lparr>sco_conn_id = ''c'', sco_name = ''Union'', sco_org_id = '''', sco_org_url = '''',
       sco_sfin_url = ''''\<rparr>],
     set_accounts = [\<lparr>sac_id = ''s1'', sac_conn_id = ''c'', sac_name = '''', sac_currency = '''',
       sac_balance = '''', sac_transactions = [\<lparr>stx_id = ''p1'', stx_posted = 1900, stx_transacted_at = 1800,
         stx_amount = ''4'', stx_description = '''', stx_payee = '''', stx_pending = False,
         stx_extra = ''''\<rparr>], sac_holdings = True\<rparr>],
     set_errors = [], set_skipped_non_usd = []\<rparr>"

definition demo_bridge :: sf_bridge where
  "demo_bridge = \<lparr>h_base64 = Some,
     h_url = (\<lambda>s. Some \<lparr>url_scheme = s, url_host = Some ''bridge.simplefin.org'', url_rest = ''''\<rparr>),
     h_accounts = (\<lambda>_ _ _. Inr demo_set), h_claim = (\<lambda>_. Inr ''https'')\<rparr>"

definition demo_token :: sf_token_row where
  "demo_token = \<lparr>sft_id = 6, sft_access_url = ''https'', sft_owner_id = 1,
     sft_last_synced_at = Some 1209600, sft_next_sync_at = None, sft_sync_cron = ''''\<rparr>"

definition demo_pending :: "int \<Rightarrow> string \<Rightarrow> txn_row" where
  "demo_pending ident external_id = (demo_txn ident external_id ''Bread'' False)\<lparr>txn_source := ''simplefin'',
     txn_account_id := 8, txn_pending := True\<rparr>"

definition sf_tables :: tx_tables where
  "sf_tables = demo_tx\<lparr>
     b_connections := b_connections demo_tx @ [\<lparr>con_id = 11, con_source_table = ''simplefin_connections'',
       con_source_id = 12, con_name = None, con_owner_id = 1, con_is_active = True\<rparr>],
     b_accounts := b_accounts demo_tx @ [demo_account\<lparr>acc_id := 8, acc_external_id := ''s1'', acc_connection_id := Some 11\<rparr>],
     b_transactions := b_transactions demo_tx @ [demo_pending 20 ''p1'', demo_pending 21 ''p2''],
     b_sf_tokens := [demo_token],
     b_sf_connections := [\<lparr>sfc_id = 12, sfc_external_id = ''c'', sfc_access_token_id = 6, sfc_org_id = None,
       sfc_org_domain = None, sfc_org_url = None, sfc_sfin_url = None, sfc_logo_url = None,
       sfc_health_state = ''HEALTHY'', sfc_health_error_message = None, sfc_last_synced_at = None\<rparr>]\<rparr>"

definition sf_world :: "tx_tables world" where
  "sf_world = tx_world\<lparr>w_tables := sf_tables\<rparr>"

lemma wf_sf_tables: "wf_tx (w_tables sf_world)"
  by code_simp

lemma same_bridge_witness: "same_bridge demo_bridge (demo_bridge\<lparr>h_accounts := (\<lambda>u s p.
    if on_bridge u then h_accounts demo_bridge u s p else Inl (Msg ''internal''))\<rparr>)"
  by (auto simp: same_bridge_def fun_eq_iff)

lemma requests_stay_on_bridge_witness:
  "get_accounts (demo_bridge\<lparr>h_accounts := (\<lambda>u s p. if on_bridge u then h_accounts demo_bridge u s p
       else Inl (Msg ''internal''))\<rparr>) ''http'' None True = get_accounts demo_bridge ''http'' None True
   \<and> get_accounts demo_bridge ''http'' None True = Inl (Msg ''simplefin url must use https'')"
proof
  show "get_accounts (demo_bridge\<lparr>h_accounts := (\<lambda>u s p. if on_bridge u then h_accounts demo_bridge u s p
       else Inl (Msg ''internal''))\<rparr>) ''http'' None True = get_accounts demo_bridge ''http'' None True"
    using requests_stay_on_bridge [OF same_bridge_witness] by blast
  show "get_accounts demo_bridge ''http'' None True = Inl (Msg ''simplefin url must use https'')"
    by (simp add: get_accounts_def parse_access_url_def and_then_def demo_bridge_def ensure_allowed_def)
qed

abbreviation sf_synced :: "(error + item_counts) \<times> tx_tables world" where
  "sf_synced \<equiv> run_state (simplefin_sync_inner demo_sf_crates demo_bridge False demo_token) sf_world"

lemma simplefin_removes_only_gone_pending_witness:
  "map txn_external_id (b_transactions (w_tables (snd sf_synced))) = [''t1'', ''t2'', ''p1'']
   \<and> rows_kept (gone_pending sf_tables (w_tables (snd sf_synced)) 6 (Inr demo_set)) sf_tables (w_tables (snd sf_synced))"
proof
  show "map txn_external_id (b_transactions (w_tables (snd sf_synced))) = [''t1'', ''t2'', ''p1'']"
    by code_simp
  have "is_usd []" by code_simp
  then have answered: "get_accounts demo_bridge ''https'' start pending = Inr demo_set" for start pending
    by (simp add: get_accounts_def parse_access_url_def and_then_def demo_bridge_def demo_set_def
        ensure_allowed_def ALLOWED_HOSTS_def eq_ignore_ascii_case_def)
  show "rows_kept (gone_pending sf_tables (w_tables (snd sf_synced)) 6 (Inr demo_set)) sf_tables (w_tables (snd sf_synced))"
    using simplefin_removes_only_gone_pending [OF prod.collapse [symmetric] wf_sf_tables,
        of demo_sf_crates demo_bridge False demo_token]
    by (simp add: demo_sf_crates_def answered demo_token_def sf_world_def)
qed

text \<open>
  What is gone is judged by the accounts that a sync takes in. When the answer does not list the connection
  of the account, its pending transactions are removed although the answer names one of them.
\<close>

definition orphan_bridge :: sf_bridge where
  "orphan_bridge = demo_bridge\<lparr>h_accounts := (\<lambda>_ _ _. Inr (demo_set\<lparr>set_connections := []\<rparr>))\<rparr>"

lemma pending_of_skipped_account_removed:
  "''p1'' \<in> stx_id ` set (concat (map sac_transactions (set_accounts demo_set)))
   \<and> map txn_external_id (b_transactions (w_tables (snd
       (run_state (simplefin_sync_inner demo_sf_crates orphan_bridge False demo_token) sf_world)))) = [''t1'', ''t2'']"
proof
  show "map txn_external_id (b_transactions (w_tables (snd
      (run_state (simplefin_sync_inner demo_sf_crates orphan_bridge False demo_token) sf_world)))) = [''t1'', ''t2'']"
    by code_simp
qed (simp add: demo_set_def)

end
