(* ===== verification/Tx_Listing.thy ===== *)
theory Tx_Listing
  imports Plaid_Convert Runs
begin

text \<open>
  Listing transactions (src/server-rs/src/transactions/store/query.rs and transactions.rs, cursor.rs,
  types.rs and the page arguments of graph/transactions.rs) and the pages of the CSV export
  (handler/export.rs). A listing is sorted by date or amount and then by id; a cursor holds the
  position of a row in it.

  SQLite's full text index, the wire format of a cursor (JSON in base64, dates as text) and the
  conversion of amounts to doubles are parameters.
\<close>

section \<open>Filters\<close>

record tx_filter =
  fil_search :: "string option"
  fil_from :: "int option"
  fil_to :: "int option"
  fil_category_ids :: "string list option"
  fil_tag_ids :: "string list option"
  fil_account_ids :: "string list option"
  fil_owner_ids :: "string list option"
  fil_is_reviewed :: "bool option"
  fil_is_recurring :: "bool option"
  fil_is_pending :: "bool option"
  fil_is_hidden :: "bool option"
  fil_merchant_prefix :: "string option"
  fil_original_prefix :: "string option"
  fil_exact_amount :: "cents option"
  fil_amount_min :: "cents option"
  fil_amount_max :: "cents option"
  fil_untagged :: "bool option"
  fil_exclude_transfers :: "bool option"
  fil_exclude_income :: "bool option"

record filter_values =
  flv_ids :: "int list"
  flv_search_match :: "string option"
  flv_from :: "int option"
  flv_to :: "int option"
  flv_category_ids :: "int list"
  flv_tag_ids :: "int list"
  flv_account_ids :: "int list"
  flv_owner_ids :: "int list"
  flv_is_reviewed :: "bool option"
  flv_is_recurring :: "bool option"
  flv_is_pending :: "bool option"
  flv_is_hidden :: "bool option"
  flv_merchant_prefix :: "string option"
  flv_original_prefix :: "string option"
  flv_exact_amount :: "cents option"
  flv_amount_min :: "cents option"
  flv_amount_max :: "cents option"
  flv_untagged :: bool
  flv_exclude_transfers :: bool
  flv_exclude_income :: bool

definition no_values :: "int list \<Rightarrow> filter_values" where
  "no_values ids =
     \<lparr>flv_ids = ids, flv_search_match = None, flv_from = None, flv_to = None, flv_category_ids = [],
      flv_tag_ids = [], flv_account_ids = [], flv_owner_ids = [], flv_is_reviewed = None,
      flv_is_recurring = None, flv_is_pending = None, flv_is_hidden = None, flv_merchant_prefix = None,
      flv_original_prefix = None, flv_exact_amount = None, flv_amount_min = None, flv_amount_max = None,
      flv_untagged = False, flv_exclude_transfers = False, flv_exclude_income = False\<rparr>"

definition normalized_string :: "string option \<Rightarrow> string option" where
  "normalized_string s = (case s of None \<Rightarrow> None | Some s \<Rightarrow> none_if_empty (trim s))"

definition normalized_lower :: "string option \<Rightarrow> string option" where
  "normalized_lower s = map_option to_ascii_lowercase (normalized_string s)"

text \<open>Every word of a search is quoted for the full text index, and matches as a prefix.\<close>

definition search_match :: "string option \<Rightarrow> string option" where
  "search_match s = map_option (\<lambda>s. join '' AND ''
     (map (\<lambda>word. [byte 34] @ replace_all [byte 34] [byte 34, byte 34] word @ [byte 34] @ ''*'')
       (split_whitespace s))) (normalized_string s)"

definition unwrap_or :: "'a \<Rightarrow> 'a option \<Rightarrow> 'a" where
  "unwrap_or d x = (case x of None \<Rightarrow> d | Some a \<Rightarrow> a)"

definition values_from_filter :: "base64 \<Rightarrow> tx_filter option \<Rightarrow> int list \<Rightarrow> error + filter_values" where
  "values_from_filter x f ids =
     (case f of
        None \<Rightarrow> Inr (no_values ids)
      | Some f \<Rightarrow>
          and_then (local_ids x (fil_category_ids f) Category) (\<lambda>categories.
          and_then (local_ids x (fil_tag_ids f) Tag) (\<lambda>tags.
          and_then (local_ids x (fil_account_ids f) Account) (\<lambda>accounts.
          and_then (local_ids x (fil_owner_ids f) Owner) (\<lambda>owners.
          Inr \<lparr>flv_ids = ids, flv_search_match = search_match (fil_search f),
               flv_from = map_option to_timestamp (fil_from f), flv_to = map_option to_timestamp (fil_to f),
               flv_category_ids = categories, flv_tag_ids = tags, flv_account_ids = accounts,
               flv_owner_ids = owners, flv_is_reviewed = fil_is_reviewed f,
               flv_is_recurring = fil_is_recurring f, flv_is_pending = fil_is_pending f,
               flv_is_hidden = fil_is_hidden f, flv_merchant_prefix = normalized_lower (fil_merchant_prefix f),
               flv_original_prefix = normalized_lower (fil_original_prefix f),
               flv_exact_amount = fil_exact_amount f,
               flv_amount_min = (if fil_exact_amount f = None then fil_amount_min f else None),
               flv_amount_max = (if fil_exact_amount f = None then fil_amount_max f else None),
               flv_untagged = unwrap_or False (fil_untagged f),
               flv_exclude_transfers = unwrap_or False (fil_exclude_transfers f),
               flv_exclude_income = unwrap_or False (fil_exclude_income f)\<rparr>)))))"

definition has_criteria :: "filter_values \<Rightarrow> bool" where
  "has_criteria v \<longleftrightarrow> flv_search_match v \<noteq> None \<or> flv_from v \<noteq> None \<or> flv_to v \<noteq> None
     \<or> flv_category_ids v \<noteq> [] \<or> flv_tag_ids v \<noteq> [] \<or> flv_account_ids v \<noteq> [] \<or> flv_owner_ids v \<noteq> []
     \<or> flv_is_reviewed v \<noteq> None \<or> flv_is_recurring v \<noteq> None \<or> flv_is_pending v \<noteq> None
     \<or> flv_is_hidden v \<noteq> None \<or> flv_merchant_prefix v \<noteq> None \<or> flv_original_prefix v \<noteq> None
     \<or> flv_exact_amount v \<noteq> None \<or> flv_amount_min v \<noteq> None \<or> flv_amount_max v \<noteq> None
     \<or> flv_untagged v \<or> flv_exclude_transfers v \<or> flv_exclude_income v"

section \<open>The queries\<close>

record listed =
  lst_txn :: txn_row
  lst_account :: account_row
  lst_owner :: owner_row
  lst_category :: category_row

type_synonym fts = "string \<Rightarrow> txn_row \<Rightarrow> bool"

definition given :: "('a \<Rightarrow> bool) \<Rightarrow> 'a option \<Rightarrow> bool" where
  "given P x = (case x of None \<Rightarrow> True | Some a \<Rightarrow> P a)"

definition listed_match :: "fts \<Rightarrow> tx_tables \<Rightarrow> filter_values \<Rightarrow> listed \<Rightarrow> bool" where
  "listed_match fts t v l \<longleftrightarrow>
     (let r = lst_txn l; tagged = map fst (b_transaction_tags t);
          original = unwrap_or '''' (txn_original_name r)
      in \<not> txn_staged_for_llm r
         \<and> (flv_ids v \<noteq> [] \<longrightarrow> txn_id r \<in> set (flv_ids v))
         \<and> given (\<lambda>m. fts m r) (flv_search_match v)
         \<and> given (\<lambda>d. d \<le> txn_datetime r) (flv_from v) \<and> given (\<lambda>d. txn_datetime r < d) (flv_to v)
         \<and> (flv_category_ids v \<noteq> [] \<longrightarrow> txn_category_id r \<in> set (flv_category_ids v))
         \<and> (flv_tag_ids v \<noteq> [] \<longrightarrow>
              list_ex (\<lambda>(txn, tag). txn = txn_id r \<and> tag \<in> set (flv_tag_ids v)) (b_transaction_tags t))
         \<and> (flv_untagged v \<longrightarrow> txn_id r \<notin> set tagged)
         \<and> (flv_account_ids v \<noteq> [] \<longrightarrow> txn_account_id r \<in> set (flv_account_ids v))
         \<and> (flv_owner_ids v \<noteq> [] \<longrightarrow> acc_owner_id (lst_account l) \<in> set (flv_owner_ids v))
         \<and> given (\<lambda>b. txn_is_reviewed r = b) (flv_is_reviewed v)
         \<and> given (\<lambda>b. txn_is_recurring r = b) (flv_is_recurring v)
         \<and> given (\<lambda>b. txn_pending r = b) (flv_is_pending v)
         \<and> given (\<lambda>b. txn_is_hidden r = b) (flv_is_hidden v)
         \<and> given (\<lambda>p. instr (lower (unwrap_or original (txn_merchant_name r))) p) (flv_merchant_prefix v)
         \<and> given (\<lambda>p. instr (lower original) p) (flv_original_prefix v)
         \<and> given (\<lambda>c. txn_amount_cents r = c) (flv_exact_amount v)
         \<and> given (\<lambda>c. signed_le c (txn_amount_cents r)) (flv_amount_min v)
         \<and> given (\<lambda>c. signed_le (txn_amount_cents r) c) (flv_amount_max v)
         \<and> (flv_exclude_transfers v \<longrightarrow> cat_kind (lst_category l) \<noteq> ''TRANSFER'')
         \<and> (flv_exclude_income v \<longrightarrow> cat_kind (lst_category l) \<noteq> ''INCOME''))"

definition joined :: "tx_tables \<Rightarrow> txn_row \<Rightarrow> listed list" where
  "joined t r = concat (map (\<lambda>a. concat (map (\<lambda>w. map (\<lambda>c.
         \<lparr>lst_txn = r, lst_account = a, lst_owner = w, lst_category = c\<rparr>)
           (filter (\<lambda>c. cat_id c = txn_category_id r) (b_categories t)))
         (filter (\<lambda>w. own_id w = acc_owner_id a) (b_owners t))))
         (filter (\<lambda>a. acc_id a = txn_account_id r) (b_accounts t)))"

definition joined_rows :: "tx_tables \<Rightarrow> listed list" where
  "joined_rows t = concat (map (joined t) (b_transactions t))"

definition listed_rows :: "fts \<Rightarrow> tx_tables \<Rightarrow> filter_values \<Rightarrow> listed list" where
  "listed_rows fts t v = filter (listed_match fts t v) (joined_rows t)"

record cursor =
  cur_datetime :: int
  cur_id :: int
  cur_amount :: cents

datatype records_cursor = No_Cursor | Datetime_Gt | Datetime_Lt | Amount_Gt | Amount_Lt

datatype records_order = Amount_Asc | Amount_Desc | Datetime_Asc | Datetime_Desc

definition datetime_key :: "listed \<Rightarrow> int \<times> int" where
  "datetime_key l = (txn_datetime (lst_txn l), txn_id (lst_txn l))"

definition amount_key :: "listed \<Rightarrow> int \<times> int" where
  "amount_key l = (sint (txn_amount_cents (lst_txn l)), txn_id (lst_txn l))"

definition descending :: "int \<times> int \<Rightarrow> int \<times> int" where
  "descending k = (- fst k, - snd k)"

fun order_key :: "records_order \<Rightarrow> listed \<Rightarrow> int \<times> int" where
  "order_key Amount_Asc l = amount_key l"
| "order_key Amount_Desc l = descending (amount_key l)"
| "order_key Datetime_Asc l = datetime_key l"
| "order_key Datetime_Desc l = descending (datetime_key l)"

fun beyond_cursor :: "records_cursor \<Rightarrow> cursor \<Rightarrow> listed \<Rightarrow> bool" where
  "beyond_cursor No_Cursor c l = True"
| "beyond_cursor Datetime_Gt c l = ((to_timestamp (cur_datetime c), cur_id c) < datetime_key l)"
| "beyond_cursor Datetime_Lt c l = (datetime_key l < (to_timestamp (cur_datetime c), cur_id c))"
| "beyond_cursor Amount_Gt c l = ((sint (cur_amount c), cur_id c) < amount_key l)"
| "beyond_cursor Amount_Lt c l = (amount_key l < (sint (cur_amount c), cur_id c))"

text \<open>SQLite reads a negative limit as none.\<close>

definition limited :: "int \<Rightarrow> 'a list \<Rightarrow> 'a list" where
  "limited n rows = (if n < 0 then rows else take (nat n) rows)"

definition transaction_records ::
    "fts \<Rightarrow> filter_values \<Rightarrow> records_cursor \<Rightarrow> cursor \<Rightarrow> records_order \<Rightarrow> int \<Rightarrow> listed list tx_db" where
  "transaction_records fts v which c order row_limit = select (\<lambda>t.
     limited row_limit (sort_key (order_key order) (filter (beyond_cursor which c) (listed_rows fts t v))))"

text \<open>The count joins accounts and categories only when the filter asks for them; both exist for every
  transaction.\<close>

definition count_transaction_records :: "fts \<Rightarrow> filter_values \<Rightarrow> nat tx_db" where
  "count_transaction_records fts v = select (\<lambda>t. length (listed_rows fts t v))"

definition transaction_ids_by_filter :: "fts \<Rightarrow> filter_values \<Rightarrow> int list tx_db" where
  "transaction_ids_by_filter fts v = select (\<lambda>t. map (\<lambda>l. txn_id (lst_txn l)) (listed_rows fts t v))"

section \<open>Cursors\<close>

record cursor_codec =
  z_encode :: "string \<times> int \<times> f64 option \<Rightarrow> string"
  z_decode :: "string \<Rightarrow> (string \<times> int \<times> f64 option) option"
  z_rfc3339 :: "int \<Rightarrow> string"
  z_parse_datetime :: "string \<Rightarrow> int option"
  z_dollars :: "cents \<Rightarrow> f64"
  z_crates :: crates

definition encode_cursor :: "cursor_codec \<Rightarrow> cursor \<Rightarrow> string" where
  "encode_cursor z c = z_encode z (z_rfc3339 z (to_timestamp (cur_datetime c)), cur_id c,
     if cur_amount c \<noteq> 0 then Some (z_dollars z (cur_amount c)) else None)"

definition invalid_cursor :: error where
  "invalid_cursor = Msg ''invalid cursor''"

definition decode_cursor :: "cursor_codec \<Rightarrow> string \<Rightarrow> error + cursor" where
  "decode_cursor z s =
     (case z_decode z s of
        None \<Rightarrow> Inl invalid_cursor
      | Some (datetime, ident, amount) \<Rightarrow>
          (case z_parse_datetime z datetime of
             None \<Rightarrow> Inl invalid_cursor
           | Some datetime \<Rightarrow>
               if \<not> 0 < ident then Inl invalid_cursor
               else (case map_option (x_dollars (z_crates z)) amount of
                  Some None \<Rightarrow> Inl invalid_cursor
                | Some (Some c) \<Rightarrow> Inr \<lparr>cur_datetime = datetime, cur_id = ident, cur_amount = c\<rparr>
                | None \<Rightarrow> Inr \<lparr>cur_datetime = datetime, cur_id = ident, cur_amount = 0\<rparr>)))"

section \<open>Listing\<close>

datatype sort_field = By_Date | By_Amount

datatype sort_order = Asc | Desc

record tx_query =
  qry_filter :: "tx_filter option"
  qry_sort :: "(sort_field \<times> sort_order) option"
  qry_first :: "int option"
  qry_after :: "string option"
  qry_last :: "int option"
  qry_before :: "string option"

definition MAX_TRANSACTION_LIMIT :: int where
  "MAX_TRANSACTION_LIMIT = 1000"

definition DEFAULT_TRANSACTION_LIMIT :: int where
  "DEFAULT_TRANSACTION_LIMIT = 50"

definition positive :: "int option \<Rightarrow> int option" where
  "positive n = (case n of None \<Rightarrow> None | Some n \<Rightarrow> if 0 < n then Some n else None)"

definition page_limit :: "tx_query \<Rightarrow> int" where
  "page_limit q = (case or_else (positive (qry_first q)) (positive (qry_last q)) of
     None \<Rightarrow> DEFAULT_TRANSACTION_LIMIT | Some n \<Rightarrow> min n MAX_TRANSACTION_LIMIT)"

definition query_cursor :: "cursor_codec \<Rightarrow> tx_query \<Rightarrow> error + (cursor \<times> bool) option" where
  "query_cursor z q =
     (case (qry_after q, qry_before q) of
        (Some s, None) \<Rightarrow> and_then (decode_cursor z s) (\<lambda>c. Inr (Some (c, True)))
      | (None, Some s) \<Rightarrow> and_then (decode_cursor z s) (\<lambda>c. Inr (Some (c, False)))
      | (None, None) \<Rightarrow> Inr None
      | (Some _, Some _) \<Rightarrow> Inl invalid_cursor)"

definition sort_direction :: "(sort_field \<times> sort_order) option \<Rightarrow> bool \<Rightarrow> bool \<times> bool" where
  "sort_direction sorting reverse =
     (map_option fst sorting = Some By_Amount, (map_option snd sorting = Some Asc) \<noteq> reverse)"

definition cursor_case :: "bool \<Rightarrow> bool \<Rightarrow> bool \<Rightarrow> records_cursor" where
  "cursor_case is_after by_amount want_greater =
     (if \<not> is_after then No_Cursor
      else if by_amount then (if want_greater then Amount_Gt else Amount_Lt)
      else (if want_greater then Datetime_Gt else Datetime_Lt))"

definition order_case :: "bool \<Rightarrow> bool \<Rightarrow> records_order" where
  "order_case by_amount ascending =
     (if by_amount then (if ascending then Amount_Asc else Amount_Desc)
      else (if ascending then Datetime_Asc else Datetime_Desc))"

definition records ::
    "fts \<Rightarrow> filter_values \<Rightarrow> (cursor \<times> bool) option \<Rightarrow> (sort_field \<times> sort_order) option \<Rightarrow> bool \<Rightarrow> int
     \<Rightarrow> listed list tx_db" where
  "records fts v position sorting reverse row_limit = do {
     (c, is_after) \<leftarrow> (case position of
        Some p \<Rightarrow> State_Monad.return p
      | None \<Rightarrow> do {
          now \<leftarrow> utc_now;
          State_Monad.return (\<lparr>cur_datetime = now, cur_id = 0, cur_amount = 0\<rparr>, False)
        });
     let (by_amount, ascending) = sort_direction sorting reverse;
         display_ascending = (map_option snd sorting = Some Asc);
         want_greater = (is_after = display_ascending)
     in transaction_records fts v (cursor_case is_after by_amount want_greater) c
          (order_case by_amount ascending) row_limit
   }"

record page_info =
  pgi_has_next_page :: bool
  pgi_has_previous_page :: bool
  pgi_start_cursor :: "string option"
  pgi_end_cursor :: "string option"

record connection =
  cnn_edges :: "(listed \<times> string) list"
  cnn_page_info :: page_info
  cnn_total_count :: "32 word"

definition cursor_of :: "listed \<Rightarrow> cursor" where
  "cursor_of l = \<lparr>cur_datetime = of_timestamp (txn_datetime (lst_txn l)), cur_id = txn_id (lst_txn l),
     cur_amount = txn_amount_cents (lst_txn l)\<rparr>"

definition edge :: "cursor_codec \<Rightarrow> listed \<Rightarrow> listed \<times> string" where
  "edge z l = (l, encode_cursor z (cursor_of l))"

definition connection_of ::
    "cursor_codec \<Rightarrow> tx_query \<Rightarrow> (cursor \<times> bool) option \<Rightarrow> bool \<Rightarrow> nat \<Rightarrow> nat \<Rightarrow> listed list \<Rightarrow> connection" where
  "connection_of z q position reverse limit total_count rows =
     (let has_more = (limit < length rows);
          rows = take limit rows;
          edges = map (edge z) (if reverse then rev rows else rows)
      in \<lparr>cnn_edges = edges,
          cnn_page_info =
            \<lparr>pgi_has_next_page = (if reverse then qry_before q \<noteq> None else has_more),
             pgi_has_previous_page = (if reverse then has_more else map_option snd position = Some True),
             pgi_start_cursor = (if edges = [] then None else Some (snd (hd edges))),
             pgi_end_cursor = (if edges = [] then None else Some (snd (last edges)))\<rparr>,
          cnn_total_count = of_nat total_count\<rparr>)"

definition transactions :: "base64 \<Rightarrow> cursor_codec \<Rightarrow> fts \<Rightarrow> tx_query \<Rightarrow> connection tx_db" where
  "transactions x z fts q =
     try_bind (of_result (values_from_filter x (qry_filter q) [])) (\<lambda>v.
     try_bind (count_transaction_records fts v) (\<lambda>total_count.
     let limit = nat (page_limit q); reverse = (positive (qry_last q) \<noteq> None)
     in try_bind (of_result (query_cursor z q)) (\<lambda>position.
        try_bind (records fts v position (qry_sort q) reverse (int limit + 1)) (\<lambda>rows.
        ok (connection_of z q position reverse limit total_count rows)))))"

definition transaction_by_id :: "fts \<Rightarrow> int \<Rightarrow> listed option tx_db" where
  "transaction_by_id fts ident =
     try_bind (records fts (no_values [ident]) None None False 1) (\<lambda>rows.
     ok (case rows of [] \<Rightarrow> None | l # _ \<Rightarrow> Some l))"

definition transactions_by_ids :: "fts \<Rightarrow> int list \<Rightarrow> listed list tx_db" where
  "transactions_by_ids fts ids =
     (if ids = [] then ok [] else records fts (no_values ids) None None False (- 1))"

text \<open>The arguments of the GraphQL field.\<close>

definition validate_page_size :: "string \<Rightarrow> int option \<Rightarrow> error + unit" where
  "validate_page_size name n =
     (case n of
        None \<Rightarrow> Inr ()
      | Some n \<Rightarrow>
          if \<not> 0 < n then Inl (Msg (name @ '' must be positive''))
          else if MAX_TRANSACTION_LIMIT < n then Inl (Msg (name @ '' must not exceed 1000'')) else Inr ())"

definition validate_transaction_page_args :: "tx_query \<Rightarrow> error + unit" where
  "validate_transaction_page_args q =
     (if qry_first q \<noteq> None \<and> qry_last q \<noteq> None then Inl (Msg ''cannot supply both first and last'')
      else if qry_after q \<noteq> None \<and> qry_before q \<noteq> None then Inl (Msg ''cannot supply both after and before'')
      else and_then (validate_page_size ''first'' (qry_first q)) (\<lambda>_. validate_page_size ''last'' (qry_last q)))"

section \<open>The export\<close>

definition PAGE_SIZE :: nat where
  "PAGE_SIZE = 500"

definition export_transaction_page ::
    "base64 \<Rightarrow> fts \<Rightarrow> tx_filter option \<Rightarrow> cursor option \<Rightarrow> nat \<Rightarrow> (listed list \<times> cursor option) tx_db" where
  "export_transaction_page x fts f c limit =
     try_bind (of_result (values_from_filter x f [])) (\<lambda>v.
     try_bind (records fts v (map_option (\<lambda>c. (c, True)) c) None False (int limit + 1)) (\<lambda>rows.
     let page = take limit rows
     in ok (page, if limit < length rows
          then Some \<lparr>cur_datetime = of_timestamp (txn_datetime (lst_txn (last page))),
                 cur_id = txn_id (lst_txn (last page)), cur_amount = 0\<rparr>
          else None)))"

text \<open>The chunks of the body; a query that fails in mid-stream ends it. A run that needs more pages than
  its fuel has no result.\<close>

fun export_chunks ::
    "base64 \<Rightarrow> fts \<Rightarrow> tx_filter option \<Rightarrow> nat \<Rightarrow> listed list \<times> cursor option \<Rightarrow> (tx_tables, listed list list option) io" where
  "export_chunks x fts f 0 page = State_Monad.return None"
| "export_chunks x fts f (Suc fuel) (page, c) =
     (case c of
        None \<Rightarrow> State_Monad.return (Some [page])
      | Some c \<Rightarrow> do {
          r \<leftarrow> export_transaction_page x fts f (Some c) PAGE_SIZE;
          (case r of
             Inl _ \<Rightarrow> State_Monad.return (Some [page])
           | Inr next_page \<Rightarrow> do {
               chunks \<leftarrow> export_chunks x fts f fuel next_page;
               State_Monad.return (map_option (\<lambda>cs. page # cs) chunks)
             })
        })"

definition export_body :: "base64 \<Rightarrow> fts \<Rightarrow> tx_filter option \<Rightarrow> nat \<Rightarrow> (tx_tables, error + listed list list option) io" where
  "export_body x fts f fuel = do {
     first \<leftarrow> export_transaction_page x fts f None PAGE_SIZE;
     (case first of
        Inl e \<Rightarrow> State_Monad.return (Inl e)
      | Inr page \<Rightarrow> lift (export_chunks x fts f fuel page))
   }"

end
