(* ===== verification/Tx_Listing_Laws.thy ===== *)
theory Tx_Listing_Laws
  imports Tx_Listing Tx_Laws "HOL-Library.Sublist" "HOL-Library.Multiset"
begin

text \<open>
  A page of a listing is the part of the ordered listing that its cursor says, and the pages of the
  export are the whole listing.
\<close>

section \<open>Every transaction is listed once\<close>

lemma filter_unique:
  assumes "distinct (map key xs)" "x \<in> set xs"
  shows "filter (\<lambda>y. key y = key x) xs = [x]"
  using assms
proof (induction xs)
  case (Cons y ys)
  then show ?case
    by (cases "y = x") (auto simp: filter_empty_conv rev_image_eqI)
qed simp

lemma joined_one:
  assumes "wf_tx t" "distinct (map cat_id (b_categories t))" "r \<in> set (b_transactions t)"
  shows "\<exists>l. joined t r = [l] \<and> lst_txn l = r"
proof -
  from wf_txD(7) [OF assms(1)] assms(3) have "fk_txn t r" by blast
  then obtain a c where a: "a \<in> set (b_accounts t)" "txn_account_id r = acc_id a"
      and c: "c \<in> set (b_categories t)" "txn_category_id r = cat_id c"
    by (auto simp: fk_txn_def)
  from wf_txD(4) [OF assms(1)] a(1) obtain o' where o': "o' \<in> set (b_owners t)" "acc_owner_id a = own_id o'"
    by (auto simp: fk_account_def)
  show ?thesis
    using filter_unique [OF wf_txD(2) [OF assms(1)] a(1)] filter_unique [OF wf_txD(1) [OF assms(1)] o'(1)]
      filter_unique [OF assms(2) c(1)]
    by (simp add: joined_def a(2) c(2) o'(2))
qed

lemma joined_txns:
  assumes "wf_tx t" "distinct (map cat_id (b_categories t))"
  shows "map lst_txn (joined_rows t) = b_transactions t"
proof -
  have "map lst_txn (concat (map (joined t) rs)) = rs" if "set rs \<subseteq> set (b_transactions t)" for rs
    using that
  proof (induction rs)
    case (Cons r rs)
    with joined_one [OF assms, of r] show ?case by auto
  qed simp
  then show ?thesis by (simp add: joined_rows_def)
qed

lemma listed_ids:
  assumes "wf_tx t" "distinct (map cat_id (b_categories t))"
  shows "distinct (map (\<lambda>l. txn_id (lst_txn l)) (listed_rows fts t v))"
proof -
  have "distinct (map txn_id (map lst_txn (joined_rows t)))"
    unfolding joined_txns [OF assms] by (rule wf_txD(5) [OF assms(1)])
  then show ?thesis by (simp add: listed_rows_def comp_def distinct_map_filter)
qed

section \<open>Order\<close>

lemma descending_less [simp]: "descending a < descending b \<longleftrightarrow> b < a" "descending a \<le> descending b \<longleftrightarrow> b \<le> a"
  by (cases a; cases b; auto simp: descending_def less_eq_prod_def less_prod_def)+

lemma snd_order_key: "snd (order_key ord l) = snd (order_key ord l') \<longleftrightarrow> txn_id (lst_txn l) = txn_id (lst_txn l')"
  by (cases ord) (simp_all add: descending_def datetime_key_def amount_key_def)

definition ordered_listing :: "fts \<Rightarrow> tx_tables \<Rightarrow> filter_values \<Rightarrow> records_order \<Rightarrow> listed list" where
  "ordered_listing fts t v ord = sort_key (order_key ord) (listed_rows fts t v)"

definition strictly :: "records_order \<Rightarrow> listed list \<Rightarrow> bool" where
  "strictly ord ls \<longleftrightarrow> sorted_wrt (\<lambda>l l'. order_key ord l < order_key ord l') ls"

lemma strictly_listing:
  assumes "wf_tx t" "distinct (map cat_id (b_categories t))"
  shows "strictly ord (ordered_listing fts t v ord)"
proof -
  let ?L = "ordered_listing fts t v ord"
  have "mset ?L = mset (listed_rows fts t v)" by (simp add: ordered_listing_def)
  then have "distinct (map (\<lambda>l. txn_id (lst_txn l)) ?L)"
    using listed_ids [OF assms, of fts v] by (metis mset_map mset_eq_imp_distinct_iff)
  then have "distinct (map (order_key ord) ?L)"
    by (auto simp: distinct_map inj_on_def) (metis snd_order_key)
  moreover have "sorted (map (order_key ord) ?L)"
    by (simp add: ordered_listing_def)
  ultimately have "sorted_wrt (<) (map (order_key ord) ?L)"
    unfolding strict_sorted_iff by blast
  then show ?thesis
    by (simp add: strictly_def sorted_wrt_map)
qed

lemma filter_beyond:
  assumes "strictly ord (front @ l # rest)"
  shows "filter (\<lambda>l'. order_key ord l < order_key ord l') (front @ l # rest) = rest"
proof -
  have "\<forall>l' \<in> set front. \<not> order_key ord l < order_key ord l'" "\<forall>l' \<in> set rest. order_key ord l < order_key ord l'"
    using assms by (auto simp: strictly_def sorted_wrt_append dest: less_asym)
  then show ?thesis by (simp add: filter_empty_conv filter_id_conv)
qed

fun converse_order :: "records_order \<Rightarrow> records_order" where
  "converse_order Amount_Asc = Amount_Desc"
| "converse_order Amount_Desc = Amount_Asc"
| "converse_order Datetime_Asc = Datetime_Desc"
| "converse_order Datetime_Desc = Datetime_Asc"

lemma converse_order_less: "order_key (converse_order ord) l < order_key (converse_order ord) l' \<longleftrightarrow> order_key ord l' < order_key ord l"
  by (cases ord) simp_all

lemma strictly_keys:
  assumes "strictly ord xs"
  shows "sorted (map (order_key ord) xs)" "distinct (map (order_key ord) xs)"
proof -
  have "sorted_wrt (<) (map (order_key ord) xs)"
    using assms by (simp add: strictly_def sorted_wrt_map)
  then show "sorted (map (order_key ord) xs)" "distinct (map (order_key ord) xs)"
    by (simp_all add: strict_sorted_iff)
qed

lemma strictly_unique:
  assumes "strictly ord xs" "strictly ord ys" "set xs = set ys"
  shows "xs = ys"
proof -
  have "map (order_key ord) xs = map (order_key ord) ys"
    using strictly_keys [OF assms(1)] strictly_keys [OF assms(2)] assms(3)
    by (intro sorted_distinct_set_unique) simp_all
  moreover have "inj_on (order_key ord) (set xs \<union> set ys)"
    using strictly_keys(2) [OF assms(1)] assms(3) by (simp add: distinct_map)
  ultimately show ?thesis by (metis map_inj_on)
qed

lemma rev_listing:
  assumes "wf_tx t" "distinct (map cat_id (b_categories t))"
  shows "ordered_listing fts t v (converse_order ord) = rev (ordered_listing fts t v ord)"
proof (rule strictly_unique [of "converse_order ord"])
  show "strictly (converse_order ord) (ordered_listing fts t v (converse_order ord))"
    by (rule strictly_listing [OF assms])
  show "strictly (converse_order ord) (rev (ordered_listing fts t v ord))"
    using strictly_listing [OF assms, of ord fts v]
    by (simp add: strictly_def sorted_wrt_rev converse_order_less)
qed (simp add: ordered_listing_def)

section \<open>The statement behind a page\<close>

definition sort_case :: "(sort_field \<times> sort_order) option \<Rightarrow> records_order" where
  "sort_case sorting = order_case (map_option fst sorting = Some By_Amount) (map_option snd sorting = Some Asc)"

lemma order_case_reverse:
  "order_case b (a \<noteq> reverse) = (if reverse then converse_order (order_case b a) else order_case b a)"
  by (cases b; cases a; cases reverse) (simp_all add: order_case_def)

lemma beyond_cursor_of:
  assumes "to_timestamp (cur_datetime c) = txn_datetime (lst_txn l)" "cur_id c = txn_id (lst_txn l)"
    and "map_option fst sorting = Some By_Amount \<Longrightarrow> cur_amount c = txn_amount_cents (lst_txn l)"
  shows "beyond_cursor (cursor_case True (map_option fst sorting = Some By_Amount)
      (True = (map_option snd sorting = Some Asc))) c l' \<longleftrightarrow> order_key (sort_case sorting) l < order_key (sort_case sorting) l'"
  using assms
  by (cases "map_option fst sorting = Some By_Amount"; cases "map_option snd sorting = Some Asc")
     (simp_all add: cursor_case_def sort_case_def order_case_def datetime_key_def amount_key_def)

text \<open>What a position in a listing leaves of it.\<close>

definition at_row :: "(sort_field \<times> sort_order) option \<Rightarrow> cursor \<Rightarrow> listed \<Rightarrow> bool" where
  "at_row sorting c l \<longleftrightarrow> to_timestamp (cur_datetime c) = txn_datetime (lst_txn l) \<and> cur_id c = txn_id (lst_txn l)
     \<and> (map_option fst sorting = Some By_Amount \<longrightarrow> cur_amount c = txn_amount_cents (lst_txn l))"

text \<open>The rows of a listing that come after the place of a cursor, whether or not there is a row at that place.\<close>

definition past :: "(sort_field \<times> sort_order) option \<Rightarrow> cursor \<Rightarrow> listed \<Rightarrow> bool" where
  "past sorting c l \<longleftrightarrow>
     (let by_amount = (map_option fst sorting = Some By_Amount);
          place = (if by_amount then sint (cur_amount c) else to_timestamp (cur_datetime c), cur_id c);
          here = (if by_amount then sint (txn_amount_cents (lst_txn l)) else txn_datetime (lst_txn l), txn_id (lst_txn l))
      in if map_option snd sorting = Some Asc then place < here else here < place)"

definition remainder :: "(sort_field \<times> sort_order) option \<Rightarrow> listed list \<Rightarrow> (cursor \<times> bool) option \<Rightarrow> listed list \<Rightarrow> bool" where
  "remainder sorting L position tail \<longleftrightarrow>
     tail = (case position of Some (c, True) \<Rightarrow> filter (past sorting c) L | _ \<Rightarrow> L)"

lemma beyond_past:
  "beyond_cursor (cursor_case True (map_option fst sorting = Some By_Amount)
      (True = (map_option snd sorting = Some Asc))) c = past sorting c"
  by (rule ext) (simp add: past_def Let_def cursor_case_def datetime_key_def amount_key_def)

lemma past_at_row:
  assumes "strictly (sort_case sorting) (front @ l # tail)" "at_row sorting c l"
  shows "filter (past sorting c) (front @ l # tail) = tail"
proof -
  have past: "past sorting c = (\<lambda>l'. order_key (sort_case sorting) l < order_key (sort_case sorting) l')"
    unfolding beyond_past [symmetric] using assms(2) unfolding at_row_def by (intro ext beyond_cursor_of) simp_all
  show ?thesis unfolding past by (rule filter_beyond [OF assms(1)])
qed

lemma past_later:
  assumes "past sorting c l" "order_key (sort_case sorting) l < order_key (sort_case sorting) l'"
  shows "past sorting c l'"
  using assms
  by (cases "map_option fst sorting = Some By_Amount"; cases "map_option snd sorting = Some Asc")
     (auto simp: past_def Let_def sort_case_def order_case_def datetime_key_def amount_key_def
       simp del: less_prod_simp intro: less_trans)

lemma suffix_filter_later:
  assumes "sorted_wrt R xs" "\<And>x y. P x \<Longrightarrow> R x y \<Longrightarrow> P y"
  shows "suffix (filter P xs) xs"
  using assms(1)
proof (induction xs)
  case (Cons x xs)
  show ?case
  proof (cases "P x")
    case True
    with Cons.prems assms(2) have "filter P xs = xs" by (auto simp: filter_id_conv)
    with True show ?thesis by simp
  next
    case False
    with Cons show ?thesis by (simp add: suffix_ConsI)
  qed
qed simp

lemma remainder_suffix:
  assumes "strictly (sort_case sorting) L" "remainder sorting L position tail"
  shows "suffix tail L"
  using suffix_filter_later [OF assms(1) [unfolded strictly_def] past_later] assms(2)
  by (auto simp: remainder_def split: option.splits bool.splits)

lemma filter_remainder:
  assumes "remainder sorting L position tail"
    and "position = None \<longrightarrow> \<not> is_after" "position \<noteq> None \<longrightarrow> position = Some (c, is_after)"
  shows "filter (beyond_cursor (cursor_case is_after (map_option fst sorting = Some By_Amount)
      (is_after = (map_option snd sorting = Some Asc))) c) L = tail"
proof (cases is_after)
  case True
  with assms show ?thesis by (auto simp: remainder_def beyond_past [simplified])
next
  case False
  with assms have "tail = L" by (auto simp: remainder_def split: option.splits)
  then show ?thesis by (simp add: False cursor_case_def)
qed

lemma records_rows:
  assumes "wf_tx t" "distinct (map cat_id (b_categories t))"
    and "remainder sorting (ordered_listing fts t v (sort_case sorting)) position tail"
    and "position = None \<longrightarrow> \<not> is_after" "position \<noteq> None \<longrightarrow> position = Some (c, is_after)"
  shows "sort_key (order_key (order_case (map_option fst sorting = Some By_Amount) ((map_option snd sorting = Some Asc) \<noteq> reverse)))
      (filter (beyond_cursor (cursor_case is_after (map_option fst sorting = Some By_Amount)
        (is_after = (map_option snd sorting = Some Asc))) c) (listed_rows fts t v))
    = (if reverse then rev tail else tail)"
proof -
  let ?ord = "sort_case sorting" and ?L = "ordered_listing fts t v (sort_case sorting)"
  let ?P = "beyond_cursor (cursor_case is_after (map_option fst sorting = Some By_Amount)
        (is_after = (map_option snd sorting = Some Asc))) c"
  have tail: "filter ?P ?L = tail"
    by (rule filter_remainder [OF assms(3-5)])
  have "sort_key (order_key ord) (filter ?P (listed_rows fts t v)) = filter ?P (ordered_listing fts t v ord)" for ord
    by (simp add: ordered_listing_def filter_sort)
  then show ?thesis
    unfolding order_case_reverse sort_case_def [symmetric]
    using tail rev_listing [OF assms(1,2), of fts v ?ord] by (auto simp: rev_filter)
qed

lemma wp_records:
  assumes "wf_tx (w_tables w)" "distinct (map cat_id (b_categories (w_tables w)))"
    and "remainder sorting (ordered_listing fts (w_tables w) v (sort_case sorting)) position tail"
    and "\<And>e w'. w_tables w' = w_tables w \<Longrightarrow> w_faults w (w_queries w) \<Longrightarrow> Q (Inl e) w'"
    and "\<And>w'. w_tables w' = w_tables w \<Longrightarrow> later w w' \<Longrightarrow> Q (Inr (limited n (if reverse then rev tail else tail))) w'"
  shows "wp (records fts v position sorting reverse n) Q w"
proof -
  have rows: "wp (transaction_records fts v (cursor_case is_after (map_option fst sorting = Some By_Amount)
        (is_after = (map_option snd sorting = Some Asc))) c
      (order_case (map_option fst sorting = Some By_Amount) ((map_option snd sorting = Some Asc) \<noteq> reverse)) n) Q w1"
    if "w_tables w1 = w_tables w" "w_queries w1 = w_queries w" "w_faults w1 = w_faults w" "later w w1"
      "position = None \<longrightarrow> \<not> is_after" "position \<noteq> None \<longrightarrow> position = Some (c, is_after)" for w1 c is_after
    unfolding transaction_records_def wp_select that(1-3) records_rows [OF assms(1-3) that(5,6)]
    using assms(4,5) that by (auto simp: later_def)
  show ?thesis
  proof (cases position)
    case None
    show ?thesis
      unfolding records_def sort_direction_def Let_def prod.case None option.case wp_bind wp_utc_now wp_return
      by (rule rows) (simp_all add: None later_def)
  next
    case (Some p)
    then obtain c is_after where p: "position = Some (c, is_after)" by (cases p) simp
    show ?thesis
      unfolding records_def sort_direction_def Let_def prod.case p option.case wp_bind wp_return
      by (rule rows) (simp_all add: p later_def)
  qed
qed

section \<open>Pages\<close>

text \<open>What is assumed of the formats a cursor is written in: the cursors of these transactions can be read back.
  The crates promise no more: an amount is written as a float, and JSON has no text for every float.\<close>

definition codec_ok :: "cursor_codec \<Rightarrow> txn_row set \<Rightarrow> bool" where
  "codec_ok z rows \<longleftrightarrow> (\<forall>r \<in> rows.
     let c = txn_amount_cents r
     in \<exists>d a. z_decode z (z_encode z (z_rfc3339 z (txn_datetime r), txn_id r, if c \<noteq> 0 then Some (z_dollars z c) else None))
           = Some (d, txn_id r, a)
         \<and> z_parse_datetime z d = Some (of_timestamp (txn_datetime r))
         \<and> (case a of None \<Rightarrow> c = 0 | Some f \<Rightarrow> x_dollars (z_crates z) f = Some c))"

lemma decode_edge:
  assumes "codec_ok z rows" "lst_txn l \<in> rows" "0 < txn_id (lst_txn l)"
  shows "decode_cursor z (encode_cursor z (cursor_of l)) = Inr (cursor_of l)"
proof -
  let ?r = "lst_txn l"
  have "to_timestamp (of_timestamp d) = d" for d
    by (simp add: to_timestamp_def of_timestamp_def nanos_def)
  then have written: "encode_cursor z (cursor_of l) = z_encode z (z_rfc3339 z (txn_datetime ?r), txn_id ?r,
      if txn_amount_cents ?r \<noteq> 0 then Some (z_dollars z (txn_amount_cents ?r)) else None)"
    by (simp add: encode_cursor_def cursor_of_def)
  obtain d a where read: "z_decode z (encode_cursor z (cursor_of l)) = Some (d, txn_id ?r, a)"
      "z_parse_datetime z d = Some (of_timestamp (txn_datetime ?r))"
      "case a of None \<Rightarrow> txn_amount_cents ?r = 0 | Some f \<Rightarrow> x_dollars (z_crates z) f = Some (txn_amount_cents ?r)"
    using bspec [OF assms(1) [unfolded codec_ok_def Let_def] assms(2)] unfolding written by blast
  show ?thesis
    using read(3) assms(3) unfolding decode_cursor_def read(1,2) option.case prod.case
    by (cases a) (simp_all add: cursor_of_def)
qed

lemma at_row_cursor_of: "at_row sorting (cursor_of l) l"
  by (simp add: at_row_def cursor_of_def to_timestamp_def of_timestamp_def nanos_def)

text \<open>The part of an ordered listing a query asks for: what comes after the place of its \<open>after\<close> cursor.
  A \<open>before\<close> cursor takes nothing away, and a query may not have both.\<close>

definition asked :: "cursor_codec \<Rightarrow> tx_query \<Rightarrow> listed list \<Rightarrow> listed list \<Rightarrow> bool" where
  "asked z q L tail \<longleftrightarrow>
     (case (qry_after q, qry_before q) of
        (None, None) \<Rightarrow> tail = L
      | (None, Some s) \<Rightarrow> tail = L \<and> (\<exists>c. decode_cursor z s = Inr c)
      | (Some s, None) \<Rightarrow> \<exists>c. decode_cursor z s = Inr c \<and> tail = filter (past (qry_sort q) c) L
      | (Some _, Some _) \<Rightarrow> False)"

definition page_of :: "tx_query \<Rightarrow> 'a list \<Rightarrow> 'a list" where
  "page_of q tail =
     (if positive (qry_last q) = None then take (nat (page_limit q)) tail
      else drop (length tail - nat (page_limit q)) tail)"

lemma asked_remainder:
  assumes "asked z q L tail"
  shows "\<exists>position. query_cursor z q = Inr position \<and> remainder (qry_sort q) L position tail
      \<and> (map_option snd position = Some True \<longleftrightarrow> qry_after q \<noteq> None)"
  using assms
  by (cases "qry_after q"; cases "qry_before q")
     (auto simp: asked_def query_cursor_def remainder_def and_then_def)

lemma asked_next:
  assumes "wf_tx t" "distinct (map cat_id (b_categories t))" "\<forall>r \<in> set (b_transactions t). 0 < txn_id r"
    and "codec_ok z (set (b_transactions t))" "ordered_listing fts t v (sort_case (qry_sort q)) = front @ l # rest"
  shows "asked z (q\<lparr>qry_after := Some (encode_cursor z (cursor_of l)), qry_before := None\<rparr>) (front @ l # rest) rest"
proof -
  have "lst_txn l \<in> lst_txn ` set (ordered_listing fts t v (sort_case (qry_sort q)))"
    unfolding assms(5) by simp
  then have "lst_txn l \<in> set (map lst_txn (joined_rows t))"
    by (auto simp: ordered_listing_def listed_rows_def)
  then have "lst_txn l \<in> set (b_transactions t)" unfolding joined_txns [OF assms(1,2)] .
  with assms(3,4) have "decode_cursor z (encode_cursor z (cursor_of l)) = Inr (cursor_of l)"
    by (blast intro: decode_edge)
  moreover have "filter (past (qry_sort q) (cursor_of l)) (front @ l # rest) = rest"
    using strictly_listing [OF assms(1,2), of "sort_case (qry_sort q)" fts v] unfolding assms(5)
    by (rule past_at_row) (rule at_row_cursor_of)
  ultimately show ?thesis by (simp add: asked_def)
qed

text \<open>The answer read off the ordered listing \<open>L\<close> and what is asked of it.\<close>

definition is_page :: "cursor_codec \<Rightarrow> tx_query \<Rightarrow> listed list \<Rightarrow> listed list \<Rightarrow> connection \<Rightarrow> bool" where
  "is_page z q L tail c \<longleftrightarrow>
     (let backwards = (positive (qry_last q) \<noteq> None); more = (nat (page_limit q) < length tail)
      in map fst (cnn_edges c) = page_of q tail
         \<and> list_all (\<lambda>(l, s). s = encode_cursor z (cursor_of l)) (cnn_edges c)
         \<and> cnn_total_count c = of_nat (length L)
         \<and> pgi_has_next_page (cnn_page_info c) = (if backwards then qry_before q \<noteq> None else more)
         \<and> pgi_has_previous_page (cnn_page_info c) = (if backwards then more else qry_after q \<noteq> None))"

lemma edges_cursors: "list_all (\<lambda>(l, s). s = encode_cursor z (cursor_of l)) (map (edge z) ls)"
  by (induction ls) (simp_all add: edge_def)

lemma edges_rows: "map fst (map (edge z) ls) = ls"
  by (induction ls) (simp_all add: edge_def)

lemma fetched_page: "rev (take n (rev xs)) = drop (length xs - n) xs"
  by (simp add: rev_take)

lemma connection_page:
  assumes "map_option snd position = Some True \<longleftrightarrow> qry_after q \<noteq> None"
    and "backwards = (positive (qry_last q) \<noteq> None)" "limit = nat (page_limit q)"
  shows "is_page z q L tail (connection_of z q position backwards limit (length L)
      (limited (int limit + 1) (if backwards then rev tail else tail)))"
proof -
  have rows: "limited (int limit + 1) ls = take (Suc limit) ls" "take limit (take (Suc limit) ls) = take limit ls"
    "limit < length (take (Suc limit) ls) \<longleftrightarrow> limit < length ls" for ls :: "listed list"
    by (simp_all add: limited_def nat_add_distrib min_def)
  show ?thesis
    unfolding is_page_def connection_of_def Let_def rows connection.simps page_info.simps edges_rows edges_cursors
      page_of_def assms(2,3) [symmetric]
    using assms by (auto simp: fetched_page edges_cursors simp del: list.pred_map)
qed

text \<open>C23: A page of transactions. When no statement fails, a query whose filter decodes, and which has no
  cursor or one that decodes, gets an answer, and every answer is read off the ordered listing of the matching
  transactions, each once: with \<open>first\<close> the next rows after the place of the \<open>after\<close> cursor, whether
  or not its row is still listed, with \<open>last\<close> the final rows of what follows it, in display order; the flags
  say whether rows are left over. Each edge carries the cursor of its own row, and where the formats take back
  what they wrote for these transactions, the next query with it as \<open>after\<close> goes on right behind that row. A
  \<open>before\<close> cursor is decoded and then plays no part in which rows are returned.\<close>

theorem listing_pages:
  assumes "wf_tx (w_tables w)" "distinct (map cat_id (b_categories (w_tables w)))"
    and "values_from_filter x (qry_filter q) [] = Inr v"
    and "L = ordered_listing fts (w_tables w) v (sort_case (qry_sort q))" "asked z q L tail"
    and "run_state (transactions x z fts q) w = (result, w')"
  shows "w_tables w' = w_tables w \<and> strictly (sort_case (qry_sort q)) L
    \<and> set L = set (listed_rows fts (w_tables w) v) \<and> suffix tail L
    \<and> (case result of
         Inl _ \<Rightarrow> \<exists>i \<ge> w_queries w. w_faults w i
       | Inr c \<Rightarrow> is_page z q L tail c)
    \<and> (codec_ok z (set (b_transactions (w_tables w))) \<and> (\<forall>r \<in> set (b_transactions (w_tables w)). 0 < txn_id r) \<longrightarrow>
        (\<forall>front l rest. L = front @ l # rest \<longrightarrow>
          asked z (q\<lparr>qry_after := Some (encode_cursor z (cursor_of l)), qry_before := None\<rparr>) L rest))"
proof -
  have strict: "strictly (sort_case (qry_sort q)) L"
    unfolding assms(4) by (rule strictly_listing [OF assms(1,2)])
  have rows_of: "set L = set (listed_rows fts (w_tables w) v)"
    by (simp add: assms(4) ordered_listing_def)
  let ?Q = "\<lambda>result w'. w_tables w' = w_tables w \<and>
    (case result of Inl _ \<Rightarrow> \<exists>i \<ge> w_queries w. w_faults w i | Inr c \<Rightarrow> is_page z q L tail c)"
  obtain position where position: "query_cursor z q = Inr position"
      "remainder (qry_sort q) (ordered_listing fts (w_tables w) v (sort_case (qry_sort q))) position tail"
      "map_option snd position = Some True \<longleftrightarrow> qry_after q \<noteq> None"
    using asked_remainder [OF assms(5) [unfolded assms(4)]] by blast
  have count: "length (listed_rows fts (w_tables w) v) = length L"
    by (simp add: assms(4) ordered_listing_def)
  have rows: "wp (try_bind (records fts v position (qry_sort q) (positive (qry_last q) \<noteq> None) (int (nat (page_limit q)) + 1))
      (\<lambda>rows. ok (connection_of z q position (positive (qry_last q) \<noteq> None) (nat (page_limit q)) (length L) rows)))
      ?Q (spend_statement w)"
  proof (rule wp_try_bindI, rule wp_records [where tail = tail])
    fix e and w' :: "tx_tables world"
    assume same: "w_tables w' = w_tables (spend_statement w)"
      and "w_faults (spend_statement w) (w_queries (spend_statement w))"
    then have "w_faults w (Suc (w_queries w))" by simp
    with same show "case Inl e of Inl e \<Rightarrow> ?Q (Inl e) w' | Inr a \<Rightarrow> wp (ok (connection_of z q position
        (positive (qry_last q) \<noteq> None) (nat (page_limit q)) (length L) a)) ?Q w'"
      by (auto intro: exI [of _ "Suc (w_queries w)"])
  next
    fix w' :: "tx_tables world"
    assume "w_tables w' = w_tables (spend_statement w)"
    then show "case Inr (limited (int (nat (page_limit q)) + 1) (if positive (qry_last q) \<noteq> None then rev tail else tail)) of
        Inl e \<Rightarrow> ?Q (Inl e) w' | Inr a \<Rightarrow> wp (ok (connection_of z q position
        (positive (qry_last q) \<noteq> None) (nat (page_limit q)) (length L) a)) ?Q w'"
      using connection_page [OF position(3) refl refl, where z = z and L = L and tail = tail] by (simp add: wp_ok)
  qed (use assms(1,2) position(2) in simp_all)
  have "wp (transactions x z fts q) ?Q w"
    using rows unfolding transactions_def Let_def wp_try_bind wp_of_result assms(3) sum.case position(1)
      count_transaction_records_def wp_select count by auto
  with assms(6) have "?Q result w'" by (blast dest: wp_run)
  moreover have "suffix tail L"
    using strict position(2) unfolding assms(4) by (rule remainder_suffix)
  moreover have "asked z (q\<lparr>qry_after := Some (encode_cursor z (cursor_of l)), qry_before := None\<rparr>) L rest"
    if "codec_ok z (set (b_transactions (w_tables w)))" "\<forall>r \<in> set (b_transactions (w_tables w)). 0 < txn_id r"
      "L = front @ l # rest" for front l rest
    unfolding that(3) by (rule asked_next [OF assms(1,2) that(2,1)]) (use that(3) assms(4) in simp)
  ultimately show ?thesis using strict rows_of by blast
qed

section \<open>The export\<close>

text \<open>\<open>next_page rest w\<close>: the answer to the request for the page after which \<open>rest\<close> still starts with
  it, in a world where a failed statement shows.\<close>

definition page_answer :: "listed list \<Rightarrow> tx_tables world \<Rightarrow> error + (listed list \<times> cursor option) \<Rightarrow> tx_tables world \<Rightarrow> bool" where
  "page_answer rest w r w' \<longleftrightarrow> w_tables w' = w_tables w \<and>
     (case r of
        Inl _ \<Rightarrow> \<exists>i \<ge> w_queries w. w_faults w i
      | Inr (page, c) \<Rightarrow> later w w' \<and> page = take PAGE_SIZE rest
          \<and> c = (if PAGE_SIZE < length rest then Some ((cursor_of (last page))\<lparr>cur_amount := 0\<rparr>) else None))"

lemma wp_export_page:
  assumes "wf_tx (w_tables w)" "distinct (map cat_id (b_categories (w_tables w)))"
    and "values_from_filter x f [] = Inr v"
    and "remainder None (ordered_listing fts (w_tables w) v Datetime_Desc) (map_option (\<lambda>c. (c, True)) c) rest"
  shows "wp (export_transaction_page x fts f c PAGE_SIZE) (page_answer rest w) w"
proof -
  have rest: "remainder None (ordered_listing fts (w_tables w) v (sort_case None)) (map_option (\<lambda>c. (c, True)) c) rest"
    using assms(4) by (simp add: sort_case_def order_case_def)
  have rows: "limited (int PAGE_SIZE + 1) ls = take (Suc PAGE_SIZE) ls" "take PAGE_SIZE (take (Suc PAGE_SIZE) ls) = take PAGE_SIZE ls"
    "PAGE_SIZE < length (take (Suc PAGE_SIZE) ls) \<longleftrightarrow> PAGE_SIZE < length ls" for ls :: "listed list"
    by (simp_all add: limited_def nat_add_distrib min_def)
  show ?thesis
    unfolding export_transaction_page_def assms(3)
    by (rule wp_try_bindI, unfold wp_of_result sum.case, rule wp_try_bindI, rule wp_records [OF assms(1,2) rest])
       (auto simp: page_answer_def wp_ok Let_def rows cursor_of_def)
qed

text \<open>What is left to do when a page was fetched.\<close>

definition pending_export :: "listed list \<Rightarrow> listed list \<Rightarrow> cursor option \<Rightarrow> listed list \<Rightarrow> bool" where
  "pending_export L page c rest \<longleftrightarrow>
     (case c of None \<Rightarrow> rest = [] | Some c \<Rightarrow> rest \<noteq> [] \<and> (\<exists>front l. L = front @ l # rest \<and> c = (cursor_of l)\<lparr>cur_amount := 0\<rparr>))"

lemma pending_export_page:
  assumes "L = front @ rest" "c = (if PAGE_SIZE < length rest
      then Some ((cursor_of (last (take PAGE_SIZE rest)))\<lparr>cur_amount := 0\<rparr>) else None)"
  shows "pending_export L (take PAGE_SIZE rest) c (drop PAGE_SIZE rest)"
proof (cases "PAGE_SIZE < length rest")
  case True
  let ?page = "take PAGE_SIZE rest"
  have "?page \<noteq> []" using True by (auto simp: PAGE_SIZE_def)
  then have "L = (front @ butlast ?page) @ last ?page # drop PAGE_SIZE rest"
    unfolding assms(1) append_assoc append_Cons [symmetric]
    by (metis append_assoc append_butlast_last_id append_take_drop_id append.simps(1,2))
  with True assms(2) show ?thesis by (auto simp: pending_export_def)
qed (simp add: assms(2) pending_export_def)

lemma remainder_pending:
  assumes "strictly (sort_case None) L" "pending_export L page (Some c) rest"
  shows "remainder None L (Some (c, True)) rest"
proof -
  obtain front l where L: "L = front @ l # rest" and c: "c = (cursor_of l)\<lparr>cur_amount := 0\<rparr>"
    using assms(2) by (auto simp: pending_export_def)
  have "filter (past None c) (front @ l # rest) = rest"
    using assms(1) unfolding L
    by (rule past_at_row) (simp add: c at_row_def cursor_of_def to_timestamp_def of_timestamp_def nanos_def)
  then show ?thesis by (simp add: remainder_def L)
qed

text \<open>The chunks of an export: a prefix of what is left, all of it unless a statement failed.\<close>

definition exported :: "listed list \<Rightarrow> tx_tables world \<Rightarrow> listed list list option \<Rightarrow> bool" where
  "exported todo w chunks \<longleftrightarrow>
     (\<exists>cs. chunks = Some cs \<and> prefix (concat cs) todo \<and> (concat cs = todo \<or> (\<exists>i \<ge> w_queries w. w_faults w i)))"

lemma wp_export_chunks:
  assumes "wf_tx (w_tables w)" "distinct (map cat_id (b_categories (w_tables w)))"
    and "values_from_filter x f [] = Inr v" "L = ordered_listing fts (w_tables w) v Datetime_Desc"
    and "pending_export L page c rest" "L = front @ page @ rest" "length rest \<le> PAGE_SIZE * k"
  shows "wp (export_chunks x fts f (Suc k) (page, c)) (\<lambda>r w'. w_tables w' = w_tables w \<and> exported (page @ rest) w r) w"
  using assms
proof (induction k arbitrary: page c rest front w)
  case 0
  then show ?case
    by (cases c) (auto simp: wp_return pending_export_def exported_def wp_bind)
next
  case (Suc k)
  show ?case
  proof (cases c)
    case None
    with Suc.prems(5) show ?thesis
      by (simp add: wp_return pending_export_def exported_def)
  next
    case (Some c')
    have next_page: "wp (export_transaction_page x fts f (Some c') PAGE_SIZE) (page_answer rest w) w"
      using Suc.prems(4,5) Some remainder_pending [of L page c' rest] strictly_listing [OF Suc.prems(1,2), of Datetime_Desc fts v]
      unfolding sort_case_def order_case_def
      by (intro wp_export_page [OF Suc.prems(1-3)]) simp
    show ?thesis
      unfolding Some export_chunks.simps(2) option.case wp_bind
    proof (rule wp_mono [OF next_page], goal_cases)
      case (1 r w')
      show ?case
      proof (cases r)
        case (Inl e)
        with 1 show ?thesis by (auto simp: page_answer_def wp_return exported_def)
      next
        case (Inr p)
        obtain page' c'' where p: "p = (page', c'')" by (cases p)
        from 1 Inr p have w': "w_tables w' = w_tables w" "later w w'" and page': "page' = take PAGE_SIZE rest"
          and c'': "c'' = (if PAGE_SIZE < length rest
            then Some ((cursor_of (last (take PAGE_SIZE rest)))\<lparr>cur_amount := 0\<rparr>) else None)"
          by (simp_all add: page_answer_def)
        have rest: "pending_export L page' c'' (drop PAGE_SIZE rest)"
          unfolding page' by (rule pending_export_page [OF _ c'']) (use Suc.prems(6) in simp)
        have "wp (export_chunks x fts f (Suc k) (page', c''))
          (\<lambda>r w''. w_tables w'' = w_tables w' \<and> exported (page' @ drop PAGE_SIZE rest) w' r) w'"
          by (rule Suc.IH [where front = "front @ page"])
             (use Suc.prems w' rest in \<open>simp_all add: page'\<close>)
        moreover have "page' @ drop PAGE_SIZE rest = rest" by (simp add: page')
        moreover have "w_faults w' = w_faults w" "w_queries w \<le> w_queries w'"
          using w'(2) by (simp_all add: later_def)
        ultimately show ?thesis
          unfolding Inr sum.case p wp_bind wp_return
          by (auto elim!: wp_mono simp: w'(1) exported_def intro: order_trans)
      qed
    qed
  qed
qed

text \<open>C24: The export is the whole listing. With as many steps as the matching transactions have pages of
  five hundred the download comes to its end, and unless one of its statements fails the chunks of the
  body put together are the matching transactions, newest first, each once; the pages neither repeat
  nor skip a row at their joints. When a statement fails after the first page the body still ends like
  a complete one, with only a prefix of the rows; no transaction is written.\<close>

theorem export_complete:
  assumes "wf_tx (w_tables w)" "distinct (map cat_id (b_categories (w_tables w)))"
    and "values_from_filter x f [] = Inr v"
    and "L = ordered_listing fts (w_tables w) v Datetime_Desc" "length L \<le> PAGE_SIZE * Suc k"
    and "run_state (export_body x fts f (Suc k)) w = (result, w')"
  shows "w_tables w' = w_tables w \<and> strictly Datetime_Desc L
    \<and> (case result of
         Inl _ \<Rightarrow> \<exists>i \<ge> w_queries w. w_faults w i
       | Inr chunks \<Rightarrow> exported L w chunks)"
proof -
  let ?Q = "\<lambda>r w'. w_tables w' = w_tables w \<and>
    (case r of Inl _ \<Rightarrow> \<exists>i \<ge> w_queries w. w_faults w i | Inr chunks \<Rightarrow> exported L w chunks)"
  have first: "wp (export_transaction_page x fts f None PAGE_SIZE) (page_answer L w) w"
    by (rule wp_export_page [OF assms(1-3)]) (simp add: remainder_def assms(4))
  have "wp (export_body x fts f (Suc k)) ?Q w"
    unfolding export_body_def wp_bind
  proof (rule wp_mono [OF first], goal_cases)
    case (1 r w1)
    show ?case
    proof (cases r)
      case (Inl e)
      with 1 show ?thesis by (auto simp: page_answer_def wp_return)
    next
      case (Inr p)
      obtain page c where p: "p = (page, c)" by (cases p)
      from 1 Inr p have w1: "w_tables w1 = w_tables w" "later w w1" and page: "page = take PAGE_SIZE L"
        and c: "c = (if PAGE_SIZE < length L
          then Some ((cursor_of (last (take PAGE_SIZE L)))\<lparr>cur_amount := 0\<rparr>) else None)"
        by (simp_all add: page_answer_def)
      have rest: "pending_export L page c (drop PAGE_SIZE L)"
        unfolding page by (rule pending_export_page [OF _ c, of _ "[]"]) simp
      have "wp (export_chunks x fts f (Suc k) (page, c))
        (\<lambda>r w''. w_tables w'' = w_tables w1 \<and> exported (page @ drop PAGE_SIZE L) w1 r) w1"
        by (rule wp_export_chunks [where front = "[]" and L = L, OF _ _ assms(3) _ rest])
           (use assms(1,2,4,5) w1 in \<open>simp_all add: page\<close>)
      moreover have "page @ drop PAGE_SIZE L = L" by (simp add: page)
      moreover have "w_faults w1 = w_faults w" "w_queries w \<le> w_queries w1"
        using w1(2) by (simp_all add: later_def)
      ultimately show ?thesis
        unfolding Inr sum.case p wp_lift
        by (auto elim!: wp_mono simp: w1(1) exported_def intro: order_trans)
    qed
  qed
  with assms(6) have "?Q result w'" by (blast dest: wp_run)
  then show ?thesis using strictly_listing [OF assms(1,2)] assms(4) by simp
qed

end
