(* ===== verification/Tx_Listing_Scenario.thy ===== *)
theory Tx_Listing_Scenario
  imports Tx_Listing_Laws Tx_Scenario Plaid_Scenario
begin

text \<open>The listing and the export of two transactions.\<close>

section \<open>A codec\<close>

definition enc_nat :: "nat \<Rightarrow> string \<Rightarrow> string" where
  "enc_nat n s = replicate n CHR ''1'' @ CHR ''0'' # s"

definition dec_nat :: "string \<Rightarrow> nat \<times> string" where
  "dec_nat s = (length (takeWhile (\<lambda>c. c = CHR ''1'') s), tl (dropWhile (\<lambda>c. c = CHR ''1'') s))"

lemma dec_enc_nat [simp]: "dec_nat (enc_nat n s) = (n, s)"
  by (induction n) (simp_all add: dec_nat_def enc_nat_def)

definition int_code :: "int \<Rightarrow> nat" where
  "int_code i = (if i < 0 then 2 * nat (- i) - 1 else 2 * nat i)"

definition code_int :: "nat \<Rightarrow> int" where
  "code_int n = (if odd n then - int ((n + 1) div 2) else int (n div 2))"

lemma code_int_code [simp]: "code_int (int_code i) = i"
proof (cases "i < 0")
  case True
  then obtain k where "i = - int (Suc k)" by (metis neg_int_cases not0_implies_Suc of_nat_0_less_iff less_numeral_extra(3))
  then show ?thesis by (simp add: code_int_def int_code_def nat_add_distrib)
qed (simp add: code_int_def int_code_def)

definition demo_codec :: cursor_codec where
  "demo_codec =
     \<lparr>z_encode = (\<lambda>(d, i, f). enc_nat (int_code i) (enc_nat (case f of None \<Rightarrow> 0 | Some f \<Rightarrow> Suc (unat f)) d)),
      z_decode = (\<lambda>s. case dec_nat s of (i, s) \<Rightarrow> case dec_nat s of (f, d) \<Rightarrow>
        Some (d, code_int i, case f of 0 \<Rightarrow> None | Suc f \<Rightarrow> Some (of_nat f))),
      z_rfc3339 = (\<lambda>d. enc_nat (int_code d) ''''),
      z_parse_datetime = (\<lambda>s. Some (of_timestamp (code_int (fst (dec_nat s))))),
      z_dollars = (\<lambda>c. c), z_crates = demo_crates\<rparr>"

lemma demo_codec_ok: "codec_ok demo_codec rows"
  by (auto simp: codec_ok_def demo_codec_def demo_crates_def Let_def split: option.split prod.split)

section \<open>The second page\<close>

definition no_fts :: fts where
  "no_fts = (\<lambda>_ _. True)"

definition demo_listing :: "listed list" where
  "demo_listing = ordered_listing no_fts demo_tx (no_values []) Datetime_Desc"

definition demo_query :: tx_query where
  "demo_query = \<lparr>qry_filter = None, qry_sort = None, qry_first = Some 1,
     qry_after = Some (encode_cursor demo_codec (cursor_of (hd demo_listing))), qry_last = None, qry_before = None\<rparr>"

lemma demo_listing_ids: "map (\<lambda>l. txn_id (lst_txn l)) demo_listing = [2, 1]"
  by code_simp

lemma demo_two: "\<exists>l l'. demo_listing = [l, l'] \<and> txn_id (lst_txn l) = 2 \<and> txn_id (lst_txn l') = 1"
  using demo_listing_ids by (auto simp: map_eq_Cons_conv)

lemma demo_second: "asked demo_codec demo_query demo_listing (tl demo_listing)"
proof -
  have t: "distinct (map cat_id (b_categories demo_tx))" "\<forall>r \<in> set (b_transactions demo_tx). 0 < txn_id r"
    by code_simp+
  obtain l l' where two: "demo_listing = [l, l']" using demo_two by blast
  then have "ordered_listing no_fts demo_tx (no_values []) (sort_case (qry_sort demo_query)) = [] @ l # [l']"
    by (simp add: demo_listing_def demo_query_def sort_case_def order_case_def)
  from asked_next [OF wf_demo_tx [unfolded tx_world_def, simplified] t demo_codec_ok this] show ?thesis
    by (simp add: two demo_query_def)
qed

lemma listing_pages_witness:
  "asked demo_codec (demo_query\<lparr>qry_after := Some (encode_cursor demo_codec (cursor_of (hd demo_listing))), qry_before := None\<rparr>)
       demo_listing (tl demo_listing)
   \<and> (\<exists>c. fst (run_state (transactions no_base64 demo_codec no_fts demo_query) tx_world) = Inr c
     \<and> map (\<lambda>l. txn_id (lst_txn l)) (map fst (cnn_edges c)) = [1]
     \<and> cnn_total_count c = 2 \<and> \<not> pgi_has_next_page (cnn_page_info c) \<and> pgi_has_previous_page (cnn_page_info c))"
proof -
  have t: "distinct (map cat_id (b_categories (w_tables tx_world)))" "\<forall>r \<in> set (b_transactions (w_tables tx_world)). 0 < txn_id r"
    by code_simp+
  have v: "values_from_filter no_base64 (qry_filter demo_query) [] = Inr (no_values [])"
    by (simp add: values_from_filter_def demo_query_def)
  have L: "demo_listing = ordered_listing no_fts (w_tables tx_world) (no_values []) (sort_case (qry_sort demo_query))"
    by (simp add: demo_listing_def tx_world_def demo_query_def sort_case_def order_case_def)
  have calm: "\<not> (\<exists>i \<ge> w_queries tx_world. w_faults tx_world i)"
    by (simp add: tx_world_def)
  note page = listing_pages [OF wf_demo_tx t(1) v L demo_second prod.collapse [symmetric]]
  obtain c where c: "fst (run_state (transactions no_base64 demo_codec no_fts demo_query) tx_world) = Inr c"
      "is_page demo_codec demo_query demo_listing (tl demo_listing) c"
    using page calm by (cases "fst (run_state (transactions no_base64 demo_codec no_fts demo_query) tx_world)") auto
  obtain l l' where two: "demo_listing = [l, l']" "txn_id (lst_txn l') = 1" using demo_two by blast
  have "nat (page_limit demo_query) = 1" "positive (qry_last demo_query) = None"
    by code_simp+
  moreover have "qry_after demo_query \<noteq> None" by (simp add: demo_query_def)
  ultimately have "\<exists>c. fst (run_state (transactions no_base64 demo_codec no_fts demo_query) tx_world) = Inr c
     \<and> map (\<lambda>l. txn_id (lst_txn l)) (map fst (cnn_edges c)) = [1]
     \<and> cnn_total_count c = 2 \<and> \<not> pgi_has_next_page (cnn_page_info c) \<and> pgi_has_previous_page (cnn_page_info c)"
    using c two(2) unfolding two(1) is_page_def page_of_def Let_def by auto
  moreover have "demo_listing = [] @ hd demo_listing # tl demo_listing" by (simp add: two(1))
  ultimately show ?thesis
    using page demo_codec_ok t(2) by blast
qed

section \<open>The export\<close>

lemma export_complete_witness:
  "\<exists>cs. fst (run_state (export_body no_base64 no_fts None (Suc 0)) tx_world) = Inr (Some cs)
     \<and> map (\<lambda>l. txn_id (lst_txn l)) (concat cs) = [2, 1]"
proof -
  have t: "distinct (map cat_id (b_categories (w_tables tx_world)))" by code_simp
  have v: "values_from_filter no_base64 None [] = Inr (no_values [])"
    by (simp add: values_from_filter_def)
  have L: "demo_listing = ordered_listing no_fts (w_tables tx_world) (no_values []) Datetime_Desc"
    by (simp add: demo_listing_def tx_world_def)
  have short: "length demo_listing \<le> PAGE_SIZE * Suc 0"
    using arg_cong [OF demo_listing_ids, of length] by (simp add: PAGE_SIZE_def)
  have calm: "\<not> (\<exists>i \<ge> w_queries tx_world. w_faults tx_world i)"
    by (simp add: tx_world_def)
  note body = export_complete [OF wf_demo_tx t v L short prod.collapse [symmetric]]
  then obtain cs where "fst (run_state (export_body no_base64 no_fts None (Suc 0)) tx_world) = Inr (Some cs)"
      "concat cs = demo_listing"
    using calm by (auto simp: exported_def split: sum.splits)
  then show ?thesis using demo_listing_ids by simp
qed

end
