(* ===== verification/Tx_Edit.thy ===== *)
theory Tx_Edit
  imports Tx_Listing
begin

text \<open>
  Creating, changing and deleting transactions by hand (src/server-rs/src/transactions/store/transactions.rs,
  transaction_targets.rs and transaction_updates.rs) and the summary of a filter. The parser of dates and
  the average of amounts as a double are parameters.
\<close>

section \<open>The queries\<close>

definition account_by_id :: "int \<Rightarrow> account_row option tx_db" where
  "account_by_id ident = select (\<lambda>t.
     find (\<lambda>a. acc_id a = ident \<and> list_ex (\<lambda>w. own_id w = acc_owner_id a) (b_owners t)) (b_accounts t))"

definition category_by_id :: "int \<Rightarrow> category_row option tx_db" where
  "category_by_id ident = select (\<lambda>t. find (\<lambda>c. cat_id c = ident) (b_categories t))"

definition delete_transactions_by_ids :: "int list \<Rightarrow> nat tx_db" where
  "delete_transactions_by_ids ids = exec_rows (\<lambda>t.
     let P = (\<lambda>r. txn_id r \<in> set ids) in (count_rows P (b_transactions t), delete_transactions P t))"

definition delete_transaction_tags :: "int list \<Rightarrow> unit tx_db" where
  "delete_transaction_tags transaction_ids = exec (\<lambda>t.
     t\<lparr>b_transaction_tags := delete_rows (\<lambda>(txn, tag). txn \<in> set transaction_ids) (b_transaction_tags t)\<rparr>)"

section \<open>What a bulk change is about\<close>

definition bulk_target_required :: error where
  "bulk_target_required = Msg ''exactly one of transactionIds or filter is required''"

definition resolve_bulk_target_ids ::
    "base64 \<Rightarrow> fts \<Rightarrow> global_id list option \<Rightarrow> tx_filter option \<Rightarrow> int list tx_db" where
  "resolve_bulk_target_ids x fts transaction_ids f =
     try_bind (of_result (values_from_filter x f [])) (\<lambda>v.
     try_bind (of_result (traverse (\<lambda>g. and_then (i64_of_type g Transaction) (\<lambda>i. Inr (sint i)))
       (unwrap_or [] transaction_ids))) (\<lambda>ids.
     if (ids \<noteq> []) = has_criteria v then err bulk_target_required
     else try_bind (of_result (if has_criteria v then Inr v else values_from_filter x f ids)) (\<lambda>v.
       transaction_ids_by_filter fts v)))"

section \<open>Updates\<close>

record update_params =
  upp_fields :: field_updates
  upp_ids :: "int list"
  upp_changed :: bool

definition trimmed_text :: "string \<Rightarrow> string option" where
  "trimmed_text s = (if trim s \<noteq> '''' then Some (trim s) else None)"

definition update_params_of :: "base64 \<Rightarrow> transaction_updates \<Rightarrow> int list \<Rightarrow> error + update_params" where
  "update_params_of x u ids =
     and_then (case upd_category_id u of
         None \<Rightarrow> Inr None
       | Some ident \<Rightarrow> and_then (local_id x ident Category) (\<lambda>i. Inr (Some i))) (\<lambda>category_id.
     let fields = \<lparr>set_merchant_name = map_option trimmed_text (upd_merchant_name u),
           set_notes = map_option trimmed_text (upd_notes u), set_recurring = upd_is_recurring u,
           set_hidden = upd_is_hidden u, set_category = category_id\<rparr>
     in Inr \<lparr>upp_fields = fields, upp_ids = ids,
          upp_changed = (set_merchant_name fields \<noteq> None \<or> set_notes fields \<noteq> None
            \<or> set_recurring fields \<noteq> None \<or> set_hidden fields \<noteq> None \<or> category_id \<noteq> None)\<rparr>)"

definition tags_of_updates :: "base64 \<Rightarrow> transaction_updates \<Rightarrow> error + int list option" where
  "tags_of_updates x u =
     (case upd_tag_ids u of
        None \<Rightarrow> Inr None
      | Some tag_ids \<Rightarrow> and_then (local_ids x (Some tag_ids) Tag) (\<lambda>tags. Inr (Some tags)))"

definition replace_transaction_tags :: "int list \<Rightarrow> int list \<Rightarrow> unit tx_db" where
  "replace_transaction_tags transaction_ids tag_ids =
     try_bind (delete_transaction_tags transaction_ids) (\<lambda>_.
     if tag_ids \<noteq> [] then add_transaction_tags tag_ids transaction_ids else ok ())"

definition replace_given_tags :: "int list \<Rightarrow> int list option \<Rightarrow> unit tx_db" where
  "replace_given_tags ids tags = (case tags of None \<Rightarrow> ok () | Some tags \<Rightarrow> replace_transaction_tags ids tags)"

definition transaction_not_found :: error where
  "transaction_not_found = Msg ''transaction not found''"

definition hydrated :: "fts \<Rightarrow> int \<Rightarrow> listed tx_db" where
  "hydrated fts ident = try_bind (transaction_by_id fts ident) (\<lambda>l.
     case l of None \<Rightarrow> err transaction_not_found | Some l \<Rightarrow> ok l)"

definition update_transaction :: "base64 \<Rightarrow> fts \<Rightarrow> int \<Rightarrow> transaction_updates \<Rightarrow> listed tx_db" where
  "update_transaction x fts ident u =
     try_bind (of_result (update_params_of x u [ident])) (\<lambda>params.
     try_bind (of_result (tags_of_updates x u)) (\<lambda>tags.
     if \<not> upp_changed params \<and> tags = None then hydrated fts ident
     else try_bind (with_tx (
         try_bind (if upp_changed params then
             try_bind (update_transaction_fields (upp_fields params) (upp_ids params)) (\<lambda>rows.
               if rows = 0 then err transaction_not_found else ok ())
           else ok ()) (\<lambda>_.
         replace_given_tags [ident] tags))) (\<lambda>_.
       hydrated fts ident)))"

definition bulk_update_transactions ::
    "base64 \<Rightarrow> fts \<Rightarrow> global_id list option \<Rightarrow> tx_filter option \<Rightarrow> transaction_updates option \<Rightarrow> listed list tx_db" where
  "bulk_update_transactions x fts transaction_ids f updates =
     (case updates of
        None \<Rightarrow> err (Msg ''updates is required'')
      | Some u \<Rightarrow>
          try_bind (resolve_bulk_target_ids x fts transaction_ids f) (\<lambda>ids.
          if ids = [] then ok []
          else
            try_bind (of_result (update_params_of x u ids)) (\<lambda>params.
            try_bind (of_result (tags_of_updates x u)) (\<lambda>tags.
            try_bind (if upp_changed params \<or> tags \<noteq> None then with_tx (
                try_bind (if upp_changed params then
                    try_bind (update_transaction_fields (upp_fields params) (upp_ids params)) (\<lambda>_. ok ())
                  else ok ()) (\<lambda>_.
                replace_given_tags ids tags))
              else ok ()) (\<lambda>_.
            transactions_by_ids fts ids)))))"

section \<open>Deletions\<close>

definition delete_transaction :: "int \<Rightarrow> bool tx_db" where
  "delete_transaction ident = try_bind (delete_transactions_by_ids [ident]) (\<lambda>rows. ok (0 < rows))"

definition bulk_delete_transactions ::
    "base64 \<Rightarrow> fts \<Rightarrow> global_id list option \<Rightarrow> tx_filter option \<Rightarrow> nat tx_db" where
  "bulk_delete_transactions x fts transaction_ids f =
     try_bind (resolve_bulk_target_ids x fts transaction_ids f) (\<lambda>ids.
     if ids = [] then ok 0 else delete_transactions_by_ids ids)"

section \<open>Creation\<close>

record create_input =
  cri_account_id :: string
  cri_date :: string
  cri_amount :: cents
  cri_merchant_name :: "string option"
  cri_original_name :: "string option"
  cri_category_id :: "string option"
  cri_notes :: "string option"
  cri_is_recurring :: "bool option"
  cri_is_hidden :: "bool option"

text \<open>\<open>NaiveDate::parse_from_str\<close>: the message of its error, or the days since the epoch.\<close>

type_synonym date_parser = "string \<Rightarrow> string + int"

definition noon :: "int \<Rightarrow> int" where
  "noon days = days * day_nanos + half_day_nanos"

definition manual_row :: "create_input \<Rightarrow> account_row \<Rightarrow> int \<Rightarrow> int \<Rightarrow> txn_row" where
  "manual_row input account category_id datetime =
     \<lparr>txn_id = 0, txn_source = ''manual'', txn_external_id = '''', txn_account_id = acc_id account,
      txn_amount_cents = cri_amount input, txn_datetime = to_timestamp datetime,
      txn_posted_datetime = to_timestamp datetime, txn_merchant_name = trimmed (cri_merchant_name input),
      txn_original_name = trimmed (cri_original_name input), txn_logo_url = None,
      txn_category_id = category_id, txn_is_reviewed = (cri_category_id input \<noteq> None),
      txn_is_recurring = unwrap_or False (cri_is_recurring input),
      txn_is_hidden = unwrap_or (acc_is_hidden account) (cri_is_hidden input), txn_pending = False,
      txn_notes = trimmed (cri_notes input), txn_plaid_category = None, txn_raw_provider_json = None,
      txn_staged_for_llm = False, txn_pfc2_categorized = False\<rparr>"

fun insert_manual :: "nat \<Rightarrow> txn_row \<Rightarrow> int option tx_db" where
  "insert_manual 0 row = ok None"
| "insert_manual (Suc n) row = do {
     token \<leftarrow> random_token 6;
     try_bind (insert_transaction_row (row\<lparr>txn_external_id := ''manual-'' @ token\<rparr>)) (\<lambda>r.
       case r of None \<Rightarrow> insert_manual n row | Some i \<Rightarrow> ok (Some i))
   }"

definition category_of_input :: "base64 \<Rightarrow> string option \<Rightarrow> int tx_db" where
  "category_of_input x ident =
     (case ident of
        None \<Rightarrow> ok 0
      | Some ident \<Rightarrow>
          try_bind (of_result (local_id x ident Category)) (\<lambda>i.
          try_bind (category_by_id i) (\<lambda>c.
          try_bind (ok_or (''category '' @ show_int i @ '' not found'') c) (\<lambda>_. ok i))))"

definition create_transaction :: "base64 \<Rightarrow> date_parser \<Rightarrow> fts \<Rightarrow> create_input \<Rightarrow> listed tx_db" where
  "create_transaction x day fts input =
     try_bind (of_result (local_id x (cri_account_id input) Account)) (\<lambda>account_id.
     try_bind (account_by_id account_id) (\<lambda>found.
     try_bind (ok_or (''account '' @ show_int account_id @ '' not found'') found) (\<lambda>account.
     try_bind (category_of_input x (cri_category_id input)) (\<lambda>category_id.
     try_bind (ensure (trimmed (cri_merchant_name input) \<noteq> None \<or> trimmed (cri_original_name input) \<noteq> None)
       ''merchantName or originalName is required'') (\<lambda>_.
     (case day (cri_date input) of
        Inl e \<Rightarrow> err (Msg e)
      | Inr days \<Rightarrow>
          try_bind (insert_manual 3 (manual_row input account category_id (noon days))) (\<lambda>inserted.
          (case inserted of
             None \<Rightarrow> err (Msg ''generate unique manual transaction id'')
           | Some i \<Rightarrow> try_bind (transaction_by_id fts i) (\<lambda>l.
               case l of None \<Rightarrow> err (Msg (''transaction '' @ show_int i @ '' not found'')) | Some l \<Rightarrow> ok l)))))))))"

section \<open>The summary\<close>

record summary =
  smr_total_count :: "32 word"
  smr_total_amount :: cents
  smr_average_amount :: cents
  smr_largest_amount :: cents
  smr_first_date :: "int option"
  smr_last_date :: "int option"

text \<open>\<open>SUM\<close> fails when its result is not a 64-bit integer. A date is the number of its day.\<close>

definition transaction_records_summary :: "fts \<Rightarrow> filter_values \<Rightarrow> (nat \<times> int \<times> txn_row list) tx_db" where
  "transaction_records_summary fts v = statement (\<lambda>t.
     let rows = map lst_txn (listed_rows fts t v);
         total = sum_list (map (\<lambda>r. sint (txn_amount_cents r)) rows)
     in if in_i64 total then Inr ((length rows, total, rows), t) else Inl DbFault)"

definition transactions_summary ::
    "base64 \<Rightarrow> (int list \<Rightarrow> cents) \<Rightarrow> fts \<Rightarrow> tx_filter option \<Rightarrow> summary tx_db" where
  "transactions_summary x average fts f =
     try_bind (of_result (values_from_filter x f [])) (\<lambda>v.
     try_bind (transaction_records_summary fts v) (\<lambda>(n, total, rows).
     if n = 0 then ok \<lparr>smr_total_count = 0, smr_total_amount = 0, smr_average_amount = 0,
         smr_largest_amount = 0, smr_first_date = None, smr_last_date = None\<rparr>
     else
       let amounts = map (\<lambda>r. sint (txn_amount_cents r)) rows;
           days = map (\<lambda>r. txn_datetime r div day_seconds) rows
       in ok \<lparr>smr_total_count = of_nat n, smr_total_amount = of_int total, smr_average_amount = average amounts,
            smr_largest_amount = of_int (fold max (tl amounts) (hd amounts)),
            smr_first_date = Some (fold min (tl days) (hd days)),
            smr_last_date = Some (fold max (tl days) (hd days))\<rparr>))"

end
