(* ===== verification/Tx_Edit_Laws.thy ===== *)
theory Tx_Edit_Laws
  imports Tx_Edit Tx_Listing_Laws
begin

text \<open>
  A change of transactions changes the ones it is about, in the way it says, and nothing else; it happens
  as a whole or not at all.
\<close>

section \<open>What an edit does to the tables\<close>

definition tags_of :: "tx_tables \<Rightarrow> int \<Rightarrow> int set" where
  "tags_of t i = {tag. (i, tag) \<in> set (b_transaction_tags t)}"

text \<open>A row after a change: a category that is given makes it reviewed, and the categorizers are done with it.\<close>

definition changed_to :: "field_updates \<Rightarrow> txn_row \<Rightarrow> txn_row" where
  "changed_to u r =
     (let r = (case set_merchant_name u of None \<Rightarrow> r | Some v \<Rightarrow> r\<lparr>txn_merchant_name := v\<rparr>);
          r = (case set_notes u of None \<Rightarrow> r | Some v \<Rightarrow> r\<lparr>txn_notes := v\<rparr>);
          r = (case set_recurring u of None \<Rightarrow> r | Some v \<Rightarrow> r\<lparr>txn_is_recurring := v\<rparr>);
          r = (case set_hidden u of None \<Rightarrow> r | Some v \<Rightarrow> r\<lparr>txn_is_hidden := v\<rparr>)
      in case set_category u of
           None \<Rightarrow> r
         | Some c \<Rightarrow> r\<lparr>txn_category_id := c, txn_is_reviewed := True, txn_staged_for_llm := False, txn_pfc2_categorized := False\<rparr>)"

lemma changed_to_fields: "changed_to u = update_fields u"
  by (rule ext, cases "set_merchant_name u"; cases "set_notes u"; cases "set_recurring u"; cases "set_hidden u";
      cases "set_category u") (simp_all add: changed_to_def update_fields_def)

definition edited_as :: "field_updates \<Rightarrow> int list option \<Rightarrow> int set \<Rightarrow> tx_tables \<Rightarrow> tx_tables \<Rightarrow> bool" where
  "edited_as u tags ids t t' \<longleftrightarrow>
     t' = t\<lparr>b_transactions := map (\<lambda>r. if txn_id r \<in> ids then changed_to u r else r) (b_transactions t),
            b_transaction_tags := b_transaction_tags t'\<rparr>
     \<and> (\<forall>r \<in> set (b_transactions t). tags_of t' (txn_id r) =
          (if txn_id r \<in> ids then (case tags of None \<Rightarrow> tags_of t (txn_id r) | Some ts \<Rightarrow> set ts \<inter> set (b_tags t))
           else tags_of t (txn_id r)))"

lemma edited_as_fields:
  "edited_as u tags ids t t' \<longleftrightarrow>
     t' = t\<lparr>b_transactions := map (\<lambda>r. if txn_id r \<in> ids then update_fields u r else r) (b_transactions t),
            b_transaction_tags := b_transaction_tags t'\<rparr>
     \<and> (\<forall>r \<in> set (b_transactions t). tags_of t' (txn_id r) =
          (if txn_id r \<in> ids then (case tags of None \<Rightarrow> tags_of t (txn_id r) | Some ts \<Rightarrow> set ts \<inter> set (b_tags t))
           else tags_of t (txn_id r)))"
  by (simp only: edited_as_def changed_to_fields)

definition no_changes :: "field_updates \<Rightarrow> bool" where
  "no_changes u \<longleftrightarrow> set_merchant_name u = None \<and> set_notes u = None \<and> set_recurring u = None
     \<and> set_hidden u = None \<and> set_category u = None"

lemma update_fields_id [simp]: "txn_id (update_fields u r) = txn_id r" "txn_key (update_fields u r) = txn_key r"
  by (simp_all add: update_fields_def txn_key_def)

lemma update_no_fields: "no_changes u \<Longrightarrow> update_fields u r = r"
  by (simp add: update_fields_def no_changes_def)

lemma params_changed:
  assumes "update_params_of x u ids = Inr params"
  shows "upp_changed params \<longleftrightarrow> \<not> no_changes (upp_fields params)" "upp_ids params = ids"
  using assms
  by (auto simp: update_params_of_def no_changes_def and_then_def Let_def split: option.splits sum.splits)

definition edit_body :: "update_params \<Rightarrow> int list option \<Rightarrow> int list \<Rightarrow> (nat \<Rightarrow> bool) \<Rightarrow> unit tx_db" where
  "edit_body params tags ids accept =
     try_bind (if upp_changed params then
         try_bind (update_transaction_fields (upp_fields params) (upp_ids params)) (\<lambda>rows.
           if accept rows then ok () else err transaction_not_found)
       else ok ()) (\<lambda>_. replace_given_tags ids tags)"

definition retag :: "int list option \<Rightarrow> int set \<Rightarrow> tx_tables \<Rightarrow> (int \<times> int) list" where
  "retag tags ids t =
     (case tags of
        None \<Rightarrow> b_transaction_tags t
      | Some ts \<Rightarrow> insert_or_ignore (concat (map (\<lambda>r. map (\<lambda>tag. (txn_id r, tag))
            (filter (\<lambda>tag. tag \<in> set ts) (b_tags t))) (filter (\<lambda>r. txn_id r \<in> ids) (b_transactions t))))
          (delete_rows (\<lambda>(txn, tag). txn \<in> ids) (b_transaction_tags t)))"

lemma set_retag: "set (retag tags ids t) =
    (case tags of
       None \<Rightarrow> set (b_transaction_tags t)
     | Some ts \<Rightarrow> {(txn, tag) \<in> set (b_transaction_tags t). txn \<notin> ids}
         \<union> {(txn, tag). txn \<in> ids \<and> txn \<in> txn_id ` set (b_transactions t) \<and> tag \<in> set ts \<inter> set (b_tags t)})"
  by (auto simp: retag_def set_delete_rows split: option.splits)

definition edit :: "field_updates \<Rightarrow> int list option \<Rightarrow> int set \<Rightarrow> tx_tables \<Rightarrow> tx_tables" where
  "edit u tags ids t =
     (let t' = t\<lparr>b_transactions := update_rows (\<lambda>r. txn_id r \<in> ids) (update_fields u) (b_transactions t)\<rparr>
      in t'\<lparr>b_transaction_tags := retag tags ids t'\<rparr>)"

lemma edit_edited: "edited_as u tags ids t (edit u tags ids t)"
proof -
  let ?rs = "update_rows (\<lambda>r. txn_id r \<in> ids) (update_fields u) (b_transactions t)"
  have "txn_id ` set ?rs = txn_id ` set (b_transactions t)" by (rule image_update_rows) simp
  then have "\<forall>r \<in> set (b_transactions t). {tag. (txn_id r, tag) \<in> set (retag tags ids (t\<lparr>b_transactions := ?rs\<rparr>))} =
      (if txn_id r \<in> ids then (case tags of None \<Rightarrow> tags_of t (txn_id r) | Some ts \<Rightarrow> set ts \<inter> set (b_tags t))
       else tags_of t (txn_id r))"
    unfolding set_retag by (auto simp: tags_of_def split: option.splits)
  then show ?thesis
    by (simp add: edited_as_fields edit_def Let_def tags_of_def update_rows_def)
qed

lemma wf_edit:
  assumes "wf_tx t" "\<forall>r \<in> set (b_transactions t). txn_id r \<in> ids \<longrightarrow> fk_txn t (update_fields u r)"
  shows "wf_tx (edit u tags ids t)"
proof -
  let ?t = "t\<lparr>b_transactions := update_rows (\<lambda>r. txn_id r \<in> ids) (update_fields u) (b_transactions t)\<rparr>"
  have t: "wf_tx ?t"
    using assms(2) by (intro wf_update_transactions [OF assms(1)]) simp_all
  show ?thesis
    unfolding edit_def Let_def
    by (rule wf_transaction_tags [OF t]) (use wf_txD(9) [OF t] in \<open>auto simp: set_retag split: option.splits\<close>)
qed

lemma wp_replace_given_tags:
  assumes "\<And>e w'. Q (Inl e) w'"
    and "\<And>w'. w_tables w' = (w_tables w)\<lparr>b_transaction_tags := retag tags (set ids) (w_tables w)\<rparr> \<Longrightarrow> Q (Inr ()) w'"
  shows "wp (replace_given_tags ids tags) Q w"
proof (cases tags)
  case None
  then show ?thesis by (simp add: replace_given_tags_def wp_ok assms(2) retag_def)
next
  case (Some ts)
  show ?thesis
    unfolding replace_given_tags_def Some option.case replace_transaction_tags_def wp_try_bind
      delete_transaction_tags_def wp_exec
    using assms(1)
    by (auto simp: wp_if wp_ok add_transaction_tags_def wp_exec intro!: assms(2) simp: Some retag_def insert_or_ignore_def)
qed

lemma wp_edit_body:
  assumes "wf_tx (w_tables w)" "upp_changed params \<longleftrightarrow> \<not> no_changes (upp_fields params)" "upp_ids params = ids"
    and "\<And>e w'. Q (Inl e) w'"
    and "\<And>w'. w_tables w' = edit (upp_fields params) tags (set ids) (w_tables w) \<Longrightarrow> wf_tx (w_tables w') \<Longrightarrow> Q (Inr ()) w'"
  shows "wp (edit_body params tags ids accept) Q w"
proof (cases "upp_changed params")
  case True
  then have body: "edit_body params tags ids accept =
     try_bind (try_bind (update_transaction_fields (upp_fields params) ids) (\<lambda>rows.
           if accept rows then ok () else err transaction_not_found)) (\<lambda>_. replace_given_tags ids tags)"
    by (simp add: edit_body_def assms(3))
  show ?thesis
    unfolding body
  proof (rule wp_try_bindI, rule wp_try_bindI, unfold update_transaction_fields_def wp_statement, goal_cases)
    case 1
    show ?case
    proof (cases "w_faults w (w_queries w)
        \<or> \<not> (\<forall>r \<in> set (b_transactions (w_tables w)). txn_id r \<in> set ids \<longrightarrow> fk_txn (w_tables w) (update_fields (upp_fields params) r))")
      case True
      then show ?thesis by (auto simp: Let_def assms(3,4))
    next
      case False
      then have wf: "wf_tx (edit (upp_fields params) tags (set ids) (w_tables w))"
        by (intro wf_edit [OF assms(1)]) blast
      from False show ?thesis
        by (auto simp: Let_def assms(3,4) wp_ok wp_err edit_def wf intro!: wp_replace_given_tags assms(4,5) wf [unfolded edit_def Let_def])
    qed
  qed
next
  case False
  then have id: "update_fields (upp_fields params) r = r" for r
    using assms(2) update_no_fields by simp
  then have "edit (upp_fields params) tags (set ids) (w_tables w) = (w_tables w)\<lparr>b_transaction_tags := retag tags (set ids) (w_tables w)\<rparr>"
    by (simp add: edit_def Let_def update_rows_def retag_def id cong: if_cong split: option.splits)
  moreover have "wf_tx (edit (upp_fields params) tags (set ids) (w_tables w))"
    using wf_txD(7) [OF assms(1)] by (intro wf_edit [OF assms(1)]) (simp add: id)
  ultimately show ?thesis
    using False unfolding edit_body_def wp_try_bind
    by (auto simp: wp_ok intro!: wp_replace_given_tags assms(4,5))
qed

section \<open>What a bulk change is about\<close>

text \<open>The transactions a bulk change is about: exactly one of a list of identifiers and a filter with some
  criterion is given; transactions that wait for the language model are never meant.\<close>

definition targets :: "base64 \<Rightarrow> fts \<Rightarrow> global_id list option \<Rightarrow> tx_filter option \<Rightarrow> tx_tables \<Rightarrow> int set \<Rightarrow> bool" where
  "targets x fts gids f t is \<longleftrightarrow>
     (\<exists>v. values_from_filter x f [] = Inr v
        \<and> (if has_criteria v
            then unwrap_or [] gids = [] \<and> is = {txn_id (lst_txn l) |l. l \<in> set (joined_rows t) \<and> listed_match fts t v l}
            else unwrap_or [] gids \<noteq> [] \<and> (\<forall>g \<in> set (unwrap_or [] gids). gid_typ g = Transaction)
              \<and> is = {txn_id r |r. r \<in> set (b_transactions t) \<and> \<not> txn_staged_for_llm r
                    \<and> txn_id r \<in> (\<lambda>g. sint (gid_id g)) ` set (unwrap_or [] gids)}))"

lemma values_ids:
  assumes "values_from_filter x f [] = Inr v"
  shows "values_from_filter x f ids = Inr (v\<lparr>flv_ids := ids\<rparr>)"
  using assms
  by (auto simp: values_from_filter_def no_values_def and_then_def Let_def split: option.splits sum.splits)

lemma match_ids:
  assumes "\<not> has_criteria v" "ids \<noteq> []"
  shows "listed_match fts t (v\<lparr>flv_ids := ids\<rparr>) l \<longleftrightarrow> \<not> txn_staged_for_llm (lst_txn l) \<and> txn_id (lst_txn l) \<in> set ids"
  using assms by (simp add: has_criteria_def listed_match_def given_def Let_def)

lemma traverse_ids:
  assumes "traverse (\<lambda>g. and_then (i64_of_type g typ) (\<lambda>i. Inr (sint i))) gs = Inr ids"
  shows "ids = map (\<lambda>g. sint (gid_id g)) gs \<and> (\<forall>g \<in> set gs. gid_typ g = typ)"
  using assms
proof (induction gs arbitrary: ids)
  case (Cons g gs)
  then show ?case
    by (auto simp: and_then_def i64_of_type_def split: sum.splits if_splits)
qed simp

lemma joined_txn_set:
  assumes "wf_tx t" "distinct (map cat_id (b_categories t))"
  shows "lst_txn ` set (joined_rows t) = set (b_transactions t)"
  using arg_cong [OF joined_txns [OF assms], of set] by simp

lemma wp_resolve:
  assumes "wf_tx (w_tables w)" "distinct (map cat_id (b_categories (w_tables w)))"
    and "\<And>e w'. w_tables w' = w_tables w \<Longrightarrow> Q (Inl e) w'"
    and "\<And>ids w'. w_tables w' = w_tables w \<Longrightarrow> later w w' \<Longrightarrow> distinct ids
      \<Longrightarrow> targets x fts gids f (w_tables w) (set ids) \<Longrightarrow> Q (Inr ids) w'"
  shows "wp (resolve_bulk_target_ids x fts gids f) Q w"
proof (cases "values_from_filter x f []")
  case (Inl e)
  then show ?thesis by (simp add: resolve_bulk_target_ids_def wp_try_bind wp_of_result assms(3))
next
  case v: (Inr v)
  show ?thesis
  proof (cases "traverse (\<lambda>g. and_then (i64_of_type g Transaction) (\<lambda>i. Inr (sint i))) (unwrap_or [] gids)")
    case (Inl e)
    with v show ?thesis by (simp add: resolve_bulk_target_ids_def wp_try_bind wp_of_result assms(3))
  next
    case ids: (Inr ids)
    note named = traverse_ids [OF ids]
    define v' where "v' = (if has_criteria v then v else v\<lparr>flv_ids := ids\<rparr>)"
    have target: "targets x fts gids f (w_tables w) (set (map (\<lambda>l. txn_id (lst_txn l)) (listed_rows fts (w_tables w) v')))"
      if "(ids \<noteq> []) \<noteq> has_criteria v"
    proof (cases "has_criteria v")
      case True
      with that named have "unwrap_or [] gids = []" by simp
      with True v show ?thesis by (auto simp: targets_def listed_rows_def v'_def)
    next
      case False
      with that named have "unwrap_or [] gids \<noteq> []" "ids \<noteq> []" by auto
      moreover have "set ids = (\<lambda>g. sint (gid_id g)) ` set (unwrap_or [] gids)" using named by simp
      ultimately show ?thesis
        using False v named match_ids [OF False \<open>ids \<noteq> []\<close>] joined_txn_set [OF assms(1,2), symmetric]
        by (auto simp: targets_def listed_rows_def v'_def)
    qed
    have "distinct (map (\<lambda>l. txn_id (lst_txn l)) (listed_rows fts (w_tables w) v'))"
      by (rule listed_ids [OF assms(1,2)])
    with target show ?thesis
      unfolding resolve_bulk_target_ids_def wp_try_bind v ids wp_of_result sum.case
      by (auto simp: wp_err wp_try_bind wp_of_result values_ids [OF v] transaction_ids_by_filter_def wp_select v'_def later_def
          intro!: assms(3,4))
  qed
qed

lemma targets_unstaged:
  assumes "targets x fts gids f t is" "wf_tx t" "distinct (map cat_id (b_categories t))"
  shows "is \<subseteq> {txn_id r |r. r \<in> set (b_transactions t) \<and> \<not> txn_staged_for_llm r}"
  using assms(1) joined_txn_set [OF assms(2,3)]
  by (auto simp: targets_def listed_match_def Let_def split: if_splits)

section \<open>Changing many\<close>

lemma wp_transactions_by_ids:
  assumes "wf_tx (w_tables w)" "distinct (map cat_id (b_categories (w_tables w)))"
    and "\<And>e w'. w_tables w' = w_tables w \<Longrightarrow> w_faults w (w_queries w) \<Longrightarrow> Q (Inl e) w'"
    and "\<And>ls w'. w_tables w' = w_tables w \<Longrightarrow> distinct (map (\<lambda>l. txn_id (lst_txn l)) ls) \<Longrightarrow>
      lst_txn ` set ls = {r \<in> set (b_transactions (w_tables w)). txn_id r \<in> set ids \<and> \<not> txn_staged_for_llm r} \<Longrightarrow> Q (Inr ls) w'"
  shows "wp (transactions_by_ids fts ids) Q w"
proof (cases "ids = []")
  case True
  then show ?thesis by (simp add: transactions_by_ids_def wp_ok assms(4))
next
  case False
  let ?L = "ordered_listing fts (w_tables w) (no_values ids) (sort_case None)"
  have "no_values ids = (no_values [])\<lparr>flv_ids := ids\<rparr>" "\<not> has_criteria (no_values [])"
    by (simp_all add: no_values_def has_criteria_def)
  then have "lst_txn ` set ?L = {r \<in> set (b_transactions (w_tables w)). txn_id r \<in> set ids \<and> \<not> txn_staged_for_llm r}"
    using match_ids [of "no_values []" ids fts "w_tables w"] False joined_txn_set [OF assms(1,2), symmetric]
    by (auto simp: ordered_listing_def listed_rows_def)
  moreover have "distinct (map (\<lambda>l. txn_id (lst_txn l)) ?L)"
    using listed_ids [OF assms(1,2), of fts "no_values ids"]
    by (metis (no_types, lifting) mset_map mset_sort ordered_listing_def mset_eq_imp_distinct_iff)
  moreover have "remainder None ?L None ?L" by (simp add: remainder_def)
  ultimately show ?thesis
    using False unfolding transactions_by_ids_def
    by (auto simp: limited_def intro!: wp_records [OF assms(1,2)] assms(3,4))
qed

lemma later_edit_body: "guarantees later (edit_body params tags ids accept)"
  unfolding edit_body_def replace_given_tags_def replace_transaction_tags_def update_transaction_fields_def
    delete_transaction_tags_def add_transaction_tags_def exec_def
  by (intro guarantee_rules)

lemma wp_edit_tx:
  assumes "wf_tx (w_tables w)" "update_params_of x u ids = Inr params"
    and "\<And>e w'. w_tables w' = w_tables w \<Longrightarrow> Q (Inl e) w'"
    and "\<And>w'. w_tables w' = edit (upp_fields params) tags (set ids) (w_tables w) \<Longrightarrow> wf_tx (w_tables w') \<Longrightarrow>
      w_faults w' = w_faults w \<Longrightarrow> Q (Inr ()) w'"
  shows "wp (with_tx (edit_body params tags ids accept)) Q w"
proof -
  note changed = params_changed [OF assms(2)]
  let ?R = "\<lambda>r w'. let failed = w_faults w' (w_queries w'); undone = (spend_statement w')\<lparr>w_tables := w_tables w\<rparr>
      in case r of
        Inr v \<Rightarrow> if failed then Q (Inl (Msg ''commit transaction'')) undone else Q (Inr v) (spend_statement w')
      | Inl e \<Rightarrow> Q (Inl (if failed then Msg ''roll back transaction'' else e)) undone"
  have "wp (edit_body params tags ids accept) (\<lambda>r w'. later (spend_statement w) w' \<longrightarrow> ?R r w') (spend_statement w)"
    by (rule wp_edit_body [OF _ changed]) (simp_all add: Let_def assms later_def)
  then have "wp (edit_body params tags ids accept) ?R (spend_statement w)"
    by (rule wp_later [OF later_edit_body])
  then show ?thesis
    unfolding wp_with_tx by (simp add: assms(3))
qed

definition edit_of :: "base64 \<Rightarrow> transaction_updates \<Rightarrow> int list \<Rightarrow> tx_tables \<Rightarrow> tx_tables \<Rightarrow> bool" where
  "edit_of x u ids t t' \<longleftrightarrow>
     (\<exists>params tags. update_params_of x u ids = Inr params \<and> tags_of_updates x u = Inr tags
        \<and> edited_as (upp_fields params) tags (set ids) t t')"

lemma edited_asD:
  assumes "edited_as u tags ids t t'"
  shows "b_transactions t' = map (\<lambda>r. if txn_id r \<in> ids then update_fields u r else r) (b_transactions t)"
    "b_categories t' = b_categories t"
proof -
  from assms have t': "t' = t\<lparr>b_transactions := map (\<lambda>r. if txn_id r \<in> ids then update_fields u r else r) (b_transactions t),
      b_transaction_tags := b_transaction_tags t'\<rparr>"
    by (simp only: edited_as_fields)
  show "b_transactions t' = map (\<lambda>r. if txn_id r \<in> ids then update_fields u r else r) (b_transactions t)"
    by (subst t') simp
  show "b_categories t' = b_categories t"
    by (subst t') simp
qed

lemma edit_nothing:
  assumes "\<not> upp_changed params" "update_params_of x u ids = Inr params"
  shows "edited_as (upp_fields params) None is t t"
proof -
  have "map (\<lambda>r. if txn_id r \<in> is then update_fields (upp_fields params) r else r) (b_transactions t) = b_transactions t"
    using params_changed(1) [OF assms(2)] assms(1) update_no_fields by (intro map_idI) simp
  then show ?thesis unfolding edited_as_fields by simp
qed

lemma edited_rows:
  assumes "edited_as u tags ids t t'" "wf_tx t" "ids \<subseteq> {txn_id r |r. r \<in> set (b_transactions t) \<and> \<not> txn_staged_for_llm r}"
  shows "{r \<in> set (b_transactions t'). txn_id r \<in> ids \<and> \<not> txn_staged_for_llm r} = {r \<in> set (b_transactions t'). txn_id r \<in> ids}"
proof -
  have "\<not> txn_staged_for_llm r" if "r \<in> set (b_transactions t)" "txn_id r \<in> ids" for r
    using assms(3) that wf_txD(5) [OF assms(2)] by (auto simp: distinct_map dest: inj_onD)
  then have "\<not> txn_staged_for_llm (update_fields u r)" if "r \<in> set (b_transactions t)" "txn_id r \<in> ids" for r
    using that by (simp add: update_fields_def)
  then show ?thesis unfolding edited_asD(1) [OF assms(1)] by auto
qed

lemma image_restrict: "I \<subseteq> f ` S \<Longrightarrow> f ` {r \<in> S. f r \<in> I} = I"
  by auto

definition bulk_answer ::
    "base64 \<Rightarrow> transaction_updates \<Rightarrow> int list \<Rightarrow> tx_tables world \<Rightarrow> error + listed list \<Rightarrow> tx_tables world \<Rightarrow> bool" where
  "bulk_answer x u ids w r w' \<longleftrightarrow>
     (case r of
        Inl _ \<Rightarrow> w_tables w' = w_tables w \<or> (edit_of x u ids (w_tables w) (w_tables w') \<and> (\<exists>i. w_faults w i))
      | Inr ls \<Rightarrow> edit_of x u ids (w_tables w) (w_tables w') \<and> wf_tx (w_tables w')
          \<and> lst_txn ` set ls = {r \<in> set (b_transactions (w_tables w')). txn_id r \<in> set ids} \<and> length ls = length ids)"

lemma wp_read_edited:
  assumes "wf_tx (w_tables w1)" "edit_of x u ids (w_tables w) (w_tables w1)" "w_faults w1 = w_faults w"
    and "wf_tx (w_tables w)" "distinct (map cat_id (b_categories (w_tables w)))" "distinct ids"
    and "set ids \<subseteq> {txn_id r |r. r \<in> set (b_transactions (w_tables w)) \<and> \<not> txn_staged_for_llm r}"
  shows "wp (transactions_by_ids fts ids) (bulk_answer x u ids w) w1"
proof -
  from assms(2) obtain v tags where e: "edited_as v tags (set ids) (w_tables w) (w_tables w1)"
    by (auto simp: edit_of_def)
  have cats: "distinct (map cat_id (b_categories (w_tables w1)))"
    using assms(5) by (simp add: edited_asD(2) [OF e])
  have ids: "txn_id ` {r \<in> set (b_transactions (w_tables w1)). txn_id r \<in> set ids} = set ids"
  proof -
    have "txn_id ` set (b_transactions (w_tables w1)) = txn_id ` set (b_transactions (w_tables w))"
      unfolding edited_asD(1) [OF e] update_rows_def [symmetric] by (rule image_update_rows) simp
    moreover have "set ids \<subseteq> txn_id ` set (b_transactions (w_tables w))"
      using assms(7) by auto
    ultimately show ?thesis by (simp add: image_restrict)
  qed
  show ?thesis
  proof (rule wp_transactions_by_ids [OF assms(1) cats])
    fix err and w' :: "tx_tables world"
    assume "w_tables w' = w_tables w1" "w_faults w1 (w_queries w1)"
    then show "bulk_answer x u ids w (Inl err) w'"
      using assms(2,3) by (auto simp: bulk_answer_def)
  next
    fix ls :: "listed list" and w' :: "tx_tables world"
    assume w': "w_tables w' = w_tables w1" and "distinct (map (\<lambda>l. txn_id (lst_txn l)) ls)"
      and "lst_txn ` set ls = {r \<in> set (b_transactions (w_tables w1)). txn_id r \<in> set ids \<and> \<not> txn_staged_for_llm r}"
    then have ls: "lst_txn ` set ls = {r \<in> set (b_transactions (w_tables w1)). txn_id r \<in> set ids}"
      and "distinct (map (\<lambda>l. txn_id (lst_txn l)) ls)"
      by (simp_all add: edited_rows [OF e assms(4,7)])
    moreover have "set (map (\<lambda>l. txn_id (lst_txn l)) ls) = set ids"
      using arg_cong [OF ls, of "image txn_id"] ids by (simp add: image_image)
    ultimately have "length ls = length ids"
      using assms(6) by (metis distinct_card length_map)
    then show "bulk_answer x u ids w (Inr ls) w'"
      using assms(1,2) ls w' by (simp add: bulk_answer_def)
  qed
qed

lemma wp_edit_and_read:
  assumes "wf_tx (w_tables w)" "distinct (map cat_id (b_categories (w_tables w)))"
    and "targets x fts gids f (w_tables w) (set ids)" "distinct ids"
    and "update_params_of x u ids = Inr params" "tags_of_updates x u = Inr tags"
  shows "wp (try_bind (if upp_changed params \<or> tags \<noteq> None then with_tx (edit_body params tags ids (\<lambda>_. True)) else ok ())
      (\<lambda>_. transactions_by_ids fts ids)) (bulk_answer x u ids w) w"
proof -
  note read = wp_read_edited [OF _ _ _ assms(1,2,4) targets_unstaged [OF assms(3,1,2)]]
  show ?thesis
  proof (cases "upp_changed params \<or> tags \<noteq> None")
    case True
    have "wp (try_bind (with_tx (edit_body params tags ids (\<lambda>_. True))) (\<lambda>_. transactions_by_ids fts ids)) (bulk_answer x u ids w) w"
    proof (rule wp_try_bindI, rule wp_edit_tx [OF assms(1,5)])
      fix w1 :: "tx_tables world"
      assume "w_tables w1 = edit (upp_fields params) tags (set ids) (w_tables w)" "wf_tx (w_tables w1)" "w_faults w1 = w_faults w"
      moreover from this have "edit_of x u ids (w_tables w) (w_tables w1)"
        using assms(5,6) edit_edited by (auto simp: edit_of_def)
      ultimately show "case Inr () of Inl e \<Rightarrow> bulk_answer x u ids w (Inl e) w1
          | Inr a \<Rightarrow> wp (transactions_by_ids fts ids) (bulk_answer x u ids w) w1"
        by (simp add: read)
    qed (simp add: bulk_answer_def)
    with True show ?thesis by simp
  next
    case False
    then have "edit_of x u ids (w_tables w) (w_tables w)"
      using assms(5,6) edit_nothing by (auto simp: edit_of_def)
    with False show ?thesis by (simp add: wp_try_bind wp_ok read assms(1))
  qed
qed

lemma bulk_update_alt:
  "bulk_update_transactions x fts gids f (Some u) =
     try_bind (resolve_bulk_target_ids x fts gids f) (\<lambda>ids.
     if ids = [] then ok []
     else try_bind (of_result (update_params_of x u ids)) (\<lambda>params.
       try_bind (of_result (tags_of_updates x u)) (\<lambda>tags.
       try_bind (if upp_changed params \<or> tags \<noteq> None then with_tx (edit_body params tags ids (\<lambda>_. True)) else ok ())
         (\<lambda>_. transactions_by_ids fts ids))))"
  unfolding bulk_update_transactions_def edit_body_def option.case if_True ..

lemma wp_bulk_edit:
  assumes "wf_tx (w_tables w)" "distinct (map cat_id (b_categories (w_tables w)))"
    and "targets x fts gids f (w_tables w) (set ids)" "distinct ids"
  shows "wp (try_bind (of_result (update_params_of x u ids)) (\<lambda>params.
       try_bind (of_result (tags_of_updates x u)) (\<lambda>tags.
       try_bind (if upp_changed params \<or> tags \<noteq> None then with_tx (edit_body params tags ids (\<lambda>_. True)) else ok ())
         (\<lambda>_. transactions_by_ids fts ids)))) (bulk_answer x u ids w) w"
proof (cases "update_params_of x u ids")
  case (Inl e)
  then show ?thesis by (simp add: wp_try_bind wp_of_result bulk_answer_def)
next
  case params: (Inr params)
  show ?thesis
  proof (cases "tags_of_updates x u")
    case (Inl e)
    with params show ?thesis by (simp add: wp_try_bind wp_of_result bulk_answer_def)
  next
    case (Inr tags)
    show ?thesis
      unfolding params Inr
      by (rule wp_try_bindI, unfold wp_of_result sum.case, rule wp_try_bindI, unfold wp_of_result sum.case,
          rule wp_edit_and_read [OF assms params Inr])
  qed
qed

text \<open>C25: A bulk change is exact. It needs either identifiers or a filter with a criterion; the transactions
  it is about are the named ones or the ones that match, without those that wait for the language model.
  On success each of them has exactly the given fields and the given set of tags (a category also marks
  it as reviewed), every other transaction, tag and table is as before, and the answer lists the changed
  transactions as they are now. On an error nothing has changed, or all of them have and reading them
  back failed.\<close>

theorem bulk_update_exact:
  assumes "wf_tx (w_tables w)" "distinct (map cat_id (b_categories (w_tables w)))"
    and "run_state (bulk_update_transactions x fts gids f updates) w = (result, w')"
  shows "case result of
      Inl _ \<Rightarrow> w_tables w' = w_tables w
        \<or> (\<exists>u ids i. updates = Some u \<and> targets x fts gids f (w_tables w) (set ids)
             \<and> edit_of x u ids (w_tables w) (w_tables w') \<and> w_faults w i)
    | Inr ls \<Rightarrow> (targets x fts gids f (w_tables w) {} \<and> ls = [] \<and> w_tables w' = w_tables w)
        \<or> (\<exists>u ids. updates = Some u \<and> targets x fts gids f (w_tables w) (set ids)
             \<and> edit_of x u ids (w_tables w) (w_tables w') \<and> wf_tx (w_tables w')
             \<and> lst_txn ` set ls = {r \<in> set (b_transactions (w_tables w')). txn_id r \<in> set ids} \<and> length ls = length ids)"
    (is "?Q result w'")
proof -
  have "wp (bulk_update_transactions x fts gids f updates) ?Q w"
  proof (cases updates)
    case None
    then show ?thesis by (simp add: bulk_update_transactions_def wp_err)
  next
    case u: (Some u)
    show ?thesis
      unfolding u bulk_update_alt
    proof (rule wp_try_bindI, rule wp_resolve [OF assms(1,2), where x = x and fts = fts and gids = gids and f = f], goal_cases)
      case (2 ids w1)
      have answer: "?Q r w2" if "bulk_answer x u ids w1 r w2" for r w2
        using that 2 u by (auto simp: bulk_answer_def later_def split: sum.splits)
      show ?case
      proof (cases "ids = []")
        case True
        with 2 show ?thesis by (simp add: wp_ok)
      next
        case False
        with 2 assms(1,2) show ?thesis
          unfolding u sum.case if_not_P [OF False]
          by (intro wp_mono [OF wp_bulk_edit [of w1]] answer [unfolded u]) simp_all
      qed
    qed simp
  qed
  with assms(3) show ?thesis by (rule wp_run)
qed

section \<open>Changing one\<close>

lemma wp_transaction_by_id:
  assumes "wf_tx (w_tables w)" "distinct (map cat_id (b_categories (w_tables w)))"
    and "\<And>e w'. w_tables w' = w_tables w \<Longrightarrow> w_faults w (w_queries w) \<Longrightarrow> Q (Inl e) w'"
    and "\<And>w'. w_tables w' = w_tables w \<Longrightarrow>
      (\<forall>r \<in> set (b_transactions (w_tables w)). txn_id r = ident \<longrightarrow> txn_staged_for_llm r) \<Longrightarrow> Q (Inr None) w'"
    and "\<And>l w'. w_tables w' = w_tables w \<Longrightarrow> lst_txn l \<in> set (b_transactions (w_tables w)) \<Longrightarrow>
      txn_id (lst_txn l) = ident \<Longrightarrow> Q (Inr (Some l)) w'"
  shows "wp (transaction_by_id fts ident) Q w"
proof -
  let ?L = "ordered_listing fts (w_tables w) (no_values [ident]) (sort_case None)"
  have "no_values [ident] = (no_values [])\<lparr>flv_ids := [ident]\<rparr>" "\<not> has_criteria (no_values [])"
    by (simp_all add: no_values_def has_criteria_def)
  then have rows: "lst_txn ` set ?L = {r \<in> set (b_transactions (w_tables w)). txn_id r = ident \<and> \<not> txn_staged_for_llm r}"
    using match_ids [of "no_values []" "[ident]" fts "w_tables w"] joined_txn_set [OF assms(1,2), symmetric]
    by (auto simp: ordered_listing_def listed_rows_def)
  have "remainder None ?L None ?L" by (simp add: remainder_def)
  then show ?thesis
    unfolding transaction_by_id_def
  proof (intro wp_try_bindI wp_records [OF assms(1,2), where tail = ?L], goal_cases)
    case (3 w')
    show ?case
    proof (cases ?L)
      case Nil
      with 3 rows show ?thesis by (auto simp: limited_def wp_ok intro!: assms(4))
    next
      case (Cons l ls)
      then have "lst_txn l \<in> {r \<in> set (b_transactions (w_tables w)). txn_id r = ident \<and> \<not> txn_staged_for_llm r}"
        unfolding rows [symmetric] by simp
      with 3 Cons show ?thesis by (auto simp: limited_def wp_ok intro!: assms(5))
    qed
  qed (simp_all add: assms(3))
qed

definition single_answer ::
    "base64 \<Rightarrow> transaction_updates \<Rightarrow> int \<Rightarrow> tx_tables world \<Rightarrow> error + listed \<Rightarrow> tx_tables world \<Rightarrow> bool" where
  "single_answer x u ident w r w' \<longleftrightarrow>
     (case r of
        Inl e \<Rightarrow> w_tables w' = w_tables w \<or> (edit_of x u [ident] (w_tables w) (w_tables w')
          \<and> ((\<exists>i. w_faults w i) \<or> (e = transaction_not_found
               \<and> (\<forall>r \<in> set (b_transactions (w_tables w')). txn_id r = ident \<longrightarrow> txn_staged_for_llm r))))
      | Inr l \<Rightarrow> edit_of x u [ident] (w_tables w) (w_tables w') \<and> wf_tx (w_tables w')
          \<and> lst_txn l \<in> set (b_transactions (w_tables w')) \<and> txn_id (lst_txn l) = ident)"

lemma wp_hydrated:
  assumes "wf_tx (w_tables w1)" "edit_of x u [ident] (w_tables w) (w_tables w1)" "w_faults w1 = w_faults w"
    and "distinct (map cat_id (b_categories (w_tables w)))"
  shows "wp (hydrated fts ident) (single_answer x u ident w) w1"
proof -
  from assms(2) obtain v tags where e: "edited_as v tags (set [ident]) (w_tables w) (w_tables w1)"
    by (auto simp: edit_of_def)
  have "distinct (map cat_id (b_categories (w_tables w1)))"
    using assms(4) by (simp add: edited_asD(2) [OF e])
  then show ?thesis
    unfolding hydrated_def using assms(1-3)
    by (intro wp_try_bindI wp_transaction_by_id) (auto simp: single_answer_def wp_ok wp_err)
qed

lemma if_different: "(if a \<noteq> b then m else n) = (if a = b then n else m)"
  by simp

lemma update_alt:
  "update_transaction x fts ident u =
     try_bind (of_result (update_params_of x u [ident])) (\<lambda>params.
     try_bind (of_result (tags_of_updates x u)) (\<lambda>tags.
     if \<not> upp_changed params \<and> tags = None then hydrated fts ident
     else try_bind (with_tx (edit_body params tags [ident] (\<lambda>rows. rows \<noteq> 0))) (\<lambda>_. hydrated fts ident)))"
  unfolding update_transaction_def edit_body_def if_different ..

text \<open>C26: A change of one transaction is exact. The answer is the transaction as it is now, and the
  change is the given fields and tags of that transaction and nothing else. An error leaves everything as
  it was, with two exceptions: reading the transaction back failed, or it waits for the language model,
  when it is changed although the answer says that there is no such transaction.\<close>

theorem update_transaction_exact:
  assumes "wf_tx (w_tables w)" "distinct (map cat_id (b_categories (w_tables w)))"
    and "run_state (update_transaction x fts ident u) w = (result, w')"
  shows "single_answer x u ident w result w'"
proof -
  have "wp (update_transaction x fts ident u) (single_answer x u ident w) w"
  proof (cases "update_params_of x u [ident]")
    case (Inl e)
    then show ?thesis by (simp add: update_alt wp_try_bind wp_of_result single_answer_def)
  next
    case params: (Inr params)
    show ?thesis
    proof (cases "tags_of_updates x u")
      case (Inl e)
      with params show ?thesis by (simp add: update_alt wp_try_bind wp_of_result single_answer_def)
    next
      case tags: (Inr tags)
      have "wp (if \<not> upp_changed params \<and> tags = None then hydrated fts ident
          else try_bind (with_tx (edit_body params tags [ident] (\<lambda>rows. rows \<noteq> 0))) (\<lambda>_. hydrated fts ident))
          (single_answer x u ident w) w"
      proof (cases "\<not> upp_changed params \<and> tags = None")
        case True
        then have "edit_of x u [ident] (w_tables w) (w_tables w)"
          using params tags edit_nothing by (auto simp: edit_of_def)
        with True show ?thesis by (simp add: wp_hydrated assms)
      next
        case False
        have "wp (try_bind (with_tx (edit_body params tags [ident] (\<lambda>rows. rows \<noteq> 0))) (\<lambda>_. hydrated fts ident))
            (single_answer x u ident w) w"
        proof (rule wp_try_bindI, rule wp_edit_tx [OF assms(1) params])
          fix w1 :: "tx_tables world"
          assume "w_tables w1 = edit (upp_fields params) tags (set [ident]) (w_tables w)" "wf_tx (w_tables w1)"
            "w_faults w1 = w_faults w"
          moreover from this have "edit_of x u [ident] (w_tables w) (w_tables w1)"
            using params tags edit_edited by (auto simp: edit_of_def)
          ultimately show "case Inr () of Inl e \<Rightarrow> single_answer x u ident w (Inl e) w1
              | Inr a \<Rightarrow> wp (hydrated fts ident) (single_answer x u ident w) w1"
            by (simp add: wp_hydrated assms(2))
        qed (simp add: single_answer_def)
        with False show ?thesis by (simp only: if_False)
      qed
      with params tags show ?thesis by (simp add: update_alt wp_try_bind wp_of_result)
    qed
  qed
  with assms(3) show ?thesis by (rule wp_run)
qed

section \<open>Deleting\<close>

text \<open>C27: A bulk deletion is exact. On success exactly the targeted transactions are gone, with their tags
  and their links to recurring charges, and the answer is their number; on an error nothing is.\<close>

theorem bulk_delete_exact:
  assumes "wf_tx (w_tables w)" "distinct (map cat_id (b_categories (w_tables w)))"
    and "run_state (bulk_delete_transactions x fts gids f) w = (result, w')"
  shows "case result of
      Inl _ \<Rightarrow> w_tables w' = w_tables w
    | Inr n \<Rightarrow> \<exists>is. targets x fts gids f (w_tables w) is \<and> n = card is \<and> wf_tx (w_tables w')
        \<and> w_tables w' = (w_tables w)\<lparr>
            b_transactions := filter (\<lambda>r. txn_id r \<notin> is) (b_transactions (w_tables w)),
            b_transaction_tags := filter (\<lambda>(txn, tag). txn \<notin> is) (b_transaction_tags (w_tables w)),
            b_charge_transactions := filter (\<lambda>(charge, txn). txn \<notin> is) (b_charge_transactions (w_tables w))\<rparr>"
    (is "?Q result w'")
proof -
  have "wp (bulk_delete_transactions x fts gids f) ?Q w"
    unfolding bulk_delete_transactions_def
  proof (rule wp_try_bindI, rule wp_resolve [OF assms(1,2), where x = x and fts = fts and gids = gids and f = f], goal_cases)
    case (2 ids w1)
    let ?P = "\<lambda>r. txn_id r \<in> set ids"
    note sub = targets_unstaged [OF 2(4) assms(1,2)]
    have all: "txn_id ` set (filter ?P (b_transactions (w_tables w))) = set ids"
      using sub by auto
    moreover have "distinct (map txn_id (filter ?P (b_transactions (w_tables w))))"
      using wf_txD(5) [OF assms(1)] by (rule distinct_map_filter)
    ultimately have n: "count_rows ?P (b_transactions (w_tables w)) = card (set ids)"
      by (metis count_rows_def distinct_card length_map set_map)
    have gone: "delete_transactions ?P (w_tables w) = (w_tables w)\<lparr>
            b_transactions := filter (\<lambda>r. txn_id r \<notin> set ids) (b_transactions (w_tables w)),
            b_transaction_tags := filter (\<lambda>(txn, tag). txn \<notin> set ids) (b_transaction_tags (w_tables w)),
            b_charge_transactions := filter (\<lambda>(charge, txn). txn \<notin> set ids) (b_charge_transactions (w_tables w))\<rparr>"
      unfolding delete_transactions_def all Let_def delete_rows_def by (simp add: case_prod_unfold)
    have "ids = [] \<Longrightarrow> (w_tables w) = delete_transactions ?P (w_tables w)"
      unfolding gone by simp
    with 2 n gone wf_delete_transactions [OF assms(1), of ?P] show ?case
      by (auto simp: wp_ok delete_transactions_by_ids_def wp_exec_rows Let_def intro!: exI [of _ "set ids"])
  qed simp
  with assms(3) show ?thesis by (rule wp_run)
qed

section \<open>Creating\<close>

definition created_row :: "txn_row \<Rightarrow> string \<Rightarrow> tx_tables \<Rightarrow> txn_row" where
  "created_row row token t =
     row\<lparr>txn_external_id := ''manual-'' @ token, txn_id := next_id (map txn_id (b_transactions t))\<rparr>"

definition created :: "txn_row \<Rightarrow> string \<Rightarrow> tx_tables \<Rightarrow> tx_tables \<Rightarrow> bool" where
  "created row token t t' \<longleftrightarrow> t' = t\<lparr>b_transactions := b_transactions t @ [created_row row token t]\<rparr>
     \<and> txn_key (created_row row token t) \<notin> txn_key ` set (b_transactions t) \<and> fk_txn t (created_row row token t)"

definition plain_row :: "txn_row \<Rightarrow> bool" where
  "plain_row p \<longleftrightarrow> p\<lparr>txn_pending := False, txn_logo_url := None, txn_plaid_category := None,
     txn_raw_provider_json := None, txn_staged_for_llm := False, txn_pfc2_categorized := False\<rparr> = p"

lemma plain_row_external: "plain_row p \<Longrightarrow> plain_row (p\<lparr>txn_external_id := e\<rparr>)"
  by (cases p) (simp add: plain_row_def)

lemma wp_insert_manual:
  assumes "plain_row row"
    and "\<And>e w'. w_tables w' = w_tables w \<Longrightarrow> Q (Inl e) w'" "\<And>w'. w_tables w' = w_tables w \<Longrightarrow> Q (Inr None) w'"
    and "\<And>token w'. created row token (w_tables w) (w_tables w') \<Longrightarrow>
      Q (Inr (Some (txn_id (created_row row token (w_tables w))))) w'"
  shows "wp (insert_manual n row) Q w"
  using assms
proof (induction n arbitrary: w)
  case 0
  then show ?case by (simp add: wp_ok)
next
  case (Suc n)
  let ?t = "w_tables w"
  let ?token = "w_entropy w (w_draws w) 6"
  let ?w = "w\<lparr>w_draws := Suc (w_draws w)\<rparr>"
  let ?p = "row\<lparr>txn_external_id := ''manual-'' @ ?token\<rparr>"
  have again: "wp (insert_manual n row) Q w1" if "w_tables w1 = ?t" for w1
    using Suc.prems that by (intro Suc.IH) simp_all
  have row: "?p\<lparr>txn_pending := False, txn_logo_url := None, txn_plaid_category := None,
     txn_raw_provider_json := None, txn_staged_for_llm := False, txn_pfc2_categorized := False\<rparr> = ?p"
    using plain_row_external [OF Suc.prems(1)] unfolding plain_row_def .
  have new: "?p\<lparr>txn_id := next_id (map txn_id (b_transactions ?t))\<rparr> = created_row row ?token ?t"
    by (simp add: created_row_def)
  have key: "txn_key (created_row row ?token ?t) = txn_key ?p"
    by (simp add: created_row_def txn_key_def)
  show ?case
    unfolding insert_manual.simps(2) wp_bind wp_random_token
  proof (rule wp_try_bindI, unfold insert_transaction_row_def wp_statement row append_txn_def new Let_def, goal_cases)
    case 1
    show ?case
      using Suc.prems(2) again Suc.prems(4) [of ?token, unfolded created_def created_row_def] key [unfolded created_row_def]
      by (auto simp: wp_ok)
  qed
qed

text \<open>
  The transaction an input describes, field by field: noon of the day in UTC, texts without the spaces around
  them and absent when nothing is left, reviewed when a category is given, and hidden as the input says or
  else as the account is.
\<close>

definition text_meant :: "string option \<Rightarrow> string option \<Rightarrow> bool" where
  "text_meant input stored \<longleftrightarrow>
     (case stored of
        None \<Rightarrow> \<forall>s. input = Some s \<longrightarrow> trim s = ''''
      | Some v \<Rightarrow> v \<noteq> '''' \<and> (\<exists>s. input = Some s \<and> v = trim s))"

definition described ::
    "base64 \<Rightarrow> date_parser \<Rightarrow> create_input \<Rightarrow> tx_tables \<Rightarrow> txn_row \<Rightarrow> bool" where
  "described x day input t row \<longleftrightarrow>
     (\<exists>account days. account \<in> set (b_accounts t) \<and> local_id x (cri_account_id input) Account = Inr (acc_id account)
        \<and> txn_account_id row = acc_id account
        \<and> (case cri_category_id input of
             None \<Rightarrow> txn_category_id row = 0 \<and> \<not> txn_is_reviewed row
           | Some c \<Rightarrow> local_id x c Category = Inr (txn_category_id row) \<and> txn_category_id row \<in> cat_id ` set (b_categories t)
               \<and> txn_is_reviewed row)
        \<and> day (cri_date input) = Inr days
        \<and> of_timestamp (txn_datetime row) = (24 * days + 12) * 3600 * 10 ^ 9
        \<and> txn_posted_datetime row = txn_datetime row
        \<and> txn_is_hidden row = (cri_is_hidden input = Some True \<or> cri_is_hidden input = None \<and> acc_is_hidden account))
     \<and> txn_source row = ''manual'' \<and> txn_amount_cents row = cri_amount input
     \<and> text_meant (cri_merchant_name input) (txn_merchant_name row)
     \<and> text_meant (cri_original_name input) (txn_original_name row)
     \<and> text_meant (cri_notes input) (txn_notes row)
     \<and> (txn_merchant_name row \<noteq> None \<or> txn_original_name row \<noteq> None)
     \<and> txn_is_recurring row = (cri_is_recurring input = Some True)
     \<and> \<not> txn_pending row \<and> txn_logo_url row = None \<and> txn_plaid_category row = None
     \<and> txn_raw_provider_json row = None \<and> \<not> txn_staged_for_llm row \<and> \<not> txn_pfc2_categorized row"

lemma trimmed_meant: "text_meant s (trimmed s)"
  by (simp add: text_meant_def trimmed_def Let_def split: option.splits)

lemma noon_meant: "of_timestamp (to_timestamp (noon days)) = (24 * days + 12) * 3600 * 10 ^ 9"
  by (simp add: of_timestamp_def to_timestamp_def noon_def day_nanos_def day_seconds_def half_day_nanos_def nanos_def)

lemma plain_described: "described x day input t row \<Longrightarrow> plain_row row"
  by (cases row) (simp add: described_def plain_row_def)

lemma describedI:
  assumes "account \<in> set (b_accounts t)" "local_id x (cri_account_id input) Account = Inr (acc_id account)"
    and "case cri_category_id input of None \<Rightarrow> category = 0
      | Some c \<Rightarrow> local_id x c Category = Inr category \<and> category \<in> cat_id ` set (b_categories t)"
    and "trimmed (cri_merchant_name input) \<noteq> None \<or> trimmed (cri_original_name input) \<noteq> None"
    and "day (cri_date input) = Inr days"
  shows "described x day input t (manual_row input account category (noon days))"
  unfolding described_def
proof (intro conjI exI [of _ account] exI [of _ days])
  let ?row = "manual_row input account category (noon days)"
  show "case cri_category_id input of None \<Rightarrow> txn_category_id ?row = 0 \<and> \<not> txn_is_reviewed ?row
    | Some c \<Rightarrow> local_id x c Category = Inr (txn_category_id ?row)
        \<and> txn_category_id ?row \<in> cat_id ` set (b_categories t) \<and> txn_is_reviewed ?row"
    using assms(3) by (cases "cri_category_id input") (simp_all add: manual_row_def)
  show "txn_is_hidden ?row = (cri_is_hidden input = Some True \<or> cri_is_hidden input = None \<and> acc_is_hidden account)"
    by (cases "cri_is_hidden input") (simp_all add: manual_row_def unwrap_or_def)
  show "txn_is_recurring ?row = (cri_is_recurring input = Some True)"
    by (cases "cri_is_recurring input") (simp_all add: manual_row_def unwrap_or_def)
qed (use assms in \<open>simp_all add: manual_row_def trimmed_meant noon_meant\<close>)

definition create_answer ::
    "base64 \<Rightarrow> date_parser \<Rightarrow> create_input \<Rightarrow> tx_tables world \<Rightarrow> error + listed \<Rightarrow> tx_tables world \<Rightarrow> bool" where
  "create_answer x day input w r w' \<longleftrightarrow>
     (case r of
        Inl _ \<Rightarrow> w_tables w' = w_tables w \<or> (\<exists>i. w_faults w i)
      | Inr l \<Rightarrow> \<exists>row token. described x day input (w_tables w) row \<and> created row token (w_tables w) (w_tables w')
          \<and> wf_tx (w_tables w') \<and> lst_txn l = created_row row token (w_tables w))"

lemma wf_created:
  assumes "wf_tx t" "created row token t t'"
  shows "wf_tx t'"
proof -
  let ?p = "row\<lparr>txn_external_id := ''manual-'' @ token\<rparr>"
  have "append_txn ?p t = Inr (txn_id (created_row row token t), t')"
    using assms(2) by (simp add: append_txn_def created_def created_row_def Let_def)
  moreover have "txn_key ?p \<notin> txn_key ` set (b_transactions t)"
    using assms(2) by (simp add: created_def created_row_def txn_key_def)
  ultimately show ?thesis using wf_append_txn [OF assms(1)] by blast
qed

lemma wp_read_created:
  assumes "wf_tx (w_tables w)" "distinct (map cat_id (b_categories (w_tables w)))" "w_faults w1 = w_faults w"
    and "created row token (w_tables w) (w_tables w1)" "described x day input (w_tables w) row"
  shows "wp (try_bind (transaction_by_id fts (txn_id (created_row row token (w_tables w)))) (\<lambda>l.
      case l of None \<Rightarrow> err missing | Some l \<Rightarrow> ok l)) (create_answer x day input w) w1"
proof -
  let ?r = "created_row row token (w_tables w)"
  note wf = wf_created [OF assms(1,4)]
  have w1: "w_tables w1 = (w_tables w)\<lparr>b_transactions := b_transactions (w_tables w) @ [?r]\<rparr>"
    using assms(4) by (simp add: created_def)
  note plain = plain_described [OF assms(5)]
  from plain have unstaged: "\<not> txn_staged_for_llm ?r"
    by (cases row) (simp add: plain_row_def created_row_def)
  have only: "r = ?r" if "r \<in> set (b_transactions (w_tables w1))" "txn_id r = txn_id ?r" for r
    using wf_txD(5) [OF wf] that w1 by (auto simp: distinct_map image_iff dest: inj_onD)
  show ?thesis
  proof (intro wp_try_bindI wp_transaction_by_id [OF wf], goal_cases)
    case 1
    then show ?case using assms(2) w1 by simp
  next
    case (2 e w')
    then show ?case using assms(3) by (auto simp: create_answer_def)
  next
    case (3 w')
    then have "txn_staged_for_llm ?r" using w1 by simp
    with unstaged show ?case by simp
  next
    case (4 l w')
    then show ?case using assms(4,5) wf only by (auto simp: wp_ok create_answer_def)
  qed
qed

lemma wp_category_of_input:
  assumes "\<And>e w'. w_tables w' = w_tables w \<Longrightarrow> Q (Inl e) w'"
    and "\<And>category w'. w_tables w' = w_tables w \<Longrightarrow> w_faults w' = w_faults w \<Longrightarrow>
      (case ident of
         None \<Rightarrow> category = 0
       | Some c \<Rightarrow> local_id x c Category = Inr category \<and> category \<in> cat_id ` set (b_categories (w_tables w))) \<Longrightarrow>
      Q (Inr category) w'"
  shows "wp (category_of_input x ident) Q w"
proof (cases ident)
  case None
  then show ?thesis by (simp add: category_of_input_def wp_ok assms(2))
next
  case (Some c)
  then show ?thesis
    by (cases "local_id x c Category")
       (auto simp: category_of_input_def wp_try_bind wp_of_result wp_ok wp_ok_or category_by_id_def wp_select
          dest: find_Some split: option.splits intro!: assms)
qed

lemma wp_account_by_id:
  assumes "\<And>e w'. w_tables w' = w_tables w \<Longrightarrow> Q (Inl e) w'" "\<And>w'. w_tables w' = w_tables w \<Longrightarrow> Q (Inr None) w'"
    and "\<And>a w'. w_tables w' = w_tables w \<Longrightarrow> w_faults w' = w_faults w \<Longrightarrow> a \<in> set (b_accounts (w_tables w)) \<Longrightarrow>
      acc_id a = ident \<Longrightarrow> Q (Inr (Some a)) w'"
  shows "wp (account_by_id ident) Q w"
proof (cases "find (\<lambda>a. acc_id a = ident \<and> list_ex (\<lambda>w. own_id w = acc_owner_id a) (b_owners (w_tables w))) (b_accounts (w_tables w))")
  case None
  then show ?thesis by (simp add: account_by_id_def wp_select assms)
next
  case (Some a)
  with find_Some [OF Some] show ?thesis by (simp add: account_by_id_def wp_select assms)
qed

lemma wp_create_manual:
  assumes "wf_tx (w_tables w)" "distinct (map cat_id (b_categories (w_tables w)))"
    and "w_tables w1 = w_tables w" "w_faults w1 = w_faults w" "described x day input (w_tables w) row"
  shows "wp (try_bind (insert_manual n row) (\<lambda>inserted.
      (case inserted of
         None \<Rightarrow> err e
       | Some i \<Rightarrow> try_bind (transaction_by_id fts i) (\<lambda>l. case l of None \<Rightarrow> err (missing i) | Some l \<Rightarrow> ok l))))
     (create_answer x day input w) w1"
proof -
  note plain = plain_described [OF assms(5)]
  have "guarantees later (insert_manual n row)"
    by (induction n) (auto simp: insert_transaction_row_def intro!: guarantee_rules)
  then show ?thesis
    using assms by (intro wp_try_bindI, elim wp_later, intro wp_insert_manual [OF plain])
      (auto simp: create_answer_def wp_err later_def intro!: wp_read_created)
qed

text \<open>C28: A transaction created by hand is the one that is described. On success there is exactly one new
  row, with a fresh identifier and a key no other transaction has: the account and the category the
  identifiers name, noon of the given day, trimmed texts, reviewed exactly when a category was given, and
  hidden like its account unless the input says otherwise; the answer is that row, and nothing else has
  changed. An error leaves the tables alone unless a statement failed.\<close>

theorem create_transaction_exact:
  assumes "wf_tx (w_tables w)" "distinct (map cat_id (b_categories (w_tables w)))"
    and "run_state (create_transaction x day fts input) w = (result, w')"
  shows "create_answer x day input w result w'"
proof -
  have "wp (create_transaction x day fts input) (create_answer x day input w) w"
  proof (cases "local_id x (cri_account_id input) Account")
    case (Inl e)
    then show ?thesis by (simp add: create_transaction_def wp_try_bind wp_of_result create_answer_def)
  next
    case account: (Inr account_id)
    have unchanged: "create_answer x day input w (Inl e) w1" if "w_tables w1 = w_tables w" for e w1
      using that by (simp add: create_answer_def)
    show ?thesis
      unfolding create_transaction_def account
    proof (rule wp_try_bindI, unfold wp_of_result sum.case, rule wp_try_bindI, rule wp_account_by_id, goal_cases)
      case (3 a w1)
      have rest: "wp (try_bind (ensure (trimmed (cri_merchant_name input) \<noteq> None \<or> trimmed (cri_original_name input) \<noteq> None)
          ''merchantName or originalName is required'') (\<lambda>_.
        (case day (cri_date input) of Inl e \<Rightarrow> err (Msg e) | Inr days \<Rightarrow>
          try_bind (insert_manual 3 (manual_row input a category (noon days))) (\<lambda>inserted.
          (case inserted of None \<Rightarrow> err (Msg ''generate unique manual transaction id'')
           | Some i \<Rightarrow> try_bind (transaction_by_id fts i) (\<lambda>l.
               case l of None \<Rightarrow> err (Msg (''transaction '' @ show_int i @ '' not found'')) | Some l \<Rightarrow> ok l))))))
        (create_answer x day input w) w2"
        if "w_tables w2 = w_tables w1" "w_faults w2 = w_faults w1" "case cri_category_id input of None \<Rightarrow> category = 0
          | Some c \<Rightarrow> local_id x c Category = Inr category \<and> category \<in> cat_id ` set (b_categories (w_tables w))" for category w2
        using that 3 account assms(1,2)
        by (cases "day (cri_date input)")
           (auto simp: wp_try_bind [of "ensure b m" for b m] wp_ensure wp_err unchanged
             intro!: wp_create_manual [where n = 3] describedI)
      show ?case
        unfolding sum.case ok_or_def option.case
        by (rule wp_try_bindI, unfold wp_ok sum.case, rule wp_try_bindI, rule wp_category_of_input)
           (use 3 rest unchanged in \<open>simp_all cong: option.case_cong\<close>)
    qed (simp_all add: unchanged wp_try_bind wp_ok_or wp_err)
  qed
  with assms(3) show ?thesis by (rule wp_run)
qed

end
