(* ===== verification/Tx_Edit_Scenario.thy ===== *)
theory Tx_Edit_Scenario
  imports Tx_Edit_Laws Tx_Listing_Scenario
begin

text \<open>Two transactions are changed, one is deleted and one is created.\<close>

abbreviation tx_gid :: "64 word \<Rightarrow> global_id" where
  "tx_gid i \<equiv> \<lparr>gid_typ = Transaction, gid_id = i\<rparr>"

definition demo_updates :: transaction_updates where
  "demo_updates = \<lparr>upd_merchant_name = None, upd_notes = Some ''note'', upd_is_recurring = None,
     upd_is_hidden = None, upd_category_id = Some (encoded_string no_base64 \<lparr>gid_typ = Category, gid_id = 7\<rparr>),
     upd_tag_ids = Some [encoded_string no_base64 \<lparr>gid_typ = Tag, gid_id = 5\<rparr>]\<rparr>"

lemma demo_categories: "distinct (map cat_id (b_categories (w_tables tx_world)))"
  by code_simp

abbreviation (input) bulk_run :: "(error + listed list) \<times> tx_tables world" where
  "bulk_run \<equiv> run_state (bulk_update_transactions no_base64 no_fts (Some [tx_gid 2]) None (Some demo_updates)) tx_world"

lemma bulk_update_exact_witness:
  "\<exists>ls. fst bulk_run = Inr ls \<and> wf_tx (w_tables (snd bulk_run)) \<and> length ls = 1
     \<and> map txn_notes (b_transactions (w_tables (snd bulk_run))) = [Some ''mine'', Some ''note'']
     \<and> b_transaction_tags (w_tables (snd bulk_run)) = [(1, 5), (2, 5)]"
proof -
  have "(case bulk_run of (r, w') \<Rightarrow> (map_sum id length r, map txn_notes (b_transactions (w_tables w')), b_transaction_tags (w_tables w')))
      = (Inr 1, [Some ''mine'', Some ''note''], [(1, 5), (2, 5)])"
    by code_simp
  then have run: "map_sum id length (fst bulk_run) = Inr 1"
      "map txn_notes (b_transactions (w_tables (snd bulk_run))) = [Some ''mine'', Some ''note'']"
      "b_transaction_tags (w_tables (snd bulk_run)) = [(1, 5), (2, 5)]"
    by (auto split: prod.splits)
  then obtain ls where ls: "fst bulk_run = Inr ls" "length ls = 1"
    by (cases "fst bulk_run") auto
  note exact = bulk_update_exact [OF wf_demo_tx demo_categories prod.collapse [symmetric],
      where x = no_base64 and fts = no_fts and gids = "Some [tx_gid 2]" and f = None and updates = "Some demo_updates"]
  have "wf_tx (w_tables (snd bulk_run))"
    using exact unfolding ls(1) sum.case
  proof (elim disjE exE conjE)
    assume "ls = []"
    with ls(2) show ?thesis by simp
  qed
  with ls run show ?thesis by (intro exI [of _ ls] conjI)
qed

abbreviation (input) single_run :: "(error + listed) \<times> tx_tables world" where
  "single_run \<equiv> run_state (update_transaction no_base64 no_fts 1 demo_updates) tx_world"

lemma update_transaction_exact_witness:
  "\<exists>l. fst single_run = Inr l \<and> lst_txn l \<in> set (b_transactions (w_tables (snd single_run))) \<and> txn_id (lst_txn l) = 1
     \<and> txn_notes (lst_txn l) = Some ''note''"
proof -
  have run: "map_sum id (\<lambda>l. txn_notes (lst_txn l)) (fst single_run) = Inr (Some ''note'')"
    by code_simp
  then obtain l where l: "fst single_run = Inr l" "txn_notes (lst_txn l) = Some ''note''"
    by (cases "fst single_run") auto
  with update_transaction_exact [OF wf_demo_tx demo_categories prod.collapse [symmetric],
    where x = no_base64 and fts = no_fts and ident = 1 and u = demo_updates]
  show ?thesis by (auto simp: single_answer_def)
qed

abbreviation (input) delete_run :: "(error + nat) \<times> tx_tables world" where
  "delete_run \<equiv> run_state (bulk_delete_transactions no_base64 no_fts (Some [tx_gid 1, tx_gid 9]) None) tx_world"

lemma bulk_delete_exact_witness:
  "fst delete_run = Inr 1 \<and> wf_tx (w_tables (snd delete_run))
     \<and> map txn_id (b_transactions (w_tables (snd delete_run))) = [2] \<and> b_transaction_tags (w_tables (snd delete_run)) = []"
proof -
  have run: "fst delete_run = Inr 1" "map txn_id (b_transactions (w_tables (snd delete_run))) = [2]"
      "b_transaction_tags (w_tables (snd delete_run)) = []"
    by code_simp+
  with bulk_delete_exact [OF wf_demo_tx demo_categories prod.collapse [symmetric],
      where x = no_base64 and fts = no_fts and gids = "Some [tx_gid 1, tx_gid 9]" and f = None]
  show ?thesis by auto
qed

definition demo_input :: create_input where
  "demo_input = \<lparr>cri_account_id = encoded_string no_base64 \<lparr>gid_typ = Account, gid_id = 3\<rparr>, cri_date = ''1970-01-02'',
     cri_amount = 100, cri_merchant_name = Some ''Bakery'', cri_original_name = None, cri_category_id = None,
     cri_notes = None, cri_is_recurring = None, cri_is_hidden = None\<rparr>"

abbreviation (input) create_run :: "(error + listed) \<times> tx_tables world" where
  "create_run \<equiv> run_state (create_transaction no_base64 (\<lambda>_. Inr 0) no_fts demo_input) tx_world"

lemma create_transaction_exact_witness:
  "\<exists>l. fst create_run = Inr l \<and> wf_tx (w_tables (snd create_run)) \<and> txn_merchant_name (lst_txn l) = Some ''Bakery''
     \<and> map txn_id (b_transactions (w_tables (snd create_run))) = [1, 2, 3]"
proof -
  have "(case create_run of (r, w') \<Rightarrow> (map_sum id (\<lambda>l. txn_merchant_name (lst_txn l)) r, map txn_id (b_transactions (w_tables w'))))
      = (Inr (Some ''Bakery''), [1, 2, 3])"
    by code_simp
  then have run: "map_sum id (\<lambda>l. txn_merchant_name (lst_txn l)) (fst create_run) = Inr (Some ''Bakery'')"
      "map txn_id (b_transactions (w_tables (snd create_run))) = [1, 2, 3]"
    by (auto split: prod.splits)
  then obtain l where l: "fst create_run = Inr l" "txn_merchant_name (lst_txn l) = Some ''Bakery''"
    by (cases "fst create_run") auto
  with create_transaction_exact [OF wf_demo_tx demo_categories prod.collapse [symmetric],
      where x = no_base64 and day = "\<lambda>_. Inr 0" and fts = no_fts and input = demo_input] run
  show ?thesis by (auto simp: create_answer_def)
qed

end
