(* ===== verification/Tx_Import.thy ===== *)
theory Tx_Import
  imports Tx_Edit Money
begin

text \<open>
  The CSV import and the rows of the CSV export (src/server-rs/src/transactions/csv.rs, transactions/store/import.rs
  and handler/import.rs). The csv crate is a parameter: a file is its header and its records, each of which
  may be unreadable. So are the parsers of dates and times, the text of a time and \<open>Debug\<close> of a text.
\<close>

record csv_crates =
  v_read :: "string \<Rightarrow> (string + string list) \<times> (string + string list) list"
  v_date :: date_parser
  v_datetime :: "string \<Rightarrow> int option"
  v_rfc3339 :: "int \<Rightarrow> string"
  v_debug :: "string \<Rightarrow> string"
  v_base64 :: base64

section \<open>Reading rows\<close>

definition normalize_import_datetime :: "csv_crates \<Rightarrow> string \<Rightarrow> int option" where
  "normalize_import_datetime v s =
     (if length s = 10 \<and> s ! 4 = CHR ''-'' \<and> s ! 7 = CHR ''-''
      then (case v_date v s of Inl _ \<Rightarrow> None | Inr days \<Rightarrow> Some (noon days))
      else v_datetime v s)"

record import_row =
  imp_row_num :: nat
  imp_external_id :: string
  imp_source :: string
  imp_account_id :: string
  imp_datetime :: int
  imp_posted_datetime :: int
  imp_amount :: cents
  imp_merchant_name :: string
  imp_original_name :: string
  imp_category :: string
  imp_notes :: string
  imp_is_recurring :: bool
  imp_is_hidden :: bool

record row_error =
  ier_row :: nat
  ier_message :: string

text \<open>The index of a column; of two columns of one name the later one counts.\<close>

definition columns_of :: "string list \<Rightarrow> string \<rightharpoonup> nat" where
  "columns_of headers = map_of (rev (map (\<lambda>(i, h). (to_ascii_lowercase (trim h), i)) (enumerate 0 headers)))"

definition field :: "(string \<rightharpoonup> nat) \<Rightarrow> string list \<Rightarrow> string \<Rightarrow> string" where
  "field columns record name =
     (case columns name of
        None \<Rightarrow> ''''
      | Some i \<Rightarrow> if i < length record then trim (record ! i) else '''')"

definition is_true :: "string \<Rightarrow> bool" where
  "is_true s \<longleftrightarrow> to_ascii_lowercase s = ''true''"

definition import_row_of :: "csv_crates \<Rightarrow> (string \<Rightarrow> string) \<Rightarrow> nat \<Rightarrow> string + import_row" where
  "import_row_of v get row =
     (let account_id = get ''account_id''; datetime = get ''datetime''; merchant_name = get ''merchant_name'';
          original_name = get ''original_name''; amount_raw = get ''amount''; posted_raw = get ''posted_datetime''
      in if account_id = '''' then Inl ''account_id is required''
         else if datetime = '''' then Inl ''datetime is required''
         else if merchant_name = '''' \<and> original_name = '''' then Inl ''merchant_name or original_name is required''
         else case parse_decimal amount_raw of
           Inl _ \<Rightarrow> Inl (''invalid amount '' @ v_debug v amount_raw)
         | Inr amount \<Rightarrow>
             (case normalize_import_datetime v datetime of
                None \<Rightarrow> Inl (''invalid datetime '' @ v_debug v datetime)
              | Some at \<Rightarrow>
                  (case (if posted_raw = '''' then Some at else normalize_import_datetime v posted_raw) of
                     None \<Rightarrow> Inl (''invalid posted_datetime '' @ v_debug v posted_raw)
                   | Some posted \<Rightarrow>
                       Inr \<lparr>imp_row_num = row, imp_external_id = get ''external_id'',
                            imp_source = (if get ''source'' = '''' then ''manual'' else get ''source''),
                            imp_account_id = account_id, imp_datetime = at, imp_posted_datetime = posted,
                            imp_amount = amount, imp_merchant_name = merchant_name,
                            imp_original_name = original_name, imp_category = get ''category'',
                            imp_notes = get ''notes'', imp_is_recurring = is_true (get ''is_recurring''),
                            imp_is_hidden = is_true (get ''is_hidden'')\<rparr>)))"

fun parse_records ::
    "csv_crates \<Rightarrow> (string \<rightharpoonup> nat) \<Rightarrow> nat \<Rightarrow> (string + string list) list \<Rightarrow> error + import_row list \<times> row_error list" where
  "parse_records v columns n [] = Inr ([], [])"
| "parse_records v columns n (r # rs) =
     (case r of
        Inl _ \<Rightarrow> Inl (Msg (''read row '' @ show_nat (Suc n)))
      | Inr record \<Rightarrow>
          and_then (parse_records v columns (Suc n) rs) (\<lambda>(rows, errors).
          Inr (case import_row_of v (field columns record) (Suc n) of
                 Inl message \<Rightarrow> (rows, \<lparr>ier_row = Suc n, ier_message = message\<rparr> # errors)
               | Inr row \<Rightarrow> (row # rows, errors))))"

fun require_columns :: "csv_crates \<Rightarrow> (string \<rightharpoonup> nat) \<Rightarrow> string list \<Rightarrow> error + unit" where
  "require_columns v columns [] = Inr ()"
| "require_columns v columns (name # names) =
     (if columns name = None then Inl (Msg (''missing required column '' @ v_debug v name))
      else require_columns v columns names)"

definition parse_import_csv :: "csv_crates \<Rightarrow> string \<Rightarrow> error + import_row list \<times> row_error list" where
  "parse_import_csv v content =
     (case v_read v content of
        (Inl _, _) \<Rightarrow> Inl (Msg ''read header'')
      | (Inr headers, recs) \<Rightarrow>
          (let columns = columns_of headers
           in and_then (require_columns v columns [''account_id'', ''datetime'', ''amount'']) (\<lambda>_.
              if columns ''merchant_name'' = None \<and> columns ''original_name'' = None
              then Inl (Msg ''CSV must contain at least one of: merchant_name, original_name'')
              else parse_records v columns 0 recs)))"

section \<open>Writing rows\<close>

definition EXPORT_CSV_HEADER :: "string list" where
  "EXPORT_CSV_HEADER =
     [''external_id'', ''source'', ''datetime'', ''posted_datetime'', ''amount'', ''merchant_name'',
      ''original_name'', ''category'', ''account_id'', ''account_name'', ''owner'', ''notes'',
      ''is_recurring'', ''is_reviewed'', ''is_hidden'', ''pending'']"

definition safe_csv_text :: "string \<Rightarrow> string" where
  "safe_csv_text s =
     (case s of
        [] \<Rightarrow> []
      | c # _ \<Rightarrow> if c \<in> {CHR ''='', CHR ''+'', CHR ''-'', CHR ''@'', byte 9, byte 13} then byte 39 # s else s)"

definition bool_text :: "bool \<Rightarrow> string" where
  "bool_text b = (if b then ''true'' else ''false'')"

definition export_row :: "csv_crates \<Rightarrow> listed \<Rightarrow> string list" where
  "export_row v l =
     (let r = lst_txn l
      in [safe_csv_text (txn_external_id r), safe_csv_text (txn_source r), v_rfc3339 v (txn_datetime r),
          v_rfc3339 v (txn_posted_datetime r), format_cents (txn_amount_cents r),
          safe_csv_text (unwrap_or '''' (txn_merchant_name r)), safe_csv_text (unwrap_or '''' (txn_original_name r)),
          safe_csv_text (cat_name (lst_category l)),
          encode_global_id (v_base64 v) Account (of_int (acc_id (lst_account l))),
          safe_csv_text (acc_name (lst_account l)), safe_csv_text (own_name (lst_owner l)),
          safe_csv_text (unwrap_or '''' (txn_notes r)), bool_text (txn_is_recurring r),
          bool_text (txn_is_reviewed r), bool_text (txn_is_hidden r), bool_text (txn_pending r)])"

section \<open>Accounts and categories of the rows\<close>

text \<open>The accounts with their owners, by identifiers or external identifiers; an absent list is no filter.\<close>

definition account_rows :: "(account_row \<Rightarrow> bool) \<Rightarrow> tx_tables \<Rightarrow> account_row list" where
  "account_rows P t =
     map snd (sort_key (\<lambda>(owner, a). (own_name owner, acc_name a))
       (concat (map (\<lambda>a. map (\<lambda>owner. (owner, a))
           (filter (\<lambda>owner. own_id owner = acc_owner_id a) (b_owners t)))
         (filter P (b_accounts t)))))"

definition account_records_by :: "int list option \<Rightarrow> string list option \<Rightarrow> account_row list tx_db" where
  "account_records_by ids external_ids = select (account_rows (\<lambda>a.
     given (\<lambda>is. acc_id a \<in> set is) ids \<and> given (\<lambda>es. acc_external_id a \<in> set es) external_ids))"

fun split_account_ids :: "base64 \<Rightarrow> string list \<Rightarrow> error + (string \<times> int) list \<times> string list" where
  "split_account_ids x [] = Inr ([], [])"
| "split_account_ids x (s # ss) =
     (case decode_global_id x s of
        Inr g \<Rightarrow>
          and_then (i64_of_type g Account) (\<lambda>i.
          and_then (split_account_ids x ss) (\<lambda>(global_ids, external_ids).
          Inr ((s, sint i) # global_ids, external_ids)))
      | Inl _ \<Rightarrow>
          and_then (split_account_ids x ss) (\<lambda>(global_ids, external_ids). Inr (global_ids, s # external_ids)))"

definition non_empty_list :: "'a list \<Rightarrow> 'a list option" where
  "non_empty_list xs = (if xs = [] then None else Some xs)"

definition resolve_accounts :: "base64 \<Rightarrow> import_row list \<Rightarrow> (string \<rightharpoonup> int) tx_db" where
  "resolve_accounts x rows =
     try_bind (of_result (split_account_ids x (map imp_account_id rows))) (\<lambda>(global_ids, external_ids).
     try_bind (account_records_by (non_empty_list (map snd global_ids)) None) (\<lambda>global_rows.
     try_bind (account_records_by None (non_empty_list external_ids)) (\<lambda>external_rows.
     ok (map_of (filter (\<lambda>(_, i). i \<in> set (map acc_id global_rows)) global_ids)
         ++ map_of (rev (map (\<lambda>a. (acc_external_id a, acc_id a)) external_rows))))))"

definition category_ids_by_name :: "(string \<rightharpoonup> int) tx_db" where
  "category_ids_by_name = try_bind list_categories (\<lambda>cs.
     ok (map_of (rev (map (\<lambda>c. (to_ascii_lowercase (cat_name c), cat_id c)) cs))))"

section \<open>Storing rows\<close>

definition resolve_import_categorization ::
    "import_row \<Rightarrow> int \<Rightarrow> (string \<rightharpoonup> int) \<Rightarrow> auto_category tx_db" where
  "resolve_import_categorization row account_id categories =
     (case categories (to_ascii_lowercase (imp_category row)) of
        Some category_id \<Rightarrow> ok (no_category\<lparr>aut_category_id := Some category_id\<rparr>)
      | None \<Rightarrow> auto_categorization_result (none_if_empty (imp_merchant_name row))
          (none_if_empty (imp_original_name row)) (imp_amount row) account_id)"

definition import_external_id :: "string \<Rightarrow> (tx_tables, string) io" where
  "import_external_id s =
     (if trim s = '''' then do { token \<leftarrow> random_token 16; State_Monad.return (''import-'' @ token) }
      else State_Monad.return (trim s))"

definition import_source :: "string \<Rightarrow> string" where
  "import_source s = (if trim s = '''' then ''manual'' else trim s)"

definition imported_row :: "import_row \<Rightarrow> int \<Rightarrow> string \<Rightarrow> auto_category \<Rightarrow> txn_row" where
  "imported_row row account_id external_id category =
     \<lparr>txn_id = 0, txn_source = import_source (imp_source row), txn_external_id = external_id,
      txn_account_id = account_id, txn_amount_cents = imp_amount row,
      txn_datetime = to_timestamp (imp_datetime row), txn_posted_datetime = to_timestamp (imp_posted_datetime row),
      txn_merchant_name = none_if_empty (imp_merchant_name row),
      txn_original_name = none_if_empty (imp_original_name row), txn_logo_url = None,
      txn_category_id = unwrap_or 0 (aut_category_id category),
      txn_is_reviewed = (aut_category_id category \<noteq> None),
      txn_is_recurring = unwrap_or (imp_is_recurring row) (aut_should_be_recurring category),
      txn_is_hidden = (imp_is_hidden row \<or> unwrap_or False (aut_should_hide category)), txn_pending = False,
      txn_notes = none_if_empty (imp_notes row), txn_plaid_category = None, txn_raw_provider_json = None,
      txn_staged_for_llm = False, txn_pfc2_categorized = False\<rparr>"

definition upsert_import_row :: "import_row \<Rightarrow> int \<Rightarrow> (string \<rightharpoonup> int) \<Rightarrow> unit tx_db" where
  "upsert_import_row row account_id categories = do {
     external_id \<leftarrow> import_external_id (imp_external_id row);
     try_bind (resolve_import_categorization row account_id categories) (\<lambda>category.
     let new = imported_row row account_id external_id category
     in try_bind (try_bind (insert_transaction_row new) (\<lambda>inserted.
          case inserted of Some i \<Rightarrow> ok i | None \<Rightarrow> update_by_source_external_id new)) (\<lambda>transaction_id.
        if aut_tag_ids category \<noteq> [] then add_transaction_tags (aut_tag_ids category) [transaction_id] else ok ()))
   }"

record import_result =
  ire_processed :: nat
  ire_skipped :: nat
  ire_errors :: "row_error list"

fun import_rows ::
    "csv_crates \<Rightarrow> (string \<rightharpoonup> int) \<Rightarrow> (string \<rightharpoonup> int) \<Rightarrow> nat \<Rightarrow> import_row list \<Rightarrow> import_result \<Rightarrow> import_result tx_db" where
  "import_rows v accounts categories index [] result = ok result"
| "import_rows v accounts categories index (row # rows) result =
     (let row_num = (if imp_row_num row = 0 then index + 1 else imp_row_num row)
      in case accounts (imp_account_id row) of
           None \<Rightarrow> import_rows v accounts categories (Suc index) rows
             (result\<lparr>ire_skipped := ire_skipped result + 1,
                ire_errors := ire_errors result @ [\<lparr>ier_row = row_num,
                  ier_message = ''account_id '' @ v_debug v (imp_account_id row) @ '' not found''\<rparr>]\<rparr>)
         | Some account_id \<Rightarrow>
             try_bind (upsert_import_row row account_id categories) (\<lambda>_.
             import_rows v accounts categories (Suc index) rows (result\<lparr>ire_processed := ire_processed result + 1\<rparr>)))"

definition import_transactions :: "csv_crates \<Rightarrow> import_row list \<Rightarrow> import_result tx_db" where
  "import_transactions v rows =
     try_bind (resolve_accounts (v_base64 v) rows) (\<lambda>accounts.
     try_bind category_ids_by_name (\<lambda>categories.
     with_tx (import_rows v accounts categories 0 rows \<lparr>ire_processed = 0, ire_skipped = 0, ire_errors = []\<rparr>)))"

section \<open>The request\<close>

datatype import_answer = Import_Bad_Request error | Import_Failed | Imported import_result

definition import_file :: "csv_crates \<Rightarrow> string \<Rightarrow> (tx_tables, import_answer) io" where
  "import_file v content =
     (case parse_import_csv v content of
        Inl e \<Rightarrow> State_Monad.return (Import_Bad_Request e)
      | Inr (rows, parse_errors) \<Rightarrow> do {
          r \<leftarrow> import_transactions v rows;
          State_Monad.return (case r of
            Inl _ \<Rightarrow> Import_Failed
          | Inr result \<Rightarrow> Imported (result\<lparr>ire_skipped := ire_skipped result + length parse_errors,
              ire_errors := parse_errors @ ire_errors result\<rparr>))
        })"

end
