(* ===== verification/Tx_Import_Laws.thy ===== *)
theory Tx_Import_Laws
  imports Tx_Import Tx_Edit_Laws
begin

text \<open>
  An import takes every row into account, stores all of them or none, and takes back what the export wrote.
\<close>

section \<open>Reading what was written\<close>

definition plain :: "string \<Rightarrow> bool" where
  "plain s \<longleftrightarrow> trim s = s \<and> safe_csv_text s = s"

definition plain_opt :: "string option \<Rightarrow> bool" where
  "plain_opt s \<longleftrightarrow> (case s of None \<Rightarrow> True | Some s \<Rightarrow> s \<noteq> '''' \<and> plain s)"

text \<open>Texts that a spreadsheet does not take for a formula and that have no space around them.\<close>

definition plain_listed :: "listed \<Rightarrow> bool" where
  "plain_listed l \<longleftrightarrow>
     (let r = lst_txn l
      in plain_opt (Some (txn_external_id r)) \<and> plain_opt (Some (txn_source r)) \<and> plain_opt (txn_merchant_name r)
         \<and> plain_opt (txn_original_name r) \<and> (txn_merchant_name r \<noteq> None \<or> txn_original_name r \<noteq> None)
         \<and> plain (cat_name (lst_category l)) \<and> plain_opt (txn_notes r))"

definition formats_ok :: "csv_crates \<Rightarrow> bool" where
  "formats_ok v \<longleftrightarrow> base64_law (v_base64 v)
     \<and> (\<forall>s. s \<noteq> '''' \<longrightarrow> x_b64_encode (v_base64 v) s \<noteq> '''' \<and> trim (x_b64_encode (v_base64 v) s) = x_b64_encode (v_base64 v) s)
     \<and> (\<forall>d. v_datetime v (v_rfc3339 v d) = Some (of_timestamp d) \<and> v_rfc3339 v d \<noteq> ''''
          \<and> trim (v_rfc3339 v d) = v_rfc3339 v d \<and> length (v_rfc3339 v d) \<noteq> 10)"

abbreviation account_gid :: "csv_crates \<Rightarrow> int \<Rightarrow> string" where
  "account_gid v i \<equiv> encode_global_id (v_base64 v) Account (of_int i)"

definition reimported :: "csv_crates \<Rightarrow> nat \<Rightarrow> listed \<Rightarrow> import_row" where
  "reimported v row l =
     (let r = lst_txn l
      in \<lparr>imp_row_num = row, imp_external_id = txn_external_id r, imp_source = txn_source r,
          imp_account_id = account_gid v (acc_id (lst_account l)), imp_datetime = of_timestamp (txn_datetime r),
          imp_posted_datetime = of_timestamp (txn_posted_datetime r), imp_amount = txn_amount_cents r,
          imp_merchant_name = unwrap_or '''' (txn_merchant_name r),
          imp_original_name = unwrap_or '''' (txn_original_name r), imp_category = cat_name (lst_category l),
          imp_notes = unwrap_or '''' (txn_notes r), imp_is_recurring = txn_is_recurring r,
          imp_is_hidden = txn_is_hidden r\<rparr>)"

lemma export_columns:
  "columns_of EXPORT_CSV_HEADER ''external_id'' = Some 0" "columns_of EXPORT_CSV_HEADER ''source'' = Some 1"
  "columns_of EXPORT_CSV_HEADER ''datetime'' = Some 2" "columns_of EXPORT_CSV_HEADER ''posted_datetime'' = Some 3"
  "columns_of EXPORT_CSV_HEADER ''amount'' = Some 4" "columns_of EXPORT_CSV_HEADER ''merchant_name'' = Some 5"
  "columns_of EXPORT_CSV_HEADER ''original_name'' = Some 6" "columns_of EXPORT_CSV_HEADER ''category'' = Some 7"
  "columns_of EXPORT_CSV_HEADER ''account_id'' = Some 8" "columns_of EXPORT_CSV_HEADER ''notes'' = Some 11"
  "columns_of EXPORT_CSV_HEADER ''is_recurring'' = Some 12" "columns_of EXPORT_CSV_HEADER ''is_hidden'' = Some 14"
  by code_simp+

lemma trim_nothing [simp]: "trim '''' = ''''"
  by (simp add: trim_printable)

lemma plain_text: "plain_opt s \<Longrightarrow> trim (safe_csv_text (unwrap_or '''' s)) = unwrap_or '''' s"
  by (cases s) (auto simp: plain_opt_def plain_def unwrap_or_def safe_csv_text_def)

lemma bool_texts: "is_true (trim ''true'')" "\<not> is_true (trim ''false'')"
  by code_simp+

lemma bool_text_read [simp]: "is_true (trim (bool_text b)) \<longleftrightarrow> b"
  using bool_texts by (cases b) (simp_all only: bool_text_def if_True if_False)

lemma digits_printable: "list_all is_ascii_digit s \<Longrightarrow> list_all printable s"
  by (auto simp: list_all_iff is_ascii_digit_def printable_def Let_def)

lemma trim_cents [simp]: "trim (format_cents c) = format_cents c"
proof -
  let ?n = "unsigned_abs c"
  have "list_all printable (show_nat (?n div 100))" "list_all printable (two_digits (?n mod 100))"
    using show_nat_digits [of "?n div 100"] two_digits [of "?n mod 100"] digits_printable by (simp_all add: all_digits_def)
  moreover have "printable CHR ''-''" "printable CHR ''.''"
    by (simp_all add: printable_def)
  ultimately have "list_all printable (format_cents c)" and "format_cents c \<noteq> ''''"
    by (simp_all add: format_cents_def Let_def)
  then show ?thesis
    by (intro trim_printable) (simp add: list_all_iff)
qed

lemma field_of_export:
  assumes "columns_of EXPORT_CSV_HEADER name = Some i" "i < 16"
  shows "field (columns_of EXPORT_CSV_HEADER) (export_row v l) name = trim (export_row v l ! i)"
  using assms by (simp add: field_def export_row_def Let_def)

lemma export_fields:
  "export_row v l ! 0 = safe_csv_text (txn_external_id (lst_txn l))" "export_row v l ! Suc 0 = safe_csv_text (txn_source (lst_txn l))"
  "export_row v l ! 2 = v_rfc3339 v (txn_datetime (lst_txn l))" "export_row v l ! 3 = v_rfc3339 v (txn_posted_datetime (lst_txn l))"
  "export_row v l ! 4 = format_cents (txn_amount_cents (lst_txn l))"
  "export_row v l ! 5 = safe_csv_text (unwrap_or '''' (txn_merchant_name (lst_txn l)))"
  "export_row v l ! 6 = safe_csv_text (unwrap_or '''' (txn_original_name (lst_txn l)))"
  "export_row v l ! 7 = safe_csv_text (cat_name (lst_category l))"
  "export_row v l ! 8 = account_gid v (acc_id (lst_account l))"
  "export_row v l ! 11 = safe_csv_text (unwrap_or '''' (txn_notes (lst_txn l)))"
  "export_row v l ! 12 = bool_text (txn_is_recurring (lst_txn l))" "export_row v l ! 14 = bool_text (txn_is_hidden (lst_txn l))"
  by (simp_all add: export_row_def Let_def)

lemma import_of_export:
  assumes "formats_ok v" "plain_listed l"
  shows "import_row_of v (field (columns_of EXPORT_CSV_HEADER) (export_row v l)) n = Inr (reimported v n l)"
proof -
  let ?get = "field (columns_of EXPORT_CSV_HEADER) (export_row v l)" and ?r = "lst_txn l"
  note texts = assms(2) [unfolded plain_listed_def Let_def]
  have dates: "trim (v_rfc3339 v d) = v_rfc3339 v d" "v_rfc3339 v d \<noteq> ''''"
      "normalize_import_datetime v (v_rfc3339 v d) = Some (of_timestamp d)" for d
    using assms(1) by (simp_all add: formats_ok_def normalize_import_datetime_def)
  have gid: "trim (account_gid v i) = account_gid v i" "account_gid v i \<noteq> ''''" for i
    using assms(1) by (simp_all add: formats_ok_def encode_global_id_def)
  have get: "?get ''external_id'' = txn_external_id ?r" "?get ''source'' = txn_source ?r"
      "?get ''datetime'' = v_rfc3339 v (txn_datetime ?r)" "?get ''posted_datetime'' = v_rfc3339 v (txn_posted_datetime ?r)"
      "?get ''amount'' = format_cents (txn_amount_cents ?r)"
      "?get ''merchant_name'' = unwrap_or '''' (txn_merchant_name ?r)"
      "?get ''original_name'' = unwrap_or '''' (txn_original_name ?r)"
      "?get ''category'' = cat_name (lst_category l)" "?get ''account_id'' = account_gid v (acc_id (lst_account l))"
      "?get ''notes'' = unwrap_or '''' (txn_notes ?r)"
      "is_true (?get ''is_recurring'') = txn_is_recurring ?r" "is_true (?get ''is_hidden'') = txn_is_hidden ?r"
    using texts plain_text [of "Some (txn_external_id ?r)"] plain_text [of "Some (txn_source ?r)"]
      plain_text [of "txn_merchant_name ?r"] plain_text [of "txn_original_name ?r"] plain_text [of "txn_notes ?r"]
    by (simp_all add: field_of_export export_columns export_fields dates gid plain_def) (simp_all add: unwrap_or_def)
  have named: "\<not> (unwrap_or '''' (txn_merchant_name ?r) = '''' \<and> unwrap_or '''' (txn_original_name ?r) = '''')"
    using texts by (auto simp: plain_opt_def unwrap_or_def split: option.splits)
  have source: "txn_source ?r \<noteq> ''''" using texts by (simp add: plain_opt_def)
  show ?thesis
    unfolding import_row_of_def Let_def get cents_roundtrip dates(3)
    using gid(2) dates(2) named source by (auto simp: dates reimported_def Let_def)
qed

lemma parse_export:
  assumes "formats_ok v" "\<forall>l \<in> set ls. plain_listed l"
  shows "parse_records v (columns_of EXPORT_CSV_HEADER) n (map (\<lambda>l. Inr (export_row v l)) ls)
    = Inr (map (\<lambda>(i, l). reimported v (Suc i) l) (enumerate n ls), [])"
  using assms(2)
proof (induction ls arbitrary: n)
  case (Cons l ls)
  then show ?case by (simp add: and_then_def import_of_export [OF assms(1)])
qed simp

section \<open>Accounts and categories\<close>

lemma decode_account_gid:
  assumes "base64_law (v_base64 v)"
  shows "decode_global_id (v_base64 v) (account_gid v i) = Inr \<lparr>gid_typ = Account, gid_id = of_int i\<rparr>"
  using decode_encoded [OF assms, of "\<lparr>gid_typ = Account, gid_id = of_int i\<rparr>"] by (simp add: encoded_string_def)

lemma sint_of_int: "in_i64 i \<Longrightarrow> sint (of_int i :: 64 word) = i"
  by (simp add: signed_of_int signed_take_bit_int_eq_self in_i64_def i64_min_def i64_max_def)

lemma account_gid_inj:
  assumes "base64_law (v_base64 v)" "in_i64 i" "in_i64 j" "account_gid v i = account_gid v j"
  shows "i = j"
proof -
  from assms(4) have "(of_int i :: 64 word) = of_int j"
    using arg_cong [OF assms(4), of "decode_global_id (v_base64 v)"]
    unfolding decode_account_gid [OF assms(1)] by (simp only: sum.inject global_id.ext_inject)
  then have "sint (of_int i :: 64 word) = sint (of_int j :: 64 word)" by simp
  then show ?thesis by (simp only: sint_of_int [OF assms(2)] sint_of_int [OF assms(3)])
qed

lemma split_gids:
  assumes "base64_law (v_base64 v)" "\<forall>i \<in> set is. in_i64 i"
  shows "split_account_ids (v_base64 v) (map (account_gid v) is) = Inr (map (\<lambda>i. (account_gid v i, i)) is, [])"
  using assms(2)
  by (induction "is") (simp_all add: decode_account_gid [OF assms(1)] i64_of_type_def and_then_def sint_of_int)

lemma map_of_gids:
  assumes "\<And>j. j \<in> set is \<Longrightarrow> g j = g i \<Longrightarrow> j = i" "i \<in> set is"
  shows "map_of (map (\<lambda>i. (g i, i)) is) (g i) = Some i"
  using assms by (induction "is") auto

lemma account_rows_set:
  assumes "wf_tx t"
  shows "set (account_rows P t) = {a \<in> set (b_accounts t). P a}"
proof -
  have "\<exists>w \<in> set (b_owners t). own_id w = acc_owner_id a" if "a \<in> set (b_accounts t)" for a
    using wf_txD(4) [OF assms] that by (force simp: fk_account_def)
  then show ?thesis by (force simp: account_rows_def)
qed

text \<open>Every account of a row is found.\<close>

lemma wp_resolve_accounts:
  assumes "wf_tx (w_tables w)" "base64_law (v_base64 v)" "map imp_account_id rows = map (account_gid v) is"
    and "set is \<subseteq> acc_id ` set (b_accounts (w_tables w))" "\<forall>i \<in> set is. in_i64 i"
    and "\<forall>a \<in> set (b_accounts (w_tables w)). \<forall>i \<in> set is. acc_external_id a \<noteq> account_gid v i"
    and "\<And>e w'. w_tables w' = w_tables w \<Longrightarrow> \<exists>i. w_faults w i \<Longrightarrow> Q (Inl e) w'"
    and "\<And>accounts w'. w_tables w' = w_tables w \<Longrightarrow> w_faults w' = w_faults w \<Longrightarrow>
      \<forall>i \<in> set is. accounts (account_gid v i) = Some i \<Longrightarrow> Q (Inr accounts) w'"
  shows "wp (resolve_accounts (v_base64 v) rows) Q w"
proof -
  define global where "global = account_rows (\<lambda>a. given (\<lambda>is. acc_id a \<in> set is) (non_empty_list is)
      \<and> given (\<lambda>es. acc_external_id a \<in> set es) None) (w_tables w)"
  define external where "external = account_rows (\<lambda>a. given (\<lambda>is. acc_id a \<in> set is) None
      \<and> given (\<lambda>es. acc_external_id a \<in> set es) (non_empty_list [])) (w_tables w)"
  define accounts where "accounts = map_of (filter (\<lambda>(_, i). i \<in> set (map acc_id global)) (map (\<lambda>i. (account_gid v i, i)) is))
         ++ map_of (rev (map (\<lambda>a. (acc_external_id a, acc_id a)) external))"
  have "accounts (account_gid v i) = Some i" if i: "i \<in> set is" for i
  proof -
    have "set is \<subseteq> acc_id ` set global"
      using assms(4) by (auto simp: global_def account_rows_set [OF assms(1)] given_def non_empty_list_def)
    then have "filter (\<lambda>(_, i). i \<in> set (map acc_id global)) (map (\<lambda>i. (account_gid v i, i)) is) = map (\<lambda>i. (account_gid v i, i)) is"
      by (auto simp: filter_id_conv)
    moreover have "map_of (map (\<lambda>i. (account_gid v i, i)) is) (account_gid v i) = Some i"
      using assms(5) i by (intro map_of_gids account_gid_inj [OF assms(2)]) auto
    moreover have "\<forall>a \<in> set external. account_gid v i \<noteq> acc_external_id a"
      using assms(6) i by (simp add: external_def account_rows_set [OF assms(1)]) metis
    then have "map_of (rev (map (\<lambda>a. (acc_external_id a, acc_id a)) external)) (account_gid v i) = None"
      by (auto simp: map_of_eq_None_iff)
    ultimately show ?thesis by (simp add: map_add_def accounts_def)
  qed
  then have found: "\<forall>i \<in> set is. accounts (account_gid v i) = Some i" by blast
  have ids: "map snd (map (\<lambda>i. (account_gid v i, i)) is) = is" by (induction "is") simp_all
  have split: "split_account_ids (v_base64 v) (map imp_account_id rows) = Inr (map (\<lambda>i. (account_gid v i, i)) is, [])"
    unfolding assms(3) by (rule split_gids [OF assms(2,5)])
  show ?thesis
    unfolding resolve_accounts_def split
  proof (rule wp_try_bindI, unfold wp_of_result sum.case prod.case ids, rule wp_try_bindI,
      unfold account_records_by_def wp_select, goal_cases)
    case 1
    have "w_faults w (w_queries w) \<Longrightarrow> Q (Inl DbFault) (spend_statement w)" by (rule assms(7)) auto
    moreover have "wp (try_bind (select (account_rows (\<lambda>a. given (\<lambda>is. acc_id a \<in> set is) None
          \<and> given (\<lambda>es. acc_external_id a \<in> set es) (non_empty_list [])))) (\<lambda>external_rows.
        ok (map_of (filter (\<lambda>(_, i). i \<in> set (map acc_id global)) (map (\<lambda>i. (account_gid v i, i)) is))
         ++ map_of (rev (map (\<lambda>a. (acc_external_id a, acc_id a)) external_rows))))) Q (spend_statement w)"
      by (rule wp_try_bindI, unfold wp_select sum.case spend_statement_simps wp_ok external_def [symmetric] accounts_def [symmetric])
         (auto intro!: assms(7,8) simp: found)
    ultimately show ?case by (simp add: global_def)
  qed
qed

section \<open>Storing what was exported\<close>

text \<open>A transaction that a row was stored over is reviewed, and nothing waits for its categorization any more.\<close>

definition taken_back :: "txn_row \<Rightarrow> txn_row" where
  "taken_back r = r\<lparr>txn_is_reviewed := True, txn_staged_for_llm := False, txn_pfc2_categorized := False\<rparr>"

lemma taken_back_simps [simp]:
  "txn_id (taken_back r) = txn_id r" "txn_key (taken_back r) = txn_key r" "txn_account_id (taken_back r) = txn_account_id r"
  "txn_category_id (taken_back r) = txn_category_id r" "taken_back (taken_back r) = taken_back r"
  by (simp_all add: taken_back_def txn_key_def)

definition reviewed_all :: "int set \<Rightarrow> tx_tables \<Rightarrow> tx_tables" where
  "reviewed_all R t =
     t\<lparr>b_transactions := map (\<lambda>r. if txn_id r \<in> R then taken_back r else r) (b_transactions t)\<rparr>"

lemma find_key:
  assumes "distinct (map key xs)" "x \<in> set xs"
  shows "find (\<lambda>y. key y = key x) xs = Some x"
  using assms by (induction xs) auto

lemma plain_opt_none [simp]: "plain_opt s \<Longrightarrow> none_if_empty (unwrap_or '''' s) = s"
  by (cases s) (auto simp: plain_opt_def unwrap_or_def none_if_empty_def)

lemma merge_reimported:
  assumes "plain_listed l" "lst_txn l = r" "txn_category_id r = cat_id (lst_category l)"
    and "txn_account_id r = i" "old = r \<or> old = taken_back r"
  shows "merge_imported (imported_row (reimported v n l) i external_id (no_category\<lparr>aut_category_id := Some (cat_id (lst_category l))\<rparr>)) old
    = taken_back r"
proof -
  have "to_timestamp (of_timestamp d) = d" for d
    by (simp add: to_timestamp_def of_timestamp_def nanos_def)
  then show ?thesis
    using assms(1,5) unfolding plain_listed_def Let_def taken_back_def
    by (cases r) (auto simp: merge_imported_def imported_row_def reimported_def Let_def no_category_def unwrap_or_def [of False]
        unwrap_or_def [of _ None] unwrap_or_def [of 0] assms(2-4)[symmetric])
qed

lemma reviewed_all_one:
  assumes "r \<in> set (b_transactions t)" "distinct (map txn_id (b_transactions t))"
  shows "(reviewed_all R t)\<lparr>b_transactions := update_rows (\<lambda>x. txn_id x = txn_id r) (\<lambda>_. taken_back r)
      (b_transactions (reviewed_all R t))\<rparr> = reviewed_all (insert (txn_id r) R) t"
proof -
  have "x = r" if "x \<in> set (b_transactions t)" "txn_id x = txn_id r" for x
    using that assms by (auto simp: distinct_map dest: inj_onD)
  then have "map (\<lambda>x. if txn_id x = txn_id r then taken_back r else x)
      (map (\<lambda>x. if txn_id x \<in> R then taken_back x else x) (b_transactions t))
    = map (\<lambda>x. if txn_id x \<in> insert (txn_id r) R then taken_back x else x) (b_transactions t)"
    unfolding map_map comp_def by (intro map_cong refl) auto
  then show ?thesis
    by (simp add: reviewed_all_def update_rows_def del: map_map)
qed

lemma reviewed_rows:
  assumes "r \<in> set (b_transactions t)" "distinct (map txn_key (b_transactions t))"
  shows "find (\<lambda>x. txn_key x = txn_key r) (b_transactions (reviewed_all R t)) =
    Some (if txn_id r \<in> R then taken_back r else r)"
proof -
  let ?f = "\<lambda>r. if txn_id r \<in> R then taken_back r else r"
  have key: "txn_key (?f x) = txn_key x" for x by simp
  then have "map txn_key (map ?f (b_transactions t)) = map txn_key (b_transactions t)" by simp
  then have "distinct (map txn_key (map ?f (b_transactions t)))" using assms(2) by (simp only:)
  moreover have "?f r \<in> set (map ?f (b_transactions t))" using assms(1) unfolding set_map by (rule imageI)
  ultimately have "find (\<lambda>y. txn_key y = txn_key (?f r)) (map ?f (b_transactions t)) = Some (?f r)"
    by (rule find_key)
  moreover have "b_transactions (reviewed_all R t) = map ?f (b_transactions t)"
    by (simp add: reviewed_all_def)
  ultimately show ?thesis by (simp only: key)
qed

text \<open>One row: the transaction it was written from is found and only taken back.\<close>

lemma wp_upsert_reimported:
  assumes "wf_tx t" "w_tables w = reviewed_all R t" "lst_txn l \<in> set (b_transactions t)" "plain_listed l"
    and "txn_category_id (lst_txn l) = cat_id (lst_category l)" "txn_account_id (lst_txn l) = acc_id (lst_account l)"
    and "categories (to_ascii_lowercase (cat_name (lst_category l))) = Some (cat_id (lst_category l))"
    and "\<And>e w'. \<exists>i. w_faults w i \<Longrightarrow> Q (Inl e) w'"
    and "\<And>w'. w_tables w' = reviewed_all (insert (txn_id (lst_txn l)) R) t \<Longrightarrow> w_faults w' = w_faults w \<Longrightarrow> Q (Inr ()) w'"
  shows "wp (upsert_import_row (reimported v n l) (acc_id (lst_account l)) categories) Q w"
proof -
  let ?r = "lst_txn l" and ?i = "acc_id (lst_account l)"
  let ?category = "no_category\<lparr>aut_category_id := Some (cat_id (lst_category l))\<rparr>"
  let ?new = "imported_row (reimported v n l) ?i (txn_external_id ?r) ?category"
  have plain: "plain_opt (Some (txn_external_id ?r))" "plain_opt (Some (txn_source ?r))"
    using assms(4) by (simp_all add: plain_listed_def Let_def)
  then have ident: "import_external_id (imp_external_id (reimported v n l)) = State_Monad.return (txn_external_id ?r)"
    by (simp add: import_external_id_def reimported_def Let_def plain_opt_def plain_def)
  have key: "txn_key ?new = txn_key ?r"
    using plain by (simp add: txn_key_def imported_row_def import_source_def reimported_def Let_def plain_opt_def plain_def)
  have category: "resolve_import_categorization (reimported v n l) ?i categories = ok ?category"
    using assms(7) by (simp add: resolve_import_categorization_def reimported_def Let_def)
  let ?old = "if txn_id ?r \<in> R then taken_back ?r else ?r"
  have old: "find (\<lambda>x. txn_key x = txn_key ?new) (b_transactions (reviewed_all R t)) = Some ?old"
    unfolding key by (rule reviewed_rows [OF assms(3) wf_txD(6) [OF assms(1)]])
  have "?old = ?r \<or> ?old = taken_back ?r" by simp
  then have merged: "merge_imported ?new ?old = taken_back ?r"
    by (rule merge_reimported [OF assms(4) refl assms(5,6)])
  have "fk_txn (reviewed_all R t) (taken_back ?r)"
    using wf_txD(7) [OF assms(1)] assms(3) by (auto simp: fk_txn_def reviewed_all_def)
  then have stored: "replace_txn (merge_imported ?new ?old) (reviewed_all R t)
      = Inr (txn_id ?r, reviewed_all (insert (txn_id ?r) R) t)"
    unfolding merged replace_txn_def
    using reviewed_all_one [OF assms(3) wf_txD(5) [OF assms(1)], of R] by simp
  have "txn_key ?new \<in> txn_key ` set (b_transactions (reviewed_all R t))"
    unfolding conjunct2 [OF find_Some [OF old], symmetric] by (rule imageI [OF conjunct1 [OF find_Some [OF old]]])
  then have absent: "wp (insert_transaction_row ?new) P w1"
    if "w_tables w1 = reviewed_all R t" "w_faults w1 (w_queries w1) \<Longrightarrow> P (Inl DbFault) (spend_statement w1)"
      "P (Inr None) (spend_statement w1)" for P w1
    unfolding insert_transaction_row_def wp_statement that(1) using that(2,3)
    by (simp add: spend_statement_same [of w1, unfolded that(1)])
  have updated: "wp (update_by_source_external_id ?new) P w1"
    if "w_tables w1 = reviewed_all R t" "w_faults w1 (w_queries w1) \<Longrightarrow> P (Inl DbFault) (spend_statement w1)"
      "P (Inr (txn_id ?r)) ((spend_statement w1)\<lparr>w_tables := reviewed_all (insert (txn_id ?r) R) t\<rparr>)" for P w1
    unfolding update_by_source_external_id_def wp_statement that(1) old option.case stored sum.case prod.case
    using that(2,3) by simp
  have failed: "Q (Inl e) w'" if "w_faults w i" for e w' i
    using that assms(8) by blast
  show ?thesis
    unfolding upsert_import_row_def ident category Let_def wp_bind wp_return
    by (rule wp_try_bindI, unfold wp_ok sum.case, rule wp_try_bindI, rule wp_try_bindI, rule absent, rule assms(2),
        simp add: failed, unfold sum.case option.case, rule updated)
       (simp_all add: assms(2,9) failed no_category_def wp_ok)
qed

end
