(* ===== verification/Tx_Reimport.thy ===== *)
theory Tx_Reimport
  imports Tx_Import_Laws
begin

text \<open>
  The import of an export: every row is taken back, and the transactions it names become reviewed.
\<close>








section \<open>Any file\<close>

text \<open>What an import may do to the tables.\<close>

definition rest_of :: "tx_tables \<Rightarrow> tx_tables" where
  "rest_of t = t\<lparr>b_transactions := [], b_transaction_tags := []\<rparr>"

text \<open>A row is stored over a transaction with its key; categorizers forget about the transaction.\<close>

definition stored_over :: "txn_row \<Rightarrow> txn_row \<Rightarrow> bool" where
  "stored_over r r' \<longleftrightarrow> txn_id r' = txn_id r \<and> txn_key r' = txn_key r \<and> txn_pending r' = txn_pending r
     \<and> txn_raw_provider_json r' = txn_raw_provider_json r \<and> txn_logo_url r' = txn_logo_url r
     \<and> txn_plaid_category r' = txn_plaid_category r \<and> \<not> txn_staged_for_llm r' \<and> \<not> txn_pfc2_categorized r'"

lemma stored_over_trans: "stored_over r r' \<Longrightarrow> stored_over r' r'' \<Longrightarrow> stored_over r r''"
  by (simp add: stored_over_def)

definition adding :: "tx_tables \<Rightarrow> tx_tables \<Rightarrow> bool" where
  "adding t t' \<longleftrightarrow> rest_of t' = rest_of t \<and> (wf_tx t \<longrightarrow> wf_tx t'
     \<and> set (b_transaction_tags t) \<subseteq> set (b_transaction_tags t')
     \<and> (\<forall>r \<in> set (b_transactions t). \<exists>r' \<in> set (b_transactions t').
          r' = r \<or> stored_over r r'))"

lemma adding_refl: "adding t t"
  by (auto simp: adding_def)

lemma adding_trans: "adding t u \<Longrightarrow> adding u v \<Longrightarrow> adding t v"
  unfolding adding_def by simp (metis stored_over_trans subset_trans)

definition adds :: "tx_tables world \<Rightarrow> tx_tables world \<Rightarrow> bool" where
  "adds w w' \<longleftrightarrow> adding (w_tables w) (w_tables w')"

interpretation adds: effect_order adds
  by unfold_locales (auto simp: adds_def adding_refl intro: adding_trans)

lemma adds_statement: "(\<And>t a t'. f t = Inr (a, t') \<Longrightarrow> adding t t') \<Longrightarrow> guarantees adds (statement f)"
  by (rule adds.guarantees_statement) (simp add: adds_def)

lemma adding_replace:
  assumes "find (\<lambda>r. txn_key r = txn_key p) (b_transactions t) = Some old" "replace_txn (merge_imported p old) t = Inr (i, t')"
  shows "adding t t'"
proof -
  let ?new = "merge_imported p old"
  have new: "txn_id ?new = txn_id old" "txn_key ?new = txn_key old" "stored_over old ?new"
    by (simp_all add: merge_imported_def txn_key_def stored_over_def)
  have old: "old \<in> set (b_transactions t)" using found_key [OF assms(1)] by simp
  have t': "t' = t\<lparr>b_transactions := update_rows (\<lambda>x. txn_id x = txn_id ?new) (\<lambda>_. ?new) (b_transactions t)\<rparr>"
    using assms(2) by (auto simp: replace_txn_def split: if_splits)
  have "x = old" if "wf_tx t" "x \<in> set (b_transactions t)" "txn_id x = txn_id old" for x
    using wf_txD(5) [OF that(1)] that(2,3) old by (auto simp: distinct_map dest: inj_onD)
  moreover have "wf_tx t'" if "wf_tx t"
    by (rule wf_replace_txn [OF that old new(1,2) assms(2)])
  moreover have "\<exists>r' \<in> set (b_transactions t'). r' = r \<or> stored_over r r'"
    if "wf_tx t" "r \<in> set (b_transactions t)" for r
  proof (rule bexI [of _ "if txn_id r = txn_id ?new then ?new else r"])
    show "(if txn_id r = txn_id ?new then ?new else r) \<in> set (b_transactions t')"
      unfolding t' using that(2) by (auto simp: set_update_rows)
  qed (use calculation(1) [OF that] new in auto)
  ultimately show ?thesis
    by (simp add: adding_def) (simp add: t' rest_of_def)
qed

lemma adding_append:
  assumes "append_txn p t = Inr (i, t')" "txn_key p \<notin> txn_key ` set (b_transactions t)"
  shows "adding t t'"
  using assms wf_append_txn [OF _ assms(2,1)] by (auto simp: adding_def rest_of_def append_txn_Inr Let_def)

lemma adds_statements [guarantee_rules]:
  "guarantees adds (insert_transaction_row p)" "guarantees adds (update_by_source_external_id p)"
  "guarantees adds (add_transaction_tags tags txns)" "guarantees adds (select g)"
proof -
  show "guarantees adds (insert_transaction_row p)"
    unfolding insert_transaction_row_def
    by (rule adds_statement) (auto simp: adding_refl txn_key_def split: if_splits sum.splits dest!: adding_append)
  show "guarantees adds (update_by_source_external_id p)"
    unfolding update_by_source_external_id_def
    by (rule adds_statement) (auto split: option.splits intro: adding_replace)
  show "guarantees adds (add_transaction_tags tags txns)"
    unfolding add_transaction_tags_def exec_def
  proof (rule adds_statement, clarify)
    fix t :: tx_tables and a :: unit and t' tags'
    show "adding t (t\<lparr>b_transaction_tags := insert_or_ignore
         (concat (map (\<lambda>r. map (\<lambda>tag. (txn_id r, tag)) (filter (\<lambda>tag. tag \<in> set tags) (b_tags t)))
           (filter (\<lambda>r. txn_id r \<in> set txns) (b_transactions t)))) (b_transaction_tags t)\<rparr>)"
      unfolding adding_def using wf_txD(9) [of t]
      by (auto simp: rest_of_def intro!: wf_transaction_tags)
  qed
  show "guarantees adds (select g)"
    unfolding select_def by (rule adds_statement) (simp add: adding_refl)
qed










end
