(* ===== verification/Tx_Import_Scenario.thy ===== *)
theory Tx_Import_Scenario
  imports Tx_Reimport Tx_Listing_Scenario
begin









end
