(* ===== verification/Tx_Llm.thy ===== *)
theory Tx_Llm
  imports Tx_Edit
begin

text \<open>
  Categorization by a language model (src/server-rs/src/transactions/llm.rs, transactions/store/llm_store.rs
  and transactions/sync/llm_worker.rs). The model is a parameter: what it answers to a prompt, what
  other requests commit to the tables while it is asked, and which categorizer the settings name at the
  moment may depend on the number of statements executed so far. So are the JSON parser, \<open>Debug\<close> of a text, the text of an amount, and
  \<open>trim_end_matches\<close> of what is not alphanumeric.
\<close>

record category_ref =
  crf_id :: int
  crf_name :: string
  crf_group_name :: string
  crf_group_kind :: string

record categorizer =
  ctz_batch_size :: nat
  ctz_categories :: "category_ref list"

record llm =
  l_ask :: "nat \<Rightarrow> string \<Rightarrow> string \<Rightarrow> error + string"
  l_meanwhile :: "nat \<Rightarrow> tx_tables \<Rightarrow> tx_tables"
  l_current :: "nat \<Rightarrow> categorizer option"
  l_json :: "string \<Rightarrow> (nat \<times> int \<times> string) list option"
  l_debug :: "string \<Rightarrow> string"
  l_dollars :: "cents \<Rightarrow> string"
  l_trim_end :: "string \<Rightarrow> string"

record example_transaction =
  exa_merchant_name :: string
  exa_amount :: "cents option"
  exa_category_id :: int
  exa_category_name :: string

record llm_transaction =
  ltx_id :: int
  ltx_merchant_name :: string
  ltx_original_name :: string
  ltx_amount :: cents
  ltx_plaid_category :: string
  ltx_has_pfc2_match :: bool
  ltx_similar_examples :: "example_transaction list"

datatype confidence = High | Medium | Low

record llm_result =
  lre_transaction_id :: int
  lre_category_id :: int
  lre_category_name :: string
  lre_confidence :: confidence

section \<open>Prompts\<close>

definition display_name :: "llm_transaction \<Rightarrow> string" where
  "display_name t = (if ltx_merchant_name t = '''' then ltx_original_name t else ltx_merchant_name t)"

definition newline :: string where
  "newline = [byte 10]"

definition arrow :: string where
  "arrow = [byte 226, byte 134, byte 146]"

definition dash :: string where
  "dash = [byte 226, byte 128, byte 148]"

definition quoted :: "string \<Rightarrow> string" where
  "quoted s = [byte 34] @ s @ [byte 34]"

definition SYSTEM_INTRODUCTION :: string where
  "SYSTEM_INTRODUCTION =
     ''You are a personal finance transaction categorizer. Classify each transaction into exactly one category ''
     @ ''from the list below.'' @ newline @ newline @ ''CATEGORIES (id | group | name):'' @ newline"

definition IMPORTANT_RULES :: string where
  "IMPORTANT_RULES =
     newline @ ''IMPORTANT RULES:'' @ newline
     @ ''- Use the exact category ID from the list above.'' @ newline
     @ ''- If you are not confident, set confidence to '' @ quoted ''low'' @ ''.'' @ newline
     @ ''- If you truly cannot determine a category, use category_id: 0.'' @ newline
     @ ''- plaid_hint is a hint only '' @ dash @ '' it may be wrong. Prefer merchant name over plaid_hint.'' @ newline
     @ ''- Amount sign: positive = money spent, negative = money received (refund, income, or an incoming transfer).'' @ newline
     @ ''- Paychecks, interest, dividends '' @ arrow @ '' an INCOME category. Credit card payments and moves ''
     @ ''between own accounts '' @ arrow @ '' a TRANSFER category.'' @ newline"

fun category_lines :: "string \<Rightarrow> category_ref list \<Rightarrow> string" where
  "category_lines current [] = ''''"
| "category_lines current (c # cs) =
     (if crf_group_name c \<noteq> current
      then newline @ ''['' @ crf_group_name c @ ''] ('' @ crf_group_kind c @ '')'' @ newline else '''')
     @ ''  '' @ show_int (crf_id c) @ '' | '' @ crf_name c @ newline
     @ category_lines (if crf_group_name c \<noteq> current then crf_group_name c else current) cs"

definition build_system_prompt :: "llm \<Rightarrow> category_ref list \<Rightarrow> example_transaction list \<Rightarrow> string" where
  "build_system_prompt l categories examples =
     SYSTEM_INTRODUCTION @ category_lines '''' categories
     @ (if examples \<noteq> []
        then newline @ ''EXAMPLES FROM YOUR TRANSACTION HISTORY:'' @ newline
          @ concat (map (\<lambda>e. ''  '' @ l_debug l (exa_merchant_name e) @ '' '' @ arrow @ '' ''
              @ exa_category_name e @ '' (ID: '' @ show_int (exa_category_id e) @ '')'' @ newline) examples)
        else '''') @ IMPORTANT_RULES"

definition example_text :: "llm \<Rightarrow> example_transaction \<Rightarrow> string" where
  "example_text l e =
     '' '' @ l_debug l (exa_merchant_name e)
     @ (case exa_amount e of None \<Rightarrow> '''' | Some a \<Rightarrow> '' $'' @ l_dollars l a)
     @ arrow @ exa_category_name e @ '' (ID: '' @ show_int (exa_category_id e) @ '')''"

definition transaction_text :: "llm \<Rightarrow> nat \<times> llm_transaction \<Rightarrow> string" where
  "transaction_text l = (\<lambda>(index, t).
     newline @ show_nat (Suc index) @ ''. merchant: '' @ l_debug l (display_name t)
     @ (if ltx_original_name t \<noteq> '''' \<and> ltx_original_name t \<noteq> display_name t
        then '', raw_name: '' @ l_debug l (ltx_original_name t) else '''')
     @ '', amount: $'' @ l_dollars l (ltx_amount t)
     @ (if ltx_plaid_category t \<noteq> '''' then '', plaid_hint: '' @ l_debug l (ltx_plaid_category t) else '''')
     @ (if ltx_similar_examples t \<noteq> []
        then newline @ ''   (past categorized:'' @ join '','' (map (example_text l) (ltx_similar_examples t)) @ '')''
        else ''''))"

definition build_batch_prompt :: "llm \<Rightarrow> llm_transaction list \<Rightarrow> string" where
  "build_batch_prompt l ts =
     ''TRANSACTIONS TO CLASSIFY:'' @ newline @ concat (map (transaction_text l) (enumerate 0 ts)) @ newline"

section \<open>Answers\<close>

text \<open>Lower case of a text that is to be \<open>high\<close> or \<open>low\<close>: no letter outside ASCII has one of these in lower case.\<close>

definition confidence_of :: "string \<Rightarrow> confidence" where
  "confidence_of s = (if lower s = ''high'' then High else if lower s = ''low'' then Low else Medium)"

definition category_names :: "category_ref list \<Rightarrow> int \<rightharpoonup> string" where
  "category_names categories = map_of (rev (map (\<lambda>c. (crf_id c, crf_name c)) categories))"

definition classified ::
    "llm_transaction list \<Rightarrow> category_ref list \<Rightarrow> nat \<times> int \<times> string \<Rightarrow> llm_result option" where
  "classified ts categories = (\<lambda>(index, category_id, level).
     if index = 0 \<or> length ts < index \<or> category_id = 0 then None
     else case category_names categories category_id of
       None \<Rightarrow> None
     | Some name \<Rightarrow>
         if confidence_of level = Low then None
         else Some \<lparr>lre_transaction_id = ltx_id (ts ! (index - 1)), lre_category_id = category_id,
           lre_category_name = name, lre_confidence = confidence_of level\<rparr>)"

definition parse_response :: "llm \<Rightarrow> string \<Rightarrow> llm_transaction list \<Rightarrow> category_ref list \<Rightarrow> llm_result list" where
  "parse_response l raw ts categories =
     (case l_json l raw of
        None \<Rightarrow> []
      | Some cs \<Rightarrow> List.map_filter (classified ts categories) cs)"

text \<open>The model is asked. When it has answered, other requests may have changed the tables.\<close>

definition ask :: "llm \<Rightarrow> string \<Rightarrow> string \<Rightarrow> string tx_db" where
  "ask l system_prompt prompt = State (\<lambda>w.
     (l_ask l (w_queries w) system_prompt prompt, w\<lparr>w_tables := l_meanwhile l (w_queries w) (w_tables w)\<rparr>))"

definition categorize_batch :: "llm \<Rightarrow> categorizer \<Rightarrow> string \<Rightarrow> llm_transaction list \<Rightarrow> llm_result list tx_db" where
  "categorize_batch l c system_prompt ts =
     (if ts = [] then ok []
      else try_bind (ask l system_prompt (build_batch_prompt l ts)) (\<lambda>response.
        ok (parse_response l response ts (ctz_categories c))))"

section \<open>The store\<close>

definition name_of :: "txn_row \<Rightarrow> string option" where
  "name_of r = (case txn_merchant_name r of
     Some s \<Rightarrow> if s \<noteq> '''' then Some s else txn_original_name r
   | None \<Rightarrow> txn_original_name r)"

definition ltrim :: "string \<Rightarrow> string" where
  "ltrim s = dropWhile (\<lambda>c. c = CHR '' '') s"

definition merchant_key :: "txn_row \<Rightarrow> string option" where
  "merchant_key r = map_option (\<lambda>s. ltrim (lower s)) (name_of r)"

definition uncategorized_for_llm :: "nat \<Rightarrow> llm_transaction list tx_db" where
  "uncategorized_for_llm limit = select (\<lambda>t.
     map (\<lambda>r. \<lparr>ltx_id = txn_id r, ltx_merchant_name = unwrap_or '''' (txn_merchant_name r),
         ltx_original_name = unwrap_or '''' (txn_original_name r), ltx_amount = txn_amount_cents r,
         ltx_plaid_category = unwrap_or '''' (txn_plaid_category r), ltx_has_pfc2_match = txn_pfc2_categorized r,
         ltx_similar_examples = []\<rparr>)
       (take limit (sort_key (\<lambda>r. - txn_datetime r) (filter txn_staged_for_llm (b_transactions t)))))"

definition week_ago :: "int \<Rightarrow> int" where
  "week_ago now = to_timestamp now - 7 * day_seconds"

text \<open>The reviewed transactions an example may come from, with the names of their categories.\<close>

definition reviewed_before :: "int \<Rightarrow> tx_tables \<Rightarrow> (txn_row \<times> category_row) list" where
  "reviewed_before before t =
     concat (map (\<lambda>r. map (Pair r)
         (filter (\<lambda>c. cat_id c = txn_category_id r \<and> cat_id c \<noteq> 0) (b_categories t)))
       (filter (\<lambda>r. txn_is_reviewed r \<and> txn_datetime r < before) (b_transactions t)))"

definition top_merchant_examples :: "nat \<Rightarrow> example_transaction list tx_db" where
  "top_merchant_examples limit = do {
     now \<leftarrow> utc_now;
     select (\<lambda>t.
       let rows = filter (\<lambda>(r, c). name_of r \<noteq> None \<and> name_of r \<noteq> Some '''') (reviewed_before (week_ago now) t);
           key_of = (\<lambda>(r, c). (unwrap_or '''' (merchant_key r), cat_id c));
           groups = map (\<lambda>k. filter (\<lambda>p. key_of p = k) rows) (sort_key id (remdups (map key_of rows)))
       in map (\<lambda>ps.
            let names = map (\<lambda>(r, c). unwrap_or '''' (name_of r)) ps
            in \<lparr>exa_merchant_name = fold min (tl names) (hd names), exa_amount = None,
                exa_category_id = cat_id (snd (hd ps)), exa_category_name = cat_name (snd (hd ps))\<rparr>)
          (take limit (sort_key (\<lambda>ps. - int (length ps)) groups)))
   }"

definition similar_merchant_key :: "llm \<Rightarrow> string \<Rightarrow> string" where
  "similar_merchant_key l name =
     (let lowered = to_ascii_lowercase (trim name)
      in case split_whitespace lowered of
           [] \<Rightarrow> lowered
         | token # _ \<Rightarrow> if l_trim_end l token = '''' then lowered else l_trim_end l token)"

text \<open>The key with the largest character after it is the end of the range of names it starts.\<close>

definition last_character :: string where
  "last_character = [byte 244, byte 143, byte 191, byte 191]"

definition similar_categorized :: "int \<Rightarrow> string \<Rightarrow> tx_tables \<Rightarrow> example_transaction list" where
  "similar_categorized before key t =
     map (\<lambda>(r, c). \<lparr>exa_merchant_name = unwrap_or '''' (name_of r), exa_amount = Some (txn_amount_cents r),
         exa_category_id = cat_id c, exa_category_name = cat_name c\<rparr>)
       (take 3 (sort_key (\<lambda>(r, c). (- txn_datetime r, - txn_id r))
         (filter (\<lambda>(r, c). case merchant_key r of
             None \<Rightarrow> False | Some m \<Rightarrow> key \<le> m \<and> m < key @ last_character) (reviewed_before before t))))"

definition similar_examples_by_key :: "string list \<Rightarrow> (string \<Rightarrow> example_transaction list) tx_db" where
  "similar_examples_by_key keys =
     (if filter (\<lambda>k. k \<noteq> '''') keys = [] then ok (\<lambda>_. [])
      else do {
        now \<leftarrow> utc_now;
        select (\<lambda>t key. if key \<in> set keys \<and> key \<noteq> '''' then similar_categorized (week_ago now) key t else [])
      })"

definition apply_category :: "int \<Rightarrow> int \<Rightarrow> unit tx_db" where
  "apply_category ident category_id = statement (\<lambda>t.
     let P = (\<lambda>r. txn_id r = ident \<and> (txn_category_id r = 0 \<or> txn_pfc2_categorized r));
         t' = t\<lparr>b_transactions := update_rows P (\<lambda>r. r\<lparr>txn_category_id := category_id, txn_is_reviewed := True,
           txn_staged_for_llm := False, txn_pfc2_categorized := False\<rparr>) (b_transactions t)\<rparr>
     in if (\<exists>r \<in> set (b_transactions t). P r) \<and> category_id \<notin> cat_id ` set (b_categories t)
        then Inl Constraint else Inr ((), t'))"

definition clear_staged :: "int list option \<Rightarrow> unit tx_db" where
  "clear_staged ids = exec (\<lambda>t. t\<lparr>b_transactions :=
     update_rows (\<lambda>r. given (\<lambda>is. txn_id r \<in> set is) ids \<and> txn_staged_for_llm r)
       (\<lambda>r. r\<lparr>txn_staged_for_llm := False\<rparr>) (b_transactions t)\<rparr>)"

definition count_staged :: "nat tx_db" where
  "count_staged = select (\<lambda>t. length (filter txn_staged_for_llm (b_transactions t)))"

definition stage_uncategorized :: "nat tx_db" where
  "stage_uncategorized = exec_rows (\<lambda>t.
     let P = (\<lambda>r. \<not> txn_is_reviewed r \<and> \<not> txn_staged_for_llm r)
     in (count_rows P (b_transactions t),
         t\<lparr>b_transactions := update_rows P (\<lambda>r. r\<lparr>txn_staged_for_llm := True\<rparr>) (b_transactions t)\<rparr>))"

section \<open>The worker\<close>

definition LLM_BATCH_LIMIT :: nat where
  "LLM_BATCH_LIMIT = 200"

text \<open>An error of a query whose answer can be done without.\<close>

definition or_else :: "'a \<Rightarrow> 'a tx_db \<Rightarrow> 'a tx_db" where
  "or_else a m = do { r \<leftarrow> m; ok (case r of Inl _ \<Rightarrow> a | Inr b \<Rightarrow> b) }"

definition annotate_similar_examples :: "llm \<Rightarrow> llm_transaction list \<Rightarrow> llm_transaction list tx_db" where
  "annotate_similar_examples l ts =
     try_bind (or_else (\<lambda>_. []) (similar_examples_by_key (map (\<lambda>t. similar_merchant_key l (display_name t)) ts))) (\<lambda>examples.
     ok (map (\<lambda>t. t\<lparr>ltx_similar_examples := examples (similar_merchant_key l (display_name t))\<rparr>) ts))"

fun apply_results :: "llm_result list \<Rightarrow> (int \<rightharpoonup> bool) \<Rightarrow> nat tx_db" where
  "apply_results [] pfc2_matches = ok 0"
| "apply_results (r # rs) pfc2_matches =
     (if pfc2_matches (lre_transaction_id r) = Some True \<and> lre_confidence r \<noteq> High
      then apply_results rs pfc2_matches
      else
        try_bind (apply_category (lre_transaction_id r) (lre_category_id r)) (\<lambda>_.
        try_bind (apply_results rs pfc2_matches) (\<lambda>applied. ok (Suc applied))))"

text \<open>A batch size is at least 1: it is validated when the settings are stored.\<close>

function chunks :: "nat \<Rightarrow> 'a list \<Rightarrow> 'a list list" where
  "chunks n xs = (if xs = [] \<or> n = 0 then [] else take n xs # chunks n (drop n xs))"
  by pat_completeness auto

termination
  by (relation "measure (\<lambda>(n, xs). length xs)") auto

declare chunks.simps [simp del]

fun categorize_chunks ::
    "llm \<Rightarrow> categorizer \<Rightarrow> string \<Rightarrow> (int \<rightharpoonup> bool) \<Rightarrow> llm_transaction list list \<Rightarrow> unit tx_db" where
  "categorize_chunks l c system_prompt pfc2_matches [] = ok ()"
| "categorize_chunks l c system_prompt pfc2_matches (batch # batches) =
     try_bind (categorize_batch l c system_prompt batch) (\<lambda>results.
     try_bind (apply_results results pfc2_matches) (\<lambda>_.
     try_bind (clear_staged (Some (map ltx_id batch))) (\<lambda>_.
     categorize_chunks l c system_prompt pfc2_matches batches)))"

text \<open>The lock of the categorizer is read anew in each round.\<close>

definition current_categorizer :: "llm \<Rightarrow> categorizer option tx_db" where
  "current_categorizer l = State (\<lambda>w. (Inr (l_current l (w_queries w)), w))"

definition categorize :: "llm \<Rightarrow> nat tx_db" where
  "categorize l =
     try_bind (uncategorized_for_llm LLM_BATCH_LIMIT) (\<lambda>ts.
     if ts = [] then ok 0
     else
       try_bind (or_else [] (top_merchant_examples 20)) (\<lambda>global_examples.
       try_bind (annotate_similar_examples l ts) (\<lambda>ts.
       try_bind (current_categorizer l) (\<lambda>current.
       case current of
         None \<Rightarrow> ok 0
       | Some c \<Rightarrow>
           try_bind (categorize_chunks l c (build_system_prompt l (ctz_categories c) global_examples)
             (map_of (rev (map (\<lambda>t. (ltx_id t, ltx_has_pfc2_match t)) ts))) (chunks (ctz_batch_size c) ts)) (\<lambda>_.
           ok (length ts))))))"

text \<open>The loop asks until nothing is left or something fails.\<close>

definition drain_round :: "llm \<Rightarrow> unit \<Rightarrow> (tx_tables, unit + unit) run" where
  "drain_round l _ =
     try_bind (categorize l) (\<lambda>n. finish (if n = 0 then Inr () else Inl ()))"

definition drain :: "nat \<Rightarrow> llm \<Rightarrow> (tx_tables, unit) run" where
  "drain fuel l = iterate fuel (drain_round l) ()"

text \<open>What the worker is told: the current categorizer and a signal that is waiting, of which the channel
  holds at most one.\<close>

record worker =
  wrk_categorizer :: "categorizer option"
  wrk_signal :: bool

definition signal :: "worker \<Rightarrow> worker" where
  "signal k = k\<lparr>wrk_signal := True\<rparr>"

definition enable :: "categorizer \<Rightarrow> worker \<Rightarrow> worker" where
  "enable c k = signal (k\<lparr>wrk_categorizer := Some c\<rparr>)"

definition disable :: "worker \<Rightarrow> (tx_tables, worker) io" where
  "disable k =
     (if wrk_categorizer k = None then State_Monad.return k
      else do {
        _ \<leftarrow> clear_staged None;
        State_Monad.return (k\<lparr>wrk_categorizer := None\<rparr>)
      })"

definition set_categorizer :: "categorizer option \<Rightarrow> worker \<Rightarrow> (tx_tables, worker) io" where
  "set_categorizer c k = (case c of Some c \<Rightarrow> State_Monad.return (enable c k) | None \<Rightarrow> disable k)"

definition prepare_startup :: "worker \<Rightarrow> worker tx_db" where
  "prepare_startup k =
     (if wrk_categorizer k \<noteq> None then ok (signal k) else try_bind (clear_staged None) (\<lambda>_. ok k))"

definition reprocess_uncategorized :: "worker \<Rightarrow> (worker \<times> nat) tx_db" where
  "reprocess_uncategorized k =
     (if wrk_categorizer k = None then err (Msg ''LLM categorization is not enabled'')
      else try_bind stage_uncategorized (\<lambda>staged. ok (signal k, staged)))"

text \<open>One turn of the worker: it takes the signal, and then works if it is enabled. A signal that comes
  while it works waits for the next turn.\<close>

definition receive :: "worker \<Rightarrow> worker" where
  "receive k = k\<lparr>wrk_signal := False\<rparr>"

definition worker_turn :: "nat \<Rightarrow> llm \<Rightarrow> worker \<Rightarrow> (tx_tables, worker) io" where
  "worker_turn fuel l k =
     (if \<not> wrk_signal k then State_Monad.return k
      else do {
        let k = receive k;
        enabled \<leftarrow> current_categorizer l;
        _ \<leftarrow> (if enabled \<noteq> Inr None then drain fuel l else finish ());
        State_Monad.return k
      })"

end
