(* ===== verification/Tx_Llm_Laws.thy ===== *)
theory Tx_Llm_Laws
  imports Tx_Llm Tx_Laws
begin

text \<open>
  The worker of the language model: each of its runs is a sequence of small steps, none of which touches
  a transaction that is decided, and no transaction stays staged without the worker being called.
\<close>

section \<open>Steps of the worker\<close>

definition undecided :: "txn_row \<Rightarrow> bool" where
  "undecided r \<longleftrightarrow> txn_category_id r = 0 \<or> txn_pfc2_categorized r"

definition classify :: "int \<Rightarrow> txn_row \<Rightarrow> txn_row" where
  "classify c r = r\<lparr>txn_category_id := c, txn_is_reviewed := True, txn_staged_for_llm := False,
     txn_pfc2_categorized := False\<rparr>"

definition release :: "txn_row \<Rightarrow> txn_row" where
  "release r = r\<lparr>txn_staged_for_llm := False\<rparr>"

definition category_ids :: "tx_tables \<Rightarrow> int set" where
  "category_ids t = cat_id ` set (b_categories t)"

definition choices :: "categorizer option \<Rightarrow> int set" where
  "choices c = (case c of None \<Rightarrow> {} | Some c \<Rightarrow> crf_id ` set (ctz_categories c) - {0})"

text \<open>The categories of the categorizers that are set at some time.\<close>

definition offered :: "llm \<Rightarrow> int set" where
  "offered l = (\<Union>n. choices (l_current l n))"

inductive worker_step :: "llm \<Rightarrow> int set \<Rightarrow> tx_tables \<Rightarrow> tx_tables \<Rightarrow> bool" for l C where
  Meanwhile: "worker_step l C t (l_meanwhile l n t)"
| Released: "(\<And>r. P r \<Longrightarrow> txn_staged_for_llm r) \<Longrightarrow>
    worker_step l C t (t\<lparr>b_transactions := update_rows P release (b_transactions t)\<rparr>)"
| Classified: "c \<in> C \<Longrightarrow> c \<in> category_ids t \<Longrightarrow>
    worker_step l C t (t\<lparr>b_transactions := update_rows (\<lambda>r. txn_id r = i \<and> undecided r) (classify c) (b_transactions t)\<rparr>)"

abbreviation worker_steps :: "llm \<Rightarrow> int set \<Rightarrow> tx_tables \<Rightarrow> tx_tables \<Rightarrow> bool" where
  "worker_steps l C \<equiv> (worker_step l C)\<^sup>*\<^sup>*"

definition stepping :: "llm \<Rightarrow> int set \<Rightarrow> tx_tables world \<Rightarrow> tx_tables world \<Rightarrow> bool" where
  "stepping l C w w' \<longleftrightarrow> worker_steps l C (w_tables w) (w_tables w')"

interpretation stepping: effect_order "stepping l C" for l C
  by unfold_locales (auto simp: stepping_def intro: rtranclp_trans)

lemma stepping_statement:
  "(\<And>t a t'. f t = Inr (a, t') \<Longrightarrow> worker_steps l C t t') \<Longrightarrow> guarantees (stepping l C) (statement f)"
  by (rule stepping.guarantees_statement) (simp add: stepping_def)

lemma stepping_select [guarantee_rules]: "guarantees (stepping l C) (select f)"
  unfolding select_def by (rule stepping_statement) simp

lemma update_nothing: "\<not> (\<exists>r \<in> set rows. P r) \<Longrightarrow> update_rows P f rows = rows"
  by (auto simp: update_rows_def intro: map_idI)

lemma stepping_ask: "guarantees (stepping l C) (ask l s p)"
  by (auto simp: guarantees_def wp_def ask_def stepping_def intro: Meanwhile)

lemma stepping_clear_staged: "guarantees (stepping l C) (clear_staged ids)"
  unfolding clear_staged_def exec_def release_def [symmetric]
  by (rule stepping_statement) (auto intro!: Released)

lemma stepping_apply_category:
  assumes "c \<in> C"
  shows "guarantees (stepping l C) (apply_category i c)"
  unfolding apply_category_def
proof (rule stepping_statement)
  fix t t' :: tx_tables and a
  let ?P = "\<lambda>r. txn_id r = i \<and> (txn_category_id r = 0 \<or> txn_pfc2_categorized r)"
  let ?t = "t\<lparr>b_transactions := update_rows ?P (classify c) (b_transactions t)\<rparr>"
  assume "(let P = ?P; t' = t\<lparr>b_transactions := update_rows P (\<lambda>r. r\<lparr>txn_category_id := c, txn_is_reviewed := True,
           txn_staged_for_llm := False, txn_pfc2_categorized := False\<rparr>) (b_transactions t)\<rparr>
     in if (\<exists>r \<in> set (b_transactions t). P r) \<and> c \<notin> cat_id ` set (b_categories t) then Inl Constraint else Inr ((), t'))
    = Inr (a, t')"
  then have t': "t' = ?t" and "(\<exists>r \<in> set (b_transactions t). ?P r) \<Longrightarrow> c \<in> category_ids t"
    by (auto simp: Let_def classify_def [abs_def] category_ids_def split: if_splits)
  then show "worker_steps l C t t'"
    using Classified [OF assms, of t l i] update_nothing [of "b_transactions t" ?P "classify c"]
    by (cases "\<exists>r \<in> set (b_transactions t). ?P r") (auto simp: undecided_def [abs_def])
qed

lemma parsed_choices:
  "r \<in> set (parse_response l raw ts (ctz_categories c)) \<Longrightarrow> lre_category_id r \<in> choices (Some c)"
  by (auto simp: parse_response_def classified_def category_names_def choices_def map_filter_def
      dest!: map_of_SomeD split: option.splits if_splits)

lemma stepping_apply_results:
  "\<forall>r \<in> set rs. lre_category_id r \<in> C \<Longrightarrow> guarantees (stepping l C) (apply_results rs m)"
proof (induction rs)
  case (Cons r rs)
  then show ?case by (auto intro!: guarantee_rules stepping_apply_category)
qed (simp add: guarantee_rules)

lemma try_bind_categorize_batch:
  "try_bind (categorize_batch l c s ts) f =
     (if ts = [] then f [] else try_bind (ask l s (build_batch_prompt l ts)) (\<lambda>response. f (parse_response l response ts (ctz_categories c))))"
  by (cases "ts = []")
     (auto simp: categorize_batch_def try_bind_def ok_def intro!: arg_cong [where f = "State_Monad.bind _"] ext split: sum.splits)

lemma stepping_categorize_chunks:
  assumes "choices (Some c) \<subseteq> C"
  shows "guarantees (stepping l C) (categorize_chunks l c s m batches)"
proof (induction batches)
  case (Cons batch batches)
  then show ?case
    by (auto simp: try_bind_categorize_batch intro!: guarantee_rules stepping_ask stepping_apply_results
        stepping_clear_staged subsetD [OF assms] parsed_choices)
qed (simp add: guarantee_rules)

lemma stepping_examples:
  "guarantees (stepping l C) (or_else a (top_merchant_examples n))" "guarantees (stepping l C) (annotate_similar_examples l ts)"
  unfolding or_else_def top_merchant_examples_def annotate_similar_examples_def similar_examples_by_key_def
  by (intro guarantee_rules)+

lemma stepping_current: "guarantees (stepping l C) (current_categorizer l)"
  by (simp add: guarantees_def wp_def current_categorizer_def stepping_def)

lemma wp_current:
  "wp (current_categorizer l) Q w \<longleftrightarrow> Q (Inr (l_current l (w_queries w))) w"
  by (simp add: wp_def current_categorizer_def)

lemma stepping_with_current:
  assumes "\<And>n. guarantees (stepping l C) (f (l_current l n))"
  shows "guarantees (stepping l C) (try_bind (current_categorizer l) f)"
  using assms by (simp add: guarantees_def wp_try_bind wp_current)

lemma stepping_categorize: "guarantees (stepping l (offered l)) (categorize l)"
proof -
  have chosen: "guarantees (stepping l (offered l)) (case l_current l n of None \<Rightarrow> ok 0
      | Some c \<Rightarrow> try_bind (categorize_chunks l c (build_system_prompt l (ctz_categories c) examples) m (chunks (ctz_batch_size c) ts))
          (\<lambda>_. ok (length ts)))" for n examples m ts
  proof (cases "l_current l n")
    case (Some c)
    then have "choices (Some c) \<subseteq> offered l" unfolding offered_def by (metis UN_upper UNIV_I)
    with Some show ?thesis by (auto intro!: guarantee_rules stepping_categorize_chunks)
  qed (simp add: guarantee_rules)
  show ?thesis
    unfolding categorize_def uncategorized_for_llm_def
    by (rule chosen stepping_with_current | rule stepping_examples | rule guarantee_rules)+
qed

lemma stepping_drain: "guarantees (stepping l (offered l)) (drain fuel l)"
  unfolding drain_def drain_round_def by (intro guarantee_rules stepping_categorize)

lemma stepping_turn: "guarantees (stepping l (offered l)) (worker_turn fuel l k)"
  unfolding worker_turn_def by (intro guarantee_rules stepping_drain stepping_current)

text \<open>C31: The worker does nothing but small steps. Whatever the model answers, whatever fails, whatever
  other requests commit while the model is asked and whichever categorizer is set in each round, a turn of
  the worker is a sequence of steps each of which is a change by another request, the release of staged
  transactions, or the classification of a transaction that is undecided at that very moment, with a
  category that exists and that one of the categorizers set in the meantime offers; the turn takes the signal and leaves
  the categorizer as it is.\<close>

theorem worker_refines_steps:
  assumes "run_state (worker_turn fuel l k) w = (k', w')"
  shows "worker_steps l (offered l) (w_tables w) (w_tables w')
    \<and> wrk_categorizer k' = wrk_categorizer k \<and> \<not> wrk_signal k'"
proof -
  have "wp (worker_turn fuel l k) (\<lambda>k' _. wrk_categorizer k' = wrk_categorizer k \<and> \<not> wrk_signal k') w"
    by (auto simp: worker_turn_def receive_def wp_rules wp_current intro!: wpI)
  with guaranteesD [OF stepping_turn assms] wp_run [OF assms] show ?thesis
    by (simp add: stepping_def)
qed

text \<open>What that means for one transaction when no other request interferes.\<close>

definition worked :: "int set \<Rightarrow> txn_row \<Rightarrow> txn_row \<Rightarrow> bool" where
  "worked C r r' \<longleftrightarrow> r' = r \<or> (txn_staged_for_llm r \<and> r' = release r)
     \<or> (undecided r \<and> (\<exists>c \<in> C. r' = classify c r))"

definition alone :: "llm \<Rightarrow> bool" where
  "alone l \<longleftrightarrow> (\<forall>n t. l_meanwhile l n t = t)"

lemma worked_trans: "0 \<notin> C \<Longrightarrow> worked C r x \<Longrightarrow> worked C x y \<Longrightarrow> worked C r y"
  by (auto simp: worked_def undecided_def classify_def release_def)

lemma worker_step_worked:
  assumes "worker_step l C t t'" "alone l"
  shows "\<exists>rs. t' = t\<lparr>b_transactions := rs\<rparr> \<and> list_all2 (worked C) (b_transactions t) rs"
  using assms(1)
proof cases
  case (Meanwhile n)
  with assms(2) show ?thesis
    by (intro exI [of _ "b_transactions t"]) (simp add: alone_def worked_def list_all2_same)
next
  case (Released P)
  show ?thesis
    by (rule exI [of _ "update_rows P release (b_transactions t)"])
       (use Released in \<open>auto simp: update_rows_def list_all2_map2 list_all2_same worked_def\<close>)
next
  case (Classified c i)
  show ?thesis
    by (rule exI [of _ "update_rows (\<lambda>r. txn_id r = i \<and> undecided r) (classify c) (b_transactions t)"])
       (use Classified in \<open>auto simp: update_rows_def list_all2_map2 list_all2_same worked_def\<close>)
qed

lemma worker_steps_worked:
  assumes "worker_steps l C t t'" "alone l" "0 \<notin> C"
  shows "\<exists>rs. t' = t\<lparr>b_transactions := rs\<rparr> \<and> list_all2 (worked C) (b_transactions t) rs"
  using assms(1)
proof (induction rule: rtranclp_induct)
  case base
  show ?case by (intro exI [of _ "b_transactions t"]) (simp add: worked_def list_all2_same)
next
  case (step u v)
  then obtain rs where u: "u = t\<lparr>b_transactions := rs\<rparr>" "list_all2 (worked C) (b_transactions t) rs" by blast
  obtain vs where "v = u\<lparr>b_transactions := vs\<rparr>" "list_all2 (worked C) (b_transactions u) vs"
    using worker_step_worked [OF step.hyps(2) assms(2)] by blast
  with u show ?case
    by (auto intro: list_all2_trans [where ?P1.0 = "worked C" and ?P2.0 = "worked C"] worked_trans [OF assms(3)])
qed

text \<open>The model decides only what is undecided. When no other request interferes, a turn of the worker
  changes nothing but transactions, and each of them is as before, or only no longer staged, or it was
  uncategorized or categorized by a guess and now has a category of the list, is reviewed and not
  staged, with every other column as it was.\<close>

theorem model_decides_undecided:
  assumes "run_state (worker_turn fuel l k) w = (k', w')" "alone l"
  shows "\<exists>rs. w_tables w' = (w_tables w)\<lparr>b_transactions := rs\<rparr>
    \<and> list_all2 (worked (offered l)) (b_transactions (w_tables w)) rs"
  using guaranteesD [OF stepping_turn assms(1)] assms(2)
  by (intro worker_steps_worked [where l = l]) (auto simp: stepping_def offered_def choices_def split: option.splits)

end
