(* ===== verification/Tx_Llm_Queue.thy ===== *)
theory Tx_Llm_Queue
  imports Tx_Llm_Laws
begin

text \<open>
  The transactions that wait for the model: a turn of the worker empties the queue when nothing fails, and
  in no state of the system does a transaction wait that the worker has not been told of.
\<close>

section \<open>A turn empties the queue\<close>

definition staged_ids :: "tx_tables \<Rightarrow> int set" where
  "staged_ids t = txn_id ` {r \<in> set (b_transactions t). txn_staged_for_llm r}"

text \<open>The model always answers, and other requests neither stage transactions nor delete categories while it is asked.\<close>

definition obliging :: "llm \<Rightarrow> bool" where
  "obliging l \<longleftrightarrow> (\<forall>n s p. \<not> isl (l_ask l n s p))
     \<and> (\<forall>n t. staged_ids (l_meanwhile l n t) \<subseteq> staged_ids t \<and> category_ids t \<subseteq> category_ids (l_meanwhile l n t))"

definition calm :: "tx_tables world \<Rightarrow> bool" where
  "calm w \<longleftrightarrow> w_faults w = (\<lambda>_. False)"

definition waiting :: "int set \<Rightarrow> int set \<Rightarrow> tx_tables world \<Rightarrow> bool" where
  "waiting C S w \<longleftrightarrow> calm w \<and> C \<subseteq> category_ids (w_tables w) \<and> staged_ids (w_tables w) \<subseteq> S"

lemma waiting_spend [simp]: "waiting C S (spend_statement w) = waiting C S w"
  by (simp add: waiting_def calm_def)

lemma waiting_reads [simp]: "waiting C S (w\<lparr>w_reads := n\<rparr>) = waiting C S w"
  by (simp add: waiting_def calm_def)

lemma wp_calm_select: "waiting C S w \<Longrightarrow> Q (Inr (f (w_tables w))) (spend_statement w) \<Longrightarrow> wp (select f) Q w"
  by (simp add: wp_select waiting_def calm_def)

lemma wp_ask:
  assumes "waiting C S w" "obliging l" "\<And>response w'. waiting C S w' \<Longrightarrow> Q (Inr response) w'"
  shows "wp (ask l s p) Q w"
proof -
  obtain response where "l_ask l (w_queries w) s p = Inr response"
    using assms(2) by (metis obliging_def sum.collapse(2))
  moreover have "waiting C S (w\<lparr>w_tables := l_meanwhile l (w_queries w) (w_tables w)\<rparr>)"
    using assms(1,2) by (fastforce simp: waiting_def calm_def obliging_def)
  ultimately show ?thesis using assms(3) by (simp add: wp_def ask_def)
qed

lemma staged_update:
  assumes "\<And>r. txn_id (f r) = txn_id r" "\<And>r. P r \<Longrightarrow> \<not> txn_staged_for_llm (f r)"
  shows "staged_ids (t\<lparr>b_transactions := update_rows P f (b_transactions t)\<rparr>) = txn_id ` {r \<in> set (b_transactions t). txn_staged_for_llm r \<and> \<not> P r}"
  using assms by (force simp: staged_ids_def set_update_rows)

lemma wp_clear_staged:
  assumes "waiting C S w" "\<And>w'. waiting C (S - {i. given (\<lambda>is. i \<in> set is) ids}) w' \<Longrightarrow> Q (Inr ()) w'"
  shows "wp (clear_staged ids) Q w"
proof -
  let ?P = "\<lambda>r. given (\<lambda>is. txn_id r \<in> set is) ids \<and> txn_staged_for_llm r"
  let ?t = "w_tables w\<lparr>b_transactions := update_rows ?P release (b_transactions (w_tables w))\<rparr>"
  have "staged_ids ?t = txn_id ` {r \<in> set (b_transactions (w_tables w)). txn_staged_for_llm r \<and> \<not> ?P r}"
    by (rule staged_update) (simp_all add: release_def)
  then have "staged_ids ?t \<subseteq> S - {i. given (\<lambda>is. i \<in> set is) ids}"
    using assms(1) by (auto simp: waiting_def staged_ids_def given_def split: option.splits)
  then have "waiting C (S - {i. given (\<lambda>is. i \<in> set is) ids}) ((spend_statement w)\<lparr>w_tables := ?t\<rparr>)"
    using assms(1) by (simp add: waiting_def calm_def category_ids_def)
  moreover have "\<not> w_faults w (w_queries w)" using assms(1) by (simp add: waiting_def calm_def)
  ultimately show ?thesis
    using assms(2) by (simp add: clear_staged_def wp_exec release_def [abs_def])
qed

lemma wp_apply_category:
  assumes "waiting C S w" "c \<in> C" "\<And>w'. waiting C S w' \<Longrightarrow> Q (Inr ()) w'"
  shows "wp (apply_category i c) Q w"
proof -
  let ?P = "\<lambda>r. txn_id r = i \<and> (txn_category_id r = 0 \<or> txn_pfc2_categorized r)"
  let ?t = "w_tables w\<lparr>b_transactions := update_rows ?P (classify c) (b_transactions (w_tables w))\<rparr>"
  have "staged_ids ?t = txn_id ` {r \<in> set (b_transactions (w_tables w)). txn_staged_for_llm r \<and> \<not> ?P r}"
    by (rule staged_update) (simp_all add: classify_def)
  then have "staged_ids ?t \<subseteq> S"
    using assms(1) by (auto simp: waiting_def staged_ids_def)
  then have "waiting C S ((spend_statement w)\<lparr>w_tables := ?t\<rparr>)"
    using assms(1) by (simp add: waiting_def calm_def category_ids_def)
  moreover have "\<not> w_faults w (w_queries w)" "c \<in> cat_id ` set (b_categories (w_tables w))"
    using assms(1,2) by (auto simp: waiting_def calm_def category_ids_def)
  ultimately show ?thesis
    using assms(3) by (simp add: apply_category_def wp_statement Let_def classify_def [abs_def])
qed

lemma wp_apply_results:
  assumes "waiting C S w" "\<forall>r \<in> set rs. lre_category_id r \<in> C" "\<And>n w'. waiting C S w' \<Longrightarrow> Q (Inr n) w'"
  shows "wp (apply_results rs m) Q w"
  using assms
proof (induction rs arbitrary: w Q)
  case (Cons r rs)
  have "wp (apply_results rs m) (\<lambda>x w'. case x of Inl e \<Rightarrow> Q (Inl e) w' | Inr n \<Rightarrow> wp (ok (Suc n)) Q w') w'"
    if "waiting C S w'" for w'
    using Cons.prems(2,3) by (intro Cons.IH [OF that]) (simp_all add: wp_ok)
  then have "wp (try_bind (apply_category (lre_transaction_id r) (lre_category_id r)) (\<lambda>_.
      try_bind (apply_results rs m) (\<lambda>n. ok (Suc n)))) Q w"
    using Cons.prems(2) by (intro wp_try_bindI wp_apply_category [OF Cons.prems(1)]) (simp_all add: wp_try_bind)
  then show ?case using Cons by simp
qed (simp add: wp_ok)

lemma wp_categorize_chunks:
  assumes "waiting C S w" "obliging l" "choices (Some c) \<subseteq> C"
    and "\<And>w'. waiting C (S - (\<Union>b \<in> set batches. ltx_id ` set b)) w' \<Longrightarrow> Q (Inr ()) w'"
  shows "wp (categorize_chunks l c s m batches) Q w"
  using assms(1,4)
proof (induction batches arbitrary: w S)
  case (Cons batch batches)
  let ?rest = "\<lambda>rs. try_bind (apply_results rs m) (\<lambda>_. try_bind (clear_staged (Some (map ltx_id batch))) (\<lambda>_.
      categorize_chunks l c s m batches))"
  have rest: "wp (?rest rs) Q w'" if "waiting C S w'" "\<forall>r \<in> set rs. lre_category_id r \<in> C" for rs w'
  proof (rule wp_try_bindI, rule wp_apply_results [OF that], unfold sum.case, rule wp_try_bindI, erule wp_clear_staged,
      unfold sum.case, erule Cons.IH)
    fix w1
    assume "waiting C (S - {i. given (\<lambda>is. i \<in> set is) (Some (map ltx_id batch))}
        - (\<Union>b \<in> set batches. ltx_id ` set b)) w1"
    moreover have "S - {i. given (\<lambda>is. i \<in> set is) (Some (map ltx_id batch))} - (\<Union>b \<in> set batches. ltx_id ` set b)
        = S - (\<Union>b \<in> set (batch # batches). ltx_id ` set b)"
      by (auto simp: given_def)
    ultimately show "Q (Inr ()) w1" using Cons.prems(2) by simp
  qed
  show ?case
  proof (cases "batch = []")
    case True
    then show ?thesis
      using rest [OF Cons.prems(1), of "[]"] by (simp add: try_bind_categorize_batch)
  next
    case False
    then show ?thesis
      unfolding categorize_chunks.simps try_bind_categorize_batch if_not_P [OF False]
      by (intro wp_try_bindI wp_ask [OF Cons.prems(1) assms(2)], unfold sum.case, intro rest) (auto intro: subsetD [OF assms(3)] parsed_choices)
  qed
qed (simp add: wp_ok)

lemma concat_chunks: "0 < n \<Longrightarrow> concat (chunks n xs) = xs"
  by (induction n xs rule: chunks.induct) (subst chunks.simps, simp)

lemma wp_or_else:
  assumes "wp m (\<lambda>_ w'. \<forall>b. Q (Inr b) w') w"
  shows "wp (or_else a m) Q w"
  unfolding or_else_def wp_bind wp_ok by (rule wp_mono [OF assms]) simp

definition queued :: "nat \<Rightarrow> tx_tables \<Rightarrow> txn_row list" where
  "queued limit t = take limit (sort_key (\<lambda>r. - txn_datetime r) (filter txn_staged_for_llm (b_transactions t)))"

lemma queued_staged: "txn_id ` set (queued limit t) \<subseteq> staged_ids t"
  by (auto simp: queued_def staged_ids_def dest!: in_set_takeD)

lemma queued_empty: "0 < limit \<Longrightarrow> queued limit t = [] \<longleftrightarrow> staged_ids t = {}"
proof -
  assume "0 < limit"
  then have "queued limit t = [] \<longleftrightarrow> length (sort_key (\<lambda>r. - txn_datetime r) (filter txn_staged_for_llm (b_transactions t))) = 0"
    by (simp only: queued_def take_eq_Nil length_0_conv) simp
  then show ?thesis by (auto simp: staged_ids_def filter_empty_conv)
qed

lemma wp_examples:
  assumes "waiting C S w" "\<And>a w'. waiting C S w' \<Longrightarrow> Q (Inr a) w'"
  shows "wp (or_else [] (top_merchant_examples n)) Q w"
  unfolding top_merchant_examples_def using assms
  by (auto simp: wp_bind wp_utc_now intro!: wp_or_else wp_calm_select [where C = C and S = S])

lemma wp_annotate:
  assumes "waiting C S w" "\<And>f w'. waiting C S w' \<Longrightarrow> Q (Inr (map (\<lambda>t. t\<lparr>ltx_similar_examples := f t\<rparr>) ts)) w'"
  shows "wp (annotate_similar_examples l ts) Q w"
  unfolding annotate_similar_examples_def similar_examples_by_key_def using assms
  by (auto simp: wp_bind wp_utc_now wp_ok intro!: wp_try_bindI wp_or_else wp_calm_select [where C = C and S = S])

text \<open>A round either finds nothing staged, or fewer transactions are staged after it.\<close>

definition serviced :: "llm \<Rightarrow> int set \<Rightarrow> bool" where
  "serviced l C \<longleftrightarrow> (\<forall>n. \<exists>c. l_current l n = Some c \<and> 0 < ctz_batch_size c \<and> choices (Some c) \<subseteq> C)"

lemma wp_categorize:
  assumes "waiting C S w" "obliging l" "serviced l C"
    and "\<And>w'. waiting C {} w' \<Longrightarrow> Q (Inr 0) w'"
    and "\<And>n w' i. 0 < n \<Longrightarrow> i \<in> S \<Longrightarrow> waiting C (S - {i}) w' \<Longrightarrow> Q (Inr n) w'"
  shows "wp (categorize l) Q w"
proof -
  let ?rows = "queued LLM_BATCH_LIMIT (w_tables w)"
  let ?ts = "map (\<lambda>r. \<lparr>ltx_id = txn_id r, ltx_merchant_name = unwrap_or '''' (txn_merchant_name r),
         ltx_original_name = unwrap_or '''' (txn_original_name r), ltx_amount = txn_amount_cents r,
         ltx_plaid_category = unwrap_or '''' (txn_plaid_category r), ltx_has_pfc2_match = txn_pfc2_categorized r,
         ltx_similar_examples = []\<rparr>) ?rows"
  have ids: "ltx_id ` set (map (\<lambda>t. t\<lparr>ltx_similar_examples := f t\<rparr>) ?ts) = txn_id ` set ?rows" for f
    by (simp add: image_image)
  have empty: "?rows = [] \<longleftrightarrow> staged_ids (w_tables w) = {}"
    by (rule queued_empty) (simp add: LLM_BATCH_LIMIT_def)
  show ?thesis
  proof (cases "?rows = []")
    case True
    with assms(1) empty have "waiting C {} (spend_statement w)" by (simp add: waiting_def calm_def)
    with True show ?thesis
      unfolding categorize_def uncategorized_for_llm_def queued_def
      by (intro wp_try_bindI wp_calm_select [OF assms(1)]) (simp add: wp_ok assms(4))
  next
    case False
    then obtain r where r: "r \<in> set ?rows" by (cases ?rows) auto
    have worked: "wp (try_bind (categorize_chunks l c prompt m (chunks (ctz_batch_size c) ts)) (\<lambda>_. ok (length ts))) Q w'"
      if "waiting C S w'" "ltx_id ` set ts = txn_id ` set ?rows" "0 < ctz_batch_size c" "choices (Some c) \<subseteq> C"
      for c w' prompt m ts
    proof (rule wp_try_bindI, rule wp_categorize_chunks [OF that(1) assms(2) that(4)], unfold sum.case wp_ok)
      fix w1
      assume w1: "waiting C (S - (\<Union>b \<in> set (chunks (ctz_batch_size c) ts). ltx_id ` set b)) w1"
      have "(\<Union>b \<in> set (chunks (ctz_batch_size c) ts). ltx_id ` set b) = ltx_id ` set (concat (chunks (ctz_batch_size c) ts))"
        by auto
      then have "txn_id r \<in> (\<Union>b \<in> set (chunks (ctz_batch_size c) ts). ltx_id ` set b)"
        using r that(2) by (simp add: concat_chunks [OF that(3)])
      with w1 have "waiting C (S - {txn_id r}) w1" by (auto simp: waiting_def)
      moreover have "txn_id r \<in> S"
        using r queued_staged [of LLM_BATCH_LIMIT "w_tables w"] assms(1) by (auto simp: waiting_def)
      moreover have "ts \<noteq> []" using r that(2) by auto
      ultimately show "Q (Inr (length ts)) w1" by (intro assms(5)) simp_all
    qed
    have tail: "wp (try_bind (or_else [] (top_merchant_examples 20)) (\<lambda>global_examples.
           try_bind (annotate_similar_examples l ts) (\<lambda>ts.
           try_bind (current_categorizer l) (\<lambda>current. case current of None \<Rightarrow> ok 0 | Some c \<Rightarrow>
             try_bind (categorize_chunks l c (build_system_prompt l (ctz_categories c) global_examples)
               (map_of (rev (map (\<lambda>t. (ltx_id t, ltx_has_pfc2_match t)) ts))) (chunks (ctz_batch_size c) ts)) (\<lambda>_.
             ok (length ts)))))) Q w1"
      if "waiting C S w1" "ltx_id ` set ts = txn_id ` set ?rows" for w1 ts
    proof (rule wp_try_bindI, rule wp_examples [OF that(1)], unfold sum.case, rule wp_try_bindI, erule wp_annotate,
        unfold sum.case wp_try_bind wp_current, goal_cases)
      case (1 examples w2 f w3)
      obtain c where c: "l_current l (w_queries w3) = Some c" "0 < ctz_batch_size c" "choices (Some c) \<subseteq> C"
        using assms(3) by (auto simp: serviced_def)
      show ?case
        unfolding c(1) option.case wp_try_bind [symmetric]
        by (rule worked [OF 1 _ c(2,3)]) (simp add: image_image that(2))
    qed
    from False have "?ts \<noteq> []" by simp
    then show ?thesis
      unfolding categorize_def uncategorized_for_llm_def queued_def [symmetric]
      by (intro wp_try_bindI wp_calm_select [OF assms(1)], unfold sum.case if_not_P)
         (rule tail, simp_all add: assms(1) image_image)
  qed
qed

lemma wp_drain:
  assumes "waiting C S w" "obliging l" "serviced l C" "finite S" "card S < fuel"
    and "\<And>w'. waiting C {} w' \<Longrightarrow> Q (Inr (Done ())) w'"
  shows "wp (drain fuel l) Q w"
  using assms(1,4,5)
proof (induction fuel arbitrary: S w)
  case (Suc fuel)
  have "wp (categorize l) (\<lambda>r w'. case r of Inl e \<Rightarrow> Q (Inl e) w'
      | Inr n \<Rightarrow> wp (if n = 0 then finish () else drain fuel l) Q w') w"
  proof (rule wp_categorize [OF Suc.prems(1) assms(2,3)], goal_cases)
    case (1 w')
    then show ?case by (simp add: wp_finish assms(6))
  next
    case (2 n w' i)
    have "card (S - {i}) < fuel" using card_Diff1_less [OF Suc.prems(2) 2(2)] Suc.prems(3) by simp
    with 2 Suc.prems(2) show ?case by (simp add: Suc.IH)
  qed
  then show ?case
    by (simp add: drain_def drain_round_def wp_rules)
       (rule wp_mono, assumption, auto simp: wp_rules drain_def split: sum.splits if_splits)
qed simp

lemma staged_finite: "finite (staged_ids t)"
  by (simp add: staged_ids_def)

text \<open>C33: The queue gets empty. When no statement fails and the model always answers, whatever it answers,
  whatever categorizers are set one after the other, and whatever other requests do meanwhile that neither
  stages transactions nor deletes categories, the worker stops asking after at most one round for each
  staged transaction, and no transaction is staged then.\<close>

theorem drain_empties_queue:
  assumes "calm w" "obliging l"
    and "\<forall>n. \<exists>c. l_current l n = Some c \<and> 0 < ctz_batch_size c \<and> choices (Some c) \<subseteq> category_ids (w_tables w)"
    and "card (staged_ids (w_tables w)) < fuel"
  shows "\<exists>w'. run_state (drain fuel l) w = (Inr (Done ()), w') \<and> staged_ids (w_tables w') = {}"
proof -
  have "waiting (category_ids (w_tables w)) (staged_ids (w_tables w)) w"
    using assms(1) by (simp add: waiting_def)
  then have "wp (drain fuel l) (\<lambda>r w'. r = Inr (Done ()) \<and> staged_ids (w_tables w') = {}) w"
    by (rule wp_drain [OF _ assms(2) _ staged_finite assms(4)]) (use assms(3) in \<open>simp_all add: waiting_def serviced_def\<close>)
  then show ?thesis by (auto simp: wp_def split: prod.splits)
qed

end
