(* ===== verification/Tx_Llm_System.thy ===== *)
theory Tx_Llm_System
  imports Tx_Llm_Queue
begin

text \<open>
  The worker of the language model among the other requests (the loop of transactions/sync/llm_worker.rs, and
  how transactions/sync/persister.rs and syncer.rs call it). Every write and every look at the signal, the
  categorizer and the staged transactions is a step of its own, and other requests act between any two of them;
  the reads of the examples for the prompt are one step.
\<close>

section \<open>Where the worker is\<close>

datatype phase =
    Idle
  | Received
  | Deciding
  | Fetched "llm_transaction list"
  | Prepared "example_transaction list" "llm_transaction list"
  | Batches categorizer string "int \<rightharpoonup> bool" "llm_transaction list list"
  | Applying categorizer string "int \<rightharpoonup> bool" "llm_transaction list" "llm_result list" "llm_transaction list list"
  | Leaving

text \<open>
  What is shared: the categorizer and the signal, the requests that have stored transactions and will signal
  next, and whether the worker gave up on an error, or the staged transactions could not be released.
\<close>

record station =
  stn_worker :: worker
  stn_phase :: phase
  stn_owed :: nat
  stn_failed :: bool

definition gave_up :: "station \<Rightarrow> station" where
  "gave_up s = s\<lparr>stn_phase := Leaving, stn_failed := True\<rparr>"



section \<open>Steps\<close>




section \<open>Nothing waits in vain\<close>

definition at_work :: "phase \<Rightarrow> bool" where
  "at_work p \<longleftrightarrow> p \<noteq> Idle \<and> p \<noteq> Leaving"

definition queue_ok :: "station \<Rightarrow> tx_tables world \<Rightarrow> bool" where
  "queue_ok s w \<longleftrightarrow> staged_ids (w_tables w) = {} \<or> stn_failed s
     \<or> wrk_categorizer (stn_worker s) \<noteq> None \<and> (wrk_signal (stn_worker s) \<or> 0 < stn_owed s \<or> at_work (stn_phase s))"

text \<open>Statements that stage nothing.\<close>

definition fewer_staged :: "tx_tables world \<Rightarrow> tx_tables world \<Rightarrow> bool" where
  "fewer_staged w w' \<longleftrightarrow> staged_ids (w_tables w') \<subseteq> staged_ids (w_tables w)"

interpretation fewer_staged: effect_order fewer_staged
  by unfold_locales (auto simp: fewer_staged_def)

lemma fewer_select [guarantee_rules]: "guarantees fewer_staged (select f)"
  unfolding select_def by (rule fewer_staged.guarantees_statement) (auto simp: fewer_staged_def)







lemma gave_up_ok [simp]: "queue_ok (gave_up s) w"
  by (simp add: queue_ok_def gave_up_def)



text \<open>What a sync does to the queue.\<close>

definition none_staged :: "tx_tables \<Rightarrow> bool" where
  "none_staged t \<longleftrightarrow> staged_ids t = {}"

lemma none_staged_iff: "none_staged t \<longleftrightarrow> (\<forall>r \<in> set (b_transactions t). \<not> txn_staged_for_llm r)"
  by (auto simp: none_staged_def staged_ids_def)


lemma unstaged_statements [guarantee_rules]:
  "keeps none_staged (account_records ids)" "keeps none_staged (upsert_account_row acc)"
  "keeps none_staged (synced_transaction_state external_id source)" "keeps none_staged (auto_rule_result m n amount account)"
  "keeps none_staged (plaid_category_id_by_detailed d)" "keeps none_staged (add_transaction_tags tags txns)"
  "keeps none_staged (upsert_recurring_row ch)" "keeps none_staged (delete_charge_transactions charge)"
  "keeps none_staged (insert_charge_transactions charge txns')" "keeps none_staged (update_recurring_for_item item)"
  "keeps none_staged (delete_synced_row source external_id)"
  unfolding account_records_def upsert_account_row_def synced_transaction_state_def auto_rule_result_def
    plaid_category_id_by_detailed_def add_transaction_tags_def upsert_recurring_row_def delete_charge_transactions_def
    insert_charge_transactions_def update_recurring_for_item_def delete_synced_row_def select_def exec_def exec_rows_def
  by (rule keeps_statement, force simp: none_staged_iff Let_def set_update_rows delete_transactions_def split: option.splits if_splits)+






end
