(* ===== verification/Tx_Llm_Scenario.thy ===== *)
theory Tx_Llm_Scenario
  imports Tx_Llm_System Tx_Scenario
begin

text \<open>A coffee waits for the model, which takes it for food.\<close>

definition demo_categorizer :: categorizer where
  "demo_categorizer = \<lparr>ctz_batch_size = 5, ctz_categories =
     [\<lparr>crf_id = 7, crf_name = ''Food'', crf_group_name = ''Home'', crf_group_kind = ''EXPENSE''\<rparr>]\<rparr>"

definition demo_llm :: llm where
  "demo_llm = \<lparr>l_ask = (\<lambda>_ _ _. Inr ''answer''), l_meanwhile = (\<lambda>_ t. t),
     l_current = (\<lambda>_. Some demo_categorizer), l_json = (\<lambda>_. Some [(1, 7, ''high'')]),
     l_debug = (\<lambda>s. s), l_dollars = (\<lambda>_. ''4.50''), l_trim_end = (\<lambda>s. s)\<rparr>"

definition idle :: worker where
  "idle = \<lparr>wrk_categorizer = None, wrk_signal = False\<rparr>"

definition busy :: worker where
  "busy = enable demo_categorizer idle"

definition staged_world :: "tx_tables world" where
  "staged_world = snd (run_state (reprocess_uncategorized busy) tx_world)"

lemma demo_obliging: "obliging demo_llm" "alone demo_llm"
  by (simp_all add: obliging_def alone_def demo_llm_def)

lemma staged_calm: "calm staged_world"
  by (simp add: staged_world_def calm_def reprocess_uncategorized_def busy_def enable_def signal_def idle_def
      stage_uncategorized_def exec_rows_def statement_def try_bind_def ok_def tx_world_def Let_def split: prod.splits)

lemma staged_demo: "staged_ids (w_tables staged_world) = {2}" "0 < ctz_batch_size demo_categorizer \<and> choices (Some demo_categorizer) \<subseteq> category_ids (w_tables staged_world)"
  by code_simp+

lemma drain_empties_queue_witness:
  "\<exists>w'. run_state (drain 2 demo_llm) staged_world = (Inr (Done ()), w') \<and> staged_ids (w_tables w') = {}"
proof -
  have "\<forall>n. \<exists>c. l_current demo_llm n = Some c \<and> 0 < ctz_batch_size c
      \<and> choices (Some c) \<subseteq> category_ids (w_tables staged_world)"
    using staged_demo(2) by (simp add: demo_llm_def)
  from drain_empties_queue [OF staged_calm demo_obliging(1) this, of 2] staged_demo(1) show ?thesis by simp
qed

lemma turned_rows:
  "map (\<lambda>r. (txn_category_id r, txn_is_reviewed r, txn_staged_for_llm r))
     (b_transactions (w_tables (snd (run_state (worker_turn 2 demo_llm busy) staged_world))))
   = [(7, True, False), (7, True, False)]"
  by code_simp

lemma worker_refines_steps_witness:
  "\<exists>k' w'. run_state (worker_turn 2 demo_llm busy) staged_world = (k', w')
     \<and> worker_steps demo_llm {7} (w_tables staged_world) (w_tables w') \<and> map txn_category_id (b_transactions (w_tables w')) = [7, 7]"
proof -
  obtain k' w' where run: "run_state (worker_turn 2 demo_llm busy) staged_world = (k', w')"
    by (cases "run_state (worker_turn 2 demo_llm busy) staged_world")
  have "offered demo_llm = {7}" by (simp add: offered_def demo_llm_def choices_def demo_categorizer_def)
  with worker_refines_steps [OF run] have "worker_steps demo_llm {7} (w_tables staged_world) (w_tables w')" by simp
  moreover have "map txn_category_id (b_transactions (w_tables w')) = [7, 7]"
    using arg_cong [OF turned_rows, of "map fst"] by (simp add: run comp_def)
  ultimately show ?thesis using run by (intro exI conjI)
qed

lemma model_decides_undecided_witness:
  "\<exists>k' w' rs. run_state (worker_turn 2 demo_llm busy) staged_world = (k', w')
     \<and> list_all2 (worked {7}) (b_transactions (w_tables staged_world)) rs \<and> b_transactions (w_tables w') = rs
     \<and> map txn_is_reviewed rs = [True, True]"
proof -
  obtain k' w' where run: "run_state (worker_turn 2 demo_llm busy) staged_world = (k', w')"
    by (cases "run_state (worker_turn 2 demo_llm busy) staged_world")
  have "offered demo_llm = {7}" by (simp add: offered_def demo_llm_def choices_def demo_categorizer_def)
  with model_decides_undecided [OF run demo_obliging(2)] obtain rs where
      "w_tables w' = (w_tables staged_world)\<lparr>b_transactions := rs\<rparr>" "list_all2 (worked {7}) (b_transactions (w_tables staged_world)) rs"
    by auto
  moreover have "map txn_is_reviewed (b_transactions (w_tables w')) = [True, True]"
    using arg_cong [OF turned_rows, of "map (fst \<circ> snd)"] by (simp add: run comp_def)
  ultimately show ?thesis using run by (intro exI [of _ k'] exI [of _ w'] exI [of _ rs] conjI) simp_all
qed


end
