(* ===== verification/Book_Tables.thy ===== *)
theory Book_Tables
  imports Tx_Rules Rust_Number
begin

text \<open>
  Categories with their groups, budgets, and the transactions as the reports read them: the tables and the
  statements (src/server-rs/src/database/queries.rs, generated from src/server-rs/sql/queries). The
  view \<open>category_rows\<close> joins a category with its group. Rows of one rank come in the order of the table;
  sort orders are far below the bounds of the 32-bit integers they are shown as.
\<close>

record group_row =
  grp_id :: int
  grp_name :: string
  grp_emoji :: string
  grp_kind :: string
  grp_sort_order :: int

record full_category_row =
  cgr_id :: int
  cgr_name :: string
  cgr_emoji :: string
  cgr_group_id :: int
  cgr_sort_order :: int

record budget_row =
  bud_id :: int
  bud_month :: string
  bud_category_id :: int
  bud_amount_cents :: cents

record book_tables =
  k_groups :: "group_row list"
  k_categories :: "full_category_row list"
  k_mappings :: "(string \<times> int) list"
  k_budgets :: "budget_row list"
  k_rules :: "(int \<times> int option) list"
  k_accounts :: "account_row list"
  k_transactions :: "txn_row list"
  k_transaction_tags :: "(int \<times> int) list"

type_synonym 'a book_db = "(book_tables, 'a) fallible"

section \<open>Categories\<close>

datatype category_kind = Expense | Income | Transfer

definition kind_name :: "category_kind \<Rightarrow> string" where
  "kind_name k = (case k of Expense \<Rightarrow> ''EXPENSE'' | Income \<Rightarrow> ''INCOME'' | Transfer \<Rightarrow> ''TRANSFER'')"

definition category_kind_of :: "string \<Rightarrow> category_kind" where
  "category_kind_of s = (if s = ''INCOME'' then Income else if s = ''TRANSFER'' then Transfer else Expense)"

record category =
  ctg_id :: int
  ctg_name :: string
  ctg_emoji :: string
  ctg_group_name :: string
  ctg_group_emoji :: string
  ctg_kind :: category_kind
  ctg_sort_order :: int
  ctg_group_id :: int
  ctg_group_sort_order :: int
  ctg_plaid_pfc2_codes :: "string list"

definition category_from_row :: "book_tables \<Rightarrow> full_category_row \<Rightarrow> group_row \<Rightarrow> category" where
  "category_from_row t c g =
     \<lparr>ctg_id = cgr_id c, ctg_name = cgr_name c, ctg_emoji = cgr_emoji c, ctg_group_name = grp_name g,
      ctg_group_emoji = grp_emoji g, ctg_kind = category_kind_of (grp_kind g), ctg_sort_order = cgr_sort_order c,
      ctg_group_id = grp_id g, ctg_group_sort_order = grp_sort_order g,
      ctg_plaid_pfc2_codes = map fst (filter (\<lambda>(code, i). i = cgr_id c) (k_mappings t))\<rparr>"

definition category_rows :: "book_tables \<Rightarrow> category list" where
  "category_rows t =
     concat (map (\<lambda>c. map (category_from_row t c) (filter (\<lambda>g. grp_id g = cgr_group_id c) (k_groups t))) (k_categories t))"

definition rows_of_categories ::
    "int list option \<Rightarrow> int option \<Rightarrow> bool \<Rightarrow> bool \<Rightarrow> category list book_db" where
  "rows_of_categories category_ids group_id expense_only group_order = select (\<lambda>t.
     sort_key (\<lambda>c. (if group_order then ctg_group_sort_order c else 0, ctg_sort_order c))
       (filter (\<lambda>c. (expense_only \<longrightarrow> ctg_kind c = Expense)
          \<and> (case category_ids of None \<Rightarrow> True | Some is \<Rightarrow> ctg_id c \<in> set is)
          \<and> (case group_id of None \<Rightarrow> True | Some i \<Rightarrow> ctg_group_id c = i)) (category_rows t)))"

definition category_group_row :: "int \<Rightarrow> group_row option book_db" where
  "category_group_row ident = select (\<lambda>t. find (\<lambda>g. grp_id g = ident) (k_groups t))"

text \<open>The names of groups and of categories are unique. A sort order that is not given is the next one.\<close>

definition next_order :: "int list \<Rightarrow> int" where
  "next_order orders = (if orders = [] then 1 else fold max (tl orders) (hd orders) + 1)"

definition create_category_group_row :: "string \<Rightarrow> string \<Rightarrow> string \<Rightarrow> int book_db" where
  "create_category_group_row name emoji kind = statement (\<lambda>t.
     let ident = next_id (map grp_id (k_groups t))
     in if name \<in> grp_name ` set (k_groups t) then Inl Constraint
        else Inr (ident, t\<lparr>k_groups := k_groups t @ [\<lparr>grp_id = ident, grp_name = name, grp_emoji = emoji, grp_kind = kind,
          grp_sort_order = next_order (map grp_sort_order (k_groups t))\<rparr>]\<rparr>))"

definition update_category_group_row :: "string \<Rightarrow> string \<Rightarrow> int \<Rightarrow> nat book_db" where
  "update_category_group_row name emoji ident = statement (\<lambda>t.
     let P = (\<lambda>g. grp_id g = ident)
     in if (\<exists>g \<in> set (k_groups t). P g) \<and> (\<exists>g \<in> set (k_groups t). \<not> P g \<and> grp_name g = name) then Inl Constraint
        else Inr (count_rows P (k_groups t),
          t\<lparr>k_groups := update_rows P (\<lambda>g. g\<lparr>grp_name := name, grp_emoji := emoji\<rparr>) (k_groups t)\<rparr>))"

definition count_categories_by_group :: "int \<Rightarrow> nat book_db" where
  "count_categories_by_group group_id = select (\<lambda>t. count_rows (\<lambda>c. cgr_group_id c = group_id) (k_categories t))"

definition delete_category_group_row :: "int \<Rightarrow> nat book_db" where
  "delete_category_group_row ident = statement (\<lambda>t.
     let P = (\<lambda>g. grp_id g = ident)
     in if (\<exists>g \<in> set (k_groups t). P g) \<and> ident \<in> cgr_group_id ` set (k_categories t) then Inl Constraint
        else Inr (count_rows P (k_groups t), t\<lparr>k_groups := delete_rows P (k_groups t)\<rparr>))"

definition create_category_row :: "string \<Rightarrow> string \<Rightarrow> int \<Rightarrow> int book_db" where
  "create_category_row name emoji group_id = statement (\<lambda>t.
     let ident = next_id (map cgr_id (k_categories t));
         order = next_order (map cgr_sort_order (filter (\<lambda>c. cgr_group_id c = group_id) (k_categories t)))
     in if name \<in> cgr_name ` set (k_categories t) \<or> group_id \<notin> grp_id ` set (k_groups t) then Inl Constraint
        else Inr (ident, t\<lparr>k_categories := k_categories t @ [\<lparr>cgr_id = ident, cgr_name = name, cgr_emoji = emoji,
          cgr_group_id = group_id, cgr_sort_order = order\<rparr>]\<rparr>))"

definition update_category_fields :: "string \<Rightarrow> string \<Rightarrow> int \<Rightarrow> int \<Rightarrow> nat book_db" where
  "update_category_fields name emoji group_id ident = statement (\<lambda>t.
     let P = (\<lambda>c. cgr_id c = ident)
     in if (\<exists>c \<in> set (k_categories t). P c)
          \<and> ((\<exists>c \<in> set (k_categories t). \<not> P c \<and> cgr_name c = name) \<or> group_id \<notin> grp_id ` set (k_groups t)) then Inl Constraint
        else Inr (count_rows P (k_categories t), t\<lparr>k_categories := update_rows P
          (\<lambda>c. c\<lparr>cgr_name := name, cgr_emoji := emoji, cgr_group_id := group_id\<rparr>) (k_categories t)\<rparr>))"

definition category_info :: "int \<Rightarrow> nat option book_db" where
  "category_info ident = select (\<lambda>t.
     if ident \<in> cgr_id ` set (k_categories t)
     then Some (count_rows (\<lambda>r. txn_category_id r = ident) (k_transactions t)) else None)"

text \<open>Deleting a category deletes its mappings, budgets and rules; its transactions forbid it.\<close>

definition delete_category_row :: "int \<Rightarrow> unit book_db" where
  "delete_category_row ident = statement (\<lambda>t.
     if ident \<in> cgr_id ` set (k_categories t) \<and> ident \<in> txn_category_id ` set (k_transactions t) then Inl Constraint
     else Inr ((), if ident \<notin> cgr_id ` set (k_categories t) then t else
       t\<lparr>k_categories := delete_rows (\<lambda>c. cgr_id c = ident) (k_categories t),
         k_mappings := delete_rows (\<lambda>(code, i). i = ident) (k_mappings t),
         k_budgets := delete_rows (\<lambda>b. bud_category_id b = ident) (k_budgets t),
         k_rules := delete_rows (\<lambda>(rule, i). i = Some ident) (k_rules t)\<rparr>))"

definition update_category_sort_order :: "int \<Rightarrow> int \<Rightarrow> int \<Rightarrow> unit book_db" where
  "update_category_sort_order order ident group_id = exec (\<lambda>t. t\<lparr>k_categories :=
     update_rows (\<lambda>c. cgr_id c = ident \<and> cgr_group_id c = group_id) (\<lambda>c. c\<lparr>cgr_sort_order := order\<rparr>) (k_categories t)\<rparr>)"

definition pfc2_mapped_category_name :: "string \<Rightarrow> int \<Rightarrow> string option book_db" where
  "pfc2_mapped_category_name code category_id = select (\<lambda>t.
     map_option cgr_name (find (\<lambda>c. cgr_id c \<noteq> category_id \<and> (code, cgr_id c) \<in> set (k_mappings t)) (k_categories t)))"

definition delete_category_plaid_mappings :: "int \<Rightarrow> unit book_db" where
  "delete_category_plaid_mappings category_id = exec (\<lambda>t.
     t\<lparr>k_mappings := delete_rows (\<lambda>(code, i). i = category_id) (k_mappings t)\<rparr>)"

definition upsert_category_plaid_mapping :: "string \<Rightarrow> int \<Rightarrow> unit book_db" where
  "upsert_category_plaid_mapping code category_id = statement (\<lambda>t.
     if category_id \<notin> cgr_id ` set (k_categories t) then Inl Constraint
     else Inr ((), t\<lparr>k_mappings :=
       (if code \<in> fst ` set (k_mappings t)
        then update_rows (\<lambda>m. fst m = code) (\<lambda>m. (code, category_id)) (k_mappings t)
        else k_mappings t @ [(code, category_id)])\<rparr>))"

section \<open>Budgets\<close>

definition budget_key :: "budget_row \<Rightarrow> int \<times> string" where
  "budget_key b = (bud_category_id b, bud_month b)"

definition upsert_budget :: "string \<Rightarrow> int \<Rightarrow> cents \<Rightarrow> int book_db" where
  "upsert_budget month category_id amount = statement (\<lambda>t.
     if category_id \<notin> cgr_id ` set (k_categories t) then Inl Constraint
     else case find (\<lambda>b. budget_key b = (category_id, month)) (k_budgets t) of
       Some b \<Rightarrow> Inr (bud_id b, t\<lparr>k_budgets := update_rows (\<lambda>x. bud_id x = bud_id b)
         (\<lambda>x. x\<lparr>bud_amount_cents := amount\<rparr>) (k_budgets t)\<rparr>)
     | None \<Rightarrow>
         let ident = next_id (map bud_id (k_budgets t))
         in Inr (ident, t\<lparr>k_budgets := k_budgets t @ [\<lparr>bud_id = ident, bud_month = month,
           bud_category_id = category_id, bud_amount_cents = amount\<rparr>]\<rparr>))"

definition delete_budget_row :: "int \<Rightarrow> nat book_db" where
  "delete_budget_row ident = exec_rows (\<lambda>t.
     (count_rows (\<lambda>b. bud_id b = ident) (k_budgets t), t\<lparr>k_budgets := delete_rows (\<lambda>b. bud_id b = ident) (k_budgets t)\<rparr>))"

fun copy_rows :: "string \<Rightarrow> budget_row list \<Rightarrow> budget_row list \<Rightarrow> budget_row list" where
  "copy_rows month rows [] = rows"
| "copy_rows month rows (b # bs) =
     (if (bud_category_id b, month) \<in> budget_key ` set rows then copy_rows month rows bs
      else copy_rows month (rows @ [b\<lparr>bud_id := next_id (map bud_id rows), bud_month := month\<rparr>]) bs)"

definition copy_budget_rows :: "string \<Rightarrow> string \<Rightarrow> nat book_db" where
  "copy_budget_rows from_month to_month = exec_rows (\<lambda>t.
     let rows = copy_rows to_month (k_budgets t) (filter (\<lambda>b. bud_month b = from_month) (k_budgets t))
     in (length rows - length (k_budgets t), t\<lparr>k_budgets := rows\<rparr>))"

text \<open>Months are compared as texts.\<close>

definition budget_rows_in_range :: "string option \<Rightarrow> string option \<Rightarrow> budget_row list book_db" where
  "budget_rows_in_range start_month end_month = select (\<lambda>t.
     filter (\<lambda>b. (case start_month of None \<Rightarrow> True | Some m \<Rightarrow> m \<le> bud_month b)
       \<and> (case end_month of None \<Rightarrow> True | Some m \<Rightarrow> bud_month b < m)) (k_budgets t))"

section \<open>Spending\<close>

record spending_params =
  spp_datetime_from :: int
  spp_datetime_to :: int
  spp_is_hidden :: bool
  spp_category_ids :: "int list option"
  spp_tag_ids :: "int list option"
  spp_owner_ids :: "int list option"
  spp_account_ids :: "int list option"
  spp_exclude_income :: bool
  spp_untagged :: bool

definition spending_match :: "book_tables \<Rightarrow> spending_params \<Rightarrow> txn_row \<times> category \<Rightarrow> bool" where
  "spending_match t p = (\<lambda>(r, c).
     spp_datetime_from p \<le> txn_datetime r \<and> txn_datetime r < spp_datetime_to p
     \<and> \<not> txn_staged_for_llm r \<and> txn_is_hidden r = spp_is_hidden p
     \<and> ctg_kind c \<noteq> Transfer \<and> (spp_exclude_income p \<longrightarrow> ctg_kind c \<noteq> Income)
     \<and> (case spp_category_ids p of None \<Rightarrow> True | Some is \<Rightarrow> txn_category_id r \<in> set is)
     \<and> (case spp_tag_ids p of None \<Rightarrow> True
        | Some is \<Rightarrow> \<exists>tag \<in> set is. (txn_id r, tag) \<in> set (k_transaction_tags t))
     \<and> (spp_untagged p \<longrightarrow> txn_id r \<notin> fst ` set (k_transaction_tags t))
     \<and> (case spp_owner_ids p of None \<Rightarrow> True
        | Some is \<Rightarrow> \<exists>a \<in> set (k_accounts t). acc_id a = txn_account_id r \<and> acc_owner_id a \<in> set is)
     \<and> (case spp_account_ids p of None \<Rightarrow> True | Some is \<Rightarrow> txn_account_id r \<in> set is))"

definition categorized_rows :: "book_tables \<Rightarrow> (txn_row \<times> category) list" where
  "categorized_rows t =
     concat (map (\<lambda>r. map (Pair r) (filter (\<lambda>c. ctg_id c = txn_category_id r) (category_rows t))) (k_transactions t))"

definition spending_list :: "book_tables \<Rightarrow> spending_params \<Rightarrow> (txn_row \<times> category) list" where
  "spending_list t p = sort_key (\<lambda>(r, c). txn_datetime r) (filter (spending_match t p) (categorized_rows t))"

definition spending_transactions :: "spending_params \<Rightarrow> (txn_row \<times> category) list book_db" where
  "spending_transactions p = select (\<lambda>t. spending_list t p)"

end
