(* ===== verification/Spending.thy ===== *)
theory Spending
  imports Book_Tables Tx_Edit
begin

text \<open>
  The spending and cash flow reports (src/server-rs/src/transactions/store/reports.rs, report_periods.rs and
  cash_flow.rs). The calendar of the household's time zone is a parameter, as chrono and its tables are:
  the local day of an instant, the instant of a local midnight, the civil date of a day and back, the
  first midnight of a month, and the addition of months, which can fail. Days are numbered from
  1970-01-01. That a midnight exists and that months can be added to it is taken for granted here, as the
  code does, which panics otherwise.
\<close>

section \<open>Periods\<close>

datatype granularity = Daily | Weekly | Monthly | Quarterly | Yearly

record calendar =
  y_local_day :: "int \<Rightarrow> int"
  y_midnight :: "int \<Rightarrow> int"
  y_civil :: "int \<Rightarrow> int \<times> nat \<times> nat"
  y_day_of :: "int \<times> nat \<times> nat \<Rightarrow> int"
  y_add_months :: "nat \<Rightarrow> int \<Rightarrow> int option"
  y_month_start :: "int \<Rightarrow> nat \<Rightarrow> int option"
  y_percent :: "cents \<Rightarrow> cents \<Rightarrow> 64 word"

definition days_from_monday :: "int \<Rightarrow> int" where
  "days_from_monday day = (day + 3) mod 7"

definition period_start :: "calendar \<Rightarrow> granularity \<Rightarrow> int \<Rightarrow> int" where
  "period_start y g at =
     (let day = y_local_day y at
      in case y_civil y day of (year, month, _) \<Rightarrow>
        y_midnight y (case g of
          Daily \<Rightarrow> day
        | Weekly \<Rightarrow> day - days_from_monday day
        | Monthly \<Rightarrow> y_day_of y (year, month, 1)
        | Quarterly \<Rightarrow> y_day_of y (year, (month - 1) div 3 * 3 + 1, 1)
        | Yearly \<Rightarrow> y_day_of y (year, 1, 1)))"

text \<open>Adding days to an instant adds multiples of 24 hours, whatever the clocks in the time zone do.\<close>

definition next_period_start :: "calendar \<Rightarrow> granularity \<Rightarrow> int \<Rightarrow> int" where
  "next_period_start y g at =
     (case g of
        Daily \<Rightarrow> at + day_nanos
      | Weekly \<Rightarrow> at + 7 * day_nanos
      | Monthly \<Rightarrow> the (y_add_months y 1 at)
      | Quarterly \<Rightarrow> the (y_add_months y 3 at)
      | Yearly \<Rightarrow> the (y_add_months y 12 at))"

definition padded :: "nat \<Rightarrow> string \<Rightarrow> string" where
  "padded n s = replicate (n - length s) CHR ''0'' @ s"

text \<open>A year beyond four digits has a sign, as chrono writes it.\<close>

definition year_text :: "int \<Rightarrow> string" where
  "year_text year =
     (if 0 \<le> year \<and> year \<le> 9999 then padded 4 (show_int year)
      else (if year < 0 then ''-'' else ''+'') @ padded 4 (show_int \<bar>year\<bar>))"

definition date_text :: "int \<times> nat \<times> nat \<Rightarrow> string" where
  "date_text = (\<lambda>(year, month, day).
     year_text year @ ''-'' @ padded 2 (show_nat month) @ ''-'' @ padded 2 (show_nat day))"

definition month_text :: "int \<times> nat \<times> nat \<Rightarrow> string" where
  "month_text = (\<lambda>(year, month, _). year_text year @ ''-'' @ padded 2 (show_nat month))"

record period =
  per_label :: string
  per_start :: string
  per_end :: string

definition civil_at :: "calendar \<Rightarrow> int \<Rightarrow> int \<times> nat \<times> nat" where
  "civil_at y at = y_civil y (y_local_day y at)"

definition period_for :: "calendar \<Rightarrow> int \<Rightarrow> granularity \<Rightarrow> period" where
  "period_for y at g =
     (let start = period_start y g at; civil = civil_at y start; finish = next_period_start y g start - day_nanos
      in \<lparr>per_label = (case g of
            Daily \<Rightarrow> date_text civil
          | Weekly \<Rightarrow> date_text civil
          | Monthly \<Rightarrow> month_text civil
          | Quarterly \<Rightarrow> (case civil of (year, month, _) \<Rightarrow> show_int year @ ''-Q'' @ show_nat ((month - 1) div 3 + 1))
          | Yearly \<Rightarrow> year_text (fst civil)),
          per_start = date_text civil, per_end = date_text (civil_at y finish)\<rparr>)"

definition day_start :: "calendar \<Rightarrow> int \<Rightarrow> int" where
  "day_start y at = y_midnight y (y_local_day y at)"

definition period_range :: "calendar \<Rightarrow> int \<Rightarrow> int \<Rightarrow> granularity option \<Rightarrow> (int \<times> int \<times> granularity) option" where
  "period_range y from_at to_at granularity =
     (case granularity of
        None \<Rightarrow> None
      | Some g \<Rightarrow>
          let finish = day_start y to_at - 1
          in if from_at \<le> finish then Some (period_start y g from_at, period_start y g finish, g) else None)"

text \<open>The starts of the periods, at most \<open>fuel\<close> of them.\<close>

fun period_starts :: "nat \<Rightarrow> calendar \<Rightarrow> granularity \<Rightarrow> int \<Rightarrow> int \<Rightarrow> int list" where
  "period_starts 0 y g current final = []"
| "period_starts (Suc fuel) y g current final =
     current # (if current < final then period_starts fuel y g (next_period_start y g current) final else [])"

definition MAX_SPENDING_PERIODS :: nat where
  "MAX_SPENDING_PERIODS = 400"

definition period_count :: "calendar \<Rightarrow> int \<Rightarrow> int \<Rightarrow> granularity option \<Rightarrow> nat \<Rightarrow> nat" where
  "period_count y from_at to_at granularity limit =
     (case period_range y from_at to_at granularity of
        None \<Rightarrow> 0
      | Some (first, final, g) \<Rightarrow> length (period_starts (limit + 1) y g first final))"

text \<open>The reports count the periods before they list them, so the fuel of the limit is enough.\<close>

definition report_periods :: "calendar \<Rightarrow> int \<Rightarrow> int \<Rightarrow> granularity option \<Rightarrow> period list" where
  "report_periods y from_at to_at granularity =
     (case period_range y from_at to_at granularity of
        None \<Rightarrow> []
      | Some (first, final, g) \<Rightarrow>
          map (\<lambda>current. period_for y current g) (period_starts (MAX_SPENDING_PERIODS + 1) y g first final))"

section \<open>Filters\<close>

record spending_filter_input =
  spf_from :: "int option"
  spf_to :: "int option"
  spf_granularity :: "granularity option"
  spf_category_ids :: "string list option"
  spf_owner_ids :: "string list option"
  spf_account_ids :: "string list option"
  spf_is_hidden :: "bool option"
  spf_tag_ids :: "string list option"
  spf_untagged :: "bool option"

definition option_slice :: "'a list \<Rightarrow> 'a list option" where
  "option_slice xs = (if xs = [] then None else Some xs)"

text \<open>\<open>SpendingValues::new\<close> and \<open>params\<close>\<close>

definition spending_params_of :: "base64 \<Rightarrow> spending_filter_input \<Rightarrow> bool \<Rightarrow> error + spending_params" where
  "spending_params_of x f exclude_income =
     (case (spf_from f, spf_to f) of
        (Some from_at, Some to_at) \<Rightarrow>
          and_then (local_ids x (spf_category_ids f) Category) (\<lambda>category_ids.
          and_then (local_ids x (spf_owner_ids f) Owner) (\<lambda>owner_ids.
          and_then (local_ids x (spf_account_ids f) Account) (\<lambda>account_ids.
          and_then (local_ids x (spf_tag_ids f) Tag) (\<lambda>tag_ids.
          Inr \<lparr>spp_datetime_from = to_timestamp from_at, spp_datetime_to = to_timestamp to_at,
            spp_is_hidden = unwrap_or False (spf_is_hidden f), spp_category_ids = option_slice category_ids,
            spp_tag_ids = option_slice tag_ids, spp_owner_ids = option_slice owner_ids,
            spp_account_ids = option_slice account_ids, spp_exclude_income = exclude_income,
            spp_untagged = unwrap_or False (spf_untagged f)\<rparr>))))
      | _ \<Rightarrow> Inl (Msg ''datetimeRange.from and datetimeRange.to are required''))"

definition validate_period_count :: "calendar \<Rightarrow> spending_params \<Rightarrow> granularity option \<Rightarrow> error + unit" where
  "validate_period_count y p granularity =
     (if period_count y (of_timestamp (spp_datetime_from p)) (of_timestamp (spp_datetime_to p)) granularity
         MAX_SPENDING_PERIODS \<le> MAX_SPENDING_PERIODS
      then Inr () else Inl (Msg ''spending report supports at most 400 periods''))"

section \<open>Sums by period and category\<close>

text \<open>The first element that is looked for is changed, or a new one is put at the end.\<close>

fun update_or_push :: "('a \<Rightarrow> bool) \<Rightarrow> 'a \<Rightarrow> ('a \<Rightarrow> 'a) \<Rightarrow> 'a list \<Rightarrow> 'a list" where
  "update_or_push P new f [] = [f new]"
| "update_or_push P new f (x # xs) = (if P x then f x # xs else x # update_or_push P new f xs)"

record spending_row =
  spr_period :: period
  spr_category :: "category option"
  spr_total_amount :: cents
  spr_transaction_count :: nat

definition same_aggregate :: "bool \<Rightarrow> period \<Rightarrow> category option \<Rightarrow> spending_row \<Rightarrow> bool" where
  "same_aggregate by_category p c a \<longleftrightarrow>
     per_label (spr_period a) = per_label p
     \<and> (\<not> by_category \<or> map_option ctg_id (spr_category a) = map_option ctg_id c)"

definition add_spending ::
    "calendar \<Rightarrow> granularity option \<Rightarrow> bool \<Rightarrow> spending_row list \<Rightarrow> txn_row \<times> category \<Rightarrow> spending_row list" where
  "add_spending y granularity by_category aggregates = (\<lambda>(r, c).
     let cat = (if by_category then Some c else None);
         p = period_for y (of_timestamp (txn_datetime r)) (unwrap_or Monthly granularity)
     in update_or_push (same_aggregate by_category p cat)
          \<lparr>spr_period = p, spr_category = cat, spr_total_amount = 0, spr_transaction_count = 0\<rparr>
          (\<lambda>a. a\<lparr>spr_total_amount := spr_total_amount a + txn_amount_cents r,
                 spr_transaction_count := spr_transaction_count a + 1\<rparr>) aggregates)"

definition aggregate_rows ::
    "calendar \<Rightarrow> (txn_row \<times> category) list \<Rightarrow> granularity option \<Rightarrow> bool \<Rightarrow> spending_row list" where
  "aggregate_rows y rows granularity by_category = foldl (add_spending y granularity by_category) [] rows"

definition spending_rows ::
    "base64 \<Rightarrow> calendar \<Rightarrow> spending_filter_input \<Rightarrow> bool \<Rightarrow> bool \<Rightarrow> spending_row list book_db" where
  "spending_rows x y f by_category exclude_income =
     try_bind (of_result (spending_params_of x f exclude_income)) (\<lambda>p.
     try_bind (of_result (validate_period_count y p (spf_granularity f))) (\<lambda>_.
     try_bind (spending_transactions p) (\<lambda>rows.
     ok (aggregate_rows y rows (spf_granularity f) by_category))))"

section \<open>Cash flow\<close>

record breakdown =
  brk_category :: category
  brk_total :: cents
  brk_transaction_count :: "32 word"
  brk_percent_of_total :: "64 word"

record cash_flow_period =
  cfp_period :: period
  cfp_income :: cents
  cfp_expenses :: cents
  cfp_savings :: cents
  cfp_savings_rate :: "64 word"
  cfp_income_by_category :: "breakdown list"
  cfp_expenses_by_category :: "breakdown list"

definition percentage :: "calendar \<Rightarrow> cents \<Rightarrow> cents \<Rightarrow> 64 word" where
  "percentage y part whole = (if whole = 0 then 0 else y_percent y part whole)"

text \<open>A row without a category cannot come from the spending transactions; the code panics on it.\<close>

definition add_cash_flow :: "cash_flow_period list \<Rightarrow> spending_row \<Rightarrow> cash_flow_period list" where
  "add_cash_flow periods row =
     (case spr_category row of
        None \<Rightarrow> periods
      | Some c \<Rightarrow>
          let is_income = (ctg_kind c = Income);
              spent = (if is_income then - spr_total_amount row else spr_total_amount row);
              b = \<lparr>brk_category = c, brk_total = spent, brk_transaction_count = of_nat (spr_transaction_count row),
                brk_percent_of_total = 0\<rparr>
          in update_or_push (\<lambda>p. per_label (cfp_period p) = per_label (spr_period row))
               \<lparr>cfp_period = spr_period row, cfp_income = 0, cfp_expenses = 0, cfp_savings = 0, cfp_savings_rate = 0,
                 cfp_income_by_category = [], cfp_expenses_by_category = []\<rparr>
               (\<lambda>p. if is_income
                  then p\<lparr>cfp_income := cfp_income p + spent, cfp_income_by_category := cfp_income_by_category p @ [b]\<rparr>
                  else p\<lparr>cfp_expenses := cfp_expenses p + spent, cfp_expenses_by_category := cfp_expenses_by_category p @ [b]\<rparr>)
               periods)"

definition finalize_period :: "calendar \<Rightarrow> cash_flow_period \<Rightarrow> cash_flow_period" where
  "finalize_period y p =
     (let savings = cfp_income p - cfp_expenses p
      in p\<lparr>cfp_savings := savings, cfp_savings_rate := percentage y savings (cfp_income p),
           cfp_income_by_category := map (\<lambda>b. b\<lparr>brk_percent_of_total := percentage y (brk_total b) (cfp_income p)\<rparr>)
             (cfp_income_by_category p),
           cfp_expenses_by_category := map (\<lambda>b. b\<lparr>brk_percent_of_total := percentage y (brk_total b) (cfp_expenses p)\<rparr>)
             (cfp_expenses_by_category p)\<rparr>)"

definition cash_flow :: "base64 \<Rightarrow> calendar \<Rightarrow> spending_filter_input \<Rightarrow> cash_flow_period list book_db" where
  "cash_flow x y f =
     try_bind (spending_rows x y f True False) (\<lambda>rows.
     ok (map (finalize_period y) (foldl add_cash_flow [] rows)))"

section \<open>Spending by category\<close>

record period_sum =
  psm_period :: period
  psm_total_amount :: cents
  psm_transaction_count :: "32 word"
  psm_percent_of_total :: "64 word"

record category_sum =
  csm_category :: category
  csm_total_amount :: cents
  csm_transaction_count :: "32 word"
  csm_percent_of_total :: "64 word"
  csm_periods :: "period_sum list"

record spending_report =
  srp_total_amount :: cents
  srp_transaction_count :: "32 word"
  srp_periods :: "period_sum list"
  srp_categories :: "category_sum list"

definition no_sum :: "period \<Rightarrow> period_sum" where
  "no_sum p = \<lparr>psm_period = p, psm_total_amount = 0, psm_transaction_count = 0, psm_percent_of_total = 0\<rparr>"

definition add_to_sum :: "cents \<Rightarrow> period_sum \<Rightarrow> period_sum" where
  "add_to_sum amount s = s\<lparr>psm_total_amount := psm_total_amount s + amount,
     psm_transaction_count := psm_transaction_count s + 1\<rparr>"

fun update_first :: "('a \<Rightarrow> bool) \<Rightarrow> ('a \<Rightarrow> 'a) \<Rightarrow> 'a list \<Rightarrow> 'a list" where
  "update_first P f [] = []"
| "update_first P f (x # xs) = (if P x then f x # xs else x # update_first P f xs)"

text \<open>Of two periods of one label, the map of labels holds the later one.\<close>

definition update_last :: "('a \<Rightarrow> bool) \<Rightarrow> ('a \<Rightarrow> 'a) \<Rightarrow> 'a list \<Rightarrow> 'a list" where
  "update_last P f xs = rev (update_first P f (rev xs))"

definition add_to_report :: "calendar \<Rightarrow> granularity option \<Rightarrow> spending_report \<Rightarrow> txn_row \<times> category \<Rightarrow> spending_report" where
  "add_to_report y granularity report = (\<lambda>(r, c).
     let amount = txn_amount_cents r;
         in_period = (case granularity of
             None \<Rightarrow> (\<lambda>s. False)
           | Some g \<Rightarrow> (\<lambda>s. per_label (psm_period s) = per_label (period_for y (of_timestamp (txn_datetime r)) g)))
     in report\<lparr>srp_total_amount := srp_total_amount report + amount,
          srp_transaction_count := srp_transaction_count report + 1,
          srp_periods := update_last in_period (add_to_sum amount) (srp_periods report),
          srp_categories := update_or_push (\<lambda>s. ctg_id (csm_category s) = ctg_id c)
            \<lparr>csm_category = c, csm_total_amount = 0, csm_transaction_count = 0, csm_percent_of_total = 0,
              csm_periods = map (\<lambda>s. no_sum (psm_period s)) (srp_periods report)\<rparr>
            (\<lambda>s. s\<lparr>csm_total_amount := csm_total_amount s + amount,
               csm_transaction_count := csm_transaction_count s + 1,
               csm_periods := update_first in_period (add_to_sum amount) (csm_periods s)\<rparr>)
            (srp_categories report)\<rparr>)"

definition with_percentages :: "calendar \<Rightarrow> spending_report \<Rightarrow> spending_report" where
  "with_percentages y report =
     report\<lparr>srp_categories := map (\<lambda>s. s\<lparr>csm_percent_of_total := percentage y (csm_total_amount s) (srp_total_amount report),
       csm_periods := map (\<lambda>q. q\<lparr>psm_percent_of_total :=
           (case find (\<lambda>z. per_label (psm_period z) = per_label (psm_period q)) (rev (srp_periods report)) of
              None \<Rightarrow> 0 | Some z \<Rightarrow> percentage y (psm_total_amount q) (psm_total_amount z))\<rparr>) (csm_periods s)\<rparr>)
       (srp_categories report)\<rparr>"

definition build_spending_report ::
    "calendar \<Rightarrow> (txn_row \<times> category) list \<Rightarrow> category list \<Rightarrow> spending_params \<Rightarrow> granularity option \<Rightarrow> spending_report" where
  "build_spending_report y rows categories p granularity =
     (let periods = map no_sum (report_periods y (of_timestamp (spp_datetime_from p)) (of_timestamp (spp_datetime_to p)) granularity)
      in with_percentages y (foldl (add_to_report y granularity)
        \<lparr>srp_total_amount = 0, srp_transaction_count = 0, srp_periods = periods,
          srp_categories = map (\<lambda>c. \<lparr>csm_category = c, csm_total_amount = 0, csm_transaction_count = 0,
            csm_percent_of_total = 0, csm_periods = periods\<rparr>) categories\<rparr> rows))"

definition spending_by_category :: "base64 \<Rightarrow> calendar \<Rightarrow> spending_filter_input \<Rightarrow> spending_report book_db" where
  "spending_by_category x y f =
     try_bind (of_result (spending_params_of x f True)) (\<lambda>p.
     try_bind (of_result (validate_period_count y p (spf_granularity f))) (\<lambda>_.
     try_bind (spending_transactions p) (\<lambda>rows.
     try_bind (rows_of_categories (spp_category_ids p) None True True) (\<lambda>categories.
     ok (build_spending_report y rows categories p (spf_granularity f))))))"

end
