(* ===== verification/Budgets.thy ===== *)
theory Budgets
  imports Spending
begin

text \<open>
  Budgets and the reports that compare them with what was spent (src/server-rs/src/budgets/service.rs and
  budgets/store), on top of the categories with their groups (src/server-rs/src/transactions/store/categories.rs
  and category_pfc.rs). The text of a value in \<open>Debug\<close> form and the PFC2 codes Plaid knows are parameters.
\<close>

section \<open>Categories and groups\<close>

record category_group =
  cgp_id :: int
  cgp_name :: string
  cgp_emoji :: string
  cgp_kind :: category_kind
  cgp_categories :: "category list"

definition add_to_group :: "category_group list \<Rightarrow> category \<Rightarrow> category_group list" where
  "add_to_group groups c =
     update_or_push (\<lambda>g. cgp_id g = ctg_group_id c)
       \<lparr>cgp_id = ctg_group_id c, cgp_name = ctg_group_name c, cgp_emoji = ctg_group_emoji c,
         cgp_kind = ctg_kind c, cgp_categories = []\<rparr>
       (\<lambda>g. g\<lparr>cgp_categories := cgp_categories g @ [c]\<rparr>) groups"

definition category_groups :: "category_group list book_db" where
  "category_groups = try_bind (rows_of_categories None None False True) (\<lambda>rows. ok (foldl add_to_group [] rows))"

definition category_group_by_id :: "int \<Rightarrow> category_group option book_db" where
  "category_group_by_id ident = try_bind (category_group_row ident) (\<lambda>g. ok (map_option (\<lambda>g.
     \<lparr>cgp_id = grp_id g, cgp_name = grp_name g, cgp_emoji = grp_emoji g, cgp_kind = category_kind_of (grp_kind g),
       cgp_categories = []\<rparr>) g))"

definition full_group :: "int \<Rightarrow> category_group book_db" where
  "full_group ident =
     try_bind (category_group_by_id ident) (\<lambda>g.
     try_bind (ok_or (''category group '' @ show_int ident @ '' not found'') g) (\<lambda>g.
     try_bind (rows_of_categories None (Some ident) False False) (\<lambda>rows.
     ok (g\<lparr>cgp_categories := rows\<rparr>))))"

definition book_category_by_id :: "int \<Rightarrow> category option book_db" where
  "book_category_by_id ident =
     try_bind (rows_of_categories (Some [ident]) None False False) (\<lambda>rows.
     ok (case rows of [] \<Rightarrow> None | c # _ \<Rightarrow> Some c))"

definition full_category :: "int \<Rightarrow> category book_db" where
  "full_category ident = try_bind (book_category_by_id ident) (ok_or (''category '' @ show_int ident @ '' not found''))"

definition ensure_group :: "int \<Rightarrow> unit book_db" where
  "ensure_group ident =
     try_bind (category_group_row ident) (\<lambda>g. ensure (g \<noteq> None) (''category group '' @ show_int ident @ '' not found''))"

definition create_category_group :: "string \<Rightarrow> string \<Rightarrow> category_kind \<Rightarrow> category_group book_db" where
  "create_category_group name emoji kind = try_bind (create_category_group_row name emoji (kind_name kind)) full_group"

definition update_category_group :: "int \<Rightarrow> string \<Rightarrow> string \<Rightarrow> category_group book_db" where
  "update_category_group ident name emoji =
     try_bind (update_category_group_row name emoji ident) (\<lambda>rows.
     if rows = 0 then err (Msg (''category group '' @ show_int ident @ '' not found'')) else full_group ident)"

definition delete_category_group :: "int \<Rightarrow> bool book_db" where
  "delete_category_group ident =
     (if ident = uncategorized_category_id then err (Msg ''cannot delete the uncategorized category group'')
      else with_tx (
        try_bind (count_categories_by_group ident) (\<lambda>count.
        if 0 < count
        then err (Msg (''cannot delete group with '' @ show_nat count @ '' categor'' @ (if count = 1 then ''y'' else ''ies'')
               @ ''; delete all categories first''))
        else try_bind (delete_category_group_row ident) (\<lambda>rows. ok (0 < rows)))))"

definition create_category :: "string \<Rightarrow> string \<Rightarrow> int \<Rightarrow> category book_db" where
  "create_category name emoji group_id =
     try_bind (with_tx (try_bind (ensure_group group_id) (\<lambda>_. create_category_row name emoji group_id))) full_category"

record pfc2 =
  x_pfc2_codes :: "string list"
  x_debug :: "string \<Rightarrow> string"

definition to_ascii_uppercase :: "string \<Rightarrow> string" where
  "to_ascii_uppercase s =
     map (\<lambda>c. let n = (of_char c :: nat) in if 97 \<le> n \<and> n \<le> 122 then char_of (n - 32) else c) s"

definition normalize_code :: "string \<Rightarrow> string" where
  "normalize_code s = to_ascii_uppercase (trim s)"

text \<open>The first of equal codes is kept.\<close>

definition normalize_codes :: "string list \<Rightarrow> string list" where
  "normalize_codes codes = rev (remdups (rev (filter (\<lambda>c. c \<noteq> '''') (map normalize_code codes))))"

fun check_codes :: "pfc2 \<Rightarrow> int \<Rightarrow> string list \<Rightarrow> unit book_db" where
  "check_codes x category_id [] = ok ()"
| "check_codes x category_id (code # codes) =
     try_bind (ensure (normalize_code code \<in> set (x_pfc2_codes x)) (''invalid Plaid PFC2 code '' @ x_debug x code)) (\<lambda>_.
     try_bind (pfc2_mapped_category_name code category_id) (\<lambda>owner.
     case owner of
       Some name \<Rightarrow> err (Msg (''PFC2 code '' @ code @ '' is already assigned to '' @ name))
     | None \<Rightarrow> check_codes x category_id codes))"

fun map_codes :: "int \<Rightarrow> string list \<Rightarrow> unit book_db" where
  "map_codes category_id [] = ok ()"
| "map_codes category_id (code # codes) =
     try_bind (upsert_category_plaid_mapping code category_id) (\<lambda>_. map_codes category_id codes)"

definition replace_pfc2_mappings :: "pfc2 \<Rightarrow> int \<Rightarrow> string list \<Rightarrow> unit book_db" where
  "replace_pfc2_mappings x category_id codes =
     try_bind (check_codes x category_id (normalize_codes codes)) (\<lambda>_.
     try_bind (delete_category_plaid_mappings category_id) (\<lambda>_.
     map_codes category_id (normalize_codes codes)))"

definition update_category ::
    "pfc2 \<Rightarrow> int \<Rightarrow> string \<Rightarrow> string \<Rightarrow> int \<Rightarrow> string list option \<Rightarrow> category book_db" where
  "update_category x ident name emoji group_id codes =
     try_bind (with_tx (
       try_bind (ensure_group group_id) (\<lambda>_.
       try_bind (update_category_fields name emoji group_id ident) (\<lambda>rows.
       if rows = 0 then err (Msg (''category '' @ show_int ident @ '' not found''))
       else case codes of None \<Rightarrow> ok () | Some codes \<Rightarrow> replace_pfc2_mappings x ident codes))))
     (\<lambda>_. full_category ident)"

definition delete_category :: "int \<Rightarrow> bool book_db" where
  "delete_category ident =
     (if ident = uncategorized_category_id then err (Msg ''cannot delete the uncategorized category'')
      else try_bind (with_tx (
        try_bind (category_info ident) (\<lambda>info.
        case info of
          None \<Rightarrow> err (Msg (''category '' @ show_int ident @ '' not found''))
        | Some count \<Rightarrow>
            if 0 < count
            then err (Msg (''cannot delete category with '' @ show_nat count @ '' transaction''
                   @ (if count = 1 then '''' else ''s'') @ ''; reassign them first''))
            else delete_category_row ident))) (\<lambda>_. ok True))"

fun reorder_from :: "int \<Rightarrow> int \<Rightarrow> int list \<Rightarrow> unit book_db" where
  "reorder_from order group_id [] = ok ()"
| "reorder_from order group_id (i # is) =
     try_bind (update_category_sort_order order i group_id) (\<lambda>_. reorder_from (order + 1) group_id is)"

definition reorder_categories :: "int \<Rightarrow> int list \<Rightarrow> category_group book_db" where
  "reorder_categories group_id category_ids =
     try_bind (with_tx (try_bind (ensure_group group_id) (\<lambda>_. reorder_from 1 group_id category_ids)))
       (\<lambda>_. full_group group_id)"

section \<open>Budgets\<close>

definition validate_month :: "(string \<Rightarrow> string) \<Rightarrow> string \<Rightarrow> error + unit" where
  "validate_month dbg month =
     (if length month = 7 \<and> list_all is_ascii_digit (take 4 month) \<and> month ! 4 = CHR ''-''
        \<and> drop 5 month \<in> set [''01'', ''02'', ''03'', ''04'', ''05'', ''06'', ''07'', ''08'', ''09'', ''10'', ''11'', ''12'']
      then Inr () else Inl (Msg (''month must be in YYYY-MM format, got '' @ dbg month)))"

record budget =
  bdg_id :: int
  bdg_month :: string
  bdg_category :: category
  bdg_amount :: cents

definition set_budget :: "base64 \<Rightarrow> (string \<Rightarrow> string) \<Rightarrow> string \<Rightarrow> string \<Rightarrow> cents \<Rightarrow> budget book_db" where
  "set_budget x dbg month category amount =
     try_bind (of_result (validate_month dbg month)) (\<lambda>_.
     try_bind (ensure (0 \<le> sint amount) ''budget amount must be non-negative'') (\<lambda>_.
     try_bind (of_result (local_id x category Category)) (\<lambda>category_id.
     with_tx (
       try_bind (with_context ''load budget category'' (book_category_by_id category_id)) (\<lambda>found.
       try_bind (ok_or (''category '' @ show_int category_id @ '' not found'') found) (\<lambda>c.
       try_bind (upsert_budget month category_id amount) (\<lambda>ident.
       ok \<lparr>bdg_id = ident, bdg_month = month, bdg_category = c, bdg_amount = amount\<rparr>)))))))"

definition delete_budget :: "base64 \<Rightarrow> string \<Rightarrow> bool book_db" where
  "delete_budget x ident =
     try_bind (of_result (local_id x ident Budget)) (\<lambda>i.
     try_bind (delete_budget_row i) (\<lambda>rows. ok (0 < rows)))"

text \<open>\<open>map_err\<close> with the name of the argument before the message.\<close>

definition labelled :: "string \<Rightarrow> error + unit \<Rightarrow> error + unit" where
  "labelled label r = (case r of Inl (Msg m) \<Rightarrow> Inl (Msg (label @ '': '' @ m)) | r \<Rightarrow> r)"

definition copy_budgets :: "(string \<Rightarrow> string) \<Rightarrow> string \<Rightarrow> string \<Rightarrow> 32 word book_db" where
  "copy_budgets dbg from_month to_month =
     try_bind (of_result (labelled ''fromMonth'' (validate_month dbg from_month))) (\<lambda>_.
     try_bind (of_result (labelled ''toMonth'' (validate_month dbg to_month))) (\<lambda>_.
     try_bind (ensure (from_month \<noteq> to_month) ''fromMonth and toMonth must differ'') (\<lambda>_.
     try_bind (copy_budget_rows from_month to_month) (\<lambda>rows. ok (of_nat rows)))))"

section \<open>Budget reports\<close>

record budget_entry =
  ent_id :: int
  ent_amount :: cents

definition no_entry :: budget_entry where
  "no_entry = \<lparr>ent_id = 0, ent_amount = 0\<rparr>"

definition budgets_by_month :: "budget_row list \<Rightarrow> string \<rightharpoonup> (int \<rightharpoonup> budget_entry)" where
  "budgets_by_month rows month =
     (let rs = filter (\<lambda>b. bud_month b = month) rows
      in if rs = [] then None
         else Some (map_of (rev (map (\<lambda>b. (bud_category_id b, \<lparr>ent_id = bud_id b, ent_amount = bud_amount_cents b\<rparr>)) rs))))"

definition spending_filter :: "int \<Rightarrow> int \<Rightarrow> granularity option \<Rightarrow> spending_filter_input" where
  "spending_filter from_at to_at granularity =
     \<lparr>spf_from = Some from_at, spf_to = Some to_at, spf_granularity = granularity, spf_category_ids = None,
      spf_owner_ids = None, spf_account_ids = None, spf_is_hidden = None, spf_tag_ids = None, spf_untagged = None\<rparr>"

definition month_range :: "(string \<Rightarrow> string) \<Rightarrow> calendar \<Rightarrow> string \<Rightarrow> error + int \<times> int" where
  "month_range dbg y month =
     (let failed = Inl (Msg (''parse month '' @ dbg month))
      in case split_once CHR ''-'' month of
           None \<Rightarrow> failed
         | Some (year, number) \<Rightarrow>
             (case (parse_u64 year, parse_u64 number) of
                (Some year, Some number) \<Rightarrow>
                  (case y_month_start y year (nat number) of
                     None \<Rightarrow> failed
                   | Some start \<Rightarrow>
                       (case y_add_months y 1 start of None \<Rightarrow> failed | Some final \<Rightarrow> Inr (start, final)))
              | _ \<Rightarrow> failed))"

text \<open>What was spent in each category of a month; income is received, so its sign is turned.\<close>

definition actual_amount :: "spending_row \<Rightarrow> (int \<times> cents) option" where
  "actual_amount a = map_option (\<lambda>c. (ctg_id c,
     if ctg_kind c = Income then - spr_total_amount a else spr_total_amount a)) (spr_category a)"

definition actual_by_month :: "spending_row list \<Rightarrow> string \<Rightarrow> int \<rightharpoonup> cents" where
  "actual_by_month rows month =
     map_of (rev (List.map_filter actual_amount (filter (\<lambda>a. per_label (spr_period a) = month) rows)))"

record budget_line =
  bln_id :: "string option"
  bln_category :: category
  bln_budgeted :: cents
  bln_actual :: cents
  bln_remaining :: cents

record budget_section =
  bsc_label :: string
  bsc_group :: category_group
  bsc_budgeted :: cents
  bsc_actual :: cents
  bsc_remaining :: cents
  bsc_lines :: "budget_line list"

record budget_report_data =
  brp_month :: string
  brp_expenses_budgeted :: cents
  brp_expenses_actual :: cents
  brp_income_budgeted :: cents
  brp_income_actual :: cents
  brp_remaining_budgeted :: cents
  brp_remaining_actual :: cents
  brp_sections :: "budget_section list"

definition budget_line_of :: "base64 \<Rightarrow> (int \<rightharpoonup> budget_entry) \<Rightarrow> (int \<rightharpoonup> cents) \<Rightarrow> category \<Rightarrow> budget_line option" where
  "budget_line_of x budgeted actual c =
     (let entry = unwrap_or no_entry (budgeted (ctg_id c)); spent = unwrap_or 0 (actual (ctg_id c))
      in if ent_amount entry \<noteq> 0 \<or> spent \<noteq> 0
         then Some \<lparr>bln_id = (if ent_id entry \<noteq> 0 then Some (encode_global_id x Budget (of_int (ent_id entry))) else None),
           bln_category = c, bln_budgeted = ent_amount entry, bln_actual = spent,
           bln_remaining = ent_amount entry - spent\<rparr>
         else None)"

definition budget_section_of ::
    "base64 \<Rightarrow> (int \<rightharpoonup> budget_entry) \<Rightarrow> (int \<rightharpoonup> cents) \<Rightarrow> category_group \<Rightarrow> (category_kind \<times> budget_section) option" where
  "budget_section_of x budgeted actual g =
     (let lines = List.map_filter (budget_line_of x budgeted actual) (cgp_categories g);
          b = sum_list (map bln_budgeted lines); a = sum_list (map bln_actual lines)
      in if lines \<noteq> [] \<or> b \<noteq> 0
         then Some (cgp_kind g, \<lparr>bsc_label = cgp_name g, bsc_group = g, bsc_budgeted = b, bsc_actual = a,
           bsc_remaining = b - a, bsc_lines = lines\<rparr>)
         else None)"

definition kind_total :: "category_kind \<Rightarrow> (budget_section \<Rightarrow> cents) \<Rightarrow> (category_kind \<times> budget_section) list \<Rightarrow> cents" where
  "kind_total kind value sections = foldl (\<lambda>s (k, b). if k = kind then s + value b else s) 0 sections"

definition assemble_budget_report ::
    "base64 \<Rightarrow> string \<Rightarrow> category_group list \<Rightarrow> (int \<rightharpoonup> budget_entry) \<Rightarrow> (int \<rightharpoonup> cents) \<Rightarrow> budget_report_data" where
  "assemble_budget_report x month groups budgeted actual =
     (let sections = List.map_filter (budget_section_of x budgeted actual) (filter (\<lambda>g. cgp_kind g \<noteq> Transfer) groups);
          income_budgeted = kind_total Income bsc_budgeted sections;
          income_actual = kind_total Income bsc_actual sections;
          expenses_budgeted = kind_total Expense bsc_budgeted sections;
          expenses_actual = kind_total Expense bsc_actual sections
      in \<lparr>brp_month = month, brp_expenses_budgeted = expenses_budgeted, brp_expenses_actual = expenses_actual,
          brp_income_budgeted = income_budgeted, brp_income_actual = income_actual,
          brp_remaining_budgeted = income_budgeted - expenses_budgeted,
          brp_remaining_actual = income_actual - expenses_actual, brp_sections = map snd sections\<rparr>)"

definition budget_report :: "base64 \<Rightarrow> (string \<Rightarrow> string) \<Rightarrow> calendar \<Rightarrow> string \<Rightarrow> budget_report_data book_db" where
  "budget_report x dbg y month =
     try_bind (of_result (validate_month dbg month)) (\<lambda>_.
     try_bind (of_result (month_range dbg y month)) (\<lambda>(from_at, to_at).
     try_bind (with_context ''compute actual spend''
       (spending_rows x y (spending_filter from_at to_at None) True False)) (\<lambda>rows.
     try_bind (with_context ''load category groups'' category_groups) (\<lambda>groups.
     try_bind (with_context ''load budgets'' (budget_rows_in_range (Some month) (Some (month_text (civil_at y to_at))))) (\<lambda>budgets.
     ok (assemble_budget_report x month groups (unwrap_or Map.empty (budgets_by_month budgets month))
       (actual_by_month rows month)))))))"

definition MAX_BUDGET_REPORT_HISTORY_MONTHS :: nat where
  "MAX_BUDGET_REPORT_HISTORY_MONTHS = 120"

definition validate_history_month :: "(string \<Rightarrow> string) \<Rightarrow> string \<Rightarrow> string option \<Rightarrow> error + unit" where
  "validate_history_month dbg label month =
     (case month of None \<Rightarrow> Inr () | Some m \<Rightarrow> labelled label (validate_month dbg m))"

definition budget_report_history ::
    "base64 \<Rightarrow> (string \<Rightarrow> string) \<Rightarrow> calendar \<Rightarrow> string option \<Rightarrow> string option \<Rightarrow> budget_report_data list book_db" where
  "budget_report_history x dbg y start_month end_month =
     try_bind (of_result (validate_history_month dbg ''startMonth'' start_month)) (\<lambda>_.
     try_bind (of_result (validate_history_month dbg ''endMonth'' end_month)) (\<lambda>_.
     try_bind (case (start_month, end_month) of
         (Some s, Some e) \<Rightarrow> ensure (s < e) ''startMonth must be before endMonth'' | _ \<Rightarrow> ok ()) (\<lambda>_.
     try_bind (with_context ''load budgets'' (budget_rows_in_range start_month end_month)) (\<lambda>budgets.
     let months = sort (remdups (map bud_month budgets))
     in if months = [] then ok []
        else
          try_bind (ensure (length months \<le> MAX_BUDGET_REPORT_HISTORY_MONTHS)
            (''budget report history spans '' @ show_nat (length months)
             @ '' months (max 120); narrow the startMonth/endMonth range'')) (\<lambda>_.
          try_bind (of_result (month_range dbg y (hd months))) (\<lambda>(from_at, _).
          try_bind (of_result (month_range dbg y (List.last months))) (\<lambda>(_, to_at).
          try_bind (with_context ''compute actual spend''
            (spending_rows x y (spending_filter from_at to_at (Some Monthly)) True False)) (\<lambda>rows.
          try_bind (with_context ''load category groups'' category_groups) (\<lambda>groups.
          ok (map (\<lambda>month. assemble_budget_report x month groups (unwrap_or Map.empty (budgets_by_month budgets month))
              (actual_by_month rows month)) (rev months)))))))))))"

end
