(* ===== verification/Spending_Laws.thy ===== *)
theory Spending_Laws
  imports Spending "HOL-Library.Multiset"
begin

text \<open>
  The reports lose nothing and count nothing twice: what they show for a period and a category is the sum of
  the transactions of that period and category. A locale holds the argument for the lists that collect sums
  by a key; the aggregates, the cash flow and the groups of categories are its instances.
\<close>

section \<open>Sums collected by a key\<close>

definition sum_by :: "('a \<Rightarrow> 'm::comm_monoid_add) \<Rightarrow> ('a \<Rightarrow> bool) \<Rightarrow> 'a list \<Rightarrow> 'm" where
  "sum_by f P xs = sum_list (map f (filter P xs))"

lemma sum_by_simps [simp]:
  "sum_by f P [] = 0" "sum_by f P (x # xs) = (if P x then f x + sum_by f P xs else sum_by f P xs)"
  "sum_by f P (xs @ ys) = sum_by f P xs + sum_by f P ys"
  by (simp_all add: sum_by_def)

lemma sum_by_cong:
  "(\<And>x. x \<in> set xs \<Longrightarrow> P x \<longleftrightarrow> Q x) \<Longrightarrow> (\<And>x. x \<in> set xs \<Longrightarrow> P x \<Longrightarrow> f x = g x) \<Longrightarrow> sum_by f P xs = sum_by g Q xs"
  by (induction xs) auto

lemma sum_by_zero: "(\<And>x. x \<in> set xs \<Longrightarrow> P x \<Longrightarrow> f x = 0) \<Longrightarrow> sum_by f P xs = 0"
  by (induction xs) auto

lemma sum_by_guard: "sum_by (\<lambda>x. if Q x then f x else 0) P xs = sum_by f (\<lambda>x. P x \<and> Q x) xs"
  by (induction xs) auto

lemma sum_by_uminus: "sum_by (\<lambda>x. - f x) P xs = - sum_by f P (xs :: 'a list)"
  for f :: "'a \<Rightarrow> 'm::ab_group_add"
  by (induction xs) auto

lemma sum_mset_sum_list_of: "sum_by f P xs = sum_mset (image_mset f (filter_mset P (mset xs)))"
  by (induction xs) auto

lemma sum_by_mset: "mset xs = mset ys \<Longrightarrow> sum_by f P xs = sum_by f P ys"
  using sum_mset_sum_list_of [of f P xs] sum_mset_sum_list_of [of f P ys] by simp

lemma sum_by_single:
  "distinct (map key xs) \<Longrightarrow> x \<in> set xs \<Longrightarrow> sum_by f (\<lambda>z. key z = key x) xs = f x"
proof (induction xs)
  case (Cons z zs)
  show ?case
  proof (cases "z = x")
    case True
    with Cons.prems have "key x \<notin> key ` set zs" by simp
    then have "sum_by f (\<lambda>z. key z = key x) zs = 0" by (intro sum_by_zero) (metis imageI)
    with True show ?thesis by simp
  next
    case False
    with Cons.prems have "key z \<noteq> key x" by force
    with Cons False show ?thesis by simp
  qed
qed simp

locale accumulation =
  fixes key_of :: "'a \<Rightarrow> 'k" and k :: "'b \<Rightarrow> 'k" and new :: "'b \<Rightarrow> 'a" and add :: "'b \<Rightarrow> 'a \<Rightarrow> 'a"
    and inv :: "'a \<Rightarrow> bool"
    and val :: "'a \<Rightarrow> 'm::comm_monoid_add" and v :: "'b \<Rightarrow> 'm"
  assumes key_new: "key_of (new b) = k b"
    and key_add: "key_of a = k b \<Longrightarrow> key_of (add b a) = k b"
    and inv_new: "inv (new b)"
    and inv_add: "inv a \<Longrightarrow> inv (add b a)"
    and val_new: "val (new b) = 0"
    and val_add: "inv a \<Longrightarrow> key_of a = k b \<Longrightarrow> val (add b a) = val a + v b"
begin

lemma keys_step: "map key_of (update_or_push (\<lambda>a. key_of a = k b) (new b) (add b) as) =
    map key_of as @ (if k b \<in> key_of ` set as then [] else [k b])"
  by (induction as) (auto simp: key_new key_add)

lemma inv_step: "\<forall>a \<in> set as. inv a \<Longrightarrow> a \<in> set (update_or_push (\<lambda>a. key_of a = k b) (new b) (add b) as) \<Longrightarrow> inv a"
  by (induction as) (auto simp: inv_new inv_add split: if_splits)

lemma sum_step: "\<forall>a \<in> set as. inv a \<Longrightarrow> sum_by val (\<lambda>a. R (key_of a)) (update_or_push (\<lambda>a. key_of a = k b) (new b) (add b) as) =
    sum_by val (\<lambda>a. R (key_of a)) as + (if R (k b) then v b else 0)"
  by (induction as) (auto simp: key_new key_add val_new val_add inv_new ac_simps)

lemma sum_fold: "\<forall>a \<in> set as. inv a \<Longrightarrow> sum_by val (\<lambda>a. R (key_of a)) (foldl (\<lambda>as b. update_or_push (\<lambda>a. key_of a = k b) (new b) (add b) as) as bs) =
    sum_by val (\<lambda>a. R (key_of a)) as + sum_by v (\<lambda>b. R (k b)) bs"
proof (induction bs arbitrary: as)
  case (Cons b bs)
  from Cons.prems have "\<forall>a \<in> set (update_or_push (\<lambda>a. key_of a = k b) (new b) (add b) as). inv a"
    using inv_step by blast
  from Cons.IH [OF this] show ?case by (simp add: sum_step [OF Cons.prems] ac_simps)
qed simp

lemma distinct_fold: "distinct (map key_of as) \<Longrightarrow>
    distinct (map key_of (foldl (\<lambda>as b. update_or_push (\<lambda>a. key_of a = k b) (new b) (add b) as) as bs))"
  by (induction bs arbitrary: as) (auto simp: keys_step)

lemma keys_fold: "key_of ` set (foldl (\<lambda>as b. update_or_push (\<lambda>a. key_of a = k b) (new b) (add b) as) as bs) =
    key_of ` set as \<union> k ` set bs"
proof (induction bs arbitrary: as)
  case (Cons b bs)
  have "key_of ` set (update_or_push (\<lambda>a. key_of a = k b) (new b) (add b) as) = insert (k b) (key_of ` set as)"
    unfolding set_map [symmetric] keys_step by auto
  with Cons show ?case by simp
qed simp

lemma value_fold:
  assumes "a \<in> set (foldl (\<lambda>as b. update_or_push (\<lambda>a. key_of a = k b) (new b) (add b) as) [] bs)"
  shows "val a = sum_by v (\<lambda>b. k b = key_of a) bs"
  using sum_by_single [OF distinct_fold assms, of val] sum_fold [of "[]" "\<lambda>z. z = key_of a" bs] by simp

end

lemma update_or_push_All:
  "(\<And>a. a \<in> set as \<Longrightarrow> Q a) \<Longrightarrow> Q (f new) \<Longrightarrow> (\<And>a. a \<in> set as \<Longrightarrow> Q a \<Longrightarrow> Q (f a)) \<Longrightarrow>
   a \<in> set (update_or_push P new f as) \<Longrightarrow> Q a"
  by (induction as) (auto split: if_splits)

section \<open>The aggregates\<close>

definition label_at :: "calendar \<Rightarrow> granularity option \<Rightarrow> txn_row \<Rightarrow> string" where
  "label_at y granularity r = per_label (period_for y (of_timestamp (txn_datetime r)) (unwrap_or Monthly granularity))"

definition row_key :: "spending_row \<Rightarrow> string \<times> int option" where
  "row_key a = (per_label (spr_period a), map_option ctg_id (spr_category a))"

definition new_row :: "calendar \<Rightarrow> granularity option \<Rightarrow> txn_row \<times> category \<Rightarrow> spending_row" where
  "new_row y granularity = (\<lambda>(r, c).
     \<lparr>spr_period = period_for y (of_timestamp (txn_datetime r)) (unwrap_or Monthly granularity),
      spr_category = Some c, spr_total_amount = 0, spr_transaction_count = 0\<rparr>)"

definition add_row :: "txn_row \<times> category \<Rightarrow> spending_row \<Rightarrow> spending_row" where
  "add_row = (\<lambda>(r, c) a. a\<lparr>spr_total_amount := spr_total_amount a + txn_amount_cents r,
     spr_transaction_count := spr_transaction_count a + 1\<rparr>)"

interpretation agg: accumulation row_key "\<lambda>(r, c). (label_at y granularity r, Some (ctg_id c))"
    "new_row y granularity" add_row "\<lambda>_. True" spr_total_amount "\<lambda>(r, c). txn_amount_cents r"
  for y granularity
  by unfold_locales (auto simp: row_key_def new_row_def add_row_def label_at_def)

interpretation agg_count: accumulation row_key "\<lambda>(r, c). (label_at y granularity r, Some (ctg_id c))"
    "new_row y granularity" add_row "\<lambda>_. True" spr_transaction_count "\<lambda>_. 1"
  for y granularity
  by unfold_locales (auto simp: row_key_def new_row_def add_row_def label_at_def)

lemma aggregate_rows_fold: "aggregate_rows y rows granularity True =
    foldl (\<lambda>as b. update_or_push (\<lambda>a. row_key a = (\<lambda>(r, c). (label_at y granularity r, Some (ctg_id c))) b)
      (new_row y granularity b) (add_row b) as) [] rows"
proof -
  have "add_spending y granularity True = (\<lambda>as b. update_or_push
      (\<lambda>a. row_key a = (\<lambda>(r, c). (label_at y granularity r, Some (ctg_id c))) b) (new_row y granularity b) (add_row b) as)"
    by (auto simp: fun_eq_iff add_spending_def Let_def same_aggregate_def [abs_def] row_key_def label_at_def new_row_def
        add_row_def)
  then show ?thesis by (simp add: aggregate_rows_def)
qed

lemmas aggregate_sum = agg.sum_fold [where as = "[]" and bs = rows for rows, folded aggregate_rows_fold, simplified]
lemmas aggregate_count = agg_count.value_fold [where bs = rows for rows, folded aggregate_rows_fold]
lemmas aggregate_keys = agg.keys_fold [where as = "[]" and bs = rows for rows, folded aggregate_rows_fold, simplified]
lemmas aggregate_distinct = agg.distinct_fold [where as = "[]" and bs = rows for rows, folded aggregate_rows_fold, simplified]

lemma aggregate_category:
  assumes "a \<in> set (aggregate_rows y rows granularity True)"
  shows "\<exists>c \<in> snd ` set rows. spr_category a = Some c"
proof -
  have "(\<forall>a \<in> set as. \<exists>c \<in> C. spr_category a = Some c) \<Longrightarrow> snd ` set rows \<subseteq> C \<Longrightarrow>
      \<forall>a \<in> set (foldl (add_spending y granularity True) as rows). \<exists>c \<in> C. spr_category a = Some c" for as C
  proof (induction rows arbitrary: as)
    case (Cons b rows)
    have "\<exists>c \<in> C. spr_category a = Some c" if "a \<in> set (add_spending y granularity True as b)" for a
      by (rule update_or_push_All [OF _ _ _ that [unfolded add_spending_def case_prod_unfold Let_def]])
        (use Cons.prems in auto)
    then show ?case
      unfolding foldl_Cons by (intro Cons.IH ballI) (use Cons.prems(2) in simp_all)
  qed simp
  from this [of "[]" "snd ` set rows"] assms show ?thesis by (simp add: aggregate_rows_def)
qed

end
