(* ===== verification/Book_Laws.thy ===== *)
theory Book_Laws
  imports Budgets Spending_Laws
begin

text \<open>
  The categories, their groups and the budgets stay well formed: ids and names are unique, every reference
  leads somewhere, a category has one budget for a month at most, and budgets have valid months and no
  negative amount.
\<close>

section \<open>Well-formed books\<close>

definition valid_month :: "string \<Rightarrow> bool" where
  "valid_month m \<longleftrightarrow> (\<exists>dbg. validate_month dbg m = Inr ())"

lemma valid_monthI: "validate_month dbg m = Inr () \<Longrightarrow> valid_month m"
  by (auto simp: valid_month_def)

definition valid_budget :: "int set \<Rightarrow> budget_row \<Rightarrow> bool" where
  "valid_budget cats b \<longleftrightarrow> bud_category_id b \<in> cats \<and> valid_month (bud_month b) \<and> 0 \<le> sint (bud_amount_cents b)"

definition wf_book :: "book_tables \<Rightarrow> bool" where
  "wf_book t \<longleftrightarrow>
     distinct (map grp_id (k_groups t)) \<and> distinct (map grp_name (k_groups t))
     \<and> distinct (map cgr_id (k_categories t)) \<and> distinct (map cgr_name (k_categories t))
     \<and> (\<forall>c \<in> set (k_categories t). cgr_group_id c \<in> grp_id ` set (k_groups t))
     \<and> distinct (map fst (k_mappings t)) \<and> (\<forall>m \<in> set (k_mappings t). snd m \<in> cgr_id ` set (k_categories t))
     \<and> distinct (map bud_id (k_budgets t)) \<and> distinct (map budget_key (k_budgets t))
     \<and> (\<forall>b \<in> set (k_budgets t). valid_budget (cgr_id ` set (k_categories t)) b)
     \<and> (\<forall>r \<in> set (k_transactions t). txn_category_id r \<in> cgr_id ` set (k_categories t))"

definition book_over :: "txn_row list \<Rightarrow> book_tables \<Rightarrow> bool" where
  "book_over rs t \<longleftrightarrow> wf_book t \<and> k_transactions t = rs"

lemma wf_bookD:
  assumes "wf_book t"
  shows "distinct (map grp_id (k_groups t))" "distinct (map cgr_id (k_categories t))"
    "\<forall>c \<in> set (k_categories t). cgr_group_id c \<in> grp_id ` set (k_groups t)"
    "distinct (map bud_id (k_budgets t))" "distinct (map budget_key (k_budgets t))"
    "\<forall>b \<in> set (k_budgets t). valid_budget (cgr_id ` set (k_categories t)) b"
    "\<forall>r \<in> set (k_transactions t). txn_category_id r \<in> cgr_id ` set (k_categories t)"
  using assms by (simp_all add: wf_book_def)

lemma distinct_rename:
  "distinct (map key rows) \<Longrightarrow> distinct (map name rows) \<Longrightarrow> (\<And>r. name (f r) = n) \<Longrightarrow>
   \<forall>r \<in> set rows. key r \<noteq> i \<longrightarrow> name r \<noteq> n \<Longrightarrow> distinct (map name (update_rows (\<lambda>r. key r = i) f rows))"
  unfolding update_rows_def map_map distinct_map inj_on_def o_def by metis

lemma keeps_group_row: "keeps (book_over rs) (create_category_group_row name emoji kind)"
  unfolding create_category_group_row_def Let_def
  by (rule keeps_statement) (auto simp: book_over_def wf_book_def split: if_splits)

lemma keeps_update_group: "keeps (book_over rs) (update_category_group_row name emoji ident)"
  unfolding update_category_group_row_def Let_def
proof (rule keeps_statement, goal_cases)
  case (1 t a t')
  let ?f = "\<lambda>g. g\<lparr>grp_name := name, grp_emoji := emoji\<rparr>"
  let ?gs = "update_rows (\<lambda>g. grp_id g = ident) ?f (k_groups t)"
  from 1(2) have t': "t' = t\<lparr>k_groups := ?gs\<rparr>"
    and free: "(\<forall>g \<in> set (k_groups t). grp_id g \<noteq> ident) \<or> (\<forall>g \<in> set (k_groups t). grp_id g \<noteq> ident \<longrightarrow> grp_name g \<noteq> name)"
    by (auto split: if_splits)
  have ids: "map grp_id ?gs = map grp_id (k_groups t)" by (rule map_key_update_rows) simp
  then have grps: "grp_id ` set ?gs = grp_id ` set (k_groups t)" by (metis set_map)
  from free have "distinct (map grp_name ?gs)"
  proof
    assume "\<forall>g \<in> set (k_groups t). grp_id g \<noteq> ident"
    then have "?gs = k_groups t" by (simp add: update_rows_def map_idI)
    with 1(1) show ?thesis by (simp add: book_over_def wf_book_def)
  next
    assume "\<forall>g \<in> set (k_groups t). grp_id g \<noteq> ident \<longrightarrow> grp_name g \<noteq> name"
    with 1(1) show ?thesis by (intro distinct_rename) (auto simp: book_over_def wf_book_def)
  qed
  with 1(1) ids grps show ?case unfolding t' by (simp add: book_over_def wf_book_def)
qed

lemma keeps_delete_group: "keeps (book_over rs) (delete_category_group_row ident)"
  unfolding delete_category_group_row_def Let_def
proof (rule keeps_statement, goal_cases)
  case (1 t a t')
  from 1(2) have t': "t' = t\<lparr>k_groups := delete_rows (\<lambda>g. grp_id g = ident) (k_groups t)\<rparr>"
    and free: "(\<forall>g \<in> set (k_groups t). grp_id g \<noteq> ident) \<or> ident \<notin> cgr_group_id ` set (k_categories t)"
    by (auto split: if_splits)
  from 1(1) free show ?case
    unfolding t' book_over_def wf_book_def by (auto simp: distinct_delete_rows image_iff) metis+
qed

lemma keeps_create_category: "keeps (book_over rs) (create_category_row name emoji group_id)"
  unfolding create_category_row_def Let_def
  by (rule keeps_statement) (auto simp: book_over_def wf_book_def valid_budget_def split: if_splits)

lemma wf_categories:
  assumes "wf_book t" "map cgr_id cs = map cgr_id (k_categories t)" "distinct (map cgr_name cs)"
    and "\<forall>c \<in> set cs. cgr_group_id c \<in> grp_id ` set (k_groups t)"
  shows "wf_book (t\<lparr>k_categories := cs\<rparr>)"
proof -
  from assms(2) have "cgr_id ` set cs = cgr_id ` set (k_categories t)" by (metis set_map)
  with assms show ?thesis by (simp add: wf_book_def)
qed

lemma keeps_category_fields: "keeps (book_over rs) (update_category_fields name emoji group_id ident)"
  unfolding update_category_fields_def Let_def
proof (rule keeps_statement, goal_cases)
  case (1 t a t')
  let ?f = "\<lambda>c. c\<lparr>cgr_name := name, cgr_emoji := emoji, cgr_group_id := group_id\<rparr>"
  let ?cs = "update_rows (\<lambda>c. cgr_id c = ident) ?f (k_categories t)"
  from 1(2) have t': "t' = t\<lparr>k_categories := ?cs\<rparr>"
    and free: "(\<forall>c \<in> set (k_categories t). cgr_id c \<noteq> ident)
      \<or> (\<forall>c \<in> set (k_categories t). cgr_id c \<noteq> ident \<longrightarrow> cgr_name c \<noteq> name) \<and> group_id \<in> grp_id ` set (k_groups t)"
    by (auto split: if_splits)
  have "wf_book (t\<lparr>k_categories := ?cs\<rparr>)"
    using free
  proof
    assume "\<forall>c \<in> set (k_categories t). cgr_id c \<noteq> ident"
    then have "?cs = k_categories t" by (simp add: update_rows_def map_idI)
    with 1(1) show ?thesis by (simp add: book_over_def)
  next
    assume free: "(\<forall>c \<in> set (k_categories t). cgr_id c \<noteq> ident \<longrightarrow> cgr_name c \<noteq> name)
      \<and> group_id \<in> grp_id ` set (k_groups t)"
    show ?thesis
    proof (rule wf_categories)
      show "distinct (map cgr_name ?cs)"
        using 1(1) free by (intro distinct_rename) (auto simp: book_over_def wf_book_def)
      show "map cgr_id ?cs = map cgr_id (k_categories t)" by (rule map_key_update_rows) simp
    qed (use 1(1) free in \<open>auto simp: book_over_def wf_book_def set_update_rows\<close>)
  qed
  with 1(1) show ?case by (simp add: t' book_over_def)
qed

lemma keeps_sort_order: "keeps (book_over rs) (update_category_sort_order order ident group_id)"
  unfolding update_category_sort_order_def
proof (rule keeps_exec, goal_cases)
  case (1 t)
  let ?cs = "update_rows (\<lambda>c. cgr_id c = ident \<and> cgr_group_id c = group_id) (\<lambda>c. c\<lparr>cgr_sort_order := order\<rparr>) (k_categories t)"
  have "wf_book (t\<lparr>k_categories := ?cs\<rparr>)"
  proof (rule wf_categories)
    show "map cgr_id ?cs = map cgr_id (k_categories t)" by (rule map_key_update_rows) simp
    have "map cgr_name ?cs = map cgr_name (k_categories t)" by (rule map_key_update_rows) simp
    with 1 show "distinct (map cgr_name ?cs)" by (simp add: book_over_def wf_book_def)
  qed (use 1 in \<open>auto simp: book_over_def wf_book_def set_update_rows\<close>)
  with 1 show ?case by (simp add: book_over_def)
qed

lemma keeps_delete_category: "keeps (book_over rs) (delete_category_row ident)"
  unfolding delete_category_row_def
proof (rule keeps_statement, goal_cases)
  case (1 t a t')
  have "wf_book t'"
  proof (cases "ident \<in> cgr_id ` set (k_categories t)")
    case True
    with 1(2) have t': "t' = t\<lparr>k_categories := delete_rows (\<lambda>c. cgr_id c = ident) (k_categories t),
         k_mappings := delete_rows (\<lambda>(code, i). i = ident) (k_mappings t),
         k_budgets := delete_rows (\<lambda>b. bud_category_id b = ident) (k_budgets t),
         k_rules := delete_rows (\<lambda>(rule, i). i = Some ident) (k_rules t)\<rparr>"
      and unused: "ident \<notin> txn_category_id ` set (k_transactions t)"
      by (auto split: if_splits)
    have left: "cgr_id ` {c \<in> set (k_categories t). cgr_id c \<noteq> ident} = cgr_id ` set (k_categories t) - {ident}" by auto
    from 1(1) unused show ?thesis
      unfolding t' book_over_def wf_book_def
      by (simp add: distinct_delete_rows left valid_budget_def case_prod_unfold) force
  qed (use 1 in \<open>auto simp: book_over_def split: if_splits\<close>)
  with 1 show ?case by (auto simp: book_over_def split: if_splits)
qed

lemma wf_mappings:
  "wf_book t \<Longrightarrow> distinct (map fst ms) \<Longrightarrow> \<forall>m \<in> set ms. snd m \<in> cgr_id ` set (k_categories t) \<Longrightarrow>
   wf_book (t\<lparr>k_mappings := ms\<rparr>)"
  by (simp add: wf_book_def)

lemma wf_bookD_mappings:
  "wf_book t \<Longrightarrow> distinct (map fst (k_mappings t)) \<and> (\<forall>m \<in> set (k_mappings t). snd m \<in> cgr_id ` set (k_categories t))"
  by (simp add: wf_book_def)

lemma keeps_mappings:
  "keeps (book_over rs) (delete_category_plaid_mappings category_id)"
  "keeps (book_over rs) (upsert_category_plaid_mapping code category_id)"
proof -
  show "keeps (book_over rs) (delete_category_plaid_mappings category_id)"
    unfolding delete_category_plaid_mappings_def
    by (rule keeps_exec, frule wf_bookD_mappings [OF conjunct1 [OF book_over_def [THEN iffD1]]])
      (simp add: book_over_def distinct_delete_rows wf_mappings)
  show "keeps (book_over rs) (upsert_category_plaid_mapping code category_id)"
    unfolding upsert_category_plaid_mapping_def
  proof (rule keeps_statement, goal_cases)
    case (1 t a t')
    let ?ms = "if code \<in> fst ` set (k_mappings t)
        then update_rows (\<lambda>m. fst m = code) (\<lambda>m. (code, category_id)) (k_mappings t)
        else k_mappings t @ [(code, category_id)]"
    from 1(2) have t': "t' = t\<lparr>k_mappings := ?ms\<rparr>" and cat: "category_id \<in> cgr_id ` set (k_categories t)"
      by (simp_all split: if_splits)
    have "map fst (update_rows (\<lambda>m. fst m = code) (\<lambda>m. (code, category_id)) ms) = map fst ms" for ms
      by (simp add: update_rows_def)
    with 1(1) have "distinct (map fst ?ms)" by (auto simp: book_over_def dest: wf_bookD_mappings)
    moreover have "\<forall>m \<in> set ?ms. snd m \<in> cgr_id ` set (k_categories t)"
    proof
      fix m
      assume "m \<in> set ?ms"
      then have "m \<in> set (k_mappings t) \<or> m = (code, category_id)"
        by (auto simp: set_update_rows split: if_splits)
      then show "snd m \<in> cgr_id ` set (k_categories t)"
        using wf_bookD_mappings [of t] 1(1) cat by (auto simp: book_over_def)
    qed
    ultimately have "wf_book (t\<lparr>k_mappings := ?ms\<rparr>)"
      using 1(1) by (intro wf_mappings) (simp_all add: book_over_def)
    with 1(1) show ?case unfolding t' by (simp add: book_over_def)
  qed
qed

section \<open>Budgets\<close>

lemma wf_budgets:
  "wf_book t \<Longrightarrow> distinct (map bud_id bs) \<Longrightarrow> distinct (map budget_key bs) \<Longrightarrow>
   \<forall>b \<in> set bs. valid_budget (cgr_id ` set (k_categories t)) b \<Longrightarrow> wf_book (t\<lparr>k_budgets := bs\<rparr>)"
  by (simp add: wf_book_def)

lemma wf_budget_added:
  "wf_book t \<Longrightarrow> valid_budget (cgr_id ` set (k_categories t)) b \<Longrightarrow> bud_id b \<notin> bud_id ` set (k_budgets t) \<Longrightarrow>
   budget_key b \<notin> budget_key ` set (k_budgets t) \<Longrightarrow> wf_book (t\<lparr>k_budgets := k_budgets t @ [b]\<rparr>)"
  by (rule wf_budgets) (simp_all add: wf_bookD)

lemma keeps_upsert_budget:
  assumes "valid_month month" "0 \<le> sint amount"
  shows "keeps (book_over rs) (upsert_budget month category_id amount)"
  unfolding upsert_budget_def
proof (rule keeps_statement, goal_cases)
  case (1 t a t')
  show ?case
  proof (cases "find (\<lambda>b. budget_key b = (category_id, month)) (k_budgets t)")
    case None
    then have "(category_id, month) \<notin> budget_key ` set (k_budgets t)" by (auto simp: find_None_iff)
    with 1 None assms show ?thesis
      by (auto simp: book_over_def Let_def valid_budget_def budget_key_def intro!: wf_budget_added split: if_splits)
  next
    case (Some b)
    let ?bs = "update_rows (\<lambda>x. bud_id x = bud_id b) (\<lambda>x. x\<lparr>bud_amount_cents := amount\<rparr>) (k_budgets t)"
    from 1(2) Some have t': "t' = t\<lparr>k_budgets := ?bs\<rparr>" by (auto split: if_splits)
    have "map bud_id ?bs = map bud_id (k_budgets t)" "map budget_key ?bs = map budget_key (k_budgets t)"
      by (rule map_key_update_rows, simp add: budget_key_def)+
    moreover have "\<forall>x \<in> set ?bs. valid_budget (cgr_id ` set (k_categories t)) x"
      using wf_bookD(6) [of t] 1(1) assms(2) by (auto simp: book_over_def set_update_rows valid_budget_def)
    ultimately show ?thesis
      using 1(1) by (simp add: t' book_over_def wf_bookD wf_budgets)
  qed
qed

lemma keeps_delete_budget: "keeps (book_over rs) (delete_budget_row ident)"
  unfolding delete_budget_row_def
  by (rule keeps_exec_rows) (auto simp: book_over_def distinct_delete_rows wf_bookD intro!: wf_budgets)

lemma copy_rows_inv:
  assumes "distinct (map bud_id rows)" "distinct (map budget_key rows)" "\<forall>b \<in> set rows. valid_budget cats b"
    and "\<forall>b \<in> set bs. valid_budget cats b" "valid_month month"
  shows "distinct (map bud_id (copy_rows month rows bs)) \<and> distinct (map budget_key (copy_rows month rows bs))
     \<and> (\<forall>b \<in> set (copy_rows month rows bs). valid_budget cats b)"
  using assms
proof (induction bs arbitrary: rows)
  case (Cons b bs)
  show ?case
  proof (cases "(bud_category_id b, month) \<in> budget_key ` set rows")
    case True
    then show ?thesis using Cons by simp
  next
    case False
    have "distinct (map bud_id (copy_rows month (rows @ [b\<lparr>bud_id := next_id (map bud_id rows), bud_month := month\<rparr>]) bs))
       \<and> distinct (map budget_key (copy_rows month (rows @ [b\<lparr>bud_id := next_id (map bud_id rows), bud_month := month\<rparr>]) bs))
       \<and> (\<forall>b \<in> set (copy_rows month (rows @ [b\<lparr>bud_id := next_id (map bud_id rows), bud_month := month\<rparr>]) bs). valid_budget cats b)"
      using Cons.prems False
      by (intro Cons.IH) (auto simp: budget_key_def valid_budget_def)
    with False show ?thesis by simp
  qed
qed simp

lemma keeps_copy_budgets: "valid_month to_month \<Longrightarrow> keeps (book_over rs) (copy_budget_rows from_month to_month)"
  unfolding copy_budget_rows_def Let_def
proof (rule keeps_exec_rows, goal_cases)
  case (1 t)
  then show ?case
    using copy_rows_inv [of "k_budgets t" "cgr_id ` set (k_categories t)" "filter (\<lambda>b. bud_month b = from_month) (k_budgets t)"
        to_month]
    by (auto simp: book_over_def wf_bookD intro!: wf_budgets dest: wf_bookD(6))
qed

section \<open>Operations\<close>

lemmas keeps_book = keeps_group_row keeps_update_group keeps_delete_group keeps_create_category keeps_category_fields
  keeps_sort_order keeps_delete_category keeps_mappings keeps_delete_budget

lemma keeps_book_reads [guarantee_rules]:
  "keeps I (rows_of_categories ids gid expense_only order)" "keeps I (category_group_row i)"
  "keeps I (count_categories_by_group i)" "keeps I (category_info i)" "keeps I (pfc2_mapped_category_name code i)"
  "keeps I (budget_rows_in_range s e)" "keeps I (spending_transactions p)"
  unfolding rows_of_categories_def category_group_row_def count_categories_by_group_def category_info_def
    pfc2_mapped_category_name_def budget_rows_in_range_def spending_transactions_def
  by (rule keeps_select)+

lemma keeps_full [guarantee_rules]:
  "keeps I (full_group i)" "keeps I (full_category i)" "keeps I (ensure_group i)" "keeps I (book_category_by_id i)"
  unfolding full_group_def full_category_def ensure_group_def category_group_by_id_def book_category_by_id_def
  by (intro guarantee_rules)+

lemma keeps_codes:
  "keeps I (check_codes x i codes)" "keeps (book_over rs) (map_codes i codes)"
  by (induction codes) (simp_all, (intro guarantee_rules keeps_book | assumption)+)

lemma keeps_reorder: "keeps (book_over rs) (reorder_from order i ids)"
  by (induction ids arbitrary: order) (simp_all, (intro guarantee_rules keeps_book | assumption)+)

lemma try_bind_simps: "try_bind (err e) f = err e" "try_bind (ok a) f = f a"
  by (simp_all add: try_bind_def err_def ok_def)

lemma keeps_if_ok:
  "(\<And>a. r = Inr a \<Longrightarrow> keeps I (f a)) \<Longrightarrow> keeps I (try_bind (of_result r) f)"
  by (cases r) (simp_all add: of_result_def try_bind_simps kept.guarantees_err)

lemma keeps_if_ensured:
  "(b \<Longrightarrow> keeps I (f ())) \<Longrightarrow> keeps I (try_bind (ensure b m) f)"
  by (cases b) (simp_all add: ensure_def try_bind_simps kept.guarantees_err)

datatype book_op =
    Create_Group string string category_kind
  | Update_Group int string string
  | Delete_Group int
  | Create_Category string string int
  | Update_Category int string string int "string list option"
  | Delete_Category int
  | Reorder_Categories int "int list"
  | Set_Budget string string cents
  | Delete_Budget string
  | Copy_Budgets string string

definition forget :: "('t, 'a) fallible \<Rightarrow> ('t, unit) fallible" where
  "forget m = try_bind m (\<lambda>_. ok ())"

fun run_book :: "base64 \<Rightarrow> pfc2 \<Rightarrow> (string \<Rightarrow> string) \<Rightarrow> book_op \<Rightarrow> unit book_db" where
  "run_book x p dbg (Create_Group name emoji kind) = forget (create_category_group name emoji kind)"
| "run_book x p dbg (Update_Group i name emoji) = forget (update_category_group i name emoji)"
| "run_book x p dbg (Delete_Group i) = forget (delete_category_group i)"
| "run_book x p dbg (Create_Category name emoji gid) = forget (create_category name emoji gid)"
| "run_book x p dbg (Update_Category i name emoji gid codes) = forget (update_category p i name emoji gid codes)"
| "run_book x p dbg (Delete_Category i) = forget (delete_category i)"
| "run_book x p dbg (Reorder_Categories i is) = forget (reorder_categories i is)"
| "run_book x p dbg (Set_Budget month category amount) = forget (set_budget x dbg month category amount)"
| "run_book x p dbg (Delete_Budget i) = forget (delete_budget x i)"
| "run_book x p dbg (Copy_Budgets from_month to_month) = forget (copy_budgets dbg from_month to_month)"

text \<open>The operations that reach the tables, in any order.\<close>

fun run_books :: "base64 \<Rightarrow> pfc2 \<Rightarrow> (string \<Rightarrow> string) \<Rightarrow> book_op list \<Rightarrow> book_tables world \<Rightarrow> book_tables world" where
  "run_books x p dbg [] w = w"
| "run_books x p dbg (b # bs) w = run_books x p dbg bs (snd (run_state (run_book x p dbg b) w))"

lemma keeps_forget: "keeps I m \<Longrightarrow> keeps I (forget m)"
  unfolding forget_def by (intro guarantee_rules)

lemma keeps_set_budget: "keeps (book_over rs) (set_budget x dbg month category amount)"
  unfolding set_budget_def
  by (intro keeps_if_ok keeps_if_ensured)
    (auto intro!: guarantee_rules keeps_upsert_budget dest: valid_monthI)

lemma keeps_copy: "keeps (book_over rs) (copy_budgets dbg from_month to_month)"
  unfolding copy_budgets_def
  by (intro keeps_if_ok keeps_if_ensured guarantee_rules keeps_copy_budgets)
    (auto simp: labelled_def intro: valid_monthI split: sum.splits error.splits)

lemma keeps_run_book: "keeps (book_over rs) (run_book x p dbg b)"
proof (cases b)
  case (Update_Category i name emoji gid codes)
  then show ?thesis
    by (auto simp: update_category_def replace_pfc2_mappings_def intro!: keeps_forget guarantee_rules keeps_book keeps_codes
        split: option.splits)
qed (auto simp: create_category_group_def update_category_group_def delete_category_group_def create_category_def
    delete_category_def reorder_categories_def delete_budget_def
    intro!: keeps_forget guarantee_rules keeps_book keeps_reorder keeps_set_budget keeps_copy)

text \<open>Whatever is done to the categories, their groups, the Plaid codes of the categories and the budgets,
  in whatever order and with whatever failures, the books stay well formed: ids and names are unique, every
  category has its group, every Plaid code at most one category, every transaction and budget its category,
  a category has at most one budget for a month, with a valid month and no negative amount; and the
  transactions are not touched.\<close>

theorem books_stay_well_formed:
  assumes "wf_book (w_tables w)"
  shows "wf_book (w_tables (run_books x p dbg ops w))
    \<and> k_transactions (w_tables (run_books x p dbg ops w)) = k_transactions (w_tables w)"
proof -
  have "book_over rs (w_tables w) \<Longrightarrow> book_over rs (w_tables (run_books x p dbg ops w))" for rs
  proof (induction ops arbitrary: w)
    case (Cons b ops)
    have "book_over rs (w_tables (snd (run_state (run_book x p dbg b) w)))"
      using keepsD [OF keeps_run_book prod.collapse [symmetric] Cons.prems] .
    then show ?case using Cons.IH by simp
  qed simp
  with assms show ?thesis by (simp add: book_over_def)
qed

end
