(* ===== verification/Report_Laws.thy ===== *)
theory Report_Laws
  imports Book_Laws
begin

text \<open>What the cash flow and the spending report say of the transactions.\<close>

section \<open>Every transaction has one category\<close>

lemma category_rows_ids:
  assumes "wf_book t"
  shows "map ctg_id (category_rows t) = map cgr_id (k_categories t)"
proof -
  have one: "\<exists>g. filter (\<lambda>g. grp_id g = i) gs = [g]" if "distinct (map grp_id gs)" "i \<in> grp_id ` set gs" for i gs
    using that by (induction gs) (auto simp: filter_empty_conv image_iff)
  have "map ctg_id (concat (map (\<lambda>c. map (category_from_row t c) (filter (\<lambda>g. grp_id g = cgr_group_id c) (k_groups t))) cs))
      = map cgr_id cs" if "\<forall>c \<in> set cs. cgr_group_id c \<in> grp_id ` set (k_groups t)" for cs
    using that
  proof (induction cs)
    case (Cons c cs)
    from one [OF wf_bookD(1) [OF assms], of "cgr_group_id c"] Cons.prems
    obtain g where "filter (\<lambda>g. grp_id g = cgr_group_id c) (k_groups t) = [g]" by auto
    with Cons show ?case by (simp add: category_from_row_def)
  qed simp
  with wf_bookD(3) [OF assms] show ?thesis by (simp add: category_rows_def)
qed

lemma distinct_category_rows: "wf_book t \<Longrightarrow> distinct (map ctg_id (category_rows t))"
  by (simp add: category_rows_ids wf_bookD)

definition category_of :: "book_tables \<Rightarrow> int \<Rightarrow> category option" where
  "category_of t i = find (\<lambda>c. ctg_id c = i) (category_rows t)"

lemma category_ofI: "wf_book t \<Longrightarrow> c \<in> set (category_rows t) \<Longrightarrow> category_of t (ctg_id c) = Some c"
  unfolding category_of_def by (rule find_unique [OF distinct_category_rows]) auto

lemma spending_list_category:
  assumes "wf_book t" "b \<in> set (spending_list t p)"
  shows "category_of t (ctg_id (snd b)) = Some (snd b)" "snd b \<in> set (category_rows t)" "spending_match t p b"
    "fst b \<in> set (k_transactions t)" "ctg_id (snd b) = txn_category_id (fst b)"
proof -
  show c: "snd b \<in> set (category_rows t)" and "spending_match t p b" "fst b \<in> set (k_transactions t)"
    "ctg_id (snd b) = txn_category_id (fst b)"
    using assms(2) by (auto simp: spending_list_def categorized_rows_def)
  show "category_of t (ctg_id (snd b)) = Some (snd b)" by (rule category_ofI [OF assms(1) c])
qed

section \<open>Cash flow\<close>

definition spent_in :: "calendar \<Rightarrow> granularity option \<Rightarrow> (txn_row \<times> category) list \<Rightarrow> category_kind \<Rightarrow> string \<Rightarrow> cents" where
  "spent_in y granularity rows kind label =
     sum_by (\<lambda>(r, c). txn_amount_cents r) (\<lambda>(r, c). ctg_kind c = kind \<and> label_at y granularity r = label) rows"

definition flow_key :: "cash_flow_period \<Rightarrow> string" where
  "flow_key q = per_label (cfp_period q)"

definition new_flow :: "spending_row \<Rightarrow> cash_flow_period" where
  "new_flow a = \<lparr>cfp_period = spr_period a, cfp_income = 0, cfp_expenses = 0, cfp_savings = 0, cfp_savings_rate = 0,
     cfp_income_by_category = [], cfp_expenses_by_category = []\<rparr>"

definition is_income :: "spending_row \<Rightarrow> bool" where
  "is_income a \<longleftrightarrow> ctg_kind (the (spr_category a)) = Income"

definition add_flow :: "spending_row \<Rightarrow> cash_flow_period \<Rightarrow> cash_flow_period" where
  "add_flow a q =
     (let amount = (if is_income a then - spr_total_amount a else spr_total_amount a);
          b = \<lparr>brk_category = the (spr_category a), brk_total = amount,
            brk_transaction_count = of_nat (spr_transaction_count a), brk_percent_of_total = 0\<rparr>
      in if is_income a
         then q\<lparr>cfp_income := cfp_income q + amount, cfp_income_by_category := cfp_income_by_category q @ [b]\<rparr>
         else q\<lparr>cfp_expenses := cfp_expenses q + amount, cfp_expenses_by_category := cfp_expenses_by_category q @ [b]\<rparr>)"

definition row_label :: "spending_row \<Rightarrow> string" where
  "row_label a = per_label (spr_period a)"

interpretation flow_income: accumulation flow_key row_label new_flow add_flow "\<lambda>_. True" cfp_income
    "\<lambda>a. if is_income a then - spr_total_amount a else 0"
  by unfold_locales (simp_all add: flow_key_def row_label_def new_flow_def add_flow_def Let_def)

interpretation flow_expenses: accumulation flow_key row_label new_flow add_flow "\<lambda>_. True" cfp_expenses
    "\<lambda>a. if is_income a then 0 else spr_total_amount a"
  by unfold_locales (simp_all add: flow_key_def row_label_def new_flow_def add_flow_def Let_def)

lemma cash_flow_fold:
  "\<forall>a \<in> set as. spr_category a \<noteq> None \<Longrightarrow> foldl add_cash_flow qs as =
     foldl (\<lambda>qs a. update_or_push (\<lambda>q. flow_key q = row_label a) (new_flow a) (add_flow a) qs) qs as"
proof (induction as arbitrary: qs)
  case (Cons a as)
  have "add_cash_flow qs a = update_or_push (\<lambda>q. flow_key q = row_label a) (new_flow a) (add_flow a) qs"
    using Cons.prems by (auto simp: add_cash_flow_def flow_key_def row_label_def new_flow_def add_flow_def [abs_def]
        is_income_def Let_def)
  with Cons show ?case by simp
qed simp

text \<open>The sum over the rows of a period and of the categories of a kind is the sum over the transactions.\<close>

lemma kind_sum:
  assumes "wf_book t" "rows = spending_list t p"
  shows "sum_by spr_total_amount (\<lambda>a. R (row_label a) \<and> is_income a = i) (aggregate_rows y rows granularity True) =
    sum_by (\<lambda>(r, c). txn_amount_cents r) (\<lambda>(r, c). R (label_at y granularity r) \<and> (ctg_kind c = Income) = i) rows"
proof -
  let ?I = "\<lambda>j. \<exists>c. category_of t j = Some c \<and> ctg_kind c = Income"
  let ?R = "\<lambda>(label, j). R label \<and> ?I (the j) = i"
  have "is_income a \<longleftrightarrow> ?I (the (map_option ctg_id (spr_category a)))" if "a \<in> set (aggregate_rows y rows granularity True)" for a
    using aggregate_category [OF that] spending_list_category(1) [OF assms(1)] by (auto simp: is_income_def assms(2))
  then have "sum_by spr_total_amount (\<lambda>a. R (row_label a) \<and> is_income a = i) (aggregate_rows y rows granularity True) =
      sum_by spr_total_amount (\<lambda>a. ?R (row_key a)) (aggregate_rows y rows granularity True)"
    by (intro sum_by_cong) (auto simp: row_key_def row_label_def)
  also have "\<dots> = sum_by (\<lambda>(r, c). txn_amount_cents r) (\<lambda>b. ?R ((\<lambda>(r, c). (label_at y granularity r, Some (ctg_id c))) b)) rows"
    by (rule aggregate_sum)
  also have "\<dots> = sum_by (\<lambda>(r, c). txn_amount_cents r) (\<lambda>(r, c). R (label_at y granularity r) \<and> (ctg_kind c = Income) = i) rows"
    using spending_list_category(1) [OF assms(1)] by (intro sum_by_cong) (auto simp: assms(2))
  finally show ?thesis .
qed

lemma spending_kinds:
  assumes "b \<in> set (spending_list t p)"
  shows "ctg_kind (snd b) \<noteq> Transfer"
  using assms by (auto simp: spending_list_def spending_match_def)

lemma kind_sums:
  assumes "wf_book t" "rows = spending_list t p"
  shows "sum_by (\<lambda>a. if is_income a then - spr_total_amount a else 0) (\<lambda>a. row_label a = label)
      (aggregate_rows y rows granularity True) = - spent_in y granularity rows Income label"
    and "sum_by (\<lambda>a. if is_income a then 0 else spr_total_amount a) (\<lambda>a. row_label a = label)
      (aggregate_rows y rows granularity True) = spent_in y granularity rows Expense label"
proof -
  have "sum_by (\<lambda>a. if is_income a then - spr_total_amount a else 0) (\<lambda>a. row_label a = label)
      (aggregate_rows y rows granularity True) =
      - sum_by spr_total_amount (\<lambda>a. row_label a = label \<and> is_income a = True) (aggregate_rows y rows granularity True)"
    by (simp only: sum_by_guard sum_by_uminus) simp
  also have "\<dots> = - spent_in y granularity rows Income label"
    unfolding kind_sum [OF assms, of "\<lambda>l. l = label"] spent_in_def by (intro arg_cong [where f = uminus] sum_by_cong) auto
  finally show "sum_by (\<lambda>a. if is_income a then - spr_total_amount a else 0) (\<lambda>a. row_label a = label)
      (aggregate_rows y rows granularity True) = - spent_in y granularity rows Income label" .
  have "sum_by (\<lambda>a. if is_income a then 0 else spr_total_amount a) (\<lambda>a. row_label a = label)
      (aggregate_rows y rows granularity True) =
      sum_by (\<lambda>a. if \<not> is_income a then spr_total_amount a else 0) (\<lambda>a. row_label a = label)
      (aggregate_rows y rows granularity True)"
    by (rule sum_by_cong) simp_all
  also have "\<dots> = sum_by spr_total_amount (\<lambda>a. row_label a = label \<and> is_income a = False) (aggregate_rows y rows granularity True)"
    by (simp add: sum_by_guard)
  also have "\<dots> = spent_in y granularity rows Expense label"
    unfolding kind_sum [OF assms, of "\<lambda>l. l = label"] spent_in_def
  proof (rule sum_by_cong)
    fix b assume "b \<in> set rows"
    then have "ctg_kind (snd b) \<noteq> Transfer" using spending_kinds assms(2) by blast
    then show "(case b of (r, c) \<Rightarrow> label_at y granularity r = label \<and> (ctg_kind c = Income) = False) \<longleftrightarrow>
        (case b of (r, c) \<Rightarrow> ctg_kind c = Expense \<and> label_at y granularity r = label)"
      by (cases b, cases "ctg_kind (snd b)") auto
  qed simp
  finally show "sum_by (\<lambda>a. if is_income a then 0 else spr_total_amount a) (\<lambda>a. row_label a = label)
      (aggregate_rows y rows granularity True) = spent_in y granularity rows Expense label" .
qed

lemma wp_spending_rows:
  assumes "\<And>e w'. w_tables w' = w_tables w \<Longrightarrow> Q (Inl e) w'"
    and "\<And>p w'. spending_params_of x f exclude = Inr p \<Longrightarrow>
      validate_period_count y p (spf_granularity f) = Inr () \<Longrightarrow> w_tables w' = w_tables w \<Longrightarrow>
      Q (Inr (aggregate_rows y (spending_list (w_tables w) p) (spf_granularity f) by_category)) w'"
  shows "wp (spending_rows x y f by_category exclude) Q w"
proof (cases "spending_params_of x f exclude")
  case (Inr p)
  show ?thesis
  proof (cases "validate_period_count y p (spf_granularity f)")
    case (Inr u)
    with \<open>spending_params_of x f exclude = Inr p\<close> show ?thesis
      by (auto simp: spending_rows_def wp_rules spending_transactions_def intro!: assms)
  qed (use Inr in \<open>simp add: spending_rows_def wp_rules assms\<close>)
qed (simp add: spending_rows_def wp_rules assms)

lemma finalize_simps [simp]:
  "cfp_period (finalize_period y q) = cfp_period q" "cfp_income (finalize_period y q) = cfp_income q"
  "cfp_expenses (finalize_period y q) = cfp_expenses q"
  "cfp_savings (finalize_period y q) = cfp_income q - cfp_expenses q"
  by (simp_all add: finalize_period_def Let_def)

lemma cash_flow_periods:
  assumes "wf_book t" "rows = spending_list t p"
    and "qs = foldl add_cash_flow [] (aggregate_rows y rows g True)"
  shows "distinct (map flow_key qs)" "flow_key ` set qs = (\<lambda>(r, c). label_at y g r) ` set rows"
    "q \<in> set qs \<Longrightarrow> cfp_income q = - spent_in y g rows Income (flow_key q)"
    "q \<in> set qs \<Longrightarrow> cfp_expenses q = spent_in y g rows Expense (flow_key q)"
proof -
  let ?as = "aggregate_rows y rows g True"
  have fold: "qs = foldl (\<lambda>qs a. update_or_push (\<lambda>q. flow_key q = row_label a) (new_flow a) (add_flow a) qs) [] ?as"
    unfolding assms(3) by (rule cash_flow_fold) (use aggregate_category in fastforce)
  show "distinct (map flow_key qs)" unfolding fold by (rule flow_income.distinct_fold) simp
  have "flow_key ` set qs = row_label ` set ?as" unfolding fold flow_income.keys_fold by simp
  also have "\<dots> = fst ` row_key ` set ?as" by (simp add: image_image row_label_def row_key_def)
  also have "\<dots> = (\<lambda>(r, c). label_at y g r) ` set rows"
    unfolding aggregate_keys image_image by (rule image_cong) auto
  finally show "flow_key ` set qs = (\<lambda>(r, c). label_at y g r) ` set rows" .
  show "cfp_income q = - spent_in y g rows Income (flow_key q)" if "q \<in> set qs"
    using flow_income.value_fold [OF that [unfolded fold]] kind_sums(1) [OF assms(1,2)] by simp
  show "cfp_expenses q = spent_in y g rows Expense (flow_key q)" if "q \<in> set qs"
    using flow_expenses.value_fold [OF that [unfolded fold]] kind_sums(2) [OF assms(1,2)] by simp
qed

text \<open>The cash flow report has one entry for each period in which there were transactions, and loses no
  transaction: the income of a period is what the visible, categorized income transactions of the filter
  brought in that period, the expenses are what the expense transactions cost, and the savings are the
  difference. Transfers are left out, and nothing is written.\<close>

theorem cash_flow_exact:
  assumes "wf_book (w_tables w)"
    and "run_state (cash_flow x y f) w = (Inr qs, w')"
  shows "\<exists>p. spending_params_of x f False = Inr p
    \<and> (let rows = spending_list (w_tables w) p; g = spf_granularity f
       in distinct (map (\<lambda>q. per_label (cfp_period q)) qs)
          \<and> (\<lambda>q. per_label (cfp_period q)) ` set qs = (\<lambda>(r, c). label_at y g r) ` set rows
          \<and> (\<forall>q \<in> set qs.
               cfp_income q = - spent_in y g rows Income (per_label (cfp_period q))
               \<and> cfp_expenses q = spent_in y g rows Expense (per_label (cfp_period q))
               \<and> cfp_savings q = cfp_income q - cfp_expenses q))
    \<and> w_tables w' = w_tables w"
proof -
  have "wp (cash_flow x y f) (\<lambda>r w'. \<forall>qs. r = Inr qs \<longrightarrow> (\<exists>p. spending_params_of x f False = Inr p
      \<and> qs = map (finalize_period y)
          (foldl add_cash_flow [] (aggregate_rows y (spending_list (w_tables w) p) (spf_granularity f) True))
      \<and> w_tables w' = w_tables w)) w"
    unfolding cash_flow_def wp_try_bind by (rule wp_spending_rows) (simp_all add: wp_ok)
  from wp_run [OF assms(2) this] obtain p where p: "spending_params_of x f False = Inr p" "w_tables w' = w_tables w"
    "qs = map (finalize_period y)
      (foldl add_cash_flow [] (aggregate_rows y (spending_list (w_tables w) p) (spf_granularity f) True))"
    by blast
  note periods = cash_flow_periods [OF assms(1) refl refl, where y = y and p = p and g = "spf_granularity f", unfolded flow_key_def]
  show ?thesis
    using p(1,2) periods unfolding p(3) by (auto simp: Let_def o_def image_image)
qed

end
