(* ===== verification/Category_Report_Laws.thy ===== *)
theory Category_Report_Laws
  imports Report_Laws
begin

text \<open>What the report of the spending by category says of the transactions.\<close>

definition sum_label :: "period_sum \<Rightarrow> string" where
  "sum_label q = per_label (psm_period q)"

definition in_period :: "calendar \<Rightarrow> granularity option \<Rightarrow> txn_row \<Rightarrow> period_sum \<Rightarrow> bool" where
  "in_period y granularity r = (case granularity of
     None \<Rightarrow> (\<lambda>s. False) | Some g \<Rightarrow> (\<lambda>s. sum_label s = per_label (period_for y (of_timestamp (txn_datetime r)) g)))"

lemma update_first_map: "(\<And>a. h (f a) = h a) \<Longrightarrow> map h (update_first P f xs) = map h xs"
  by (induction xs) auto

lemma update_last_map: "(\<And>a. h (f a) = h a) \<Longrightarrow> map h (update_last P f xs) = map h xs"
  by (simp add: update_last_def update_first_map flip: rev_map)

lemma sum_update_first:
  assumes "\<And>a. h (f a) = h a" "\<And>a. val (f a) = val a + v"
  shows "sum_by val (\<lambda>a. R (h a)) (update_first (\<lambda>a. h a = l) f xs) =
    sum_by val (\<lambda>a. R (h a)) xs + (if R l \<and> l \<in> h ` set xs then v else (0 :: 'm::comm_monoid_add))"
  by (induction xs) (auto simp: assms ac_simps)

lemma sum_by_rev: "sum_by f P (rev xs) = sum_by f P xs"
  by (rule sum_by_mset) simp

lemma sum_update_last:
  assumes "\<And>a. h (f a) = h a" "\<And>a. val (f a) = val a + v"
  shows "sum_by val (\<lambda>a. R (h a)) (update_last (\<lambda>a. h a = l) f xs) =
    sum_by val (\<lambda>a. R (h a)) xs + (if R l \<and> l \<in> h ` set xs then v else (0 :: 'm::comm_monoid_add))"
  unfolding update_last_def sum_by_rev using sum_update_first [of h f val v R l "rev xs"] assms by (simp add: sum_by_rev)

lemma update_none: "update_first (\<lambda>_. False) f xs = xs" "update_last (\<lambda>_. False) f xs = xs"
proof -
  show none: "update_first (\<lambda>_. False) f xs = xs" for xs :: "'a list" and f by (induction xs) auto
  show "update_last (\<lambda>_. False) f xs = xs" by (simp add: update_last_def none)
qed

lemma add_to_sum_simps [simp]:
  "sum_label (add_to_sum v q) = sum_label q" "psm_period (add_to_sum v q) = psm_period q"
  "psm_total_amount (add_to_sum v q) = psm_total_amount q + v" "sum_label (no_sum p) = per_label p"
  "psm_total_amount (no_sum p) = 0" "psm_period (no_sum p) = p"
  by (simp_all add: sum_label_def add_to_sum_def no_sum_def)

section \<open>Categories\<close>

definition new_sum :: "period list \<Rightarrow> txn_row \<times> category \<Rightarrow> category_sum" where
  "new_sum ps b = \<lparr>csm_category = snd b, csm_total_amount = 0, csm_transaction_count = 0, csm_percent_of_total = 0,
     csm_periods = map no_sum ps\<rparr>"

definition add_sum :: "calendar \<Rightarrow> granularity option \<Rightarrow> txn_row \<times> category \<Rightarrow> category_sum \<Rightarrow> category_sum" where
  "add_sum y granularity b s =
     s\<lparr>csm_total_amount := csm_total_amount s + txn_amount_cents (fst b),
       csm_transaction_count := csm_transaction_count s + 1,
       csm_periods := update_first (in_period y granularity (fst b)) (add_to_sum (txn_amount_cents (fst b))) (csm_periods s)\<rparr>"

definition sum_id :: "category_sum \<Rightarrow> int" where
  "sum_id s = ctg_id (csm_category s)"

interpretation cat_total: accumulation sum_id "\<lambda>b. ctg_id (snd b)" "new_sum ps" "add_sum y granularity" "\<lambda>_. True"
    csm_total_amount "\<lambda>b. txn_amount_cents (fst b)" for ps y granularity
  by unfold_locales (simp_all add: sum_id_def new_sum_def add_sum_def)

lemma in_period_update:
  "map psm_period (update_first (in_period y granularity r) (add_to_sum v) qs) = map psm_period qs"
  "sum_by psm_total_amount (\<lambda>q. sum_label q = l) (update_first (in_period y (Some g) r) (add_to_sum v) qs) =
     sum_by psm_total_amount (\<lambda>q. sum_label q = l) qs
       + (if label_at y (Some g) r = l \<and> l \<in> sum_label ` set qs then v else 0)"
  using sum_update_first [of sum_label "add_to_sum v" psm_total_amount v "\<lambda>z. z = l" "label_at y (Some g) r" qs]
  by (auto simp: update_first_map in_period_def label_at_def unwrap_or_def)

lemma no_sums: "sum_by psm_total_amount P (map no_sum ps) = 0"
  by (rule sum_by_zero) auto

interpretation cat_period: accumulation sum_id "\<lambda>b. ctg_id (snd b)" "new_sum ps" "add_sum y (Some g)"
    "\<lambda>s. map psm_period (csm_periods s) = ps" "\<lambda>s. sum_by psm_total_amount (\<lambda>q. sum_label q = l) (csm_periods s)"
    "\<lambda>b. if label_at y (Some g) (fst b) = l \<and> l \<in> per_label ` set ps then txn_amount_cents (fst b) else 0" for ps y g l
proof (unfold_locales, goal_cases)
  case (6 s b)
  then have "sum_label ` set (csm_periods s) = per_label ` set ps"
    by (metis (no_types, lifting) image_image image_cong set_map sum_label_def)
  then show ?case by (simp add: add_sum_def in_period_update)
qed (simp_all add: sum_id_def new_sum_def add_sum_def o_def in_period_update no_sums)

section \<open>The report\<close>

lemma add_to_report_simps:
  "srp_total_amount (add_to_report y granularity report b) = srp_total_amount report + txn_amount_cents (fst b)"
  "srp_transaction_count (add_to_report y granularity report b) = srp_transaction_count report + 1"
  "srp_periods (add_to_report y granularity report b) =
     update_last (in_period y granularity (fst b)) (add_to_sum (txn_amount_cents (fst b))) (srp_periods report)"
  "srp_categories (add_to_report y granularity report b) =
     update_or_push (\<lambda>s. sum_id s = ctg_id (snd b)) (new_sum (map psm_period (srp_periods report)) b)
       (add_sum y granularity b) (srp_categories report)"
  by (cases granularity; simp add: add_to_report_def case_prod_unfold Let_def in_period_def sum_label_def
      sum_id_def [abs_def] new_sum_def add_sum_def [abs_def] o_def)+

lemma fold_report:
  fixes y granularity and report :: spending_report
  defines "rep rows \<equiv> foldl (add_to_report y granularity) report rows"
  shows "srp_total_amount (rep rows) = srp_total_amount report + sum_by (\<lambda>b. txn_amount_cents (fst b)) (\<lambda>_. True) rows"
    "srp_transaction_count (rep rows) = srp_transaction_count report + of_nat (length rows)"
    "map psm_period (srp_periods (rep rows)) = map psm_period (srp_periods report)"
    "srp_categories (rep rows) = foldl (\<lambda>as b. update_or_push (\<lambda>s. sum_id s = ctg_id (snd b))
        (new_sum (map psm_period (srp_periods report)) b) (add_sum y granularity b) as) (srp_categories report) rows"
  unfolding rep_def
  by (induction rows arbitrary: report) (simp_all add: add_to_report_simps update_last_map ac_simps)

lemma fold_periods:
  "l \<in> sum_label ` set (srp_periods report) \<Longrightarrow>
   sum_by psm_total_amount (\<lambda>q. sum_label q = l) (srp_periods (foldl (add_to_report y (Some g)) report rows)) =
     sum_by psm_total_amount (\<lambda>q. sum_label q = l) (srp_periods report)
     + sum_by (\<lambda>b. txn_amount_cents (fst b)) (\<lambda>b. label_at y (Some g) (fst b) = l) rows"
proof (induction rows arbitrary: report)
  case (Cons b rows)
  let ?u = "update_last (in_period y (Some g) (fst b)) (add_to_sum (txn_amount_cents (fst b))) (srp_periods report)"
  have "map sum_label ?u = map sum_label (srp_periods report)" by (rule update_last_map) simp
  then have "sum_label ` set ?u = sum_label ` set (srp_periods report)" by (metis set_map)
  then have "l \<in> sum_label ` set (srp_periods (add_to_report y (Some g) report b))"
    using Cons.prems by (simp add: add_to_report_simps)
  moreover have "sum_by psm_total_amount (\<lambda>q. sum_label q = l) ?u =
      sum_by psm_total_amount (\<lambda>q. sum_label q = l) (srp_periods report)
      + (if label_at y (Some g) (fst b) = l then txn_amount_cents (fst b) else 0)"
    using sum_update_last [of sum_label "add_to_sum (txn_amount_cents (fst b))" psm_total_amount "txn_amount_cents (fst b)"
        "\<lambda>z. z = l" "label_at y (Some g) (fst b)" "srp_periods report"] Cons.prems
    by (auto simp: in_period_def label_at_def unwrap_or_def)
  ultimately show ?case
    using Cons.IH by (simp add: add_to_report_simps ac_simps)
qed simp

lemma with_percentages_simps [simp]:
  "srp_total_amount (with_percentages y rep) = srp_total_amount rep"
  "srp_transaction_count (with_percentages y rep) = srp_transaction_count rep"
  "srp_periods (with_percentages y rep) = srp_periods rep"
  "length (srp_categories (with_percentages y rep)) = length (srp_categories rep)"
  by (simp_all add: with_percentages_def)

text \<open>What is read off the categories of a report; the percentages do not change it.\<close>

definition category_view :: "category_sum \<Rightarrow> int \<times> cents \<times> (string \<Rightarrow> cents)" where
  "category_view s = (sum_id s, csm_total_amount s, \<lambda>l. sum_by psm_total_amount (\<lambda>q. sum_label q = l) (csm_periods s))"

lemma sum_by_map: "sum_by f P (map g xs) = sum_by (\<lambda>x. f (g x)) (\<lambda>x. P (g x)) xs"
  by (induction xs) auto

lemma view_percentages: "map category_view (srp_categories (with_percentages y rep)) = map category_view (srp_categories rep)"
  by (simp add: with_percentages_def category_view_def sum_id_def sum_by_map sum_label_def o_def)

definition category_sums ::
    "calendar \<Rightarrow> granularity option \<Rightarrow> (txn_row \<times> category) list \<Rightarrow> string list \<Rightarrow> int \<times> cents \<times> (string \<Rightarrow> cents) \<Rightarrow> bool" where
  "category_sums y granularity rows labels = (\<lambda>(i, amount, in_label).
     amount = sum_by (\<lambda>(r, c). txn_amount_cents r) (\<lambda>(r, c). ctg_id c = i) rows
     \<and> (granularity \<noteq> None \<longrightarrow> (\<forall>l \<in> set labels. in_label l =
          sum_by (\<lambda>(r, c). txn_amount_cents r) (\<lambda>(r, c). ctg_id c = i \<and> label_at y granularity r = l) rows)))"

lemma accumulated:
  fixes ps y granularity rows
  defines "cats init \<equiv> foldl (\<lambda>as b. update_or_push (\<lambda>s. sum_id s = ctg_id (snd b)) (new_sum ps b) (add_sum y granularity b) as)
     init rows"
  assumes zero: "\<forall>s \<in> set init. csm_total_amount s = 0 \<and> csm_periods s = map no_sum ps"
    and init: "distinct (map sum_id init)"
  shows "distinct (map sum_id (cats init))" "(\<lambda>b. ctg_id (snd b)) ` set rows \<subseteq> sum_id ` set (cats init)"
    "sum_list (map csm_total_amount (cats init)) = sum_by (\<lambda>b. txn_amount_cents (fst b)) (\<lambda>_. True) rows"
    "s \<in> set (cats init) \<Longrightarrow> category_sums y granularity rows (map per_label ps) (category_view s)"
proof -
  show distinct: "distinct (map sum_id (cats init))"
    unfolding cats_def by (rule cat_total.distinct_fold [OF init])
  show "(\<lambda>b. ctg_id (snd b)) ` set rows \<subseteq> sum_id ` set (cats init)"
    unfolding cats_def cat_total.keys_fold by simp
  have none: "sum_by csm_total_amount P init = 0" "sum_by (\<lambda>s. sum_by psm_total_amount R (csm_periods s)) P init = 0" for P R
    by (rule sum_by_zero, use zero in \<open>simp add: no_sums\<close>)+
  have total: "sum_by csm_total_amount (\<lambda>s. R (sum_id s)) (cats init) =
      sum_by (\<lambda>b. txn_amount_cents (fst b)) (\<lambda>b. R (ctg_id (snd b))) rows" for R
    unfolding cats_def by (subst cat_total.sum_fold) (simp_all add: none)
  from total [of "\<lambda>_. True"]
  show "sum_list (map csm_total_amount (cats init)) = sum_by (\<lambda>b. txn_amount_cents (fst b)) (\<lambda>_. True) rows"
    by (simp add: sum_by_def)
  assume s: "s \<in> set (cats init)"
  have "csm_total_amount s = sum_by (\<lambda>b. txn_amount_cents (fst b)) (\<lambda>b. ctg_id (snd b) = sum_id s) rows"
    using sum_by_single [OF distinct s, of csm_total_amount] total [of "\<lambda>i. i = sum_id s"] by simp
  moreover have "sum_by psm_total_amount (\<lambda>q. sum_label q = l) (csm_periods s) =
      sum_by (\<lambda>b. txn_amount_cents (fst b)) (\<lambda>b. ctg_id (snd b) = sum_id s \<and> label_at y granularity (fst b) = l) rows"
    if "granularity = Some g" "l \<in> per_label ` set ps" for g l
  proof -
    have "sum_by psm_total_amount (\<lambda>q. sum_label q = l) (csm_periods s) =
        sum_by (\<lambda>s. sum_by psm_total_amount (\<lambda>q. sum_label q = l) (csm_periods s)) (\<lambda>z. sum_id z = sum_id s) (cats init)"
      by (rule sum_by_single [OF distinct s, symmetric])
    also have "\<dots> = sum_by (\<lambda>b. if label_at y (Some g) (fst b) = l \<and> l \<in> per_label ` set ps then txn_amount_cents (fst b) else 0)
        (\<lambda>b. ctg_id (snd b) = sum_id s) rows"
      unfolding cats_def that(1)
      by (subst cat_period.sum_fold [where R = "\<lambda>z. z = sum_id s"]) (use zero in \<open>simp_all add: none o_def\<close>)
    also have "\<dots> = sum_by (\<lambda>b. txn_amount_cents (fst b)) (\<lambda>b. ctg_id (snd b) = sum_id s \<and> label_at y (Some g) (fst b) = l) rows"
      unfolding sum_by_guard by (rule sum_by_cong) (use that(2) in auto)
    finally show ?thesis by (simp add: that(1))
  qed
  ultimately show "category_sums y granularity rows (map per_label ps) (category_view s)"
    by (auto simp: category_sums_def category_view_def case_prod_unfold)
qed

lemma spending_report_sums:
  assumes "distinct (map ctg_id cats)" "rep = build_spending_report y rows cats p granularity"
  shows "srp_total_amount rep = sum_by (\<lambda>(r, c). txn_amount_cents r) (\<lambda>_. True) rows"
    "srp_transaction_count rep = of_nat (length rows)"
    "sum_list (map csm_total_amount (srp_categories rep)) = srp_total_amount rep"
    "distinct (map sum_id (srp_categories rep))"
    "(\<lambda>(r, c). ctg_id c) ` set rows \<subseteq> sum_id ` set (srp_categories rep)"
    "map sum_label (srp_periods rep) = map per_label (report_periods y (of_timestamp (spp_datetime_from p))
       (of_timestamp (spp_datetime_to p)) granularity)"
    "\<forall>s \<in> set (srp_categories rep). category_sums y granularity rows (map sum_label (srp_periods rep)) (category_view s)"
    "granularity \<noteq> None \<Longrightarrow> l \<in> sum_label ` set (srp_periods rep) \<Longrightarrow>
     sum_by psm_total_amount (\<lambda>q. sum_label q = l) (srp_periods rep) =
       sum_by (\<lambda>(r, c). txn_amount_cents r) (\<lambda>(r, c). label_at y granularity r = l) rows"
proof -
  let ?ps = "report_periods y (of_timestamp (spp_datetime_from p)) (of_timestamp (spp_datetime_to p)) granularity"
  let ?init = "map (\<lambda>c. \<lparr>csm_category = c, csm_total_amount = 0, csm_transaction_count = 0, csm_percent_of_total = 0,
    csm_periods = map no_sum ?ps\<rparr>) cats"
  let ?rep0 = "\<lparr>srp_total_amount = 0, srp_transaction_count = 0, srp_periods = map no_sum ?ps, srp_categories = ?init\<rparr>"
  define rep1 where "rep1 = foldl (add_to_report y granularity) ?rep0 rows"
  have rep: "rep = with_percentages y rep1"
    unfolding assms(2) build_spending_report_def rep1_def Let_def ..
  note fold = fold_report [where report = ?rep0 and y = y and granularity = granularity and rows = rows, folded rep1_def]
  have ps: "map psm_period (map no_sum ?ps) = ?ps" by (simp add: o_def)
  have zero: "\<forall>s \<in> set ?init. csm_total_amount s = 0 \<and> csm_periods s = map no_sum ?ps"
    and init: "distinct (map sum_id ?init)"
    using assms(1) by (simp_all add: sum_id_def [abs_def] o_def)
  note acc = accumulated [OF zero init, where y = y and granularity = granularity and rows = rows,
      folded fold(4) [simplified, unfolded ps [simplified]]]
  show total: "srp_total_amount rep = sum_by (\<lambda>(r, c). txn_amount_cents r) (\<lambda>_. True) rows"
    "srp_transaction_count rep = of_nat (length rows)"
    using fold(1,2) by (simp_all add: rep case_prod_unfold)
  have cats: "srp_categories rep1 = foldl (\<lambda>as b. update_or_push (\<lambda>s. sum_id s = ctg_id (snd b)) (new_sum ?ps b)
      (add_sum y granularity b) as) ?init rows"
    using fold(4) by (simp add: o_def)
  note acc = accumulated [OF zero init, where y = y and granularity = granularity and rows = rows, folded cats]
  have view: "map category_view (srp_categories rep) = map category_view (srp_categories rep1)"
    unfolding rep by (rule view_percentages)
  have ids: "map sum_id (srp_categories rep) = map sum_id (srp_categories rep1)"
    and amounts: "map csm_total_amount (srp_categories rep) = map csm_total_amount (srp_categories rep1)"
    using arg_cong [OF view, of "map fst"] arg_cong [OF view, of "map (fst \<circ> snd)"]
    by (simp_all add: category_view_def o_def)
  show "sum_list (map csm_total_amount (srp_categories rep)) = srp_total_amount rep"
    using acc(3) total(1) by (simp add: amounts case_prod_unfold)
  show "distinct (map sum_id (srp_categories rep))" using acc(1) by (simp add: ids)
  have "sum_id ` set (srp_categories rep) = sum_id ` set (srp_categories rep1)" using ids by (metis set_map)
  then show "(\<lambda>(r, c). ctg_id c) ` set rows \<subseteq> sum_id ` set (srp_categories rep)"
    using acc(2) by (simp add: case_prod_unfold)
  have periods: "map psm_period (srp_periods rep1) = ?ps" using fold(3) by (simp add: o_def)
  then show labels: "map sum_label (srp_periods rep) = map per_label ?ps"
    unfolding periods [symmetric] by (simp add: rep sum_label_def)
  show "\<forall>s \<in> set (srp_categories rep). category_sums y granularity rows (map sum_label (srp_periods rep)) (category_view s)"
  proof
    fix s assume "s \<in> set (srp_categories rep)"
    then have "category_view s \<in> category_view ` set (srp_categories rep1)" using view by (metis image_eqI set_map)
    with acc(4) show "category_sums y granularity rows (map sum_label (srp_periods rep)) (category_view s)"
      unfolding labels by auto
  qed
  assume "granularity \<noteq> None" and l: "l \<in> sum_label ` set (srp_periods rep)"
  then obtain g where g: "granularity = Some g" by auto
  from l labels have "l \<in> sum_label ` set (srp_periods ?rep0)"
    by (auto simp: o_def simp flip: set_map)
  from fold_periods [OF this, of y g rows]
  show "sum_by psm_total_amount (\<lambda>q. sum_label q = l) (srp_periods rep) =
      sum_by (\<lambda>(r, c). txn_amount_cents r) (\<lambda>(r, c). label_at y granularity r = l) rows"
    by (simp add: rep g rep1_def no_sums case_prod_unfold)
qed

lemma distinct_categories:
  assumes "wf_book t"
  shows "distinct (map ctg_id (sort_key h (filter P (category_rows t))))"
  using distinct_map_filter [OF distinct_category_rows [OF assms], of P]
  by (simp add: distinct_map)

text \<open>The report of the spending by category accounts for every expense transaction of the filter: its
  total and its count are those of the transactions, a category shows exactly what was spent in it, in all
  and in each period, the categories add up to the total, and so do the entries of a period. Nothing is
  written.\<close>

theorem spending_by_category_exact:
  assumes "wf_book (w_tables w)"
    and "run_state (spending_by_category x y f) w = (Inr rep, w')"
  shows "\<exists>p. spending_params_of x f True = Inr p
    \<and> (let rows = spending_list (w_tables w) p; g = spf_granularity f; labels = map sum_label (srp_periods rep)
       in srp_total_amount rep = sum_by (\<lambda>(r, c). txn_amount_cents r) (\<lambda>_. True) rows
          \<and> srp_transaction_count rep = of_nat (length rows)
          \<and> sum_list (map csm_total_amount (srp_categories rep)) = srp_total_amount rep
          \<and> distinct (map sum_id (srp_categories rep))
          \<and> (\<lambda>(r, c). ctg_id c) ` set rows \<subseteq> sum_id ` set (srp_categories rep)
          \<and> (\<forall>s \<in> set (srp_categories rep). category_sums y g rows labels (category_view s))
          \<and> labels = map per_label (report_periods y (of_timestamp (spp_datetime_from p)) (of_timestamp (spp_datetime_to p)) g)
          \<and> (g \<noteq> None \<longrightarrow> (\<forall>l \<in> set labels. sum_by psm_total_amount (\<lambda>q. sum_label q = l) (srp_periods rep) =
               sum_by (\<lambda>(r, c). txn_amount_cents r) (\<lambda>(r, c). label_at y g r = l) rows)))
    \<and> w_tables w' = w_tables w"
proof -
  have "wp (spending_by_category x y f) (\<lambda>r w'. \<forall>rep. r = Inr rep \<longrightarrow> (\<exists>p cats. spending_params_of x f True = Inr p
      \<and> distinct (map ctg_id cats)
      \<and> rep = build_spending_report y (spending_list (w_tables w) p) cats p (spf_granularity f)
      \<and> w_tables w' = w_tables w)) w"
    using distinct_categories [OF assms(1)]
    by (cases "spending_params_of x f True")
      (auto simp: spending_by_category_def wp_rules spending_transactions_def rows_of_categories_def split: sum.splits)
  from wp_run [OF assms(2) this] obtain p cats where p: "spending_params_of x f True = Inr p" "w_tables w' = w_tables w"
    and cats: "distinct (map ctg_id cats)"
    and rep: "rep = build_spending_report y (spending_list (w_tables w) p) cats p (spf_granularity f)"
    by blast
  note sums = spending_report_sums [OF cats rep]
  have "spf_granularity f \<noteq> None \<longrightarrow> (\<forall>l \<in> set (map sum_label (srp_periods rep)).
      sum_by psm_total_amount (\<lambda>q. sum_label q = l) (srp_periods rep) =
        sum_by (\<lambda>(r, c). txn_amount_cents r) (\<lambda>(r, c). label_at y (spf_granularity f) r = l) (spending_list (w_tables w) p))"
    using sums(8) by simp
  then show ?thesis
    unfolding Let_def by (intro exI [of _ p] conjI p sums(1-7))
qed

end
