(* ===== verification/Spec2Isabelle.thy ===== *)
theory Spec2Isabelle
  imports System_Scenario Rate_Limit Money Global_Id Simplefin_Scenario Tx_Listing_Scenario Tx_Edit_Scenario
    Tx_Import_Scenario Tx_Llm_Scenario Category_Report_Laws
begin

text \<open>
  Tallyo is a self-hosted household finance server written in Rust (src/server-rs/src). This library
  models the parts of it that decide who may see the data and what happens to the data: the OAuth
  authorization server with its middleware, and the transactions with everything that writes, reads or
  moves them. Each definition is a translation of the Rust function or SQL statement it names; each
  theorem speaks about these definitions.

  \<^bold>\<open>How programs are modelled.\<close> \<open>Prelude\<close> has the world a handler runs in: a clock and a source of tokens
  that are read one value after the other, the tables, and a schedule of faults that says which statements
  fail. A program with effects is a value of \<open>State_Monad\<close> over that world; one that can fail returns
  \<open>error + 'a\<close>, and \<open>try_bind\<close> is Rust's question mark. \<open>statement\<close> is one SQL statement, \<open>with_tx\<close> is
  \<open>database::with_tx\<close> (begin, run, commit or roll back, each of which may fail). Proofs use a
  weakest-precondition reading (\<open>wp\<close>) and the locale \<open>effect_order\<close>: a relation between worlds that every
  statement respects is respected by every program built from statements (\<open>guarantee_rules\<close>); it is
  interpreted for each invariant and each frame property. \<open>Runs\<close> adds programs that talk to a provider and
  loops with fuel. \<open>Rust_Text\<close>, \<open>Rust_Number\<close> and \<open>Ip_Address\<close> hold what is used of the standard library
  (a string is its UTF-8 bytes). A 64-bit or 32-bit integer whose overflow matters is a word; identifiers
  of rows are integers.

  \<^bold>\<open>The authorization server.\<close>
  \<^item> \<open>Roles\<close> (auth/roles.rs): scopes, roles and grants. \<open>Auth_Tables\<close>, \<open>Auth_Store\<close> (database/queries.rs,
    auth/store): the tables, one definition per query, and the store.
  \<^item> \<open>Auth_Service\<close>, \<open>Http\<close> (auth/service.rs, config.rs, crypto.rs): settings, access tokens, responses.
    \<open>Token_Endpoint\<close> (auth/oauth/token.rs), \<open>Authorize\<close> and \<open>Binding\<close> (auth/oauth/authorize.rs, binding.rs),
    \<open>Identity_Provider\<close> (auth/oauth/identity_provider.rs, email.rs, google.rs), \<open>Auth_Middleware\<close>
    (auth/middleware.rs), \<open>Auth_Users\<close> (admin/store/users.rs, graph/users.rs), \<open>Client_Ip\<close> and
    \<open>Rate_Limit\<close> (middleware).
  \<^item> \<open>Ledger\<close> is the abstract specification: a set of live one-time credentials. \<open>Auth_System\<close> makes the
    whole server a state machine of requests, expiry, user administration and settings, and shows that it
    refines the ledger (a credential is redeemed once, whatever is asked in whatever order) and keeps
    its tables well formed. \<open>Auth_Laws\<close>, \<open>Token_Laws\<close>, \<open>Authorize_Laws\<close>, \<open>Login_Laws\<close> have what each endpoint
    promises: what a granted token is worth, that a replay revokes the chain, how an identity is proved and
    how often a code can be guessed at.

  \<^bold>\<open>The transactions.\<close>
  \<^item> \<open>Money\<close> (money.rs), \<open>Global_Id\<close> (ids.rs): cents and their decimal text, identifiers of the API.
  \<^item> \<open>Tx_Tables\<close> (database/queries.rs): the tables and the statements of sync, rules and import, as relations of
    rows with keys, foreign keys and cascades. \<open>Tx_Laws\<close> has the invariant \<open>wf_tx\<close> and the locale
    \<open>tx_effects\<close>, the contract between the statements and the persister.
  \<^item> \<open>Tx_Sync\<close> (transactions/sync/persister.rs, types.rs, store/sync.rs): the events of a sync. \<open>Tx_Laws\<close>: a sync
    undoes no decision of a user; \<open>Tx_Replay\<close>, \<open>Plaid_Replay\<close>: storing a page again changes nothing.
  \<^item> \<open>Tx_Rules\<close>, \<open>Tx_Rule_Laws\<close> (store/auto_categorize.rs, rules.rs, rule_values.rs): rules, their retroactive
    application and the categorization of a transaction.
  \<^item> \<open>Plaid_Convert\<close>, \<open>Plaid_Sync\<close>, \<open>Plaid_Laws\<close> (sync/plaid*.rs): the pages of an item, with cursor, restarts
    and health. \<open>Simplefin_Sync\<close>, \<open>Simplefin_Laws\<close> (sync/simplefin*.rs, clients/simplefin.rs): tokens, the bridge,
    the removal of pending transactions.
  \<^item> \<open>Tx_Listing\<close>, \<open>Tx_Listing_Laws\<close> (store/query.rs, cursor.rs, handler/export.rs): filters, pages, cursors and the
    export; pages neither repeat nor lose a row.
  \<^item> \<open>Tx_Edit\<close>, \<open>Tx_Edit_Laws\<close> (store/transactions.rs, transaction_targets.rs, transaction_updates.rs): changes by hand,
    each described exactly on success and on error.
  \<^item> \<open>Tx_Import\<close>, \<open>Tx_Import_Laws\<close>, \<open>Tx_Reimport\<close> (csv.rs, store/import.rs, handler/import.rs): the import, and the
    round trip of the export through it.
  \<^item> \<open>Tx_Llm\<close>, \<open>Tx_Llm_Laws\<close>, \<open>Tx_Llm_Queue\<close> (llm.rs, store/llm_store.rs, sync/llm_worker.rs): the background worker
    that asks a language model. A turn takes the signal, then empties the queue with the categorizer that is set
    in each round; it refines a step relation (\<open>worker_step\<close>) in which other requests act too, and it ends.
    \<open>Tx_Llm_System\<close> takes the loop of the worker statement by statement (\<open>loop_step\<close>) and lets syncs, settings
    and edits act between any two of them (\<open>request_step\<close>): no transaction is held back in vain (\<open>llm_reachable\<close>).

  \<^bold>\<open>The books.\<close> \<open>Book_Tables\<close> (database/queries.rs) has categories with their groups, budgets, and the transactions
  as the reports read them. \<open>Budgets\<close> (store/categories.rs, category_pfc.rs, budgets/service.rs, budgets/store) changes
  them and compares budgets with what was spent; \<open>Book_Laws\<close>: they stay well formed. \<open>Spending\<close> (store/reports.rs,
  report_periods.rs, cash_flow.rs) has the reports; \<open>Spending_Laws\<close> is their accounting (the locale
  \<open>accumulation\<close>: a list of entries in which each row is added to the entry of its key keeps the sum of every
  key), interpreted for the rows of a report, the cash flow and the sums by category in \<open>Report_Laws\<close> and
  \<open>Category_Report_Laws\<close>: no transaction is lost or counted twice.

  The theories called \<open>_Scenario\<close> hold concrete states and the applications of the properties to them.

  \<^bold>\<open>Bounds and fuel.\<close> Loops of the program whose end depends on somebody else have fuel. The pages of a Plaid
  item (\<open>sync_pages\<close>): when the answers of the provider run dry at the \<open>k\<close>-th, \<open>k + 3\<close> rounds are enough,
  because there are at most two restarts. The worker of the language model (\<open>drain\<close>): more rounds than
  there are staged transactions. The export (\<open>export_chunks\<close>): one round more than there are pages of 500.
  The guesses at a one-time code, the attempts to find a fresh manual identifier (3) and the batch of the
  worker (200) are the program's own bounds.

  \<^bold>\<open>What is not modelled, and why.\<close>
  \<^item> Requests run one after the other, except where the order of their parts decides: the guesses at a one-time
    code are interleaved part by part (\<open>guess_step\<close> in \<open>Login_Laws\<close>), requests meet the limiter of failed
    logins when they arrive and again when they are answered (\<open>limiter_step\<close> in \<open>Rate_Limit\<close>), and the
    worker of the language model runs beside everything else (\<open>Tx_Llm_System\<close>). Elsewhere the claims are
    about one request, or about requests in a row.
  \<^item> Code outside src/ is a parameter: JWT, URL parsing, SHA-256, base64, SMTP, Google, the HTTP exchanges
    with Plaid and SimpleFIN, ipnet, serde, chrono, croner, the csv crate, IEEE arithmetic, the Unicode
    tables, SQLite's full-text match, and the order of a hash set. What a theorem relies on is a named
    hypothesis about the parameter, and each witness gives it a concrete function.
  \<^item> Columns nothing here reads (created_at, updated_at, messages beside a health state) and the inner
    messages of wrapped errors are left out. \<open>Cents\<close> wraps as in a release build.
  \<^item> Passkeys (auth/webauthn.rs and its handlers) rest on the webauthn crate in every step; the metadata
    documents are constant answers. The GraphQL layer, the MCP server, the generated schema, the clients, the
    encryption and migration of the database file, bootstrap and the web front end are glue, generated code,
    or calls of libraries. Wealth, portfolio, accounts and the runtime configuration are future
    work. The calendar of a time zone is a parameter of the reports.

  Where the code and its intention or its documentation part, the manifest has a finding; the sharpest ones are
  stated in the theorems they name.
\<close>

end
